(* ===== verification/Prelude.thy ===== *)
theory Prelude
  imports Main
begin

text \<open>
  What the component theories share: the Go types the models are written in
  (byte strings, times, durations), the formatting verbs and the time layout the
  code uses in the texts it stores, the helpers for optional values, and the
  \<open>named_theorems\<close> collections the proofs of the components use.

  A \<open>time.Time\<close> is an \<open>int\<close>: microseconds since the Unix epoch, UTC, which is what
  a PostgreSQL \<open>TIMESTAMPTZ\<close> column stores.  A \<open>time.Duration\<close> is an \<open>int\<close> of
  microseconds as well; \<open>Time.Sub\<close> saturates at the ends of its 64-bit range, and
  so does \<open>time_sub\<close>.
\<close>

named_theorems sql_defs "definitions of the statements a store runs"
named_theorems op_defs "definitions of the operations of a store"

section \<open>Times and durations\<close>

type_synonym gotime = int
type_synonym duration = int

abbreviation second :: duration where "second \<equiv> 1000000"
abbreviation minute :: duration where "minute \<equiv> 60 * second"
abbreviation hour :: duration where "hour \<equiv> 60 * minute"

text \<open>The largest duration, \<open>1<<63 - 1\<close> nanoseconds, in whole microseconds.\<close>

definition max_duration :: duration where
  "max_duration = 9223372036854775"

definition time_sub :: "gotime \<Rightarrow> gotime \<Rightarrow> duration" where
  "time_sub t u = max (- max_duration) (min max_duration (t - u))"

lemma time_sub_gt:
  "0 \<le> b \<Longrightarrow> b < max_duration \<Longrightarrow> b < time_sub t u \<longleftrightarrow> b < t - u"
  by (auto simp: time_sub_def max_duration_def)

text \<open>\<open>int64(d.Seconds())\<close>: the conversion from float truncates towards zero.\<close>

definition whole_seconds :: "duration \<Rightarrow> int" where
  "whole_seconds d = sgn d * (\<bar>d\<bar> div second)"

lemma whole_seconds_nonneg: "0 \<le> d \<Longrightarrow> 0 \<le> whole_seconds d"
  by (auto simp: whole_seconds_def sgn_if)

section \<open>Formatting: the verbs \<open>%d\<close> and the layout \<open>time.RFC3339\<close>\<close>

fun show_nat :: "nat \<Rightarrow> string" where
  "show_nat n = (if n < 10 then [char_of (48 + n)]
                 else show_nat (n div 10) @ [char_of (48 + n mod 10)])"

declare show_nat.simps [simp del]

definition show_int :: "int \<Rightarrow> string" where
  "show_int i = (if i < 0 then ''-'' @ show_nat (nat (- i)) else show_nat (nat i))"

definition pad :: "nat \<Rightarrow> nat \<Rightarrow> string" where
  "pad w n = (let s = show_nat n in replicate (w - length s) (CHR ''0'') @ s)"

text \<open>
  The civil date of a day number counted from 1970-01-01 (proleptic Gregorian, as
  \<open>time.Time\<close> computes it), with years that start on the first of March.
\<close>

definition civil_of_days :: "int \<Rightarrow> int \<times> int \<times> int" where
  "civil_of_days z0 =
     (let z = z0 + 719468;
          era = z div 146097;
          doe = z mod 146097;
          yoe = (doe - doe div 1460 + doe div 36524 - doe div 146096) div 365;
          doy = doe - (365 * yoe + yoe div 4 - yoe div 100);
          mp = (5 * doy + 2) div 153;
          d = doy - (153 * mp + 2) div 5 + 1;
          m = (if mp < 10 then mp + 3 else mp - 9)
      in (yoe + era * 400 + (if m \<le> 2 then 1 else 0), m, d))"

text \<open>The day number of a civil date, and \<open>Time.AddDate(years, 0, 0)\<close>, which keeps the day of the month.\<close>

definition days_of_civil :: "int \<Rightarrow> int \<Rightarrow> int \<Rightarrow> int" where
  "days_of_civil y0 m d =
     (let y = (if m \<le> 2 then y0 - 1 else y0);
          era = y div 400;
          yoe = y mod 400;
          doy = (153 * (if m > 2 then m - 3 else m + 9) + 2) div 5 + d - 1;
          doe = yoe * 365 + yoe div 4 - yoe div 100 + doy
      in era * 146097 + doe - 719468)"

definition add_years :: "int \<Rightarrow> gotime \<Rightarrow> gotime" where
  "add_years n t =
     (let day = t div (86400 * second); (y, m, d) = civil_of_days day
      in (days_of_civil (y + n) m d) * (86400 * second) + t mod (86400 * second))"

definition rfc3339 :: "gotime \<Rightarrow> string" where
  "rfc3339 t =
     (let s = t div second; (y, m, d) = civil_of_days (s div 86400); r = s mod 86400
      in pad 4 (nat y) @ ''-'' @ pad 2 (nat m) @ ''-'' @ pad 2 (nat d) @ ''T'' @
         pad 2 (nat (r div 3600)) @ '':'' @ pad 2 (nat (r mod 3600 div 60)) @ '':'' @
         pad 2 (nat (r mod 60)) @ ''Z'')"

lemma rfc3339_example: "rfc3339 (951782400 * second) = ''2000-02-29T00:00:00Z''"
  by code_simp

section \<open>Results\<close>

text \<open>
  A call that can fail is a sum, \<open>Inl\<close> its error.  \<open>andThen\<close> is \<open>if err != nil { return err }\<close>,
  \<open>check\<close> the same for a validation, whose error is an option.
\<close>

fun andThen :: "'e + 'a \<Rightarrow> ('a \<Rightarrow> 'e + 'b) \<Rightarrow> 'e + 'b" where
  "andThen (Inl e) f = Inl e"
| "andThen (Inr x) f = f x"

fun check :: "'e option \<Rightarrow> 'e + 'a \<Rightarrow> 'e + 'a" where
  "check None r = r"
| "check (Some e) r = Inl e"

lemma andThen_Inr: "andThen m f = Inr y \<longleftrightarrow> (\<exists>x. m = Inr x \<and> f x = Inr y)"
  by (cases m) auto

lemma check_Inr: "check c r = Inr y \<longleftrightarrow> c = None \<and> r = Inr y"
  by (cases c) auto

lemmas result_iffs = andThen_Inr check_Inr

text \<open>The first failing check of a list.\<close>

fun first_error :: "'e option list \<Rightarrow> 'e option" where
  "first_error [] = None"
| "first_error (None # cs) = first_error cs"
| "first_error (Some e # cs) = Some e"

lemma first_error_None: "first_error cs = None \<longleftrightarrow> (\<forall>c \<in> set cs. c = None)"
  by (induction cs rule: first_error.induct) auto

section \<open>Optional values\<close>

text \<open>\<open>COALESCE(NULLIF(new, ''), old)\<close>: an empty value leaves the stored one.\<close>

definition coalesce_nonempty :: "string \<Rightarrow> string \<Rightarrow> string" where
  "coalesce_nonempty new old = (if new = '''' then old else new)"

lemma coalesce_nonempty_simps [simp]:
  "coalesce_nonempty '''' old = old"
  "new \<noteq> '''' \<Longrightarrow> coalesce_nonempty new old = new"
  by (simp_all add: coalesce_nonempty_def)

text \<open>A page size: unset or nonsensical gives the default, too large gives the cap.\<close>

definition clamp_limit :: "int \<Rightarrow> int \<Rightarrow> int \<Rightarrow> int" where
  "clamp_limit dflt cap l = (let l' = (if l \<le> 0 then dflt else l) in if cap < l' then cap else l')"

lemma clamp_limit_bounds:
  "0 < dflt \<Longrightarrow> dflt \<le> cap \<Longrightarrow> 0 < clamp_limit dflt cap l \<and> clamp_limit dflt cap l \<le> cap"
  by (auto simp: clamp_limit_def Let_def)

end
