(* ===== verification/Pg_Table.thy ===== *)
theory Pg_Table
  imports Prelude
begin

text \<open>
  A PostgreSQL table with a unique key, as the stores use it: a list of rows in
  insertion order, read by key, with the two writes every store issues,
  \<open>INSERT ... ON CONFLICT ... DO UPDATE\<close> and \<open>UPDATE ... WHERE key AND guard RETURNING\<close>.
  The locale \<open>keyed_table\<close> is what the stores rely on; it is interpreted on the list.
\<close>

definition tselect :: "('r \<Rightarrow> 'k) \<Rightarrow> 'r list \<Rightarrow> 'k \<Rightarrow> 'r option" where
  "tselect key rows k = find (\<lambda>r. key r = k) rows"

definition tput :: "('r \<Rightarrow> 'k) \<Rightarrow> 'r list \<Rightarrow> 'r \<Rightarrow> 'r list" where
  "tput key rows r =
     (if key r \<in> set (map key rows) then map (\<lambda>x. if key x = key r then r else x) rows
      else rows @ [r])"

text \<open>\<open>UPDATE ... SET f WHERE key = k AND p RETURNING ...\<close>: no row, or the row written.\<close>

definition tupdate ::
  "('r \<Rightarrow> 'k) \<Rightarrow> 'k \<Rightarrow> ('r \<Rightarrow> bool) \<Rightarrow> ('r \<Rightarrow> 'r) \<Rightarrow> 'r list \<Rightarrow> 'r list \<times> 'r option" where
  "tupdate key k p f rows =
     (case tselect key rows k of
        None \<Rightarrow> (rows, None)
      | Some r \<Rightarrow> if p r then (tput key rows (f r), Some (f r)) else (rows, None))"

definition unique_key :: "('r \<Rightarrow> 'k) \<Rightarrow> 'r list \<Rightarrow> bool" where
  "unique_key key rows \<longleftrightarrow> distinct (map key rows)"

text \<open>
  What PostgreSQL may do to a transaction, besides running it.  A failed commit leaves the tables as they were.  A commit that
  took effect while its answer was lost is no fault of its own: the tables are those of \<open>TxOk\<close>, and the caller has an error.
  So what holds of the tables in every reachable state holds of that case too, and a caller that got the error and
  repeats its call repeats it on a state that \<open>TxOk\<close> reaches.
\<close>

datatype tx_fault =
    TxOk | TxBeginFails | TxLockFails | TxStatementFails | TxCommitFails

text \<open>
  A statement outside a transaction runs, fails, or runs with its answer lost.
\<close>

datatype stmt_fault = StmtOk | StmtFails | StmtLost

section \<open>What the list does\<close>

lemma tselect_Nil [simp]: "tselect key [] k = None"
  by (simp add: tselect_def)

lemma tselect_Cons:
  "tselect key (r # rows) k = (if key r = k then Some r else tselect key rows k)"
  by (simp add: tselect_def)

lemma tselect_append:
  "tselect key (rows @ [r]) k =
     (case tselect key rows k of Some x \<Rightarrow> Some x | None \<Rightarrow> if key r = k then Some r else None)"
  by (induction rows) (auto simp: tselect_Cons)

lemma tselect_None_iff: "tselect key rows k = None \<longleftrightarrow> k \<notin> key ` set rows"
  by (auto simp: tselect_def find_None_iff)

lemma tselect_SomeD: "tselect key rows k = Some r \<Longrightarrow> r \<in> set rows \<and> key r = k"
  by (auto simp: tselect_def find_Some_iff)

lemma tselect_replace:
  "tselect key (map (\<lambda>x. if key x = key r then r else x) rows) k =
     (if k = key r \<and> k \<in> key ` set rows then Some r else tselect key rows k)"
  by (induction rows) (auto simp: tselect_Cons)

lemma tselect_tput:
  "tselect key (tput key rows r) k = (if k = key r then Some r else tselect key rows k)"
proof (cases "tselect key rows k")
  case None
  moreover from None have "k \<notin> key ` set rows" by (simp add: tselect_None_iff)
  ultimately show ?thesis
    by (auto simp: tput_def tselect_replace tselect_append)
next
  case (Some x)
  moreover from Some have "k \<in> key ` set rows" using tselect_SomeD [OF Some] by auto
  ultimately show ?thesis
    by (cases "k = key r") (simp_all add: tput_def tselect_replace tselect_append)
qed

lemma unique_tput:
  assumes "unique_key key rows"
  shows "unique_key key (tput key rows r)"
proof -
  have "map key (map (\<lambda>x. if key x = key r then r else x) rows) = map key rows"
    by (induction rows) auto
  with assms show ?thesis
    unfolding unique_key_def tput_def by (cases "key r \<in> set (map key rows)") (simp_all del: map_map)
qed

lemma set_tput: "x \<in> set (tput key rows r) \<Longrightarrow> x = r \<or> x \<in> set rows"
  by (auto simp: tput_def split: if_splits)

lemma tsel_in: "unique_key key rows \<Longrightarrow> r \<in> set rows \<Longrightarrow> tselect key rows (key r) = Some r"
  by (auto simp: unique_key_def tselect_def find_Some_iff in_set_conv_nth distinct_conv_nth)

lemma tsel_new: "tselect key (rows @ [r]) k = (if tselect key rows k = None \<and> key r = k then Some r else tselect key rows k)"
  by (auto simp: tselect_append split: option.splits)

lemma unique_new: "unique_key key rows \<Longrightarrow> tselect key rows (key r) = None \<Longrightarrow> unique_key key (rows @ [r])"
  by (auto simp: unique_key_def tselect_None_iff)

lemma tsel_same:
  assumes "unique_key key rows" and "x \<in> set rows" and "y \<in> set rows" and "key x = key y"
  shows "x = y"
  using assms unfolding unique_key_def by (meson distinct_map inj_onD)

lemma sum_list_tput:
  fixes f :: "'r \<Rightarrow> int"
  assumes "unique_key key rows" and "tselect key rows (key r) = Some r0"
  shows "sum_list (map f (tput key rows r)) = sum_list (map f rows) - f r0 + f r"
proof -
  have mem: "r0 \<in> set rows" "key r0 = key r" using tselect_SomeD [OF assms(2)] by auto
  then have put: "tput key rows r = map (\<lambda>x. if key x = key r then r else x) rows"
    by (auto simp: tput_def image_iff intro: rev_bexI)
  have "sum_list (map (f \<circ> (\<lambda>x. if key x = key r then r else x)) rows) =
        sum_list (map f rows) - f r0 + f r"
    using assms(1) mem
  proof (induction rows)
    case Nil
    then show ?case by simp
  next
    case (Cons x xs)
    show ?case
    proof (cases "r0 = x")
      case True
      with Cons.prems have "key r \<notin> key ` set xs" by (auto simp: unique_key_def)
      then have no: "\<forall>y \<in> set xs. key y \<noteq> key r" by (metis imageI)
      then have "map (f \<circ> (\<lambda>x. if key x = key r then r else x)) xs = map f xs"
        by (intro map_cong) auto
      then have "sum_list (map (f \<circ> (\<lambda>x. if key x = key r then r else x)) xs) = sum_list (map f xs)"
        by (rule arg_cong)
      with True Cons.prems show ?thesis by (simp add: comp_def)
    next
      case False
      with Cons.prems have "r0 \<in> set xs" "key r0 = key r" "key x \<notin> key ` set xs"
        by (auto simp: unique_key_def)
      then have "key x \<noteq> key r" by (metis imageI)
      with False Cons show ?thesis by (auto simp: unique_key_def)
    qed
  qed
  with put show ?thesis by (simp add: comp_def)
qed

lemma tput_tput:
  assumes "key r' = key r"
  shows "tput key (tput key rows r) r' = tput key rows r'"
proof (cases "key r \<in> set (map key rows)")
  case True
  then have "key r \<in> set (map key (map (\<lambda>x. if key x = key r then r else x) rows))"
    by (induction rows) auto
  with True assms show ?thesis
    unfolding tput_def by (simp del: set_map)
next
  case False
  then have "map (\<lambda>x. if key x = key r then r' else x) rows = rows"
    by (induction rows) auto
  with False assms show ?thesis by (simp add: tput_def)
qed

text \<open>A row replaced under one key keeps its place under another key it agrees on.\<close>

lemma tput_two_keys:
  assumes "unique_key k1 rows" and "unique_key k2 rows" and "r \<in> set rows" and "k1 r' = k1 r" and "k2 r' = k2 r"
  shows "tput k1 rows r' = tput k2 rows r'"
proof -
  have eq: "k1 x = k1 r' \<longleftrightarrow> k2 x = k2 r'" if "x \<in> set rows" for x
    using tsel_same [OF assms(1) that assms(3)] tsel_same [OF assms(2) that assms(3)] assms(4,5) by metis
  moreover have "k1 r' \<in> k1 ` set rows" "k2 r' \<in> k2 ` set rows" using assms(3-5) by simp_all
  ultimately show ?thesis by (simp add: tput_def cong: map_cong)
qed

section \<open>The interface the stores use\<close>

locale keyed_table =
  fixes key :: "'r \<Rightarrow> 'k"
    and sel :: "'t \<Rightarrow> 'k \<Rightarrow> 'r option"
    and put :: "'t \<Rightarrow> 'r \<Rightarrow> 't"
    and upd :: "'k \<Rightarrow> ('r \<Rightarrow> bool) \<Rightarrow> ('r \<Rightarrow> 'r) \<Rightarrow> 't \<Rightarrow> 't \<times> 'r option"
    and inv :: "'t \<Rightarrow> bool"
  assumes sel_put: "sel (put t r) k = (if k = key r then Some r else sel t k)"
    and sel_key: "sel t k = Some r \<Longrightarrow> key r = k"
    and inv_put: "inv t \<Longrightarrow> inv (put t r)"
    and upd_eq: "upd k p f t = (case sel t k of None \<Rightarrow> (t, None)
                   | Some r \<Rightarrow> if p r then (put t (f r), Some (f r)) else (t, None))"
begin

lemma upd_row:
  assumes "upd k p f t = (t', Some r')"
  shows "\<exists>r. sel t k = Some r \<and> p r \<and> r' = f r \<and> t' = put t (f r)"
  using assms by (auto simp: upd_eq split: option.splits if_splits)

lemma upd_none:
  assumes "upd k p f t = (t', None)"
  shows "t' = t \<and> (\<forall>r. sel t k = Some r \<longrightarrow> \<not> p r)"
  using assms by (auto simp: upd_eq split: option.splits if_splits)

lemma upd_inv: "inv t \<Longrightarrow> inv (fst (upd k p f t))"
  by (auto simp: upd_eq inv_put split: option.splits)

lemma upd_other:
  assumes "\<And>r. key (f r) = key r" and "k' \<noteq> k"
  shows "sel (fst (upd k p f t)) k' = sel t k'"
  using assms by (auto simp: upd_eq sel_put dest: sel_key split: option.splits)

lemma upd_same:
  assumes "\<And>r. key (f r) = key r"
  shows "sel (fst (upd k p f t)) k =
           (case sel t k of None \<Rightarrow> None | Some r \<Rightarrow> Some (if p r then f r else r))"
  using assms by (auto simp: upd_eq sel_put dest: sel_key split: option.splits)

text \<open>Compare and set: a second write with the guard of the first, made false by it, misses.\<close>

lemma upd_twice:
  assumes "\<And>r. key (f r) = key r" and "\<And>r. p r \<Longrightarrow> \<not> q (f r)"
    and "upd k p f t = (t', Some r')"
  shows "upd k q g t' = (t', None)"
proof -
  obtain r where r: "sel t k = Some r" "p r" "t' = put t (f r)"
    using upd_row [OF assms(3)] by blast
  then have "sel t' k = Some (f r)"
    using assms(1) by (simp add: sel_put sel_key)
  with r(2) assms(2) show ?thesis by (simp add: upd_eq)
qed

end

interpretation pg: keyed_table key "tselect key" "tput key" "tupdate key" "unique_key key"
  for key :: "'r \<Rightarrow> 'k"
  by unfold_locales
    (auto simp: tselect_tput unique_tput tupdate_def dest: tselect_SomeD split: option.splits)

end
