(* ===== verification/Lifecycle_Types.thy ===== *)
theory Lifecycle_Types
  imports Prelude
begin

text \<open>
  The data of the ownership store, \<open>internal/lifecycle/types.go\<close>: the closed registry of
  (kind, phase) pairs with their liveness and progress bounds, the ownership record, the
  conditions derived from it (dead, stuck, healthy, handoff stalled), the event record and
  the sentinel errors.  Kinds and phases are strings, since a caller may send any; states,
  event names and sentinels are only ever the constants of the code, so they are datatypes.
\<close>

section \<open>Constants\<close>

definition KindDevLoopProposal :: string where "KindDevLoopProposal = ''devloop-proposal''"
definition KindPullRequest :: string where "KindPullRequest = ''pull-request''"

definition PhaseImplement :: string where "PhaseImplement = ''implement''"
definition PhaseReviewRemediation :: string where "PhaseReviewRemediation = ''review-remediation''"

datatype ostate = StateActive | StateHandingOff | StateReleased | StateTerminal

fun ostate_text :: "ostate \<Rightarrow> string" where
  "ostate_text StateActive = ''active''"
| "ostate_text StateHandingOff = ''handing-off''"
| "ostate_text StateReleased = ''released''"
| "ostate_text StateTerminal = ''terminal''"

definition OwnerDevLoopWorkflow :: string where "OwnerDevLoopWorkflow = ''devloop-workflow''"
definition OwnerShepherd :: string where "OwnerShepherd = ''shepherd''"
definition OwnerPRSteward :: string where "OwnerPRSteward = ''pr-steward''"
definition OwnerReconciler :: string where "OwnerReconciler = ''reconciler''"
definition OwnerHumanCodeowner :: string where "OwnerHumanCodeowner = ''human-codeowner''"

datatype event_name =
    EventOwnerAcquired | EventOwnerDenied | EventProgress | EventHandoffStarted
  | EventHandoffCompleted | EventOwnerReleased | EventOwnerTerminal | EventRecovered
  | EventFenced | EventHandoffRequested | EventHandoffRetried | EventReconcileRequested

section \<open>The registry of phases and its bounds\<close>

record bound =
  b_liveness :: duration
  b_progress :: duration

definition bounds :: "(string \<times> bound) list" where
  "bounds =
     [(KindPullRequest @ ''/'' @ PhaseReviewRemediation,
         \<lparr>b_liveness = 10 * hour, b_progress = 48 * hour\<rparr>),
      (KindDevLoopProposal @ ''/'' @ PhaseImplement,
         \<lparr>b_liveness = 130 * minute, b_progress = 130 * minute\<rparr>)]"

definition LegalPhase :: "string \<Rightarrow> string \<Rightarrow> bool" where
  "LegalPhase kind phase \<longleftrightarrow> map_of bounds (kind @ ''/'' @ phase) \<noteq> None"

definition LivenessBound :: "string \<Rightarrow> string \<Rightarrow> duration option" where
  "LivenessBound kind phase = map_option b_liveness (map_of bounds (kind @ ''/'' @ phase))"

definition ProgressBound :: "string \<Rightarrow> string \<Rightarrow> duration option" where
  "ProgressBound kind phase = map_option b_progress (map_of bounds (kind @ ''/'' @ phase))"

section \<open>Records\<close>

record entity_ref =
  e_kind :: string
  e_id :: string
  e_version :: string

record owner =
  ow_type :: string
  ow_id :: string

record ownership =
  o_entity :: entity_ref
  o_phase :: string
  o_owner :: owner
  o_epoch :: int
  o_state :: ostate
  o_acquired_at :: gotime
  o_last_seen_at :: gotime
  o_last_progress_at :: gotime
  o_progress_evidence :: string
  o_proposal_ref :: string
  o_policy_ref :: string
  o_handoff_to :: "owner option"
  o_handoff_from :: "owner option"
  o_handoff_started_at :: "gotime option"
  o_released_at :: "gotime option"
  o_released_reason :: string
  o_temporal_workflow_id :: string
  o_created_at :: gotime
  o_updated_at :: gotime

text \<open>The two states in which a record withholds its entity from other actors.\<close>

definition held_state :: "ostate \<Rightarrow> bool" where
  "held_state s \<longleftrightarrow> s = StateActive \<or> s = StateHandingOff"

section \<open>Conditions derived from a record\<close>

text \<open>The receivers are pointers; a nil receiver is \<open>None\<close> and answers false.\<close>

definition IsDead :: "ownership option \<Rightarrow> gotime \<Rightarrow> bool" where
  "IsDead oo now =
     (case oo of
        None \<Rightarrow> False
      | Some o' \<Rightarrow>
          if o_state o' \<noteq> StateActive \<and> o_state o' \<noteq> StateHandingOff then False
          else (case LivenessBound (e_kind (o_entity o')) (o_phase o') of
                  None \<Rightarrow> False
                | Some b \<Rightarrow> b < time_sub now (o_last_seen_at o')))"

definition IsStuck :: "ownership option \<Rightarrow> gotime \<Rightarrow> bool" where
  "IsStuck oo now =
     (case oo of
        None \<Rightarrow> False
      | Some o' \<Rightarrow>
          if o_state o' \<noteq> StateActive \<or> IsDead (Some o') now then False
          else (case ProgressBound (e_kind (o_entity o')) (o_phase o') of
                  None \<Rightarrow> False
                | Some b \<Rightarrow> b < time_sub now (o_last_progress_at o')))"

definition IsHealthy :: "ownership option \<Rightarrow> gotime \<Rightarrow> bool" where
  "IsHealthy oo now =
     (case oo of None \<Rightarrow> False
      | Some o' \<Rightarrow> o_state o' = StateActive \<and> \<not> IsDead (Some o') now)"

definition HandoffStalled :: "ownership option \<Rightarrow> gotime \<Rightarrow> bool" where
  "HandoffStalled oo now =
     (case oo of
        None \<Rightarrow> False
      | Some o' \<Rightarrow>
          (if o_state o' \<noteq> StateHandingOff then False
           else (case o_handoff_started_at o' of
                   None \<Rightarrow> False
                 | Some started \<Rightarrow>
                     (case LivenessBound (e_kind (o_entity o')) (o_phase o') of
                        None \<Rightarrow> False
                      | Some b \<Rightarrow> b < time_sub now started))))"

record lc_event =
  ev_id :: int
  ev_entity :: entity_ref
  ev_phase :: string
  ev_event :: event_name
  ev_owner_epoch :: int
  ev_actor :: owner
  ev_reason :: string
  ev_created_at :: gotime
  ev_caller_principal_id :: string
  ev_via_principal_id :: string

text \<open>
  The sentinels \<open>errors.Is\<close> distinguishes; the text a sentinel is wrapped in is not kept.
  \<open>ErrPlain\<close> is an error made in place that wraps no sentinel.
\<close>

datatype lc_error =
    ErrOwnedByOther | ErrNotOwner | ErrEpochMismatch | ErrStaleRead | ErrNotFound
  | ErrUnknownPhase | ErrNoHandoff | ErrOwnerAlive | ErrOwnerMismatch | ErrVersionMismatch
  | ErrLastSeenAtMismatch | ErrOwnerNotStuck | ErrHandoffNotStalled | ErrInvalidPrecondition
  | ErrPlain string

section \<open>Facts\<close>

lemma owner_eta [simp]: "\<lparr>ow_type = ow_type w, ow_id = ow_id w\<rparr> = w"
  by simp

lemma sep_split:
  assumes "k @ ''/'' @ p = k' @ ''/'' @ p'" and "CHR ''/'' \<notin> set k'" and "CHR ''/'' \<notin> set p'"
  shows "k = k' \<and> p = p'"
proof -
  have "count_list (k @ ''/'' @ p) (CHR ''/'') = count_list (k' @ ''/'' @ p') (CHR ''/'')"
    using assms(1) by simp
  then have "count_list k (CHR ''/'') + count_list p (CHR ''/'') = 0"
    using assms(2,3) by simp
  then have "CHR ''/'' \<notin> set k \<and> CHR ''/'' \<notin> set p"
    by (simp add: count_list_0_iff)
  then have "takeWhile (\<lambda>c. c \<noteq> CHR ''/'') (k @ ''/'' @ p) = k"
    by (subst takeWhile_append2) auto
  moreover have "takeWhile (\<lambda>c. c \<noteq> CHR ''/'') (k' @ ''/'' @ p') = k'"
    using assms(2) by (subst takeWhile_append2) auto
  ultimately show ?thesis using assms(1) by auto
qed

lemma LegalPhase_iff:
  "LegalPhase kind phase \<longleftrightarrow>
     kind = KindPullRequest \<and> phase = PhaseReviewRemediation \<or>
     kind = KindDevLoopProposal \<and> phase = PhaseImplement"
proof -
  have "LegalPhase kind phase \<longleftrightarrow>
          kind @ ''/'' @ phase = KindPullRequest @ ''/'' @ PhaseReviewRemediation \<or>
          kind @ ''/'' @ phase = KindDevLoopProposal @ ''/'' @ PhaseImplement"
    by (auto simp: LegalPhase_def bounds_def)
  moreover have "kind @ ''/'' @ phase = KindPullRequest @ ''/'' @ PhaseReviewRemediation \<longleftrightarrow>
          kind = KindPullRequest \<and> phase = PhaseReviewRemediation"
    using sep_split [of kind phase KindPullRequest PhaseReviewRemediation]
    by (auto simp: KindPullRequest_def PhaseReviewRemediation_def)
  moreover have "kind @ ''/'' @ phase = KindDevLoopProposal @ ''/'' @ PhaseImplement \<longleftrightarrow>
          kind = KindDevLoopProposal \<and> phase = PhaseImplement"
    using sep_split [of kind phase KindDevLoopProposal PhaseImplement]
    by (auto simp: KindDevLoopProposal_def PhaseImplement_def)
  ultimately show ?thesis by blast
qed

lemma LivenessBound_range:
  "LivenessBound kind phase = Some b \<Longrightarrow> 0 < b \<and> b < max_duration"
  by (auto simp: LivenessBound_def bounds_def max_duration_def split: if_splits)

lemma LivenessBound_Some: "LegalPhase kind phase \<longleftrightarrow> (\<exists>b. LivenessBound kind phase = Some b)"
  by (auto simp: LegalPhase_def LivenessBound_def)

lemma ProgressBound_range:
  "ProgressBound kind phase = Some b \<Longrightarrow> 0 < b \<and> b < max_duration"
  by (auto simp: ProgressBound_def bounds_def max_duration_def split: if_splits)

lemma IsDead_iff:
  "IsDead (Some o') now \<longleftrightarrow>
     held_state (o_state o') \<and>
     (\<exists>b. LivenessBound (e_kind (o_entity o')) (o_phase o') = Some b \<and> b < now - o_last_seen_at o')"
  by (auto simp: IsDead_def held_state_def time_sub_gt dest: LivenessBound_range
           split: option.splits)

lemma HandoffStalled_iff:
  "HandoffStalled (Some o') now \<longleftrightarrow>
     o_state o' = StateHandingOff \<and>
     (\<exists>t b. o_handoff_started_at o' = Some t \<and>
        LivenessBound (e_kind (o_entity o')) (o_phase o') = Some b \<and> b < now - t)"
  by (auto simp: HandoffStalled_def time_sub_gt dest: LivenessBound_range split: option.splits)

lemma IsStuck_iff:
  "IsStuck (Some o') now \<longleftrightarrow>
     o_state o' = StateActive \<and> \<not> IsDead (Some o') now \<and>
     (\<exists>b. ProgressBound (e_kind (o_entity o')) (o_phase o') = Some b \<and>
        b < now - o_last_progress_at o')"
  by (auto simp: IsStuck_def time_sub_gt dest: ProgressBound_range split: option.splits)

lemmas derived_iffs = IsDead_iff IsStuck_iff HandoffStalled_iff

end
