(* ===== verification/Lifecycle_Sql.thy ===== *)
theory Lifecycle_Sql
  imports Pg_Table Lifecycle_Types
begin

text \<open>
  The tables of the ownership store and the statements it runs on them
  (\<open>internal/lifecycle/store.go\<close>, \<open>recovery.go\<close>).  A row keeps its columns as the schema
  has them: an absent handoff actor is a pair of empty strings, which \<open>scanRow\<close> reads
  back as a nil pointer.  Every guarded write is the WHERE clause of its statement
  (a predicate on the stored row) and its SET clause (a function of the stored row), run
  by \<open>tupdate\<close>; no row written is the \<open>ErrNotFound\<close> of \<open>scanOne\<close>.
\<close>

section \<open>Tables\<close>

record lrow =
  r_entity_kind :: string
  r_entity_id :: string
  r_phase :: string
  r_entity_version :: string
  r_owner_type :: string
  r_owner_id :: string
  r_epoch :: int
  r_state :: ostate
  r_acquired_at :: gotime
  r_last_seen_at :: gotime
  r_last_progress_at :: gotime
  r_progress_evidence :: string
  r_proposal_ref :: string
  r_policy_ref :: string
  r_handoff_to_type :: string
  r_handoff_to_id :: string
  r_handoff_from_type :: string
  r_handoff_from_id :: string
  r_handoff_started_at :: "gotime option"
  r_released_at :: "gotime option"
  r_released_reason :: string
  r_temporal_workflow_id :: string
  r_created_at :: gotime
  r_updated_at :: gotime

type_synonym lkey = "string \<times> string \<times> string"

definition lrow_key :: "lrow \<Rightarrow> lkey" where
  "lrow_key r = (r_entity_kind r, r_entity_id r, r_phase r)"

record lc_db =
  db_rows :: "lrow list"
  db_events :: "lc_event list"
  db_next_event :: int

definition empty_db :: lc_db where
  "empty_db = \<lparr>db_rows = [], db_events = [], db_next_event = 1\<rparr>"

section \<open>Reading a row\<close>

definition opt_owner :: "string \<Rightarrow> string \<Rightarrow> owner option" where
  "opt_owner t i = (if t \<noteq> '''' \<or> i \<noteq> '''' then Some \<lparr>ow_type = t, ow_id = i\<rparr> else None)"

definition scanRow :: "lrow \<Rightarrow> ownership" where
  "scanRow r =
     \<lparr>o_entity = \<lparr>e_kind = r_entity_kind r, e_id = r_entity_id r, e_version = r_entity_version r\<rparr>,
      o_phase = r_phase r,
      o_owner = \<lparr>ow_type = r_owner_type r, ow_id = r_owner_id r\<rparr>,
      o_epoch = r_epoch r,
      o_state = r_state r,
      o_acquired_at = r_acquired_at r,
      o_last_seen_at = r_last_seen_at r,
      o_last_progress_at = r_last_progress_at r,
      o_progress_evidence = r_progress_evidence r,
      o_proposal_ref = r_proposal_ref r,
      o_policy_ref = r_policy_ref r,
      o_handoff_to = opt_owner (r_handoff_to_type r) (r_handoff_to_id r),
      o_handoff_from = opt_owner (r_handoff_from_type r) (r_handoff_from_id r),
      o_handoff_started_at = r_handoff_started_at r,
      o_released_at = r_released_at r,
      o_released_reason = r_released_reason r,
      o_temporal_workflow_id = r_temporal_workflow_id r,
      o_created_at = r_created_at r,
      o_updated_at = r_updated_at r\<rparr>"

text \<open>The key of the record asked about, and \<open>SELECT ... WHERE key\<close> through \<open>scanOne\<close>.\<close>

definition lkey_of :: "entity_ref \<Rightarrow> string \<Rightarrow> lkey" where
  "lkey_of entity phase = (e_kind entity, e_id entity, phase)"

definition readOwnership :: "lc_db \<Rightarrow> entity_ref \<Rightarrow> string \<Rightarrow> ownership option" where
  "readOwnership db entity phase =
     map_option scanRow (tselect lrow_key (db_rows db) (lkey_of entity phase))"

type_synonym statement = "lrow list \<Rightarrow> lrow list \<times> lrow option"

definition exec :: "statement \<Rightarrow> lc_db \<Rightarrow> lc_db \<times> ownership option" where
  "exec stmt db =
     (let (rows, ret) = stmt (db_rows db) in (db\<lparr>db_rows := rows\<rparr>, map_option scanRow ret))"

section \<open>Statements of store.go\<close>

definition reacquireRefreshSQL ::
  "gotime \<Rightarrow> string \<Rightarrow> string \<Rightarrow> gotime \<Rightarrow> lkey \<Rightarrow> int \<Rightarrow> owner \<Rightarrow> ostate \<Rightarrow> statement" where
  "reacquireRefreshSQL seen version workflow now k epoch own st =
     tupdate lrow_key k
       (\<lambda>r. r_epoch r = epoch \<and> r_owner_type r = ow_type own \<and> r_owner_id r = ow_id own \<and>
            r_state r = st)
       (\<lambda>r. r\<lparr>r_last_seen_at := seen,
              r_entity_version := coalesce_nonempty version (r_entity_version r),
              r_temporal_workflow_id := coalesce_nonempty workflow (r_temporal_workflow_id r),
              r_updated_at := now\<rparr>)"

text \<open>
  \<open>ex\<close> is the row of the VALUES clause (\<open>EXCLUDED\<close>); the epoch of the update branch is
  computed from the stored row, and the handoff and release columns are cleared.
\<close>

definition acquireUpsertSQL :: "lrow \<Rightarrow> statement" where
  "acquireUpsertSQL ex rows =
     (case tselect lrow_key rows (lrow_key ex) of
        None \<Rightarrow> (tput lrow_key rows ex, Some ex)
      | Some r \<Rightarrow>
          if r_state r = StateReleased \<or> r_state r = StateTerminal then
            (let r' = r\<lparr>r_entity_version := r_entity_version ex,
                        r_owner_type := r_owner_type ex, r_owner_id := r_owner_id ex,
                        r_epoch := r_epoch r + 1,
                        r_state := r_state ex,
                        r_acquired_at := r_acquired_at ex,
                        r_last_seen_at := r_last_seen_at ex,
                        r_last_progress_at := r_last_progress_at ex,
                        r_progress_evidence := r_progress_evidence ex,
                        r_proposal_ref := r_proposal_ref ex,
                        r_policy_ref := r_policy_ref ex,
                        r_handoff_to_type := '''', r_handoff_to_id := '''',
                        r_handoff_from_type := '''', r_handoff_from_id := '''',
                        r_handoff_started_at := None,
                        r_released_at := None, r_released_reason := '''',
                        r_temporal_workflow_id := r_temporal_workflow_id ex,
                        r_updated_at := r_updated_at ex\<rparr>
             in (tput lrow_key rows r', Some r'))
          else (rows, None))"

definition progressUpdateSQL ::
  "gotime \<Rightarrow> gotime \<Rightarrow> string \<Rightarrow> string \<Rightarrow> lkey \<Rightarrow> int \<Rightarrow> ostate \<Rightarrow> statement" where
  "progressUpdateSQL now seen evidence version k epoch st =
     tupdate lrow_key k
       (\<lambda>r. r_epoch r = epoch \<and> r_state r = st)
       (\<lambda>r. r\<lparr>r_last_progress_at := now, r_last_seen_at := seen,
              r_progress_evidence := evidence,
              r_entity_version := coalesce_nonempty version (r_entity_version r),
              r_updated_at := now\<rparr>)"

definition handoffStartUpdateSQL ::
  "ostate \<Rightarrow> owner \<Rightarrow> gotime \<Rightarrow> gotime \<Rightarrow> gotime \<Rightarrow> lkey \<Rightarrow> int \<Rightarrow> ostate \<Rightarrow> owner \<Rightarrow> statement" where
  "handoffStartUpdateSQL newst to started seen now k epoch st wasTo =
     tupdate lrow_key k
       (\<lambda>r. r_epoch r = epoch \<and> r_state r = st \<and>
            r_handoff_to_type r = ow_type wasTo \<and> r_handoff_to_id r = ow_id wasTo)
       (\<lambda>r. r\<lparr>r_state := newst, r_handoff_to_type := ow_type to, r_handoff_to_id := ow_id to,
              r_handoff_started_at := Some started, r_last_seen_at := seen,
              r_updated_at := now\<rparr>)"

definition handoffCompleteUpdateSQL ::
  "owner \<Rightarrow> ostate \<Rightarrow> gotime \<Rightarrow> lkey \<Rightarrow> int \<Rightarrow> string \<Rightarrow> string \<Rightarrow> ostate \<Rightarrow> statement" where
  "handoffCompleteUpdateSQL incoming newst now k epoch workflow policy st =
     tupdate lrow_key k
       (\<lambda>r. r_epoch r = epoch \<and> r_state r = st \<and>
            r_handoff_to_type r = ow_type incoming \<and> r_handoff_to_id r = ow_id incoming)
       (\<lambda>r. r\<lparr>r_owner_type := ow_type incoming, r_owner_id := ow_id incoming,
              r_epoch := r_epoch r + 1, r_state := newst,
              r_acquired_at := now, r_last_seen_at := now, r_last_progress_at := now,
              r_progress_evidence := ''handoff completed'',
              r_temporal_workflow_id := workflow, r_policy_ref := policy,
              r_handoff_from_type := r_owner_type r, r_handoff_from_id := r_owner_id r,
              r_handoff_to_type := '''', r_handoff_to_id := '''',
              r_handoff_started_at := None,
              r_released_at := None, r_released_reason := '''', r_updated_at := now\<rparr>)"

definition finishUpdateSQL ::
  "ostate \<Rightarrow> gotime \<Rightarrow> string \<Rightarrow> lkey \<Rightarrow> int \<Rightarrow> statement" where
  "finishUpdateSQL newst now reason k epoch =
     tupdate lrow_key k
       (\<lambda>r. r_epoch r = epoch \<and> (r_state r = StateActive \<or> r_state r = StateHandingOff))
       (\<lambda>r. r\<lparr>r_state := newst, r_released_at := Some now, r_released_reason := reason,
              r_handoff_to_type := '''', r_handoff_to_id := '''',
              r_handoff_started_at := None, r_updated_at := now\<rparr>)"

definition recoverUpdateSQL ::
  "owner \<Rightarrow> ostate \<Rightarrow> gotime \<Rightarrow> string \<Rightarrow> string \<Rightarrow> string \<Rightarrow> lkey \<Rightarrow> int \<Rightarrow> gotime \<Rightarrow> statement" where
  "recoverUpdateSQL own newst now evidence policy workflow k epoch seen =
     tupdate lrow_key k
       (\<lambda>r. r_epoch r = epoch \<and> r_last_seen_at r = seen \<and>
            (r_state r = StateActive \<or> r_state r = StateHandingOff))
       (\<lambda>r. r\<lparr>r_owner_type := ow_type own, r_owner_id := ow_id own,
              r_epoch := r_epoch r + 1, r_state := newst,
              r_acquired_at := now, r_last_seen_at := now, r_last_progress_at := now,
              r_progress_evidence := evidence, r_policy_ref := policy,
              r_temporal_workflow_id := workflow,
              r_handoff_from_type := r_owner_type r, r_handoff_from_id := r_owner_id r,
              r_handoff_to_type := '''', r_handoff_to_id := '''', r_handoff_started_at := None,
              r_released_at := None, r_released_reason := '''', r_updated_at := now\<rparr>)"

section \<open>Statements of recovery.go\<close>

definition fenceUpdateSQL ::
  "gotime \<Rightarrow> string \<Rightarrow> lkey \<Rightarrow> int \<Rightarrow> owner \<Rightarrow> string \<Rightarrow> gotime \<Rightarrow> statement" where
  "fenceUpdateSQL now reason k epoch own version seen =
     tupdate lrow_key k
       (\<lambda>r. r_epoch r = epoch \<and> r_owner_type r = ow_type own \<and> r_owner_id r = ow_id own \<and>
            r_entity_version r = version \<and> r_last_seen_at r = seen \<and>
            (r_state r = StateActive \<or> r_state r = StateHandingOff))
       (\<lambda>r. r\<lparr>r_state := StateReleased, r_epoch := r_epoch r + 1,
              r_released_at := Some now, r_released_reason := reason,
              r_handoff_to_type := '''', r_handoff_to_id := '''', r_handoff_started_at := None,
              r_updated_at := now\<rparr>)"

definition handoffRequestUpdateSQL ::
  "ostate \<Rightarrow> owner \<Rightarrow> gotime \<Rightarrow> gotime \<Rightarrow> gotime \<Rightarrow> lkey \<Rightarrow> ostate \<Rightarrow> int \<Rightarrow> owner \<Rightarrow> string \<Rightarrow> statement" where
  "handoffRequestUpdateSQL newst to started seen now k st epoch own version =
     tupdate lrow_key k
       (\<lambda>r. r_state r = st \<and> r_handoff_to_type r = '''' \<and> r_handoff_to_id r = '''' \<and>
            r_epoch r = epoch \<and> r_owner_type r = ow_type own \<and> r_owner_id r = ow_id own \<and>
            r_entity_version r = version)
       (\<lambda>r. r\<lparr>r_state := newst, r_handoff_to_type := ow_type to, r_handoff_to_id := ow_id to,
              r_handoff_started_at := Some started, r_last_seen_at := seen,
              r_updated_at := now\<rparr>)"

definition handoffRetryUpdateSQL ::
  "gotime \<Rightarrow> lkey \<Rightarrow> owner \<Rightarrow> gotime \<Rightarrow> int \<Rightarrow> owner \<Rightarrow> string \<Rightarrow> statement" where
  "handoffRetryUpdateSQL now k to started epoch own version =
     tupdate lrow_key k
       (\<lambda>r. r_state r = StateHandingOff \<and>
            r_handoff_to_type r = ow_type to \<and> r_handoff_to_id r = ow_id to \<and>
            r_handoff_started_at r = Some started \<and>
            r_epoch r = epoch \<and> r_owner_type r = ow_type own \<and> r_owner_id r = ow_id own \<and>
            r_entity_version r = version)
       (\<lambda>r. r\<lparr>r_handoff_started_at := Some now, r_last_seen_at := now, r_updated_at := now\<rparr>)"

lemmas statement_defs =
  reacquireRefreshSQL_def acquireUpsertSQL_def progressUpdateSQL_def handoffStartUpdateSQL_def
  handoffCompleteUpdateSQL_def finishUpdateSQL_def recoverUpdateSQL_def fenceUpdateSQL_def
  handoffRequestUpdateSQL_def handoffRetryUpdateSQL_def

declare statement_defs [sql_defs]

section \<open>Events, the caller, the transaction\<close>

text \<open>What \<open>WithCaller\<close> puts on the context.\<close>

record caller =
  cl_principal_id :: string
  cl_via_principal_id :: string

definition insertEvent ::
  "caller \<Rightarrow> entity_ref \<Rightarrow> string \<Rightarrow> event_name \<Rightarrow> int \<Rightarrow> owner \<Rightarrow> string \<Rightarrow> gotime \<Rightarrow> lc_db \<Rightarrow> lc_db" where
  "insertEvent c entity phase event epoch actor reason now db =
     db\<lparr>db_events := db_events db @
          [\<lparr>ev_id = db_next_event db, ev_entity = entity, ev_phase = phase, ev_event = event,
            ev_owner_epoch = epoch, ev_actor = actor, ev_reason = reason, ev_created_at = now,
            ev_caller_principal_id = cl_principal_id c,
            ev_via_principal_id = cl_via_principal_id c\<rparr>],
        db_next_event := db_next_event db + 1\<rparr>"

text \<open>
  A transaction body yields the database it leaves, the captured result and its error.
  PostgreSQL may fail it at \<open>BEGIN\<close>, at the lock, in a statement or at \<open>COMMIT\<close>; then
  nothing of it is kept.
\<close>

type_synonym 'a outcome = "lc_db \<times> 'a option \<times> lc_error option"

definition inTx :: "tx_fault \<Rightarrow> lc_db \<Rightarrow> 'a outcome \<Rightarrow> 'a outcome" where
  "inTx fault db0 body =
     (case body of (db', out, err) \<Rightarrow>
        if fault = TxBeginFails then (db0, None, Some (ErrPlain ''lifecycle: begin''))
        else if fault = TxLockFails then (db0, None, Some (ErrPlain ''lifecycle: acquire lock''))
        else if fault = TxStatementFails then (db0, None, Some (ErrPlain ''lifecycle: statement''))
        else case err of
          Some e \<Rightarrow>
            if e = ErrOwnedByOther then
              (if fault = TxCommitFails
               then (db0, out, Some (ErrPlain ''lifecycle: commit denial''))
               else (db', out, Some e))
            else (db0, out, Some e)
        | None \<Rightarrow>
            if fault = TxCommitFails then (db0, out, Some (ErrPlain ''lifecycle: commit''))
            else (db', out, None))"

text \<open>\<open>if err != nil { return nil, err }; return out, nil\<close>\<close>

definition nil_on_error :: "'a outcome \<Rightarrow> 'a outcome" where
  "nil_on_error res = (case res of (db, out, err) \<Rightarrow> (db, if err = None then out else None, err))"

end
