(* ===== verification/Lifecycle_Store.thy ===== *)
theory Lifecycle_Store
  imports Lifecycle_Sql
begin

text \<open>
  The operations of \<open>internal/lifecycle/store.go\<close>.  Each takes the fault of its
  transaction, the clock it reads, the caller on its context and its arguments, and two
  databases: \<open>dbr\<close>, in which the reads its decision is made from happen, and \<open>dbw\<close>, in
  which its guarded write and everything after the write happen.  Under the advisory lock
  of \<open>inTx\<close> the two agree on the key; a pair that differs is the interleaving the guards
  of the statements are written for, so what holds for every pair does not rest on the lock.
\<close>

section \<open>Checks shared by the operations\<close>

definition validate :: "entity_ref \<Rightarrow> string \<Rightarrow> lc_error option" where
  "validate entity phase =
     (if e_id entity = '''' then Some ErrUnknownPhase
      else if \<not> LegalPhase (e_kind entity) phase then Some ErrUnknownPhase
      else None)"

definition owner_blank :: "owner \<Rightarrow> bool" where
  "owner_blank w \<longleftrightarrow> ow_type w = '''' \<or> ow_id w = ''''"

definition owner_text :: "owner \<Rightarrow> string" where
  "owner_text w = ow_type w @ ''/'' @ ow_id w"

fun sameHandoffTarget :: "owner option \<Rightarrow> owner option \<Rightarrow> bool" where
  "sameHandoffTarget (Some a) (Some b) \<longleftrightarrow> a = b"
| "sameHandoffTarget a b \<longleftrightarrow> a = None \<and> b = None"

definition handoffAlreadyCompleted :: "ownership \<Rightarrow> owner \<Rightarrow> int \<Rightarrow> bool" where
  "handoffAlreadyCompleted latest incoming fromEpoch \<longleftrightarrow>
     o_state latest = StateActive \<and> o_owner latest = incoming \<and> o_epoch latest = fromEpoch + 1"

definition reacquireMissSentinel :: "ownership \<Rightarrow> ownership \<Rightarrow> lc_error" where
  "reacquireMissSentinel existing current =
     (if o_state current \<noteq> StateActive \<and> o_state current \<noteq> StateHandingOff then ErrStaleRead
      else if o_owner current \<noteq> o_owner existing then ErrOwnedByOther
      else if o_epoch current \<noteq> o_epoch existing then ErrStaleRead
      else if o_state current \<noteq> o_state existing then ErrStaleRead
      else ErrStaleRead)"

text \<open>\<open>pinned\<close> is \<open>None\<close> where the statement pinned only the non-absorbing class.\<close>

definition raceLostOn :: "lc_db \<Rightarrow> entity_ref \<Rightarrow> string \<Rightarrow> int \<Rightarrow> ostate option \<Rightarrow> lc_error" where
  "raceLostOn db entity phase epoch pinned =
     (case readOwnership db entity phase of
        None \<Rightarrow> ErrNotFound
      | Some latest \<Rightarrow>
          if o_epoch latest \<noteq> epoch then ErrEpochMismatch
          else if o_state latest \<noteq> StateActive \<and> o_state latest \<noteq> StateHandingOff then ErrNotOwner
          else if pinned \<noteq> None \<and> pinned \<noteq> Some (o_state latest) then ErrStaleRead
          else ErrStaleRead)"

definition currentFor ::
  "lc_db \<Rightarrow> entity_ref \<Rightarrow> string \<Rightarrow> owner \<Rightarrow> int \<Rightarrow> lc_error + ownership" where
  "currentFor db entity phase own epoch =
     (case readOwnership db entity phase of
        None \<Rightarrow> Inl ErrNotFound
      | Some current \<Rightarrow>
          if o_owner current \<noteq> own then Inl ErrNotOwner
          else if o_state current \<noteq> StateActive \<and> o_state current \<noteq> StateHandingOff
            then Inl ErrNotOwner
          else if o_epoch current \<noteq> epoch then Inl ErrEpochMismatch
          else Inr current)"

definition handoffTargetOf :: "ownership option \<Rightarrow> string" where
  "handoffTargetOf oo =
     (case oo of None \<Rightarrow> ''an unnamed actor''
      | Some o' \<Rightarrow> (case o_handoff_to o' of None \<Rightarrow> ''an unnamed actor'' | Some w \<Rightarrow> owner_text w))"

section \<open>Acquire\<close>

record acquire_request =
  aq_entity :: entity_ref
  aq_phase :: string
  aq_owner :: owner
  aq_proposal_ref :: string
  aq_policy_ref :: string
  aq_temporal_workflow_id :: string

text \<open>The caller already owns the record: refresh its liveness, unless it is leaving.\<close>

definition acquire_reacquire ::
  "gotime \<Rightarrow> acquire_request \<Rightarrow> ownership \<Rightarrow> lc_db \<Rightarrow> ownership outcome" where
  "acquire_reacquire now req existing dbw =
     (let seen = (if o_state existing = StateHandingOff then o_last_seen_at existing else now)
      in case exec (reacquireRefreshSQL seen (e_version (aq_entity req))
                 (aq_temporal_workflow_id req) now (lkey_of (aq_entity req) (aq_phase req))
                 (o_epoch existing) (o_owner existing) (o_state existing)) dbw of
           (db', Some refreshed) \<Rightarrow> (db', Some refreshed, None)
         | (db', None) \<Rightarrow>
             (case readOwnership db' (aq_entity req) (aq_phase req) of
                None \<Rightarrow> (db', None, Some ErrNotFound)
              | Some current \<Rightarrow> (db', Some current, Some (reacquireMissSentinel existing current))))"

text \<open>The row of the VALUES clause: a fresh record starts at epoch 1.\<close>

definition acquire_values :: "gotime \<Rightarrow> acquire_request \<Rightarrow> lrow" where
  "acquire_values now req =
     \<lparr>r_entity_kind = e_kind (aq_entity req), r_entity_id = e_id (aq_entity req),
      r_phase = aq_phase req, r_entity_version = e_version (aq_entity req),
      r_owner_type = ow_type (aq_owner req), r_owner_id = ow_id (aq_owner req),
      r_epoch = 1, r_state = StateActive,
      r_acquired_at = now, r_last_seen_at = now, r_last_progress_at = now,
      r_progress_evidence = ''acquired'',
      r_proposal_ref = aq_proposal_ref req, r_policy_ref = aq_policy_ref req,
      r_handoff_to_type = '''', r_handoff_to_id = '''',
      r_handoff_from_type = '''', r_handoff_from_id = '''',
      r_handoff_started_at = None, r_released_at = None, r_released_reason = '''',
      r_temporal_workflow_id = aq_temporal_workflow_id req,
      r_created_at = now, r_updated_at = now\<rparr>"

definition acquire_upsert ::
  "gotime \<Rightarrow> caller \<Rightarrow> acquire_request \<Rightarrow> lc_db \<Rightarrow> ownership outcome" where
  "acquire_upsert now c req dbw =
     (case exec (acquireUpsertSQL (acquire_values now req)) dbw of
        (db', Some acquired) \<Rightarrow>
          (insertEvent c (o_entity acquired) (aq_phase req) EventOwnerAcquired (o_epoch acquired)
             (aq_owner req) (aq_policy_ref req) now db', Some acquired, None)
      | (db', None) \<Rightarrow>
          (case readOwnership db' (aq_entity req) (aq_phase req) of
             None \<Rightarrow> (db', None, Some ErrNotFound)
           | Some current \<Rightarrow>
               if o_owner current = aq_owner req then (db', Some current, None)
               else (insertEvent c (o_entity current) (aq_phase req) EventOwnerDenied
                       (o_epoch current) (aq_owner req)
                       (''lost acquire race to '' @ owner_text (o_owner current)) now db',
                     Some current, Some ErrOwnedByOther)))"

definition acquire_body ::
  "gotime \<Rightarrow> caller \<Rightarrow> acquire_request \<Rightarrow> lc_db \<Rightarrow> lc_db \<Rightarrow> ownership outcome" where
  "acquire_body now c req dbr dbw =
     (case readOwnership dbr (aq_entity req) (aq_phase req) of
        None \<Rightarrow> acquire_upsert now c req dbw
      | Some existing \<Rightarrow>
          if o_state existing = StateActive \<or> o_state existing = StateHandingOff then
            if o_owner existing = aq_owner req then acquire_reacquire now req existing dbw
            else (insertEvent c (o_entity existing) (aq_phase req) EventOwnerDenied
                    (o_epoch existing) (aq_owner req)
                    (''already owned by '' @ owner_text (o_owner existing)) now dbw,
                  Some existing, Some ErrOwnedByOther)
          else acquire_upsert now c req dbw)"

definition Acquire ::
  "tx_fault \<Rightarrow> gotime \<Rightarrow> caller \<Rightarrow> acquire_request \<Rightarrow> lc_db \<Rightarrow> lc_db \<Rightarrow> ownership outcome" where
  "Acquire fault now c req dbr dbw =
     (case validate (aq_entity req) (aq_phase req) of
        Some e \<Rightarrow> (dbw, None, Some e)
      | None \<Rightarrow>
          if owner_blank (aq_owner req)
          then (dbw, None, Some (ErrPlain ''lifecycle: acquire: owner type and id are required''))
          else (case inTx fault dbw (acquire_body now c req dbr dbw) of
                  (db', out, err) \<Rightarrow>
                    if err \<noteq> None \<and> err \<noteq> Some ErrOwnedByOther then (db', None, err)
                    else (db', out, err)))"

section \<open>RecordProgress\<close>

definition progress_body ::
  "gotime \<Rightarrow> caller \<Rightarrow> entity_ref \<Rightarrow> string \<Rightarrow> owner \<Rightarrow> int \<Rightarrow> string \<Rightarrow> lc_db \<Rightarrow> lc_db \<Rightarrow> ownership outcome"
where
  "progress_body now c entity phase own epoch evidence dbr dbw =
     (case currentFor dbr entity phase own epoch of
        Inl e \<Rightarrow> (dbw, None, Some e)
      | Inr current \<Rightarrow>
          let seen = (if o_state current = StateHandingOff then o_last_seen_at current else now)
          in case exec (progressUpdateSQL now seen evidence (e_version entity)
                     (lkey_of entity phase) epoch (o_state current)) dbw of
               (db', Some updated) \<Rightarrow>
                 (insertEvent c (o_entity updated) phase EventProgress epoch own evidence now db',
                  Some updated, None)
             | (db', None) \<Rightarrow>
                 (db', None, Some (raceLostOn db' entity phase epoch (Some (o_state current)))))"

definition RecordProgress ::
  "tx_fault \<Rightarrow> gotime \<Rightarrow> caller \<Rightarrow> entity_ref \<Rightarrow> string \<Rightarrow> owner \<Rightarrow> int \<Rightarrow> string \<Rightarrow> lc_db \<Rightarrow> lc_db \<Rightarrow> ownership outcome"
where
  "RecordProgress fault now c entity phase own epoch evidence dbr dbw =
     (case validate entity phase of
        Some e \<Rightarrow> (dbw, None, Some e)
      | None \<Rightarrow> nil_on_error
          (inTx fault dbw (progress_body now c entity phase own epoch evidence dbr dbw)))"

section \<open>HandoffStart\<close>

text \<open>The no-row path: a duplicate of this call, a retarget, or a race lost otherwise.\<close>

definition handoff_start_missed ::
  "lc_db \<Rightarrow> entity_ref \<Rightarrow> string \<Rightarrow> owner \<Rightarrow> int \<Rightarrow> owner \<Rightarrow> ownership \<Rightarrow> ownership outcome" where
  "handoff_start_missed db entity phase own epoch to current =
     (case readOwnership db entity phase of
        None \<Rightarrow> (db, None, Some ErrNotFound)
      | Some latest \<Rightarrow>
          if o_epoch latest = epoch \<and> o_owner latest = own \<and> o_state latest = StateHandingOff \<and>
             sameHandoffTarget (o_handoff_to latest) (Some to)
          then (db, Some latest, None)
          else if o_epoch latest = epoch \<and> o_state latest = o_state current \<and>
             \<not> sameHandoffTarget (o_handoff_to latest) (o_handoff_to current)
          then (db, None, Some ErrNotOwner)
          else (db, None, Some (raceLostOn db entity phase epoch (Some (o_state current)))))"

definition handoff_start_body ::
  "gotime \<Rightarrow> caller \<Rightarrow> entity_ref \<Rightarrow> string \<Rightarrow> owner \<Rightarrow> int \<Rightarrow> owner \<Rightarrow> string \<Rightarrow> lc_db \<Rightarrow> lc_db \<Rightarrow> ownership outcome"
where
  "handoff_start_body now c entity phase own epoch to reason dbr dbw =
     (case currentFor dbr entity phase own epoch of
        Inl e \<Rightarrow> (dbw, None, Some e)
      | Inr current \<Rightarrow>
          let reannounced = (o_state current = StateHandingOff \<and> o_handoff_to current = Some to);
              seen = (if o_state current = StateHandingOff then o_last_seen_at current else now);
              started = (if reannounced
                         then (case o_handoff_started_at current of Some t \<Rightarrow> t | None \<Rightarrow> now)
                         else now);
              wasTo = (case o_handoff_to current of
                         Some w \<Rightarrow> w | None \<Rightarrow> \<lparr>ow_type = '''', ow_id = ''''\<rparr>)
          in case exec (handoffStartUpdateSQL StateHandingOff to started seen now
                     (lkey_of entity phase) epoch (o_state current) wasTo) dbw of
               (db', Some updated) \<Rightarrow>
                 (if reannounced then db'
                  else insertEvent c (o_entity updated) phase EventHandoffStarted epoch own
                         (''to '' @ owner_text to @ '': '' @ reason) now db',
                  Some updated, None)
             | (db', None) \<Rightarrow> handoff_start_missed db' entity phase own epoch to current)"

definition HandoffStart ::
  "tx_fault \<Rightarrow> gotime \<Rightarrow> caller \<Rightarrow> entity_ref \<Rightarrow> string \<Rightarrow> owner \<Rightarrow> int \<Rightarrow> owner \<Rightarrow> string \<Rightarrow> lc_db \<Rightarrow> lc_db \<Rightarrow> ownership outcome"
where
  "HandoffStart fault now c entity phase own epoch to reason dbr dbw =
     (case validate entity phase of
        Some e \<Rightarrow> (dbw, None, Some e)
      | None \<Rightarrow>
          if owner_blank to
          then (dbw, None, Some (ErrPlain ''lifecycle: handoff: target owner type and id are required''))
          else nil_on_error
            (inTx fault dbw (handoff_start_body now c entity phase own epoch to reason dbr dbw)))"

section \<open>HandoffComplete\<close>

text \<open>What the \<open>OwnerOption\<close>s given to the call have set.\<close>

record owner_config =
  cfg_policy_ref :: string
  cfg_temporal_workflow_id :: string

definition handoff_complete_body ::
  "gotime \<Rightarrow> caller \<Rightarrow> entity_ref \<Rightarrow> string \<Rightarrow> owner \<Rightarrow> owner_config \<Rightarrow> lc_db \<Rightarrow> lc_db \<Rightarrow> ownership outcome"
where
  "handoff_complete_body now c entity phase incoming cfg dbr dbw =
     (case readOwnership dbr entity phase of
        None \<Rightarrow> (dbw, None, Some ErrNotFound)
      | Some current \<Rightarrow>
          if o_state current = StateActive \<and> o_owner current = incoming
          then (dbw, Some current, None)
          else if o_state current \<noteq> StateHandingOff \<or> o_handoff_to current = None
          then (dbw, None, Some ErrNoHandoff)
          else if o_handoff_to current \<noteq> Some incoming
          then (dbw, None, Some ErrNotOwner)
          else (case exec (handoffCompleteUpdateSQL incoming StateActive now (lkey_of entity phase)
                      (o_epoch current) (cfg_temporal_workflow_id cfg) (cfg_policy_ref cfg)
                      StateHandingOff) dbw of
                  (db', Some updated) \<Rightarrow>
                    (insertEvent c (o_entity updated) phase EventHandoffCompleted (o_epoch updated)
                       incoming (''from '' @ owner_text (o_owner current)) now db',
                     Some updated, None)
                | (db', None) \<Rightarrow>
                    (case readOwnership db' entity phase of
                       None \<Rightarrow> (db', None, Some ErrNotFound)
                     | Some latest \<Rightarrow>
                         if o_state latest = StateHandingOff \<and> o_epoch latest = o_epoch current \<and>
                            o_handoff_to latest \<noteq> Some incoming
                         then (db', None, Some ErrNotOwner)
                         else if handoffAlreadyCompleted latest incoming (o_epoch current)
                         then (db', Some latest, None)
                         else (db', None, Some (raceLostOn db' entity phase (o_epoch current)
                                                 (Some StateHandingOff))))))"

definition HandoffComplete ::
  "tx_fault \<Rightarrow> gotime \<Rightarrow> caller \<Rightarrow> entity_ref \<Rightarrow> string \<Rightarrow> owner \<Rightarrow> owner_config \<Rightarrow> lc_db \<Rightarrow> lc_db \<Rightarrow> ownership outcome"
where
  "HandoffComplete fault now c entity phase incoming cfg dbr dbw =
     (case validate entity phase of
        Some e \<Rightarrow> (dbw, None, Some e)
      | None \<Rightarrow>
          if owner_blank incoming
          then (dbw, None, Some (ErrPlain ''lifecycle: handoff complete: owner type and id are required''))
          else nil_on_error
            (inTx fault dbw (handoff_complete_body now c entity phase incoming cfg dbr dbw)))"

section \<open>Release and Terminal\<close>

text \<open>\<open>Inr None\<close> is the nil record with a nil error: not finished by this caller.\<close>

definition finishedBy ::
  "lc_db \<Rightarrow> entity_ref \<Rightarrow> string \<Rightarrow> owner \<Rightarrow> int \<Rightarrow> ostate \<Rightarrow> lc_error + ownership option" where
  "finishedBy db entity phase own epoch st =
     (case readOwnership db entity phase of
        None \<Rightarrow> Inl ErrNotFound
      | Some row \<Rightarrow>
          if o_state row = st \<and> o_owner row = own \<and> o_epoch row = epoch then Inr (Some row)
          else Inr None)"

definition finish_body ::
  "gotime \<Rightarrow> caller \<Rightarrow> entity_ref \<Rightarrow> string \<Rightarrow> owner \<Rightarrow> int \<Rightarrow> ostate \<Rightarrow> event_name \<Rightarrow> string \<Rightarrow> lc_db \<Rightarrow> lc_db \<Rightarrow> ownership outcome"
where
  "finish_body now c entity phase own epoch st event reason dbr dbw =
     (case finishedBy dbr entity phase own epoch st of
        Inl e \<Rightarrow> (dbw, None, Some e)
      | Inr (Some done') \<Rightarrow> (dbw, Some done', None)
      | Inr None \<Rightarrow>
          (case currentFor dbr entity phase own epoch of
             Inl e \<Rightarrow> (dbw, None, Some e)
           | Inr _ \<Rightarrow>
               (case exec (finishUpdateSQL st now reason (lkey_of entity phase) epoch) dbw of
                  (db', Some updated) \<Rightarrow>
                    (insertEvent c (o_entity updated) phase event epoch own reason now db',
                     Some updated, None)
                | (db', None) \<Rightarrow>
                    (case finishedBy db' entity phase own epoch st of
                       Inl e \<Rightarrow> (db', None, Some e)
                     | Inr (Some done') \<Rightarrow> (db', Some done', None)
                     | Inr None \<Rightarrow> (db', None, Some (raceLostOn db' entity phase epoch None))))))"

definition finish ::
  "tx_fault \<Rightarrow> gotime \<Rightarrow> caller \<Rightarrow> entity_ref \<Rightarrow> string \<Rightarrow> owner \<Rightarrow> int \<Rightarrow> ostate \<Rightarrow> event_name \<Rightarrow> string \<Rightarrow> lc_db \<Rightarrow> lc_db \<Rightarrow> ownership outcome"
where
  "finish fault now c entity phase own epoch st event reason dbr dbw =
     (case validate entity phase of
        Some e \<Rightarrow> (dbw, None, Some e)
      | None \<Rightarrow> nil_on_error
          (inTx fault dbw (finish_body now c entity phase own epoch st event reason dbr dbw)))"

definition Release ::
  "tx_fault \<Rightarrow> gotime \<Rightarrow> caller \<Rightarrow> entity_ref \<Rightarrow> string \<Rightarrow> owner \<Rightarrow> int \<Rightarrow> string \<Rightarrow> lc_db \<Rightarrow> lc_db \<Rightarrow> ownership outcome"
where
  "Release fault now c entity phase own epoch reason dbr dbw =
     finish fault now c entity phase own epoch StateReleased EventOwnerReleased reason dbr dbw"

definition Terminal ::
  "tx_fault \<Rightarrow> gotime \<Rightarrow> caller \<Rightarrow> entity_ref \<Rightarrow> string \<Rightarrow> owner \<Rightarrow> int \<Rightarrow> string \<Rightarrow> lc_db \<Rightarrow> lc_db \<Rightarrow> ownership outcome"
where
  "Terminal fault now c entity phase own epoch reason dbr dbw =
     finish fault now c entity phase own epoch StateTerminal EventOwnerTerminal reason dbr dbw"

section \<open>Recover\<close>

text \<open>The no-row path: a duplicate of this call, a finished entity, a moved or a revived owner.\<close>

definition recover_missed ::
  "lc_db \<Rightarrow> entity_ref \<Rightarrow> string \<Rightarrow> owner \<Rightarrow> ownership \<Rightarrow> ownership outcome" where
  "recover_missed db entity phase newOwner current =
     (case readOwnership db entity phase of
        None \<Rightarrow> (db, None, Some ErrNotFound)
      | Some latest \<Rightarrow>
          if o_epoch latest = o_epoch current + 1 \<and> o_owner latest = newOwner \<and>
             o_state latest = StateActive
          then (db, Some latest, None)
          else if o_state latest \<noteq> StateActive \<and> o_state latest \<noteq> StateHandingOff
          then (db, None, Some ErrNotOwner)
          else if o_epoch latest \<noteq> o_epoch current then (db, None, Some ErrEpochMismatch)
          else (db, None, Some ErrOwnerAlive))"

definition recover_body ::
  "gotime \<Rightarrow> caller \<Rightarrow> entity_ref \<Rightarrow> string \<Rightarrow> owner \<Rightarrow> int \<Rightarrow> string \<Rightarrow> owner_config \<Rightarrow> lc_db \<Rightarrow> lc_db \<Rightarrow> ownership outcome"
where
  "recover_body now c entity phase newOwner expectedEpoch evidence cfg dbr dbw =
     (case readOwnership dbr entity phase of
        None \<Rightarrow> (dbw, None, Some ErrNotFound)
      | Some current \<Rightarrow>
          if o_epoch current \<noteq> expectedEpoch then (dbw, None, Some ErrEpochMismatch)
          else if o_state current \<noteq> StateActive \<and> o_state current \<noteq> StateHandingOff
          then (dbw, None, Some ErrNotOwner)
          else if \<not> IsDead (Some current) now then (dbw, None, Some ErrOwnerAlive)
          else (case exec (recoverUpdateSQL newOwner StateActive now (''recovered: '' @ evidence)
                      (cfg_policy_ref cfg) (cfg_temporal_workflow_id cfg) (lkey_of entity phase)
                      (o_epoch current) (o_last_seen_at current)) dbw of
                  (db', Some recovered) \<Rightarrow>
                    (let cause = (if HandoffStalled (Some current) now
                                  then ''handoff to '' @ handoffTargetOf (Some current) @ '' abandoned''
                                  else ''dead'')
                     in (insertEvent c (o_entity recovered) phase EventRecovered (o_epoch recovered)
                           newOwner
                           (''from '' @ owner_text (o_owner current) @ '' ('' @ cause @
                            '', last seen '' @ rfc3339 (o_last_seen_at current) @ ''): '' @ evidence)
                           now db',
                         Some recovered, None))
                | (db', None) \<Rightarrow> recover_missed db' entity phase newOwner current))"

definition Recover ::
  "tx_fault \<Rightarrow> gotime \<Rightarrow> caller \<Rightarrow> entity_ref \<Rightarrow> string \<Rightarrow> owner \<Rightarrow> int \<Rightarrow> string \<Rightarrow> owner_config \<Rightarrow> lc_db \<Rightarrow> lc_db \<Rightarrow> ownership outcome"
where
  "Recover fault now c entity phase newOwner expectedEpoch evidence cfg dbr dbw =
     (case validate entity phase of
        Some e \<Rightarrow> (dbw, None, Some e)
      | None \<Rightarrow>
          if owner_blank newOwner
          then (dbw, None, Some (ErrPlain ''lifecycle: recover: owner type and id are required''))
          else if evidence = ''''
          then (dbw, None, Some (ErrPlain ''lifecycle: recover: evidence is required''))
          else if expectedEpoch \<le> 0
          then (dbw, None, Some (ErrPlain ''lifecycle: recover: expectedEpoch is required''))
          else nil_on_error
            (inTx fault dbw
               (recover_body now c entity phase newOwner expectedEpoch evidence cfg dbr dbw)))"

section \<open>Reads\<close>

definition Get :: "entity_ref \<Rightarrow> string \<Rightarrow> lc_db \<Rightarrow> lc_error + ownership" where
  "Get entity phase db =
     (case validate entity phase of
        Some e \<Rightarrow> Inl e
      | None \<Rightarrow> (case readOwnership db entity phase of None \<Rightarrow> Inl ErrNotFound | Some o' \<Rightarrow> Inr o'))"

definition GetMany ::
  "string \<Rightarrow> string \<Rightarrow> string list \<Rightarrow> lc_db \<Rightarrow> lc_error + (string \<rightharpoonup> ownership)" where
  "GetMany kind phase ids db =
     (if \<not> LegalPhase kind phase then Inl ErrUnknownPhase
      else if ids = [] then Inr Map.empty
      else Inr (fold (\<lambda>r m. m(e_id (o_entity (scanRow r)) \<mapsto> scanRow r))
             (filter (\<lambda>r. r_entity_kind r = kind \<and> r_phase r = phase \<and> r_entity_id r \<in> set ids)
                (db_rows db))
             Map.empty))"

record list_filter =
  lf_kind :: string
  lf_phase :: string
  lf_state :: string
  lf_owner_type :: string
  lf_limit :: int

definition List_ownership :: "list_filter \<Rightarrow> lc_db \<Rightarrow> ownership list" where
  "List_ownership f db =
     map scanRow
       (take (nat (clamp_limit 100 500 (lf_limit f)))
          (sort_key (\<lambda>r. - r_updated_at r)
             (filter (\<lambda>r. (lf_kind f = '''' \<or> r_entity_kind r = lf_kind f) \<and>
                          (lf_phase f = '''' \<or> r_phase r = lf_phase f) \<and>
                          (lf_state f = '''' \<or> ostate_text (r_state r) = lf_state f) \<and>
                          (lf_owner_type f = '''' \<or> r_owner_type r = lf_owner_type f))
                (db_rows db))))"

definition Events :: "entity_ref \<Rightarrow> string \<Rightarrow> int \<Rightarrow> lc_db \<Rightarrow> lc_error + lc_event list" where
  "Events entity phase limit db =
     (case validate entity phase of
        Some e \<Rightarrow> Inl e
      | None \<Rightarrow> Inr (take (nat (clamp_limit 100 500 limit))
          (sort_key (\<lambda>e. - ev_id e)
             (filter (\<lambda>e. e_kind (ev_entity e) = e_kind entity \<and> e_id (ev_entity e) = e_id entity \<and>
                          ev_phase e = phase) (db_events db)))))"

end
