(* ===== verification/Lifecycle_Recovery.thy ===== *)
theory Lifecycle_Recovery
  imports Lifecycle_Store
begin

text \<open>
  The transitions a human codeowner drives, \<open>internal/lifecycle/recovery.go\<close>: fencing a dead
  claim, escalating a stuck one into a handoff, re-arming a stalled handoff and asking for a
  reconcile.  They take the two databases of \<open>Lifecycle_Store\<close>.
\<close>

record recovery_preconditions =
  rp_expected_owner :: owner
  rp_expected_epoch :: int
  rp_expected_version :: "string option"
  rp_expected_last_seen_at :: "gotime option"

record recovery_request =
  rq_entity :: entity_ref
  rq_phase :: string
  rq_pre :: recovery_preconditions
  rq_principal :: string
  rq_reason :: string

record snapshot =
  sn_owner :: owner
  sn_epoch :: int
  sn_state :: ostate
  sn_version :: string
  sn_last_seen_at :: gotime

record recovery_result =
  rr_ownership :: ownership
  rr_before :: snapshot
  rr_licensed :: string
  rr_event :: event_name

definition snapshotOf :: "ownership \<Rightarrow> snapshot" where
  "snapshotOf o' = \<lparr>sn_owner = o_owner o', sn_epoch = o_epoch o', sn_state = o_state o',
     sn_version = e_version (o_entity o'), sn_last_seen_at = o_last_seen_at o'\<rparr>"

definition validatePreconditions :: "recovery_preconditions \<Rightarrow> lc_error option" where
  "validatePreconditions pre =
     (if ow_type (rp_expected_owner pre) = '''' \<or> ow_id (rp_expected_owner pre) = ''''
      then Some ErrInvalidPrecondition
      else if rp_expected_epoch pre \<le> 0 then Some ErrInvalidPrecondition
      else if rp_expected_version pre = None then Some ErrInvalidPrecondition
      else None)"

definition validateRecoveryRequest :: "recovery_request \<Rightarrow> lc_error option" where
  "validateRecoveryRequest req =
     (if rq_principal req = '''' then Some ErrInvalidPrecondition
      else if rq_reason req = '''' then Some ErrInvalidPrecondition
      else validatePreconditions (rq_pre req))"

definition checkPreconditions :: "ownership \<Rightarrow> recovery_preconditions \<Rightarrow> lc_error option" where
  "checkPreconditions current pre =
     (if o_epoch current \<noteq> rp_expected_epoch pre then Some ErrEpochMismatch
      else if o_owner current \<noteq> rp_expected_owner pre then Some ErrOwnerMismatch
      else if (case rp_expected_version pre of None \<Rightarrow> False
               | Some v \<Rightarrow> e_version (o_entity current) \<noteq> v) then Some ErrVersionMismatch
      else if (case rp_expected_last_seen_at pre of None \<Rightarrow> False
               | Some t \<Rightarrow> o_last_seen_at current \<noteq> t) then Some ErrLastSeenAtMismatch
      else None)"

text \<open>The version the statements pin; the request is validated before it is read.\<close>

definition pinned_version :: "recovery_preconditions \<Rightarrow> string" where
  "pinned_version pre = (case rp_expected_version pre of None \<Rightarrow> '''' | Some v \<Rightarrow> v)"

definition codeowner :: "recovery_request \<Rightarrow> owner" where
  "codeowner req = \<lparr>ow_type = OwnerHumanCodeowner, ow_id = rq_principal req\<rparr>"

section \<open>FenceDeadClaim\<close>

text \<open>\<open>now2\<close> is the clock as read again on the no-row path.\<close>

definition fenceRaceLost ::
  "gotime \<Rightarrow> lc_db \<Rightarrow> entity_ref \<Rightarrow> string \<Rightarrow> recovery_preconditions \<Rightarrow> lc_error" where
  "fenceRaceLost now2 db entity phase pre =
     (case readOwnership db entity phase of
        None \<Rightarrow> ErrNotFound
      | Some latest \<Rightarrow>
          (case checkPreconditions latest pre of
             Some e \<Rightarrow> e
           | None \<Rightarrow>
               if o_state latest \<noteq> StateActive \<and> o_state latest \<noteq> StateHandingOff then ErrNotOwner
               else if \<not> IsDead (Some latest) now2 then ErrOwnerAlive
               else ErrStaleRead))"

definition fence_body ::
  "gotime \<Rightarrow> gotime \<Rightarrow> caller \<Rightarrow> recovery_request \<Rightarrow> lc_db \<Rightarrow> lc_db \<Rightarrow> recovery_result outcome" where
  "fence_body now now2 c req dbr dbw =
     (case readOwnership dbr (rq_entity req) (rq_phase req) of
        None \<Rightarrow> (dbw, None, Some ErrNotFound)
      | Some current \<Rightarrow>
          (case checkPreconditions current (rq_pre req) of
             Some e \<Rightarrow> (dbw, None, Some e)
           | None \<Rightarrow>
               if o_state current \<noteq> StateActive \<and> o_state current \<noteq> StateHandingOff
               then (dbw, None, Some ErrNotOwner)
               else if \<not> IsDead (Some current) now then (dbw, None, Some ErrOwnerAlive)
               else
                 let stalled = HandoffStalled (Some current) now;
                     licensed = (if stalled then ''handoff-stalled'' else ''dead'');
                     cause = (if stalled
                              then ''handoff to '' @ handoffTargetOf (Some current) @ '' abandoned''
                              else ''dead'');
                     reasonText = ''fenced: '' @ owner_text (o_owner current) @ '' at epoch '' @
                       show_int (o_epoch current) @ ''->'' @ show_int (o_epoch current + 1) @
                       '' ('' @ cause @ ''): '' @ rq_reason req
                 in case exec (fenceUpdateSQL now reasonText
                          (lkey_of (rq_entity req) (rq_phase req))
                          (rp_expected_epoch (rq_pre req)) (rp_expected_owner (rq_pre req))
                          (pinned_version (rq_pre req)) (o_last_seen_at current)) dbw of
                      (db', Some recovered) \<Rightarrow>
                        (insertEvent c (o_entity recovered) (rq_phase req) EventFenced
                           (o_epoch recovered) (codeowner req) reasonText now db',
                         Some \<lparr>rr_ownership = recovered, rr_before = snapshotOf current,
                               rr_licensed = licensed, rr_event = EventFenced\<rparr>,
                         None)
                    | (db', None) \<Rightarrow>
                        (db', None, Some (fenceRaceLost now2 db' (rq_entity req) (rq_phase req)
                                            (rq_pre req)))))"

definition FenceDeadClaim ::
  "tx_fault \<Rightarrow> gotime \<Rightarrow> gotime \<Rightarrow> caller \<Rightarrow> recovery_request \<Rightarrow> lc_db \<Rightarrow> lc_db \<Rightarrow> recovery_result outcome"
where
  "FenceDeadClaim fault now now2 c req dbr dbw =
     (case validate (rq_entity req) (rq_phase req) of
        Some e \<Rightarrow> (dbw, None, Some e)
      | None \<Rightarrow>
          (case validateRecoveryRequest req of
             Some e \<Rightarrow> (dbw, None, Some e)
           | None \<Rightarrow> nil_on_error (inTx fault dbw (fence_body now now2 c req dbr dbw))))"

section \<open>RequestHandoff\<close>

definition recoveryRaceLost ::
  "lc_db \<Rightarrow> entity_ref \<Rightarrow> string \<Rightarrow> recovery_preconditions \<Rightarrow> lc_error" where
  "recoveryRaceLost db entity phase pre =
     (case readOwnership db entity phase of
        None \<Rightarrow> ErrNotFound
      | Some latest \<Rightarrow>
          (case checkPreconditions latest pre of
             Some e \<Rightarrow> e
           | None \<Rightarrow>
               if o_state latest \<noteq> StateActive \<and> o_state latest \<noteq> StateHandingOff then ErrNotOwner
               else ErrStaleRead))"

definition request_handoff_body ::
  "gotime \<Rightarrow> caller \<Rightarrow> recovery_request \<Rightarrow> owner \<Rightarrow> lc_db \<Rightarrow> lc_db \<Rightarrow> recovery_result outcome" where
  "request_handoff_body now c req toOwner dbr dbw =
     (case readOwnership dbr (rq_entity req) (rq_phase req) of
        None \<Rightarrow> (dbw, None, Some ErrNotFound)
      | Some current \<Rightarrow>
          (case checkPreconditions current (rq_pre req) of
             Some e \<Rightarrow> (dbw, None, Some e)
           | None \<Rightarrow>
               if o_state current = StateHandingOff then (dbw, None, Some ErrOwnerNotStuck)
               else if o_state current \<noteq> StateActive then (dbw, None, Some ErrNotOwner)
               else if IsDead (Some current) now then (dbw, None, Some ErrOwnerNotStuck)
               else if \<not> IsStuck (Some current) now then (dbw, None, Some ErrOwnerNotStuck)
               else
                 case exec (handoffRequestUpdateSQL StateHandingOff toOwner now now now
                        (lkey_of (rq_entity req) (rq_phase req)) StateActive
                        (rp_expected_epoch (rq_pre req)) (rp_expected_owner (rq_pre req))
                        (pinned_version (rq_pre req))) dbw of
                   (db', Some updated) \<Rightarrow>
                     (insertEvent c (o_entity updated) (rq_phase req) EventHandoffRequested
                        (o_epoch updated) (codeowner req)
                        (''handoff requested to '' @ owner_text toOwner @ '' (owner stuck since '' @
                         rfc3339 (o_last_progress_at current) @ ''): '' @ rq_reason req) now db',
                      Some \<lparr>rr_ownership = updated, rr_before = snapshotOf current,
                            rr_licensed = ''stuck'', rr_event = EventHandoffRequested\<rparr>,
                      None)
                 | (db', None) \<Rightarrow>
                     (db', None, Some (recoveryRaceLost db' (rq_entity req) (rq_phase req)
                                         (rq_pre req)))))"

definition RequestHandoff ::
  "tx_fault \<Rightarrow> gotime \<Rightarrow> caller \<Rightarrow> recovery_request \<Rightarrow> owner \<Rightarrow> lc_db \<Rightarrow> lc_db \<Rightarrow> recovery_result outcome"
where
  "RequestHandoff fault now c req toOwner dbr dbw =
     (case validate (rq_entity req) (rq_phase req) of
        Some e \<Rightarrow> (dbw, None, Some e)
      | None \<Rightarrow>
          (case validateRecoveryRequest req of
             Some e \<Rightarrow> (dbw, None, Some e)
           | None \<Rightarrow>
               if owner_blank toOwner then (dbw, None, Some ErrInvalidPrecondition)
               else nil_on_error (inTx fault dbw (request_handoff_body now c req toOwner dbr dbw))))"

section \<open>RetryHandoff\<close>

definition retry_handoff_body ::
  "gotime \<Rightarrow> caller \<Rightarrow> recovery_request \<Rightarrow> lc_db \<Rightarrow> lc_db \<Rightarrow> recovery_result outcome" where
  "retry_handoff_body now c req dbr dbw =
     (case readOwnership dbr (rq_entity req) (rq_phase req) of
        None \<Rightarrow> (dbw, None, Some ErrNotFound)
      | Some current \<Rightarrow>
          (case checkPreconditions current (rq_pre req) of
             Some e \<Rightarrow> (dbw, None, Some e)
           | None \<Rightarrow>
               (case (o_state current = StateHandingOff, o_handoff_to current,
                      o_handoff_started_at current) of
                  (True, Some to, Some started) \<Rightarrow>
                    if \<not> HandoffStalled (Some current) now
                    then (dbw, None, Some ErrHandoffNotStalled)
                    else
                      (case exec (handoffRetryUpdateSQL now
                             (lkey_of (rq_entity req) (rq_phase req)) to started
                             (rp_expected_epoch (rq_pre req)) (rp_expected_owner (rq_pre req))
                             (pinned_version (rq_pre req))) dbw of
                         (db', Some updated) \<Rightarrow>
                           (insertEvent c (o_entity updated) (rq_phase req) EventHandoffRetried
                              (o_epoch updated) (codeowner req)
                              (''handoff to '' @ owner_text to @ '' re-armed (stalled since '' @
                               rfc3339 started @ ''): '' @ rq_reason req) now db',
                            Some \<lparr>rr_ownership = updated, rr_before = snapshotOf current,
                                  rr_licensed = ''handoff-stalled'',
                                  rr_event = EventHandoffRetried\<rparr>,
                            None)
                       | (db', None) \<Rightarrow>
                           (db', None, Some (recoveryRaceLost db' (rq_entity req) (rq_phase req)
                                               (rq_pre req))))
                | _ \<Rightarrow> (dbw, None, Some ErrNoHandoff))))"

definition RetryHandoff ::
  "tx_fault \<Rightarrow> gotime \<Rightarrow> caller \<Rightarrow> recovery_request \<Rightarrow> lc_db \<Rightarrow> lc_db \<Rightarrow> recovery_result outcome"
where
  "RetryHandoff fault now c req dbr dbw =
     (case validate (rq_entity req) (rq_phase req) of
        Some e \<Rightarrow> (dbw, None, Some e)
      | None \<Rightarrow>
          (case validateRecoveryRequest req of
             Some e \<Rightarrow> (dbw, None, Some e)
           | None \<Rightarrow> nil_on_error (inTx fault dbw (retry_handoff_body now c req dbr dbw))))"

section \<open>RequestReconcile\<close>

definition reconcile_body ::
  "gotime \<Rightarrow> caller \<Rightarrow> recovery_request \<Rightarrow> lc_db \<Rightarrow> lc_db \<Rightarrow> recovery_result outcome" where
  "reconcile_body now c req dbr dbw =
     (case readOwnership dbr (rq_entity req) (rq_phase req) of
        None \<Rightarrow> (dbw, None, Some ErrNotFound)
      | Some current \<Rightarrow>
          (case checkPreconditions current (rq_pre req) of
             Some e \<Rightarrow> (dbw, None, Some e)
           | None \<Rightarrow>
               (insertEvent c (o_entity current) (rq_phase req) EventReconcileRequested
                  (o_epoch current) (codeowner req) (rq_reason req) now dbw,
                Some \<lparr>rr_ownership = current, rr_before = snapshotOf current,
                      rr_licensed = ''none'', rr_event = EventReconcileRequested\<rparr>,
                None)))"

definition RequestReconcile ::
  "tx_fault \<Rightarrow> gotime \<Rightarrow> caller \<Rightarrow> recovery_request \<Rightarrow> lc_db \<Rightarrow> lc_db \<Rightarrow> recovery_result outcome"
where
  "RequestReconcile fault now c req dbr dbw =
     (case validate (rq_entity req) (rq_phase req) of
        Some e \<Rightarrow> (dbw, None, Some e)
      | None \<Rightarrow>
          (case validateRecoveryRequest req of
             Some e \<Rightarrow> (dbw, None, Some e)
           | None \<Rightarrow> nil_on_error (inTx fault dbw (reconcile_body now c req dbr dbw))))"

end
