(* ===== verification/Lifecycle_Step.thy ===== *)
theory Lifecycle_Step
  imports Lifecycle_Recovery
begin

text \<open>
  The contract of the ownership store, apart from its code: the changes one row may go
  through (\<open>lrow_step\<close>, one rule per kind of write), the claim a row stands for
  (\<open>claim_of\<close>) with the abstract protocol of claims (\<open>claim_step\<close>), the invariants of a row
  and their preservation by every step.
\<close>

section \<open>Changes of a row\<close>

text \<open>
  \<open>locked\<close> says that the write happens in the database the decision was read from.  The
  clock a step writes for an owner that is leaving is the one stored only then.
\<close>

inductive lrow_step :: "bool \<Rightarrow> gotime \<Rightarrow> lkey \<Rightarrow> lrow option \<Rightarrow> lrow \<Rightarrow> bool"
  for locked :: bool and now :: gotime and k :: lkey where
  create: "lkey_of (aq_entity req) (aq_phase req) = k \<Longrightarrow> validate (aq_entity req) (aq_phase req) = None \<Longrightarrow>
     \<not> owner_blank (aq_owner req) \<Longrightarrow> lrow_step locked now k None (acquire_values now req)"
| take: "lrow_key r = k \<Longrightarrow> \<not> held_state (r_state r) \<Longrightarrow> \<not> owner_blank (aq_owner req) \<Longrightarrow>
     ex = acquire_values now req \<Longrightarrow>
     lrow_step locked now k (Some r)
       (r\<lparr>r_entity_version := r_entity_version ex,
          r_owner_type := r_owner_type ex, r_owner_id := r_owner_id ex,
          r_epoch := r_epoch r + 1, r_state := StateActive,
          r_acquired_at := now, r_last_seen_at := now, r_last_progress_at := now,
          r_progress_evidence := r_progress_evidence ex,
          r_proposal_ref := r_proposal_ref ex, r_policy_ref := r_policy_ref ex,
          r_handoff_to_type := '''', r_handoff_to_id := '''',
          r_handoff_from_type := '''', r_handoff_from_id := '''',
          r_handoff_started_at := None, r_released_at := None, r_released_reason := '''',
          r_temporal_workflow_id := r_temporal_workflow_id ex, r_updated_at := now\<rparr>)"
| refresh: "lrow_key r = k \<Longrightarrow> held_state (r_state r) \<Longrightarrow>
     (r_state r = StateActive \<Longrightarrow> seen = now) \<Longrightarrow>
     (r_state r = StateHandingOff \<Longrightarrow> locked \<Longrightarrow> seen = r_last_seen_at r) \<Longrightarrow>
     lrow_step locked now k (Some r)
       (r\<lparr>r_last_seen_at := seen, r_entity_version := v, r_temporal_workflow_id := w,
          r_updated_at := now\<rparr>)"
| progress: "lrow_key r = k \<Longrightarrow> held_state (r_state r) \<Longrightarrow>
     (r_state r = StateActive \<Longrightarrow> seen = now) \<Longrightarrow>
     (r_state r = StateHandingOff \<Longrightarrow> locked \<Longrightarrow> seen = r_last_seen_at r) \<Longrightarrow>
     lrow_step locked now k (Some r)
       (r\<lparr>r_last_progress_at := now, r_last_seen_at := seen, r_progress_evidence := evidence,
          r_entity_version := v, r_updated_at := now\<rparr>)"
| handoff: "lrow_key r = k \<Longrightarrow> held_state (r_state r) \<Longrightarrow> \<not> owner_blank to \<Longrightarrow>
     (r_state r = StateActive \<Longrightarrow> seen = now \<and> started = now) \<Longrightarrow>
     (r_state r = StateHandingOff \<Longrightarrow> locked \<Longrightarrow>
        seen = r_last_seen_at r \<and> (started = now \<or> r_handoff_started_at r = Some started)) \<Longrightarrow>
     lrow_step locked now k (Some r)
       (r\<lparr>r_state := StateHandingOff, r_handoff_to_type := ow_type to, r_handoff_to_id := ow_id to,
          r_handoff_started_at := Some started, r_last_seen_at := seen, r_updated_at := now\<rparr>)"
| complete: "lrow_key r = k \<Longrightarrow> r_state r = StateHandingOff \<Longrightarrow> \<not> owner_blank incoming \<Longrightarrow>
     r_handoff_to_type r = ow_type incoming \<Longrightarrow> r_handoff_to_id r = ow_id incoming \<Longrightarrow>
     lrow_step locked now k (Some r)
       (r\<lparr>r_owner_type := ow_type incoming, r_owner_id := ow_id incoming,
          r_epoch := r_epoch r + 1, r_state := StateActive,
          r_acquired_at := now, r_last_seen_at := now, r_last_progress_at := now,
          r_progress_evidence := ''handoff completed'',
          r_temporal_workflow_id := w, r_policy_ref := p,
          r_handoff_from_type := r_owner_type r, r_handoff_from_id := r_owner_id r,
          r_handoff_to_type := '''', r_handoff_to_id := '''', r_handoff_started_at := None,
          r_released_at := None, r_released_reason := '''', r_updated_at := now\<rparr>)"
| finish: "lrow_key r = k \<Longrightarrow> held_state (r_state r) \<Longrightarrow> \<not> held_state st \<Longrightarrow>
     lrow_step locked now k (Some r)
       (r\<lparr>r_state := st, r_released_at := Some now, r_released_reason := reason,
          r_handoff_to_type := '''', r_handoff_to_id := '''',
          r_handoff_started_at := None, r_updated_at := now\<rparr>)"
| seize: "lrow_key r = k \<Longrightarrow> held_state (r_state r) \<Longrightarrow> IsDead (Some (scanRow r)) now \<Longrightarrow>
     \<not> owner_blank own \<Longrightarrow>
     lrow_step locked now k (Some r)
       (r\<lparr>r_owner_type := ow_type own, r_owner_id := ow_id own,
          r_epoch := r_epoch r + 1, r_state := StateActive,
          r_acquired_at := now, r_last_seen_at := now, r_last_progress_at := now,
          r_progress_evidence := evidence, r_policy_ref := p, r_temporal_workflow_id := w,
          r_handoff_from_type := r_owner_type r, r_handoff_from_id := r_owner_id r,
          r_handoff_to_type := '''', r_handoff_to_id := '''', r_handoff_started_at := None,
          r_released_at := None, r_released_reason := '''', r_updated_at := now\<rparr>)"
| fence: "lrow_key r = k \<Longrightarrow> held_state (r_state r) \<Longrightarrow> IsDead (Some (scanRow r)) now \<Longrightarrow>
     lrow_step locked now k (Some r)
       (r\<lparr>r_state := StateReleased, r_epoch := r_epoch r + 1,
          r_released_at := Some now, r_released_reason := reason,
          r_handoff_to_type := '''', r_handoff_to_id := '''', r_handoff_started_at := None,
          r_updated_at := now\<rparr>)"
| escalate: "lrow_key r = k \<Longrightarrow> r_state r = StateActive \<Longrightarrow> \<not> owner_blank to \<Longrightarrow>
     (locked \<Longrightarrow> IsStuck (Some (scanRow r)) now) \<Longrightarrow>
     lrow_step locked now k (Some r)
       (r\<lparr>r_state := StateHandingOff, r_handoff_to_type := ow_type to, r_handoff_to_id := ow_id to,
          r_handoff_started_at := Some now, r_last_seen_at := now, r_updated_at := now\<rparr>)"
| rearm: "lrow_key r = k \<Longrightarrow> HandoffStalled (Some (scanRow r)) now \<Longrightarrow>
     lrow_step locked now k (Some r)
       (r\<lparr>r_handoff_started_at := Some now, r_last_seen_at := now, r_updated_at := now\<rparr>)"

section \<open>Claims\<close>

record claim =
  cm_owner :: owner
  cm_epoch :: int
  cm_state :: ostate
  cm_to :: "owner option"

definition claim_of :: "lrow \<Rightarrow> claim" where
  "claim_of r = \<lparr>cm_owner = \<lparr>ow_type = r_owner_type r, ow_id = r_owner_id r\<rparr>, cm_epoch = r_epoch r,
     cm_state = r_state r, cm_to = opt_owner (r_handoff_to_type r) (r_handoff_to_id r)\<rparr>"

text \<open>
  The protocol of claims.  \<open>dead\<close> says that the holder has not been seen within its bound;
  it is what seizing and fencing need.
\<close>

inductive claim_step :: "bool \<Rightarrow> claim option \<Rightarrow> claim option \<Rightarrow> bool" for dead :: bool where
  cs_stay: "claim_step dead x x"
| cs_create: "claim_step dead None (Some \<lparr>cm_owner = w, cm_epoch = 1, cm_state = StateActive, cm_to = None\<rparr>)"
| cs_take: "\<not> held_state (cm_state c) \<Longrightarrow>
     claim_step dead (Some c)
       (Some \<lparr>cm_owner = w, cm_epoch = cm_epoch c + 1, cm_state = StateActive, cm_to = None\<rparr>)"
| cs_handoff: "held_state (cm_state c) \<Longrightarrow>
     claim_step dead (Some c) (Some (c\<lparr>cm_state := StateHandingOff, cm_to := Some w\<rparr>))"
| cs_complete: "cm_state c = StateHandingOff \<Longrightarrow> cm_to c = Some w \<Longrightarrow>
     claim_step dead (Some c)
       (Some \<lparr>cm_owner = w, cm_epoch = cm_epoch c + 1, cm_state = StateActive, cm_to = None\<rparr>)"
| cs_finish: "held_state (cm_state c) \<Longrightarrow> \<not> held_state st \<Longrightarrow>
     claim_step dead (Some c) (Some (c\<lparr>cm_state := st, cm_to := None\<rparr>))"
| cs_seize: "dead \<Longrightarrow> held_state (cm_state c) \<Longrightarrow>
     claim_step dead (Some c)
       (Some \<lparr>cm_owner = w, cm_epoch = cm_epoch c + 1, cm_state = StateActive, cm_to = None\<rparr>)"
| cs_fence: "dead \<Longrightarrow> held_state (cm_state c) \<Longrightarrow>
     claim_step dead (Some c)
       (Some (c\<lparr>cm_epoch := cm_epoch c + 1, cm_state := StateReleased, cm_to := None\<rparr>))"

inductive_cases claim_step_someE: "claim_step dead (Some c) c'"

text \<open>Later in the protocol: the epoch has not gone back, and at one epoch there is one owner.\<close>

definition not_before :: "claim option \<Rightarrow> claim option \<Rightarrow> bool" where
  "not_before x y \<longleftrightarrow>
     (case x of None \<Rightarrow> True
      | Some c \<Rightarrow> (case y of None \<Rightarrow> False
          | Some d \<Rightarrow> cm_epoch c \<le> cm_epoch d \<and>
              (cm_epoch c = cm_epoch d \<longrightarrow> cm_owner c = cm_owner d \<and>
                 (held_state (cm_state d) \<longrightarrow> held_state (cm_state c)))))"

lemma not_before_refl [simp]: "not_before x x"
  by (auto simp: not_before_def split: option.splits)

lemma not_before_trans: "not_before x y \<Longrightarrow> not_before y z \<Longrightarrow> not_before x z"
  by (auto simp: not_before_def split: option.splits)

lemma claim_step_not_before: "claim_step dead x y \<Longrightarrow> not_before x y"
  by (induction rule: claim_step.induct) (auto simp: not_before_def held_state_def split: option.splits)

text \<open>A holder that is not dead loses its claim to nobody but the actor it handed it to.\<close>

lemma claim_step_alive:
  assumes "claim_step False (Some c) (Some d)" and "held_state (cm_state c)"
    and "cm_owner d \<noteq> cm_owner c \<or> cm_epoch d \<noteq> cm_epoch c"
  shows "cm_state c = StateHandingOff \<and> cm_to c = Some (cm_owner d)"
  using assms by (auto elim!: claim_step_someE)

section \<open>Steps of a row are steps of its claim\<close>

lemma claim_of_sel [simp]:
  "cm_epoch (claim_of r) = r_epoch r" "cm_state (claim_of r) = r_state r"
  "cm_to (claim_of r) = opt_owner (r_handoff_to_type r) (r_handoff_to_id r)"
  "cm_owner (claim_of r) = \<lparr>ow_type = r_owner_type r, ow_id = r_owner_id r\<rparr>"
  by (simp_all add: claim_of_def)

lemma opt_owner_simps [simp]:
  "opt_owner '''' '''' = None"
  "\<not> owner_blank w \<Longrightarrow> opt_owner (ow_type w) (ow_id w) = Some w"
  by (auto simp: opt_owner_def owner_blank_def)

lemma opt_owner_eq_Some: "opt_owner t i = Some w \<Longrightarrow> t = ow_type w \<and> i = ow_id w"
  by (auto simp: opt_owner_def split: if_splits)

lemma lrow_step_claim:
  "lrow_step locked now k x r' \<Longrightarrow>
     claim_step (\<exists>r. x = Some r \<and> IsDead (Some (scanRow r)) now)
       (map_option claim_of x) (Some (claim_of r'))"
proof (induction rule: lrow_step.induct)
  case (create req)
  show ?case
    using cs_create [of _ "aq_owner req"] by (simp add: claim_of_def acquire_values_def)
next
  case (take r req ex)
  then show ?case
    using cs_take [of "claim_of r" _ "aq_owner req"]
    by (simp add: claim_of_def acquire_values_def)
next
  case (refresh r seen v w)
  show ?case using cs_stay [of _ "Some (claim_of r)"] by (simp add: claim_of_def)
next
  case (progress r seen evidence v)
  show ?case using cs_stay [of _ "Some (claim_of r)"] by (simp add: claim_of_def)
next
  case (handoff r to seen started)
  then show ?case
    using cs_handoff [of "claim_of r" _ to] by (simp add: claim_of_def)
next
  case (complete r incoming w p)
  then show ?case
    using cs_complete [of "claim_of r" incoming] by (simp add: claim_of_def)
next
  case (finish r st reason)
  then show ?case
    using cs_finish [of "claim_of r" st] by (simp add: claim_of_def)
next
  case (seize r own evidence p w)
  then show ?case
    using cs_seize [of _ "claim_of r" own] by (simp add: claim_of_def)
next
  case (fence r reason)
  then show ?case
    using cs_fence [of _ "claim_of r"] by (simp add: claim_of_def)
next
  case (escalate r to)
  then show ?case
    using cs_handoff [of "claim_of r" _ to] by (simp add: claim_of_def held_state_def)
next
  case (rearm r)
  show ?case using cs_stay [of _ "Some (claim_of r)"] by (simp add: claim_of_def)
qed

section \<open>Invariants of a row\<close>

definition row_ok :: "lrow \<Rightarrow> bool" where
  "row_ok r \<longleftrightarrow>
     r_entity_id r \<noteq> '''' \<and> LegalPhase (r_entity_kind r) (r_phase r) \<and>
     \<not> owner_blank \<lparr>ow_type = r_owner_type r, ow_id = r_owner_id r\<rparr> \<and>
     1 \<le> r_epoch r \<and>
     (r_state r = StateHandingOff \<longleftrightarrow> r_handoff_started_at r \<noteq> None) \<and>
     (if r_state r = StateHandingOff
      then \<not> owner_blank \<lparr>ow_type = r_handoff_to_type r, ow_id = r_handoff_to_id r\<rparr>
      else r_handoff_to_type r = '''' \<and> r_handoff_to_id r = '''') \<and>
     (held_state (r_state r) \<longleftrightarrow> r_released_at r = None)"

text \<open>No clock of a row is ahead of \<open>now\<close>, and a handoff did not start before its owner was last seen.\<close>

definition clock_ok :: "gotime \<Rightarrow> lrow \<Rightarrow> bool" where
  "clock_ok now r \<longleftrightarrow>
     r_created_at r \<le> r_acquired_at r \<and> r_acquired_at r \<le> r_last_seen_at r \<and>
     r_acquired_at r \<le> r_last_progress_at r \<and>
     r_last_seen_at r \<le> r_updated_at r \<and> r_last_progress_at r \<le> r_updated_at r \<and>
     r_updated_at r \<le> now \<and>
     (\<forall>t. r_handoff_started_at r = Some t \<longrightarrow> r_last_seen_at r \<le> t \<and> t \<le> now)"

lemma lrow_step_row_ok:
  "lrow_step locked now k x r' \<Longrightarrow> (\<And>r. x = Some r \<Longrightarrow> row_ok r) \<Longrightarrow> row_ok r'"
  by (induction rule: lrow_step.induct)
     (auto simp: row_ok_def acquire_values_def owner_blank_def validate_def held_state_def
        HandoffStalled_iff scanRow_def split: if_splits)

lemma lrow_step_key: "lrow_step locked now k x r' \<Longrightarrow> lrow_key r' = k"
  by (induction rule: lrow_step.induct) (auto simp: lrow_key_def lkey_of_def acquire_values_def)

lemma clock_ok_mono: "clock_ok t r \<Longrightarrow> t \<le> t' \<Longrightarrow> clock_ok t' r"
  by (auto simp: clock_ok_def)

lemma lrow_step_clock_ok:
  assumes "lrow_step True now k x r'" and "\<And>r. x = Some r \<Longrightarrow> row_ok r \<and> clock_ok now r"
  shows "clock_ok now r'"
  using assms
  by (induction rule: lrow_step.induct)
     (auto simp: clock_ok_def row_ok_def acquire_values_def held_state_def split: if_splits)

text \<open>A stalled handoff is a dead owner: moving only one of the two clocks would change nothing.\<close>

lemma stalled_is_dead:
  assumes "clock_ok t r" and "HandoffStalled (Some (scanRow r)) now"
  shows "IsDead (Some (scanRow r)) now"
  using assms by (auto simp: clock_ok_def HandoffStalled_iff IsDead_iff held_state_def scanRow_def)

end
