(* ===== verification/Lifecycle_Effect.thy ===== *)
theory Lifecycle_Effect
  imports Lifecycle_Step
begin

text \<open>
  The operations of the store implement the contract: whatever the database the decision
  was read from, the body of each transaction changes at most the row of its key, by a step
  of \<open>lrow_step\<close>, and appends at most one event, which it does whenever the claim changes
  and which (under the lock) carries the epoch and the version the row then has.
\<close>

section \<open>The effect of a transaction\<close>

abbreviation tsel :: "lc_db \<Rightarrow> lkey \<Rightarrow> lrow option" where
  "tsel db k \<equiv> tselect lrow_key (db_rows db) k"

definition claim_at :: "lc_db \<Rightarrow> lkey \<Rightarrow> claim option" where
  "claim_at db k = map_option claim_of (tsel db k)"

definition dead_at :: "lc_db \<Rightarrow> lkey \<Rightarrow> gotime \<Rightarrow> bool" where
  "dead_at db k now \<longleftrightarrow> (\<exists>r. tsel db k = Some r \<and> IsDead (Some (scanRow r)) now)"

definition event_key :: "lc_event \<Rightarrow> lkey" where
  "event_key e = lkey_of (ev_entity e) (ev_phase e)"

text \<open>The event agrees with the row it describes.\<close>

definition event_agrees :: "lc_db \<Rightarrow> lc_event \<Rightarrow> bool" where
  "event_agrees db e \<longleftrightarrow>
     (\<exists>r. tsel db (event_key e) = Some r \<and> ev_owner_epoch e = r_epoch r \<and>
          e_version (ev_entity e) = r_entity_version r)"

definition rows_effect :: "bool \<Rightarrow> gotime \<Rightarrow> lkey \<Rightarrow> lc_db \<Rightarrow> lc_db \<Rightarrow> bool" where
  "rows_effect locked now k db db' \<longleftrightarrow>
     (\<forall>k'. k' \<noteq> k \<longrightarrow> tsel db' k' = tsel db k') \<and>
     (tsel db' k = tsel db k \<or> (\<exists>r'. tsel db' k = Some r' \<and> lrow_step locked now k (tsel db k) r')) \<and>
     (unique_key lrow_key (db_rows db) \<longrightarrow> unique_key lrow_key (db_rows db'))"

definition log_effect :: "bool \<Rightarrow> lkey \<Rightarrow> lc_db \<Rightarrow> lc_db \<Rightarrow> bool" where
  "log_effect locked k db db' \<longleftrightarrow>
     (\<exists>es. db_events db' = db_events db @ es \<and> length es \<le> 1 \<and>
        db_next_event db' = db_next_event db + int (length es) \<and>
        (\<forall>e \<in> set es. event_key e = k \<and> ev_id e = db_next_event db \<and>
           (locked \<longrightarrow> event_agrees db' e)) \<and>
        (claim_at db' k \<noteq> claim_at db k \<longrightarrow> es \<noteq> []))"

definition op_effect :: "bool \<Rightarrow> gotime \<Rightarrow> lkey \<Rightarrow> lc_db \<Rightarrow> lc_db \<Rightarrow> bool" where
  "op_effect locked now k db db' \<longleftrightarrow> rows_effect locked now k db db' \<and> log_effect locked k db db'"

section \<open>How an effect comes about\<close>

lemma tsel_rows [simp]: "db_rows (insertEvent c ent ph ev ep a rs now db) = db_rows db"
  by (simp add: insertEvent_def)

lemma op_effect_refl [simp]: "op_effect locked now k db db"
  by (auto simp: op_effect_def rows_effect_def log_effect_def)

lemma op_effect_event:
  assumes "lkey_of ent ph = k"
    and "locked \<Longrightarrow> \<exists>r. tsel db k = Some r \<and> ep = r_epoch r \<and> e_version ent = r_entity_version r"
  shows "op_effect locked now k db (insertEvent c ent ph ev ep a rs t db)"
proof -
  have "rows_effect locked now k db (insertEvent c ent ph ev ep a rs t db)"
    by (simp add: rows_effect_def)
  moreover have "log_effect locked k db (insertEvent c ent ph ev ep a rs t db)"
    using assms
    by (auto simp: log_effect_def event_key_def event_agrees_def claim_at_def insertEvent_def)
  ultimately show ?thesis by (simp add: op_effect_def)
qed

lemma rows_effect_put:
  assumes "lrow_step locked now k (tsel db k) r'"
  shows "rows_effect locked now k db (db\<lparr>db_rows := tput lrow_key (db_rows db) r'\<rparr>)"
  using assms lrow_step_key [OF assms]
  by (auto simp: rows_effect_def tselect_tput unique_tput)

lemma op_effect_quiet:
  assumes "lrow_step locked now k (tsel db k) r'" and "tsel db k = Some r" and "claim_of r' = claim_of r"
  shows "op_effect locked now k db (db\<lparr>db_rows := tput lrow_key (db_rows db) r'\<rparr>)"
  using assms rows_effect_put [OF assms(1)] lrow_step_key [OF assms(1)]
  by (auto simp: op_effect_def log_effect_def claim_at_def tselect_tput)

lemma scanRow_key: "lkey_of (o_entity (scanRow r)) (r_phase r) = lrow_key r"
  by (simp add: lkey_of_def scanRow_def lrow_key_def)

lemma op_effect_write:
  assumes "lrow_step locked now k (tsel db k) r'" and "ph = r_phase r'" and "ep = r_epoch r'"
  shows "op_effect locked now k db
           (insertEvent c (o_entity (scanRow r')) ph ev ep a rs t
              (db\<lparr>db_rows := tput lrow_key (db_rows db) r'\<rparr>))"
proof -
  let ?db = "db\<lparr>db_rows := tput lrow_key (db_rows db) r'\<rparr>"
  let ?db' = "insertEvent c (o_entity (scanRow r')) ph ev ep a rs t ?db"
  have k: "lrow_key r' = k" by (rule lrow_step_key [OF assms(1)])
  have "rows_effect locked now k db ?db'"
    using rows_effect_put [OF assms(1)] by (simp add: rows_effect_def)
  moreover have "log_effect locked k db ?db'"
    using assms(2,3) k scanRow_key [of r']
    by (auto simp: log_effect_def event_key_def event_agrees_def insertEvent_def tselect_tput scanRow_def)
  ultimately show ?thesis by (simp add: op_effect_def)
qed

section \<open>Statements\<close>

lemma exec_tupdate_Some:
  assumes "exec (tupdate lrow_key k p f) db = (db', Some out)"
  obtains r where "tsel db k = Some r" and "p r" and "lrow_key r = k" and "out = scanRow (f r)"
    and "db' = db\<lparr>db_rows := tput lrow_key (db_rows db) (f r)\<rparr>"
proof -
  obtain rows' r' where "tupdate lrow_key k p f (db_rows db) = (rows', Some r')"
      and o: "out = scanRow r'" "db' = db\<lparr>db_rows := rows'\<rparr>"
    using assms by (auto simp: exec_def split: prod.splits)
  from pg.upd_row [OF this(1)] obtain r where
    "tsel db k = Some r" "p r" "r' = f r" "rows' = tput lrow_key (db_rows db) (f r)"
    by blast
  with o show thesis by (intro that [of r]) (auto dest: tselect_SomeD)
qed

lemma exec_tupdate_None:
  assumes "exec (tupdate lrow_key k p f) db = (db', None)"
  shows "db' = db" and "tsel db k = Some r \<Longrightarrow> \<not> p r"
proof -
  obtain rows' where "tupdate lrow_key k p f (db_rows db) = (rows', None)" "db' = db\<lparr>db_rows := rows'\<rparr>"
    using assms by (auto simp: exec_def split: prod.splits)
  moreover from this(1) have "rows' = db_rows db \<and> (\<forall>r. tsel db k = Some r \<longrightarrow> \<not> p r)"
    by (rule pg.upd_none)
  ultimately show "db' = db" and "tsel db k = Some r \<Longrightarrow> \<not> p r"
    by simp_all
qed

lemma readOwnership_Some:
  assumes "readOwnership db entity phase = Some cur"
  obtains r where "tsel db (lkey_of entity phase) = Some r" and "cur = scanRow r"
    and "r_entity_kind r = e_kind entity" and "r_entity_id r = e_id entity" and "r_phase r = phase"
    and "lrow_key r = lkey_of entity phase"
proof -
  from assms obtain r where r: "tsel db (lkey_of entity phase) = Some r" "cur = scanRow r"
    by (auto simp: readOwnership_def)
  moreover from r(1) have "lrow_key r = lkey_of entity phase"
    by (auto dest: tselect_SomeD)
  ultimately show thesis by (intro that) (auto simp: lkey_of_def lrow_key_def)
qed

lemma currentFor_Inr:
  assumes "currentFor db entity phase own epoch = Inr cur"
  shows "readOwnership db entity phase = Some cur \<and> o_owner cur = own \<and>
         held_state (o_state cur) \<and> o_epoch cur = epoch"
  using assms by (auto simp: currentFor_def held_state_def split: option.splits if_splits)

lemma scanRow_sel [simp]:
  "o_epoch (scanRow r) = r_epoch r" "o_state (scanRow r) = r_state r"
  "o_last_seen_at (scanRow r) = r_last_seen_at r" "o_phase (scanRow r) = r_phase r"
  "o_last_progress_at (scanRow r) = r_last_progress_at r"
  "o_handoff_to (scanRow r) = opt_owner (r_handoff_to_type r) (r_handoff_to_id r)"
  "o_handoff_started_at (scanRow r) = r_handoff_started_at r"
  "o_owner (scanRow r) = \<lparr>ow_type = r_owner_type r, ow_id = r_owner_id r\<rparr>"
  "e_kind (o_entity (scanRow r)) = r_entity_kind r" "e_id (o_entity (scanRow r)) = r_entity_id r"
  "e_version (o_entity (scanRow r)) = r_entity_version r"
  by (simp_all add: scanRow_def)

text \<open>
  The shape of every body: run the statement, then go on with the row it returned, or with
  the database left alone.
\<close>

lemma effect_case_exec:
  assumes "\<And>db' out. exec stmt dbw = (db', Some out) \<Longrightarrow> op_effect locked now k dbw (fst (F db' out))"
    and "\<And>db'. exec stmt dbw = (db', None) \<Longrightarrow> op_effect locked now k dbw (fst (G db'))"
  shows "op_effect locked now k dbw
           (fst (case exec stmt dbw of (db', Some out) \<Rightarrow> F db' out | (db', None) \<Rightarrow> G db'))"
  using assms by (auto split: prod.split option.split)

lemma statement_missed:
  "exec (reacquireRefreshSQL x1 x2 x3 x4 k x5 x6 x7) db = (db', None) \<Longrightarrow> db' = db"
  "exec (progressUpdateSQL x1 x8 x2 x3 k x5 x7) db = (db', None) \<Longrightarrow> db' = db"
  "exec (handoffStartUpdateSQL x7 x6 x1 x4 x8 k x5 x9 x10) db = (db', None) \<Longrightarrow> db' = db"
  "exec (handoffCompleteUpdateSQL x6 x7 x1 k x5 x2 x3 x9) db = (db', None) \<Longrightarrow> db' = db"
  "exec (finishUpdateSQL x7 x1 x2 k x5) db = (db', None) \<Longrightarrow> db' = db"
  "exec (recoverUpdateSQL x6 x7 x1 x2 x3 x11 k x5 x4) db = (db', None) \<Longrightarrow> db' = db"
  "exec (fenceUpdateSQL x1 x2 k x5 x6 x3 x4) db = (db', None) \<Longrightarrow> db' = db"
  "exec (handoffRequestUpdateSQL x7 x6 x1 x4 x8 k x9 x5 x10 x2) db = (db', None) \<Longrightarrow> db' = db"
  "exec (handoffRetryUpdateSQL x1 k x6 x4 x5 x10 x2) db = (db', None) \<Longrightarrow> db' = db"
  by (simp_all add: reacquireRefreshSQL_def progressUpdateSQL_def handoffStartUpdateSQL_def
        handoffCompleteUpdateSQL_def finishUpdateSQL_def recoverUpdateSQL_def fenceUpdateSQL_def
        handoffRequestUpdateSQL_def handoffRetryUpdateSQL_def exec_tupdate_None(1))

lemma effect_updated:
  assumes "exec (tupdate lrow_key k p f) dbw = (db', Some out)"
    and "\<And>r. tsel dbw k = Some r \<Longrightarrow> p r \<Longrightarrow> lrow_key r = k \<Longrightarrow> lrow_step locked now k (Some r) (f r)"
    and "k = (a, b, ph)" and "ep = o_epoch out"
  shows "op_effect locked now k dbw (insertEvent c (o_entity out) ph ev ep actor rs t db')"
proof -
  from assms(1) obtain r where r: "tsel dbw k = Some r" "p r" "lrow_key r = k" "out = scanRow (f r)"
      and db': "db' = dbw\<lparr>db_rows := tput lrow_key (db_rows dbw) (f r)\<rparr>"
    by (rule exec_tupdate_Some)
  from r assms(2) have step: "lrow_step locked now k (tsel dbw k) (f r)" by simp
  from lrow_step_key [OF step] assms(3) have "ph = r_phase (f r)" by (simp add: lrow_key_def)
  with op_effect_write [OF step] r(4) db' assms(4) show ?thesis by simp
qed

lemma IsDead_transfer:
  assumes "IsDead (Some (scanRow r0)) now" and "lrow_key r0 = lrow_key r"
    and "r_last_seen_at r = r_last_seen_at r0" and "held_state (r_state r)"
  shows "IsDead (Some (scanRow r)) now"
  using assms by (auto simp: IsDead_iff lrow_key_def)

lemma HandoffStalled_transfer:
  assumes "HandoffStalled (Some (scanRow r0)) now" and "lrow_key r0 = lrow_key r"
    and "r_handoff_started_at r = r_handoff_started_at r0" and "r_state r = StateHandingOff"
  shows "HandoffStalled (Some (scanRow r)) now"
  using assms by (auto simp: HandoffStalled_iff lrow_key_def)

section \<open>store.go\<close>

lemma reacquire_write:
  assumes "exec (reacquireRefreshSQL seen version workflow t k epoch own st) dbw = (db', Some out)"
    and "t = now" and "held_state st" and "st = StateActive \<Longrightarrow> seen = now"
    and "\<And>r. tsel dbw k = Some r \<Longrightarrow> r_state r = StateHandingOff \<Longrightarrow> st = StateHandingOff \<Longrightarrow> locked \<Longrightarrow>
               seen = r_last_seen_at r"
  shows "op_effect locked now k dbw db'"
proof -
  from assms(1) [unfolded reacquireRefreshSQL_def] obtain r where
    r: "tsel dbw k = Some r" "r_state r = st" "lrow_key r = k"
    and db': "db' = dbw\<lparr>db_rows := tput lrow_key (db_rows dbw)
      (r\<lparr>r_last_seen_at := seen, r_entity_version := coalesce_nonempty version (r_entity_version r),
         r_temporal_workflow_id := coalesce_nonempty workflow (r_temporal_workflow_id r),
         r_updated_at := t\<rparr>)\<rparr>"
    by (rule exec_tupdate_Some) blast
  show ?thesis
    unfolding db' using r assms
    by (intro op_effect_quiet [where r = r]) (auto simp: claim_of_def intro!: lrow_step.refresh)
qed

lemma acquire_reacquire_effect:
  assumes "readOwnership dbr (aq_entity req) (aq_phase req) = Some existing"
    and "held_state (o_state existing)"
  shows "op_effect (dbr = dbw) now (lkey_of (aq_entity req) (aq_phase req)) dbw
           (fst (acquire_reacquire now req existing dbw))"
proof -
  from assms(1) obtain r0 where
    "tsel dbr (lkey_of (aq_entity req) (aq_phase req)) = Some r0" "existing = scanRow r0"
    by (rule readOwnership_Some)
  then show ?thesis
    unfolding acquire_reacquire_def Let_def using assms(2)
    by (intro effect_case_exec)
      (auto dest!: statement_missed intro: reacquire_write split: option.split)
qed

lemma acquire_upsert_effect:
  assumes v: "validate (aq_entity req) (aq_phase req) = None" and w: "\<not> owner_blank (aq_owner req)"
  shows "op_effect locked now (lkey_of (aq_entity req) (aq_phase req)) dbw
           (fst (acquire_upsert now c req dbw))"
proof -
  let ?k = "lkey_of (aq_entity req) (aq_phase req)" and ?ex = "acquire_values now req"
  have k: "lrow_key ?ex = ?k" by (simp add: lrow_key_def lkey_of_def acquire_values_def)
  consider (none) "tsel dbw ?k = None"
    | (free) r where "tsel dbw ?k = Some r" "\<not> held_state (r_state r)"
    | (held) r where "tsel dbw ?k = Some r" "held_state (r_state r)"
    by (cases "tsel dbw ?k") auto
  then show ?thesis
  proof cases
    case none
    then have "lrow_step locked now ?k (tsel dbw ?k) ?ex"
      using v w by (simp add: lrow_step.create)
    from op_effect_write [OF this] none k show ?thesis
      by (simp add: acquire_upsert_def exec_def acquireUpsertSQL_def) (simp add: acquire_values_def)
  next
    case free
    then have "lrow_key r = ?k" by (auto dest: tselect_SomeD)
    note step = lrow_step.take [OF this free(2) w refl, of locked now]
    from free(2) have st: "r_state r = StateReleased \<or> r_state r = StateTerminal"
      by (cases "r_state r") (auto simp: held_state_def)
    from \<open>lrow_key r = ?k\<close> have "r_phase r = aq_phase req" by (simp add: lrow_key_def lkey_of_def)
    with op_effect_write [OF step [folded free(1)]] free(1) k st show ?thesis
      by (simp add: acquire_upsert_def exec_def acquireUpsertSQL_def Let_def acquire_values_def)
  next
    case held
    then have key: "lrow_key r = ?k" by (auto dest: tselect_SomeD)
    from held(2) have "\<not> (r_state r = StateReleased \<or> r_state r = StateTerminal)"
      by (auto simp: held_state_def)
    with held k have up: "acquireUpsertSQL ?ex (db_rows dbw) = (db_rows dbw, None)"
      by (simp add: acquireUpsertSQL_def)
    have "op_effect locked now ?k dbw
        (insertEvent c (o_entity (scanRow r)) (aq_phase req) EventOwnerDenied (r_epoch r)
           (aq_owner req) rs now dbw)" for rs
      using held(1) key
      by (intro op_effect_event) (auto simp: lkey_of_def lrow_key_def scanRow_def)
    with up held(1) show ?thesis
      by (simp add: acquire_upsert_def exec_def readOwnership_def)
  qed
qed

lemma acquire_effect:
  assumes "validate (aq_entity req) (aq_phase req) = None" and "\<not> owner_blank (aq_owner req)"
  shows "op_effect (dbr = dbw) now (lkey_of (aq_entity req) (aq_phase req)) dbw
           (fst (acquire_body now c req dbr dbw))"
proof (cases "readOwnership dbr (aq_entity req) (aq_phase req)")
  case None
  then show ?thesis using acquire_upsert_effect [OF assms] by (simp add: acquire_body_def)
next
  case (Some existing)
  then obtain r where r: "tsel dbr (lkey_of (aq_entity req) (aq_phase req)) = Some r"
    "existing = scanRow r" "lrow_key r = lkey_of (aq_entity req) (aq_phase req)"
    by (rule readOwnership_Some)
  then have "op_effect (dbr = dbw) now (lkey_of (aq_entity req) (aq_phase req)) dbw
      (insertEvent c (o_entity existing) (aq_phase req) EventOwnerDenied (o_epoch existing)
         (aq_owner req) rs now dbw)" for rs
    by (intro op_effect_event) (auto simp: lkey_of_def lrow_key_def scanRow_def)
  with Some show ?thesis
    using acquire_upsert_effect [OF assms] acquire_reacquire_effect [OF Some]
    by (auto simp: acquire_body_def held_state_def)
qed


lemma progress_write:
  assumes "exec (progressUpdateSQL now seen evidence version k epoch st) dbw = (db', Some out)"
    and "held_state st" and "st = StateActive \<Longrightarrow> seen = now"
    and "\<And>r. tsel dbw k = Some r \<Longrightarrow> r_state r = StateHandingOff \<Longrightarrow> st = StateHandingOff \<Longrightarrow> locked \<Longrightarrow>
               seen = r_last_seen_at r"
    and "k = (a, b, ph)"
  shows "op_effect locked now k dbw (insertEvent c (o_entity out) ph ev epoch actor rs t db')"
proof -
  have "epoch = o_epoch out"
    using assms(1) unfolding progressUpdateSQL_def by (rule exec_tupdate_Some) simp
  with assms show ?thesis
    by (intro effect_updated [OF assms(1) [unfolded progressUpdateSQL_def]])
      (auto intro!: lrow_step.progress)
qed

lemma progress_effect:
  "op_effect (dbr = dbw) now (lkey_of entity phase) dbw
     (fst (progress_body now c entity phase own epoch evidence dbr dbw))"
proof (cases "currentFor dbr entity phase own epoch")
  case (Inl e)
  then show ?thesis by (simp add: progress_body_def)
next
  case (Inr cur)
  note cur = currentFor_Inr [OF Inr]
  then obtain r0 where "tsel dbr (lkey_of entity phase) = Some r0" "cur = scanRow r0"
    using readOwnership_Some by blast
  with cur show ?thesis
    unfolding progress_body_def Let_def Inr sum.case
    by (intro effect_case_exec)
      (auto dest!: statement_missed simp: lkey_of_def intro!: progress_write)
qed

lemma handoff_start_missed_db [simp]:
  "fst (handoff_start_missed db entity phase own epoch to cur) = db"
  by (auto simp: handoff_start_missed_def split: option.splits)

text \<open>A re-announcement of the target writes no event, and changes no claim.\<close>

lemma handoff_start_write:
  assumes "exec (handoffStartUpdateSQL StateHandingOff to started seen now k epoch st was) dbw
             = (db', Some out)"
    and "held_state st" and "\<not> owner_blank to" and "st = StateActive \<Longrightarrow> seen = now \<and> started = now"
    and "\<And>r. tsel dbw k = Some r \<Longrightarrow> r_state r = StateHandingOff \<Longrightarrow> st = StateHandingOff \<Longrightarrow> locked \<Longrightarrow>
               seen = r_last_seen_at r \<and> (started = now \<or> r_handoff_started_at r = Some started)"
    and "k = (a, b, ph)"
  shows "op_effect locked now k dbw (insertEvent c (o_entity out) ph ev epoch actor rs t db')"
    and "st = StateHandingOff \<Longrightarrow> was = to \<Longrightarrow> op_effect locked now k dbw db'"
proof -
  have "epoch = o_epoch out"
    using assms(1) unfolding handoffStartUpdateSQL_def by (rule exec_tupdate_Some) simp
  with assms show "op_effect locked now k dbw (insertEvent c (o_entity out) ph ev epoch actor rs t db')"
    by (intro effect_updated [OF assms(1) [unfolded handoffStartUpdateSQL_def]])
      (auto intro!: lrow_step.handoff)
next
  assume same: "st = StateHandingOff" "was = to"
  let ?f = "\<lambda>r. r\<lparr>r_state := StateHandingOff, r_handoff_to_type := ow_type to,
      r_handoff_to_id := ow_id to, r_handoff_started_at := Some started,
      r_last_seen_at := seen, r_updated_at := now\<rparr>"
  from assms(1) [unfolded handoffStartUpdateSQL_def] obtain r where
    r: "tsel dbw k = Some r" "r_state r = st" "r_handoff_to_type r = ow_type was"
       "r_handoff_to_id r = ow_id was" "lrow_key r = k"
    and db': "db' = dbw\<lparr>db_rows := tput lrow_key (db_rows dbw) (?f r)\<rparr>"
    by (rule exec_tupdate_Some) blast
  with same assms have "lrow_step locked now k (Some r) (?f r)"
    by (intro lrow_step.handoff) auto
  with r same show "op_effect locked now k dbw db'"
    unfolding db' by (intro op_effect_quiet [where r = r]) (auto simp: claim_of_def)
qed

lemma handoff_start_effect:
  assumes "\<not> owner_blank to"
  shows "op_effect (dbr = dbw) now (lkey_of entity phase) dbw
     (fst (handoff_start_body now c entity phase own epoch to reason dbr dbw))"
proof (cases "currentFor dbr entity phase own epoch")
  case (Inl e)
  then show ?thesis by (simp add: handoff_start_body_def)
next
  case (Inr cur)
  note cur = currentFor_Inr [OF Inr]
  then obtain r0 where r0: "tsel dbr (lkey_of entity phase) = Some r0" "cur = scanRow r0"
    using readOwnership_Some by blast
  let ?k = "(e_kind entity, e_id entity, phase)"
  let ?again = "o_state cur = StateHandingOff \<and> o_handoff_to cur = Some to"
  show ?thesis
    unfolding handoff_start_body_def Let_def Inr sum.case lkey_of_def
  proof (rule effect_case_exec)
    fix db' out
    assume ex: "exec (handoffStartUpdateSQL StateHandingOff to
        (if ?again then case o_handoff_started_at cur of Some t \<Rightarrow> t | None \<Rightarrow> now else now)
        (if o_state cur = StateHandingOff then o_last_seen_at cur else now) now ?k epoch (o_state cur)
        (case o_handoff_to cur of Some w \<Rightarrow> w | None \<Rightarrow> \<lparr>ow_type = '''', ow_id = ''''\<rparr>)) dbw
      = (db', Some out)"
    note wr = handoff_start_write [OF ex _ assms]
    have ev: "op_effect (dbr = dbw) now ?k dbw
        (insertEvent c (o_entity out) phase EventHandoffStarted epoch own rs now db')" for rs
      by (rule wr(1)) (use cur r0 in \<open>auto simp: lkey_of_def split: option.splits\<close>)
    have quiet: "op_effect (dbr = dbw) now ?k dbw db'" if ?again
      by (rule wr(2)) (use that cur r0 in \<open>auto simp: lkey_of_def split: option.splits\<close>)
    show "op_effect (dbr = dbw) now ?k dbw
        (fst (if ?again then db' else insertEvent c (o_entity out) phase EventHandoffStarted epoch own
               (''to '' @ owner_text to @ '': '' @ reason) now db', Some out, None))"
      unfolding fst_conv using ev quiet by presburger
  qed (auto dest!: statement_missed)
qed

lemma handoff_complete_write:
  assumes "exec (handoffCompleteUpdateSQL incoming StateActive now k epoch w p StateHandingOff) dbw
             = (db', Some out)"
    and "\<not> owner_blank incoming" and "k = (a, b, ph)"
  shows "op_effect locked now k dbw (insertEvent c (o_entity out) ph ev (o_epoch out) actor rs t db')"
  using assms
  by (intro effect_updated [OF assms(1) [unfolded handoffCompleteUpdateSQL_def]])
    (auto intro!: lrow_step.complete)

lemma handoff_complete_effect:
  assumes "\<not> owner_blank incoming"
  shows "op_effect locked now (lkey_of entity phase) dbw
     (fst (handoff_complete_body now c entity phase incoming cfg dbr dbw))"
  unfolding handoff_complete_body_def lkey_of_def using assms
  by (auto split: option.split dest!: statement_missed
        intro!: effect_case_exec handoff_complete_write)

lemma finish_write:
  assumes "exec (finishUpdateSQL st now reason k epoch) dbw = (db', Some out)"
    and "\<not> held_state st" and "k = (a, b, ph)"
  shows "op_effect locked now k dbw (insertEvent c (o_entity out) ph ev epoch actor rs t db')"
proof -
  have "epoch = o_epoch out"
    using assms(1) unfolding finishUpdateSQL_def by (rule exec_tupdate_Some) simp
  with assms show ?thesis
    by (intro effect_updated [OF assms(1) [unfolded finishUpdateSQL_def]])
      (auto simp: held_state_def intro!: lrow_step.finish)
qed

lemma finish_effect:
  assumes "\<not> held_state st"
  shows "op_effect locked now (lkey_of entity phase) dbw
     (fst (finish_body now c entity phase own epoch st event reason dbr dbw))"
  unfolding finish_body_def lkey_of_def using assms
  by (auto split: option.split sum.split dest!: statement_missed
        intro!: effect_case_exec finish_write)

lemma recover_write:
  assumes "exec (recoverUpdateSQL own StateActive now evidence p w k epoch seen) dbw = (db', Some out)"
    and "\<not> owner_blank own" and "k = (a, b, ph)" and "lrow_key r0 = k"
    and "IsDead (Some (scanRow r0)) now" and "seen = r_last_seen_at r0"
  shows "op_effect locked now k dbw (insertEvent c (o_entity out) ph ev (o_epoch out) actor rs t db')"
  using assms
  by (intro effect_updated [OF assms(1) [unfolded recoverUpdateSQL_def]])
    (auto simp: held_state_def intro!: lrow_step.seize intro: IsDead_transfer)

lemma recover_missed_db [simp]: "fst (recover_missed db entity phase own cur) = db"
  by (auto simp: recover_missed_def split: option.splits)

lemma recover_effect:
  assumes "\<not> owner_blank newOwner"
  shows "op_effect locked now (lkey_of entity phase) dbw
     (fst (recover_body now c entity phase newOwner expectedEpoch evidence cfg dbr dbw))"
proof (cases "readOwnership dbr entity phase")
  case None
  then show ?thesis by (simp add: recover_body_def)
next
  case (Some cur)
  then obtain r0 where r0: "cur = scanRow r0" "lrow_key r0 = lkey_of entity phase"
    by (rule readOwnership_Some)
  show ?thesis
    unfolding recover_body_def Some option.case lkey_of_def Let_def
    using assms r0 [unfolded lkey_of_def]
    by (auto dest!: statement_missed intro!: effect_case_exec recover_write simp del: append_Cons append_Nil)
qed

end
