(* ===== verification/Lifecycle_Contract.thy ===== *)
theory Lifecycle_Contract
  imports Lifecycle_Effect
begin

text \<open>
  The recovery transitions keep the contract too, and so does every operation with its
  validation and its transaction around it.  The locale \<open>ownership_writer\<close> is that contract
  as an interface; what it implies is proved once in it and holds of every operation, each
  of which interprets it.
\<close>

section \<open>recovery.go\<close>

lemma fence_write:
  assumes "exec (fenceUpdateSQL now reason k epoch own version seen) dbw = (db', Some out)"
    and "k = (a, b, ph)" and "lrow_key r0 = k"
    and "IsDead (Some (scanRow r0)) now" and "seen = r_last_seen_at r0"
  shows "op_effect locked now k dbw (insertEvent c (o_entity out) ph ev (o_epoch out) actor rs t db')"
  using assms
  by (intro effect_updated [OF assms(1) [unfolded fenceUpdateSQL_def]])
    (auto simp: held_state_def intro!: lrow_step.fence intro: IsDead_transfer)

lemma fence_effect:
  "op_effect locked now (lkey_of (rq_entity req) (rq_phase req)) dbw
     (fst (fence_body now now2 c req dbr dbw))"
proof (cases "readOwnership dbr (rq_entity req) (rq_phase req)")
  case None
  then show ?thesis by (simp add: fence_body_def)
next
  case (Some cur)
  then obtain r0 where r0: "cur = scanRow r0" "lrow_key r0 = lkey_of (rq_entity req) (rq_phase req)"
    by (rule readOwnership_Some)
  show ?thesis
    unfolding fence_body_def Some option.case lkey_of_def Let_def
    using r0 [unfolded lkey_of_def]
    by (auto dest!: statement_missed intro!: effect_case_exec fence_write
          simp del: append_Cons append_Nil split: option.split)
qed

lemma request_handoff_write:
  assumes "exec (handoffRequestUpdateSQL StateHandingOff to now now now k StateActive epoch own version)
             dbw = (db', Some out)"
    and "k = (a, b, ph)" and "\<not> owner_blank to"
    and "\<And>r. tsel dbw k = Some r \<Longrightarrow> locked \<Longrightarrow> IsStuck (Some (scanRow r)) now"
  shows "op_effect locked now k dbw (insertEvent c (o_entity out) ph ev (o_epoch out) actor rs t db')"
  using assms
  by (intro effect_updated [OF assms(1) [unfolded handoffRequestUpdateSQL_def]])
    (auto intro!: lrow_step.escalate)

lemma request_handoff_effect:
  assumes "\<not> owner_blank toOwner"
  shows "op_effect (dbr = dbw) now (lkey_of (rq_entity req) (rq_phase req)) dbw
     (fst (request_handoff_body now c req toOwner dbr dbw))"
proof (cases "readOwnership dbr (rq_entity req) (rq_phase req)")
  case None
  then show ?thesis by (simp add: request_handoff_body_def)
next
  case (Some cur)
  then obtain r0 where r0: "cur = scanRow r0"
      "tsel dbr (lkey_of (rq_entity req) (rq_phase req)) = Some r0"
    by (rule readOwnership_Some)
  show ?thesis
    unfolding request_handoff_body_def Some option.case lkey_of_def
    using assms r0 [unfolded lkey_of_def]
    by (auto dest!: statement_missed intro!: effect_case_exec request_handoff_write
          simp del: append_Cons append_Nil split: option.split)
qed

lemma retry_handoff_write:
  assumes "exec (handoffRetryUpdateSQL now k to started epoch own version) dbw = (db', Some out)"
    and "k = (a, b, ph)" and "lrow_key r0 = k"
    and "HandoffStalled (Some (scanRow r0)) now" and "r_handoff_started_at r0 = Some started"
  shows "op_effect locked now k dbw (insertEvent c (o_entity out) ph ev (o_epoch out) actor rs t db')"
  using assms
  by (intro effect_updated [OF assms(1) [unfolded handoffRetryUpdateSQL_def]])
    (auto intro!: lrow_step.rearm intro: HandoffStalled_transfer)

lemma retry_handoff_effect:
  "op_effect locked now (lkey_of (rq_entity req) (rq_phase req)) dbw
     (fst (retry_handoff_body now c req dbr dbw))"
proof (cases "readOwnership dbr (rq_entity req) (rq_phase req)")
  case None
  then show ?thesis by (simp add: retry_handoff_body_def)
next
  case (Some cur)
  then obtain r0 where r0: "cur = scanRow r0" "lrow_key r0 = lkey_of (rq_entity req) (rq_phase req)"
    by (rule readOwnership_Some)
  show ?thesis
    unfolding retry_handoff_body_def Some option.case lkey_of_def
    using r0 [unfolded lkey_of_def]
    by (auto dest!: statement_missed intro!: effect_case_exec retry_handoff_write
          simp del: append_Cons append_Nil split: option.split bool.split)
qed

lemma reconcile_effect:
  "op_effect (dbr = dbw) now (lkey_of (rq_entity req) (rq_phase req)) dbw
     (fst (reconcile_body now c req dbr dbw))"
proof (cases "readOwnership dbr (rq_entity req) (rq_phase req)")
  case None
  then show ?thesis by (simp add: reconcile_body_def)
next
  case (Some cur)
  then obtain r0 where "cur = scanRow r0" "tsel dbr (lkey_of (rq_entity req) (rq_phase req)) = Some r0"
      "lrow_key r0 = lkey_of (rq_entity req) (rq_phase req)"
    by (rule readOwnership_Some)
  with Some show ?thesis
    by (auto simp: reconcile_body_def lkey_of_def lrow_key_def intro!: op_effect_event
          split: option.split)
qed

section \<open>The transaction around a body\<close>

lemma inTx_cases: "fst (inTx fault db0 body) = db0 \<or> fst (inTx fault db0 body) = fst body"
  by (auto simp: inTx_def split: prod.split option.split)

lemma nil_on_error_db [simp]: "fst (nil_on_error res) = fst res"
  by (auto simp: nil_on_error_def split: prod.split)

lemma inTx_effect:
  assumes "op_effect locked now k dbw (fst body)"
  shows "op_effect locked now k dbw (fst (inTx fault dbw body))"
  using inTx_cases [of fault dbw body] assms by auto

section \<open>The contract as an interface\<close>

locale ownership_writer =
  fixes run :: "gotime \<Rightarrow> lc_db \<Rightarrow> lc_db \<Rightarrow> lc_db" and k :: lkey
  assumes effect: "op_effect (dbr = dbw) now k dbw (run now dbr dbw)"
begin

lemma rows: "rows_effect (dbr = dbw) now k dbw (run now dbr dbw)"
  using effect by (simp add: op_effect_def)

lemma frame: "k' \<noteq> k \<Longrightarrow> tsel (run now dbr dbw) k' = tsel dbw k'"
  using rows [of dbr dbw now] unfolding rows_effect_def by blast

lemma key_cases:
  "tsel (run now dbr dbw) k = tsel dbw k \<or>
   (\<exists>r'. tsel (run now dbr dbw) k = Some r' \<and> lrow_step (dbr = dbw) now k (tsel dbw k) r')"
  using rows [of dbr dbw now] unfolding rows_effect_def by blast

lemma unique: "unique_key lrow_key (db_rows dbw) \<Longrightarrow> unique_key lrow_key (db_rows (run now dbr dbw))"
  using rows [of dbr dbw now] unfolding rows_effect_def by blast

lemma claim: "claim_step (dead_at dbw k' now) (claim_at dbw k') (claim_at (run now dbr dbw) k')"
proof (cases "k' = k")
  case False
  then show ?thesis by (simp add: claim_at_def frame cs_stay)
next
  case True
  from key_cases [of now dbr dbw] show ?thesis
    unfolding True claim_at_def dead_at_def
    by (auto simp: cs_stay dest: lrow_step_claim)
qed

text \<open>Nobody but the named successor takes a record from a holder that is not dead.\<close>

lemma no_theft:
  assumes "claim_at dbw k' = Some cl" and "held_state (cm_state cl)" and "\<not> dead_at dbw k' now"
    and "claim_at (run now dbr dbw) k' = Some cl'"
  shows "cm_owner cl' = cm_owner cl \<and> cm_epoch cl' = cm_epoch cl \<or>
         cm_state cl = StateHandingOff \<and> cm_to cl = Some (cm_owner cl')"
  using claim [of dbw k' now dbr] claim_step_alive [of cl cl'] assms by auto

lemma fencing: "not_before (claim_at dbw k') (claim_at (run now dbr dbw) k')"
  by (rule claim_step_not_before [OF claim])

lemma row_ok:
  assumes "\<And>r. r \<in> set (db_rows dbw) \<Longrightarrow> row_ok r" and "unique_key lrow_key (db_rows dbw)"
    and "tsel (run now dbr dbw) k' = Some r"
  shows "row_ok r"
proof -
  have stored: "row_ok r'" if "tsel dbw k'' = Some r'" for r' k''
    using assms(1) tselect_SomeD [OF that] by simp
  show ?thesis
  proof (cases "k' = k")
    case False
    then show ?thesis using assms(3) stored frame by auto
  next
    case True
    from key_cases [of now dbr dbw] show ?thesis
    proof
      assume "tsel (run now dbr dbw) k = tsel dbw k"
      with True assms(3) stored [of k r] show ?thesis by simp
    next
      assume "\<exists>r'. tsel (run now dbr dbw) k = Some r' \<and> lrow_step (dbr = dbw) now k (tsel dbw k) r'"
      with True assms(3) have "lrow_step (dbr = dbw) now k (tsel dbw k) r" by simp
      then show ?thesis by (rule lrow_step_row_ok) (rule stored)
    qed
  qed
qed

lemma clock_ok:
  assumes "\<And>k r. tsel db k = Some r \<Longrightarrow> row_ok r \<and> clock_ok now r"
    and "tsel (run now db db) k' = Some r"
  shows "clock_ok now r"
proof (cases "k' = k")
  case False
  then show ?thesis using assms frame by auto
next
  case True
  from key_cases [of now db db] show ?thesis
  proof
    assume "tsel (run now db db) k = tsel db k"
    with True assms(2) assms(1) [of k r] show ?thesis by simp
  next
    assume "\<exists>r'. tsel (run now db db) k = Some r' \<and> lrow_step (db = db) now k (tsel db k) r'"
    with True assms(2) have "lrow_step True now k (tsel db k) r" by simp
    then show ?thesis by (rule lrow_step_clock_ok) (rule assms(1))
  qed
qed

lemma log: "log_effect (dbr = dbw) k dbw (run now dbr dbw)"
  using effect by (simp add: op_effect_def)

lemma log_grows: "\<exists>es. db_events (run now dbr dbw) = db_events dbw @ es"
  using log [of dbr dbw now] unfolding log_effect_def by blast

text \<open>Under the lock, a change of a claim leaves exactly one event, and it describes the new row.\<close>

lemma audited:
  assumes "claim_at (run now db db) k' \<noteq> claim_at db k'"
  shows "\<exists>e. db_events (run now db db) = db_events db @ [e] \<and> event_key e = k' \<and>
             event_agrees (run now db db) e"
proof -
  have "k' = k"
  proof (rule ccontr)
    assume "k' \<noteq> k"
    from frame [OF this, of now db db] assms show False by (simp add: claim_at_def)
  qed
  from log [of db db now] obtain es where es: "db_events (run now db db) = db_events db @ es"
      "length es \<le> 1" "\<forall>e \<in> set es. event_key e = k \<and> event_agrees (run now db db) e" "es \<noteq> []"
    using assms \<open>k' = k\<close> unfolding log_effect_def by blast
  then obtain e where "es = [e]" by (cases es) auto
  with es \<open>k' = k\<close> show ?thesis by simp
qed

end

section \<open>Every operation interprets it\<close>

interpretation acquire: ownership_writer
  "\<lambda>now dbr dbw. fst (Acquire fault now c req dbr dbw)" "lkey_of (aq_entity req) (aq_phase req)"
  for fault c req
proof
  fix dbr dbw now
  have "fst (Acquire fault now c req dbr dbw) \<in>
      {dbw, fst (inTx fault dbw (acquire_body now c req dbr dbw))}"
    by (auto simp: Acquire_def split: option.split prod.split)
  moreover have "op_effect (dbr = dbw) now (lkey_of (aq_entity req) (aq_phase req)) dbw
      (fst (inTx fault dbw (acquire_body now c req dbr dbw)))"
    if "validate (aq_entity req) (aq_phase req) = None" "\<not> owner_blank (aq_owner req)"
    using acquire_effect [OF that] by (rule inTx_effect)
  moreover have "fst (Acquire fault now c req dbr dbw) = dbw"
    if "validate (aq_entity req) (aq_phase req) \<noteq> None \<or> owner_blank (aq_owner req)"
    using that by (auto simp: Acquire_def split: option.split)
  ultimately show "op_effect (dbr = dbw) now (lkey_of (aq_entity req) (aq_phase req)) dbw
      (fst (Acquire fault now c req dbr dbw))"
    by (metis insertE op_effect_refl singletonD)
qed

interpretation progress: ownership_writer
  "\<lambda>now dbr dbw. fst (RecordProgress fault now c entity phase own epoch evidence dbr dbw)"
  "lkey_of entity phase" for fault c entity phase own epoch evidence
  by unfold_locales
    (auto simp: RecordProgress_def intro: inTx_effect progress_effect split: option.split)

interpretation handoff_start: ownership_writer
  "\<lambda>now dbr dbw. fst (HandoffStart fault now c entity phase own epoch to reason dbr dbw)"
  "lkey_of entity phase" for fault c entity phase own epoch to reason
  by unfold_locales
    (auto simp: HandoffStart_def intro: inTx_effect handoff_start_effect split: option.split)

interpretation handoff_complete: ownership_writer
  "\<lambda>now dbr dbw. fst (HandoffComplete fault now c entity phase incoming cfg dbr dbw)"
  "lkey_of entity phase" for fault c entity phase incoming cfg
  by unfold_locales
    (auto simp: HandoffComplete_def intro: inTx_effect handoff_complete_effect split: option.split)

lemma finish_op_effect:
  assumes "\<not> held_state st"
  shows "op_effect locked now (lkey_of entity phase) dbw
     (fst (finish fault now c entity phase own epoch st event reason dbr dbw))"
  using assms by (auto simp: finish_def intro: inTx_effect finish_effect split: option.split)

interpretation release: ownership_writer
  "\<lambda>now dbr dbw. fst (Release fault now c entity phase own epoch reason dbr dbw)"
  "lkey_of entity phase" for fault c entity phase own epoch reason
  by unfold_locales (auto simp: Release_def held_state_def intro: finish_op_effect)

interpretation terminal: ownership_writer
  "\<lambda>now dbr dbw. fst (Terminal fault now c entity phase own epoch reason dbr dbw)"
  "lkey_of entity phase" for fault c entity phase own epoch reason
  by unfold_locales (auto simp: Terminal_def held_state_def intro: finish_op_effect)

interpretation recover: ownership_writer
  "\<lambda>now dbr dbw. fst (Recover fault now c entity phase own expectedEpoch evidence cfg dbr dbw)"
  "lkey_of entity phase" for fault c entity phase own expectedEpoch evidence cfg
  by unfold_locales
    (auto simp: Recover_def intro: inTx_effect recover_effect split: option.split)

interpretation fence: ownership_writer
  "\<lambda>now dbr dbw. fst (FenceDeadClaim fault now now2 c req dbr dbw)"
  "lkey_of (rq_entity req) (rq_phase req)" for fault now2 c req
  by unfold_locales
    (auto simp: FenceDeadClaim_def intro: inTx_effect fence_effect split: option.split)

interpretation request_handoff: ownership_writer
  "\<lambda>now dbr dbw. fst (RequestHandoff fault now c req toOwner dbr dbw)"
  "lkey_of (rq_entity req) (rq_phase req)" for fault c req toOwner
  by unfold_locales
    (auto simp: RequestHandoff_def intro: inTx_effect request_handoff_effect split: option.split)

interpretation retry_handoff: ownership_writer
  "\<lambda>now dbr dbw. fst (RetryHandoff fault now c req dbr dbw)"
  "lkey_of (rq_entity req) (rq_phase req)" for fault c req
  by unfold_locales
    (auto simp: RetryHandoff_def intro: inTx_effect retry_handoff_effect split: option.split)

interpretation reconcile: ownership_writer
  "\<lambda>now dbr dbw. fst (RequestReconcile fault now c req dbr dbw)"
  "lkey_of (rq_entity req) (rq_phase req)" for fault c req
  by unfold_locales
    (auto simp: RequestReconcile_def intro: inTx_effect reconcile_effect split: option.split)

end
