(* ===== verification/Lifecycle_Derive.thy ===== *)
theory Lifecycle_Derive
  imports Lifecycle_Types
begin

text \<open>
  The read side of the ownership store: the derived view of a record
  (\<open>internal/lifecycle/derive.go\<close>) and the comparison of the store's answer with the
  answer of the mechanism it replaces (\<open>internal/lifecycle/diverge.go\<close>).
\<close>

section \<open>derive.go\<close>

datatype status =
    StatusHealthy | StatusStuck | StatusDead | StatusHandingOff | StatusHandoffStalled
  | StatusReleased | StatusTerminal | StatusUnknown

fun status_text :: "status \<Rightarrow> string" where
  "status_text StatusHealthy = ''healthy''"
| "status_text StatusStuck = ''stuck''"
| "status_text StatusDead = ''dead''"
| "status_text StatusHandingOff = ''handing-off''"
| "status_text StatusHandoffStalled = ''handoff-stalled''"
| "status_text StatusReleased = ''released''"
| "status_text StatusTerminal = ''terminal''"
| "status_text StatusUnknown = ''unknown''"

record derived =
  d_status :: status
  d_dead :: bool
  d_held :: bool
  d_handoff_stalled :: bool
  d_seconds_since_seen :: int
  d_seconds_since_progress :: int
  d_bounds_known :: bool
  d_liveness_bound_seconds :: int
  d_progress_bound_seconds :: int

text \<open>The zero value of the struct, with the status of a nil record.\<close>

definition derived_nil :: derived where
  "derived_nil = \<lparr>d_status = StatusUnknown, d_dead = False, d_held = False,
     d_handoff_stalled = False, d_seconds_since_seen = 0, d_seconds_since_progress = 0,
     d_bounds_known = False, d_liveness_bound_seconds = 0, d_progress_bound_seconds = 0\<rparr>"

text \<open>The map lookup of a pair that is not in the registry yields the zero duration.\<close>

definition or_zero :: "duration option \<Rightarrow> duration" where
  "or_zero b = (case b of None \<Rightarrow> 0 | Some d \<Rightarrow> d)"

definition Derive :: "ownership option \<Rightarrow> gotime \<Rightarrow> derived" where
  "Derive oo now =
     (case oo of
        None \<Rightarrow> derived_nil
      | Some o' \<Rightarrow>
          let liveness = LivenessBound (e_kind (o_entity o')) (o_phase o');
              progress = ProgressBound (e_kind (o_entity o')) (o_phase o');
              dead = IsDead oo now;
              stalled = HandoffStalled oo now;
              st = (if o_state o' = StateTerminal then StatusTerminal
                    else if o_state o' = StateReleased then StatusReleased
                    else if stalled then StatusHandoffStalled
                    else if o_state o' = StateHandingOff then StatusHandingOff
                    else if IsDead oo now then StatusDead
                    else if IsStuck oo now then StatusStuck
                    else StatusHealthy)
          in \<lparr>d_status = st,
              d_dead = dead,
              d_held = (o_state o' = StateActive \<or> o_state o' = StateHandingOff) \<and> \<not> dead,
              d_handoff_stalled = stalled,
              d_seconds_since_seen = whole_seconds (time_sub now (o_last_seen_at o')),
              d_seconds_since_progress = whole_seconds (time_sub now (o_last_progress_at o')),
              d_bounds_known = (liveness \<noteq> None),
              d_liveness_bound_seconds = whole_seconds (or_zero liveness),
              d_progress_bound_seconds = whole_seconds (or_zero progress)\<rparr>)"

section \<open>diverge.go\<close>

datatype diverge_class =
    DivergeAgree | DivergeStorePermits | DivergeStoreForbids | DivergeOwnerMismatch
  | DivergeStoreUnknown | DivergeLegacyUnknown

datatype legacy_answer = LegacyUnknown | LegacyOwned | LegacyFree

record divergence =
  dv_class :: diverge_class
  dv_dangerous :: bool
  dv_detail :: string

abbreviation diverge_plain :: "diverge_class \<Rightarrow> divergence" where
  "diverge_plain c \<equiv> \<lparr>dv_class = c, dv_dangerous = False, dv_detail = ''''\<rparr>"

definition ClassifyDerived ::
  "ownership option \<Rightarrow> derived \<Rightarrow> bool \<Rightarrow> legacy_answer \<Rightarrow> divergence" where
  "ClassifyDerived oo d storeReadable legacy =
     (if \<not> storeReadable then diverge_plain DivergeStoreUnknown
      else case oo of
        None \<Rightarrow>
          if legacy = LegacyOwned then
            \<lparr>dv_class = DivergeStorePermits, dv_dangerous = True,
             dv_detail = ''store holds no record while a DevLoopWorkflow is driving the entity''\<rparr>
          else if legacy = LegacyUnknown then diverge_plain DivergeLegacyUnknown
          else diverge_plain DivergeAgree
      | Some o' \<Rightarrow>
          if legacy = LegacyUnknown then diverge_plain DivergeLegacyUnknown
          else
            let held = d_held d; w = ow_type (o_owner o') @ ''/'' @ ow_id (o_owner o') in
            if held \<and> legacy = LegacyOwned then
              (if ow_type (o_owner o') = OwnerDevLoopWorkflow then diverge_plain DivergeAgree
               else \<lparr>dv_class = DivergeOwnerMismatch, dv_dangerous = False,
                     dv_detail = ''store names '' @ w @
                       ''; a live DevLoopWorkflow is driving the same entity''\<rparr>)
            else if held \<and> legacy = LegacyFree then
              \<lparr>dv_class = DivergeStoreForbids, dv_dangerous = False,
               dv_detail = ''store names '' @ w @ '' ('' @ status_text (d_status d) @
                 ''); no live DevLoopWorkflow''\<rparr>
            else if \<not> held \<and> legacy = LegacyOwned then
              \<lparr>dv_class = DivergeStorePermits, dv_dangerous = True,
               dv_detail = ''store holds no live owner ('' @ status_text (d_status d) @
                 '') while a DevLoopWorkflow is driving the entity''\<rparr>
            else diverge_plain DivergeAgree)"

definition Classify ::
  "ownership option \<Rightarrow> bool \<Rightarrow> legacy_answer \<Rightarrow> gotime \<Rightarrow> divergence" where
  "Classify oo storeReadable legacy now = ClassifyDerived oo (Derive oo now) storeReadable legacy"

section \<open>Facts\<close>

lemma Derive_None [simp]: "Derive None now = derived_nil"
  by (simp add: Derive_def)

lemma Derive_dead: "d_dead (Derive oo now) = IsDead oo now"
  by (cases oo) (auto simp: Derive_def derived_nil_def IsDead_def Let_def)

lemma Derive_held:
  "d_held (Derive oo now) \<longleftrightarrow>
     (\<exists>o'. oo = Some o' \<and> held_state (o_state o') \<and> \<not> IsDead oo now)"
  by (cases oo) (auto simp: Derive_def derived_nil_def Let_def held_state_def)

lemma Derive_status:
  "d_status (Derive (Some o') now) =
     (if o_state o' = StateTerminal then StatusTerminal
      else if o_state o' = StateReleased then StatusReleased
      else if HandoffStalled (Some o') now then StatusHandoffStalled
      else if o_state o' = StateHandingOff then StatusHandingOff
      else if IsDead (Some o') now then StatusDead
      else if IsStuck (Some o') now then StatusStuck
      else StatusHealthy)"
  by (simp add: Derive_def Let_def)

lemma Derive_status_dead:
  "d_status (Derive oo now) = StatusDead \<longleftrightarrow>
     (\<exists>o'. oo = Some o' \<and> o_state o' = StateActive \<and> IsDead oo now)"
  by (cases oo)
     (auto simp: derived_nil_def Derive_status derived_iffs held_state_def split: if_splits)

lemma Derive_status_stuck:
  "d_status (Derive oo now) = StatusStuck \<longleftrightarrow> IsStuck oo now"
  by (cases oo)
     (auto simp: derived_nil_def Derive_status derived_iffs held_state_def IsStuck_def split: if_splits)

lemma Derive_status_healthy:
  "d_status (Derive oo now) = StatusHealthy \<longleftrightarrow> IsHealthy oo now \<and> \<not> IsStuck oo now"
proof (cases oo)
  case None
  then show ?thesis by (simp add: derived_nil_def IsHealthy_def)
next
  case (Some o')
  then show ?thesis
    by (cases "o_state o'") (auto simp: Derive_status HandoffStalled_def IsHealthy_def)
qed

lemma Derive_status_handing_off:
  "(d_status (Derive oo now) = StatusHandingOff \<or> d_status (Derive oo now) = StatusHandoffStalled)
     \<longleftrightarrow> (\<exists>o'. oo = Some o' \<and> o_state o' = StateHandingOff)"
  by (cases oo) (auto simp: derived_nil_def Derive_status HandoffStalled_def split: if_splits)

text \<open>What the comparison calls dangerous, and the class it gives it.\<close>

lemma Classify_dangerous_iff:
  "dv_dangerous (ClassifyDerived oo d storeReadable legacy) \<longleftrightarrow>
     storeReadable \<and> legacy = LegacyOwned \<and> (oo = None \<or> \<not> d_held d)"
  by (auto simp: ClassifyDerived_def Let_def split: option.splits legacy_answer.splits)

lemma Classify_class_dangerous:
  "dv_class (ClassifyDerived oo d storeReadable legacy) = DivergeStorePermits \<longleftrightarrow>
     dv_dangerous (ClassifyDerived oo d storeReadable legacy)"
  by (auto simp: ClassifyDerived_def Let_def split: option.splits legacy_answer.splits)

end
