(* ===== verification/Lifecycle_Machine.thy ===== *)
theory Lifecycle_Machine
  imports Lifecycle_Contract Lifecycle_Derive
begin

text \<open>
  The store as a machine.  \<open>run_op\<close> dispatches one call.  Two kinds of run: a \<open>history\<close>,
  in which a call may decide on any database there has been and write to the present one
  (nothing orders the calls), and the \<open>reach\<close>able databases, in which the advisory lock
  orders them and the clock does not go back.  What holds of a history owes nothing to the
  lock.
\<close>

section \<open>Calls\<close>

datatype lc_op =
    OpAcquire acquire_request
  | OpProgress entity_ref string owner int string
  | OpHandoffStart entity_ref string owner int owner string
  | OpHandoffComplete entity_ref string owner owner_config
  | OpRelease entity_ref string owner int string
  | OpTerminal entity_ref string owner int string
  | OpRecover entity_ref string owner int string owner_config
  | OpFence recovery_request
  | OpRequestHandoff recovery_request owner
  | OpRetryHandoff recovery_request
  | OpReconcile recovery_request

fun op_key :: "lc_op \<Rightarrow> lkey" where
  "op_key (OpAcquire req) = lkey_of (aq_entity req) (aq_phase req)"
| "op_key (OpProgress e p w n s) = lkey_of e p"
| "op_key (OpHandoffStart e p w n t s) = lkey_of e p"
| "op_key (OpHandoffComplete e p w cfg) = lkey_of e p"
| "op_key (OpRelease e p w n s) = lkey_of e p"
| "op_key (OpTerminal e p w n s) = lkey_of e p"
| "op_key (OpRecover e p w n s cfg) = lkey_of e p"
| "op_key (OpFence req) = lkey_of (rq_entity req) (rq_phase req)"
| "op_key (OpRequestHandoff req w) = lkey_of (rq_entity req) (rq_phase req)"
| "op_key (OpRetryHandoff req) = lkey_of (rq_entity req) (rq_phase req)"
| "op_key (OpReconcile req) = lkey_of (rq_entity req) (rq_phase req)"

text \<open>The database and the error of a call; \<open>now2\<close> is the second clock reading of a fence.\<close>

definition db_err :: "'a outcome \<Rightarrow> lc_db \<times> lc_error option" where
  "db_err res = (fst res, snd (snd res))"

fun call_op ::
  "tx_fault \<Rightarrow> caller \<Rightarrow> gotime \<Rightarrow> lc_op \<Rightarrow> gotime \<Rightarrow> lc_db \<Rightarrow> lc_db \<Rightarrow> lc_db \<times> lc_error option"
where
  "call_op f c now2 (OpAcquire req) now dbr dbw = db_err (Acquire f now c req dbr dbw)"
| "call_op f c now2 (OpProgress e p w n s) now dbr dbw = db_err (RecordProgress f now c e p w n s dbr dbw)"
| "call_op f c now2 (OpHandoffStart e p w n t s) now dbr dbw = db_err (HandoffStart f now c e p w n t s dbr dbw)"
| "call_op f c now2 (OpHandoffComplete e p w cfg) now dbr dbw = db_err (HandoffComplete f now c e p w cfg dbr dbw)"
| "call_op f c now2 (OpRelease e p w n s) now dbr dbw = db_err (Release f now c e p w n s dbr dbw)"
| "call_op f c now2 (OpTerminal e p w n s) now dbr dbw = db_err (Terminal f now c e p w n s dbr dbw)"
| "call_op f c now2 (OpRecover e p w n s cfg) now dbr dbw = db_err (Recover f now c e p w n s cfg dbr dbw)"
| "call_op f c now2 (OpFence req) now dbr dbw = db_err (FenceDeadClaim f now now2 c req dbr dbw)"
| "call_op f c now2 (OpRequestHandoff req w) now dbr dbw = db_err (RequestHandoff f now c req w dbr dbw)"
| "call_op f c now2 (OpRetryHandoff req) now dbr dbw = db_err (RetryHandoff f now c req dbr dbw)"
| "call_op f c now2 (OpReconcile req) now dbr dbw = db_err (RequestReconcile f now c req dbr dbw)"

definition run_op :: "tx_fault \<Rightarrow> caller \<Rightarrow> gotime \<Rightarrow> lc_op \<Rightarrow> gotime \<Rightarrow> lc_db \<Rightarrow> lc_db \<Rightarrow> lc_db" where
  "run_op f c now2 op now dbr dbw = fst (call_op f c now2 op now dbr dbw)"

interpretation store: ownership_writer "run_op f c now2 op" "op_key op" for f c now2 op
proof
  fix dbr dbw now
  show "op_effect (dbr = dbw) now (op_key op) dbw (run_op f c now2 op now dbr dbw)"
    by (cases op)
      (simp_all add: run_op_def db_err_def acquire.effect progress.effect handoff_start.effect
        handoff_complete.effect release.effect terminal.effect recover.effect fence.effect
        request_handoff.effect retry_handoff.effect reconcile.effect)
qed

section \<open>Histories: no order between a decision and the writes of others\<close>

inductive history :: "lc_db list \<Rightarrow> bool" where
  h_start: "history [empty_db]"
| h_call: "history (db # h) \<Longrightarrow> dbr \<in> set (db # h) \<Longrightarrow> history (run_op f c now2 op now dbr db # db # h)"

lemma history_not_before:
  "history h \<Longrightarrow> i \<le> j \<Longrightarrow> j < length h \<Longrightarrow> not_before (claim_at (h ! j) k) (claim_at (h ! i) k)"
proof (induction arbitrary: i j rule: history.induct)
  case h_start
  then show ?case by simp
next
  case (h_call db h dbr f c now2 op now)
  show ?case
  proof (cases i)
    case (Suc i')
    with h_call.prems h_call.IH [of i' "j - 1"] show ?thesis by (cases j) auto
  next
    case 0
    show ?thesis
    proof (cases j)
      case 0
      with \<open>i = 0\<close> show ?thesis by simp
    next
      case (Suc j')
      with h_call.prems have "not_before (claim_at ((db # h) ! j') k) (claim_at ((db # h) ! 0) k)"
        by (intro h_call.IH) auto
      with store.fencing [where dbw = db and k' = k and f = f and c = c and op = op and now = now and dbr = dbr and ?now2.0 = now2] Suc \<open>i = 0\<close> show ?thesis
        by (auto intro: not_before_trans)
    qed
  qed
qed

section \<open>Reachable databases: the advisory lock orders the calls\<close>

inductive reach :: "gotime \<Rightarrow> lc_db \<Rightarrow> bool" where
  r_start: "reach t empty_db"
| r_call: "reach t db \<Longrightarrow> t \<le> now \<Longrightarrow> reach now (run_op f c now2 op now db db)"

definition db_ok :: "gotime \<Rightarrow> lc_db \<Rightarrow> bool" where
  "db_ok t db \<longleftrightarrow>
     unique_key lrow_key (db_rows db) \<and>
     (\<forall>k r. tsel db k = Some r \<longrightarrow> row_ok r \<and> clock_ok t r) \<and>
     (\<forall>e \<in> set (db_events db). ev_id e < db_next_event db \<and>
        (\<exists>r. tsel db (event_key e) = Some r \<and> ev_owner_epoch e \<le> r_epoch r)) \<and>
     sorted_wrt (<) (map ev_id (db_events db))"

lemma db_okD:
  "db_ok t db \<Longrightarrow> tsel db k = Some r \<Longrightarrow> row_ok r"
  "db_ok t db \<Longrightarrow> tsel db k = Some r \<Longrightarrow> clock_ok t r"
  "db_ok t db \<Longrightarrow> unique_key lrow_key (db_rows db)"
  unfolding db_ok_def by blast+

lemma tsel_in_rows:
  "unique_key lrow_key (db_rows db) \<Longrightarrow> r \<in> set (db_rows db) \<Longrightarrow> tsel db (lrow_key r) = Some r"
  by (auto simp: unique_key_def tselect_def find_Some_iff in_set_conv_nth distinct_conv_nth)

lemma event_epoch_kept:
  assumes "\<exists>r. tsel db k = Some r \<and> n \<le> r_epoch r" and "not_before (claim_at db k) (claim_at db' k)"
  shows "\<exists>r. tsel db' k = Some r \<and> n \<le> r_epoch r"
  using assms by (auto simp: not_before_def claim_at_def split: option.splits)

lemma call_db_ok:
  assumes ok: "db_ok t db" and "t \<le> now"
  shows "db_ok now (run_op f c now2 op now db db)"
proof -
  let ?db' = "run_op f c now2 op now db db"
  have rows: "row_ok r" "clock_ok now r" if "tsel ?db' k = Some r" for k r
  proof -
    have "row_ok r" if "r \<in> set (db_rows db)" for r
      using ok that tsel_in_rows [of db r] by (auto dest: db_okD)
    then show "row_ok r"
      using store.row_ok that ok by (blast dest: db_okD)
    show "clock_ok now r"
      by (rule store.clock_ok [OF _ that])
        (use assms in \<open>auto dest: db_okD intro: clock_ok_mono\<close>)
  qed
  obtain es where es: "db_events ?db' = db_events db @ es" "length es \<le> 1"
      "db_next_event ?db' = db_next_event db + int (length es)"
      "\<forall>e \<in> set es. ev_id e = db_next_event db \<and> event_agrees ?db' e"
    using store.log [where dbr = db and dbw = db and f = f and c = c and op = op and now = now and ?now2.0 = now2] unfolding log_effect_def by blast
  have old: "\<exists>r. tsel ?db' (event_key e) = Some r \<and> ev_owner_epoch e \<le> r_epoch r"
    if "e \<in> set (db_events db)" for e
    using ok that event_epoch_kept [OF _ store.fencing] by (auto simp: db_ok_def)
  have new: "\<exists>r. tsel ?db' (event_key e) = Some r \<and> ev_owner_epoch e \<le> r_epoch r"
    if "e \<in> set es" for e
    using es(4) that by (auto simp: event_agrees_def)
  have ids: "sorted_wrt (<) (map ev_id (db_events ?db'))"
    using es ok by (cases es) (auto simp: db_ok_def sorted_wrt_append)
  have "\<forall>e \<in> set (db_events ?db'). ev_id e < db_next_event ?db'"
    using es ok by (cases es) (auto simp: db_ok_def)
  with rows old new ids es(1) store.unique [OF db_okD(3) [OF ok]] show ?thesis
    unfolding db_ok_def by auto
qed

lemma reach_db_ok: "reach t db \<Longrightarrow> db_ok t db"
proof (induction rule: reach.induct)
  case (r_start t)
  show ?case by (simp add: db_ok_def empty_db_def unique_key_def)
next
  case (r_call t db now f c now2 op)
  then show ?case by (intro call_db_ok)
qed

end
