(* ===== verification/Lifecycle_Calls.thy ===== *)
theory Lifecycle_Calls
  imports Lifecycle_Machine
begin

text \<open>
  What single calls return and write: evaluation of the statements on a known row, the
  outcomes of each operation under the lock, and the outcome of a duplicate of a call that
  has already landed.
\<close>

section \<open>Evaluation of statements\<close>

lemma exec_hit:
  "tsel db k = Some r \<Longrightarrow> p r \<Longrightarrow>
     exec (tupdate lrow_key k p f) db =
       (db\<lparr>db_rows := tput lrow_key (db_rows db) (f r)\<rparr>, Some (scanRow (f r)))"
  by (simp add: exec_def tupdate_def)

lemma exec_miss:
  "tsel db k = Some r \<Longrightarrow> \<not> p r \<Longrightarrow> exec (tupdate lrow_key k p f) db = (db, None)"
  by (simp add: exec_def tupdate_def)

lemma readOwnership_row: "tsel db (lkey_of entity phase) = Some r \<Longrightarrow> readOwnership db entity phase = Some (scanRow r)"
  by (simp add: readOwnership_def)

lemma readOwnership_none: "tsel db (lkey_of entity phase) = None \<Longrightarrow> readOwnership db entity phase = None"
  by (simp add: readOwnership_def)

lemma tsel_put:
  "tselect lrow_key (tput lrow_key rows r) k = (if k = lrow_key r then Some r else tselect lrow_key rows k)"
  by (rule tselect_tput)

lemma insertEvent_events [simp]:
  "db_events (insertEvent c ent ph ev ep a rs now db) = db_events db @
     [\<lparr>ev_id = db_next_event db, ev_entity = ent, ev_phase = ph, ev_event = ev, ev_owner_epoch = ep,
       ev_actor = a, ev_reason = rs, ev_created_at = now,
       ev_caller_principal_id = cl_principal_id c, ev_via_principal_id = cl_via_principal_id c\<rparr>]"
  by (simp add: insertEvent_def)

lemma readOwnership_insertEvent [simp]:
  "readOwnership (insertEvent c ent ph ev ep a rs now db) entity phase = readOwnership db entity phase"
  by (simp add: readOwnership_def)

lemma lrow_key_of: "tsel db k = Some r \<Longrightarrow> lrow_key r = k"
  by (auto dest: tselect_SomeD)

lemma inTx_ok [simp]:
  "inTx TxOk db0 (db', out, None) = (db', out, None)"
  "inTx TxOk db0 (db', out, Some ErrOwnedByOther) = (db', out, Some ErrOwnedByOther)"
  "e \<noteq> ErrOwnedByOther \<Longrightarrow> inTx TxOk db0 (db', out, Some e) = (db0, out, Some e)"
  by (simp_all add: inTx_def)

lemma nil_on_error_simps [simp]:
  "nil_on_error (db, out, None) = (db, out, None)"
  "nil_on_error (db, out, Some e) = (db, None, Some e)"
  by (simp_all add: nil_on_error_def)

lemma inTx_no_error:
  "inTx fault db0 body = (db', out, None) \<longleftrightarrow> fault = TxOk \<and> body = (db', out, None)"
  by (cases fault) (auto simp: inTx_def split: prod.splits option.splits if_splits)

lemma nil_on_error_no_error: "nil_on_error res = (db', out, None) \<longleftrightarrow> res = (db', out, None)"
  by (auto simp: nil_on_error_def split: prod.splits if_splits)

section \<open>Acquire\<close>

lemma Acquire_valid:
  assumes "validate (aq_entity req) (aq_phase req) = None" and "\<not> owner_blank (aq_owner req)"
  shows "Acquire fault now c req dbr dbw =
    (case inTx fault dbw (acquire_body now c req dbr dbw) of (db', out, err) \<Rightarrow>
       if err \<noteq> None \<and> err \<noteq> Some ErrOwnedByOther then (db', None, err) else (db', out, err))"
  using assms by (simp add: Acquire_def)

lemma acquire_values_key [simp]: "lrow_key (acquire_values now req) = lkey_of (aq_entity req) (aq_phase req)"
  by (simp add: lrow_key_def lkey_of_def acquire_values_def)

text \<open>The insert, the takeover of a finished record, and the conflict.\<close>

lemma acquire_upsert_none:
  assumes "tsel db (lkey_of (aq_entity req) (aq_phase req)) = None"
  shows "\<exists>out. acquire_upsert now c req db =
    (insertEvent c (o_entity out) (aq_phase req) EventOwnerAcquired 1 (aq_owner req) (aq_policy_ref req)
       now (db\<lparr>db_rows := tput lrow_key (db_rows db) (acquire_values now req)\<rparr>), Some out, None) \<and>
    out = scanRow (acquire_values now req)"
  using assms
  by (simp add: acquire_upsert_def acquireUpsertSQL_def exec_def)
    (simp add: acquire_values_def)

lemma acquire_upsert_free:
  assumes "tsel db (lkey_of (aq_entity req) (aq_phase req)) = Some r" and "\<not> held_state (r_state r)"
  shows "\<exists>r' db'. acquire_upsert now c req db = (db', Some (scanRow r'), None) \<and>
    tsel db' (lkey_of (aq_entity req) (aq_phase req)) = Some r' \<and>
    claim_of r' = \<lparr>cm_owner = aq_owner req, cm_epoch = r_epoch r + 1, cm_state = StateActive, cm_to = None\<rparr>"
proof -
  have "r_state r = StateReleased \<or> r_state r = StateTerminal"
    using assms(2) by (cases "r_state r") (auto simp: held_state_def)
  then show ?thesis
    using assms(1) lrow_key_of [OF assms(1)]
    by (simp add: acquire_upsert_def acquireUpsertSQL_def exec_def Let_def tsel_put
          lrow_key_def claim_of_def acquire_values_def lkey_of_def)
qed

lemma acquire_upsert_held:
  assumes "tsel db (lkey_of (aq_entity req) (aq_phase req)) = Some r" and "held_state (r_state r)"
  shows "acquire_upsert now c req db =
    (if o_owner (scanRow r) = aq_owner req then (db, Some (scanRow r), None)
     else (insertEvent c (o_entity (scanRow r)) (aq_phase req) EventOwnerDenied (r_epoch r) (aq_owner req)
             (''lost acquire race to '' @ owner_text (o_owner (scanRow r))) now db,
           Some (scanRow r), Some ErrOwnedByOther))"
proof -
  have "\<not> (r_state r = StateReleased \<or> r_state r = StateTerminal)"
    using assms(2) by (auto simp: held_state_def)
  then have "exec (acquireUpsertSQL (acquire_values now req)) db = (db, None)"
    using assms(1) by (simp add: acquireUpsertSQL_def exec_def)
  then show ?thesis
    unfolding acquire_upsert_def using assms(1) by (simp add: readOwnership_row)
qed

text \<open>The refresh under the lock: the guards hold of the row just read.\<close>

lemma acquire_reacquire_locked:
  assumes "tsel db (lkey_of (aq_entity req) (aq_phase req)) = Some r" and "held_state (r_state r)"
  shows "\<exists>r'. acquire_reacquire now req (scanRow r) db =
      (db\<lparr>db_rows := tput lrow_key (db_rows db) r'\<rparr>, Some (scanRow r'), None) \<and>
      lrow_key r' = lrow_key r \<and> claim_of r' = claim_of r \<and>
      r_last_seen_at r' = (if r_state r = StateHandingOff then r_last_seen_at r else now) \<and>
      r_last_progress_at r' = r_last_progress_at r \<and> r_handoff_started_at r' = r_handoff_started_at r"
  unfolding acquire_reacquire_def reacquireRefreshSQL_def Let_def
  using assms by (auto simp: exec_hit [OF assms(1)] lrow_key_def claim_of_def)

lemma Acquire_locked:
  assumes v: "validate (aq_entity req) (aq_phase req) = None" and w: "\<not> owner_blank (aq_owner req)"
    and k: "k = lkey_of (aq_entity req) (aq_phase req)"
    and res: "Acquire TxOk now c req db db = (db', out, err)"
  shows "claim_at db k = None \<Longrightarrow> err = None \<and>
      claim_at db' k = Some \<lparr>cm_owner = aq_owner req, cm_epoch = 1, cm_state = StateActive, cm_to = None\<rparr>"
    and "claim_at db k = Some cl \<Longrightarrow> \<not> held_state (cm_state cl) \<Longrightarrow> err = None \<and>
      claim_at db' k = Some \<lparr>cm_owner = aq_owner req, cm_epoch = cm_epoch cl + 1,
                             cm_state = StateActive, cm_to = None\<rparr>"
    and "claim_at db k = Some cl \<Longrightarrow> held_state (cm_state cl) \<Longrightarrow> cm_owner cl = aq_owner req \<Longrightarrow>
      err = None \<and> claim_at db' k = Some cl \<and> db_events db' = db_events db"
    and "claim_at db k = Some cl \<Longrightarrow> held_state (cm_state cl) \<Longrightarrow> cm_owner cl \<noteq> aq_owner req \<Longrightarrow>
      err = Some ErrOwnedByOther \<and> db_rows db' = db_rows db \<and>
      (\<exists>e. db_events db' = db_events db @ [e] \<and> ev_event e = EventOwnerDenied \<and>
           ev_actor e = aq_owner req \<and> ev_owner_epoch e = cm_epoch cl)"
proof -
  note body = res [unfolded Acquire_valid [OF v w]]
  show "err = None \<and>
      claim_at db' k = Some \<lparr>cm_owner = aq_owner req, cm_epoch = 1, cm_state = StateActive, cm_to = None\<rparr>"
    if "claim_at db k = None"
  proof -
    from that have none: "tsel db k = None" by (simp add: claim_at_def)
    from acquire_upsert_none [OF this [unfolded k], of now c] body none k show ?thesis
      by (auto simp: acquire_body_def readOwnership_none claim_at_def tsel_put claim_of_def)
        (simp_all add: acquire_values_def)
  qed
  show "err = None \<and> claim_at db' k = Some \<lparr>cm_owner = aq_owner req, cm_epoch = cm_epoch cl + 1,
                             cm_state = StateActive, cm_to = None\<rparr>"
    if "claim_at db k = Some cl" "\<not> held_state (cm_state cl)"
  proof -
    from that obtain r where r: "tsel db k = Some r" "cl = claim_of r" by (auto simp: claim_at_def)
    with that have "\<not> held_state (r_state r)" by simp
    from acquire_upsert_free [OF r(1) [unfolded k] this, of now c] body r that k show ?thesis
      by (auto simp: acquire_body_def readOwnership_row claim_at_def held_state_def)
  qed
  show "err = None \<and> claim_at db' k = Some cl \<and> db_events db' = db_events db"
    if "claim_at db k = Some cl" "held_state (cm_state cl)" "cm_owner cl = aq_owner req"
  proof -
    from that obtain r where r: "tsel db k = Some r" "cl = claim_of r" by (auto simp: claim_at_def)
    with that have "held_state (r_state r)" by simp
    from acquire_reacquire_locked [OF r(1) [unfolded k] this, of now] body r that k lrow_key_of [OF r(1)]
    show ?thesis
      by (auto simp: acquire_body_def readOwnership_row claim_at_def held_state_def tsel_put)
  qed
  show "err = Some ErrOwnedByOther \<and> db_rows db' = db_rows db \<and>
      (\<exists>e. db_events db' = db_events db @ [e] \<and> ev_event e = EventOwnerDenied \<and>
           ev_actor e = aq_owner req \<and> ev_owner_epoch e = cm_epoch cl)"
    if "claim_at db k = Some cl" "held_state (cm_state cl)" "cm_owner cl \<noteq> aq_owner req"
  proof -
    from that obtain r where r: "tsel db k = Some r" "cl = claim_of r" by (auto simp: claim_at_def)
    with body that k show ?thesis
      by (auto simp: acquire_body_def readOwnership_row held_state_def)
  qed
qed

text \<open>A successful call leaves its caller the holder, whatever it decided on.\<close>

lemma acquire_upsert_owns:
  assumes "acquire_upsert now c req dbw = (db', Some out, None)"
  shows "\<exists>cl. claim_at db' (lkey_of (aq_entity req) (aq_phase req)) = Some cl \<and>
    held_state (cm_state cl) \<and> cm_owner cl = aq_owner req \<and> cm_epoch cl = o_epoch out"
proof -
  let ?k = "lkey_of (aq_entity req) (aq_phase req)"
  consider (none) "tsel dbw ?k = None"
    | (free) r where "tsel dbw ?k = Some r" "\<not> held_state (r_state r)"
    | (held) r where "tsel dbw ?k = Some r" "held_state (r_state r)"
    by (cases "tsel dbw ?k") auto
  then show ?thesis
  proof cases
    case none
    from acquire_upsert_none [OF this, of now c] assms show ?thesis
      by (auto simp: claim_at_def tsel_put held_state_def)
        (simp_all add: acquire_values_def)
  next
    case free
    from acquire_upsert_free [OF this, of now c] assms show ?thesis
      by (auto simp: claim_at_def held_state_def claim_of_def)
  next
    case held
    with assms show ?thesis
      by (auto simp: acquire_upsert_held claim_at_def split: if_splits)
  qed
qed

lemma acquire_reacquire_owns:
  assumes "acquire_reacquire now req existing dbw = (db', Some out, None)"
    and "held_state (o_state existing)"
  shows "\<exists>cl. claim_at db' (lkey_of (aq_entity req) (aq_phase req)) = Some cl \<and>
    held_state (cm_state cl) \<and> cm_owner cl = o_owner existing \<and> cm_epoch cl = o_epoch out"
proof -
  let ?k = "lkey_of (aq_entity req) (aq_phase req)"
  from assms(1) have "exec (reacquireRefreshSQL (if o_state existing = StateHandingOff
        then o_last_seen_at existing else now) (e_version (aq_entity req))
        (aq_temporal_workflow_id req) now ?k (o_epoch existing) (o_owner existing) (o_state existing)) dbw
      = (db', Some out)"
    by (auto simp: acquire_reacquire_def Let_def split: prod.splits option.splits)
  from this [unfolded reacquireRefreshSQL_def] obtain r where
    r: "tsel dbw ?k = Some r" "r_owner_type r = ow_type (o_owner existing)"
       "r_owner_id r = ow_id (o_owner existing)" "r_state r = o_state existing" "lrow_key r = ?k"
    and new: "\<exists>v w t. let r' = r\<lparr>r_last_seen_at := t, r_entity_version := v,
        r_temporal_workflow_id := w, r_updated_at := now\<rparr>
      in out = scanRow r' \<and> db' = dbw\<lparr>db_rows := tput lrow_key (db_rows dbw) r'\<rparr>"
    unfolding Let_def by (rule exec_tupdate_Some) blast
  from new r assms(2) show ?thesis
    by (auto simp: claim_at_def tsel_put lrow_key_def Let_def)
qed

lemma Acquire_owns:
  assumes "Acquire fault now c req dbr dbw = (db', Some out, None)"
  shows "\<exists>cl. claim_at db' (lkey_of (aq_entity req) (aq_phase req)) = Some cl \<and>
    held_state (cm_state cl) \<and> cm_owner cl = aq_owner req \<and> cm_epoch cl = o_epoch out"
proof -
  from assms have v: "validate (aq_entity req) (aq_phase req) = None" "\<not> owner_blank (aq_owner req)"
    by (auto simp: Acquire_def split: option.splits if_splits)
  from assms have "inTx fault dbw (acquire_body now c req dbr dbw) = (db', Some out, None)"
    by (auto simp: Acquire_valid [OF v] split: prod.splits if_splits)
  then have body: "acquire_body now c req dbr dbw = (db', Some out, None)"
    by (simp add: inTx_no_error)
  show ?thesis
  proof (cases "readOwnership dbr (aq_entity req) (aq_phase req)")
    case None
    with body show ?thesis by (intro acquire_upsert_owns) (simp add: acquire_body_def)
  next
    case (Some existing)
    show ?thesis
    proof (cases "held_state (o_state existing)")
      case True
      with body Some have "acquire_reacquire now req existing dbw = (db', Some out, None)"
          "o_owner existing = aq_owner req"
        by (auto simp: acquire_body_def held_state_def split: if_splits)
      with acquire_reacquire_owns True show ?thesis by metis
    next
      case False
      with body Some show ?thesis
        by (intro acquire_upsert_owns) (auto simp: acquire_body_def held_state_def)
    qed
  qed
qed

end
