(* ===== verification/Lifecycle_Retry.thy ===== *)
theory Lifecycle_Retry
  imports Lifecycle_Calls
begin

text \<open>
  Retries and failures: what a failed call leaves behind, that no call reads a stale row
  under the lock, and that a duplicate of a finish, of a completion or of a recovery (one
  that follows the first, or one that decided before it and writes after it) answers with
  the record the first call wrote and writes nothing.
\<close>

section \<open>A failed call changes nothing\<close>

lemma inTx_failed:
  assumes "inTx fault db0 body = (db', out, Some e)" and "e \<noteq> ErrOwnedByOther"
  shows "db' = db0"
  using assms by (cases fault) (auto simp: inTx_def split: prod.splits option.splits if_splits)

lemma tx_failed:
  assumes "snd (snd (nil_on_error (inTx fault db0 body))) = Some e" and "e \<noteq> ErrOwnedByOther"
  shows "fst (inTx fault db0 body) = db0"
  using assms
  by (cases fault) (auto simp: inTx_def nil_on_error_def split: prod.splits option.splits if_splits)

lemma Acquire_failed:
  "Acquire fault now c req dbr dbw = (db', out, Some e) \<Longrightarrow> e \<noteq> ErrOwnedByOther \<Longrightarrow> db' = dbw"
  by (auto simp: Acquire_def split: option.splits if_splits prod.splits dest: inTx_failed)

lemma call_op_failed:
  assumes "call_op fault c now2 op now dbr dbw = (db', Some e)" and "e \<noteq> ErrOwnedByOther"
  shows "db' = dbw"
proof (cases op)
    case (OpAcquire req)
    with assms show ?thesis
      by (cases "Acquire fault now c req dbr dbw") (auto simp: db_err_def dest: Acquire_failed)
qed (use assms in \<open>auto simp: db_err_def RecordProgress_def HandoffStart_def
        HandoffComplete_def Release_def Terminal_def finish_def Recover_def FenceDeadClaim_def
        RequestHandoff_def RetryHandoff_def RequestReconcile_def
        dest: tx_failed split: option.splits if_splits\<close>)

section \<open>Finish\<close>

lemma finish_valid:
  "validate entity phase = None \<Longrightarrow>
   finish TxOk now c entity phase own epoch st ev reason dbr dbw = (db', out, None) \<longleftrightarrow>
   finish_body now c entity phase own epoch st ev reason dbr dbw = (db', out, None)"
  by (simp add: finish_def nil_on_error_no_error inTx_no_error)

lemma finish_ok_valid:
  "finish f now c entity phase own epoch st ev reason dbr dbw = (db', out, None) \<Longrightarrow>
     validate entity phase = None"
  by (auto simp: finish_def split: option.splits)

text \<open>The row a successful finish leaves.\<close>

lemma finish_body_locked:
  assumes "finish_body now c entity phase own epoch st ev reason db db = (db', Some out, None)"
  obtains (landed) r where "tsel db (lkey_of entity phase) = Some r" and "out = scanRow r" and "db' = db"
      and "o_owner out = own" and "o_epoch out = epoch" and "o_state out = st"
    | (wrote) r r' where "tsel db (lkey_of entity phase) = Some r" and "out = scanRow r'"
      and "held_state (r_state r)" and "o_owner (scanRow r) = own" and "r_epoch r = epoch"
      and "o_owner out = own" and "o_epoch out = epoch" and "o_state out = st"
      and "tsel db' (lkey_of entity phase) = Some r'"
proof (cases "finishedBy db entity phase own epoch st")
  case (Inl e)
  with assms show thesis by (simp add: finish_body_def)
next
  case (Inr fin)
  show thesis
  proof (cases fin)
    case (Some d)
    from Inr Some obtain r where r: "tsel db (lkey_of entity phase) = Some r"
      by (auto simp: finishedBy_def readOwnership_def split: option.splits)
    with Inr Some assms show thesis
      by (intro landed [OF r])
        (auto simp: finish_body_def finishedBy_def readOwnership_def split: if_splits)
  next
    case None
    with Inr assms obtain cur where cur: "currentFor db entity phase own epoch = Inr cur"
      by (auto simp: finish_body_def split: sum.splits)
    from currentFor_Inr [OF this] obtain r where r: "tsel db (lkey_of entity phase) = Some r"
        "o_owner (scanRow r) = own" "held_state (r_state r)" "r_epoch r = epoch"
      by (auto simp: readOwnership_def)
    then have "r_state r = StateActive \<or> r_state r = StateHandingOff" by (simp add: held_state_def)
    with Inr None cur r assms lrow_key_of [OF r(1)] show thesis
      by (intro wrote [of r])
        (auto simp: finish_body_def finishUpdateSQL_def exec_hit tsel_put lrow_key_def)
  qed
qed

lemma finish_duplicate_body:
  assumes "finish_body now c entity phase own epoch st ev reason db db = (db', Some out, None)"
    and "\<not> held_state st" and "dbr = db \<or> dbr = db'"
  shows "finish_body now' c' entity phase own epoch st ev reason' dbr db' = (db', Some out, None)"
  using assms(1)
proof (cases rule: finish_body_locked)
  case (landed r)
  with assms(3) have "dbr = db" by auto
  with landed show ?thesis
    by (auto simp: finish_body_def finishedBy_def readOwnership_def)
next
  case (wrote r r')
  have fin: "finishedBy db' entity phase own epoch st = Inr (Some out)"
    using wrote by (simp add: finishedBy_def readOwnership_def)
  show ?thesis
  proof (cases "dbr = db'")
    case True
    with fin show ?thesis by (simp add: finish_body_def)
  next
    case False
    with assms(3) have "dbr = db" by simp
    moreover have "finishedBy db entity phase own epoch st = Inr None"
      using wrote assms(2) by (auto simp: finishedBy_def readOwnership_def)
    moreover have "currentFor db entity phase own epoch = Inr (scanRow r)"
      using wrote by (auto simp: currentFor_def readOwnership_def held_state_def)
    moreover have "exec (finishUpdateSQL st now' reason' (lkey_of entity phase) epoch) db' = (db', None)"
      unfolding finishUpdateSQL_def
      by (rule exec_miss [OF wrote(9)]) (use wrote assms(2) in \<open>auto simp: held_state_def\<close>)
    ultimately show ?thesis using fin by (simp add: finish_body_def)
  qed
qed

section \<open>HandoffComplete\<close>

lemma handoff_complete_ok:
  "HandoffComplete TxOk now c entity phase incoming cfg dbr dbw = (db', out, None) \<longleftrightarrow>
   validate entity phase = None \<and> \<not> owner_blank incoming \<and>
   handoff_complete_body now c entity phase incoming cfg dbr dbw = (db', out, None)"
  by (auto simp: HandoffComplete_def nil_on_error_no_error inTx_no_error split: option.splits)

lemma handoff_complete_body_locked:
  assumes "handoff_complete_body now c entity phase incoming cfg db db = (db', Some out, None)"
    and "\<not> owner_blank incoming"
  obtains (landed) r where "tsel db (lkey_of entity phase) = Some r" and "out = scanRow r" and "db' = db"
      and "o_owner out = incoming" and "o_state out = StateActive"
    | (wrote) r r' where "tsel db (lkey_of entity phase) = Some r" and "out = scanRow r'"
      and "r_state r = StateHandingOff" and "o_handoff_to (scanRow r) = Some incoming"
      and "o_owner out = incoming" and "o_epoch out = r_epoch r + 1" and "o_state out = StateActive"
      and "tsel db' (lkey_of entity phase) = Some r'" and "r_handoff_to_type r' = ''''"
      and "r_handoff_to_id r' = ''''"
proof -
  from assms(1) obtain r where r: "tsel db (lkey_of entity phase) = Some r"
    by (auto simp: handoff_complete_body_def readOwnership_def split: option.splits)
  show thesis
  proof (cases "r_state r = StateActive \<and> o_owner (scanRow r) = incoming")
    case True
    with r assms show thesis
      by (intro landed) (auto simp: handoff_complete_body_def readOwnership_def)
  next
    case False
    with r assms have h: "r_state r = StateHandingOff" "o_handoff_to (scanRow r) = Some incoming"
      by (auto simp: handoff_complete_body_def readOwnership_def split: if_splits)
    then have "r_handoff_to_type r = ow_type incoming" "r_handoff_to_id r = ow_id incoming"
      by (auto dest: opt_owner_eq_Some)
    with r h assms lrow_key_of [OF r] show thesis
      by (intro wrote [of r])
        (auto simp: handoff_complete_body_def readOwnership_def handoffCompleteUpdateSQL_def
          exec_hit tsel_put lrow_key_def)
  qed
qed

lemma handoff_complete_duplicate_body:
  assumes "handoff_complete_body now c entity phase incoming cfg db db = (db', Some out, None)"
    and "\<not> owner_blank incoming" and "dbr = db \<or> dbr = db'"
  shows "handoff_complete_body now' c' entity phase incoming cfg' dbr db' = (db', Some out, None)"
  using assms(1,2)
proof (cases rule: handoff_complete_body_locked)
  case (landed r)
  with assms(3) have "dbr = db" by auto
  with landed show ?thesis by (auto simp: handoff_complete_body_def readOwnership_def)
next
  case (wrote r r')
  show ?thesis
  proof (cases "dbr = db'")
    case True
    with wrote show ?thesis by (simp add: handoff_complete_body_def readOwnership_def)
  next
    case False
    with assms(3) have [simp]: "dbr = db" by simp
    have miss: "exec (handoffCompleteUpdateSQL incoming StateActive now' (lkey_of entity phase)
        (o_epoch (scanRow r)) (cfg_temporal_workflow_id cfg') (cfg_policy_ref cfg') StateHandingOff) db'
      = (db', None)"
      unfolding handoffCompleteUpdateSQL_def
      by (rule exec_miss [OF wrote(8)]) (use wrote in auto)
    have read: "readOwnership db entity phase = Some (scanRow r)"
        "readOwnership db' entity phase = Some (scanRow r')"
      using wrote by (simp_all add: readOwnership_def)
    show ?thesis
      unfolding handoff_complete_body_def \<open>dbr = db\<close> read(1) option.case miss
      using wrote read(2) by (simp add: handoffAlreadyCompleted_def)
  qed
qed

section \<open>Recover\<close>

lemma recover_ok:
  "Recover TxOk now c entity phase own n evidence cfg dbr dbw = (db', out, None) \<longleftrightarrow>
   validate entity phase = None \<and> \<not> owner_blank own \<and> evidence \<noteq> '''' \<and> 0 < n \<and>
   recover_body now c entity phase own n evidence cfg dbr dbw = (db', out, None)"
  by (auto simp: Recover_def nil_on_error_no_error inTx_no_error split: option.splits)

lemma recover_body_locked:
  assumes "recover_body now c entity phase own n evidence cfg db db = (db', Some out, None)"
  obtains r r' where "tsel db (lkey_of entity phase) = Some r" and "out = scanRow r'"
      and "held_state (r_state r)" and "r_epoch r = n" and "IsDead (Some (scanRow r)) now"
      and "o_owner out = own" and "o_epoch out = n + 1" and "o_state out = StateActive"
      and "tsel db' (lkey_of entity phase) = Some r'"
proof -
  from assms obtain r where r: "tsel db (lkey_of entity phase) = Some r"
    by (auto simp: recover_body_def readOwnership_def split: option.splits)
  with assms have h: "r_epoch r = n" "held_state (r_state r)" "IsDead (Some (scanRow r)) now"
    by (auto simp: recover_body_def readOwnership_def held_state_def split: if_splits)
  then have "r_state r = StateActive \<or> r_state r = StateHandingOff" by (simp add: held_state_def)
  then have hit: "exec (recoverUpdateSQL own StateActive now e p w (lkey_of entity phase)
      (r_epoch r) (r_last_seen_at r)) db = (db\<lparr>db_rows := tput lrow_key (db_rows db)
        (r\<lparr>r_owner_type := ow_type own, r_owner_id := ow_id own,
              r_epoch := r_epoch r + 1, r_state := StateActive,
              r_acquired_at := now, r_last_seen_at := now, r_last_progress_at := now,
              r_progress_evidence := e, r_policy_ref := p,
              r_temporal_workflow_id := w,
              r_handoff_from_type := r_owner_type r, r_handoff_from_id := r_owner_id r,
              r_handoff_to_type := '''', r_handoff_to_id := '''', r_handoff_started_at := None,
              r_released_at := None, r_released_reason := '''', r_updated_at := now\<rparr>)\<rparr>,
       Some (scanRow (r\<lparr>r_owner_type := ow_type own, r_owner_id := ow_id own,
              r_epoch := r_epoch r + 1, r_state := StateActive,
              r_acquired_at := now, r_last_seen_at := now, r_last_progress_at := now,
              r_progress_evidence := e, r_policy_ref := p,
              r_temporal_workflow_id := w,
              r_handoff_from_type := r_owner_type r, r_handoff_from_id := r_owner_id r,
              r_handoff_to_type := '''', r_handoff_to_id := '''', r_handoff_started_at := None,
              r_released_at := None, r_released_reason := '''', r_updated_at := now\<rparr>)))" for e p w
    unfolding recoverUpdateSQL_def by (intro exec_hit [OF r]) simp
  have "readOwnership db entity phase = Some (scanRow r)" using r by (simp add: readOwnership_def)
  with assms h lrow_key_of [OF r] show thesis
    unfolding recover_body_def
    by (intro that [OF r _ h(2,1,3)])
      (auto simp: hit Let_def tsel_put lrow_key_def held_state_def simp del: append_Cons append_Nil
        split: if_splits)
qed

lemma recover_duplicate_body:
  assumes "recover_body now c entity phase own n evidence cfg db db = (db', Some out, None)"
    and "now \<le> now'"
  shows "recover_body now' c' entity phase own n evidence cfg' db db' = (db', Some out, None)"
  using assms(1)
proof (cases rule: recover_body_locked)
  case (1 r r')
  have dead: "IsDead (Some (scanRow r)) now'" using 1(5) assms(2) by (auto simp: IsDead_iff)
  have miss: "exec (recoverUpdateSQL own StateActive now' e p w (lkey_of entity phase)
      (r_epoch r) (r_last_seen_at r)) db' = (db', None)" for e p w
    unfolding recoverUpdateSQL_def
    by (rule exec_miss [OF 1(9)]) (use 1 in auto)
  have read: "readOwnership db entity phase = Some (scanRow r)"
      "readOwnership db' entity phase = Some out"
    using 1 by (simp_all add: readOwnership_def)
  show ?thesis
    unfolding recover_body_def read(1) option.case scanRow_sel miss
    using 1 dead read(2) by (auto simp: recover_missed_def held_state_def)
qed

end
