(* ===== verification/Lifecycle_Guarantees.thy ===== *)
theory Lifecycle_Guarantees
  imports Lifecycle_Retry
begin

text \<open>
  Facts about calls under the lock that the properties of the store rest on: no call reads a
  stale row, an owner that is leaving cannot keep its record alive, a dead owner's record
  can be recovered, and what the read operations return.
\<close>

section \<open>No stale read under the lock\<close>

lemma inTx_stale:
  "snd (snd (inTx fault db0 body)) = Some ErrStaleRead \<Longrightarrow> snd (snd body) = Some ErrStaleRead"
  by (cases fault) (auto simp: inTx_def split: prod.splits option.splits if_splits)

lemma tx_stale:
  "snd (snd (nil_on_error (inTx fault db0 body))) = Some ErrStaleRead \<Longrightarrow> snd (snd body) = Some ErrStaleRead"
  by (rule inTx_stale [of fault db0]) (auto simp: nil_on_error_def split: prod.splits)

lemma validate_stale: "validate entity phase \<noteq> Some ErrStaleRead"
  by (simp add: validate_def)

lemma checkPreconditions_stale: "checkPreconditions cur pre \<noteq> Some ErrStaleRead"
  by (auto simp: checkPreconditions_def)

lemma validateRecoveryRequest_stale: "validateRecoveryRequest req \<noteq> Some ErrStaleRead"
  by (auto simp: validateRecoveryRequest_def validatePreconditions_def)

lemma validateRecoveryRequest_version:
  "validateRecoveryRequest req = None \<Longrightarrow> rp_expected_version (rq_pre req) \<noteq> None"
  by (auto simp: validateRecoveryRequest_def validatePreconditions_def split: if_splits)

lemma acquire_stale: "snd (snd (acquire_body now c req db db)) \<noteq> Some ErrStaleRead"
proof (cases "tsel db (lkey_of (aq_entity req) (aq_phase req))")
  case None
  then show ?thesis
    using acquire_upsert_none [OF None, of now c] by (auto simp: acquire_body_def readOwnership_none)
next
  case (Some r)
  show ?thesis
  proof (cases "held_state (r_state r)")
    case True
    then show ?thesis
      using acquire_reacquire_locked [OF Some True, of now] Some
      by (auto simp: acquire_body_def readOwnership_row held_state_def)
  next
    case False
    then show ?thesis
      using acquire_upsert_free [OF Some False, of now c] Some
      by (auto simp: acquire_body_def readOwnership_row held_state_def)
  qed
qed

lemma progress_stale: "snd (snd (progress_body now c entity phase own n s db db)) \<noteq> Some ErrStaleRead"
  by (cases "tsel db (lkey_of entity phase)")
    (simp_all add: progress_body_def currentFor_def readOwnership_row readOwnership_none
      progressUpdateSQL_def exec_hit Let_def)

lemma handoff_start_stale:
  "snd (snd (handoff_start_body now c entity phase own n to s db db)) \<noteq> Some ErrStaleRead"
proof (cases "tsel db (lkey_of entity phase)")
  case (Some r)
  have "r_handoff_to_type r = ow_type (case o_handoff_to (scanRow r) of Some w \<Rightarrow> w
          | None \<Rightarrow> \<lparr>ow_type = '''', ow_id = ''''\<rparr>) \<and>
        r_handoff_to_id r = ow_id (case o_handoff_to (scanRow r) of Some w \<Rightarrow> w
          | None \<Rightarrow> \<lparr>ow_type = '''', ow_id = ''''\<rparr>)"
    by (simp add: opt_owner_def)
  with Some show ?thesis
    by (simp add: handoff_start_body_def currentFor_def readOwnership_row
          handoffStartUpdateSQL_def exec_hit Let_def)
qed (simp add: handoff_start_body_def currentFor_def readOwnership_none)

lemma handoff_complete_stale:
  "snd (snd (handoff_complete_body now c entity phase w cfg db db)) \<noteq> Some ErrStaleRead"
proof (cases "tsel db (lkey_of entity phase)")
  case (Some r)
  then show ?thesis
    by (auto simp: handoff_complete_body_def readOwnership_row handoffCompleteUpdateSQL_def
          exec_hit dest!: opt_owner_eq_Some)
qed (simp add: handoff_complete_body_def readOwnership_none)

lemma finish_stale:
  "snd (snd (finish_body now c entity phase own n st ev s db db)) \<noteq> Some ErrStaleRead"
proof (cases "tsel db (lkey_of entity phase)")
  case (Some r)
  then show ?thesis
    by (auto simp: finish_body_def finishedBy_def currentFor_def readOwnership_row
          finishUpdateSQL_def exec_hit split: sum.splits if_splits)
qed (simp add: finish_body_def finishedBy_def readOwnership_none)

lemma recover_body_dead:
  assumes r: "tsel db (lkey_of entity phase) = Some r" and "IsDead (Some (scanRow r)) now"
  shows "\<exists>db' out. recover_body now c entity phase own (r_epoch r) evidence cfg db db = (db', Some out, None)"
proof -
  have held: "r_state r = StateActive \<or> r_state r = StateHandingOff"
    using assms(2) by (auto simp: IsDead_iff held_state_def)
  have hit: "\<exists>db' out. exec (recoverUpdateSQL own StateActive now e p w (lkey_of entity phase)
      (r_epoch r) (r_last_seen_at r)) db = (db', Some out)" for e p w
    unfolding recoverUpdateSQL_def using exec_hit [OF r] held by simp
  then obtain db' out where hit: "exec (recoverUpdateSQL own StateActive now (''recovered: '' @ evidence)
      (cfg_policy_ref cfg) (cfg_temporal_workflow_id cfg) (lkey_of entity phase)
      (r_epoch r) (r_last_seen_at r)) db = (db', Some out)"
    by blast
  show ?thesis
    unfolding recover_body_def readOwnership_row [OF r] option.case scanRow_sel hit
    using assms(2) held by (auto simp: Let_def)
qed

lemma recover_stale:
  "snd (snd (recover_body now c entity phase own n s cfg db db)) \<noteq> Some ErrStaleRead"
proof (cases "tsel db (lkey_of entity phase)")
  case (Some r)
  show ?thesis
  proof (cases "n = r_epoch r \<and> IsDead (Some (scanRow r)) now")
    case True
    with recover_body_dead [OF Some, of now c own s cfg] show ?thesis by auto
  next
    case False
    with Some show ?thesis by (auto simp: recover_body_def readOwnership_row)
  qed
qed (simp add: recover_body_def readOwnership_none)

text \<open>The pins of a recovery transition hold of the row its preconditions were checked on.\<close>

lemma checked_pins:
  assumes "checkPreconditions (scanRow r) pre = None" and "rp_expected_version pre \<noteq> None"
  shows "r_epoch r = rp_expected_epoch pre" "r_owner_type r = ow_type (rp_expected_owner pre)"
    "r_owner_id r = ow_id (rp_expected_owner pre)" "r_entity_version r = pinned_version pre"
proof -
  have "o_owner (scanRow r) = rp_expected_owner pre"
    using assms(1) by (simp add: checkPreconditions_def split: if_splits)
  then show "r_owner_type r = ow_type (rp_expected_owner pre)"
      "r_owner_id r = ow_id (rp_expected_owner pre)"
    by (auto dest: arg_cong [where f = ow_type] arg_cong [where f = ow_id])
  show "r_epoch r = rp_expected_epoch pre" "r_entity_version r = pinned_version pre"
    using assms by (auto simp: checkPreconditions_def pinned_version_def split: option.splits if_splits)
qed

lemma fence_stale:
  assumes "validateRecoveryRequest req = None"
  shows "snd (snd (fence_body now now2 c req db db)) \<noteq> Some ErrStaleRead"
proof (cases "tsel db (lkey_of (rq_entity req) (rq_phase req))")
  case (Some r)
  show ?thesis
  proof (cases "checkPreconditions (scanRow r) (rq_pre req) = None \<and> held_state (r_state r)")
    case True
    note pins = checked_pins [OF conjunct1 [OF True] validateRecoveryRequest_version [OF assms]]
    have "exec (fenceUpdateSQL now rs (lkey_of (rq_entity req) (rq_phase req))
        (rp_expected_epoch (rq_pre req)) (rp_expected_owner (rq_pre req))
        (pinned_version (rq_pre req)) (r_last_seen_at r)) db \<noteq> (db', None)" for rs db'
      unfolding fenceUpdateSQL_def using True pins
      by (subst exec_hit [OF Some]) (auto simp: held_state_def)
    then show ?thesis
      using True Some
      by (auto simp: fence_body_def readOwnership_row Let_def simp del: append_Cons append_Nil
            split: prod.split option.split)
  next
    case False
    with Some show ?thesis
      by (auto simp: fence_body_def readOwnership_row held_state_def checkPreconditions_stale
            split: option.split)
  qed
qed (simp add: fence_body_def readOwnership_none)

lemma request_handoff_stale:
  assumes "validateRecoveryRequest req = None"
    and ok: "\<And>r. tsel db (lkey_of (rq_entity req) (rq_phase req)) = Some r \<Longrightarrow> row_ok r"
  shows "snd (snd (request_handoff_body now c req w db db)) \<noteq> Some ErrStaleRead"
proof (cases "tsel db (lkey_of (rq_entity req) (rq_phase req))")
  case (Some r)
  show ?thesis
  proof (cases "checkPreconditions (scanRow r) (rq_pre req) = None \<and> r_state r = StateActive")
    case True
    note pins = checked_pins [OF conjunct1 [OF True] validateRecoveryRequest_version [OF assms(1)]]
    have "exec (handoffRequestUpdateSQL StateHandingOff w now now now
        (lkey_of (rq_entity req) (rq_phase req)) StateActive
        (rp_expected_epoch (rq_pre req)) (rp_expected_owner (rq_pre req))
        (pinned_version (rq_pre req))) db \<noteq> (db', None)" for db'
      unfolding handoffRequestUpdateSQL_def using True pins ok [OF Some]
      by (subst exec_hit [OF Some]) (auto simp: row_ok_def)
    then show ?thesis
      using True Some
      by (auto simp: request_handoff_body_def readOwnership_row simp del: append_Cons append_Nil
            split: prod.split option.split)
  next
    case False
    with Some show ?thesis
      by (auto simp: request_handoff_body_def readOwnership_row checkPreconditions_stale
            split: option.split)
  qed
qed (simp add: request_handoff_body_def readOwnership_none)

lemma retry_handoff_stale:
  assumes "validateRecoveryRequest req = None"
  shows "snd (snd (retry_handoff_body now c req db db)) \<noteq> Some ErrStaleRead"
proof (cases "tsel db (lkey_of (rq_entity req) (rq_phase req))")
  case (Some r)
  show ?thesis
  proof (cases "checkPreconditions (scanRow r) (rq_pre req) = None \<and> r_state r = StateHandingOff")
    case True
    note pins = checked_pins [OF conjunct1 [OF True] validateRecoveryRequest_version [OF assms]]
    have "exec (handoffRetryUpdateSQL now (lkey_of (rq_entity req) (rq_phase req)) to started
        (rp_expected_epoch (rq_pre req)) (rp_expected_owner (rq_pre req))
        (pinned_version (rq_pre req))) db \<noteq> (db', None)"
      if "o_handoff_to (scanRow r) = Some to" "r_handoff_started_at r = Some started" for db' to started
      unfolding handoffRetryUpdateSQL_def using True pins that
      by (subst exec_hit [OF Some]) (auto dest: opt_owner_eq_Some)
    then show ?thesis
      using True Some
      by (auto simp: retry_handoff_body_def readOwnership_row simp del: append_Cons append_Nil
            split: prod.split option.split)
  next
    case False
    with Some show ?thesis
      by (auto simp: retry_handoff_body_def readOwnership_row checkPreconditions_stale
            split: option.split)
  qed
qed (simp add: retry_handoff_body_def readOwnership_none)

lemma reconcile_stale: "snd (snd (reconcile_body now c req dbr dbw)) \<noteq> Some ErrStaleRead"
  by (auto simp: reconcile_body_def checkPreconditions_stale split: option.split)

lemma call_op_stale:
  assumes "db_ok t db"
  shows "snd (call_op fault c now2 op now db db) \<noteq> Some ErrStaleRead"
proof
  assume st: "snd (call_op fault c now2 op now db db) = Some ErrStaleRead"
  have ok: "tsel db k = Some r \<Longrightarrow> row_ok r" for k r using assms by (rule db_okD)
  show False
  proof (cases op)
    case (OpAcquire req)
    have "snd (snd (Acquire fault now c req db db)) \<noteq> Some ErrStaleRead"
      using acquire_stale [of now c req db] inTx_stale [of fault db "acquire_body now c req db db"]
      by (auto simp: Acquire_def validate_stale split: option.split prod.split)
    with st OpAcquire show ?thesis by (simp add: db_err_def)
  qed (use st in \<open>auto simp: db_err_def RecordProgress_def HandoffStart_def HandoffComplete_def
      Release_def Terminal_def finish_def Recover_def FenceDeadClaim_def RequestHandoff_def
      RetryHandoff_def RequestReconcile_def validate_stale validateRecoveryRequest_stale
      progress_stale handoff_start_stale handoff_complete_stale finish_stale recover_stale
      fence_stale request_handoff_stale retry_handoff_stale reconcile_stale ok
      split: option.splits if_splits dest!: tx_stale\<close>)
qed

section \<open>An owner that is leaving\<close>

text \<open>
  The calls that neither end the handoff of a record nor start it again: any call on another record,
  and on this one all but those that complete, release, close, take over, fence or retry it.
\<close>

definition leaving_call :: "lkey \<Rightarrow> lc_op \<Rightarrow> bool" where
  "leaving_call k op \<longleftrightarrow> op_key op = k \<longrightarrow> (case op of
       OpHandoffComplete e p w cfg \<Rightarrow> False
     | OpRelease e p w n s \<Rightarrow> False
     | OpTerminal e p w n s \<Rightarrow> False
     | OpRecover e p w n s cfg \<Rightarrow> False
     | OpFence req \<Rightarrow> False
     | OpRetryHandoff req \<Rightarrow> False
     | _ \<Rightarrow> True)"

definition leaving_row :: "lc_db \<Rightarrow> lkey \<Rightarrow> int \<Rightarrow> gotime \<Rightarrow> bool" where
  "leaving_row db k n t \<longleftrightarrow>
     (\<exists>r. tsel db k = Some r \<and> r_state r = StateHandingOff \<and> r_epoch r = n \<and> r_last_seen_at r = t)"

lemma leaving_inTx:
  "leaving_row db k n t \<Longrightarrow> leaving_row (fst body) k n t \<Longrightarrow> leaving_row (fst (inTx fault db body)) k n t"
  using inTx_cases [of fault db body] by auto

lemma acquire_leaving:
  assumes "leaving_row db (lkey_of (aq_entity req) (aq_phase req)) n t"
  shows "leaving_row (fst (acquire_body now c req db db)) (lkey_of (aq_entity req) (aq_phase req)) n t"
proof -
  from assms obtain r where r: "tsel db (lkey_of (aq_entity req) (aq_phase req)) = Some r"
      "r_state r = StateHandingOff" "r_epoch r = n" "r_last_seen_at r = t"
    by (auto simp: leaving_row_def)
  then have "held_state (r_state r)" by (simp add: held_state_def)
  from acquire_reacquire_locked [OF r(1) this, of now] r lrow_key_of [OF r(1)] show ?thesis
    by (auto simp: acquire_body_def readOwnership_row leaving_row_def tsel_put claim_of_def)
qed

lemma progress_leaving:
  assumes "leaving_row db (lkey_of entity phase) n t"
  shows "leaving_row (fst (progress_body now c entity phase own m s db db)) (lkey_of entity phase) n t"
proof -
  from assms obtain r where r: "tsel db (lkey_of entity phase) = Some r"
      "r_state r = StateHandingOff" "r_epoch r = n" "r_last_seen_at r = t"
    by (auto simp: leaving_row_def)
  with lrow_key_of [OF r(1)] show ?thesis
    by (simp add: progress_body_def currentFor_def readOwnership_row progressUpdateSQL_def
          exec_hit Let_def leaving_row_def tsel_put lrow_key_def)
qed

lemma handoff_start_leaving:
  assumes "leaving_row db (lkey_of entity phase) n t"
  shows "leaving_row (fst (handoff_start_body now c entity phase own m to s db db)) (lkey_of entity phase) n t"
proof -
  from assms obtain r where r: "tsel db (lkey_of entity phase) = Some r"
      "r_state r = StateHandingOff" "r_epoch r = n" "r_last_seen_at r = t"
    by (auto simp: leaving_row_def)
  have "r_handoff_to_type r = ow_type (case o_handoff_to (scanRow r) of Some w \<Rightarrow> w
          | None \<Rightarrow> \<lparr>ow_type = '''', ow_id = ''''\<rparr>) \<and>
        r_handoff_to_id r = ow_id (case o_handoff_to (scanRow r) of Some w \<Rightarrow> w
          | None \<Rightarrow> \<lparr>ow_type = '''', ow_id = ''''\<rparr>)"
    by (simp add: opt_owner_def)
  with r lrow_key_of [OF r(1)] show ?thesis
    by (simp add: handoff_start_body_def currentFor_def readOwnership_row
          handoffStartUpdateSQL_def exec_hit Let_def leaving_row_def tsel_put lrow_key_def)
qed

lemma request_handoff_leaving:
  assumes "leaving_row db (lkey_of (rq_entity req) (rq_phase req)) n t"
  shows "leaving_row (fst (request_handoff_body now c req w db db)) (lkey_of (rq_entity req) (rq_phase req)) n t"
proof -
  from assms obtain r where r: "tsel db (lkey_of (rq_entity req) (rq_phase req)) = Some r" "r_state r = StateHandingOff"
    by (auto simp: leaving_row_def)
  with assms show ?thesis by (simp add: request_handoff_body_def readOwnership_row split: option.split)
qed

lemma reconcile_leaving:
  assumes "leaving_row db (lkey_of (rq_entity req) (rq_phase req)) n t"
  shows "leaving_row (fst (reconcile_body now c req db db)) (lkey_of (rq_entity req) (rq_phase req)) n t"
  using assms by (simp add: reconcile_body_def leaving_row_def split: option.split)

lemma leaving_step:
  assumes "leaving_row db k n t" and "leaving_call k op"
  shows "leaving_row (run_op fault c now2 op now db db) k n t"
proof (cases "op_key op = k")
  case False
  then have "tsel (run_op fault c now2 op now db db) k = tsel db k" by (intro store.frame) simp
  with assms(1) show ?thesis by (simp add: leaving_row_def)
next
  case True
  show ?thesis
  proof (cases op)
    case (OpAcquire req)
    have "fst (Acquire fault now c req db db) = db \<or>
          fst (Acquire fault now c req db db) = fst (inTx fault db (acquire_body now c req db db))"
      by (auto simp: Acquire_def split: option.split prod.split)
    then show ?thesis
      using OpAcquire True assms(1) leaving_inTx [OF assms(1), of "acquire_body now c req db db" fault]
        acquire_leaving [of db req n t now c]
      by (auto simp: run_op_def db_err_def)
  qed (use True assms in \<open>auto simp: leaving_call_def run_op_def db_err_def RecordProgress_def HandoffStart_def
      RequestHandoff_def RequestReconcile_def intro: leaving_inTx progress_leaving handoff_start_leaving
      request_handoff_leaving reconcile_leaving split: option.split\<close>)
qed

type_synonym call = "tx_fault \<times> caller \<times> lc_op \<times> gotime"

fun run_calls :: "call list \<Rightarrow> lc_db \<Rightarrow> lc_db" where
  "run_calls [] db = db"
| "run_calls ((f, c, op, now) # cs) db = run_calls cs (run_op f c now op now db db)"

text \<open>No call of a run ends the handoff or starts it again: each is none of those calls, or fails.\<close>

fun still_leaving :: "lkey \<Rightarrow> call list \<Rightarrow> lc_db \<Rightarrow> bool" where
  "still_leaving k [] db \<longleftrightarrow> True"
| "still_leaving k ((f, c, op, now) # cs) db \<longleftrightarrow>
     (leaving_call k op \<or> (case snd (call_op f c now op now db db) of None \<Rightarrow> False | Some e \<Rightarrow> e \<noteq> ErrOwnedByOther)) \<and>
     still_leaving k cs (run_op f c now op now db db)"

lemma leaving_calls:
  "leaving_row db k n t \<Longrightarrow> still_leaving k cs db \<Longrightarrow> leaving_row (run_calls cs db) k n t"
proof (induction k cs db rule: still_leaving.induct)
  case (2 k f c op now cs db)
  have "leaving_row (run_op f c now op now db db) k n t"
  proof (cases "leaving_call k op")
    case True
    with "2.prems"(1) show ?thesis by (rule leaving_step)
  next
    case False
    with "2.prems"(2) obtain e where "snd (call_op f c now op now db db) = Some e" "e \<noteq> ErrOwnedByOther"
      by (auto split: option.splits)
    then have "run_op f c now op now db db = db"
      unfolding run_op_def by (cases "call_op f c now op now db db") (auto dest: call_op_failed)
    with "2.prems"(1) show ?thesis by simp
  qed
  with "2.IH" "2.prems"(2) show ?case by simp
qed simp

section \<open>Recovery of a dead record\<close>

lemma Recover_dead:
  assumes "validate entity phase = None" and "\<not> owner_blank own" and "evidence \<noteq> ''''"
    and "tsel db (lkey_of entity phase) = Some r" and "1 \<le> r_epoch r"
    and "IsDead (Some (scanRow r)) now"
  shows "\<exists>db' out. Recover TxOk now c entity phase own (r_epoch r) evidence cfg db db = (db', Some out, None) \<and>
    claim_at db' (lkey_of entity phase) = Some \<lparr>cm_owner = own, cm_epoch = r_epoch r + 1,
      cm_state = StateActive, cm_to = None\<rparr>"
proof -
  obtain db' out where body:
    "recover_body now c entity phase own (r_epoch r) evidence cfg db db = (db', Some out, None)"
    using recover_body_dead [OF assms(4,6)] by blast
  then have res: "Recover TxOk now c entity phase own (r_epoch r) evidence cfg db db = (db', Some out, None)"
    using assms by (simp add: recover_ok)
  from body obtain r' where r': "tsel db' (lkey_of entity phase) = Some r'" "out = scanRow r'"
      "o_owner out = own" "o_epoch out = r_epoch r + 1" "o_state out = StateActive"
    by (rule recover_body_locked) auto
  have "claim_step (dead_at db (lkey_of entity phase) now) (Some (claim_of r)) (Some (claim_of r'))"
    using recover.claim [where fault = TxOk and now = now and c = c and entity = entity and
        phase = phase and own = own and expectedEpoch = "r_epoch r" and evidence = evidence and
        cfg = cfg and dbr = db and dbw = db and k' = "lkey_of entity phase"] res assms(4) r'(1)
    by (simp add: claim_at_def)
  then have "cm_to (claim_of r') = None"
    by (rule claim_step_someE) (use r' in \<open>auto dest: arg_cong [where f = cm_epoch]\<close>)
  with res r' show ?thesis by (auto simp: claim_at_def claim_of_def)
qed

lemma Recover_refused:
  assumes "tsel db (lkey_of entity phase) = Some r" and "\<not> IsDead (Some (scanRow r)) now"
  shows "snd (snd (Recover fault now c entity phase own n evidence cfg db db)) \<noteq> None"
proof
  assume "snd (snd (Recover fault now c entity phase own n evidence cfg db db)) = None"
  then have "snd (snd (recover_body now c entity phase own n evidence cfg db db)) = None"
    by (auto simp: Recover_def nil_on_error_def inTx_def
        split: option.splits if_splits prod.splits)
  with assms show False by (auto simp: recover_body_def readOwnership_row split: if_splits)
qed

section \<open>Reads\<close>

lemma fold_row_map:
  "fold (\<lambda>r m. m(f r \<mapsto> g r)) rows m i =
     (case find (\<lambda>r. f r = i) (rev rows) of Some r \<Rightarrow> Some (g r) | None \<Rightarrow> m i)"
  by (induction rows rule: rev_induct) auto

lemma find_SomeD: "find p xs = Some x \<Longrightarrow> x \<in> set xs \<and> p x"
  by (auto simp: find_Some_iff)

lemma find_unique:
  assumes "distinct (map key rows)"
  shows "find (\<lambda>r. key r = k) (rev rows) = find (\<lambda>r. key r = k) rows"
proof (cases "find (\<lambda>r. key r = k) rows")
  case None
  moreover from None have "find (\<lambda>r. key r = k) (rev rows) = None"
    unfolding find_None_iff by auto
  ultimately show ?thesis by simp
next
  case (Some r)
  then have r: "r \<in> set rows" "key r = k" by (auto simp: find_Some_iff)
  have inj: "inj_on key (set rows)" using assms by (simp add: distinct_map)
  obtain r' where r': "find (\<lambda>r. key r = k) (rev rows) = Some r'"
    using r by (cases "find (\<lambda>r. key r = k) (rev rows)") (auto simp: find_None_iff)
  then have "r' \<in> set rows" "key r' = k"
    using find_SomeD [of "\<lambda>r. key r = k" "rev rows" r'] by simp_all
  with inj r have "r' = r" by (auto dest: inj_onD)
  with r' Some show ?thesis by simp
qed

lemma GetMany_is_Get:
  assumes "unique_key lrow_key (db_rows db)" and "GetMany kind phase ids db = Inr m"
  shows "m i = (if i \<in> set ids then readOwnership db \<lparr>e_kind = kind, e_id = i, e_version = v\<rparr> phase else None)"
proof -
  let ?sel = "\<lambda>r. r_entity_kind r = kind \<and> r_phase r = phase \<and> r_entity_id r \<in> set ids"
  have m: "m i = map_option scanRow (find (\<lambda>r. r_entity_id r = i) (rev (filter ?sel (db_rows db))))"
    using assms(2)
    by (cases "ids = []")
      (auto simp: GetMany_def fold_row_map split: if_splits option.split)
  have f: "find (\<lambda>r. r_entity_id r = i) (filter ?sel rows) =
      (if i \<in> set ids then find (\<lambda>r. lrow_key r = (kind, i, phase)) rows else None)" for rows
    by (induction rows) (auto simp: lrow_key_def)
  have "find (\<lambda>r. r_entity_id r = i) (rev (filter ?sel (db_rows db))) =
      (if i \<in> set ids then find (\<lambda>r. lrow_key r = (kind, i, phase)) (db_rows db) else None)"
    unfolding rev_filter f using find_unique assms(1) by (auto simp: unique_key_def)
  with m show ?thesis by (simp add: readOwnership_def lkey_of_def tselect_def)
qed

lemma sorted_take_sort_key: "sorted (map f (take n (sort_key f xs)))"
  by (simp add: take_map [symmetric] sorted_wrt_take)

section \<open>Acquire against a holder\<close>

lemma acquire_upsert_other:
  assumes "tsel dbw (lkey_of (aq_entity req) (aq_phase req)) = Some r" and "held_state (r_state r)"
    and "o_owner (scanRow r) \<noteq> aq_owner req"
  shows "snd (snd (acquire_upsert now c req dbw)) \<noteq> None \<and>
         db_rows (fst (acquire_upsert now c req dbw)) = db_rows dbw"
  using assms by (simp add: acquire_upsert_held)

lemma acquire_reacquire_other:
  assumes "tsel dbw (lkey_of (aq_entity req) (aq_phase req)) = Some r"
    and "o_owner (scanRow r) \<noteq> o_owner existing"
  shows "snd (snd (acquire_reacquire now req existing dbw)) \<noteq> None \<and>
         db_rows (fst (acquire_reacquire now req existing dbw)) = db_rows dbw"
proof -
  have "exec (reacquireRefreshSQL seen v w now (lkey_of (aq_entity req) (aq_phase req))
      (o_epoch existing) (o_owner existing) (o_state existing)) dbw = (dbw, None)" for seen v w
    unfolding reacquireRefreshSQL_def
    by (rule exec_miss [OF assms(1)]) (use assms(2) in \<open>auto simp: owner_eta [symmetric]\<close>)
  then show ?thesis
    using assms(1) by (simp add: acquire_reacquire_def Let_def readOwnership_row)
qed

lemma acquire_body_other:
  assumes "tsel dbw (lkey_of (aq_entity req) (aq_phase req)) = Some r" and "held_state (r_state r)"
    and "o_owner (scanRow r) \<noteq> aq_owner req"
  shows "snd (snd (acquire_body now c req dbr dbw)) \<noteq> None \<and>
         db_rows (fst (acquire_body now c req dbr dbw)) = db_rows dbw"
  using acquire_upsert_other [OF assms] acquire_reacquire_other [OF assms(1)] assms(3)
  by (simp add: acquire_body_def split: option.split)

lemma Acquire_held_other:
  assumes "claim_at dbw (lkey_of (aq_entity req) (aq_phase req)) = Some cl"
    and "held_state (cm_state cl)" and "cm_owner cl \<noteq> aq_owner req"
  shows "snd (snd (Acquire fault now c req dbr dbw)) \<noteq> None \<and>
    claim_at (fst (Acquire fault now c req dbr dbw)) (lkey_of (aq_entity req) (aq_phase req)) = Some cl"
proof -
  from assms obtain r where r: "tsel dbw (lkey_of (aq_entity req) (aq_phase req)) = Some r" "cl = claim_of r"
    by (auto simp: claim_at_def)
  with assms have b: "snd (snd (acquire_body now c req dbr dbw)) \<noteq> None"
      "db_rows (fst (acquire_body now c req dbr dbw)) = db_rows dbw"
    using acquire_body_other [OF r(1)] by simp_all
  have "db_rows (fst (inTx fault dbw (acquire_body now c req dbr dbw))) = db_rows dbw"
    using inTx_cases [of fault dbw "acquire_body now c req dbr dbw"] b(2) by auto
  moreover have "snd (snd (inTx fault dbw (acquire_body now c req dbr dbw))) \<noteq> None"
    using b(1) by (auto simp: inTx_def split: prod.split option.split)
  ultimately show ?thesis
    using assms(1) by (auto simp: Acquire_def claim_at_def split: option.split prod.split)
qed

end
