(* ===== verification/Lifecycle_Props.thy ===== *)
theory Lifecycle_Props
  imports Lifecycle_Guarantees
begin

text \<open>
  The properties of the ownership store: fencing and exclusivity over any interleaving of reads and writes, the
  outcomes of acquisitions, failures and repeated calls under the lock, and the recovery of an abandoned
  handoff.  Before them, two facts about single calls (one that names an epoch the record has left writes
  nothing, a retried handoff restarts both clocks of its record) and the values of the witnesses.
\<close>

section \<open>Calls at an old epoch\<close>

text \<open>The epoch a call pins its write to.\<close>

fun op_epoch :: "lc_op \<Rightarrow> int option" where
  "op_epoch (OpProgress e p w n s) = Some n"
| "op_epoch (OpHandoffStart e p w n t s) = Some n"
| "op_epoch (OpRelease e p w n s) = Some n"
| "op_epoch (OpTerminal e p w n s) = Some n"
| "op_epoch (OpRecover e p w n s cfg) = Some n"
| "op_epoch (OpFence req) = Some (rp_expected_epoch (rq_pre req))"
| "op_epoch (OpRequestHandoff req w) = Some (rp_expected_epoch (rq_pre req))"
| "op_epoch (OpRetryHandoff req) = Some (rp_expected_epoch (rq_pre req))"
| "op_epoch _ = None"

lemma tx_unchanged: "fst body = dbw \<Longrightarrow> fst (inTx fault dbw body) = dbw"
  using inTx_cases [of fault dbw body] by auto

text \<open>Each guarded statement misses a row at another epoch.\<close>

lemma stale_statements:
  assumes "tsel db k = Some r" and "r_epoch r \<noteq> n"
  shows "exec (progressUpdateSQL a1 a2 a3 a4 k n a5) db = (db, None)"
    and "exec (handoffStartUpdateSQL b1 b2 b3 b4 b5 k n b6 b7) db = (db, None)"
    and "exec (finishUpdateSQL c1 c2 c3 k n) db = (db, None)"
    and "exec (recoverUpdateSQL d1 d2 d3 d4 d5 d6 k n d7) db = (db, None)"
    and "exec (fenceUpdateSQL e1 e2 k n e3 e4 e5) db = (db, None)"
    and "exec (handoffRequestUpdateSQL f1 f2 f3 f4 f5 k f6 n f7 f8) db = (db, None)"
    and "exec (handoffRetryUpdateSQL g1 k g2 g3 n g4 g5) db = (db, None)"
  unfolding statement_defs by (rule exec_miss [OF assms(1)]; use assms(2) in simp)+

lemma stale_bodies:
  assumes "tsel dbw (lkey_of entity phase) = Some r" and "r_epoch r \<noteq> n"
  shows "fst (progress_body now c entity phase own n s dbr dbw) = dbw"
    and "fst (handoff_start_body now c entity phase own n to s dbr dbw) = dbw"
    and "fst (finish_body now c entity phase own n st ev s dbr dbw) = dbw"
    and "fst (recover_body now c entity phase own n s cfg dbr dbw) = dbw"
  using stale_statements [OF assms]
  by (auto simp: progress_body_def handoff_start_body_def finish_body_def recover_body_def Let_def
        split: sum.split option.split)

lemma stale_recovery_bodies:
  assumes "tsel dbw (lkey_of (rq_entity req) (rq_phase req)) = Some r"
    and "r_epoch r \<noteq> rp_expected_epoch (rq_pre req)"
  shows "fst (fence_body now now2 c req dbr dbw) = dbw"
    and "fst (request_handoff_body now c req w dbr dbw) = dbw"
    and "fst (retry_handoff_body now c req dbr dbw) = dbw"
  using stale_statements [OF assms]
  by (auto simp: fence_body_def request_handoff_body_def retry_handoff_body_def Let_def
        split: option.split bool.split simp del: append_Cons append_Nil)

lemma stale_epoch_call:
  assumes "op_epoch op = Some n" and "claim_at dbw (op_key op) = Some cl" and "cm_epoch cl \<noteq> n"
  shows "run_op fault c now2 op now dbr dbw = dbw"
proof -
  from assms(2) obtain r where r: "tsel dbw (op_key op) = Some r" "cl = claim_of r"
    by (auto simp: claim_at_def)
  with assms(3) have "r_epoch r \<noteq> n" by simp
  with assms(1) r(1) show ?thesis
    by (cases op)
      (auto simp: run_op_def db_err_def RecordProgress_def HandoffStart_def Release_def Terminal_def
         finish_def Recover_def FenceDeadClaim_def RequestHandoff_def RetryHandoff_def
         stale_bodies stale_recovery_bodies intro: tx_unchanged split: option.split)
qed

section \<open>A retried handoff\<close>

lemma retry_handoff_restarts:
  assumes "RetryHandoff TxOk now c req db db = (db', Some res, None)"
    and "LivenessBound (e_kind (rq_entity req)) (rq_phase req) = Some b" and "now' \<le> now + b"
  shows "\<exists>r. tsel db' (lkey_of (rq_entity req) (rq_phase req)) = Some r \<and>
    claim_at db (lkey_of (rq_entity req) (rq_phase req)) = Some (claim_of r) \<and>
    r_state r = StateHandingOff \<and> rr_ownership res = scanRow r \<and>
    \<not> HandoffStalled (Some (scanRow r)) now' \<and> \<not> IsDead (Some (scanRow r)) now'"
proof -
  let ?k = "lkey_of (rq_entity req) (rq_phase req)"
  from assms(1) have body: "retry_handoff_body now c req db db = (db', Some res, None)"
    by (auto simp: RetryHandoff_def nil_on_error_no_error inTx_no_error split: option.splits)
  then obtain r to started where r: "tsel db ?k = Some r" "r_state r = StateHandingOff"
      "o_handoff_to (scanRow r) = Some to" "r_handoff_started_at r = Some started"
    by (auto simp: retry_handoff_body_def readOwnership_def split: option.splits bool.splits)
  let ?r' = "r\<lparr>r_handoff_started_at := Some now, r_last_seen_at := now, r_updated_at := now\<rparr>"
  have "exec (handoffRetryUpdateSQL now ?k to started (rp_expected_epoch (rq_pre req))
        (rp_expected_owner (rq_pre req)) (pinned_version (rq_pre req))) db =
      (db\<lparr>db_rows := tput lrow_key (db_rows db) ?r'\<rparr>, Some (scanRow ?r')) \<or>
      exec (handoffRetryUpdateSQL now ?k to started (rp_expected_epoch (rq_pre req))
        (rp_expected_owner (rq_pre req)) (pinned_version (rq_pre req))) db = (db, None)"
    unfolding handoffRetryUpdateSQL_def exec_def tupdate_def using r(1) by auto
  with body r have res: "rr_ownership res = scanRow ?r'" "tsel db' ?k = Some ?r'"
    using lrow_key_of [OF r(1)]
    by (auto simp: retry_handoff_body_def readOwnership_row tsel_put lrow_key_def
          simp del: append_Cons append_Nil split: option.splits if_splits)
  have "e_kind (o_entity (scanRow r)) = e_kind (rq_entity req)" "r_phase r = rq_phase req"
    using lrow_key_of [OF r(1)] by (auto simp: lrow_key_def lkey_of_def)
  with res r assms(2,3) show ?thesis
    by (auto simp: claim_at_def claim_of_def HandoffStalled_iff IsDead_iff)
qed

text \<open>
  The properties of the ownership store, each with a run of the code's model in which its
  hypotheses hold.
\<close>

section \<open>A pull request and two actors, for the witnesses\<close>

definition ex_entity :: entity_ref where
  "ex_entity = \<lparr>e_kind = ''pull-request'', e_id = ''web#7'', e_version = ''sha-a''\<rparr>"

definition ex_phase :: string where "ex_phase = ''review-remediation''"

definition ex_wf :: owner where "ex_wf = \<lparr>ow_type = ''devloop-workflow'', ow_id = ''wf-1''\<rparr>"
definition ex_steward :: owner where "ex_steward = \<lparr>ow_type = ''pr-steward'', ow_id = ''s''\<rparr>"

definition ex_caller :: caller where
  "ex_caller = \<lparr>cl_principal_id = ''prn_1'', cl_via_principal_id = ''''\<rparr>"

definition ex_cfg :: owner_config where
  "ex_cfg = \<lparr>cfg_policy_ref = '''', cfg_temporal_workflow_id = ''''\<rparr>"

definition ex_req :: "owner \<Rightarrow> acquire_request" where
  "ex_req w = \<lparr>aq_entity = ex_entity, aq_phase = ex_phase, aq_owner = w, aq_proposal_ref = '''',
     aq_policy_ref = ''p'', aq_temporal_workflow_id = ''t''\<rparr>"

definition ex_key :: lkey where "ex_key = lkey_of ex_entity ex_phase"

definition ex_owned :: lc_db where
  "ex_owned = fst (Acquire TxOk 0 ex_caller (ex_req ex_wf) empty_db empty_db)"

definition ex_leaving :: lc_db where
  "ex_leaving = fst (HandoffStart TxOk 1 ex_caller ex_entity ex_phase ex_wf 1 ex_steward ''bye''
     ex_owned ex_owned)"

lemmas ex_defs = ex_entity_def ex_phase_def ex_wf_def ex_steward_def ex_caller_def ex_cfg_def
  ex_req_def ex_key_def

lemma ex_req_simps [simp]:
  "aq_entity (ex_req w) = ex_entity" "aq_phase (ex_req w) = ex_phase" "aq_owner (ex_req w) = w"
  by (simp_all add: ex_req_def)

lemma ex_valid: "validate ex_entity ex_phase = None"
  by code_simp

lemma ex_owners: "\<not> owner_blank ex_wf" "\<not> owner_blank ex_steward" "ex_wf \<noteq> ex_steward"
  by (simp_all add: ex_defs owner_blank_def)

lemma ex_owned_claim: "claim_at ex_owned ex_key = Some \<lparr>cm_owner = ex_wf, cm_epoch = 1,
    cm_state = StateActive, cm_to = None\<rparr>"
  by code_simp

lemma ex_leaving_claim: "claim_at ex_leaving ex_key = Some \<lparr>cm_owner = ex_wf, cm_epoch = 1,
    cm_state = StateHandingOff, cm_to = Some ex_steward\<rparr>"
  by code_simp

lemma ex_owned_reach: "reach 0 ex_owned"
  using r_call [OF r_start [of 0], of 0 TxOk ex_caller 0 "OpAcquire (ex_req ex_wf)"]
  by (simp add: run_op_def db_err_def ex_owned_def)

lemma ex_leaving_reach: "reach 1 ex_leaving"
  using r_call [OF ex_owned_reach, of 1 TxOk ex_caller 0
      "OpHandoffStart ex_entity ex_phase ex_wf 1 ex_steward ''bye''"]
  by (simp add: run_op_def db_err_def ex_leaving_def)

lemma ex_history: "history [ex_leaving, ex_owned, empty_db]"
proof -
  have "history [ex_owned, empty_db]"
    using h_call [OF h_start, of empty_db TxOk ex_caller 0 "OpAcquire (ex_req ex_wf)" 0]
    by (simp add: run_op_def db_err_def ex_owned_def)
  from h_call [OF this, of ex_owned TxOk ex_caller 0
      "OpHandoffStart ex_entity ex_phase ex_wf 1 ex_steward ''bye''" 1]
  show ?thesis by (simp add: run_op_def db_err_def ex_leaving_def)
qed

section \<open>Exclusivity and fencing, without the lock\<close>

text \<open>
  C3: In any history of calls, with no lock ordering what one call reads and another writes,
  the epoch of a record never goes back, and at one epoch it has had one owner only: an
  executor that holds an epoch can be fenced by comparing numbers.
\<close>

theorem fencing_epochs:
  assumes "history h" and "i \<le> j" and "j < length h" and "claim_at (h ! j) k = Some old"
  shows "\<exists>new. claim_at (h ! i) k = Some new \<and> cm_epoch old \<le> cm_epoch new \<and>
    (cm_epoch old = cm_epoch new \<longrightarrow> cm_owner old = cm_owner new)"
  using history_not_before [OF assms(1-3), of k] assms(4)
  by (auto simp: not_before_def split: option.splits)

theorem fencing_epochs_witness:
  "\<exists>new. claim_at ex_leaving ex_key = Some new \<and> 1 \<le> cm_epoch new \<and>
    (1 = cm_epoch new \<longrightarrow> ex_wf = cm_owner new)"
  using fencing_epochs [OF ex_history, of 0 1 ex_key] ex_owned_claim by auto

text \<open>
  C6: Whatever call is made, on whatever stale read, a holder that is not dead keeps its
  record at its epoch, unless it is handing off and the new owner is the actor it named.
\<close>

theorem no_theft_from_the_living:
  assumes "claim_at dbw k = Some cl" and "held_state (cm_state cl)" and "\<not> dead_at dbw k now"
    and "claim_at (run_op fault c now2 op now dbr dbw) k = Some cl'"
  shows "cm_owner cl' = cm_owner cl \<and> cm_epoch cl' = cm_epoch cl \<or>
         cm_state cl = StateHandingOff \<and> cm_to cl = Some (cm_owner cl')"
  using assms by (rule store.no_theft)

definition ex_completed :: lc_db where
  "ex_completed = run_op TxOk ex_caller 0 (OpHandoffComplete ex_entity ex_phase ex_steward ex_cfg) 2
     ex_leaving ex_leaving"

lemma ex_completed_claim: "claim_at ex_completed ex_key = Some \<lparr>cm_owner = ex_steward, cm_epoch = 2,
    cm_state = StateActive, cm_to = None\<rparr>"
  by code_simp

lemma ex_leaving_alive: "\<not> dead_at ex_leaving ex_key 2"
proof -
  have "case tsel ex_leaving ex_key of None \<Rightarrow> True | Some r \<Rightarrow> \<not> IsDead (Some (scanRow r)) 2"
    by code_simp
  then show ?thesis by (auto simp: dead_at_def)
qed

theorem no_theft_from_the_living_witness:
  "ex_steward = ex_wf \<and> (2::int) = 1 \<or> StateHandingOff = StateHandingOff \<and> Some ex_steward = Some ex_steward"
  using no_theft_from_the_living [OF ex_leaving_claim _ ex_leaving_alive, of TxOk ex_caller 0
      "OpHandoffComplete ex_entity ex_phase ex_steward ex_cfg" ex_leaving] ex_completed_claim
  by (simp add: ex_completed_def held_state_def)

text \<open>
  Acquire never takes a record another actor holds, at any age and whatever it read: it
  returns an error and leaves the claim as it is.
\<close>

theorem acquire_never_takes_held:
  assumes "claim_at dbw (lkey_of (aq_entity req) (aq_phase req)) = Some cl"
    and "held_state (cm_state cl)" and "cm_owner cl \<noteq> aq_owner req"
  shows "snd (snd (Acquire fault now c req dbr dbw)) \<noteq> None \<and>
    claim_at (fst (Acquire fault now c req dbr dbw)) (lkey_of (aq_entity req) (aq_phase req)) = Some cl"
  using Acquire_held_other [OF assms] by blast

theorem acquire_never_takes_held_witness:
  "snd (snd (Acquire TxOk 99 ex_caller (ex_req ex_steward) empty_db ex_owned)) \<noteq> None"
  using acquire_never_takes_held [of ex_owned "ex_req ex_steward" _ TxOk 99 ex_caller empty_db]
    ex_owned_claim ex_owners
  by (simp add: ex_key_def ex_req_def held_state_def)

text \<open>
  A caller Acquire answers without an error does hold the record, at the epoch of the
  record it is given.
\<close>

theorem acquire_success_holds:
  assumes "Acquire fault now c req dbr dbw = (db', Some out, None)"
  shows "\<exists>cl. claim_at db' (lkey_of (aq_entity req) (aq_phase req)) = Some cl \<and>
    held_state (cm_state cl) \<and> cm_owner cl = aq_owner req \<and> cm_epoch cl = o_epoch out"
  using assms by (rule Acquire_owns)

theorem acquire_success_holds_witness:
  "\<exists>cl. claim_at ex_owned ex_key = Some cl \<and> cm_owner cl = ex_wf"
proof -
  have "snd (snd (Acquire TxOk 0 ex_caller (ex_req ex_wf) empty_db empty_db)) = None"
      "fst (snd (Acquire TxOk 0 ex_caller (ex_req ex_wf) empty_db empty_db)) \<noteq> None"
    by code_simp+
  then obtain out where
    "Acquire TxOk 0 ex_caller (ex_req ex_wf) empty_db empty_db = (ex_owned, Some out, None)"
    unfolding ex_owned_def by (auto simp: prod_eq_iff)
  from acquire_success_holds [OF this] show ?thesis by (auto simp: ex_req_def ex_key_def)
qed

section \<open>What a call does, under the lock\<close>

text \<open>
  The four outcomes of Acquire: a fresh record at epoch 1, a finished one at the next
  epoch, the caller's own record at its epoch with no event, and the refusal of another
  actor's, which changes no row and is recorded as one denial naming the loser.
\<close>

theorem acquire_outcomes:
  assumes "validate (aq_entity req) (aq_phase req) = None" and "\<not> owner_blank (aq_owner req)"
    and "k = lkey_of (aq_entity req) (aq_phase req)"
    and "Acquire TxOk now c req db db = (db', out, err)"
  shows "case claim_at db k of
      None \<Rightarrow> err = None \<and> claim_at db' k =
        Some \<lparr>cm_owner = aq_owner req, cm_epoch = 1, cm_state = StateActive, cm_to = None\<rparr>
    | Some cl \<Rightarrow>
        if \<not> held_state (cm_state cl) then err = None \<and> claim_at db' k =
          Some \<lparr>cm_owner = aq_owner req, cm_epoch = cm_epoch cl + 1, cm_state = StateActive, cm_to = None\<rparr>
        else if cm_owner cl = aq_owner req then
          err = None \<and> claim_at db' k = Some cl \<and> db_events db' = db_events db
        else err = Some ErrOwnedByOther \<and> db_rows db' = db_rows db \<and>
          (\<exists>e. db_events db' = db_events db @ [e] \<and> ev_event e = EventOwnerDenied \<and>
               ev_actor e = aq_owner req \<and> ev_owner_epoch e = cm_epoch cl)"
  using Acquire_locked [OF assms] by (simp split: option.split)

theorem acquire_outcomes_witness:
  "snd (snd (Acquire TxOk 9 ex_caller (ex_req ex_steward) ex_owned ex_owned)) = Some ErrOwnedByOther"
proof -
  obtain db' out err where
    res: "Acquire TxOk 9 ex_caller (ex_req ex_steward) ex_owned ex_owned = (db', out, err)"
    by (cases "Acquire TxOk 9 ex_caller (ex_req ex_steward) ex_owned ex_owned") auto
  show ?thesis
    using acquire_outcomes [OF _ _ _ res, of ex_key] ex_owned_claim ex_valid ex_owners
    by (simp add: res ex_key_def held_state_def)
qed

text \<open>
  Under the lock no call of the store answers that its read was stale: that answer is
  left for the interleavings the lock rules out.
\<close>

theorem locked_calls_are_not_stale:
  assumes "reach t db"
  shows "snd (call_op fault c now2 op now db db) \<noteq> Some ErrStaleRead"
  using call_op_stale [OF reach_db_ok [OF assms]] .

theorem locked_calls_are_not_stale_witness:
  "snd (call_op TxOk ex_caller 5 (OpProgress ex_entity ex_phase ex_wf 1 ''pushed'') 5 ex_owned ex_owned)
     \<noteq> Some ErrStaleRead"
  by (rule locked_calls_are_not_stale [OF ex_owned_reach])

text \<open>
  A call that fails, in its checks, in a statement or at its commit, leaves the database
  as it was; only the refusal of an Acquire is committed, with its denial event.
\<close>

theorem failed_call_changes_nothing:
  assumes "call_op fault c now2 op now dbr dbw = (db', Some e)" and "e \<noteq> ErrOwnedByOther"
  shows "db' = dbw"
  using assms by (rule call_op_failed)

theorem failed_call_changes_nothing_witness:
  "fst (call_op TxCommitFails ex_caller 5 (OpTerminal ex_entity ex_phase ex_wf 1 ''merged'') 5 ex_owned ex_owned)
     = ex_owned"
proof -
  have "snd (call_op TxCommitFails ex_caller 5 (OpTerminal ex_entity ex_phase ex_wf 1 ''merged'') 5
      ex_owned ex_owned) = Some (ErrPlain ''lifecycle: commit'')"
    by code_simp
  then show ?thesis
    by (intro failed_call_changes_nothing [of TxCommitFails ex_caller 5
          "OpTerminal ex_entity ex_phase ex_wf 1 ''merged''" 5 ex_owned ex_owned _
          "ErrPlain ''lifecycle: commit''"]) (simp_all add: prod_eq_iff)
qed

section \<open>Retries\<close>

text \<open>
  A duplicate of a Terminal or of a Release that has landed (one that follows it, or one
  that made its read before and writes after) succeeds with the record of the first call,
  whose reason and time it keeps, and writes nothing.
\<close>

theorem finish_duplicate:
  assumes "finish TxOk now c entity phase own epoch st ev reason db db = (db', Some out, None)"
    and "\<not> held_state st" and "dbr = db \<or> dbr = db'"
  shows "finish TxOk now' c' entity phase own epoch st ev reason' dbr db' = (db', Some out, None)"
proof -
  note v = finish_ok_valid [OF assms(1)]
  show ?thesis
    using finish_duplicate_body [OF _ assms(2,3)] assms(1) by (simp add: finish_valid [OF v])
qed

definition ex_merged :: "ownership outcome" where
  "ex_merged = Terminal TxOk 5 ex_caller ex_entity ex_phase ex_wf 1 ''merged'' ex_owned ex_owned"

theorem finish_duplicate_witness:
  "Terminal TxOk 9 ex_caller ex_entity ex_phase ex_wf 1 ''again'' ex_owned (fst ex_merged) = ex_merged"
proof -
  have "snd (snd ex_merged) = None" "fst (snd ex_merged) \<noteq> None" by code_simp+
  then obtain out where "ex_merged = (fst ex_merged, Some out, None)" by (auto simp: prod_eq_iff)
  then have "finish TxOk 5 ex_caller ex_entity ex_phase ex_wf 1 StateTerminal EventOwnerTerminal ''merged''
      ex_owned ex_owned = (fst ex_merged, Some out, None)" and *: "ex_merged = (fst ex_merged, Some out, None)"
    by (simp_all add: ex_merged_def Terminal_def)
  from finish_duplicate [OF this(1)] show ?thesis
    by (subst (2) *) (simp add: Terminal_def held_state_def)
qed

text \<open>
  The same of HandoffComplete: the overlapping or the repeated completion by the incoming
  owner gets the record the first one wrote.
\<close>

theorem handoff_complete_duplicate:
  assumes "HandoffComplete TxOk now c entity phase incoming cfg db db = (db', Some out, None)"
    and "dbr = db \<or> dbr = db'"
  shows "HandoffComplete TxOk now' c' entity phase incoming cfg' dbr db' = (db', Some out, None)"
  using assms handoff_complete_duplicate_body unfolding handoff_complete_ok by blast

theorem handoff_complete_duplicate_witness:
  "HandoffComplete TxOk 9 ex_caller ex_entity ex_phase ex_steward ex_cfg ex_leaving
     (fst (HandoffComplete TxOk 2 ex_caller ex_entity ex_phase ex_steward ex_cfg ex_leaving ex_leaving))
   = HandoffComplete TxOk 2 ex_caller ex_entity ex_phase ex_steward ex_cfg ex_leaving ex_leaving"
    (is "_ = ?first")
proof -
  have "snd (snd ?first) = None" "fst (snd ?first) \<noteq> None" by code_simp+
  then obtain out where *: "?first = (fst ?first, Some out, None)" by (auto simp: prod_eq_iff)
  from handoff_complete_duplicate [OF *, of ex_leaving 9 ex_caller ex_cfg] show ?thesis
    by (subst (2) *) simp
qed

text \<open>
  The same of Recover for an overlapping duplicate: it answers with the takeover that
  landed, and takes nothing again.
\<close>

theorem recover_duplicate:
  assumes "Recover TxOk now c entity phase own n evidence cfg db db = (db', Some out, None)"
    and "now \<le> now'"
  shows "Recover TxOk now' c' entity phase own n evidence cfg' db db' = (db', Some out, None)"
  using assms recover_duplicate_body unfolding recover_ok by blast

theorem recover_duplicate_witness:
  "Recover TxOk (12 * hour) ex_caller ex_entity ex_phase ex_steward 1 ''crash'' ex_cfg ex_owned
     (fst (Recover TxOk (11 * hour) ex_caller ex_entity ex_phase ex_steward 1 ''crash'' ex_cfg ex_owned ex_owned))
   = Recover TxOk (11 * hour) ex_caller ex_entity ex_phase ex_steward 1 ''crash'' ex_cfg ex_owned ex_owned"
    (is "_ = ?first")
proof -
  have "snd (snd ?first) = None" "fst (snd ?first) \<noteq> None" by code_simp+
  then obtain out where *: "?first = (fst ?first, Some out, None)" by (auto simp: prod_eq_iff)
  from recover_duplicate [OF *, of "12 * hour" ex_caller ex_cfg] show ?thesis
    by (subst (2) *) simp
qed

section \<open>Liveness\<close>

text \<open>
  C25: An abandoned handoff does not keep its record for ever.  However many times the leaving
  owner, or anybody, re-acquires, reports progress, announces or asks for a handoff or asks for a reconciliation, and
  whatever is done to other records, the owner is not seen again; so as long as nobody has successfully
  completed, released, closed, taken over, fenced or retried the handoff of this record, once the bound has passed
  since it was last seen any actor that names the epoch recovers it.
\<close>

theorem abandoned_handoff_is_recoverable:
  assumes "leaving_row db (lkey_of entity phase) n t" and "1 \<le> n"
    and "still_leaving (lkey_of entity phase) cs db"
    and "validate entity phase = None" and "LivenessBound (e_kind entity) phase = Some b"
    and "b < now - t" and "\<not> owner_blank own" and "evidence \<noteq> ''''"
  shows "\<exists>db' out. Recover TxOk now c entity phase own n evidence cfg (run_calls cs db) (run_calls cs db)
        = (db', Some out, None) \<and>
      claim_at db' (lkey_of entity phase) =
        Some \<lparr>cm_owner = own, cm_epoch = n + 1, cm_state = StateActive, cm_to = None\<rparr>"
proof -
  from leaving_calls [OF assms(1,3)] obtain r where
    r: "tsel (run_calls cs db) (lkey_of entity phase) = Some r" "r_state r = StateHandingOff"
       "r_epoch r = n" "r_last_seen_at r = t"
    by (auto simp: leaving_row_def)
  have "IsDead (Some (scanRow r)) now"
    using r assms(5,6) lrow_key_of [OF r(1)]
    by (auto simp: IsDead_iff held_state_def lrow_key_def lkey_of_def)
  from Recover_dead [OF assms(4,7,8) r(1) _ this] r(3) assms(2) show ?thesis by blast
qed

theorem abandoned_handoff_is_recoverable_witness:
  "\<exists>db' out. Recover TxOk (11 * hour) ex_caller ex_entity ex_phase ex_steward 1 ''gone'' ex_cfg
      (run_calls [(TxOk, ex_caller, OpAcquire (ex_req ex_wf), 9 * hour)] ex_leaving)
      (run_calls [(TxOk, ex_caller, OpAcquire (ex_req ex_wf), 9 * hour)] ex_leaving) = (db', Some out, None)"
proof -
  have "case tsel ex_leaving (lkey_of ex_entity ex_phase) of None \<Rightarrow> False
      | Some r \<Rightarrow> r_state r = StateHandingOff \<and> r_epoch r = 1 \<and> r_last_seen_at r = 1"
    by code_simp
  then have "leaving_row ex_leaving (lkey_of ex_entity ex_phase) 1 1"
    by (auto simp: leaving_row_def split: option.splits)
  moreover have "LivenessBound (e_kind ex_entity) ex_phase = Some (10 * hour)" by code_simp
  ultimately show ?thesis
    using abandoned_handoff_is_recoverable [of ex_leaving ex_entity ex_phase 1 1
        "[(TxOk, ex_caller, OpAcquire (ex_req ex_wf), 9 * hour)]" "10 * hour" "11 * hour" ex_steward
        "''gone''" ex_caller ex_cfg] ex_valid ex_owners
    by (auto simp: leaving_call_def)
qed

end
