(* ===== verification/Lifecycle_Policy.thy ===== *)
theory Lifecycle_Policy
  imports Lifecycle_Props
begin

text \<open>
  The properties of the store that tie its views to its operations: what the derived status
  promises a caller, what the audit log records, what a fenced actor can still do, and what
  the reads return.
\<close>

section \<open>Invariants of the reachable databases\<close>

text \<open>
  Every database calls can produce under the lock has one row per key, each row naming
  an owner at a positive epoch with its handoff fields and its release time set exactly in
  the states that have them and its clocks ordered and not ahead, and a log of strictly
  increasing ids none of whose events has an epoch its record has not reached.
\<close>

theorem reachable_databases_are_consistent:
  assumes "reach t db"
  shows "unique_key lrow_key (db_rows db) \<and>
     (\<forall>k r. tsel db k = Some r \<longrightarrow> row_ok r \<and> clock_ok t r) \<and>
     (\<forall>e \<in> set (db_events db). ev_id e < db_next_event db \<and>
        (\<exists>r. tsel db (event_key e) = Some r \<and> ev_owner_epoch e \<le> r_epoch r)) \<and>
     sorted_wrt (<) (map ev_id (db_events db))"
  using reach_db_ok [OF assms] unfolding db_ok_def .

theorem reachable_databases_are_consistent_witness:
  "\<exists>r. tsel ex_leaving ex_key = Some r \<and> row_ok r \<and> clock_ok 1 r"
proof -
  have "tsel ex_leaving ex_key \<noteq> None" using ex_leaving_claim by (auto simp: claim_at_def)
  then obtain r where "tsel ex_leaving ex_key = Some r" by blast
  with reachable_databases_are_consistent [OF ex_leaving_reach] show ?thesis by blast
qed

text \<open>
  C26: Under the lock every change of a claim (owner, epoch, state or handoff target of a
  record) appends exactly one event to the log, for that record and with the epoch and the
  version it then has.
\<close>

theorem every_claim_change_is_audited:
  assumes "claim_at (run_op fault c now2 op now db db) k \<noteq> claim_at db k"
  shows "\<exists>e. db_events (run_op fault c now2 op now db db) = db_events db @ [e] \<and>
    event_key e = k \<and> event_agrees (run_op fault c now2 op now db db) e"
  using assms by (rule store.audited)

theorem every_claim_change_is_audited_witness:
  "\<exists>e. db_events ex_completed = db_events ex_leaving @ [e] \<and> event_key e = ex_key"
  using every_claim_change_is_audited [of TxOk ex_caller 0
      "OpHandoffComplete ex_entity ex_phase ex_steward ex_cfg" 2 ex_leaving ex_key]
    ex_completed_claim ex_leaving_claim ex_owners
  by (auto simp: ex_completed_def)

section \<open>The derived view\<close>

text \<open>
  The derived status of a stored record is sound for the decision callers take from it:
  a healthy or stuck record is held by a live owner, a dead, stalled, released or terminal
  one is not, and one that is handing off is held exactly when its owner is not dead.
\<close>

theorem derived_status_is_sound:
  assumes "reach t db" and "tsel db k = Some r"
  shows "d_held (Derive (Some (scanRow r)) now) \<longleftrightarrow>
    d_status (Derive (Some (scanRow r)) now) \<in> {StatusHealthy, StatusStuck} \<or>
    d_status (Derive (Some (scanRow r)) now) = StatusHandingOff \<and>
      \<not> d_dead (Derive (Some (scanRow r)) now)"
proof -
  have "HandoffStalled (Some (scanRow r)) now \<Longrightarrow> IsDead (Some (scanRow r)) now"
    using db_okD(2) [OF reach_db_ok [OF assms(1)] assms(2)] by (rule stalled_is_dead)
  moreover have "HandoffStalled (Some (scanRow r)) now \<Longrightarrow> r_state r = StateHandingOff"
    by (simp add: HandoffStalled_iff)
  ultimately show ?thesis
    by (cases "r_state r") (auto simp: Derive_held Derive_status Derive_dead held_state_def)
qed

theorem derived_status_is_sound_witness:
  "\<exists>r. tsel ex_leaving ex_key = Some r \<and> \<not> d_held (Derive (Some (scanRow r)) (11 * hour))"
proof -
  have "case tsel ex_leaving ex_key of None \<Rightarrow> False
      | Some r \<Rightarrow> d_status (Derive (Some (scanRow r)) (11 * hour)) = StatusHandoffStalled"
    by code_simp
  then obtain r where r: "tsel ex_leaving ex_key = Some r"
      "d_status (Derive (Some (scanRow r)) (11 * hour)) = StatusHandoffStalled"
    by (auto split: option.splits)
  with derived_status_is_sound [OF ex_leaving_reach r(1), of "11 * hour"] show ?thesis by auto
qed

text \<open>
  The view agrees with the operations: a record reads as held exactly when another actor
  can take it neither with Acquire nor, whatever epoch and evidence it names, with Recover.
\<close>

theorem held_is_withheld:
  assumes "reach t db" and "validate entity phase = None" and "\<not> owner_blank own"
    and "readOwnership db entity phase = Some o'" and "o_owner o' \<noteq> own"
    and "aq_entity req = entity" and "aq_phase req = phase" and "aq_owner req = own"
  shows "d_held (Derive (Some o') now) \<longleftrightarrow>
    snd (snd (Acquire TxOk now c req db db)) \<noteq> None \<and>
    (\<forall>n evidence. snd (snd (Recover TxOk now c entity phase own n evidence cfg db db)) \<noteq> None)"
proof -
  from assms(4) obtain r where r: "tsel db (lkey_of entity phase) = Some r" "o' = scanRow r"
    by (auto simp: readOwnership_def)
  then have cl: "claim_at db (lkey_of entity phase) = Some (claim_of r)"
    by (simp add: claim_at_def)
  obtain db' out err where res: "Acquire TxOk now c req db db = (db', out, err)"
    by (cases "Acquire TxOk now c req db db") auto
  have epoch: "1 \<le> r_epoch r"
    using db_okD(1) [OF reach_db_ok [OF assms(1)] r(1)] by (simp add: row_ok_def)
  have acq: "err \<noteq> None \<longleftrightarrow> held_state (r_state r)"
    using Acquire_locked(2,4) [OF _ _ _ res, of "lkey_of entity phase"] cl r assms
    by (cases "held_state (r_state r)") (auto simp: claim_of_def)
  show ?thesis
  proof (cases "IsDead (Some o') now")
    case True
    obtain db' out where
        "Recover TxOk now c entity phase own (r_epoch r) ''x'' cfg db db = (db', Some out, None)"
      using Recover_dead [OF assms(2,3), of "''x''" db r now c cfg] r epoch True by auto
    then have "\<exists>n evidence. snd (snd (Recover TxOk now c entity phase own n evidence cfg db db)) = None"
      by (metis snd_conv)
    with True show ?thesis by (auto simp: Derive_held)
  next
    case False
    with Recover_refused [OF r(1)] r acq res show ?thesis by (auto simp: Derive_held)
  qed
qed

theorem held_is_withheld_witness:
  "\<forall>n evidence. snd (snd (Recover TxOk 9 ex_caller ex_entity ex_phase ex_steward n evidence ex_cfg
     ex_owned ex_owned)) \<noteq> None"
proof -
  have "case readOwnership ex_owned ex_entity ex_phase of None \<Rightarrow> False
      | Some o' \<Rightarrow> o_owner o' = ex_wf \<and> d_held (Derive (Some o') 9)"
    by code_simp
  then obtain o' where "readOwnership ex_owned ex_entity ex_phase = Some o'" "o_owner o' = ex_wf"
      "d_held (Derive (Some o') 9)"
    by (auto split: option.splits)
  with held_is_withheld [OF ex_owned_reach ex_valid ex_owners(2), of o' "ex_req ex_steward" 9
      ex_caller ex_cfg] ex_owners
  show ?thesis by simp
qed

text \<open>
  The comparison with the mechanism the store replaces flags a disagreement as dangerous,
  and classes it as the store permitting what the other forbids, exactly when the store could
  be read, a workflow is driving the entity, and the store shows no live holder.
\<close>

theorem dangerous_divergence:
  "(dv_dangerous (Classify oo readable legacy now) \<longleftrightarrow>
     readable \<and> legacy = LegacyOwned \<and> \<not> d_held (Derive oo now)) \<and>
   (dv_class (Classify oo readable legacy now) = DivergeStorePermits \<longleftrightarrow>
     dv_dangerous (Classify oo readable legacy now))"
  by (auto simp: Classify_def Classify_dangerous_iff Classify_class_dangerous derived_nil_def)

section \<open>Fencing of an actor at an old epoch\<close>

text \<open>
  A call that names an epoch the record does not have writes nothing at all, whatever
  stale database its checks were made on: the epoch is part of the guard of every statement
  it could run.
\<close>

theorem stale_epoch_writes_nothing:
  assumes "op_epoch op = Some n" and "claim_at dbw (op_key op) = Some cl" and "cm_epoch cl \<noteq> n"
  shows "run_op fault c now2 op now dbr dbw = dbw"
  using assms by (rule stale_epoch_call)

theorem stale_epoch_writes_nothing_witness:
  "run_op TxOk ex_caller 0 (OpTerminal ex_entity ex_phase ex_wf 1 ''merged'') 3 ex_leaving ex_completed
     = ex_completed"
  using ex_completed_claim
  by (intro stale_epoch_writes_nothing) (auto simp: ex_key_def)

section \<open>Re-arming a stalled handoff\<close>

text \<open>
  A codeowner's retry of a stalled handoff changes nothing of the claim and restarts
  both clocks: for the whole of the next bound the record is neither stalled nor dead, so
  nobody can recover it from under the target.
\<close>

theorem retry_handoff_rearms:
  assumes "RetryHandoff TxOk now c req db db = (db', Some res, None)"
    and "LivenessBound (e_kind (rq_entity req)) (rq_phase req) = Some b" and "now' \<le> now + b"
  shows "\<exists>r. tsel db' (lkey_of (rq_entity req) (rq_phase req)) = Some r \<and>
    claim_at db (lkey_of (rq_entity req) (rq_phase req)) = Some (claim_of r) \<and>
    r_state r = StateHandingOff \<and> rr_ownership res = scanRow r \<and>
    \<not> HandoffStalled (Some (scanRow r)) now' \<and> \<not> IsDead (Some (scanRow r)) now'"
  using assms by (rule retry_handoff_restarts)

definition ex_retry :: recovery_request where
  "ex_retry = \<lparr>rq_entity = ex_entity, rq_phase = ex_phase,
     rq_pre = \<lparr>rp_expected_owner = ex_wf, rp_expected_epoch = 1, rp_expected_version = Some ''sha-a'',
               rp_expected_last_seen_at = None\<rparr>,
     rq_principal = ''prn_2'', rq_reason = ''nudge''\<rparr>"

theorem retry_handoff_rearms_witness:
  "\<exists>r. tsel (fst (RetryHandoff TxOk (11 * hour) ex_caller ex_retry ex_leaving ex_leaving)) ex_key = Some r \<and>
    \<not> IsDead (Some (scanRow r)) (20 * hour)"
proof -
  have "snd (snd (RetryHandoff TxOk (11 * hour) ex_caller ex_retry ex_leaving ex_leaving)) = None"
      "fst (snd (RetryHandoff TxOk (11 * hour) ex_caller ex_retry ex_leaving ex_leaving)) \<noteq> None"
    by code_simp+
  then obtain db' res where *:
      "RetryHandoff TxOk (11 * hour) ex_caller ex_retry ex_leaving ex_leaving = (db', Some res, None)"
    by (metis option.exhaust prod.collapse)
  have "LivenessBound (e_kind (rq_entity ex_retry)) (rq_phase ex_retry) = Some (10 * hour)"
      "(20 * hour :: int) \<le> 11 * hour + 10 * hour" "lkey_of (rq_entity ex_retry) (rq_phase ex_retry) = ex_key"
    by code_simp+
  from retry_handoff_rearms [OF * this(1,2)] this(3) * show ?thesis by auto
qed

section \<open>Reads\<close>

text \<open>
  The batched read answers each id of its list as the single read does, and no other id.
\<close>

theorem get_many_is_get:
  assumes "reach t db" and "GetMany kind phase ids db = Inr m"
  shows "m i = (if i \<in> set ids then readOwnership db \<lparr>e_kind = kind, e_id = i, e_version = v\<rparr> phase else None)"
  by (rule GetMany_is_Get [OF db_okD(3) [OF reach_db_ok [OF assms(1)]] assms(2)])

theorem get_many_is_get_witness:
  "\<exists>m. GetMany ''pull-request'' ''review-remediation'' [''web#7'', ''web#8''] ex_leaving = Inr m \<and>
     m ''web#7'' = readOwnership ex_leaving ex_entity ex_phase"
proof -
  obtain m where m: "GetMany ''pull-request'' ''review-remediation'' [''web#7'', ''web#8''] ex_leaving = Inr m"
    using LegalPhase_iff [of "''pull-request''" "''review-remediation''"]
    by (auto simp: GetMany_def KindPullRequest_def PhaseReviewRemediation_def)
  from get_many_is_get [OF ex_leaving_reach m, of "''web#7''" "''sha-a''"] m show ?thesis
    by (simp add: ex_entity_def ex_phase_def)
qed

end
