(* ===== verification/Go_Text.thy ===== *)
theory Go_Text
  imports Prelude
begin

text \<open>
  Texts as Go's standard library treats them, and the one encoding the packages share: the
  length-prefixed form that the commerce digests, the dispatch authorization and the intent hash of an
  action approval hash, injective for a fixed list of field names; the runes of a byte string;
  \<open>strings.TrimSpace\<close>; and regular expressions, matched by derivatives.
\<close>

text \<open>\<open><field>:<byte length>:<value>\n\<close> per field, after a version line.\<close>

fun encode_fields :: "(string \<times> string) list \<Rightarrow> string" where
  "encode_fields [] = []"
| "encode_fields ((n, v) # fs) =
     n @ CHR '':'' # show_nat (length v) @ CHR '':'' # v @ CHR 0x0A # encode_fields fs"

definition lengthPrefixed :: "string \<Rightarrow> (string \<times> string) list \<Rightarrow> string" where
  "lengthPrefixed version fs = version @ CHR 0x0A # encode_fields fs"

text \<open>SHA-256 in lower-case hex is the argument \<open>H\<close> of the digests.\<close>

type_synonym hash = "string \<Rightarrow> string"

section \<open>Decimal numbers\<close>

definition digit :: "char \<Rightarrow> bool" where
  "digit c \<longleftrightarrow> 48 \<le> (of_char c :: nat) \<and> (of_char c :: nat) \<le> 57"

definition decimal :: "string \<Rightarrow> nat" where
  "decimal s = foldl (\<lambda>n c. 10 * n + (of_char c - 48)) 0 s"

lemma show_nat_digits: "list_all digit (show_nat n)"
proof (induction n rule: show_nat.induct)
  case (1 n)
  have last: "digit (char_of (48 + n mod 10))" by (simp add: digit_def)
  show ?case
  proof (cases "n < 10")
    case True
    then show ?thesis by (subst show_nat.simps) (simp add: digit_def)
  next
    case False
    with 1 last show ?thesis by (subst show_nat.simps) simp
  qed
qed

lemma decimal_show_nat: "decimal (show_nat n) = n"
proof (induction n rule: show_nat.induct)
  case (1 n)
  then show ?case
    by (subst show_nat.simps) (auto simp: decimal_def)
qed

lemma show_nat_inj: "show_nat n = show_nat m \<longleftrightarrow> n = m"
  by (metis decimal_show_nat)

lemma show_int_inj: "show_int i = show_int j \<longleftrightarrow> i = j"
proof -
  have no: "show_nat n \<noteq> CHR ''-'' # s" for n s
    using show_nat_digits [of n] by (auto simp: digit_def)
  show ?thesis
    by (auto simp: show_int_def show_nat_inj no no [symmetric] split: if_splits)
qed

section \<open>The encoding\<close>

lemma number_then_colon:
  assumes "show_nat n @ CHR '':'' # a = show_nat m @ CHR '':'' # b"
  shows "n = m \<and> a = b"
proof -
  have up_to: "takeWhile (\<lambda>c. c \<noteq> CHR '':'') (show_nat k @ CHR '':'' # s) = show_nat k" for k s
    using show_nat_digits [of k] by (subst takeWhile_append2) (auto simp: list_all_iff digit_def)
  from assms have "show_nat n = show_nat m" using up_to [of n a] up_to [of m b] by simp
  with assms show ?thesis by (simp add: show_nat_inj)
qed

lemma encode_fields_inj:
  assumes "map fst fs = map fst gs" and "encode_fields fs = encode_fields gs"
  shows "fs = gs"
  using assms
proof (induction fs arbitrary: gs)
  case Nil
  then show ?case by simp
next
  case (Cons f fs)
  obtain n v where f: "f = (n, v)" by fastforce
  with Cons.prems(1) obtain w gs' where gs: "gs = (n, w) # gs'" "map fst fs = map fst gs'" by auto
  from Cons.prems(2) have "show_nat (length v) @ CHR '':'' # v @ CHR 0x0A # encode_fields fs =
      show_nat (length w) @ CHR '':'' # w @ CHR 0x0A # encode_fields gs'"
    unfolding f gs(1) by simp
  then have "length v = length w" "v @ CHR 0x0A # encode_fields fs = w @ CHR 0x0A # encode_fields gs'"
    using number_then_colon by blast+
  then have "v = w" "encode_fields fs = encode_fields gs'" by simp_all
  with Cons.IH [OF gs(2)] f gs(1) show ?case by simp
qed

text \<open>
  What the code uses of Go's text packages: \<open>unicode/utf8\<close> (the runes of a byte string and
  whether it is valid), \<open>strings.TrimSpace\<close>, and \<open>regexp\<close> as a matcher by derivatives, proved
  to decide the language of the expression.  A string is a list of bytes.
\<close>

section \<open>UTF-8\<close>

abbreviation byte :: "char \<Rightarrow> nat" where "byte c \<equiv> of_char c"

definition continues :: "nat \<Rightarrow> nat \<Rightarrow> char \<Rightarrow> bool" where
  "continues lo hi c \<longleftrightarrow> lo \<le> byte c \<and> byte c \<le> hi"

text \<open>
  \<open>utf8.DecodeRune\<close>: the rune at the head and the bytes after it.  A byte that starts no valid
  sequence is None and one byte wide.  The second byte of a three and four byte sequence has the
  range of the table \<open>acceptRanges\<close>, which excludes overlong forms, surrogates and runes
  above U+10FFFF.
\<close>

fun decode_rune :: "string \<Rightarrow> nat option \<times> string" where
  "decode_rune [] = (None, [])"
| "decode_rune (a # s) =
     (let x = byte a in
      if x < 0x80 then (Some x, s)
      else if 0xC2 \<le> x \<and> x \<le> 0xDF then
        (case s of b # s1 \<Rightarrow> if continues 0x80 0xBF b
                     then (Some ((x - 0xC0) * 64 + (byte b - 0x80)), s1) else (None, s)
         | _ \<Rightarrow> (None, s))
      else if 0xE0 \<le> x \<and> x \<le> 0xEF then
        (case s of b # c # s2 \<Rightarrow>
           if continues (if x = 0xE0 then 0xA0 else 0x80) (if x = 0xED then 0x9F else 0xBF) b \<and> continues 0x80 0xBF c
           then (Some ((x - 0xE0) * 4096 + (byte b - 0x80) * 64 + (byte c - 0x80)), s2) else (None, s)
         | _ \<Rightarrow> (None, s))
      else if 0xF0 \<le> x \<and> x \<le> 0xF4 then
        (case s of b # c # d # s3 \<Rightarrow>
           if continues (if x = 0xF0 then 0x90 else 0x80) (if x = 0xF4 then 0x8F else 0xBF) b \<and>
              continues 0x80 0xBF c \<and> continues 0x80 0xBF d
           then (Some ((x - 0xF0) * 262144 + (byte b - 0x80) * 4096 + (byte c - 0x80) * 64 + (byte d - 0x80)), s3)
           else (None, s)
         | _ \<Rightarrow> (None, s))
      else (None, s))"

lemma decode_rune_shorter: "length (snd (decode_rune (a # s))) \<le> length s"
  by (auto simp: Let_def split: list.splits)

function runes :: "string \<Rightarrow> nat option list" where
  "runes [] = []"
| "runes (a # s) = (let (r, s') = decode_rune (a # s) in r # runes s')"
  by pat_completeness auto
termination
proof (relation "measure length")
  fix a s x r s'
  assume "x = decode_rune (a # s)" and "(r, s') = x"
  then have "s' = snd (decode_rune (a # s))" by (metis snd_conv)
  then show "(s', a # s) \<in> measure length" using decode_rune_shorter [of a s] by simp
qed simp

definition valid_utf8 :: "string \<Rightarrow> bool" where
  "valid_utf8 s \<longleftrightarrow> None \<notin> set (runes s)"

text \<open>A byte below 0x80 is a rune of its own wherever it stands.\<close>

definition ascii :: "string \<Rightarrow> bool" where
  "ascii s \<longleftrightarrow> list_all (\<lambda>c. byte c < 0x80) s"

lemma ascii_simps [simp]:
  "ascii []" "ascii (c # s) \<longleftrightarrow> byte c < 0x80 \<and> ascii s" "ascii (s @ t) \<longleftrightarrow> ascii s \<and> ascii t"
  by (auto simp: ascii_def)

lemma runes_ascii: "ascii s \<Longrightarrow> runes (s @ t) = map (\<lambda>c. Some (byte c)) s @ runes t"
  by (induction s) simp_all

lemma runes_of_ascii: "ascii s \<Longrightarrow> runes s = map (\<lambda>c. Some (byte c)) s"
  using runes_ascii [of s "[]"] by simp

lemma ascii_valid: "ascii s \<Longrightarrow> valid_utf8 s"
  by (auto simp: valid_utf8_def runes_of_ascii)

text \<open>Whatever stands before it, an ASCII byte starts a rune.\<close>

lemma decode_before_ascii:
  assumes "byte d < 0x80"
  shows "decode_rune (a # s @ d # t) = (fst (decode_rune (a # s)), snd (decode_rune (a # s)) @ d # t)"
proof -
  have no: "\<not> continues lo hi d" if "0x80 \<le> lo" for lo hi
    using assms that by (simp add: continues_def)
  have no': "\<not> continues 0x80 0xBF d" "\<not> continues 0x80 0x8F d" "\<not> continues 0x90 0xBF d" "\<not> continues 0xA0 0xBF d"
      "\<not> continues 0x80 0x9F d" "\<not> continues 0xA0 0x9F d" "\<not> continues 0x90 0x8F d"
    by (auto intro!: no)
  show ?thesis
  proof (cases s)
    case Nil
    then show ?thesis using no' by (cases t; cases "tl t") (auto simp: Let_def split: list.splits)
  next
    case (Cons b s1)
    show ?thesis
    proof (cases s1)
      case Nil
      then show ?thesis using no' Cons by (cases t) (auto simp: Let_def)
    next
      case (Cons c s2)
      then show ?thesis using no' \<open>s = b # s1\<close> by (cases s2) (auto simp: Let_def)
    qed
  qed
qed

lemma runes_before_ascii:
  assumes "byte d < 0x80"
  shows "runes (s @ d # t) = runes s @ Some (byte d) # runes t"
proof (induction s rule: runes.induct)
  case 1
  show ?case using assms by simp
next
  case (2 a s)
  obtain r s' where d: "decode_rune (a # s) = (r, s')" by fastforce
  then have "decode_rune (a # s @ d # t) = (r, s' @ d # t)"
    using decode_before_ascii [OF assms, of a s t] by simp
  with 2 [OF d [symmetric] refl] d show ?case by (simp del: decode_rune.simps)
qed

lemma runes_around_ascii: "ascii m \<Longrightarrow> m \<noteq> [] \<Longrightarrow> runes (s @ m @ t) = runes s @ map (Some \<circ> byte) m @ runes t"
  by (cases m) (simp_all add: runes_before_ascii runes_ascii comp_def)

section \<open>\<open>strings.TrimSpace\<close>\<close>

text \<open>\<open>unicode.IsSpace\<close>.\<close>

definition is_space :: "nat \<Rightarrow> bool" where
  "is_space r \<longleftrightarrow> r \<in> {0x09, 0x0A, 0x0B, 0x0C, 0x0D, 0x20, 0x85, 0xA0, 0x1680, 0x2028, 0x2029, 0x202F, 0x205F, 0x3000} \<or>
     0x2000 \<le> r \<and> r \<le> 0x200A"

text \<open>The text with each rune and its bytes, so that both ends can be trimmed rune by rune.\<close>

function rune_bytes :: "string \<Rightarrow> (nat option \<times> string) list" where
  "rune_bytes [] = []"
| "rune_bytes (a # s) = (let (r, s') = decode_rune (a # s) in (r, take (length s + 1 - length s') (a # s)) # rune_bytes s')"
  by pat_completeness auto
termination
proof (relation "measure length")
  fix a s x r s'
  assume "x = decode_rune (a # s)" and "(r, s') = x"
  then have "s' = snd (decode_rune (a # s))" by (metis snd_conv)
  then show "(s', a # s) \<in> measure length" using decode_rune_shorter [of a s] by simp
qed simp

definition space_piece :: "nat option \<times> string \<Rightarrow> bool" where
  "space_piece p = (case fst p of Some r \<Rightarrow> is_space r | None \<Rightarrow> False)"

definition TrimSpace :: "string \<Rightarrow> string" where
  "TrimSpace s = concat (map snd (rev (dropWhile space_piece (rev (dropWhile space_piece (rune_bytes s))))))"

section \<open>Regular expressions\<close>

text \<open>
  An expression over runes; \<open>None\<close> is a byte that is no rune, which only a negated class or
  \<open>.\<close> matches.
\<close>

datatype rx =
    RxNone
  | RxEps
  | RxSet "nat option \<Rightarrow> bool"
  | RxSeq rx rx
  | RxAlt rx rx
  | RxStar rx

fun nullable :: "rx \<Rightarrow> bool" where
  "nullable RxNone \<longleftrightarrow> False"
| "nullable RxEps \<longleftrightarrow> True"
| "nullable (RxSet p) \<longleftrightarrow> False"
| "nullable (RxSeq r s) \<longleftrightarrow> nullable r \<and> nullable s"
| "nullable (RxAlt r s) \<longleftrightarrow> nullable r \<or> nullable s"
| "nullable (RxStar r) \<longleftrightarrow> True"

fun rx_seq :: "rx \<Rightarrow> rx \<Rightarrow> rx" where
  "rx_seq RxNone s = RxNone"
| "rx_seq RxEps s = s"
| "rx_seq r s = RxSeq r s"

fun rx_alt :: "rx \<Rightarrow> rx \<Rightarrow> rx" where
  "rx_alt RxNone s = s"
| "rx_alt r RxNone = r"
| "rx_alt r s = RxAlt r s"

fun deriv :: "nat option \<Rightarrow> rx \<Rightarrow> rx" where
  "deriv c RxNone = RxNone"
| "deriv c RxEps = RxNone"
| "deriv c (RxSet p) = (if p c then RxEps else RxNone)"
| "deriv c (RxSeq r s) =
     (if nullable r then rx_alt (rx_seq (deriv c r) s) (deriv c s) else rx_seq (deriv c r) s)"
| "deriv c (RxAlt r s) = rx_alt (deriv c r) (deriv c s)"
| "deriv c (RxStar r) = rx_seq (deriv c r) (RxStar r)"

definition rx_match :: "rx \<Rightarrow> nat option list \<Rightarrow> bool" where
  "rx_match r w = nullable (fold deriv w r)"

subsection \<open>What it decides\<close>

inductive rx_in :: "rx \<Rightarrow> nat option list \<Rightarrow> bool" where
  in_eps: "rx_in RxEps []"
| in_set: "p c \<Longrightarrow> rx_in (RxSet p) [c]"
| in_seq: "rx_in r u \<Longrightarrow> rx_in s v \<Longrightarrow> rx_in (RxSeq r s) (u @ v)"
| in_altl: "rx_in r u \<Longrightarrow> rx_in (RxAlt r s) u"
| in_altr: "rx_in s u \<Longrightarrow> rx_in (RxAlt r s) u"
| in_star0: "rx_in (RxStar r) []"
| in_star: "rx_in r u \<Longrightarrow> rx_in (RxStar r) v \<Longrightarrow> rx_in (RxStar r) (u @ v)"

inductive_simps rx_in_simps [simp]:
  "rx_in RxNone w" "rx_in RxEps w" "rx_in (RxSet p) w" "rx_in (RxAlt r s) w"

inductive_simps rx_in_seq: "rx_in (RxSeq r s) w"

lemma rx_star_cons: "rx_in (RxStar r) (c # w) \<longleftrightarrow> (\<exists>u v. w = u @ v \<and> rx_in r (c # u) \<and> rx_in (RxStar r) v)"
proof
  assume "rx_in (RxStar r) (c # w)"
  then show "\<exists>u v. w = u @ v \<and> rx_in r (c # u) \<and> rx_in (RxStar r) v"
  proof (induction "RxStar r" "c # w" arbitrary: c w rule: rx_in.induct)
    case (in_star u v)
    then show ?case by (cases u) auto
  qed
next
  assume "\<exists>u v. w = u @ v \<and> rx_in r (c # u) \<and> rx_in (RxStar r) v"
  then show "rx_in (RxStar r) (c # w)" using in_star by fastforce
qed

lemma nullable_in: "nullable r \<longleftrightarrow> rx_in r []"
  by (induction r) (auto simp: rx_in_seq intro: in_star0)

lemma rx_seq_in [simp]: "rx_in (rx_seq r s) w \<longleftrightarrow> rx_in (RxSeq r s) w"
  by (cases r) (simp_all add: rx_in_seq)

lemma rx_alt_in [simp]: "rx_in (rx_alt r s) w \<longleftrightarrow> rx_in r w \<or> rx_in s w"
  by (cases r; cases s) simp_all

lemma deriv_in: "rx_in (deriv c r) w \<longleftrightarrow> rx_in r (c # w)"
proof (induction r arbitrary: w)
  case (RxSeq r s)
  have "rx_in (RxSeq r s) (c # w) \<longleftrightarrow>
      (nullable r \<and> rx_in s (c # w)) \<or> (\<exists>u v. w = u @ v \<and> rx_in r (c # u) \<and> rx_in s v)"
    by (auto simp: rx_in_seq nullable_in Cons_eq_append_conv)
  then show ?case using RxSeq by (simp add: rx_in_seq) blast
next
  case (RxStar r)
  then show ?case by (simp add: rx_in_seq rx_star_cons)
qed simp_all

theorem rx_match_in: "rx_match r w \<longleftrightarrow> rx_in r w"
  unfolding rx_match_def by (induction w arbitrary: r) (simp_all add: nullable_in deriv_in)

subsection \<open>The expressions the code is written in\<close>

definition rx_class :: "string \<Rightarrow> rx" where
  "rx_class cs = RxSet (\<lambda>r. r \<in> (Some \<circ> byte) ` set cs)"

fun rx_lit :: "string \<Rightarrow> rx" where
  "rx_lit [] = RxEps"
| "rx_lit (c # s) = RxSeq (RxSet (\<lambda>r. r = Some (byte c))) (rx_lit s)"

definition rx_any :: rx where "rx_any = RxSet (\<lambda>_. True)"

definition rx_plus :: "rx \<Rightarrow> rx" where "rx_plus r = RxSeq r (RxStar r)"

definition rx_opt :: "rx \<Rightarrow> rx" where "rx_opt r = RxAlt RxEps r"

fun rx_times :: "nat \<Rightarrow> rx \<Rightarrow> rx" where
  "rx_times 0 r = RxEps"
| "rx_times (Suc n) r = RxSeq r (rx_times n r)"

text \<open>\<open>Regexp.Match\<close> of an expression without anchors: somewhere in the text.\<close>

definition rx_find :: "rx \<Rightarrow> string \<Rightarrow> bool" where
  "rx_find r s = rx_match (RxSeq (RxStar rx_any) (RxSeq r (RxStar rx_any))) (runes s)"

text \<open>The same of an expression between \<open>^\<close> and \<open>$\<close>: the whole text.\<close>

definition rx_full :: "rx \<Rightarrow> string \<Rightarrow> bool" where
  "rx_full r s = rx_match r (runes s)"

lemma star_any [simp]: "rx_in (RxStar rx_any) w"
proof (induction w)
  case (Cons c w)
  have "rx_in rx_any [c]" by (simp add: rx_any_def)
  from in_star [OF this Cons] show ?case by simp
qed (rule in_star0)

lemma rx_find_in: "rx_find r s \<longleftrightarrow> (\<exists>u v w. runes s = u @ v @ w \<and> rx_in r v)"
  by (auto simp: rx_find_def rx_match_in rx_in_seq)

lemma rx_lit_in: "rx_in (rx_lit s) (map (Some \<circ> byte) t) \<longleftrightarrow> s = t"
proof (induction s arbitrary: t)
  case (Cons c s)
  show ?case
  proof (cases t)
    case (Cons d t')
    then show ?thesis using Cons.IH [of t'] by (auto simp: rx_in_seq)
  qed (simp add: rx_in_seq)
qed auto

lemma rx_times_in: "list_all (rx_in r) ws \<Longrightarrow> rx_in (rx_times (length ws) r) (concat ws)"
proof (induction ws)
  case (Cons w ws)
  then have "rx_in r w" "rx_in (rx_times (length ws) r) (concat ws)" by simp_all
  then show ?case using in_seq by fastforce
qed simp

end
