(* ===== verification/Commerce_Types.thy ===== *)
theory Commerce_Types
  imports Go_Text
begin

text \<open>
  The data of the commerce ledger, \<open>internal/commerce/types.go\<close>: the closed vocabularies, the
  records, their validation, the two digests and the state machine of an invocation.

  A column with a closed vocabulary is a datatype, which is what the \<open>CHECK\<close>s of the schema
  enforce.  A request field that carries such a value is a \<open>field\<close>: absent (the empty
  string), a word of the vocabulary, or some other string.
\<close>

datatype 'a field = Unset | Val 'a | Bad string

text \<open>\<open>firstNonEmpty\<close>; a request with a \<open>Bad\<close> field does not pass its validation.\<close>

fun firstNonEmpty :: "'a field \<Rightarrow> 'a \<Rightarrow> 'a" where
  "firstNonEmpty (Val x) old = x"
| "firstNonEmpty _ old = old"

section \<open>Vocabularies\<close>

datatype price_mode = PriceModeFree | PriceModePerCall | PriceModePerSuccessfulCall

fun price_mode_text :: "price_mode \<Rightarrow> string" where
  "price_mode_text PriceModeFree = ''free''"
| "price_mode_text PriceModePerCall = ''per_call''"
| "price_mode_text PriceModePerSuccessfulCall = ''per_successful_call''"

datatype funds_mode = FundsModeSimulated | FundsModeLive

fun funds_mode_text :: "funds_mode \<Rightarrow> string" where
  "funds_mode_text FundsModeSimulated = ''simulated''"
| "funds_mode_text FundsModeLive = ''live''"

datatype phase =
    PhaseAccepted | PhaseRefused | PhaseReserved | PhaseDispatching | PhaseDispatched
  | PhaseOutcomeUnknown | PhaseReleased | PhaseFinalized

datatype exec_outcome = OutcomeNotDispatched | OutcomeSucceeded | OutcomeFailed | OutcomeUnknown

datatype charge_status = ChargeNone | ChargeReserved | ChargeCaptured | ChargeReleased

datatype payment_status =
    PaymentNone | PaymentNotRequired | PaymentAuthorized | PaymentDenied | PaymentCaptured
  | PaymentVoided | PaymentUnknown

datatype settlement_status =
    SettlementNotApplicable | SettlementPending | SettlementSettled | SettlementFailed

text \<open>Quote lifetimes and the bounds of text fields.\<close>

definition MinQuoteTTLSeconds :: int where "MinQuoteTTLSeconds = 30"
definition MaxQuoteTTLSeconds :: int where "MaxQuoteTTLSeconds = 900"
definition MaxIDBytes :: nat where "MaxIDBytes = 256"
definition MaxCapabilityIDBytes :: nat where "MaxCapabilityIDBytes = 1024"
definition MaxIdempotencyKey :: nat where "MaxIdempotencyKey = 128"
definition MaxReasonBytes :: nat where "MaxReasonBytes = 1024"

text \<open>Reason codes the ledger itself writes.\<close>

definition ReasonQuoteExpired :: string where "ReasonQuoteExpired = ''quote-expired''"
definition ReasonCurrencyMismatch :: string where "ReasonCurrencyMismatch = ''currency-mismatch''"
definition ReasonFundsModeUnavailable :: string where
  "ReasonFundsModeUnavailable = ''funds-mode-unavailable''"
definition ReasonBudgetExhausted :: string where "ReasonBudgetExhausted = ''budget-exhausted''"
definition ReasonPaymentDenied :: string where "ReasonPaymentDenied = ''payment-denied''"
definition ReasonEntitlementExhausted :: string where
  "ReasonEntitlementExhausted = ''entitlement-exhausted''"
definition ReasonEntitlementExpired :: string where
  "ReasonEntitlementExpired = ''entitlement-expired''"

text \<open>The sentinels of types.go, budget.go and dispatch.go; \<open>CePlain\<close> wraps none.\<close>

datatype cm_error =
    CeInvalid | CeTermsNotFound | CeTermsVersionMissing | CeQuoteNotFound | CeInvocationNotFound
  | CeIdempotencyConflict | CeQuoteExpired | CeQuoteStale | CeQuoteMismatch | CeCurrencyMismatch
  | CeFundsModeUnavailable | CeTermsRetired | CePhaseConflict | CeTerminal | CeApprovalBound
  | CeEntitlementNotFound | CeEntitlementConflict | CeEntitlementExhausted | CeEntitlementExpired
  | CeBudgetNotFound | CeBudgetExhausted | CePaymentDenied | CePaymentUnknown | CePaymentConflict
  | CeReservationMissing | CeAdapterIneligible | CeDispatchUnavailable | CePlain string

section \<open>Money\<close>

record money =
  m_currency :: string
  m_amount :: int

definition currencyExponents :: "(string \<times> int) list" where
  "currencyExponents =
     [(''EUR'', 2), (''USD'', 2), (''GBP'', 2), (''CHF'', 2), (''PLN'', 2), (''CZK'', 2), (''SEK'', 2),
      (''NOK'', 2), (''DKK'', 2), (''CAD'', 2), (''AUD'', 2), (''JPY'', 0), (''KRW'', 0), (''UZS'', 2),
      (''RUB'', 2), (''TRY'', 2), (''AED'', 2), (''SGD'', 2), (''HKD'', 2), (''INR'', 2), (''BRL'', 2),
      (''KWD'', 3), (''BHD'', 3), (''JOD'', 3), (''TND'', 3)]"

definition CurrencyExponent :: "string \<Rightarrow> int option" where
  "CurrencyExponent code = map_of currencyExponents code"

definition money_validate :: "money \<Rightarrow> cm_error option" where
  "money_validate m =
     (if CurrencyExponent (m_currency m) = None then Some CeInvalid
      else if m_amount m < 0 then Some CeInvalid
      else None)"

section \<open>Text and digests\<close>

definition checkText :: "string \<Rightarrow> nat \<Rightarrow> bool \<Rightarrow> cm_error option" where
  "checkText v maxlen required =
     (if v = '''' then (if required then Some CeInvalid else None)
      else if maxlen < length v then Some CeInvalid
      else if list_ex (\<lambda>c. c \<in> {CHR 0x0A, CHR 0x0D, CHR 0x00}) v then Some CeInvalid
      else None)"

text \<open>\<open>^sha256:[0-9a-f]{64}$\<close> and \<open>^[A-Za-z0-9._:-]{1,128}$\<close>.\<close>

definition hex_digit :: "char \<Rightarrow> bool" where
  "hex_digit c \<longleftrightarrow> c \<in> set ''0123456789abcdef''"

definition checkDigest :: "string \<Rightarrow> cm_error option" where
  "checkDigest v =
     (if length v = 71 \<and> take 7 v = ''sha256:'' \<and> list_all hex_digit (drop 7 v) then None
      else Some CeInvalid)"

definition idempotency_char :: "char \<Rightarrow> bool" where
  "idempotency_char c \<longleftrightarrow>
     c \<in> set ''ABCDEFGHIJKLMNOPQRSTUVWXYZabcdefghijklmnopqrstuvwxyz0123456789._:-''"

definition idempotencyKey_ok :: "string \<Rightarrow> bool" where
  "idempotencyKey_ok k \<longleftrightarrow>
     1 \<le> length k \<and> length k \<le> MaxIdempotencyKey \<and> list_all idempotency_char k"

definition digestOf :: "hash \<Rightarrow> string \<Rightarrow> string" where
  "digestOf H s = ''sha256:'' @ H s"

text \<open>UTC, second precision and a literal Z.\<close>

definition HashedTime :: "gotime \<Rightarrow> string" where
  "HashedTime t = rfc3339 (t - t mod second)"

section \<open>Terms\<close>

record cm_terms =
  t_terms_id :: string
  t_version :: int
  t_capability_id :: string
  t_schema_hash :: string
  t_provider_id :: string
  t_price_mode :: price_mode
  t_price :: money
  t_funds_mode :: funds_mode
  t_quote_ttl :: int
  t_effective_from :: gotime
  t_retired_at :: "gotime option"
  t_published_by :: string
  t_created_at :: gotime

text \<open>\<open>pt_effective_from\<close> is \<open>None\<close> for the zero time.\<close>

record publish_terms_input =
  pt_terms_id :: string
  pt_capability_id :: string
  pt_schema_hash :: string
  pt_provider_id :: string
  pt_price_mode :: "price_mode field"
  pt_price :: money
  pt_funds_mode :: "funds_mode field"
  pt_quote_ttl :: int
  pt_effective_from :: "gotime option"
  pt_published_by :: string

fun checkFundsMode :: "funds_mode field \<Rightarrow> cm_error option" where
  "checkFundsMode (Val FundsModeSimulated) = None"
| "checkFundsMode (Val FundsModeLive) = Some CeFundsModeUnavailable"
| "checkFundsMode _ = Some CeInvalid"

definition price_mode_check :: "price_mode field \<Rightarrow> int \<Rightarrow> cm_error option" where
  "price_mode_check pm amount =
     (if pm = Val PriceModeFree \<and> amount \<noteq> 0 then Some CeInvalid
      else if pm \<noteq> Val PriceModeFree \<and> amount = 0 then Some CeInvalid
      else None)"

definition publish_terms_validate :: "publish_terms_input \<Rightarrow> cm_error option" where
  "publish_terms_validate inp = first_error
     [checkText (pt_terms_id inp) MaxIDBytes False,
      checkText (pt_capability_id inp) MaxCapabilityIDBytes True,
      checkText (pt_provider_id inp) MaxIDBytes True,
      checkText (pt_published_by inp) MaxIDBytes True,
      if pt_terms_id inp \<noteq> '''' \<and> take 4 (pt_terms_id inp) \<noteq> ''ctm_'' then Some CeInvalid else None,
      if take 7 (pt_capability_id inp) \<noteq> ''mctl://'' then Some CeInvalid else None,
      checkDigest (pt_schema_hash inp),
      (case pt_price_mode inp of Val _ \<Rightarrow> None | _ \<Rightarrow> Some CeInvalid),
      money_validate (pt_price inp),
      price_mode_check (pt_price_mode inp) (m_amount (pt_price inp)),
      checkFundsMode (pt_funds_mode inp),
      if pt_quote_ttl inp < MinQuoteTTLSeconds \<or> MaxQuoteTTLSeconds < pt_quote_ttl inp
        then Some CeInvalid else None,
      if pt_effective_from inp = None then Some CeInvalid else None]"

section \<open>Identities and quotes\<close>

record identities =
  id_tenant :: string
  id_principal :: string
  id_subject :: string
  id_grant :: string
  id_payer :: string
  id_execution :: string

definition identities_validate :: "identities \<Rightarrow> cm_error option" where
  "identities_validate i = first_error
     [checkText (id_tenant i) MaxIDBytes True,
      checkText (id_principal i) MaxIDBytes True,
      checkText (id_subject i) MaxIDBytes True,
      checkText (id_grant i) MaxIDBytes False,
      checkText (id_payer i) MaxIDBytes True,
      checkText (id_execution i) MaxIDBytes True,
      if id_subject i \<noteq> id_principal i \<and> id_grant i = '''' then Some CeInvalid else None,
      if id_subject i = id_principal i \<and> id_grant i \<noteq> '''' then Some CeInvalid else None]"

record cm_quote =
  q_id :: string
  q_terms_id :: string
  q_terms_version :: int
  q_capability_id :: string
  q_schema_hash :: string
  q_ids :: identities
  q_args_digest :: string
  q_price_mode :: price_mode
  q_price :: money
  q_funds_mode :: funds_mode
  q_expires_at :: gotime
  q_digest :: string
  q_created_at :: gotime

record mint_quote_input =
  mq_capability_id :: string
  mq_schema_hash :: string
  mq_ids :: identities
  mq_args_digest :: string

definition mint_quote_validate :: "mint_quote_input \<Rightarrow> cm_error option" where
  "mint_quote_validate inp = first_error
     [checkText (mq_capability_id inp) MaxCapabilityIDBytes True,
      checkDigest (mq_schema_hash inp),
      checkDigest (mq_args_digest inp),
      identities_validate (mq_ids inp)]"

definition quote_fields :: "cm_quote \<Rightarrow> (string \<times> string) list" where
  "quote_fields q =
     [(''quote_id'', q_id q),
      (''terms_id'', q_terms_id q),
      (''terms_version'', show_int (q_terms_version q)),
      (''capability_id'', q_capability_id q),
      (''input_schema_hash'', q_schema_hash q),
      (''tenant_id'', id_tenant (q_ids q)),
      (''payer_account_id'', id_payer (q_ids q)),
      (''principal_id'', id_principal (q_ids q)),
      (''subject_principal_id'', id_subject (q_ids q)),
      (''delegation_grant_id'', id_grant (q_ids q)),
      (''execution_id'', id_execution (q_ids q)),
      (''args_digest'', q_args_digest q),
      (''price_mode'', price_mode_text (q_price_mode q)),
      (''currency'', m_currency (q_price q)),
      (''amount_minor'', show_int (m_amount (q_price q))),
      (''funds_mode'', funds_mode_text (q_funds_mode q)),
      (''expires_at'', HashedTime (q_expires_at q))]"

definition QuoteDigest :: "hash \<Rightarrow> cm_quote \<Rightarrow> string" where
  "QuoteDigest H q = digestOf H (lengthPrefixed ''mctl-commerce-quote/v1'' (quote_fields q))"

definition terms_fields :: "cm_terms \<Rightarrow> string \<Rightarrow> string \<Rightarrow> (string \<times> string) list" where
  "terms_fields t tenant payer =
     [(''terms_id'', t_terms_id t),
      (''terms_version'', show_int (t_version t)),
      (''capability_id'', t_capability_id t),
      (''input_schema_hash'', t_schema_hash t),
      (''tenant_id'', tenant),
      (''payer_account_id'', payer),
      (''price_mode'', price_mode_text (t_price_mode t)),
      (''currency'', m_currency (t_price t)),
      (''amount_minor'', show_int (m_amount (t_price t))),
      (''funds_mode'', funds_mode_text (t_funds_mode t))]"

definition TermsBinding :: "hash \<Rightarrow> cm_terms \<Rightarrow> string \<Rightarrow> string \<Rightarrow> string" where
  "TermsBinding H t tenant payer =
     digestOf H (lengthPrefixed ''mctl-commerce-terms/v1'' (terms_fields t tenant payer))"

section \<open>Invocations\<close>

record invocation =
  v_id :: string
  v_quote_id :: string
  v_quote_digest :: string
  v_quote_expires_at :: gotime
  v_terms_id :: string
  v_terms_version :: int
  v_capability_id :: string
  v_provider_id :: string
  v_ids :: identities
  v_idempotency_key :: string
  v_args_digest :: string
  v_price_mode :: price_mode
  v_price :: money
  v_funds_mode :: funds_mode
  v_phase :: phase
  v_outcome :: exec_outcome
  v_usage :: "int option"
  v_charge :: charge_status
  v_payment :: payment_status
  v_settlement :: settlement_status
  v_reason :: string
  v_approval_id :: string
  v_reservation_deadline :: "gotime option"
  v_reconciliation_deadline :: gotime
  v_created_at :: gotime
  v_updated_at :: gotime
  v_finalized_at :: "gotime option"
  v_version :: int
  v_dispatch_deadline :: "gotime option"

definition ProviderOperationKey :: "string \<Rightarrow> string" where
  "ProviderOperationKey i = ''mctl-op/v1:'' @ i"

record accept_input =
  ac_quote_id :: string
  ac_quote_digest :: string
  ac_idempotency_key :: string
  ac_ids :: identities
  ac_args_digest :: string
  ac_approval_id :: string
  ac_terms_binding :: string

definition accept_validate :: "accept_input \<Rightarrow> cm_error option" where
  "accept_validate inp = first_error
     [checkText (ac_quote_id inp) MaxIDBytes True,
      checkDigest (ac_quote_digest inp),
      if idempotencyKey_ok (ac_idempotency_key inp) then None else Some CeInvalid,
      checkDigest (ac_args_digest inp),
      checkText (ac_approval_id inp) MaxIDBytes False,
      if ac_terms_binding inp \<noteq> '''' then checkDigest (ac_terms_binding inp) else None,
      identities_validate (ac_ids inp)]"

section \<open>Transitions\<close>

text \<open>A history row; the \<open>from_phase\<close> of the first one of an invocation is empty.\<close>

record transition_row =
  h_seq :: nat
  h_invocation :: string
  h_from :: "phase option"
  h_to :: phase
  h_reason :: string
  h_actor :: string
  h_note :: string
  h_recorded_at :: gotime

record transition_input =
  ti_invocation :: string
  ti_expected :: "phase field"
  ti_to :: "phase field"
  ti_reason :: string
  ti_actor :: string
  ti_note :: string
  ti_outcome :: "exec_outcome field"
  ti_usage :: "int option"
  ti_charge :: "charge_status field"
  ti_payment :: "payment_status field"
  ti_settlement :: "settlement_status field"
  ti_deadline :: "gotime option"

fun allowedTransitions :: "phase \<Rightarrow> phase list" where
  "allowedTransitions PhaseAccepted = [PhaseRefused, PhaseReserved]"
| "allowedTransitions PhaseReserved = [PhaseDispatching, PhaseReleased]"
| "allowedTransitions PhaseDispatching = [PhaseDispatched, PhaseReleased, PhaseOutcomeUnknown]"
| "allowedTransitions PhaseDispatched = [PhaseFinalized, PhaseOutcomeUnknown]"
| "allowedTransitions PhaseOutcomeUnknown = [PhaseFinalized]"
| "allowedTransitions _ = []"

definition IsTerminal :: "phase \<Rightarrow> bool" where
  "IsTerminal p \<longleftrightarrow> p = PhaseRefused \<or> p = PhaseReleased \<or> p = PhaseFinalized"

definition edge_check :: "phase field \<Rightarrow> phase field \<Rightarrow> cm_error option" where
  "edge_check expected to =
     (case (expected, to) of
        (Val p, Val p') \<Rightarrow>
          if IsTerminal p then Some CeTerminal
          else if p' \<notin> set (allowedTransitions p) then Some CePhaseConflict
          else None
      | (Val p, _) \<Rightarrow> if IsTerminal p then Some CeTerminal else Some CePhaseConflict
      | _ \<Rightarrow> Some CePhaseConflict)"

fun vocabulary_check :: "'a field \<Rightarrow> cm_error option" where
  "vocabulary_check (Bad s) = Some CeInvalid"
| "vocabulary_check _ = None"

definition transition_validate :: "transition_input \<Rightarrow> cm_error option" where
  "transition_validate inp = first_error
     [checkText (ti_invocation inp) MaxIDBytes True,
      checkText (ti_actor inp) MaxIDBytes True,
      checkText (ti_reason inp) MaxIDBytes False,
      checkText (ti_note inp) MaxReasonBytes False,
      edge_check (ti_expected inp) (ti_to inp),
      if (ti_to inp = Val PhaseRefused \<or> ti_to inp = Val PhaseReleased) \<and> ti_reason inp = ''''
        then Some CeInvalid else None,
      vocabulary_check (ti_outcome inp),
      vocabulary_check (ti_charge inp),
      vocabulary_check (ti_payment inp),
      vocabulary_check (ti_settlement inp),
      if ti_to inp = Val PhaseFinalized \<and>
         ti_outcome inp \<noteq> Val OutcomeSucceeded \<and> ti_outcome inp \<noteq> Val OutcomeFailed
        then Some CeInvalid else None,
      if ti_to inp = Val PhaseFinalized \<and>
         ti_charge inp \<noteq> Val ChargeCaptured \<and> ti_charge inp \<noteq> Val ChargeReleased
        then Some CeInvalid else None,
      if ti_to inp = Val PhaseFinalized \<and> ti_usage inp = None then Some CeInvalid else None,
      if ti_to inp = Val PhaseOutcomeUnknown \<and> ti_outcome inp \<noteq> Unset \<and>
         ti_outcome inp \<noteq> Val OutcomeUnknown
        then Some CeInvalid else None,
      if ti_to inp = Val PhaseReserved \<and> ti_deadline inp = None then Some CeInvalid else None,
      case ti_usage inp of Some n \<Rightarrow> if n < 0 then Some CeInvalid else None | None \<Rightarrow> None]"

definition checkFactCombination :: "phase \<Rightarrow> charge_status \<Rightarrow> payment_status \<Rightarrow> cm_error option" where
  "checkFactCombination p charge payment =
     (case p of
        PhaseRefused \<Rightarrow>
          if charge \<noteq> ChargeNone then Some CeInvalid
          else if payment = PaymentCaptured then Some CeInvalid
          else None
      | PhaseReleased \<Rightarrow>
          if charge = ChargeCaptured then Some CeInvalid
          else if payment = PaymentCaptured then Some CeInvalid
          else None
      | PhaseFinalized \<Rightarrow>
          if charge = ChargeCaptured \<and> (payment = PaymentDenied \<or> payment = PaymentVoided)
          then Some CeInvalid
          else if charge = ChargeReleased \<and> payment = PaymentCaptured then Some CeInvalid
          else None
      | _ \<Rightarrow> None)"

section \<open>Entitlements\<close>

datatype ent_status = EntitlementActive | EntitlementRetired

datatype alloc_state = AllocationHeld | AllocationCaptured | AllocationReleased

record entitlement =
  n_id :: string
  n_tenant :: string
  n_capability :: string
  n_total :: int
  n_remaining :: int
  n_reserved :: int
  n_invoice :: string
  n_granted_by :: string
  n_reason :: string
  n_status :: ent_status
  n_expires_at :: gotime
  n_created_at :: gotime
  n_updated_at :: gotime

record allocation =
  al_id :: string
  al_entitlement :: string
  al_invocation :: string
  al_units :: int
  al_state :: alloc_state
  al_recorded_at :: gotime

text \<open>\<open>ge_expires_at\<close> is \<open>None\<close> for the zero time.\<close>

record grant_input =
  ge_tenant :: string
  ge_capability :: string
  ge_units :: int
  ge_invoice :: string
  ge_expires_at :: "gotime option"
  ge_actor :: string
  ge_reason :: string

definition grant_validate :: "grant_input \<Rightarrow> gotime \<Rightarrow> cm_error option" where
  "grant_validate inp now = first_error
     [checkText (ge_tenant inp) MaxIDBytes True,
      checkText (ge_capability inp) MaxIDBytes True,
      if ge_units inp \<le> 0 then Some CeInvalid else None,
      checkText (ge_invoice inp) MaxIDBytes True,
      checkText (ge_actor inp) MaxIDBytes True,
      checkText (ge_reason inp) MaxReasonBytes False,
      (case ge_expires_at inp of
         None \<Rightarrow> Some CeInvalid
       | Some t \<Rightarrow> if t \<le> now then Some CeInvalid
                   else if add_years 10 now < t then Some CeInvalid
                   else None)]"

end
