(* ===== verification/Commerce_Db.thy ===== *)
theory Commerce_Db
  imports Commerce_Types Pg_Table
begin

text \<open>
  The tables of the commerce ledger (the schema of \<open>internal/commerce/store.go\<close>), the records
  of \<open>budget.go\<close> stored in them, and the transaction wrapper.  A table is the list of its rows
  in insertion order; the uniqueness its inserts check is written in the operations.
\<close>

section \<open>Records of budget.go\<close>

record budget =
  b_tenant :: string
  b_payer :: string
  b_currency :: string
  b_funds_mode :: funds_mode
  b_monthly_limit :: int
  b_per_request_max :: int
  b_created_at :: gotime
  b_updated_at :: gotime
  b_version :: int

record budget_change =
  bc_seq :: nat
  bc_tenant :: string
  bc_payer :: string
  bc_actor :: string
  bc_reason :: string
  bc_old :: "(string \<times> int \<times> int) option"
  bc_new_currency :: string
  bc_new_monthly_limit :: int
  bc_new_per_request_max :: int
  bc_recorded_at :: gotime

datatype reservation_status = ReservationHeld | ReservationCaptured | ReservationReleased

record reservation =
  s_id :: string
  s_invocation :: string
  s_tenant :: string
  s_payer :: string
  s_period :: string
  s_currency :: string
  s_amount :: int
  s_status :: reservation_status
  s_authorization :: string
  s_capture :: string
  s_deadline :: gotime
  s_created_at :: gotime
  s_updated_at :: gotime

datatype payment_op = PaymentOpAuthorize | PaymentOpCapture | PaymentOpVoid

text \<open>\<open>PaymentResultOther\<close> is a word of an adapter that is none of the constants.\<close>

datatype payment_result_word =
    PaymentResultAuthorized | PaymentResultDenied | PaymentResultCaptured | PaymentResultVoided
  | PaymentResultFailed | PaymentResultUnknown | PaymentResultNotFound | PaymentResultOther string

record payment_row =
  p_key :: string
  p_invocation :: string
  p_operation :: payment_op
  p_tenant :: string
  p_payer :: string
  p_money :: money
  p_funds_mode :: "funds_mode field"
  p_quote_digest :: string
  p_authorization :: string
  p_result :: payment_result_word
  p_result_id :: string
  p_reason :: string
  p_settlement :: "settlement_status field"
  p_recorded_at :: gotime

section \<open>The ledger\<close>

record cdb =
  cd_terms :: "cm_terms list"
  cd_quotes :: "cm_quote list"
  cd_invocations :: "invocation list"
  cd_history :: "transition_row list"
  cd_budgets :: "budget list"
  cd_changes :: "budget_change list"
  cd_reservations :: "reservation list"
  cd_payments :: "payment_row list"
  cd_entitlements :: "entitlement list"
  cd_allocations :: "allocation list"

definition empty_cdb :: cdb where
  "empty_cdb = \<lparr>cd_terms = [], cd_quotes = [], cd_invocations = [], cd_history = [],
     cd_budgets = [], cd_changes = [], cd_reservations = [], cd_payments = [],
     cd_entitlements = [], cd_allocations = []\<rparr>"

text \<open>
  The body of a transaction yields its error, or the ledger it leaves and its result.  An error
  rolls it back; PostgreSQL may fail it at \<open>BEGIN\<close>, at the lock, in a statement or at \<open>COMMIT\<close>.
\<close>

type_synonym 'a tx = "cm_error + cdb \<times> 'a"

definition withTx :: "tx_fault \<Rightarrow> cdb \<Rightarrow> 'a tx \<Rightarrow> cdb \<times> (cm_error + 'a)" where
  "withTx fault db body =
     (if fault = TxBeginFails then (db, Inl (CePlain ''commerce: begin''))
      else if fault = TxLockFails then (db, Inl (CePlain ''commerce: acquire lock''))
      else if fault = TxStatementFails then (db, Inl (CePlain ''commerce: statement''))
      else case body of
        Inl e \<Rightarrow> (db, Inl e)
      | Inr (db', x) \<Rightarrow>
          if fault = TxCommitFails then (db, Inl (CePlain ''commerce: commit'')) else (db', Inr x))"

text \<open>A validation that fails before the transaction is begun.\<close>

definition precheck :: "cm_error option \<Rightarrow> cdb \<Rightarrow> cdb \<times> (cm_error + 'a) \<Rightarrow> cdb \<times> (cm_error + 'a)" where
  "precheck c db r = (case c of None \<Rightarrow> r | Some e \<Rightarrow> (db, Inl e))"

lemma withTx_Inr: "withTx fault db body = (db', Inr x) \<longleftrightarrow> fault = TxOk \<and> body = Inr (db', x)"
  by (cases fault) (auto simp: withTx_def split: sum.splits)

lemma withTx_fst: "fst (withTx fault db body) = db \<or> (\<exists>x. body = Inr (fst (withTx fault db body), x))"
  by (cases fault) (auto simp: withTx_def split: sum.splits)

lemma precheck_Inr: "precheck c db r = (db', Inr x) \<longleftrightarrow> c = None \<and> r = (db', Inr x)"
  by (auto simp: precheck_def split: option.splits)

lemma precheck_fst: "fst (precheck c db r) = db \<or> fst (precheck c db r) = fst r"
  by (auto simp: precheck_def split: option.splits)

end
