(* ===== verification/Commerce_Store.thy ===== *)
theory Commerce_Store
  imports Commerce_Db "HOL-Library.List_Lexorder" "HOL-Library.Char_ord" "HOL-Library.Product_Lexorder"
begin

text \<open>
  Terms, quotes, invocations, their transitions and the entitlement packages:
  \<open>internal/commerce/store.go\<close>.  Every operation takes the clock it reads and the ULIDs it
  mints as arguments; \<open>H\<close> is SHA-256 in hex.  The rows an operation decides on are locked
  (an advisory lock, \<open>FOR UPDATE\<close>), so an operation is one step on the ledger.
\<close>

section \<open>Terms\<close>

definition same_terms_key :: "cm_terms \<Rightarrow> cm_terms \<Rightarrow> bool" where
  "same_terms_key t u \<longleftrightarrow> t_version t = t_version u \<and>
     (t_terms_id t = t_terms_id u \<or> t_capability_id t = t_capability_id u)"

definition published_id :: "string \<Rightarrow> publish_terms_input \<Rightarrow> cdb \<Rightarrow> cm_error + string" where
  "published_id ulid inp db =
     (case filter (\<lambda>t. t_capability_id t = pt_capability_id inp) (cd_terms db) of
        [] \<Rightarrow>
          if pt_terms_id inp = '''' then Inr (''ctm_'' @ ulid)
          else if list_ex (\<lambda>t. t_terms_id t = pt_terms_id inp) (cd_terms db) then Inl CeInvalid
          else Inr (pt_terms_id inp)
      | t # _ \<Rightarrow>
          if pt_terms_id inp = '''' then Inr (t_terms_id t)
          else if pt_terms_id inp \<noteq> t_terms_id t then Inl CeInvalid
          else Inr (t_terms_id t))"

definition max_version :: "string \<Rightarrow> string \<Rightarrow> cdb \<Rightarrow> int" where
  "max_version cap tid db = fold (\<lambda>t m. max (t_version t) m)
     (filter (\<lambda>t. t_capability_id t = cap \<and> t_terms_id t = tid) (cd_terms db)) 0"

definition publish_body :: "gotime \<Rightarrow> string \<Rightarrow> publish_terms_input \<Rightarrow> cdb \<Rightarrow> cm_terms tx" where
  "publish_body now ulid inp db =
     andThen (published_id ulid inp db) (\<lambda>tid.
       case (pt_price_mode inp, pt_funds_mode inp, pt_effective_from inp) of
         (Val pm, Val fm, Some eff) \<Rightarrow>
           (let t = \<lparr>t_terms_id = tid, t_version = max_version (pt_capability_id inp) tid db + 1,
                     t_capability_id = pt_capability_id inp, t_schema_hash = pt_schema_hash inp,
                     t_provider_id = pt_provider_id inp, t_price_mode = pm, t_price = pt_price inp,
                     t_funds_mode = fm, t_quote_ttl = pt_quote_ttl inp, t_effective_from = eff,
                     t_retired_at = None, t_published_by = pt_published_by inp, t_created_at = now\<rparr>
            in if list_ex (same_terms_key t) (cd_terms db)
               then Inl (CePlain ''commerce: insert terms'')
               else Inr (db\<lparr>cd_terms := cd_terms db @ [t]\<rparr>, t))
       | _ \<Rightarrow> Inl CeInvalid)"

definition PublishTerms ::
  "tx_fault \<Rightarrow> gotime \<Rightarrow> string \<Rightarrow> publish_terms_input \<Rightarrow> cdb \<Rightarrow> cdb \<times> (cm_error + cm_terms)" where
  "PublishTerms fault now ulid inp db =
     precheck (publish_terms_validate inp) db (withTx fault db (publish_body now ulid inp db))"

abbreviation terms_key :: "cm_terms \<Rightarrow> string \<times> int" where
  "terms_key t \<equiv> (t_terms_id t, t_version t)"

definition getTerms :: "string \<Rightarrow> int \<Rightarrow> cdb \<Rightarrow> cm_error + cm_terms" where
  "getTerms tid version db =
     (case tselect terms_key (cd_terms db) (tid, version) of
        None \<Rightarrow> Inl CeTermsVersionMissing | Some t \<Rightarrow> Inr t)"

definition RetireTerms :: "tx_fault \<Rightarrow> gotime \<Rightarrow> string \<Rightarrow> int \<Rightarrow> cdb \<Rightarrow> cdb \<times> (cm_error + cm_terms)" where
  "RetireTerms fault now tid version db = withTx fault db
     (case tupdate terms_key (tid, version) (\<lambda>t. t_retired_at t = None)
             (\<lambda>t. t\<lparr>t_retired_at := Some now\<rparr>) (cd_terms db) of
        (rows, Some t) \<Rightarrow> Inr (db\<lparr>cd_terms := rows\<rparr>, t)
      | (rows, None) \<Rightarrow> andThen (getTerms tid version db) (\<lambda>t. Inl CeTermsRetired))"

text \<open>\<open>ORDER BY terms_version DESC LIMIT 1\<close>: a row no other row of the selection is above.\<close>

fun newest_terms :: "cm_terms list \<Rightarrow> cm_terms option" where
  "newest_terms [] = None"
| "newest_terms (t # ts) =
     (case newest_terms ts of
        None \<Rightarrow> Some t
      | Some u \<Rightarrow> if t_version t < t_version u then Some u else Some t)"

definition currentTerms :: "string \<Rightarrow> string \<Rightarrow> gotime \<Rightarrow> cdb \<Rightarrow> cm_error + cm_terms" where
  "currentTerms cap schema now db =
     (case newest_terms (filter (\<lambda>t. t_capability_id t = cap \<and> t_schema_hash t = schema \<and>
              t_retired_at t = None \<and> t_effective_from t \<le> now) (cd_terms db)) of
        None \<Rightarrow> Inl CeTermsNotFound | Some t \<Rightarrow> Inr t)"

definition ListTerms :: "string \<Rightarrow> cdb \<Rightarrow> cm_terms list" where
  "ListTerms cap db = sort_key (\<lambda>t. - t_version t) (filter (\<lambda>t. t_capability_id t = cap) (cd_terms db))"

section \<open>Quotes\<close>

definition quote_at :: "hash \<Rightarrow> gotime \<Rightarrow> string \<Rightarrow> mint_quote_input \<Rightarrow> cm_terms \<Rightarrow> cm_quote" where
  "quote_at H now ulid inp t =
     (let expires = now + t_quote_ttl t * second;
          q = \<lparr>q_id = ''cq_'' @ ulid, q_terms_id = t_terms_id t, q_terms_version = t_version t,
               q_capability_id = t_capability_id t, q_schema_hash = t_schema_hash t,
               q_ids = mq_ids inp, q_args_digest = mq_args_digest inp,
               q_price_mode = t_price_mode t, q_price = t_price t, q_funds_mode = t_funds_mode t,
               q_expires_at = expires - expires mod second, q_digest = '''', q_created_at = now\<rparr>
      in q\<lparr>q_digest := QuoteDigest H q\<rparr>)"

definition MintQuote ::
  "hash \<Rightarrow> tx_fault \<Rightarrow> gotime \<Rightarrow> string \<Rightarrow> mint_quote_input \<Rightarrow> cdb \<Rightarrow> cdb \<times> (cm_error + cm_quote)" where
  "MintQuote H fault now ulid inp db =
     precheck (mint_quote_validate inp) db (withTx fault db
       (andThen (currentTerms (mq_capability_id inp) (mq_schema_hash inp) now db) (\<lambda>t.
          check (checkFundsMode (Val (t_funds_mode t)))
            (let q = quote_at H now ulid inp t
             in if list_ex (\<lambda>p. q_id p = q_id q) (cd_quotes db)
                then Inl (CePlain ''commerce: insert quote'')
                else Inr (db\<lparr>cd_quotes := cd_quotes db @ [q]\<rparr>, q)))))"

definition GetQuote :: "string \<Rightarrow> string \<Rightarrow> cdb \<Rightarrow> cm_error + cm_quote" where
  "GetQuote tenant qid db =
     (case tselect q_id (cd_quotes db) qid of
        None \<Rightarrow> Inl CeQuoteNotFound
      | Some q \<Rightarrow> if id_tenant (q_ids q) = tenant then Inr q else Inl CeQuoteNotFound)"

section \<open>Accepting an invocation\<close>

abbreviation idem_scope :: "invocation \<Rightarrow> string \<times> string \<times> string" where
  "idem_scope v \<equiv> (id_tenant (v_ids v), id_principal (v_ids v), v_idempotency_key v)"

definition history_row ::
  "gotime \<Rightarrow> string \<Rightarrow> phase option \<Rightarrow> phase \<Rightarrow> string \<Rightarrow> string \<Rightarrow> string \<Rightarrow> cdb \<Rightarrow> transition_row" where
  "history_row now i from to reason actor note db =
     \<lparr>h_seq = length (cd_history db) + 1, h_invocation = i, h_from = from, h_to = to,
      h_reason = reason, h_actor = actor, h_note = note, h_recorded_at = now\<rparr>"

text \<open>The checks of an accept against the stored quote and the terms in force.\<close>

definition accept_checks :: "hash \<Rightarrow> gotime \<Rightarrow> accept_input \<Rightarrow> cm_quote \<Rightarrow> cdb \<Rightarrow> cm_error + cm_terms" where
  "accept_checks H now inp q db =
     check (first_error
       [if QuoteDigest H q \<noteq> q_digest q \<or> q_digest q \<noteq> ac_quote_digest inp then Some CeQuoteMismatch else None,
        if q_ids q \<noteq> ac_ids inp then Some CeQuoteMismatch else None,
        if q_args_digest q \<noteq> ac_args_digest inp then Some CeQuoteMismatch else None,
        if q_expires_at q \<le> now then Some CeQuoteExpired else None,
        checkFundsMode (Val (q_funds_mode q))])
     (andThen (getTerms (q_terms_id q) (q_terms_version q) db) (\<lambda>t.
        if t_retired_at t \<noteq> None then Inl CeQuoteStale
        else andThen (currentTerms (q_capability_id q) (q_schema_hash q) now db) (\<lambda>cur.
          if t_version cur \<noteq> q_terms_version q then Inl CeQuoteStale
          else if ac_terms_binding inp \<noteq> '''' \<and>
                  ac_terms_binding inp \<noteq> TermsBinding H t (id_tenant (ac_ids inp)) (id_payer (ac_ids inp))
          then Inl CeQuoteMismatch
          else Inr t)))"

definition accepted_invocation ::
  "gotime \<Rightarrow> string \<Rightarrow> accept_input \<Rightarrow> cm_quote \<Rightarrow> cm_terms \<Rightarrow> invocation" where
  "accepted_invocation now ulid inp q t =
     \<lparr>v_id = ''inv_'' @ ulid, v_quote_id = q_id q, v_quote_digest = q_digest q,
      v_quote_expires_at = q_expires_at q, v_terms_id = q_terms_id q,
      v_terms_version = q_terms_version q, v_capability_id = q_capability_id q,
      v_provider_id = t_provider_id t, v_ids = ac_ids inp,
      v_idempotency_key = ac_idempotency_key inp, v_args_digest = q_args_digest q,
      v_price_mode = q_price_mode q, v_price = q_price q, v_funds_mode = q_funds_mode q,
      v_phase = PhaseAccepted, v_outcome = OutcomeNotDispatched, v_usage = None,
      v_charge = ChargeNone,
      v_payment = (if q_price_mode q = PriceModeFree then PaymentNotRequired else PaymentNone),
      v_settlement = SettlementNotApplicable, v_reason = '''', v_approval_id = ac_approval_id inp,
      v_reservation_deadline = None, v_reconciliation_deadline = now + 24 * hour,
      v_created_at = now, v_updated_at = now, v_finalized_at = None, v_version = 1,
      v_dispatch_deadline = None\<rparr>"

text \<open>
  The insert: the \<open>CHECK\<close> of the amount, then the unique indexes in the order PostgreSQL checks
  them: the id, the quote and the idempotency scope, then the approval.
\<close>

definition insert_invocation :: "gotime \<Rightarrow> invocation \<Rightarrow> cdb \<Rightarrow> (invocation \<times> bool) tx" where
  "insert_invocation now v db =
     (if m_amount (v_price v) < 0 then Inl (CePlain ''commerce: insert invocation'')
      else if list_ex (\<lambda>w. v_id w = v_id v \<or> v_quote_id w = v_quote_id v \<or> idem_scope w = idem_scope v)
           (cd_invocations db)
      then Inl CeQuoteMismatch
      else if v_approval_id v \<noteq> '''' \<and>
         list_ex (\<lambda>w. id_tenant (v_ids w) = id_tenant (v_ids v) \<and> v_approval_id w = v_approval_id v)
           (cd_invocations db)
      then Inl CeApprovalBound
      else Inr (db\<lparr>cd_invocations := cd_invocations db @ [v],
                  cd_history := cd_history db @
                    [history_row now (v_id v) None PhaseAccepted '''' (id_principal (v_ids v)) '''' db]\<rparr>,
                (v, False)))"

definition accept_body ::
  "hash \<Rightarrow> gotime \<Rightarrow> string \<Rightarrow> accept_input \<Rightarrow> cdb \<Rightarrow> (invocation \<times> bool) tx" where
  "accept_body H now ulid inp db =
     (case find (\<lambda>v. idem_scope v =
              (id_tenant (ac_ids inp), id_principal (ac_ids inp), ac_idempotency_key inp))
             (cd_invocations db) of
        Some old \<Rightarrow>
          if v_quote_digest old \<noteq> ac_quote_digest inp then Inl CeIdempotencyConflict
          else Inr (db, (old, True))
      | None \<Rightarrow>
          andThen (GetQuote (id_tenant (ac_ids inp)) (ac_quote_id inp) db) (\<lambda>q.
          andThen (accept_checks H now inp q db) (\<lambda>t.
            insert_invocation now (accepted_invocation now ulid inp q t) db)))"

text \<open>The flag is \<open>Replayed\<close>.\<close>

definition AcceptInvocation ::
  "hash \<Rightarrow> tx_fault \<Rightarrow> gotime \<Rightarrow> string \<Rightarrow> accept_input \<Rightarrow> cdb \<Rightarrow> cdb \<times> (cm_error + invocation \<times> bool)" where
  "AcceptInvocation H fault now ulid inp db =
     precheck (accept_validate inp) db (withTx fault db (accept_body H now ulid inp db))"

section \<open>Transitions\<close>

definition lockInvocation :: "string \<Rightarrow> string \<Rightarrow> cdb \<Rightarrow> cm_error + invocation" where
  "lockInvocation tenant i db =
     (case tselect v_id (cd_invocations db) i of
        None \<Rightarrow> Inl CeInvocationNotFound
      | Some v \<Rightarrow> if id_tenant (v_ids v) = tenant then Inr v else Inl CeInvocationNotFound)"

text \<open>The values the update stores: a fact the request omits is inherited from the row.\<close>

definition merged_charge :: "phase \<Rightarrow> transition_input \<Rightarrow> invocation \<Rightarrow> charge_status" where
  "merged_charge to inp cur =
     (let charge = firstNonEmpty (ti_charge inp) (v_charge cur)
      in if to = PhaseReleased \<and> charge = ChargeReserved then ChargeReleased else charge)"

definition moved_invocation :: "gotime \<Rightarrow> phase \<Rightarrow> transition_input \<Rightarrow> invocation \<Rightarrow> invocation" where
  "moved_invocation now to inp cur = cur\<lparr>
     v_phase := to,
     v_outcome := (if to = PhaseOutcomeUnknown then OutcomeUnknown
                   else firstNonEmpty (ti_outcome inp) (v_outcome cur)),
     v_usage := (if ti_usage inp \<noteq> None then ti_usage inp else v_usage cur),
     v_charge := merged_charge to inp cur,
     v_payment := firstNonEmpty (ti_payment inp) (v_payment cur),
     v_settlement := firstNonEmpty (ti_settlement inp) (v_settlement cur),
     v_reason := (if ti_reason inp \<noteq> '''' then ti_reason inp else v_reason cur),
     v_reservation_deadline := (if ti_deadline inp \<noteq> None then ti_deadline inp
                                else v_reservation_deadline cur),
     v_updated_at := now,
     v_finalized_at := (if to = PhaseFinalized then Some now else None),
     v_version := v_version cur + 1\<rparr>"

definition applyTransition :: "gotime \<Rightarrow> string \<Rightarrow> transition_input \<Rightarrow> cdb \<Rightarrow> invocation tx" where
  "applyTransition now tenant inp db =
     check (transition_validate inp)
     (andThen (lockInvocation tenant (ti_invocation inp) db) (\<lambda>cur.
        if IsTerminal (v_phase cur) then Inl CeTerminal
        else if Val (v_phase cur) \<noteq> ti_expected inp then Inl CePhaseConflict
        else case ti_to inp of
          Val to \<Rightarrow>
            check (checkFactCombination to (merged_charge to inp cur)
                     (firstNonEmpty (ti_payment inp) (v_payment cur)))
            (if to = PhaseDispatching \<and> v_payment cur = PaymentUnknown then Inl CePaymentUnknown
             else Inr (db\<lparr>cd_invocations := tput v_id (cd_invocations db) (moved_invocation now to inp cur),
                         cd_history := cd_history db @
                           [history_row now (v_id cur) (Some (v_phase cur)) to (ti_reason inp)
                              (ti_actor inp) (ti_note inp) db]\<rparr>,
                       moved_invocation now to inp cur))
        | _ \<Rightarrow> Inl CePhaseConflict))"

definition Transition ::
  "tx_fault \<Rightarrow> gotime \<Rightarrow> string \<Rightarrow> transition_input \<Rightarrow> cdb \<Rightarrow> cdb \<times> (cm_error + invocation)" where
  "Transition fault now tenant inp db =
     precheck (transition_validate inp) db
       (precheck (checkText tenant MaxIDBytes True) db
         (withTx fault db (applyTransition now tenant inp db)))"

section \<open>Reads\<close>

definition GetInvocation :: "string \<Rightarrow> string \<Rightarrow> cdb \<Rightarrow> cm_error + invocation" where
  "GetInvocation tenant i db = lockInvocation tenant i db"

record invocation_filter =
  if_tenant :: string
  if_principal :: string
  if_idempotency_key :: string
  if_capability :: string
  if_phase :: "phase field"
  if_since :: "gotime option"
  if_until :: "gotime option"
  if_limit :: int

text \<open>A limit that is not in \<open>1..500\<close> is 100.\<close>

definition page_limit :: "int \<Rightarrow> nat" where
  "page_limit l = (if l \<le> 0 \<or> 500 < l then 100 else nat l)"

definition filter_matches :: "invocation_filter \<Rightarrow> invocation \<Rightarrow> bool" where
  "filter_matches f v \<longleftrightarrow>
     id_tenant (v_ids v) = if_tenant f \<and>
     (if_principal f \<noteq> '''' \<longrightarrow> id_principal (v_ids v) = if_principal f) \<and>
     (if_idempotency_key f \<noteq> '''' \<longrightarrow> v_idempotency_key v = if_idempotency_key f) \<and>
     (if_capability f \<noteq> '''' \<longrightarrow> v_capability_id v = if_capability f) \<and>
     (case if_phase f of Val p \<Rightarrow> v_phase v = p | _ \<Rightarrow> True) \<and>
     (case if_since f of Some t \<Rightarrow> t \<le> v_created_at v | None \<Rightarrow> True) \<and>
     (case if_until f of Some t \<Rightarrow> v_created_at v < t | None \<Rightarrow> True)"

definition ListInvocations :: "invocation_filter \<Rightarrow> cdb \<Rightarrow> cm_error + invocation list" where
  "ListInvocations f db =
     check (first_error
       [checkText (if_tenant f) MaxIDBytes True,
        vocabulary_check (if_phase f),
        if if_idempotency_key f \<noteq> '''' \<and> if_principal f = '''' then Some CeInvalid else None])
     (Inr (take (page_limit (if_limit f))
        (rev (sort_key (\<lambda>v. (v_created_at v, v_id v)) (filter (filter_matches f) (cd_invocations db))))))"

definition ListTransitions :: "string \<Rightarrow> string \<Rightarrow> cdb \<Rightarrow> cm_error + transition_row list" where
  "ListTransitions tenant i db =
     andThen (GetInvocation tenant i db) (\<lambda>v. Inr (filter (\<lambda>h. h_invocation h = i) (cd_history db)))"

definition ListOverdue :: "gotime \<Rightarrow> int \<Rightarrow> cdb \<Rightarrow> invocation list" where
  "ListOverdue now limit db =
     take (page_limit limit)
       (sort_key v_reconciliation_deadline
         (filter (\<lambda>v. \<not> IsTerminal (v_phase v) \<and> v_reconciliation_deadline v < now) (cd_invocations db)))"

section \<open>Entitlement packages\<close>

definition grant_body :: "gotime \<Rightarrow> string \<Rightarrow> grant_input \<Rightarrow> cdb \<Rightarrow> entitlement tx" where
  "grant_body now ulid inp db =
     (if \<not> list_ex (\<lambda>t. t_capability_id t = ge_capability inp \<and> t_retired_at t = None) (cd_terms db)
      then Inl CeTermsNotFound
      else case ge_expires_at inp of
        None \<Rightarrow> Inl CeInvalid
      | Some expires \<Rightarrow>
          (let n = \<lparr>n_id = ''ent_'' @ ulid, n_tenant = ge_tenant inp, n_capability = ge_capability inp,
                    n_total = ge_units inp, n_remaining = ge_units inp, n_reserved = 0,
                    n_invoice = ge_invoice inp, n_granted_by = ge_actor inp, n_reason = ge_reason inp,
                    n_status = EntitlementActive, n_expires_at = expires,
                    n_created_at = now, n_updated_at = now\<rparr>
           in if list_ex (\<lambda>m. n_id m = n_id n) (cd_entitlements db)
              then Inl (CePlain ''commerce: grant entitlement'')
              else if list_ex (\<lambda>m. n_tenant m = n_tenant n \<and> n_invoice m = n_invoice n) (cd_entitlements db)
              then Inl CeEntitlementConflict
              else Inr (db\<lparr>cd_entitlements := cd_entitlements db @ [n]\<rparr>, n)))"

definition GrantEntitlement ::
  "tx_fault \<Rightarrow> gotime \<Rightarrow> string \<Rightarrow> grant_input \<Rightarrow> cdb \<Rightarrow> cdb \<times> (cm_error + entitlement)" where
  "GrantEntitlement fault now ulid inp db =
     precheck (grant_validate inp now) db (withTx fault db (grant_body now ulid inp db))"

definition GetEntitlement :: "string \<Rightarrow> string \<Rightarrow> cdb \<Rightarrow> cm_error + entitlement" where
  "GetEntitlement tenant i db =
     check (first_error [checkText tenant MaxIDBytes True, checkText i MaxIDBytes True])
     (case tselect n_id (cd_entitlements db) i of
        None \<Rightarrow> Inl CeEntitlementNotFound
      | Some n \<Rightarrow> if n_tenant n = tenant then Inr n else Inl CeEntitlementNotFound)"

definition RetireEntitlement ::
  "tx_fault \<Rightarrow> gotime \<Rightarrow> string \<Rightarrow> string \<Rightarrow> cdb \<Rightarrow> cdb \<times> (cm_error + entitlement)" where
  "RetireEntitlement fault now tenant i db =
     precheck (first_error [checkText tenant MaxIDBytes True, checkText i MaxIDBytes True]) db
       (withTx fault db
         (case tupdate n_id i (\<lambda>n. n_tenant n = tenant \<and> n_status n = EntitlementActive)
                 (\<lambda>n. n\<lparr>n_status := EntitlementRetired, n_updated_at := now\<rparr>) (cd_entitlements db) of
            (rows, Some n) \<Rightarrow> Inr (db\<lparr>cd_entitlements := rows\<rparr>, n)
          | (rows, None) \<Rightarrow> andThen (GetEntitlement tenant i db) (\<lambda>n. Inr (db, n))))"

definition ListEntitlements :: "string \<Rightarrow> cdb \<Rightarrow> cm_error + entitlement list" where
  "ListEntitlements tenant db =
     check (checkText tenant MaxIDBytes True)
       (Inr (sort_key (\<lambda>n. - n_created_at n) (filter (\<lambda>n. n_tenant n = tenant) (cd_entitlements db))))"

end
