(* ===== verification/Commerce_Payment.thy ===== *)
theory Commerce_Payment
  imports Commerce_Store
begin

text \<open>
  The payment rail and the prepaid units, the parts of \<open>internal/commerce/budget.go\<close> a
  reservation uses: the \<open>PaymentAuthorizer\<close> interface as a record of functions on the ledger
  transaction, the simulated adapter that implements it, and the hold, capture and release
  of an entitlement unit.
\<close>

section \<open>The interface\<close>

record payment_request =
  pq_key :: string
  pq_invocation :: string
  pq_tenant :: string
  pq_payer :: string
  pq_money :: money
  pq_funds_mode :: funds_mode
  pq_quote_digest :: string

record payment_result =
  pr_operation :: "payment_op option"
  pr_result :: payment_result_word
  pr_id :: string
  pr_reason :: string
  pr_settlement :: "settlement_status field"
  pr_recorded_at :: "gotime option"

record adapter =
  ad_authorize :: "payment_request \<Rightarrow> cdb \<Rightarrow> payment_result tx"
  ad_capture :: "string \<Rightarrow> string \<Rightarrow> money \<Rightarrow> cdb \<Rightarrow> payment_result tx"
  ad_void :: "string \<Rightarrow> string \<Rightarrow> cdb \<Rightarrow> payment_result tx"
  ad_status :: "string \<Rightarrow> cdb \<Rightarrow> cm_error + payment_result"

fun payment_op_text :: "payment_op \<Rightarrow> string" where
  "payment_op_text PaymentOpAuthorize = ''authorize''"
| "payment_op_text PaymentOpCapture = ''capture''"
| "payment_op_text PaymentOpVoid = ''void''"

definition PaymentOperationKey :: "string \<Rightarrow> payment_op \<Rightarrow> string" where
  "PaymentOperationKey i opn = ''mctl-pay/v1:'' @ i @ '':'' @ payment_op_text opn"

section \<open>Feature negotiation\<close>

record adapter_info =
  ai_id :: string
  ai_version :: string
  ai_funds_modes :: "string list"
  ai_features :: "string list"

definition requiredFeatures :: "string list" where
  "requiredFeatures = [''auth_capture'', ''void'', ''status_lookup'']"

definition checkAdapter :: "adapter_info \<Rightarrow> cm_error option" where
  "checkAdapter info =
     (if ai_id info = '''' \<or> ai_version info = '''' then Some CeAdapterIneligible
      else if \<not> list_all (\<lambda>f. f \<in> set (ai_features info)) requiredFeatures then Some CeAdapterIneligible
      else if ''simulated'' \<notin> set (ai_funds_modes info) then Some CeAdapterIneligible
      else None)"

definition simulated_info :: adapter_info where
  "simulated_info = \<lparr>ai_id = ''simulated'', ai_version = ''1'', ai_funds_modes = [''simulated''],
     ai_features = [''auth_capture'', ''void'', ''status_lookup'', ''simulation'']\<rparr>"

section \<open>The simulated adapter\<close>

definition payment_row_result :: "payment_row \<Rightarrow> payment_result" where
  "payment_row_result p =
     \<lparr>pr_operation = Some (p_operation p), pr_result = p_result p, pr_id = p_result_id p,
      pr_reason = p_reason p, pr_settlement = p_settlement p, pr_recorded_at = Some (p_recorded_at p)\<rparr>"

abbreviation loadPaymentOp :: "string \<Rightarrow> cdb \<Rightarrow> payment_row option" where
  "loadPaymentOp key db \<equiv> tselect p_key (cd_payments db) key"

definition insertPaymentOp :: "payment_row \<Rightarrow> cdb \<Rightarrow> payment_result tx" where
  "insertPaymentOp p db =
     (if list_ex (\<lambda>x. p_key x = p_key p) (cd_payments db)
      then Inl (CePlain ''commerce: record payment operation'')
      else Inr (db\<lparr>cd_payments := cd_payments db @ [p]\<rparr>, payment_row_result p))"

definition sim_authorize :: "gotime \<Rightarrow> string \<Rightarrow> payment_request \<Rightarrow> cdb \<Rightarrow> payment_result tx" where
  "sim_authorize now ulid req db =
     (case loadPaymentOp (pq_key req) db of
        Some prior \<Rightarrow>
          if p_operation prior \<noteq> PaymentOpAuthorize \<or> p_invocation prior \<noteq> pq_invocation req \<or>
             p_tenant prior \<noteq> pq_tenant req \<or> p_payer prior \<noteq> pq_payer req \<or>
             p_money prior \<noteq> pq_money req \<or> p_funds_mode prior \<noteq> Val (pq_funds_mode req) \<or>
             p_quote_digest prior \<noteq> pq_quote_digest req
          then Inl CePaymentConflict
          else Inr (db, payment_row_result prior)
      | None \<Rightarrow>
          (let p = \<lparr>p_key = pq_key req, p_invocation = pq_invocation req,
                    p_operation = PaymentOpAuthorize, p_tenant = pq_tenant req,
                    p_payer = pq_payer req, p_money = pq_money req,
                    p_funds_mode = Val (pq_funds_mode req), p_quote_digest = pq_quote_digest req,
                    p_authorization = '''', p_result = PaymentResultAuthorized,
                    p_result_id = ''sauth_'' @ ulid, p_reason = '''',
                    p_settlement = Val SettlementNotApplicable, p_recorded_at = now\<rparr>
           in if pq_funds_mode req \<noteq> FundsModeSimulated
              then insertPaymentOp (p\<lparr>p_result := PaymentResultDenied, p_result_id := '''',
                                      p_reason := ReasonFundsModeUnavailable\<rparr>) db
              else insertPaymentOp p db))"

text \<open>Capture and void; \<open>amount\<close> is \<open>None\<close> for a void.\<close>

definition settled_row ::
  "gotime \<Rightarrow> string \<Rightarrow> payment_op \<Rightarrow> string \<Rightarrow> string \<Rightarrow> money option \<Rightarrow> payment_row option \<Rightarrow> payment_row" where
  "settled_row now ulid opn key authId amount auth =
     (let p = \<lparr>p_key = key, p_invocation = '''', p_operation = opn, p_tenant = '''', p_payer = '''',
               p_money = \<lparr>m_currency = '''', m_amount = 0\<rparr>, p_funds_mode = Unset,
               p_quote_digest = '''', p_authorization = authId, p_result = PaymentResultFailed,
               p_result_id = '''', p_reason = ''authorization not found'',
               p_settlement = Val SettlementNotApplicable, p_recorded_at = now\<rparr>
      in case auth of
        None \<Rightarrow> p
      | Some a \<Rightarrow>
          (let p = p\<lparr>p_invocation := p_invocation a, p_tenant := p_tenant a, p_payer := p_payer a,
                     p_money := (case amount of Some m \<Rightarrow> m | None \<Rightarrow> p_money a),
                     p_funds_mode := p_funds_mode a, p_quote_digest := p_quote_digest a\<rparr>
           in if (case amount of None \<Rightarrow> False
                  | Some m \<Rightarrow> m_currency m \<noteq> m_currency (p_money a) \<or> m_amount (p_money a) < m_amount m)
              then p\<lparr>p_reason := ''capture exceeds authorization''\<rparr>
              else if opn = PaymentOpCapture
              then p\<lparr>p_result := PaymentResultCaptured, p_result_id := ''scap_'' @ ulid,
                     p_reason := '''', p_settlement := Val SettlementSettled\<rparr>
              else p\<lparr>p_result := PaymentResultVoided, p_result_id := ''svoid_'' @ ulid,
                     p_reason := ''''\<rparr>))"

definition sim_settle ::
  "gotime \<Rightarrow> string \<Rightarrow> payment_op \<Rightarrow> string \<Rightarrow> string \<Rightarrow> money option \<Rightarrow> cdb \<Rightarrow> payment_result tx" where
  "sim_settle now ulid opn key authId amount db =
     (case loadPaymentOp key db of
        Some prior \<Rightarrow>
          if p_operation prior = opn \<and> p_authorization prior = authId \<and>
             (case amount of None \<Rightarrow> True | Some m \<Rightarrow> p_money prior = m)
          then Inr (db, payment_row_result prior)
          else Inl CePaymentConflict
      | None \<Rightarrow>
          insertPaymentOp
            (settled_row now ulid opn key authId amount
              (find (\<lambda>a. p_operation a = PaymentOpAuthorize \<and> p_result_id a = authId \<and>
                         p_result a = PaymentResultAuthorized) (cd_payments db))) db)"

definition sim_status :: "string \<Rightarrow> cdb \<Rightarrow> cm_error + payment_result" where
  "sim_status key db =
     (case loadPaymentOp key db of
        None \<Rightarrow> Inr \<lparr>pr_operation = None, pr_result = PaymentResultNotFound, pr_id = '''',
                      pr_reason = '''', pr_settlement = Unset, pr_recorded_at = None\<rparr>
      | Some p \<Rightarrow> Inr (payment_row_result p))"

definition SimulatedAuthorizer :: "gotime \<Rightarrow> string \<Rightarrow> adapter" where
  "SimulatedAuthorizer now ulid =
     \<lparr>ad_authorize = sim_authorize now ulid,
      ad_capture = (\<lambda>key authId amount. sim_settle now ulid PaymentOpCapture key authId (Some amount)),
      ad_void = (\<lambda>key authId. sim_settle now ulid PaymentOpVoid key authId None),
      ad_status = sim_status\<rparr>"

section \<open>Entitlement units\<close>

text \<open>\<open>ORDER BY expires_at ASC LIMIT 1\<close>.\<close>

fun earliest_expiring :: "entitlement list \<Rightarrow> entitlement option" where
  "earliest_expiring [] = None"
| "earliest_expiring (n # ns) =
     (case earliest_expiring ns of
        None \<Rightarrow> Some n
      | Some m \<Rightarrow> if n_expires_at m < n_expires_at n then Some m else Some n)"

definition set_entitlement :: "string \<Rightarrow> (entitlement \<Rightarrow> entitlement) \<Rightarrow> cdb \<Rightarrow> cdb" where
  "set_entitlement i f db =
     db\<lparr>cd_entitlements := fst (tupdate n_id i (\<lambda>_. True) f (cd_entitlements db))\<rparr>"

definition holdEntitlementUnit ::
  "gotime \<Rightarrow> string \<Rightarrow> string \<Rightarrow> string \<Rightarrow> string \<Rightarrow> cdb \<Rightarrow> unit tx" where
  "holdEntitlementUnit now ulid tenant cap i db =
     (let ours = filter (\<lambda>n. n_tenant n = tenant \<and> n_capability n = cap \<and>
                             n_status n = EntitlementActive) (cd_entitlements db)
      in case earliest_expiring (filter (\<lambda>n. 0 < n_remaining n \<and> now < n_expires_at n) ours) of
        Some n \<Rightarrow>
          if list_ex (\<lambda>a. al_id a = ''alc_'' @ ulid \<or> al_invocation a = i) (cd_allocations db)
          then Inl (CePlain ''commerce: record entitlement allocation'')
          else Inr ((set_entitlement (n_id n)
                  (\<lambda>n. n\<lparr>n_remaining := n_remaining n - 1, n_reserved := n_reserved n + 1,
                         n_updated_at := now\<rparr>) db)
                \<lparr>cd_allocations := cd_allocations db @
                   [\<lparr>al_id = ''alc_'' @ ulid, al_entitlement = n_id n, al_invocation = i,
                     al_units = 1, al_state = AllocationHeld, al_recorded_at = now\<rparr>]\<rparr>, ())
      | None \<Rightarrow>
          if ours = [] then Inr (db, ())
          else if list_ex (\<lambda>n. now < n_expires_at n) ours then Inl CeEntitlementExhausted
          else Inl CeEntitlementExpired)"

text \<open>The shared shape of capture and release: the held allocation of the invocation is closed.\<close>

definition close_allocation ::
  "alloc_state \<Rightarrow> (int \<Rightarrow> entitlement \<Rightarrow> entitlement) \<Rightarrow> string \<Rightarrow> cdb \<Rightarrow> cdb" where
  "close_allocation st f i db =
     (case find (\<lambda>a. al_invocation a = i \<and> al_state a = AllocationHeld) (cd_allocations db) of
        None \<Rightarrow> db
      | Some a \<Rightarrow>
          (set_entitlement (al_entitlement a) (f (al_units a)) db)
            \<lparr>cd_allocations := tput al_id (cd_allocations db) (a\<lparr>al_state := st\<rparr>)\<rparr>)"

definition captureEntitlementUnit :: "gotime \<Rightarrow> string \<Rightarrow> cdb \<Rightarrow> cdb" where
  "captureEntitlementUnit now i db =
     close_allocation AllocationCaptured
       (\<lambda>u n. n\<lparr>n_reserved := n_reserved n - u, n_updated_at := now\<rparr>) i db"

definition releaseEntitlementUnit :: "gotime \<Rightarrow> string \<Rightarrow> cdb \<Rightarrow> cdb" where
  "releaseEntitlementUnit now i db =
     close_allocation AllocationReleased
       (\<lambda>u n. n\<lparr>n_remaining := n_remaining n + u, n_reserved := n_reserved n - u,
                n_updated_at := now\<rparr>) i db"

end
