(* ===== verification/Commerce_Budget.thy ===== *)
theory Commerce_Budget
  imports Commerce_Payment
begin

text \<open>
  Budgets, balances and the operations that move a hold, \<open>internal/commerce/budget.go\<close>:
  \<open>SetBudget\<close>, \<open>GetBalance\<close>, \<open>Precheck\<close>, \<open>Reserve\<close>, \<open>Finalize\<close>, \<open>Release\<close> and the reconciler
  \<open>ExpireStale\<close>.  The payment rail is the argument \<open>A\<close>, an \<open>adapter\<close>.
\<close>

section \<open>Budgets\<close>

definition DefaultReservationWindow :: duration where
  "DefaultReservationWindow = 15 * minute"

definition ReasonReservationExpired :: string where
  "ReasonReservationExpired = ''reservation-expired''"

record set_budget_input =
  sb_tenant :: string
  sb_payer :: string
  sb_currency :: string
  sb_monthly_limit :: int
  sb_per_request_max :: int
  sb_actor :: string
  sb_reason :: string

definition set_budget_validate :: "set_budget_input \<Rightarrow> cm_error option" where
  "set_budget_validate inp = first_error
     [checkText (sb_tenant inp) MaxIDBytes True,
      checkText (sb_payer inp) MaxIDBytes True,
      checkText (sb_actor inp) MaxIDBytes True,
      checkText (sb_reason inp) MaxReasonBytes True,
      if CurrencyExponent (sb_currency inp) = None then Some CeInvalid else None,
      if sb_monthly_limit inp < 0 then Some CeInvalid else None,
      if sb_per_request_max inp < 1 then Some CeInvalid else None]"

abbreviation budget_key :: "budget \<Rightarrow> string \<times> string" where
  "budget_key b \<equiv> (b_tenant b, b_payer b)"

abbreviation account_of :: "reservation \<Rightarrow> string \<times> string" where
  "account_of r \<equiv> (s_tenant r, s_payer r)"

definition budget_row :: "gotime \<Rightarrow> set_budget_input \<Rightarrow> budget option \<Rightarrow> budget" where
  "budget_row now inp prior =
     (case prior of
        None \<Rightarrow> \<lparr>b_tenant = sb_tenant inp, b_payer = sb_payer inp, b_currency = sb_currency inp,
                 b_funds_mode = FundsModeSimulated, b_monthly_limit = sb_monthly_limit inp,
                 b_per_request_max = sb_per_request_max inp, b_created_at = now,
                 b_updated_at = now, b_version = 1\<rparr>
      | Some b \<Rightarrow> b\<lparr>b_currency := sb_currency inp, b_monthly_limit := sb_monthly_limit inp,
                   b_per_request_max := sb_per_request_max inp, b_updated_at := now,
                   b_version := b_version b + 1\<rparr>)"

definition change_row :: "gotime \<Rightarrow> set_budget_input \<Rightarrow> budget option \<Rightarrow> budget \<Rightarrow> cdb \<Rightarrow> budget_change" where
  "change_row now inp prior b db =
     \<lparr>bc_seq = length (cd_changes db) + 1, bc_tenant = sb_tenant inp, bc_payer = sb_payer inp,
      bc_actor = sb_actor inp, bc_reason = sb_reason inp,
      bc_old = map_option (\<lambda>p. (b_currency p, b_monthly_limit p, b_per_request_max p)) prior,
      bc_new_currency = b_currency b, bc_new_monthly_limit = b_monthly_limit b,
      bc_new_per_request_max = b_per_request_max b, bc_recorded_at = now\<rparr>"

definition set_budget_body :: "gotime \<Rightarrow> set_budget_input \<Rightarrow> cdb \<Rightarrow> budget tx" where
  "set_budget_body now inp db =
     (let prior = tselect budget_key (cd_budgets db) (sb_tenant inp, sb_payer inp);
          b = budget_row now inp prior
      in if (case prior of None \<Rightarrow> False | Some p \<Rightarrow> b_currency p \<noteq> sb_currency inp) \<and>
            list_ex (\<lambda>r. account_of r = (sb_tenant inp, sb_payer inp)) (cd_reservations db)
         then Inl CeCurrencyMismatch
         else Inr (db\<lparr>cd_budgets := tput budget_key (cd_budgets db) b,
                     cd_changes := cd_changes db @ [change_row now inp prior b db]\<rparr>, b))"

definition SetBudget ::
  "tx_fault \<Rightarrow> gotime \<Rightarrow> set_budget_input \<Rightarrow> cdb \<Rightarrow> cdb \<times> (cm_error + budget)" where
  "SetBudget fault now inp db =
     precheck (set_budget_validate inp) db (withTx fault db (set_budget_body now inp db))"

definition getBudget :: "string \<Rightarrow> string \<Rightarrow> cdb \<Rightarrow> cm_error + budget" where
  "getBudget tenant payer db =
     (case tselect budget_key (cd_budgets db) (tenant, payer) of
        None \<Rightarrow> Inl CeBudgetNotFound | Some b \<Rightarrow> Inr b)"

definition ListBudgetChanges :: "string \<Rightarrow> string \<Rightarrow> cdb \<Rightarrow> budget_change list" where
  "ListBudgetChanges tenant payer db =
     filter (\<lambda>c. bc_tenant c = tenant \<and> bc_payer c = payer) (cd_changes db)"

section \<open>Balances\<close>

definition Period :: "gotime \<Rightarrow> string" where
  "Period t = (let (y, m, d) = civil_of_days (t div second div 86400)
               in pad 4 (nat y) @ ''-'' @ pad 2 (nat m))"

record balance =
  bal_tenant :: string
  bal_payer :: string
  bal_currency :: string
  bal_funds_mode :: funds_mode
  bal_period :: string
  bal_monthly_limit :: int
  bal_per_request_max :: int
  bal_committed :: int
  bal_reserved :: int
  bal_pending :: int
  bal_available :: int
  bal_as_of :: gotime

text \<open>The join with the invocations: the reservations of the account that have one, with its phase.\<close>

definition joined :: "string \<times> string \<Rightarrow> cdb \<Rightarrow> (reservation \<times> phase) list" where
  "joined acct db =
     map (\<lambda>r. (r, v_phase (the (tselect v_id (cd_invocations db) (s_invocation r)))))
       (filter (\<lambda>r. account_of r = acct \<and> tselect v_id (cd_invocations db) (s_invocation r) \<noteq> None)
          (cd_reservations db))"

definition sum_where :: "(reservation \<times> phase \<Rightarrow> bool) \<Rightarrow> string \<times> string \<Rightarrow> cdb \<Rightarrow> int" where
  "sum_where p acct db = sum_list (map (s_amount \<circ> fst) (filter p (joined acct db)))"

definition balanceOf :: "budget \<Rightarrow> gotime \<Rightarrow> cdb \<Rightarrow> balance" where
  "balanceOf b now db =
     (let acct = budget_key b;
          committed = sum_where (\<lambda>(r, ph). s_status r = ReservationCaptured \<and> s_period r = Period now) acct db;
          reserved = sum_where (\<lambda>(r, ph). s_status r = ReservationHeld \<and> ph \<noteq> PhaseOutcomeUnknown) acct db;
          pending = sum_where (\<lambda>(r, ph). s_status r = ReservationHeld \<and> ph = PhaseOutcomeUnknown) acct db
      in \<lparr>bal_tenant = b_tenant b, bal_payer = b_payer b, bal_currency = b_currency b,
          bal_funds_mode = b_funds_mode b, bal_period = Period now,
          bal_monthly_limit = b_monthly_limit b, bal_per_request_max = b_per_request_max b,
          bal_committed = committed, bal_reserved = reserved, bal_pending = pending,
          bal_available = max (b_monthly_limit b - committed - reserved - pending) 0,
          bal_as_of = now\<rparr>)"

definition GetBalance :: "gotime \<Rightarrow> string \<Rightarrow> string \<Rightarrow> cdb \<Rightarrow> cm_error + balance" where
  "GetBalance now tenant payer db =
     andThen (getBudget tenant payer db) (\<lambda>b. Inr (balanceOf b now db))"

text \<open>The note is empty when the amount is admitted.\<close>

definition admits :: "balance \<Rightarrow> money \<Rightarrow> cm_error + string" where
  "admits bal amount =
     (if m_currency amount \<noteq> bal_currency bal then Inl CeCurrencyMismatch
      else if bal_per_request_max bal < m_amount amount then Inr ''exceeds per-request maximum''
      else if bal_available bal < m_amount amount then Inr ''exceeds available budget''
      else Inr '''')"

record precheck_result =
  pc_sufficient :: bool
  pc_reason :: string
  pc_balance :: balance

definition Precheck :: "gotime \<Rightarrow> string \<Rightarrow> string \<Rightarrow> money \<Rightarrow> cdb \<Rightarrow> cm_error + precheck_result" where
  "Precheck now tenant payer amount db =
     check (money_validate amount)
     (andThen (GetBalance now tenant payer db) (\<lambda>bal.
      andThen (admits bal amount) (\<lambda>note.
        Inr \<lparr>pc_sufficient = (note = ''''),
             pc_reason = (if note = '''' then '''' else ReasonBudgetExhausted),
             pc_balance = bal\<rparr>)))"

section \<open>Reservations\<close>

definition reservationOf :: "string \<Rightarrow> cdb \<Rightarrow> reservation option" where
  "reservationOf i db = tselect s_invocation (cd_reservations db) i"

definition setReservationStatus ::
  "gotime \<Rightarrow> string \<Rightarrow> reservation_status \<Rightarrow> string \<Rightarrow> cdb \<Rightarrow> reservation tx" where
  "setReservationStatus now rid st capture db =
     (case tupdate s_id rid (\<lambda>_. True)
             (\<lambda>r. r\<lparr>s_status := st, s_capture := capture, s_updated_at := now\<rparr>) (cd_reservations db) of
        (rows, Some r) \<Rightarrow> Inr (db\<lparr>cd_reservations := rows\<rparr>, r)
      | (rows, None) \<Rightarrow> Inl (CePlain ''commerce: update reservation''))"

definition GetReservation :: "string \<Rightarrow> string \<Rightarrow> cdb \<Rightarrow> cm_error + reservation option" where
  "GetReservation tenant i db = andThen (GetInvocation tenant i db) (\<lambda>_. Inr (reservationOf i db))"

text \<open>A transition input with nothing but the edge.\<close>

definition edge_input :: "string \<Rightarrow> phase \<Rightarrow> phase \<Rightarrow> string \<Rightarrow> transition_input" where
  "edge_input i from to actor =
     \<lparr>ti_invocation = i, ti_expected = Val from, ti_to = Val to, ti_reason = '''', ti_actor = actor,
      ti_note = '''', ti_outcome = Unset, ti_usage = None, ti_charge = Unset, ti_payment = Unset,
      ti_settlement = Unset, ti_deadline = None\<rparr>"

definition reserveRefusals :: "(string \<times> cm_error) list" where
  "reserveRefusals =
     [(ReasonBudgetExhausted, CeBudgetExhausted), (ReasonPaymentDenied, CePaymentDenied),
      (ReasonQuoteExpired, CeQuoteExpired), (ReasonCurrencyMismatch, CeCurrencyMismatch),
      (ReasonFundsModeUnavailable, CeFundsModeUnavailable),
      (ReasonEntitlementExhausted, CeEntitlementExhausted),
      (ReasonEntitlementExpired, CeEntitlementExpired)]"

definition refusedError :: "string \<Rightarrow> cm_error" where
  "refusedError reason = (case map_of reserveRefusals reason of Some e \<Rightarrow> e | None \<Rightarrow> CeTerminal)"

text \<open>The authorization a capture or void refers to: its id, whether it was denied, the row.\<close>

definition resolveAuthorization ::
  "adapter \<Rightarrow> invocation \<Rightarrow> reservation \<Rightarrow> cdb \<Rightarrow> (string \<times> bool \<times> reservation) tx" where
  "resolveAuthorization A cur r db =
     (if s_authorization r \<noteq> '''' then Inr (db, (s_authorization r, False, r))
      else andThen (ad_status A (PaymentOperationKey (v_id cur) PaymentOpAuthorize) db) (\<lambda>st.
        case pr_result st of
          PaymentResultAuthorized \<Rightarrow>
            Inr (db\<lparr>cd_reservations := fst (tupdate s_id (s_id r) (\<lambda>_. True)
                   (\<lambda>x. x\<lparr>s_authorization := pr_id st\<rparr>) (cd_reservations db))\<rparr>,
                 (pr_id st, False, r\<lparr>s_authorization := pr_id st\<rparr>))
        | PaymentResultDenied \<Rightarrow> Inr (db, ('''', True, r))
        | _ \<Rightarrow> Inl CePaymentUnknown))"

definition settled_result :: "payment_op \<Rightarrow> payment_result \<Rightarrow> cm_error + payment_result" where
  "settled_result opn pr =
     (if pr_result pr = (if opn = PaymentOpVoid then PaymentResultVoided else PaymentResultCaptured)
      then Inr pr
      else if pr_result pr = PaymentResultUnknown then Inl CePaymentUnknown
      else if pr_result pr = PaymentResultFailed then Inl CePaymentDenied
      else Inl (CePlain ''commerce: unexpected payment result''))"

definition settlePayment ::
  "adapter \<Rightarrow> payment_op \<Rightarrow> invocation \<Rightarrow> reservation \<Rightarrow> cdb \<Rightarrow> payment_result tx" where
  "settlePayment A opn cur r db =
     andThen (resolveAuthorization A cur r db) (\<lambda>(db1, authId, denied, r1).
       if denied then Inl CePaymentDenied
       else
         (let key = PaymentOperationKey (v_id cur) opn
          in andThen (ad_status A key db1) (\<lambda>st.
             andThen
               (if pr_result st = PaymentResultNotFound \<or> pr_result st = PaymentResultUnknown
                then (if opn = PaymentOpCapture then ad_capture A key authId (v_price cur) db1
                      else ad_void A key authId db1)
                else Inr (db1, st))
               (\<lambda>(db2, pr). andThen (settled_result opn pr) (\<lambda>pr. Inr (db2, pr))))))"

section \<open>Reserve\<close>

record reserve_input =
  ri_tenant :: string
  ri_invocation :: string
  ri_actor :: string

record reserve_result =
  rs_invocation :: invocation
  rs_reservation :: "reservation option"
  rs_replayed :: bool

text \<open>The result that is handed back together with the refusal, if there is one.\<close>

type_synonym reserve_answer = "reserve_result \<times> cm_error option"

definition refuse ::
  "gotime \<Rightarrow> reserve_input \<Rightarrow> invocation \<Rightarrow> string \<Rightarrow> string \<Rightarrow> cm_error \<Rightarrow> cdb \<Rightarrow> reserve_answer tx" where
  "refuse now inp cur reason note cause db =
     andThen (applyTransition now (ri_tenant inp)
         ((edge_input (v_id cur) PhaseAccepted PhaseRefused (ri_actor inp))
            \<lparr>ti_reason := reason, ti_note := note\<rparr>) db)
       (\<lambda>(db', v). Inr (db', (\<lparr>rs_invocation = v, rs_reservation = None, rs_replayed = False\<rparr>, Some cause)))"

definition resolveUnknownHold ::
  "adapter \<Rightarrow> gotime \<Rightarrow> reserve_input \<Rightarrow> invocation \<Rightarrow> reservation \<Rightarrow> cdb \<Rightarrow> reserve_answer tx" where
  "resolveUnknownHold A now inp cur r db =
     andThen (resolveAuthorization A cur r db) (\<lambda>(db1, authId, denied, r1).
       if denied then
         andThen (setReservationStatus now (s_id r) ReservationReleased '''' db1) (\<lambda>(db2, updated).
         andThen (applyTransition now (ri_tenant inp)
             ((edge_input (v_id cur) PhaseReserved PhaseReleased (ri_actor inp))
                \<lparr>ti_reason := ReasonPaymentDenied,
                 ti_note := ''authorization resolved denied before dispatch'',
                 ti_outcome := Val OutcomeNotDispatched, ti_charge := Val ChargeReleased,
                 ti_payment := Val PaymentDenied\<rparr>) db2) (\<lambda>(db3, v).
           Inr (releaseEntitlementUnit now (v_id cur) db3,
                (\<lparr>rs_invocation = v, rs_reservation = Some updated, rs_replayed = False\<rparr>,
                 Some CePaymentDenied))))
       else
         (let v = cur\<lparr>v_payment := PaymentAuthorized, v_updated_at := now, v_version := v_version cur + 1\<rparr>
          in Inr (db1\<lparr>cd_invocations := tput v_id (cd_invocations db1) v,
                     cd_history := cd_history db1 @
                       [history_row now (v_id cur) (Some PhaseReserved) PhaseReserved '''' (ri_actor inp)
                          ''authorization resolved by status lookup'' db1]\<rparr>,
                  (\<lparr>rs_invocation = v, rs_reservation = Some r1, rs_replayed = True\<rparr>, None))))"

text \<open>What the rail answered to the authorize: the payment status and authorization id to store.\<close>

definition authorize_payment ::
  "adapter \<Rightarrow> invocation \<Rightarrow> cdb \<Rightarrow> (payment_result option) tx" where
  "authorize_payment A cur db =
     (if v_price_mode cur = PriceModeFree then Inr (db, None)
      else andThen (ad_authorize A
            \<lparr>pq_key = PaymentOperationKey (v_id cur) PaymentOpAuthorize, pq_invocation = v_id cur,
             pq_tenant = id_tenant (v_ids cur), pq_payer = id_payer (v_ids cur),
             pq_money = v_price cur, pq_funds_mode = v_funds_mode cur,
             pq_quote_digest = v_quote_digest cur\<rparr> db)
          (\<lambda>(db', pr). Inr (db', Some pr)))"

definition hold ::
  "gotime \<Rightarrow> string \<Rightarrow> reserve_input \<Rightarrow> invocation \<Rightarrow> payment_status \<Rightarrow> string \<Rightarrow> cdb \<Rightarrow> reserve_answer tx" where
  "hold now ulid inp cur payment authId db =
     (let deadline = now + DefaultReservationWindow;
          r = \<lparr>s_id = ''rsv_'' @ ulid, s_invocation = v_id cur, s_tenant = id_tenant (v_ids cur),
               s_payer = id_payer (v_ids cur), s_period = Period now,
               s_currency = m_currency (v_price cur), s_amount = m_amount (v_price cur),
               s_status = ReservationHeld, s_authorization = authId, s_capture = '''',
               s_deadline = deadline, s_created_at = now, s_updated_at = now\<rparr>
      in if list_ex (\<lambda>x. s_id x = s_id r \<or> s_invocation x = s_invocation r) (cd_reservations db)
         then Inl (CePlain ''commerce: insert reservation'')
         else andThen (applyTransition now (ri_tenant inp)
             ((edge_input (v_id cur) PhaseAccepted PhaseReserved (ri_actor inp))
                \<lparr>ti_charge := Val ChargeReserved, ti_payment := Val payment,
                 ti_deadline := Some deadline\<rparr>)
             (db\<lparr>cd_reservations := cd_reservations db @ [r]\<rparr>))
           (\<lambda>(db', v). Inr (db', (\<lparr>rs_invocation = v, rs_reservation = Some r, rs_replayed = False\<rparr>, None))))"

text \<open>\<open>ulids\<close>: the ids of the allocation and of the reservation.\<close>

definition reserve_admitted ::
  "adapter \<Rightarrow> gotime \<Rightarrow> string \<times> string \<Rightarrow> reserve_input \<Rightarrow> invocation \<Rightarrow> cdb \<Rightarrow> reserve_answer tx" where
  "reserve_admitted A now ulids inp cur db =
     (case holdEntitlementUnit now (fst ulids) (id_tenant (v_ids cur)) (v_capability_id cur) (v_id cur) db of
        Inl CeEntitlementExhausted \<Rightarrow>
          refuse now inp cur ReasonEntitlementExhausted ''prepaid entitlement units exhausted''
            CeEntitlementExhausted db
      | Inl CeEntitlementExpired \<Rightarrow>
          refuse now inp cur ReasonEntitlementExpired ''prepaid entitlement package expired''
            CeEntitlementExpired db
      | Inl e \<Rightarrow> Inl e
      | Inr (db1, _) \<Rightarrow>
          andThen (authorize_payment A cur db1) (\<lambda>(db2, ans).
            case ans of
              None \<Rightarrow> hold now (snd ulids) inp cur PaymentNotRequired '''' db2
            | Some pr \<Rightarrow>
                (case pr_result pr of
                   PaymentResultAuthorized \<Rightarrow> hold now (snd ulids) inp cur PaymentAuthorized (pr_id pr) db2
                 | PaymentResultDenied \<Rightarrow>
                     refuse now inp cur ReasonPaymentDenied (pr_reason pr) CePaymentDenied
                       (releaseEntitlementUnit now (v_id cur) db2)
                 | PaymentResultUnknown \<Rightarrow> hold now (snd ulids) inp cur PaymentUnknown '''' db2
                 | _ \<Rightarrow> Inl (CePlain ''commerce: authorize returned an unexpected result''))))"

definition reserve_fresh ::
  "adapter \<Rightarrow> gotime \<Rightarrow> string \<times> string \<Rightarrow> reserve_input \<Rightarrow> invocation \<Rightarrow> cdb \<Rightarrow> reserve_answer tx" where
  "reserve_fresh A now ulids inp cur db =
     (if v_quote_expires_at cur \<le> now
      then refuse now inp cur ReasonQuoteExpired ''quote expired before reservation'' CeQuoteExpired db
      else if v_funds_mode cur = FundsModeLive
      then refuse now inp cur ReasonFundsModeUnavailable
             ''commerce: funds mode unavailable: live funds are not enabled'' CeFundsModeUnavailable db
      else case getBudget (ri_tenant inp) (id_payer (v_ids cur)) db of
        Inl e \<Rightarrow> refuse now inp cur ReasonBudgetExhausted
                   (''no budget configured for '' @ id_payer (v_ids cur)) CeBudgetExhausted db
      | Inr b \<Rightarrow>
          (case admits (balanceOf b now db) (v_price cur) of
             Inl e \<Rightarrow> refuse now inp cur ReasonCurrencyMismatch
                 (''commerce: currency mismatch: account is '' @ b_currency b @ '', request is '' @
                  m_currency (v_price cur)) CeCurrencyMismatch db
           | Inr note \<Rightarrow>
               if note \<noteq> '''' then refuse now inp cur ReasonBudgetExhausted note CeBudgetExhausted db
               else reserve_admitted A now ulids inp cur db))"

definition reserve_body ::
  "adapter \<Rightarrow> gotime \<Rightarrow> string \<times> string \<Rightarrow> reserve_input \<Rightarrow> cdb \<Rightarrow> reserve_answer tx" where
  "reserve_body A now ulids inp db =
     andThen (lockInvocation (ri_tenant inp) (ri_invocation inp) db) (\<lambda>cur.
       if v_phase cur = PhaseAccepted then reserve_fresh A now ulids inp cur db
       else if v_phase cur = PhaseRefused then
         Inr (db, (\<lparr>rs_invocation = cur, rs_reservation = None, rs_replayed = False\<rparr>,
                   Some (refusedError (v_reason cur))))
       else case reservationOf (v_id cur) db of
         None \<Rightarrow> Inl CePhaseConflict
       | Some r \<Rightarrow>
           if s_status r \<noteq> ReservationHeld then Inl CePhaseConflict
           else if v_phase cur = PhaseReserved \<and> v_payment cur = PaymentUnknown
           then resolveUnknownHold A now inp cur r db
           else Inr (db, (\<lparr>rs_invocation = cur, rs_reservation = Some r, rs_replayed = True\<rparr>, None)))"

definition Reserve ::
  "adapter \<Rightarrow> tx_fault \<Rightarrow> gotime \<Rightarrow> string \<times> string \<Rightarrow> reserve_input \<Rightarrow> cdb \<Rightarrow>
     cdb \<times> (cm_error + reserve_answer)" where
  "Reserve A fault now ulids inp db =
     precheck (first_error
       [checkText (ri_tenant inp) MaxIDBytes True, checkText (ri_invocation inp) MaxIDBytes True,
        checkText (ri_actor inp) MaxIDBytes True]) db
       (withTx fault db (reserve_body A now ulids inp db))"

section \<open>Finalize\<close>

record finalize_input =
  fi_tenant :: string
  fi_invocation :: string
  fi_actor :: string
  fi_outcome :: "exec_outcome field"
  fi_usage :: "int option"
  fi_note :: string

record finalize_result =
  fr_invocation :: invocation
  fr_reservation :: "reservation option"
  fr_replayed :: bool

text \<open>
  How the charge of a confirmed outcome is settled: the facts of the transition, the status
  and capture id of the reservation.
\<close>

type_synonym settlement =
  "(charge_status \<times> payment_status field \<times> settlement_status field) \<times> reservation_status \<times> string"

definition settle_charge ::
  "adapter \<Rightarrow> exec_outcome field \<Rightarrow> invocation \<Rightarrow> reservation \<Rightarrow> cdb \<Rightarrow> settlement tx" where
  "settle_charge A result cur r db =
     (if v_price_mode cur = PriceModeFree
      then Inr (db, ((ChargeCaptured, Unset, Unset), ReservationCaptured, ''''))
      else andThen (resolveAuthorization A cur r db) (\<lambda>(db1, authId, denied, r1).
        if denied
        then Inr (db1, ((ChargeReleased, Val PaymentDenied, Val SettlementNotApplicable),
                        ReservationReleased, ''''))
        else if v_price_mode cur = PriceModePerCall \<or>
                v_price_mode cur = PriceModePerSuccessfulCall \<and> result = Val OutcomeSucceeded
        then andThen (settlePayment A PaymentOpCapture cur r1 db1) (\<lambda>(db2, pr).
          Inr (db2, ((ChargeCaptured, Val PaymentCaptured,
                      if pr_settlement pr = Unset then Val SettlementPending else pr_settlement pr),
                     ReservationCaptured, pr_id pr)))
        else andThen (settlePayment A PaymentOpVoid cur r1 db1) (\<lambda>(db2, pr).
          Inr (db2, ((ChargeReleased, Val PaymentVoided, Val SettlementNotApplicable),
                     ReservationReleased, '''')))))"

definition finalize_body ::
  "adapter \<Rightarrow> gotime \<Rightarrow> finalize_input \<Rightarrow> cdb \<Rightarrow> finalize_result tx" where
  "finalize_body A now inp db =
     andThen (lockInvocation (fi_tenant inp) (fi_invocation inp) db) (\<lambda>cur.
       if v_phase cur = PhaseFinalized then
         (if Val (v_outcome cur) \<noteq> fi_outcome inp then Inl CePhaseConflict
          else Inr (db, \<lparr>fr_invocation = cur, fr_reservation = reservationOf (v_id cur) db,
                         fr_replayed = True\<rparr>))
       else if IsTerminal (v_phase cur) then Inl CeTerminal
       else if v_phase cur \<noteq> PhaseDispatched \<and> v_phase cur \<noteq> PhaseOutcomeUnknown
       then Inl CePhaseConflict
       else case reservationOf (v_id cur) db of
         None \<Rightarrow> Inl CeReservationMissing
       | Some r \<Rightarrow>
           if s_status r \<noteq> ReservationHeld then Inl CeReservationMissing
           else andThen (settle_charge A (fi_outcome inp) cur r db)
             (\<lambda>(db1, (charge, payment, settlement), st, capture).
             andThen (setReservationStatus now (s_id r) st capture db1) (\<lambda>(db2, updated).
             andThen (applyTransition now (fi_tenant inp)
                 ((edge_input (v_id cur) (v_phase cur) PhaseFinalized (fi_actor inp))
                    \<lparr>ti_note := fi_note inp, ti_outcome := fi_outcome inp,
                     ti_usage := Some (case fi_usage inp of Some n \<Rightarrow> n | None \<Rightarrow> 1),
                     ti_charge := Val charge, ti_payment := payment, ti_settlement := settlement\<rparr>)
                 (if st = ReservationCaptured then captureEntitlementUnit now (v_id cur) db2
                  else releaseEntitlementUnit now (v_id cur) db2)) (\<lambda>(db3, v).
               Inr (db3, \<lparr>fr_invocation = v, fr_reservation = Some updated, fr_replayed = False\<rparr>)))))"

definition finalize_validate :: "finalize_input \<Rightarrow> cm_error option" where
  "finalize_validate inp = first_error
     [checkText (fi_tenant inp) MaxIDBytes True, checkText (fi_invocation inp) MaxIDBytes True,
      checkText (fi_actor inp) MaxIDBytes True, checkText (fi_note inp) MaxReasonBytes False,
      if fi_outcome inp \<noteq> Val OutcomeSucceeded \<and> fi_outcome inp \<noteq> Val OutcomeFailed
        then Some CeInvalid else None,
      case fi_usage inp of Some n \<Rightarrow> if n < 0 then Some CeInvalid else None | None \<Rightarrow> None]"

definition Finalize ::
  "adapter \<Rightarrow> tx_fault \<Rightarrow> gotime \<Rightarrow> finalize_input \<Rightarrow> cdb \<Rightarrow> cdb \<times> (cm_error + finalize_result)" where
  "Finalize A fault now inp db =
     precheck (finalize_validate inp) db (withTx fault db (finalize_body A now inp db))"

section \<open>Release\<close>

record release_input =
  li_tenant :: string
  li_invocation :: string
  li_actor :: string
  li_reason :: string
  li_note :: string

text \<open>Void what was authorized; the payment status the transition stores.\<close>

definition void_hold ::
  "adapter \<Rightarrow> invocation \<Rightarrow> reservation \<Rightarrow> cdb \<Rightarrow> (payment_status field) tx" where
  "void_hold A cur r db =
     (if v_price_mode cur = PriceModeFree then Inr (db, Unset)
      else andThen (resolveAuthorization A cur r db) (\<lambda>(db1, authId, denied, r1).
        if denied then Inr (db1, Val PaymentDenied)
        else andThen (settlePayment A PaymentOpVoid cur r1 db1) (\<lambda>(db2, pr).
          Inr (db2, Val PaymentVoided))))"

definition release_body ::
  "adapter \<Rightarrow> gotime \<Rightarrow> release_input \<Rightarrow> cdb \<Rightarrow> finalize_result tx" where
  "release_body A now inp db =
     andThen (lockInvocation (li_tenant inp) (li_invocation inp) db) (\<lambda>cur.
       if v_phase cur = PhaseReleased then
         Inr (db, \<lparr>fr_invocation = cur, fr_reservation = reservationOf (v_id cur) db, fr_replayed = True\<rparr>)
       else if IsTerminal (v_phase cur) then Inl CeTerminal
       else if v_phase cur \<noteq> PhaseReserved \<and> v_phase cur \<noteq> PhaseDispatching then Inl CePhaseConflict
       else case reservationOf (v_id cur) db of
         None \<Rightarrow> Inl CeReservationMissing
       | Some r \<Rightarrow>
           if s_status r \<noteq> ReservationHeld then Inl CeReservationMissing
           else andThen (void_hold A cur r db) (\<lambda>(db1, payment).
             andThen (setReservationStatus now (s_id r) ReservationReleased '''' db1) (\<lambda>(db2, updated).
             andThen (applyTransition now (li_tenant inp)
                 ((edge_input (v_id cur) (v_phase cur) PhaseReleased (li_actor inp))
                    \<lparr>ti_reason := li_reason inp, ti_note := li_note inp,
                     ti_outcome := Val OutcomeNotDispatched, ti_charge := Val ChargeReleased,
                     ti_payment := payment\<rparr>)
                 (releaseEntitlementUnit now (v_id cur) db2)) (\<lambda>(db3, v).
               Inr (db3, \<lparr>fr_invocation = v, fr_reservation = Some updated, fr_replayed = False\<rparr>)))))"

definition release_validate :: "release_input \<Rightarrow> cm_error option" where
  "release_validate inp = first_error
     [checkText (li_tenant inp) MaxIDBytes True, checkText (li_invocation inp) MaxIDBytes True,
      checkText (li_actor inp) MaxIDBytes True, checkText (li_reason inp) MaxIDBytes True,
      checkText (li_note inp) MaxReasonBytes False]"

definition ReleaseHold ::
  "adapter \<Rightarrow> tx_fault \<Rightarrow> gotime \<Rightarrow> release_input \<Rightarrow> cdb \<Rightarrow> cdb \<times> (cm_error + finalize_result)" where
  "ReleaseHold A fault now inp db =
     precheck (release_validate inp) db (withTx fault db (release_body A now inp db))"

section \<open>The reconciler\<close>

record expire_result =
  er_refused :: "string list"
  er_released :: "string list"
  er_unresolved :: "string list"

text \<open>The tenant and id of the stale rows of a phase, oldest deadline first.\<close>

definition stale ::
  "phase \<Rightarrow> (invocation \<Rightarrow> gotime option) \<Rightarrow> gotime \<Rightarrow> nat \<Rightarrow> cdb \<Rightarrow> (string \<times> string) list" where
  "stale ph deadline now limit db =
     map (\<lambda>v. (id_tenant (v_ids v), v_id v))
       (take limit (sort_key (\<lambda>v. the (deadline v))
         (filter (\<lambda>v. v_phase v = ph \<and> (case deadline v of Some t \<Rightarrow> t < now | None \<Rightarrow> False))
            (cd_invocations db))))"

fun refuse_stale ::
  "(string \<Rightarrow> tx_fault) \<Rightarrow> gotime \<Rightarrow> string \<Rightarrow> (string \<times> string) list \<Rightarrow> cdb \<Rightarrow> string list \<Rightarrow>
     cdb \<times> string list \<times> cm_error option" where
  "refuse_stale fault now actor [] db out = (db, out, None)"
| "refuse_stale fault now actor ((tenant, i) # refs) db out =
     (case Transition (fault i) now tenant
             ((edge_input i PhaseAccepted PhaseRefused actor)
                \<lparr>ti_reason := ReasonQuoteExpired,
                 ti_note := ''reconciler: quote expired with nothing reserved''\<rparr>) db of
        (db', Inr v) \<Rightarrow> refuse_stale fault now actor refs db' (out @ [i])
      | (db', Inl e) \<Rightarrow>
          if e = CePhaseConflict \<or> e = CeTerminal then refuse_stale fault now actor refs db' out
          else (db', out, Some e))"

fun release_stale ::
  "(string \<Rightarrow> adapter) \<Rightarrow> (string \<Rightarrow> tx_fault) \<Rightarrow> gotime \<Rightarrow> string \<Rightarrow> (string \<times> string) list \<Rightarrow> cdb \<Rightarrow>
     string list \<times> string list \<Rightarrow> cdb \<times> (string list \<times> string list) \<times> cm_error option" where
  "release_stale A fault now actor [] db out = (db, out, None)"
| "release_stale A fault now actor ((tenant, i) # refs) db out =
     (case ReleaseHold (A i) (fault i) now
             \<lparr>li_tenant = tenant, li_invocation = i, li_actor = actor,
              li_reason = ReasonReservationExpired,
              li_note = ''reconciler: reservation deadline passed with no dispatch intent''\<rparr> db of
        (db', Inr v) \<Rightarrow> release_stale A fault now actor refs db' (fst out @ [i], snd out)
      | (db', Inl e) \<Rightarrow>
          if e = CePhaseConflict \<or> e = CeTerminal then release_stale A fault now actor refs db' out
          else if e = CePaymentUnknown \<or> e = CePaymentDenied
          then release_stale A fault now actor refs db' (fst out, snd out @ [i])
          else (db', out, Some e))"

definition ExpireStale ::
  "(string \<Rightarrow> adapter) \<Rightarrow> (string \<Rightarrow> tx_fault) \<Rightarrow> gotime \<Rightarrow> string \<Rightarrow> int \<Rightarrow> cdb \<Rightarrow>
     cdb \<times> expire_result option \<times> cm_error option" where
  "ExpireStale A fault now actor limit db =
     (case checkText actor MaxIDBytes True of
        Some e \<Rightarrow> (db, None, Some e)
      | None \<Rightarrow>
          (case refuse_stale fault now actor
                  (stale PhaseAccepted (\<lambda>v. Some (v_quote_expires_at v)) now (page_limit limit) db) db [] of
             (db1, refused, Some e) \<Rightarrow>
               (db1, Some \<lparr>er_refused = refused, er_released = [], er_unresolved = []\<rparr>, Some e)
           | (db1, refused, None) \<Rightarrow>
               (case release_stale A fault now actor
                       (stale PhaseReserved v_reservation_deadline now (page_limit limit) db1) db1 ([], []) of
                  (db2, (released, unresolved), err) \<Rightarrow>
                    (db2, Some \<lparr>er_refused = refused, er_released = released,
                                er_unresolved = unresolved\<rparr>, err))))"

end
