(* ===== verification/Commerce_Dispatch.thy ===== *)
theory Commerce_Dispatch
  imports Commerce_Budget
begin

text \<open>
  The dispatch fence, \<open>internal/commerce/dispatch.go\<close>, the receipt of \<open>receipt.go\<close> and the
  transition endpoint of \<open>internal/api/handlers_commerce.go\<close>, which refuses the edges another
  endpoint owns.  Ed25519 is the argument \<open>sign\<close>: the encoded signature of a message.
\<close>

section \<open>Authorizations\<close>

definition DefaultDispatchWindow :: duration where
  "DefaultDispatchWindow = 60 * second"

record signer =
  sg_key_id :: string
  sg_sign :: "string \<Rightarrow> string"

record authorization =
  au_key_id :: string
  au_invocation :: string
  au_operation_key :: string
  au_provider :: string
  au_capability :: string
  au_schema_hash :: string
  au_args_digest :: string
  au_tenant :: string
  au_deadline :: string
  au_signature :: string

definition authorization_fields :: "authorization \<Rightarrow> (string \<times> string) list" where
  "authorization_fields a =
     [(''key_id'', au_key_id a), (''invocation_id'', au_invocation a),
      (''provider_operation_key'', au_operation_key a), (''provider_id'', au_provider a),
      (''capability_id'', au_capability a), (''input_schema_hash'', au_schema_hash a),
      (''args_digest'', au_args_digest a), (''tenant_id'', au_tenant a),
      (''dispatch_deadline'', au_deadline a)]"

definition SigningMessage :: "authorization \<Rightarrow> string" where
  "SigningMessage a = lengthPrefixed ''mctl-commerce-dispatch/v1'' (authorization_fields a)"

definition sign_authorization :: "signer \<Rightarrow> authorization \<Rightarrow> authorization" where
  "sign_authorization sg a =
     (let a = a\<lparr>au_key_id := sg_key_id sg\<rparr> in a\<lparr>au_signature := sg_sign sg (SigningMessage a)\<rparr>)"

definition authorizationFor :: "signer \<Rightarrow> invocation \<Rightarrow> gotime \<Rightarrow> string \<Rightarrow> authorization" where
  "authorizationFor sg v deadline schema =
     sign_authorization sg
       \<lparr>au_key_id = '''', au_invocation = v_id v, au_operation_key = ProviderOperationKey (v_id v),
        au_provider = v_provider_id v, au_capability = v_capability_id v, au_schema_hash = schema,
        au_args_digest = v_args_digest v, au_tenant = id_tenant (v_ids v),
        au_deadline = HashedTime deadline, au_signature = ''''\<rparr>"

section \<open>Dispatch\<close>

record dispatch_input =
  di_tenant :: string
  di_invocation :: string
  di_actor :: string
  di_note :: string

record dispatch_result =
  dr_invocation :: invocation
  dr_authorization :: authorization
  dr_replayed :: bool

definition dispatch_first ::
  "signer \<Rightarrow> gotime \<Rightarrow> dispatch_input \<Rightarrow> invocation \<Rightarrow> string \<Rightarrow> cdb \<Rightarrow> dispatch_result tx" where
  "dispatch_first sg now inp cur schema db =
     (if (case v_reservation_deadline cur of Some t \<Rightarrow> t \<le> now | None \<Rightarrow> False)
      then Inl CePhaseConflict
      else andThen (applyTransition now (di_tenant inp)
             ((edge_input (di_invocation inp) PhaseReserved PhaseDispatching (di_actor inp))
                \<lparr>ti_note := di_note inp\<rparr>) db) (\<lambda>(db1, moved).
        let deadline = (now + DefaultDispatchWindow) - (now + DefaultDispatchWindow) mod second
        in case tupdate v_id (v_id moved)
                (\<lambda>v. id_tenant (v_ids v) = di_tenant inp \<and> v_dispatch_deadline v = None)
                (\<lambda>v. v\<lparr>v_dispatch_deadline := Some deadline\<rparr>) (cd_invocations db1) of
             (rows, None) \<Rightarrow> Inl CePhaseConflict
           | (rows, Some stored) \<Rightarrow>
               Inr (db1\<lparr>cd_invocations := rows\<rparr>,
                    \<lparr>dr_invocation = stored, dr_authorization = authorizationFor sg stored deadline schema,
                     dr_replayed = False\<rparr>)))"

definition dispatch_body :: "signer \<Rightarrow> gotime \<Rightarrow> dispatch_input \<Rightarrow> cdb \<Rightarrow> dispatch_result tx" where
  "dispatch_body sg now inp db =
     andThen (lockInvocation (di_tenant inp) (di_invocation inp) db) (\<lambda>cur.
       case tselect q_id (cd_quotes db) (v_quote_id cur) of
         None \<Rightarrow> Inl (CePlain ''commerce: load quote'')
       | Some q \<Rightarrow>
           if v_phase cur = PhaseDispatching then
             (case v_dispatch_deadline cur of
                None \<Rightarrow> Inl CePhaseConflict
              | Some deadline \<Rightarrow>
                  Inr (db, \<lparr>dr_invocation = cur,
                            dr_authorization = authorizationFor sg cur deadline (q_schema_hash q),
                            dr_replayed = True\<rparr>))
           else if v_phase cur \<noteq> PhaseReserved then Inl CePhaseConflict
           else dispatch_first sg now inp cur (q_schema_hash q) db)"

text \<open>\<open>None\<close> is a store with no signer installed.\<close>

definition Dispatch ::
  "signer option \<Rightarrow> tx_fault \<Rightarrow> gotime \<Rightarrow> dispatch_input \<Rightarrow> cdb \<Rightarrow> cdb \<times> (cm_error + dispatch_result)" where
  "Dispatch sg fault now inp db =
     (case sg of
        None \<Rightarrow> (db, Inl CeDispatchUnavailable)
      | Some sg \<Rightarrow>
          precheck (first_error
            [checkText (di_tenant inp) MaxIDBytes True, checkText (di_invocation inp) MaxIDBytes True,
             checkText (di_actor inp) MaxIDBytes True, checkText (di_note inp) MaxReasonBytes False]) db
            (withTx fault db (dispatch_body sg now inp db)))"

section \<open>The transition endpoint\<close>

definition ownedEdges :: "phase list" where
  "ownedEdges = [PhaseReserved, PhaseDispatching, PhaseReleased, PhaseFinalized]"

definition TransitionCommerceInvocation ::
  "tx_fault \<Rightarrow> gotime \<Rightarrow> string \<Rightarrow> transition_input \<Rightarrow> cdb \<Rightarrow> cdb \<times> (cm_error + invocation)" where
  "TransitionCommerceInvocation fault now tenant inp db =
     (if (case ti_to inp of Val p \<Rightarrow> p \<in> set ownedEdges | _ \<Rightarrow> False)
      then (db, Inl CeInvalid)
      else Transition fault now tenant inp db)"

section \<open>Receipts\<close>

datatype policy_status = PolicyNone | PolicyRecorded | PolicyMissing | PolicyUnavailable

record policy_decision_ref =
  pd_status :: policy_status
  pd_approval :: string
  pd_rule :: string
  pd_version :: string

record receipt =
  rc_invocation_id :: string
  rc_quote_id :: string
  rc_quote_digest :: string
  rc_terms_id :: string
  rc_terms_version :: int
  rc_capability_id :: string
  rc_provider_id :: string
  rc_ids :: identities
  rc_approval_id :: string
  rc_price_mode :: price_mode
  rc_price :: money
  rc_funds_mode :: funds_mode
  rc_phase :: phase
  rc_reason :: string
  rc_outcome :: exec_outcome
  rc_usage :: "int option"
  rc_charge :: charge_status
  rc_payment :: payment_status
  rc_settlement :: settlement_status
  rc_quote_expires_at :: gotime
  rc_created_at :: gotime
  rc_updated_at :: gotime
  rc_reconciliation_deadline :: gotime
  rc_reservation_deadline :: "gotime option"
  rc_dispatch_deadline :: "gotime option"
  rc_finalized_at :: "gotime option"
  rc_policy :: policy_decision_ref

definition ReceiptOf :: "invocation \<Rightarrow> policy_decision_ref \<Rightarrow> receipt" where
  "ReceiptOf v policy =
     \<lparr>rc_invocation_id = v_id v, rc_quote_id = v_quote_id v, rc_quote_digest = v_quote_digest v,
      rc_terms_id = v_terms_id v, rc_terms_version = v_terms_version v,
      rc_capability_id = v_capability_id v, rc_provider_id = v_provider_id v, rc_ids = v_ids v,
      rc_approval_id = v_approval_id v, rc_price_mode = v_price_mode v, rc_price = v_price v,
      rc_funds_mode = v_funds_mode v, rc_phase = v_phase v, rc_reason = v_reason v,
      rc_outcome = v_outcome v, rc_usage = v_usage v, rc_charge = v_charge v,
      rc_payment = v_payment v, rc_settlement = v_settlement v,
      rc_quote_expires_at = v_quote_expires_at v, rc_created_at = v_created_at v,
      rc_updated_at = v_updated_at v, rc_reconciliation_deadline = v_reconciliation_deadline v,
      rc_reservation_deadline = v_reservation_deadline v,
      rc_dispatch_deadline = v_dispatch_deadline v, rc_finalized_at = v_finalized_at v,
      rc_policy = policy\<rparr>"

end
