(* ===== verification/Commerce_Step.thy ===== *)
theory Commerce_Step
  imports Commerce_Dispatch
begin

text \<open>
  What the ledger promises about holds, as a step relation: \<open>hold_step\<close> lists what one
  operation may do to the invocations, the reservations and the limits.  An invocation is
  opened, refused, held, moved while it is held, or settled, and only a hold and its
  settlement touch a reservation.  The invariants of the ledger are proved over this
  relation; that the operations implement it is the refinement in \<open>Commerce_Refine\<close>.
\<close>

section \<open>Phases\<close>

definition live_phase :: "phase \<Rightarrow> bool" where
  "live_phase p \<longleftrightarrow> p \<in> {PhaseReserved, PhaseDispatching, PhaseDispatched, PhaseOutcomeUnknown}"

lemma phase_cases:
  "p = PhaseAccepted \<or> p = PhaseRefused \<or> live_phase p \<or> p = PhaseReleased \<or> p = PhaseFinalized"
  by (cases p) (auto simp: live_phase_def)

lemma live_phase_simps [simp]:
  "live_phase PhaseReserved" "live_phase PhaseDispatching" "live_phase PhaseDispatched"
  "live_phase PhaseOutcomeUnknown" "\<not> live_phase PhaseAccepted" "\<not> live_phase PhaseRefused"
  "\<not> live_phase PhaseReleased" "\<not> live_phase PhaseFinalized"
  by (simp_all add: live_phase_def)

lemma live_not_terminal: "live_phase p \<Longrightarrow> \<not> IsTerminal p"
  by (auto simp: live_phase_def IsTerminal_def)

text \<open>What of an invocation never changes.\<close>

definition same_terms :: "invocation \<Rightarrow> invocation \<Rightarrow> bool" where
  "same_terms v w \<longleftrightarrow> v_id w = v_id v \<and> v_ids w = v_ids v \<and> v_price w = v_price v \<and>
     v_price_mode w = v_price_mode v \<and> v_funds_mode w = v_funds_mode v \<and>
     v_quote_id w = v_quote_id v \<and> v_quote_digest w = v_quote_digest v \<and>
     v_idempotency_key w = v_idempotency_key v \<and> v_approval_id w = v_approval_id v \<and>
     v_created_at w = v_created_at v"

lemma same_terms_refl [simp]: "same_terms v v"
  by (simp add: same_terms_def)

lemma same_terms_id: "same_terms v w \<Longrightarrow> v_id w = v_id v"
  by (simp add: same_terms_def)

section \<open>Sums over a table\<close>

abbreviation isel :: "cdb \<Rightarrow> string \<Rightarrow> invocation option" where
  "isel db i \<equiv> tselect v_id (cd_invocations db) i"

abbreviation rsel :: "cdb \<Rightarrow> string \<Rightarrow> reservation option" where
  "rsel db i \<equiv> tselect s_invocation (cd_reservations db) i"

text \<open>What an account has committed or holds in a period, and the highest limit it ever had.\<close>

definition spent :: "string \<times> string \<Rightarrow> string \<Rightarrow> reservation list \<Rightarrow> int" where
  "spent acct p rows = sum_list (map (\<lambda>r. if account_of r = acct \<and> s_period r = p \<and>
     s_status r \<noteq> ReservationReleased then s_amount r else 0) rows)"

definition max_limit :: "string \<times> string \<Rightarrow> budget_change list \<Rightarrow> int" where
  "max_limit acct cs = fold (\<lambda>c m. if (bc_tenant c, bc_payer c) = acct
     then max (bc_new_monthly_limit c) m else m) cs 0"

lemma max_limit_append:
  "max_limit acct (cs @ [c]) = (if (bc_tenant c, bc_payer c) = acct
     then max (bc_new_monthly_limit c) (max_limit acct cs) else max_limit acct cs)"
  by (simp add: max_limit_def)

section \<open>One operation on holds\<close>

text \<open>Two invocations bought with one quote, one idempotency key or one approval.\<close>

definition same_intent :: "invocation \<Rightarrow> invocation \<Rightarrow> bool" where
  "same_intent v w \<longleftrightarrow> v_quote_id v = v_quote_id w \<or> idem_scope v = idem_scope w \<or>
     (id_tenant (v_ids v) = id_tenant (v_ids w) \<and> v_approval_id v = v_approval_id w \<and> v_approval_id v \<noteq> '''')"

text \<open>The row a settlement leaves: which status fits the facts of its invocation.\<close>

definition status_fits :: "reservation_status \<Rightarrow> invocation \<Rightarrow> bool" where
  "status_fits st v \<longleftrightarrow>
     (case st of
        ReservationHeld \<Rightarrow> live_phase (v_phase v)
      | ReservationCaptured \<Rightarrow> v_phase v = PhaseFinalized \<and> v_charge v = ChargeCaptured
      | ReservationReleased \<Rightarrow> v_charge v = ChargeReleased \<and>
          (v_phase v = PhaseReleased \<or> v_phase v = PhaseFinalized))"

definition describes :: "reservation \<Rightarrow> invocation \<Rightarrow> bool" where
  "describes r v \<longleftrightarrow> s_invocation r = v_id v \<and> account_of r = (id_tenant (v_ids v), id_payer (v_ids v)) \<and>
     s_currency r = m_currency (v_price v) \<and> s_amount r = m_amount (v_price v)"

definition same_hold :: "reservation \<Rightarrow> reservation \<Rightarrow> bool" where
  "same_hold r r' \<longleftrightarrow> s_id r' = s_id r \<and> s_invocation r' = s_invocation r \<and> account_of r' = account_of r \<and>
     s_period r' = s_period r \<and> s_currency r' = s_currency r \<and> s_amount r' = s_amount r"

text \<open>The parts of a ledger the relation speaks of.\<close>

definition holds_of :: "cdb \<Rightarrow> invocation list \<times> reservation list \<times> budget list \<times> budget_change list" where
  "holds_of db = (cd_invocations db, cd_reservations db, cd_budgets db, cd_changes db)"

inductive hold_step ::
  "invocation list \<times> reservation list \<times> budget list \<times> budget_change list \<Rightarrow>
   invocation list \<times> reservation list \<times> budget list \<times> budget_change list \<Rightarrow> bool" where
  hs_stay: "hold_step x x"
| hs_accept: "tselect v_id vs (v_id v) = None \<Longrightarrow> v_phase v = PhaseAccepted \<Longrightarrow> v_charge v = ChargeNone \<Longrightarrow>
     0 \<le> m_amount (v_price v) \<Longrightarrow> (\<And>w. w \<in> set vs \<Longrightarrow> \<not> same_intent v w) \<Longrightarrow>
     hold_step (vs, rs, bs, cs) (vs @ [v], rs, bs, cs)"
| hs_refuse: "tselect v_id vs (v_id v) = Some v \<Longrightarrow> same_terms v v' \<Longrightarrow> v_phase v = PhaseAccepted \<Longrightarrow>
     v_phase v' = PhaseRefused \<Longrightarrow> v_charge v' = ChargeNone \<Longrightarrow>
     hold_step (vs, rs, bs, cs) (tput v_id vs v', rs, bs, cs)"
| hs_move: "tselect v_id vs (v_id v) = Some v \<Longrightarrow> same_terms v v' \<Longrightarrow>
     live_phase (v_phase v) \<Longrightarrow> live_phase (v_phase v') \<Longrightarrow>
     v_phase v' = v_phase v \<or> v_phase v' \<in> set (allowedTransitions (v_phase v)) \<Longrightarrow>
     hold_step (vs, rs, bs, cs) (tput v_id vs v', rs, bs, cs)"
| hs_authorized: "tselect v_id vs (v_id v) = Some v \<Longrightarrow> same_terms v v' \<Longrightarrow>
     v_phase v = PhaseReserved \<Longrightarrow> v_phase v' = PhaseReserved \<Longrightarrow>
     tselect s_invocation rs (v_id v) = Some r \<Longrightarrow> s_status r = ReservationHeld \<Longrightarrow>
     same_hold r r' \<Longrightarrow> s_status r' = ReservationHeld \<Longrightarrow>
     hold_step (vs, rs, bs, cs) (tput v_id vs v', tput s_id rs r', bs, cs)"
| hs_hold: "tselect v_id vs (v_id v) = Some v \<Longrightarrow> same_terms v v' \<Longrightarrow> v_phase v = PhaseAccepted \<Longrightarrow>
     v_phase v' = PhaseReserved \<Longrightarrow> describes r v \<Longrightarrow> s_status r = ReservationHeld \<Longrightarrow>
     s_id r \<notin> s_id ` set rs \<Longrightarrow> tselect s_invocation rs (v_id v) = None \<Longrightarrow>
     tselect budget_key bs (account_of r) = Some b \<Longrightarrow> s_currency r = b_currency b \<Longrightarrow>
     s_amount r \<le> b_per_request_max b \<Longrightarrow>
     s_amount r \<le> max (b_monthly_limit b - spent (account_of r) (s_period r) rs) 0 \<Longrightarrow>
     hold_step (vs, rs, bs, cs) (tput v_id vs v', rs @ [r], bs, cs)"
| hs_settle: "tselect v_id vs (v_id v) = Some v \<Longrightarrow> same_terms v v' \<Longrightarrow> live_phase (v_phase v) \<Longrightarrow>
     v_phase v' \<in> set (allowedTransitions (v_phase v)) \<Longrightarrow> IsTerminal (v_phase v') \<Longrightarrow>
     tselect s_invocation rs (v_id v) = Some r \<Longrightarrow> s_status r = ReservationHeld \<Longrightarrow> same_hold r r' \<Longrightarrow>
     status_fits (s_status r') v' \<Longrightarrow>
     hold_step (vs, rs, bs, cs) (tput v_id vs v', tput s_id rs r', bs, cs)"
| hs_budget: "tselect budget_key bs (budget_key b) = prior \<Longrightarrow>
     (\<And>p. prior = Some p \<Longrightarrow> b_currency p \<noteq> b_currency b \<Longrightarrow>
        \<forall>r \<in> set rs. account_of r \<noteq> budget_key b) \<Longrightarrow>
     (bc_tenant c, bc_payer c) = budget_key b \<Longrightarrow> bc_new_monthly_limit c = b_monthly_limit b \<Longrightarrow>
     hold_step (vs, rs, bs, cs) (vs, rs, tput budget_key bs b, cs @ [c])"

section \<open>The invariant\<close>

definition fits :: "reservation \<Rightarrow> invocation \<Rightarrow> bool" where
  "fits r v \<longleftrightarrow> describes r v \<and> status_fits (s_status r) v"

definition has_hold :: "invocation \<Rightarrow> bool" where
  "has_hold v \<longleftrightarrow> v_phase v \<noteq> PhaseAccepted \<and> v_phase v \<noteq> PhaseRefused"

text \<open>
  Reservations are unique per id and per invocation, each describes its invocation with the
  status its phase asks for, an invocation has one exactly when it was ever reserved, the
  reservations of an account are in the currency of its budget, and what a period has
  committed or holds is within the highest limit the account ever had.
\<close>

definition keys_ok :: "invocation list \<Rightarrow> reservation list \<Rightarrow> budget list \<Rightarrow> bool" where
  "keys_ok vs rs bs \<longleftrightarrow> unique_key v_id vs \<and> unique_key s_id rs \<and> unique_key s_invocation rs \<and>
     unique_key budget_key bs"

definition prices_ok :: "invocation list \<Rightarrow> bool" where
  "prices_ok vs \<longleftrightarrow> (\<forall>i v. tselect v_id vs i = Some v \<longrightarrow> 0 \<le> m_amount (v_price v))"

definition hold_ok :: "reservation option \<Rightarrow> invocation \<Rightarrow> bool" where
  "hold_ok ro v \<longleftrightarrow>
     (if has_hold v then \<exists>r. ro = Some r \<and> fits r v else v_charge v = ChargeNone \<and> ro = None)"

definition holds_match :: "invocation list \<Rightarrow> reservation list \<Rightarrow> bool" where
  "holds_match vs rs \<longleftrightarrow>
     (\<forall>i v. tselect v_id vs i = Some v \<longrightarrow> hold_ok (tselect s_invocation rs i) v) \<and>
     (\<forall>i. tselect s_invocation rs i \<noteq> None \<longrightarrow> tselect v_id vs i \<noteq> None)"

definition currencies_ok :: "reservation list \<Rightarrow> budget list \<Rightarrow> bool" where
  "currencies_ok rs bs \<longleftrightarrow> (\<forall>i r. tselect s_invocation rs i = Some r \<longrightarrow>
     (\<exists>b. tselect budget_key bs (account_of r) = Some b \<and> s_currency r = b_currency b))"

definition caps_ok :: "reservation list \<Rightarrow> budget list \<Rightarrow> budget_change list \<Rightarrow> bool" where
  "caps_ok rs bs cs \<longleftrightarrow>
     (\<forall>k b. tselect budget_key bs k = Some b \<longrightarrow> b_monthly_limit b \<le> max_limit k cs) \<and>
     (\<forall>acct p. spent acct p rs \<le> max_limit acct cs)"

fun ledger_ok ::
  "invocation list \<times> reservation list \<times> budget list \<times> budget_change list \<Rightarrow> bool" where
  "ledger_ok (vs, rs, bs, cs) \<longleftrightarrow>
     keys_ok vs rs bs \<and> prices_ok vs \<and> holds_match vs rs \<and> currencies_ok rs bs \<and> caps_ok rs bs cs"

section \<open>Preservation\<close>

lemma tput_other_key:
  assumes "unique_key s_id rs" and "unique_key s_invocation rs" and "r \<in> set rs" and "same_hold r r'"
  shows "tput s_id rs r' = tput s_invocation rs r'"
  by (rule tput_two_keys [OF assms(1-3)]) (use assms(4) in \<open>simp_all add: same_hold_def\<close>)

lemma set_tput_key: "unique_key key rows \<Longrightarrow> tselect key rows (key r) \<noteq> None \<Longrightarrow>
    set (tput key rows r) = insert r {x \<in> set rows. key x \<noteq> key r}"
  by (auto simp: tput_def tselect_None_iff image_iff)

lemma hold_of_row:
  "holds_match vs rs \<Longrightarrow> tselect v_id vs i = Some v \<Longrightarrow> hold_ok (tselect s_invocation rs i) v"
  by (auto simp: holds_match_def)

lemma sel_id: "tselect v_id vs i = Some v \<Longrightarrow> v_id v = i"
  "tselect s_invocation rs i = Some r \<Longrightarrow> s_invocation r = i"
  by (auto dest: tselect_SomeD)

text \<open>The shapes of a change: a row opened, a row moved, a row moved with its hold, a hold made.\<close>

lemma match_open:
  assumes "holds_match vs rs" and "tselect v_id vs (v_id v) = None" and "\<not> has_hold v" and "v_charge v = ChargeNone"
  shows "holds_match (vs @ [v]) rs"
proof -
  have "tselect s_invocation rs (v_id v) = None"
    using assms(1,2) unfolding holds_match_def by blast
  then show ?thesis
    using assms by (auto simp: holds_match_def tsel_new hold_ok_def)
qed

lemma match_move:
  assumes "holds_match vs rs" and "tselect v_id vs (v_id v) = Some v" and "v_id v' = v_id v"
    and "hold_ok (tselect s_invocation rs (v_id v)) v'"
  shows "holds_match (tput v_id vs v') rs"
  using assms by (auto simp: holds_match_def tselect_tput)

lemma match_settle:
  assumes "holds_match vs rs" and "tselect v_id vs (v_id v) = Some v" and "v_id v' = v_id v"
    and "s_invocation r' = v_id v" and "hold_ok (Some r') v'"
  shows "holds_match (tput v_id vs v') (tput s_invocation rs r')"
  using assms by (auto simp: holds_match_def tselect_tput)

lemma match_hold:
  assumes "holds_match vs rs" and "tselect v_id vs (v_id v) = Some v" and "v_id v' = v_id v"
    and "s_invocation r = v_id v" and "hold_ok (Some r) v'" and "tselect s_invocation rs (v_id v) = None"
  shows "holds_match (tput v_id vs v') (rs @ [r])"
  using assms by (auto simp: holds_match_def tselect_tput tsel_new)

lemma keys_settle:
  assumes "keys_ok vs rs bs"
  shows "keys_ok (tput v_id vs v') rs bs"
  using assms by (simp add: keys_ok_def unique_tput)

lemma keys_hold_put:
  assumes "keys_ok vs rs bs" and "tselect s_invocation rs i = Some r" and "same_hold r r'"
  shows "keys_ok vs (tput s_id rs r') bs" "tput s_id rs r' = tput s_invocation rs r'"
proof -
  show eq: "tput s_id rs r' = tput s_invocation rs r'"
    using assms tselect_SomeD [OF assms(2)] by (intro tput_other_key) (auto simp: keys_ok_def)
  have "unique_key s_id (tput s_id rs r')" "unique_key s_invocation (tput s_invocation rs r')"
    using assms(1) by (simp_all add: keys_ok_def unique_tput)
  with assms(1) eq show "keys_ok vs (tput s_id rs r') bs" by (simp add: keys_ok_def)
qed

lemma prices_put:
  assumes "prices_ok vs" and "tselect v_id vs (v_id v) = Some v" and "same_terms v v'"
  shows "prices_ok (tput v_id vs v')"
  using assms by (auto simp: prices_ok_def tselect_tput same_terms_def)

lemma spent_append: "spent acct p (rs @ [r]) = spent acct p rs +
    (if account_of r = acct \<and> s_period r = p \<and> s_status r \<noteq> ReservationReleased then s_amount r else 0)"
  by (simp add: spent_def)

lemma spent_settle:
  assumes "unique_key s_invocation rs" and "tselect s_invocation rs (s_invocation r) = Some r"
    and "same_hold r r'" and "s_status r = ReservationHeld" and "0 \<le> s_amount r"
  shows "spent acct p (tput s_invocation rs r') \<le> spent acct p rs"
proof -
  have "tselect s_invocation rs (s_invocation r') = Some r"
    using assms(2,3) by (simp add: same_hold_def)
  from sum_list_tput [OF assms(1) this] assms(3-5) show ?thesis
    by (auto simp: spent_def same_hold_def)
qed

lemma currencies_put:
  assumes "currencies_ok rs bs" and "tselect s_invocation rs (s_invocation r) = Some r" and "same_hold r r'"
  shows "currencies_ok (tput s_invocation rs r') bs"
proof -
  from assms have "\<exists>b. tselect budget_key bs (account_of r') = Some b \<and> s_currency r' = b_currency b"
    unfolding currencies_ok_def same_hold_def by metis
  with assms(1) show ?thesis
    unfolding currencies_ok_def tselect_tput by (metis option.inject)
qed

lemma caps_put:
  assumes "caps_ok rs bs cs" and "\<And>acct p. spent acct p rs' \<le> spent acct p rs"
  shows "caps_ok rs' bs cs"
  using assms unfolding caps_ok_def by (meson order_trans)

lemma held_amount:
  assumes "prices_ok vs" and "holds_match vs rs" and "tselect s_invocation rs i = Some r"
  shows "0 \<le> s_amount r"
proof -
  from assms(2,3) obtain v where v: "tselect v_id vs i = Some v"
    unfolding holds_match_def by (metis not_None_eq)
  from hold_of_row [OF assms(2) v] assms(3) have "describes r v"
    by (auto simp: hold_ok_def fits_def split: if_splits)
  with assms(1) v show ?thesis by (auto simp: describes_def prices_ok_def)
qed

text \<open>Settling a hold: the reservation and the invocation move together.\<close>

lemma ledger_ok_settle:
  assumes ok: "ledger_ok (vs, rs, bs, cs)" and v: "tselect v_id vs (v_id v) = Some v" "same_terms v v'"
    and r: "tselect s_invocation rs (v_id v) = Some r" "s_status r = ReservationHeld" "same_hold r r'"
    and fit: "has_hold v'" "status_fits (s_status r') v'"
  shows "ledger_ok (tput v_id vs v', tput s_id rs r', bs, cs)"
proof -
  from ok have k: "keys_ok vs rs bs" and pr: "prices_ok vs" and m: "holds_match vs rs"
      and cu: "currencies_ok rs bs" and ca: "caps_ok rs bs cs" by simp_all
  note eq = keys_hold_put [OF k r(1,3)]
  have i: "s_invocation r = v_id v" using sel_id(2) [OF r(1)] .
  have live: "fits r v"
    using hold_of_row [OF m v(1)] r(1) by (auto simp: hold_ok_def split: if_splits)
  have "describes r' v'"
    using live v(2) r(3) by (auto simp: fits_def describes_def same_terms_def same_hold_def)
  with fit have h: "hold_ok (Some r') v'" by (simp add: hold_ok_def fits_def)
  have "0 \<le> s_amount r" using held_amount [OF pr m r(1)] .
  then have sp: "spent acct p (tput s_invocation rs r') \<le> spent acct p rs" for acct p
    using k r i by (intro spent_settle) (auto simp: keys_ok_def)
  show ?thesis
    using keys_settle [OF eq(1)] prices_put [OF pr v] match_settle [OF m v(1) _ _ h]
      currencies_put [OF cu _ r(3)] caps_put [OF ca sp] v(2) r i eq(2)
    by (simp add: same_terms_def same_hold_def)
qed

lemma ledger_ok_move:
  assumes ok: "ledger_ok (vs, rs, bs, cs)" and v: "tselect v_id vs (v_id v) = Some v" "same_terms v v'"
    and h: "hold_ok (tselect s_invocation rs (v_id v)) v'"
  shows "ledger_ok (tput v_id vs v', rs, bs, cs)"
  using ok keys_settle [of vs rs bs v'] prices_put [OF _ v] match_move [OF _ v(1) _ h] v(2)
  by (simp add: same_terms_def)

lemma ledger_ok_hold:
  assumes ok: "ledger_ok (vs, rs, bs, cs)" and v: "tselect v_id vs (v_id v) = Some v" "same_terms v v'"
    and h: "v_phase v' = PhaseReserved" "describes r v" "s_status r = ReservationHeld"
    and fresh: "s_id r \<notin> s_id ` set rs" "tselect s_invocation rs (v_id v) = None"
    and b: "tselect budget_key bs (account_of r) = Some b" "s_currency r = b_currency b"
    and cap: "s_amount r \<le> max (b_monthly_limit b - spent (account_of r) (s_period r) rs) 0"
  shows "ledger_ok (tput v_id vs v', rs @ [r], bs, cs)"
proof -
  from ok have k: "keys_ok vs rs bs" and pr: "prices_ok vs" and m: "holds_match vs rs"
      and cu: "currencies_ok rs bs" and ca: "caps_ok rs bs cs" by simp_all
  have i: "s_invocation r = v_id v" using h(2) by (simp add: describes_def)
  have "keys_ok vs (rs @ [r]) bs"
    using k fresh i by (auto simp: keys_ok_def unique_key_def tselect_None_iff)
  moreover have "hold_ok (Some r) v'"
    using h v(2) by (simp add: hold_ok_def has_hold_def fits_def describes_def same_terms_def status_fits_def)
  moreover have "currencies_ok (rs @ [r]) bs"
    using cu b by (auto simp: currencies_ok_def tsel_new split: if_splits)
  moreover have "caps_ok (rs @ [r]) bs cs"
  proof -
    have lim: "b_monthly_limit b \<le> max_limit (account_of r) cs" "spent acct p rs \<le> max_limit acct cs" for acct p
      using ca b(1) unfolding caps_ok_def by blast+
    have "spent acct p (rs @ [r]) \<le> max_limit acct cs" for acct p
      using cap lim(1) lim(2) [of acct p] by (auto simp: spent_append max_def split: if_splits)
    with ca show ?thesis by (simp add: caps_ok_def)
  qed
  ultimately show ?thesis
    using keys_settle [of vs "rs @ [r]" bs v'] prices_put [OF pr v] match_hold [OF m v(1) _ i _ fresh(2), of v'] v(2)
    by (simp add: same_terms_def)
qed

lemma ledger_ok_budget:
  assumes ok: "ledger_ok (vs, rs, bs, cs)" and prior: "tselect budget_key bs (budget_key b) = prior"
    and fixed: "\<And>p. prior = Some p \<Longrightarrow> b_currency p \<noteq> b_currency b \<Longrightarrow> \<forall>r \<in> set rs. account_of r \<noteq> budget_key b"
    and c: "(bc_tenant c, bc_payer c) = budget_key b" "bc_new_monthly_limit c = b_monthly_limit b"
  shows "ledger_ok (vs, rs, tput budget_key bs b, cs @ [c])"
proof -
  from ok have k: "keys_ok vs rs bs" and cu: "currencies_ok rs bs" and ca: "caps_ok rs bs cs" by simp_all
  have "keys_ok vs rs (tput budget_key bs b)"
    using k unique_tput [of budget_key bs b] by (simp add: keys_ok_def)
  moreover have "currencies_ok rs (tput budget_key bs b)"
    unfolding currencies_ok_def
  proof (intro allI impI)
    fix i r
    assume r: "tselect s_invocation rs i = Some r"
    then obtain p where p: "tselect budget_key bs (account_of r) = Some p" "s_currency r = b_currency p"
      using cu unfolding currencies_ok_def by blast
    show "\<exists>b'. tselect budget_key (tput budget_key bs b) (account_of r) = Some b' \<and> s_currency r = b_currency b'"
    proof (cases "account_of r = budget_key b")
      case True
      with fixed [of p] prior p tselect_SomeD [OF r] have "b_currency p = b_currency b" by force
      with p(2) show ?thesis unfolding tselect_tput using True by simp
    next
      case False
      then have "tselect budget_key (tput budget_key bs b) (account_of r) = Some p"
        unfolding tselect_tput p(1) by (simp only: if_False)
      with p(2) show ?thesis by blast
    qed
  qed
  moreover have "caps_ok rs (tput budget_key bs b) (cs @ [c])"
  proof -
    have up: "max_limit acct cs \<le> max_limit acct (cs @ [c])" for acct
      by (simp add: max_limit_append)
    have "b_monthly_limit b \<le> max_limit (budget_key b) (cs @ [c])"
      using c by (simp add: max_limit_append)
    moreover have "b_monthly_limit b' \<le> max_limit k (cs @ [c])"
      if "tselect budget_key bs k = Some b'" for k b'
      using that ca up [of k] unfolding caps_ok_def by (meson order_trans)
    ultimately have "b_monthly_limit b' \<le> max_limit k (cs @ [c])"
      if "tselect budget_key (tput budget_key bs b) k = Some b'" for k b'
      using that unfolding tselect_tput by (cases "k = budget_key b") (simp_all only: if_True if_False option.inject simp_thms)
    moreover have "spent acct p rs \<le> max_limit acct (cs @ [c])" for acct p
      using ca up [of acct] unfolding caps_ok_def by (meson order_trans)
    ultimately show ?thesis unfolding caps_ok_def by blast
  qed
  ultimately show ?thesis using ok by simp
qed

lemma hold_step_ledger_ok: "hold_step x y \<Longrightarrow> ledger_ok x \<Longrightarrow> ledger_ok y"
proof (induction rule: hold_step.induct)
  case (hs_stay x)
  then show ?case .
next
  case (hs_accept vs v rs bs cs)
  then show ?case
    using unique_new [of v_id vs v] match_open [of vs rs v]
    by (auto simp: keys_ok_def prices_ok_def tsel_new has_hold_def)
next
  case (hs_refuse vs v v' rs bs cs)
  from hs_refuse.prems have "tselect s_invocation rs (v_id v) = None"
    using hold_of_row [of vs rs "v_id v" v] hs_refuse.hyps by (auto simp: hold_ok_def has_hold_def)
  with hs_refuse show ?case by (intro ledger_ok_move) (auto simp: hold_ok_def has_hold_def)
next
  case (hs_move vs v v' rs bs cs)
  from hs_move.prems have "hold_ok (tselect s_invocation rs (v_id v)) v"
    using hold_of_row [of vs rs "v_id v" v] hs_move.hyps by simp
  then have "hold_ok (tselect s_invocation rs (v_id v)) v'"
    using hs_move.hyps
    by (auto simp: hold_ok_def has_hold_def fits_def describes_def same_terms_def status_fits_def
          split: if_splits reservation_status.splits)
  with hs_move show ?case by (intro ledger_ok_move)
next
  case (hs_authorized vs v v' rs r r' bs cs)
  then show ?case by (intro ledger_ok_settle) (auto simp: has_hold_def status_fits_def)
next
  case (hs_hold vs v v' r rs bs b cs)
  then show ?case by (intro ledger_ok_hold)
next
  case (hs_settle vs v v' rs r r' bs cs)
  then show ?case
    by (intro ledger_ok_settle) (auto simp: has_hold_def live_phase_def)
next
  case (hs_budget bs b prior rs c vs cs)
  then show ?case by (intro ledger_ok_budget)
qed

end
