(* ===== verification/Commerce_Bodies.thy ===== *)
theory Commerce_Bodies
  imports Commerce_Step
begin

text \<open>
  The bodies of the transactions, taken apart: for each operation the ways it can succeed, with
  the calls it made in order.  The refinement, the retries and the journal go by these cases.
\<close>

section \<open>Reading an invocation and moving it\<close>

lemma lockInvocation_Inr:
  assumes "lockInvocation tenant i db = Inr cur"
  shows "isel db (v_id cur) = Some cur" "v_id cur = i" "id_tenant (v_ids cur) = tenant"
  using assms by (auto simp: lockInvocation_def split: option.splits if_splits dest: tselect_SomeD)

lemma transition_validate_edge:
  "transition_validate inp = None \<Longrightarrow> ti_expected inp = Val p \<Longrightarrow> ti_to inp = Val to \<Longrightarrow>
     to \<in> set (allowedTransitions p)"
  by (simp add: transition_validate_def first_error_None edge_check_def split: if_splits)

lemma applyTransition_Inr:
  assumes "applyTransition now tenant inp db = Inr (db', v')"
  obtains cur to where "transition_validate inp = None" "isel db (ti_invocation inp) = Some cur"
    "id_tenant (v_ids cur) = tenant" "v_id cur = ti_invocation inp"
    "ti_expected inp = Val (v_phase cur)" "ti_to inp = Val to"
    "\<not> IsTerminal (v_phase cur)" "to \<in> set (allowedTransitions (v_phase cur))"
    "checkFactCombination to (merged_charge to inp cur)
       (firstNonEmpty (ti_payment inp) (v_payment cur)) = None"
    "to = PhaseDispatching \<Longrightarrow> v_payment cur \<noteq> PaymentUnknown"
    "v' = moved_invocation now to inp cur"
    "db' = db\<lparr>cd_invocations := tput v_id (cd_invocations db) v',
       cd_history := cd_history db @ [history_row now (v_id cur) (Some (v_phase cur)) to
         (ti_reason inp) (ti_actor inp) (ti_note inp) db]\<rparr>"
proof -
  from assms obtain cur where v: "transition_validate inp = None"
    and l: "lockInvocation tenant (ti_invocation inp) db = Inr cur"
    by (auto simp: applyTransition_def result_iffs)
  from l have cur: "isel db (ti_invocation inp) = Some cur" "id_tenant (v_ids cur) = tenant"
    by (auto simp: lockInvocation_def split: option.splits if_splits)
  then have i: "v_id cur = ti_invocation inp" by (auto dest: tselect_SomeD)
  from assms v l have ph: "\<not> IsTerminal (v_phase cur)" "ti_expected inp = Val (v_phase cur)"
    by (auto simp: applyTransition_def split: if_splits)
  with assms v l obtain to where to: "ti_to inp = Val to"
    by (auto simp: applyTransition_def split: field.splits)
  from assms v l ph to show ?thesis
    by (intro that [of cur to] transition_validate_edge [OF v] cur i ph to)
       (auto simp: applyTransition_def result_iffs split: if_splits)
qed

section \<open>Reserve\<close>

lemma refusedError_simps [simp]:
  "refusedError ReasonBudgetExhausted = CeBudgetExhausted" "refusedError ReasonPaymentDenied = CePaymentDenied"
  "refusedError ReasonQuoteExpired = CeQuoteExpired" "refusedError ReasonCurrencyMismatch = CeCurrencyMismatch"
  "refusedError ReasonFundsModeUnavailable = CeFundsModeUnavailable"
  "refusedError ReasonEntitlementExhausted = CeEntitlementExhausted"
  "refusedError ReasonEntitlementExpired = CeEntitlementExpired"
  by code_simp+

lemma reasons_given [simp]:
  "ReasonBudgetExhausted \<noteq> ''''" "ReasonPaymentDenied \<noteq> ''''" "ReasonQuoteExpired \<noteq> ''''"
  "ReasonCurrencyMismatch \<noteq> ''''" "ReasonFundsModeUnavailable \<noteq> ''''" "ReasonEntitlementExhausted \<noteq> ''''"
  "ReasonEntitlementExpired \<noteq> ''''"
  by code_simp+

lemma reserve_admittedE:
  assumes h: "reserve_admitted A now ulids inp cur db = Inr (db', ans)"
  obtains (refused) reason why where "refuse now inp cur reason why (refusedError reason) db = Inr (db', ans)"
      "reason \<noteq> ''''"
    | (denied) db1 db2 pr where
      "holdEntitlementUnit now (fst ulids) (id_tenant (v_ids cur)) (v_capability_id cur) (v_id cur) db = Inr (db1, ())"
      "authorize_payment A cur db1 = Inr (db2, Some pr)"
      "refuse now inp cur ReasonPaymentDenied (pr_reason pr) CePaymentDenied
         (releaseEntitlementUnit now (v_id cur) db2) = Inr (db', ans)"
    | (held) db1 db2 au p a where
      "holdEntitlementUnit now (fst ulids) (id_tenant (v_ids cur)) (v_capability_id cur) (v_id cur) db = Inr (db1, ())"
      "authorize_payment A cur db1 = Inr (db2, au)"
      "hold now (snd ulids) inp cur p a db2 = Inr (db', ans)"
proof (cases "holdEntitlementUnit now (fst ulids) (id_tenant (v_ids cur)) (v_capability_id cur) (v_id cur) db")
  case (Inl e)
  with h refused [of ReasonEntitlementExhausted] refused [of ReasonEntitlementExpired] show ?thesis
    by (cases e) (simp_all add: reserve_admitted_def)
next
  case (Inr x)
  then obtain db1 where hu: "holdEntitlementUnit now (fst ulids) (id_tenant (v_ids cur)) (v_capability_id cur) (v_id cur) db = Inr (db1, ())"
    by (cases x) simp
  with h obtain db2 au where au: "authorize_payment A cur db1 = Inr (db2, au)"
    by (auto simp: reserve_admitted_def result_iffs)
  show ?thesis
  proof (cases au)
    case None
    with h hu au have "hold now (snd ulids) inp cur PaymentNotRequired '''' db2 = Inr (db', ans)"
      by (simp add: reserve_admitted_def)
    then show ?thesis by (rule held [OF hu au])
  next
    case (Some pr)
    with h hu au held [OF hu au] denied [OF hu au [unfolded Some]] show ?thesis
      by (cases "pr_result pr") (simp_all add: reserve_admitted_def)
  qed
qed

lemma reserve_freshE:
  assumes h: "reserve_fresh A now ulids inp cur db = Inr (db', ans)"
  obtains (refused) reason why where "refuse now inp cur reason why (refusedError reason) db = Inr (db', ans)"
      "reason \<noteq> ''''"
    | (admitted) b where "getBudget (ri_tenant inp) (id_payer (v_ids cur)) db = Inr b"
      "admits (balanceOf b now db) (v_price cur) = Inr ''''" "now < v_quote_expires_at cur"
      "v_funds_mode cur = FundsModeSimulated"
      "reserve_admitted A now ulids inp cur db = Inr (db', ans)"
proof (cases "v_quote_expires_at cur \<le> now \<or> v_funds_mode cur = FundsModeLive")
  case True
  with h refused [of ReasonQuoteExpired] refused [of ReasonFundsModeUnavailable] show ?thesis
    by (simp add: reserve_fresh_def split: if_splits)
next
  case False
  then have ok: "now < v_quote_expires_at cur" "v_funds_mode cur = FundsModeSimulated"
    by (cases "v_funds_mode cur"; simp)+
  show ?thesis
  proof (cases "getBudget (ri_tenant inp) (id_payer (v_ids cur)) db")
    case (Inl e)
    with h ok refused [of ReasonBudgetExhausted] show ?thesis by (simp add: reserve_fresh_def)
  next
    case (Inr b)
    show ?thesis
    proof (cases "admits (balanceOf b now db) (v_price cur)")
      case (Inl e)
      with h ok Inr refused [of ReasonCurrencyMismatch] show ?thesis by (simp add: reserve_fresh_def)
    next
      case n: (Inr n)
      with h ok Inr refused [of ReasonBudgetExhausted] admitted [OF Inr _ ok] show ?thesis
        by (simp add: reserve_fresh_def split: if_splits)
    qed
  qed
qed

lemma resolveUnknownHoldE:
  assumes h: "resolveUnknownHold A now inp cur r db = Inr (db', ans)"
  obtains (denied) db1 authId r1 db2 updated db3 v where
      "resolveAuthorization A cur r db = Inr (db1, authId, True, r1)"
      "setReservationStatus now (s_id r) ReservationReleased '''' db1 = Inr (db2, updated)"
      "applyTransition now (ri_tenant inp)
             ((edge_input (v_id cur) PhaseReserved PhaseReleased (ri_actor inp))
                \<lparr>ti_reason := ReasonPaymentDenied,
                 ti_note := ''authorization resolved denied before dispatch'',
                 ti_outcome := Val OutcomeNotDispatched, ti_charge := Val ChargeReleased,
                 ti_payment := Val PaymentDenied\<rparr>) db2 = Inr (db3, v)"
      "db' = releaseEntitlementUnit now (v_id cur) db3"
      "ans = (\<lparr>rs_invocation = v, rs_reservation = Some updated, rs_replayed = False\<rparr>, Some CePaymentDenied)"
    | (authorized) db1 authId r1 v where
      "resolveAuthorization A cur r db = Inr (db1, authId, False, r1)"
      "v = cur\<lparr>v_payment := PaymentAuthorized, v_updated_at := now, v_version := v_version cur + 1\<rparr>"
      "db' = db1\<lparr>cd_invocations := tput v_id (cd_invocations db1) v,
                 cd_history := cd_history db1 @
                   [history_row now (v_id cur) (Some PhaseReserved) PhaseReserved '''' (ri_actor inp)
                      ''authorization resolved by status lookup'' db1]\<rparr>"
      "ans = (\<lparr>rs_invocation = v, rs_reservation = Some r1, rs_replayed = True\<rparr>, None)"
proof -
  from h obtain db1 authId dn r1 where res: "resolveAuthorization A cur r db = Inr (db1, authId, dn, r1)"
    by (auto simp: resolveUnknownHold_def result_iffs)
  show ?thesis
  proof (cases dn)
    case True
    with h res show ?thesis
      by (auto simp: resolveUnknownHold_def result_iffs intro: denied)
  next
    case False
    with h res show ?thesis
      by (intro authorized [of db1 authId r1]) (auto simp: resolveUnknownHold_def Let_def)
  qed
qed

lemma reserve_bodyE:
  assumes h: "reserve_body A now ulids inp db = Inr (db', ans)"
  obtains (fresh) cur where "lockInvocation (ri_tenant inp) (ri_invocation inp) db = Inr cur"
      "v_phase cur = PhaseAccepted" "reserve_fresh A now ulids inp cur db = Inr (db', ans)"
    | (refused) cur where "lockInvocation (ri_tenant inp) (ri_invocation inp) db = Inr cur"
      "v_phase cur = PhaseRefused" "db' = db"
      "ans = (\<lparr>rs_invocation = cur, rs_reservation = None, rs_replayed = False\<rparr>,
              Some (refusedError (v_reason cur)))"
    | (unknown) cur r where "lockInvocation (ri_tenant inp) (ri_invocation inp) db = Inr cur"
      "v_phase cur = PhaseReserved" "rsel db (v_id cur) = Some r" "s_status r = ReservationHeld"
      "resolveUnknownHold A now inp cur r db = Inr (db', ans)"
    | (replay) cur r where "lockInvocation (ri_tenant inp) (ri_invocation inp) db = Inr cur"
      "v_phase cur \<noteq> PhaseAccepted" "v_phase cur \<noteq> PhaseRefused" "rsel db (v_id cur) = Some r"
      "s_status r = ReservationHeld" "db' = db"
      "ans = (\<lparr>rs_invocation = cur, rs_reservation = Some r, rs_replayed = True\<rparr>, None)"
proof -
  from h obtain cur where l: "lockInvocation (ri_tenant inp) (ri_invocation inp) db = Inr cur"
    by (auto simp: reserve_body_def result_iffs)
  consider "v_phase cur = PhaseAccepted" | "v_phase cur = PhaseRefused"
    | "v_phase cur \<noteq> PhaseAccepted" "v_phase cur \<noteq> PhaseRefused" by blast
  then show ?thesis
  proof cases
    case 1
    with h l show ?thesis by (intro fresh) (simp_all add: reserve_body_def)
  next
    case 2
    with h l show ?thesis by (intro refused [OF l]) (auto simp: reserve_body_def)
  next
    case 3
    with h l obtain r where r: "rsel db (v_id cur) = Some r" "s_status r = ReservationHeld"
      by (auto simp: reserve_body_def reservationOf_def split: option.splits if_splits)
    show ?thesis
    proof (cases "v_phase cur = PhaseReserved \<and> v_payment cur = PaymentUnknown")
      case True
      with 3 h l r show ?thesis by (intro unknown [OF l _ r]) (simp_all add: reserve_body_def reservationOf_def)
    next
      case False
      with 3 h l r show ?thesis by (intro replay [OF l _ _ r]) (auto simp: reserve_body_def reservationOf_def)
    qed
  qed
qed

section \<open>Finalize and Release\<close>

lemma finalize_bodyE:
  assumes h: "finalize_body A now inp db = Inr (db', res)"
  obtains (replay) cur where "lockInvocation (fi_tenant inp) (fi_invocation inp) db = Inr cur"
      "v_phase cur = PhaseFinalized" "Val (v_outcome cur) = fi_outcome inp" "db' = db"
      "res = \<lparr>fr_invocation = cur, fr_reservation = reservationOf (v_id cur) db, fr_replayed = True\<rparr>"
    | (settled) cur r db1 facts st capture db2 updated v where
      "lockInvocation (fi_tenant inp) (fi_invocation inp) db = Inr cur"
      "v_phase cur = PhaseDispatched \<or> v_phase cur = PhaseOutcomeUnknown"
      "rsel db (v_id cur) = Some r" "s_status r = ReservationHeld"
      "settle_charge A (fi_outcome inp) cur r db = Inr (db1, facts, st, capture)"
      "setReservationStatus now (s_id r) st capture db1 = Inr (db2, updated)"
      "applyTransition now (fi_tenant inp)
                 ((edge_input (v_id cur) (v_phase cur) PhaseFinalized (fi_actor inp))
                    \<lparr>ti_note := fi_note inp, ti_outcome := fi_outcome inp,
                     ti_usage := Some (case fi_usage inp of Some n \<Rightarrow> n | None \<Rightarrow> 1),
                     ti_charge := Val (fst facts), ti_payment := fst (snd facts),
                     ti_settlement := snd (snd facts)\<rparr>)
                 (if st = ReservationCaptured then captureEntitlementUnit now (v_id cur) db2
                  else releaseEntitlementUnit now (v_id cur) db2) = Inr (db', v)"
      "res = \<lparr>fr_invocation = v, fr_reservation = Some updated, fr_replayed = False\<rparr>"
proof -
  from h obtain cur where l: "lockInvocation (fi_tenant inp) (fi_invocation inp) db = Inr cur"
    by (auto simp: finalize_body_def result_iffs)
  show ?thesis
  proof (cases "v_phase cur = PhaseFinalized")
    case True
    with h l show ?thesis by (intro replay [OF l]) (auto simp: finalize_body_def split: if_splits)
  next
    case False
    with h l have ph: "v_phase cur = PhaseDispatched \<or> v_phase cur = PhaseOutcomeUnknown"
      by (auto simp: finalize_body_def split: if_splits)
    with h l False obtain r where r: "rsel db (v_id cur) = Some r" "s_status r = ReservationHeld"
      by (auto simp: finalize_body_def IsTerminal_def reservationOf_def split: if_splits option.splits)
    from h l False ph r show ?thesis
      by (auto simp: finalize_body_def IsTerminal_def reservationOf_def result_iffs
          intro: settled [OF l ph r] split: if_splits)
  qed
qed

lemma release_bodyE:
  assumes h: "release_body A now inp db = Inr (db', res)"
  obtains (replay) cur where "lockInvocation (li_tenant inp) (li_invocation inp) db = Inr cur"
      "v_phase cur = PhaseReleased" "db' = db"
      "res = \<lparr>fr_invocation = cur, fr_reservation = reservationOf (v_id cur) db, fr_replayed = True\<rparr>"
    | (settled) cur r db1 payment db2 updated v where
      "lockInvocation (li_tenant inp) (li_invocation inp) db = Inr cur"
      "v_phase cur = PhaseReserved \<or> v_phase cur = PhaseDispatching"
      "rsel db (v_id cur) = Some r" "s_status r = ReservationHeld"
      "void_hold A cur r db = Inr (db1, payment)"
      "setReservationStatus now (s_id r) ReservationReleased '''' db1 = Inr (db2, updated)"
      "applyTransition now (li_tenant inp)
                 ((edge_input (v_id cur) (v_phase cur) PhaseReleased (li_actor inp))
                    \<lparr>ti_reason := li_reason inp, ti_note := li_note inp,
                     ti_outcome := Val OutcomeNotDispatched, ti_charge := Val ChargeReleased,
                     ti_payment := payment\<rparr>)
                 (releaseEntitlementUnit now (v_id cur) db2) = Inr (db', v)"
      "res = \<lparr>fr_invocation = v, fr_reservation = Some updated, fr_replayed = False\<rparr>"
proof -
  from h obtain cur where l: "lockInvocation (li_tenant inp) (li_invocation inp) db = Inr cur"
    by (auto simp: release_body_def result_iffs)
  show ?thesis
  proof (cases "v_phase cur = PhaseReleased")
    case True
    with h l show ?thesis by (intro replay [OF l]) (auto simp: release_body_def)
  next
    case False
    with h l have ph: "v_phase cur = PhaseReserved \<or> v_phase cur = PhaseDispatching"
      by (auto simp: release_body_def split: if_splits)
    with h l False obtain r where r: "rsel db (v_id cur) = Some r" "s_status r = ReservationHeld"
      by (auto simp: release_body_def IsTerminal_def reservationOf_def split: if_splits option.splits)
    from ph have nt: "\<not> IsTerminal (v_phase cur)"
      and np: "(v_phase cur \<noteq> PhaseReserved \<and> v_phase cur \<noteq> PhaseDispatching) = False"
      by (auto simp: IsTerminal_def)
    have "andThen (void_hold A cur r db) (\<lambda>(db1, payment).
        andThen (setReservationStatus now (s_id r) ReservationReleased '''' db1) (\<lambda>(db2, updated).
        andThen (applyTransition now (li_tenant inp)
            ((edge_input (v_id cur) (v_phase cur) PhaseReleased (li_actor inp))
               \<lparr>ti_reason := li_reason inp, ti_note := li_note inp,
                ti_outcome := Val OutcomeNotDispatched, ti_charge := Val ChargeReleased,
                ti_payment := payment\<rparr>)
            (releaseEntitlementUnit now (v_id cur) db2)) (\<lambda>(db3, v).
          Inr (db3, \<lparr>fr_invocation = v, fr_reservation = Some updated, fr_replayed = False\<rparr>)))) = Inr (db', res)"
      using h False by (simp add: release_body_def l r reservationOf_def nt np)
    then show ?thesis
      by (auto simp: andThen_Inr intro: settled [OF l ph r])
  qed
qed

section \<open>Dispatch\<close>

lemma dispatch_bodyE:
  assumes h: "dispatch_body sg now inp db = Inr (db', res)"
  obtains (replay) cur q deadline where "lockInvocation (di_tenant inp) (di_invocation inp) db = Inr cur"
      "tselect q_id (cd_quotes db) (v_quote_id cur) = Some q" "v_phase cur = PhaseDispatching" "db' = db"
      "v_dispatch_deadline cur = Some deadline"
      "res = \<lparr>dr_invocation = cur, dr_authorization = authorizationFor sg cur deadline (q_schema_hash q),
              dr_replayed = True\<rparr>"
    | (first) cur q db1 moved deadline where "lockInvocation (di_tenant inp) (di_invocation inp) db = Inr cur"
      "tselect q_id (cd_quotes db) (v_quote_id cur) = Some q" "v_phase cur = PhaseReserved"
      "applyTransition now (di_tenant inp)
             ((edge_input (di_invocation inp) PhaseReserved PhaseDispatching (di_actor inp))
                \<lparr>ti_note := di_note inp\<rparr>) db = Inr (db1, moved)"
      "db' = db1\<lparr>cd_invocations := tput v_id (cd_invocations db1) (moved\<lparr>v_dispatch_deadline := Some deadline\<rparr>)\<rparr>"
      "res = \<lparr>dr_invocation = moved\<lparr>v_dispatch_deadline := Some deadline\<rparr>,
              dr_authorization = authorizationFor sg (moved\<lparr>v_dispatch_deadline := Some deadline\<rparr>) deadline (q_schema_hash q),
              dr_replayed = False\<rparr>"
proof -
  from h obtain cur q where l: "lockInvocation (di_tenant inp) (di_invocation inp) db = Inr cur"
    and q: "tselect q_id (cd_quotes db) (v_quote_id cur) = Some q"
    by (auto simp: dispatch_body_def result_iffs split: option.splits)
  show ?thesis
  proof (cases "v_phase cur = PhaseDispatching")
    case True
    with h l q show ?thesis by (auto simp: dispatch_body_def intro: replay [OF l q] split: option.splits)
  next
    case False
    define deadline where "deadline = (now + DefaultDispatchWindow) - (now + DefaultDispatchWindow) mod second"
    from False h l q have ph: "v_phase cur = PhaseReserved"
      and df: "dispatch_first sg now inp cur (q_schema_hash q) db = Inr (db', res)"
      by (auto simp: dispatch_body_def split: if_splits)
    from df obtain db1 moved where
      tr: "applyTransition now (di_tenant inp)
             ((edge_input (di_invocation inp) PhaseReserved PhaseDispatching (di_actor inp))
                \<lparr>ti_note := di_note inp\<rparr>) db = Inr (db1, moved)"
      by (auto simp: dispatch_first_def result_iffs split: if_splits)
    have m: "isel db1 (v_id moved) = Some moved"
      using tr by (rule applyTransition_Inr) (simp add: tselect_tput)
    obtain rows so where
      up: "tupdate v_id (v_id moved)
                (\<lambda>v. id_tenant (v_ids v) = di_tenant inp \<and> v_dispatch_deadline v = None)
                (\<lambda>v. v\<lparr>v_dispatch_deadline := Some deadline\<rparr>) (cd_invocations db1) = (rows, so)"
      by fastforce
    from df have "(case so of None \<Rightarrow> Inl CePhaseConflict
       | Some stored \<Rightarrow> Inr (db1\<lparr>cd_invocations := rows\<rparr>,
           \<lparr>dr_invocation = stored, dr_authorization = authorizationFor sg stored deadline (q_schema_hash q),
            dr_replayed = False\<rparr>)) = (Inr (db', res) :: dispatch_result tx)"
      by (simp add: dispatch_first_def tr up Let_def deadline_def [symmetric] split: if_splits)
    then obtain stored where so: "so = Some stored" and db': "db' = db1\<lparr>cd_invocations := rows\<rparr>"
      and res: "res = \<lparr>dr_invocation = stored, dr_authorization = authorizationFor sg stored deadline (q_schema_hash q),
                 dr_replayed = False\<rparr>"
      by (cases so) auto
    from pg.upd_row [OF up [unfolded so]] m have "stored = moved\<lparr>v_dispatch_deadline := Some deadline\<rparr>"
        "rows = tput v_id (cd_invocations db1) stored"
      by auto
    with first [OF l q ph tr, of deadline] db' res show ?thesis by simp
  qed
qed

end
