(* ===== verification/Commerce_Refine.thy ===== *)
theory Commerce_Refine
  imports Commerce_Bodies
begin

text \<open>
  The operations of the ledger implement \<open>hold_step\<close>, whatever payment rail is installed, as
  long as the rail writes its own table only; the simulated adapter does.
\<close>

section \<open>The rail as an interface\<close>

definition payments_only :: "cdb \<Rightarrow> cdb \<Rightarrow> bool" where
  "payments_only db db' \<longleftrightarrow> db' = db\<lparr>cd_payments := cd_payments db'\<rparr>"

lemma payments_only_refl [simp]: "payments_only db db"
  by (simp add: payments_only_def)

lemma payments_only_trans:
  assumes "payments_only a b" and "payments_only b c"
  shows "payments_only a c"
proof -
  have "c = b\<lparr>cd_payments := cd_payments c\<rparr>" using assms(2) by (simp add: payments_only_def)
  moreover have "b = a\<lparr>cd_payments := cd_payments b\<rparr>" using assms(1) by (simp add: payments_only_def)
  ultimately have "c = (a\<lparr>cd_payments := cd_payments b\<rparr>)\<lparr>cd_payments := cd_payments c\<rparr>" by metis
  then show ?thesis by (simp add: payments_only_def)
qed

lemma payments_only_sel:
  assumes "payments_only db db'"
  shows "holds_of db' = holds_of db" "cd_invocations db' = cd_invocations db"
    "cd_reservations db' = cd_reservations db" "cd_budgets db' = cd_budgets db"
    "cd_changes db' = cd_changes db" "cd_history db' = cd_history db" "cd_terms db' = cd_terms db"
    "cd_quotes db' = cd_quotes db" "cd_entitlements db' = cd_entitlements db"
    "cd_allocations db' = cd_allocations db"
proof -
  have eq: "db' = db\<lparr>cd_payments := cd_payments db'\<rparr>" using assms by (simp add: payments_only_def)
  show "holds_of db' = holds_of db" by (subst eq) (simp add: holds_of_def)
  show "cd_invocations db' = cd_invocations db" by (subst eq) simp
  show "cd_reservations db' = cd_reservations db" by (subst eq) simp
  show "cd_budgets db' = cd_budgets db" by (subst eq) simp
  show "cd_changes db' = cd_changes db" by (subst eq) simp
  show "cd_history db' = cd_history db" by (subst eq) simp
  show "cd_terms db' = cd_terms db" by (subst eq) simp
  show "cd_quotes db' = cd_quotes db" by (subst eq) simp
  show "cd_entitlements db' = cd_entitlements db" by (subst eq) simp
  show "cd_allocations db' = cd_allocations db" by (subst eq) simp
qed

text \<open>
  What resolving an authorization and settling a payment may write: the payments, and the
  authorization id of the reservation at hand.
\<close>

definition auth_frame :: "reservation \<Rightarrow> cdb \<Rightarrow> cdb \<Rightarrow> bool" where
  "auth_frame r db db' \<longleftrightarrow>
     (cd_reservations db' = cd_reservations db \<or>
      (\<exists>a. cd_reservations db' = tput s_id (cd_reservations db) (r\<lparr>s_authorization := a\<rparr>))) \<and>
     db' = db\<lparr>cd_payments := cd_payments db', cd_reservations := cd_reservations db'\<rparr>"

lemma auth_frame_refl [simp]: "auth_frame r db db"
  by (simp add: auth_frame_def)

lemma payments_auth_frame: "payments_only db db' \<Longrightarrow> auth_frame r db db'"
  by (cases db; cases db') (simp add: auth_frame_def payments_only_def)

lemma auth_frame_trans:
  assumes "auth_frame r db db1" and "auth_frame (r\<lparr>s_authorization := a\<rparr>) db1 db2"
  shows "auth_frame r db db2"
proof -
  have "db1 = db\<lparr>cd_payments := cd_payments db1, cd_reservations := cd_reservations db1\<rparr>"
      "db2 = db1\<lparr>cd_payments := cd_payments db2, cd_reservations := cd_reservations db2\<rparr>"
    using assms by (simp_all add: auth_frame_def)
  then have "db2 = (db\<lparr>cd_payments := cd_payments db1, cd_reservations := cd_reservations db1\<rparr>)
      \<lparr>cd_payments := cd_payments db2, cd_reservations := cd_reservations db2\<rparr>"
    by metis
  then have rest: "db2 = db\<lparr>cd_payments := cd_payments db2, cd_reservations := cd_reservations db2\<rparr>"
    by simp
  from assms have "cd_reservations db2 = cd_reservations db \<or>
      (\<exists>a. cd_reservations db2 = tput s_id (cd_reservations db) (r\<lparr>s_authorization := a\<rparr>))"
    by (auto simp: auth_frame_def tput_tput)
  with rest show ?thesis by (simp add: auth_frame_def)
qed

text \<open>Resolving an authorization writes its id to the reservation, or nothing.\<close>

lemma resolve_frame:
  assumes r: "tselect s_id (cd_reservations db) (s_id r) = Some r"
    and "resolveAuthorization A cur r db = Inr (db', authId, denied, r')"
  shows "auth_frame r db db' \<and> (\<exists>a. r' = r\<lparr>s_authorization := a\<rparr>) \<and>
    tselect s_id (cd_reservations db') (s_id r) = Some r'"
proof -
  have "(db' = db \<and> r' = r) \<or> (r' = r\<lparr>s_authorization := authId\<rparr> \<and>
     db' = db\<lparr>cd_reservations := tput s_id (cd_reservations db) (r\<lparr>s_authorization := authId\<rparr>)\<rparr>)"
  proof (cases "s_authorization r = ''''")
    case False
    with assms show ?thesis by (simp add: resolveAuthorization_def)
  next
    case True
    with assms(2) obtain st where
      "ad_status A (PaymentOperationKey (v_id cur) PaymentOpAuthorize) db = Inr st"
      by (auto simp: resolveAuthorization_def result_iffs)
    with assms True show ?thesis
      by (cases "pr_result st") (auto simp: resolveAuthorization_def tupdate_def)
  qed
  then show ?thesis
  proof
    assume "db' = db \<and> r' = r"
    moreover have "r = r\<lparr>s_authorization := s_authorization r\<rparr>" by simp
    ultimately show ?thesis using r auth_frame_refl by metis
  next
    assume "r' = r\<lparr>s_authorization := authId\<rparr> \<and>
      db' = db\<lparr>cd_reservations := tput s_id (cd_reservations db) (r\<lparr>s_authorization := authId\<rparr>)\<rparr>"
    then show ?thesis by (auto simp: auth_frame_def tselect_tput)
  qed
qed

locale payment_rail =
  fixes A :: adapter
  assumes authorize: "ad_authorize A req db = Inr (db', pr) \<Longrightarrow> payments_only db db'"
    and capture: "ad_capture A key authId amount db = Inr (db', pr) \<Longrightarrow> payments_only db db'"
    and void: "ad_void A key authId db = Inr (db', pr) \<Longrightarrow> payments_only db db'"
begin

lemma settle:
  assumes r: "tselect s_id (cd_reservations db) (s_id r) = Some r"
    and "settlePayment A opn cur r db = Inr (db', pr)"
  shows "auth_frame r db db'"
proof -
  from assms(2) obtain db1 authId denied r1 where
    res: "resolveAuthorization A cur r db = Inr (db1, authId, denied, r1)" and "payments_only db1 db'"
    by (fastforce simp: settlePayment_def Let_def result_iffs split: if_splits dest: capture void)
  from this(2) have "auth_frame (r\<lparr>s_authorization := a\<rparr>) db1 db'" for a
    by (rule payments_auth_frame)
  with resolve_frame [OF r res] show ?thesis by (blast intro: auth_frame_trans)
qed

lemma resolve_settle:
  assumes r: "tselect s_id (cd_reservations db) (s_id r) = Some r"
    and res: "resolveAuthorization A cur r db = Inr (db1, authId, denied, r1)"
    and "settlePayment A opn cur r1 db1 = Inr (db', pr)"
  shows "auth_frame r db db'"
proof -
  from resolve_frame [OF r res] obtain a where rs: "auth_frame r db db1" "r1 = r\<lparr>s_authorization := a\<rparr>"
      "tselect s_id (cd_reservations db1) (s_id r) = Some r1" by blast
  then have "tselect s_id (cd_reservations db1) (s_id r1) = Some r1" by simp
  from settle [OF this assms(3)] rs show ?thesis by (blast intro: auth_frame_trans)
qed

lemma charge:
  assumes r: "tselect s_id (cd_reservations db) (s_id r) = Some r"
    and "settle_charge A result cur r db = Inr (db', facts, st, capture)"
  shows "auth_frame r db db' \<and>
    (st = ReservationCaptured \<and> fst facts = ChargeCaptured \<or>
     st = ReservationReleased \<and> fst facts = ChargeReleased)"
proof (cases "v_price_mode cur = PriceModeFree")
  case True
  with assms(2) show ?thesis by (auto simp: settle_charge_def)
next
  case False
  with assms(2) show ?thesis
    using resolve_frame [OF r] resolve_settle [OF r]
    by (fastforce simp: settle_charge_def result_iffs split: if_splits)
qed

lemma void_charge:
  assumes r: "tselect s_id (cd_reservations db) (s_id r) = Some r"
    and "void_hold A cur r db = Inr (db', payment)"
  shows "auth_frame r db db'"
  using assms(2) resolve_frame [OF r] resolve_settle [OF r]
  by (fastforce simp: void_hold_def result_iffs split: if_splits)

end

lemma insertPaymentOp_only: "insertPaymentOp p db = Inr (db', pr) \<Longrightarrow> payments_only db db'"
  by (auto simp: insertPaymentOp_def payments_only_def split: if_splits)

interpretation simulated: payment_rail "SimulatedAuthorizer now ulid" for now ulid
proof
  show "ad_authorize (SimulatedAuthorizer now ulid) req db = Inr (db', pr) \<Longrightarrow> payments_only db db'"
    for req db db' pr
    by (auto simp: SimulatedAuthorizer_def sim_authorize_def Let_def
        split: option.splits if_splits dest: insertPaymentOp_only)
  show "ad_capture (SimulatedAuthorizer now ulid) key authId amount db = Inr (db', pr) \<Longrightarrow> payments_only db db'"
    for key authId amount db db' pr
    by (auto simp: SimulatedAuthorizer_def sim_settle_def
        split: option.splits if_splits dest: insertPaymentOp_only)
  show "ad_void (SimulatedAuthorizer now ulid) key authId db = Inr (db', pr) \<Longrightarrow> payments_only db db'"
    for key authId db db' pr
    by (auto simp: SimulatedAuthorizer_def sim_settle_def
        split: option.splits if_splits dest: insertPaymentOp_only)
qed

section \<open>What the entitlement and reservation writes leave alone\<close>

lemma set_entitlement_sel [simp]:
  "cd_terms (set_entitlement i f db) = cd_terms db" "cd_quotes (set_entitlement i f db) = cd_quotes db"
  "cd_invocations (set_entitlement i f db) = cd_invocations db"
  "cd_history (set_entitlement i f db) = cd_history db" "cd_budgets (set_entitlement i f db) = cd_budgets db"
  "cd_changes (set_entitlement i f db) = cd_changes db"
  "cd_reservations (set_entitlement i f db) = cd_reservations db"
  "cd_payments (set_entitlement i f db) = cd_payments db"
  "cd_allocations (set_entitlement i f db) = cd_allocations db"
  by (simp_all add: set_entitlement_def)

lemma close_allocation_sel [simp]:
  "cd_terms (close_allocation st f i db) = cd_terms db" "cd_quotes (close_allocation st f i db) = cd_quotes db"
  "cd_invocations (close_allocation st f i db) = cd_invocations db"
  "cd_history (close_allocation st f i db) = cd_history db" "cd_budgets (close_allocation st f i db) = cd_budgets db"
  "cd_changes (close_allocation st f i db) = cd_changes db"
  "cd_reservations (close_allocation st f i db) = cd_reservations db"
  "cd_payments (close_allocation st f i db) = cd_payments db"
  by (simp_all add: close_allocation_def split: option.split)

lemma holds_of_close [simp]:
  "holds_of (releaseEntitlementUnit now i db) = holds_of db"
  "holds_of (captureEntitlementUnit now i db) = holds_of db"
  by (simp_all add: holds_of_def releaseEntitlementUnit_def captureEntitlementUnit_def)

lemma holdEntitlementUnit_sel:
  assumes "holdEntitlementUnit now ulid tenant cap i db = Inr (db', u)"
  shows "cd_terms db' = cd_terms db" "cd_quotes db' = cd_quotes db"
    "cd_invocations db' = cd_invocations db" "cd_history db' = cd_history db"
    "cd_budgets db' = cd_budgets db" "cd_changes db' = cd_changes db"
    "cd_reservations db' = cd_reservations db" "cd_payments db' = cd_payments db"
  using assms by (auto simp: holdEntitlementUnit_def Let_def split: option.splits if_splits)

section \<open>One transition\<close>

lemma same_terms_moved [simp]: "same_terms v (moved_invocation now to inp v)"
  by (simp add: same_terms_def moved_invocation_def)

lemma moved_sel [simp]:
  "v_phase (moved_invocation now to inp v) = to"
  "v_charge (moved_invocation now to inp v) = merged_charge to inp v"
  "v_id (moved_invocation now to inp v) = v_id v"
  by (simp_all add: moved_invocation_def)

lemma holds_of_parts:
  "holds_of db = (cd_invocations db, cd_reservations db, cd_budgets db, cd_changes db)"
  by (simp add: holds_of_def)

text \<open>An accepted invocation that is refused, by whatever request.\<close>

lemma refuse_step:
  assumes "applyTransition now tenant inp db = Inr (db', v)" and "ti_to inp = Val PhaseRefused"
  shows "hold_step (holds_of db) (holds_of db')"
  using assms(1)
proof (rule applyTransition_Inr)
  fix cur to
  assume *: "isel db (ti_invocation inp) = Some cur" "v_id cur = ti_invocation inp" "ti_to inp = Val to"
    "to \<in> set (allowedTransitions (v_phase cur))"
    "checkFactCombination to (merged_charge to inp cur) (firstNonEmpty (ti_payment inp) (v_payment cur)) = None"
    "v = moved_invocation now to inp cur"
    "db' = db\<lparr>cd_invocations := tput v_id (cd_invocations db) v,
       cd_history := cd_history db @ [history_row now (v_id cur) (Some (v_phase cur)) to
         (ti_reason inp) (ti_actor inp) (ti_note inp) db]\<rparr>"
  with assms(2) have to: "to = PhaseRefused" "v_phase cur = PhaseAccepted"
    by (cases "v_phase cur"; simp)+
  with * have "merged_charge to inp cur = ChargeNone"
    by (auto simp: checkFactCombination_def split: if_splits)
  with * to have "hold_step (cd_invocations db, cd_reservations db, cd_budgets db, cd_changes db)
      (tput v_id (cd_invocations db) v, cd_reservations db, cd_budgets db, cd_changes db)"
    by (intro hs_refuse [of _ cur]) auto
  with * show ?thesis by (simp add: holds_of_parts)
qed

lemma move_step:
  assumes "applyTransition now tenant inp db = Inr (db', v)" and "ti_to inp = Val to" and "live_phase to"
    and "to \<noteq> PhaseReserved"
  shows "hold_step (holds_of db) (holds_of db')"
  using assms(1)
proof (rule applyTransition_Inr)
  fix cur to'
  assume *: "isel db (ti_invocation inp) = Some cur" "v_id cur = ti_invocation inp" "ti_to inp = Val to'"
    "to' \<in> set (allowedTransitions (v_phase cur))" "v = moved_invocation now to' inp cur"
    "db' = db\<lparr>cd_invocations := tput v_id (cd_invocations db) v,
       cd_history := cd_history db @ [history_row now (v_id cur) (Some (v_phase cur)) to'
         (ti_reason inp) (ti_actor inp) (ti_note inp) db]\<rparr>"
  with assms(2-4) have to: "to' = to" "live_phase (v_phase cur)"
    by (cases "v_phase cur"; auto)+
  with * assms(3) have "hold_step (cd_invocations db, cd_reservations db, cd_budgets db, cd_changes db)
      (tput v_id (cd_invocations db) v, cd_reservations db, cd_budgets db, cd_changes db)"
    by (intro hs_move [of _ cur]) auto
  with * show ?thesis by (simp add: holds_of_parts)
qed

section \<open>Settling a hold\<close>

lemma auth_frame_sel:
  assumes "auth_frame r db db'"
  shows "cd_invocations db' = cd_invocations db" "cd_budgets db' = cd_budgets db"
    "cd_changes db' = cd_changes db" "cd_terms db' = cd_terms db" "cd_quotes db' = cd_quotes db"
    "cd_history db' = cd_history db" "cd_entitlements db' = cd_entitlements db"
    "cd_allocations db' = cd_allocations db"
  using assms by (cases db; cases db'; simp add: auth_frame_def)+

lemma auth_frame_row:
  assumes "auth_frame r db db'" and "tselect s_id (cd_reservations db) (s_id r) = Some r"
  obtains r1 where "tselect s_id (cd_reservations db') (s_id r) = Some r1" "same_hold r r1"
    "s_status r1 = s_status r"
    "\<And>r2. s_id r2 = s_id r \<Longrightarrow> tput s_id (cd_reservations db') r2 = tput s_id (cd_reservations db) r2"
proof (cases "cd_reservations db' = cd_reservations db")
  case True
  with assms(2) show ?thesis by (intro that [of r]) (simp_all add: same_hold_def)
next
  case False
  with assms(1) obtain a where
    a: "cd_reservations db' = tput s_id (cd_reservations db) (r\<lparr>s_authorization := a\<rparr>)"
    by (auto simp: auth_frame_def)
  show ?thesis
    by (rule that [of "r\<lparr>s_authorization := a\<rparr>"])
      (simp_all add: a tselect_tput same_hold_def tput_tput)
qed

lemma setReservationStatus_Inr:
  assumes "setReservationStatus now rid st cap db = Inr (db', updated)"
    and "tselect s_id (cd_reservations db) rid = Some r"
  shows "updated = r\<lparr>s_status := st, s_capture := cap, s_updated_at := now\<rparr>"
    and "db' = db\<lparr>cd_reservations := tput s_id (cd_reservations db) updated\<rparr>"
  using assms by (auto simp: setReservationStatus_def tupdate_def)

lemma reservation_by_id:
  assumes "ledger_ok (holds_of db)" and "rsel db i = Some r"
  shows "tselect s_id (cd_reservations db) (s_id r) = Some r"
  using assms tselect_SomeD [OF assms(2)] by (intro tsel_in) (auto simp: holds_of_parts keys_ok_def)

lemma settle_step:
  assumes ok: "ledger_ok (holds_of db)"
    and cur: "isel db (v_id cur) = Some cur" "live_phase (v_phase cur)"
    and r: "rsel db (v_id cur) = Some r" "s_status r = ReservationHeld"
    and f: "auth_frame r db db1"
    and st: "setReservationStatus now (s_id r) st cap db1 = Inr (db2, updated)"
    and same: "holds_of db2' = holds_of db2"
    and tr: "applyTransition now tenant inp db2' = Inr (db3, v)"
    and inp: "ti_invocation inp = v_id cur" "ti_to inp = Val to" "IsTerminal to"
    and fit: "\<And>w. v_phase w = to \<Longrightarrow> v_charge w = merged_charge to inp cur \<Longrightarrow> status_fits st w"
  shows "hold_step (holds_of db) (holds_of db3)"
proof -
  note rid = reservation_by_id [OF ok r(1)]
  from f rid obtain r1 where r1: "tselect s_id (cd_reservations db1) (s_id r) = Some r1" "same_hold r r1"
      "s_status r1 = s_status r"
      "\<And>r2. s_id r2 = s_id r \<Longrightarrow> tput s_id (cd_reservations db1) r2 = tput s_id (cd_reservations db) r2"
    by (rule auth_frame_row) blast
  note up = setReservationStatus_Inr [OF st r1(1)]
  have upd: "same_hold r updated" "s_status updated = st"
    using r1(2) up(1) by (simp_all add: same_hold_def)
  have db2: "holds_of db2 = (cd_invocations db, tput s_id (cd_reservations db) updated,
      cd_budgets db, cd_changes db)"
    using up(2) r1(4) [of updated] upd(1) auth_frame_sel [OF f]
    by (simp add: holds_of_parts same_hold_def)
  with same have vs: "cd_invocations db2' = cd_invocations db" "cd_budgets db2' = cd_budgets db"
      "cd_changes db2' = cd_changes db" "cd_reservations db2' = tput s_id (cd_reservations db) updated"
    by (simp_all add: holds_of_parts)
  from tr show ?thesis
  proof (rule applyTransition_Inr)
    fix cur' to'
    assume *: "isel db2' (ti_invocation inp) = Some cur'" "ti_to inp = Val to'"
      "to' \<in> set (allowedTransitions (v_phase cur'))" "v = moved_invocation now to' inp cur'"
      "db3 = db2'\<lparr>cd_invocations := tput v_id (cd_invocations db2') v,
         cd_history := cd_history db2' @ [history_row now (v_id cur') (Some (v_phase cur')) to'
           (ti_reason inp) (ti_actor inp) (ti_note inp) db2']\<rparr>"
    with vs cur inp have c: "cur' = cur" "to' = to" by simp_all
    with * vs cur inp r upd fit have
      "hold_step (cd_invocations db, cd_reservations db, cd_budgets db, cd_changes db)
        (tput v_id (cd_invocations db) v, tput s_id (cd_reservations db) updated, cd_budgets db, cd_changes db)"
      by (intro hs_settle [of _ cur _ _ r]) auto
    with * vs c show ?thesis by (simp add: holds_of_parts)
  qed
qed

end
