(* ===== verification/Commerce_Machine.thy ===== *)
theory Commerce_Machine
  imports Commerce_Refine
begin

text \<open>
  Every operation of the ledger refines \<open>hold_step\<close>, and the machine that runs them: the
  ledgers that can be reached, over any payment rail that keeps the interface, satisfy
  \<open>ledger_ok\<close>.
\<close>

section \<open>What the balance counts\<close>

lemma sum_where_all:
  assumes "\<And>r. r \<in> set (cd_reservations db) \<Longrightarrow> isel db (s_invocation r) \<noteq> None"
  shows "sum_where p acct db = sum_list (map (\<lambda>r. if account_of r = acct \<and>
     p (r, v_phase (the (isel db (s_invocation r)))) then s_amount r else 0) (cd_reservations db))"
proof -
  have "sum_list (map (s_amount \<circ> fst) (filter p (map (\<lambda>r. (r, v_phase (the (isel db (s_invocation r)))))
      (filter (\<lambda>r. account_of r = acct \<and> isel db (s_invocation r) \<noteq> None) rs)))) =
    sum_list (map (\<lambda>r. if account_of r = acct \<and>
     p (r, v_phase (the (isel db (s_invocation r)))) then s_amount r else 0) rs)"
    if "set rs \<subseteq> set (cd_reservations db)" for rs
    using that assms by (induction rs) (auto simp del: prod.inject)
  then show ?thesis by (simp add: sum_where_def joined_def)
qed

lemma ledger_ok_rows:
  assumes "ledger_ok (holds_of db)" and "r \<in> set (cd_reservations db)"
  shows "rsel db (s_invocation r) = Some r" "isel db (s_invocation r) \<noteq> None" "0 \<le> s_amount r"
proof -
  show *: "rsel db (s_invocation r) = Some r"
    using assms by (intro tsel_in) (auto simp: holds_of_parts keys_ok_def)
  then show "isel db (s_invocation r) \<noteq> None"
    using assms(1) unfolding holds_of_parts ledger_ok.simps holds_match_def by (metis option.distinct(1))
  show "0 \<le> s_amount r"
    using assms(1) * held_amount by (auto simp: holds_of_parts)
qed

lemma spent_le_balance:
  assumes ok: "ledger_ok (holds_of db)" and b: "bal = balanceOf b now db"
  shows "spent (budget_key b) (Period now) (cd_reservations db) \<le>
     bal_committed bal + bal_reserved bal + bal_pending bal"
proof -
  let ?acct = "budget_key b"
  let ?ph = "\<lambda>r. v_phase (the (isel db (s_invocation r)))"
  let ?f = "\<lambda>p r. if account_of r = ?acct \<and> p (r, ?ph r) then s_amount r else 0"
  let ?c = "\<lambda>(r, ph). s_status r = ReservationCaptured \<and> s_period r = Period now"
  let ?h = "\<lambda>(r, ph). s_status r = ReservationHeld \<and> ph \<noteq> PhaseOutcomeUnknown"
  let ?u = "\<lambda>(r, ph). s_status r = ReservationHeld \<and> ph = PhaseOutcomeUnknown"
  have joined: "isel db (s_invocation r) \<noteq> None" if "r \<in> set (cd_reservations db)" for r
    using ledger_ok_rows(2) [OF ok that] .
  have sum: "sum_where p ?acct db = sum_list (map (?f p) (cd_reservations db))" for p
    using joined by (rule sum_where_all)
  have "bal_committed bal + bal_reserved bal + bal_pending bal =
      sum_list (map (?f ?c) (cd_reservations db)) + sum_list (map (?f ?h) (cd_reservations db)) +
      sum_list (map (?f ?u) (cd_reservations db))"
    unfolding b balanceOf_def Let_def balance.simps sum ..
  also have "\<dots> = sum_list (map (\<lambda>r. ?f ?c r + ?f ?h r + ?f ?u r) (cd_reservations db))"
    by (simp add: sum_list_addf)
  finally have eq: "bal_committed bal + bal_reserved bal + bal_pending bal = \<dots>" .
  have "(if account_of r = ?acct \<and> s_period r = Period now \<and> s_status r \<noteq> ReservationReleased
          then s_amount r else 0) \<le> ?f ?c r + ?f ?h r + ?f ?u r"
    if "r \<in> set (cd_reservations db)" for r
    using ledger_ok_rows(3) [OF ok that] by (cases "s_status r") auto
  then have "spent ?acct (Period now) (cd_reservations db) \<le>
      sum_list (map (\<lambda>r. ?f ?c r + ?f ?h r + ?f ?u r) (cd_reservations db))"
    unfolding spent_def by (intro sum_list_mono) simp
  with eq show ?thesis by simp
qed

lemma admitted:
  assumes "admits bal amount = Inr ''''"
  shows "m_currency amount = bal_currency bal" "m_amount amount \<le> bal_per_request_max bal"
    "m_amount amount \<le> bal_available bal"
  using assms by (auto simp: admits_def split: if_splits)

section \<open>Reserve\<close>

lemma refuse_refines:
  assumes "refuse now inp cur reason note cause db = Inr (db', ans)"
  shows "hold_step (holds_of db) (holds_of db')"
  using assms by (auto simp: refuse_def edge_input_def result_iffs intro: refuse_step)

lemma hold_refines:
  assumes ok: "ledger_ok (holds_of db)"
    and cur: "isel db (v_id cur) = Some cur" "v_phase cur = PhaseAccepted"
    and b: "tselect budget_key (cd_budgets db) (id_tenant (v_ids cur), id_payer (v_ids cur)) = Some b"
    and adm: "admits (balanceOf b now db) (v_price cur) = Inr ''''"
    and same: "holds_of db1 = holds_of db"
    and h: "hold now ulid inp cur payment authId db1 = Inr (db', ans)"
  shows "hold_step (holds_of db) (holds_of db')"
proof -
  from same have vs: "cd_invocations db1 = cd_invocations db" "cd_reservations db1 = cd_reservations db"
      "cd_budgets db1 = cd_budgets db" "cd_changes db1 = cd_changes db"
    by (simp_all add: holds_of_parts)
  define r where "r = \<lparr>s_id = ''rsv_'' @ ulid, s_invocation = v_id cur, s_tenant = id_tenant (v_ids cur),
               s_payer = id_payer (v_ids cur), s_period = Period now,
               s_currency = m_currency (v_price cur), s_amount = m_amount (v_price cur),
               s_status = ReservationHeld, s_authorization = authId, s_capture = '''',
               s_deadline = now + DefaultReservationWindow, s_created_at = now, s_updated_at = now\<rparr>"
  have acct: "account_of r = budget_key b"
    using tselect_SomeD [OF b] by (simp add: r_def)
  from h obtain v where fresh: "\<not> list_ex (\<lambda>x. s_id x = s_id r \<or> s_invocation x = s_invocation r) (cd_reservations db1)"
    and tr: "applyTransition now (ri_tenant inp)
             ((edge_input (v_id cur) PhaseAccepted PhaseReserved (ri_actor inp))
                \<lparr>ti_charge := Val ChargeReserved, ti_payment := Val payment,
                 ti_deadline := Some (now + DefaultReservationWindow)\<rparr>)
             (db1\<lparr>cd_reservations := cd_reservations db1 @ [r]\<rparr>) = Inr (db', v)"
    by (auto simp: hold_def Let_def result_iffs r_def simp del: append_Cons append_Nil split: if_splits)
  have none: "rsel db (v_id cur) = None" "s_id r \<notin> s_id ` set (cd_reservations db)"
    using fresh vs by (auto simp: list_ex_iff tselect_None_iff r_def)
  have "spent (budget_key b) (Period now) (cd_reservations db) \<le>
     bal_committed (balanceOf b now db) + bal_reserved (balanceOf b now db) + bal_pending (balanceOf b now db)"
    by (rule spent_le_balance [OF ok refl])
  with admitted [OF adm] have cap: "s_amount r \<le> b_per_request_max b" "s_currency r = b_currency b"
      "s_amount r \<le> max (b_monthly_limit b - spent (account_of r) (s_period r) (cd_reservations db)) 0"
    unfolding acct by (auto simp: balanceOf_def Let_def r_def)
  from tr show ?thesis
  proof (rule applyTransition_Inr, goal_cases)
    case (1 cur' to)
    with cur vs have c: "cur' = cur" "to = PhaseReserved" by (auto simp: edge_input_def)
    have "hold_step (cd_invocations db, cd_reservations db, cd_budgets db, cd_changes db)
        (tput v_id (cd_invocations db) v, cd_reservations db @ [r], cd_budgets db, cd_changes db)"
      using 1 c cur none cap b
      by (intro hs_hold [of _ cur _ r _ _ b]) (auto simp: describes_def r_def)
    with 1 vs show ?case by (simp add: holds_of_parts)
  qed
qed

context payment_rail
begin

lemma authorize_same:
  "authorize_payment A cur db = Inr (db', ans) \<Longrightarrow> holds_of db' = holds_of db"
  using authorize payments_only_sel(1)
  by (fastforce simp: authorize_payment_def result_iffs split: if_splits)

lemma reserve_admitted_refines:
  assumes ok: "ledger_ok (holds_of db)"
    and cur: "isel db (v_id cur) = Some cur" "v_phase cur = PhaseAccepted"
    and b: "tselect budget_key (cd_budgets db) (id_tenant (v_ids cur), id_payer (v_ids cur)) = Some b"
    and adm: "admits (balanceOf b now db) (v_price cur) = Inr ''''"
    and h: "reserve_admitted A now ulids inp cur db = Inr (db', ans)"
  shows "hold_step (holds_of db) (holds_of db')"
  using h
proof (cases rule: reserve_admittedE)
  case (refused reason why)
  from refuse_refines [OF refused(1)] show ?thesis .
next
  case (denied db1 db2 pr)
  have "holds_of db2 = holds_of db"
    using authorize_same [OF denied(2)] holdEntitlementUnit_sel [OF denied(1)] by (simp add: holds_of_parts)
  with refuse_refines [OF denied(3)] show ?thesis by simp
next
  case (held db1 db2 au p a)
  have "holds_of db2 = holds_of db"
    using authorize_same [OF held(2)] holdEntitlementUnit_sel [OF held(1)] by (simp add: holds_of_parts)
  from hold_refines [OF ok cur b adm this held(3)] show ?thesis .
qed

lemma reserve_fresh_refines:
  assumes ok: "ledger_ok (holds_of db)"
    and cur: "isel db (v_id cur) = Some cur" "v_phase cur = PhaseAccepted" "id_tenant (v_ids cur) = ri_tenant inp"
    and h: "reserve_fresh A now ulids inp cur db = Inr (db', ans)"
  shows "hold_step (holds_of db) (holds_of db')"
  using h
proof (cases rule: reserve_freshE)
  case (refused reason why)
  from refuse_refines [OF refused(1)] show ?thesis .
next
  case (admitted b)
  then have "tselect budget_key (cd_budgets db) (id_tenant (v_ids cur), id_payer (v_ids cur)) = Some b"
    using cur(3) by (auto simp: getBudget_def split: option.splits)
  from reserve_admitted_refines [OF ok cur(1,2) this admitted(2,5)] show ?thesis .
qed

lemma resolveUnknownHold_refines:
  assumes ok: "ledger_ok (holds_of db)"
    and cur: "isel db (v_id cur) = Some cur" "v_phase cur = PhaseReserved"
    and r: "rsel db (v_id cur) = Some r" "s_status r = ReservationHeld"
    and h: "resolveUnknownHold A now inp cur r db = Inr (db', ans)"
  shows "hold_step (holds_of db) (holds_of db')"
  using h
proof (cases rule: resolveUnknownHoldE)
  case (denied db1 authId r1 db2 updated db3 v)
  note rid = reservation_by_id [OF ok r(1)]
  from resolve_frame [OF rid denied(1)] have f: "auth_frame r db db1" by blast
  have "hold_step (holds_of db) (holds_of db3)"
    by (rule settle_step [OF ok cur(1) _ r f denied(2) refl denied(3)])
      (use cur in \<open>auto simp: edge_input_def merged_charge_def status_fits_def IsTerminal_def\<close>)
  with denied(4) show ?thesis by simp
next
  case (authorized db1 authId r1 v)
  note rid = reservation_by_id [OF ok r(1)]
  from resolve_frame [OF rid authorized(1)] have f: "auth_frame r db db1" by blast
  have v: "same_terms cur v" "v_phase v = PhaseReserved"
    using cur by (simp_all add: authorized(2) same_terms_def)
  have db': "holds_of db' = (tput v_id (cd_invocations db) v, cd_reservations db1, cd_budgets db, cd_changes db)"
    using auth_frame_sel [OF f] authorized(3) by (simp add: holds_of_parts)
  have "cd_reservations db1 = cd_reservations db \<or>
      (\<exists>a. cd_reservations db1 = tput s_id (cd_reservations db) (r\<lparr>s_authorization := a\<rparr>))"
    using f by (simp add: auth_frame_def)
  then show ?thesis
  proof
    assume "cd_reservations db1 = cd_reservations db"
    with db' v cur show ?thesis unfolding holds_of_parts by (auto intro: hs_move)
  next
    assume "\<exists>a. cd_reservations db1 = tput s_id (cd_reservations db) (r\<lparr>s_authorization := a\<rparr>)"
    then obtain a where a: "cd_reservations db1 = tput s_id (cd_reservations db) (r\<lparr>s_authorization := a\<rparr>)" ..
    have "hold_step (cd_invocations db, cd_reservations db, cd_budgets db, cd_changes db)
        (tput v_id (cd_invocations db) v, tput s_id (cd_reservations db) (r\<lparr>s_authorization := a\<rparr>),
         cd_budgets db, cd_changes db)"
      using v cur r by (intro hs_authorized [of _ cur _ _ r]) (auto simp: same_hold_def)
    with db' a show ?thesis by (simp add: holds_of_parts)
  qed
qed

lemma reserve_refines:
  assumes ok: "ledger_ok (holds_of db)" and h: "reserve_body A now ulids inp db = Inr (db', ans)"
  shows "hold_step (holds_of db) (holds_of db')"
  using h
proof (cases rule: reserve_bodyE)
  case (fresh cur)
  note cur = lockInvocation_Inr [OF fresh(1)]
  from reserve_fresh_refines [OF ok cur(1) fresh(2) cur(3) fresh(3)] show ?thesis .
next
  case (unknown cur r)
  from resolveUnknownHold_refines [OF ok lockInvocation_Inr(1) [OF unknown(1)] unknown(2-5)] show ?thesis .
qed (simp_all add: hs_stay)

section \<open>Finalize and Release\<close>

lemma finalize_refines:
  assumes ok: "ledger_ok (holds_of db)" and h: "finalize_body A now inp db = Inr (db', ans)"
  shows "hold_step (holds_of db) (holds_of db')"
  using h
proof (cases rule: finalize_bodyE)
  case (settled cur r db1 facts st capture db2 updated v)
  note cur = lockInvocation_Inr [OF settled(1)]
  from settled(2) have live: "live_phase (v_phase cur)" by auto
  have cc: "auth_frame r db db1"
    "st = ReservationCaptured \<and> fst facts = ChargeCaptured \<or> st = ReservationReleased \<and> fst facts = ChargeReleased"
    using charge [OF reservation_by_id [OF ok settled(3)] settled(5)] by blast+
  show ?thesis
    by (rule settle_step [OF ok cur(1) live settled(3,4) cc(1) settled(6) _ settled(7)])
      (use cc(2) in \<open>auto simp: edge_input_def merged_charge_def status_fits_def IsTerminal_def\<close>)
qed (simp add: hs_stay)

lemma release_refines:
  assumes ok: "ledger_ok (holds_of db)" and h: "release_body A now inp db = Inr (db', ans)"
  shows "hold_step (holds_of db) (holds_of db')"
  using h
proof (cases rule: release_bodyE)
  case (settled cur r db1 payment db2 updated v)
  note cur = lockInvocation_Inr [OF settled(1)]
  from settled(2) have live: "live_phase (v_phase cur)" by auto
  show ?thesis
    by (rule settle_step [OF ok cur(1) live settled(3,4)
          void_charge [OF reservation_by_id [OF ok settled(3)] settled(5)] settled(6) _ settled(7)])
      (auto simp: edge_input_def merged_charge_def status_fits_def IsTerminal_def)
qed (simp add: hs_stay)

end

section \<open>The other operations\<close>

lemma transition_refines:
  assumes "applyTransition now tenant inp db = Inr (db', v)"
    and "\<And>p. ti_to inp = Val p \<Longrightarrow> p \<notin> set ownedEdges"
  shows "hold_step (holds_of db) (holds_of db')"
  using assms(1)
proof (rule applyTransition_Inr, goal_cases)
  case (1 cur to)
  then have to: "to \<notin> set ownedEdges" using assms(2) by blast
  then have "to = PhaseRefused \<or> live_phase to \<and> to \<noteq> PhaseReserved"
    using 1 by (cases "v_phase cur") (auto simp: ownedEdges_def)
  then show ?case
    using refuse_step [OF assms(1)] move_step [OF assms(1)] 1 by blast
qed

lemma dispatch_refines:
  assumes h: "dispatch_body sg now inp db = Inr (db', ans)"
  shows "hold_step (holds_of db) (holds_of db')"
  using h
proof (cases rule: dispatch_bodyE)
  case (first cur q db1 moved deadline)
  define w where "w = moved\<lparr>v_dispatch_deadline := Some deadline\<rparr>"
  from first(4) show ?thesis
  proof (rule applyTransition_Inr, goal_cases)
    case (1 c to)
    then have to: "to = PhaseDispatching" "v_phase c = PhaseReserved" by (auto simp: edge_input_def)
    have "tput v_id (tput v_id (cd_invocations db) moved) w = tput v_id (cd_invocations db) w"
      by (rule tput_tput) (simp add: w_def)
    moreover have "hold_step (cd_invocations db, cd_reservations db, cd_budgets db, cd_changes db)
        (tput v_id (cd_invocations db) w, cd_reservations db, cd_budgets db, cd_changes db)"
      using 1 to by (intro hs_move [of _ c]) (auto simp: w_def same_terms_def moved_invocation_def)
    ultimately show ?case using 1(12) first(5) unfolding w_def [symmetric] by (simp add: holds_of_parts)
  qed
qed (simp add: hs_stay)

lemma accept_refines:
  assumes h: "accept_body H now ulid inp db = Inr (db', ans)"
  shows "hold_step (holds_of db) (holds_of db')"
proof (cases "db' = db")
  case True
  then show ?thesis by (simp add: hs_stay)
next
  case False
  with h obtain q t where
    ins: "insert_invocation now (accepted_invocation now ulid inp q t) db = Inr (db', ans)"
    by (auto simp: accept_body_def result_iffs split: option.splits if_splits)
  define v where "v = accepted_invocation now ulid inp q t"
  have "v_phase v = PhaseAccepted" "v_charge v = ChargeNone"
    by (simp_all add: v_def accepted_invocation_def)
  moreover from ins have "0 \<le> m_amount (v_price v)" "isel db (v_id v) = None"
      "holds_of db' = (cd_invocations db @ [v], cd_reservations db, cd_budgets db, cd_changes db)"
      "\<And>w. w \<in> set (cd_invocations db) \<Longrightarrow> \<not> same_intent v w"
    by (auto simp: same_intent_def insert_invocation_def holds_of_parts tselect_None_iff list_ex_iff v_def [symmetric] split: if_splits)
  ultimately show ?thesis by (simp add: holds_of_parts hs_accept)
qed

lemma set_budget_refines:
  assumes h: "set_budget_body now inp db = Inr (db', b)"
  shows "hold_step (holds_of db) (holds_of db')"
proof -
  define prior where "prior = tselect budget_key (cd_budgets db) (sb_tenant inp, sb_payer inp)"
  from h have b: "b = budget_row now inp prior"
    and db': "db' = db\<lparr>cd_budgets := tput budget_key (cd_budgets db) b,
                     cd_changes := cd_changes db @ [change_row now inp prior b db]\<rparr>"
    and fixed: "\<not> ((case prior of None \<Rightarrow> False | Some p \<Rightarrow> b_currency p \<noteq> sb_currency inp) \<and>
            list_ex (\<lambda>r. account_of r = (sb_tenant inp, sb_payer inp)) (cd_reservations db))"
    by (auto simp: set_budget_body_def Let_def prior_def split: if_splits)
  have key: "budget_key b = (sb_tenant inp, sb_payer inp)" "b_currency b = sb_currency inp"
  proof -
    have "budget_key b = (sb_tenant inp, sb_payer inp) \<and> b_currency b = sb_currency inp"
    proof (cases prior)
      case None
      then show ?thesis by (simp add: b budget_row_def)
    next
      case (Some p)
      then have "budget_key p = (sb_tenant inp, sb_payer inp)"
        using tselect_SomeD [of budget_key "cd_budgets db"] unfolding prior_def by blast
      with Some show ?thesis by (simp add: b budget_row_def)
    qed
    then show "budget_key b = (sb_tenant inp, sb_payer inp)" "b_currency b = sb_currency inp" by blast+
  qed
  have "hold_step (cd_invocations db, cd_reservations db, cd_budgets db, cd_changes db)
      (cd_invocations db, cd_reservations db, tput budget_key (cd_budgets db) b,
       cd_changes db @ [change_row now inp prior b db])"
  proof (rule hs_budget [of _ _ prior])
    show "tselect budget_key (cd_budgets db) (budget_key b) = prior"
      unfolding key(1) prior_def ..
    show "\<forall>r \<in> set (cd_reservations db). account_of r \<noteq> budget_key b"
      if "prior = Some p" "b_currency p \<noteq> b_currency b" for p
    proof -
      have "\<not> list_ex (\<lambda>r. account_of r = (sb_tenant inp, sb_payer inp)) (cd_reservations db)"
        using fixed that(2) unfolding that(1) key(2) option.case by blast
      then show ?thesis unfolding key(1) list_ex_iff by blast
    qed
    show "(bc_tenant (change_row now inp prior b db), bc_payer (change_row now inp prior b db)) = budget_key b"
      unfolding key(1) by (simp add: change_row_def)
    show "bc_new_monthly_limit (change_row now inp prior b db) = b_monthly_limit b"
      by (simp add: change_row_def)
  qed
  with db' show ?thesis by (simp add: holds_of_parts)
qed

end
