(* ===== verification/Commerce_Run.thy ===== *)
theory Commerce_Run
  imports Commerce_Machine
begin

text \<open>
  The commerce ledger as a machine: every exported operation that writes, run at any time with
  any input, any fault of PostgreSQL and any rail that keeps the interface, from the empty
  ledger.  Each run is a sequence of steps of \<open>hold_step\<close>, so the invariant holds in every
  ledger the machine reaches.
\<close>

section \<open>The machine\<close>

datatype cm_op =
    CmPublish string publish_terms_input
  | CmRetire string int
  | CmQuote string mint_quote_input
  | CmAccept string accept_input
  | CmTransition string transition_input
  | CmDispatch "signer option" dispatch_input
  | CmSetBudget set_budget_input
  | CmReserve adapter "string \<times> string" reserve_input
  | CmFinalize adapter finalize_input
  | CmRelease adapter release_input
  | CmGrant string grant_input
  | CmRetireEntitlement string string
  | CmExpire "string \<Rightarrow> adapter" "string \<Rightarrow> tx_fault" string int

fun cm_run :: "hash \<Rightarrow> cm_op \<Rightarrow> tx_fault \<Rightarrow> gotime \<Rightarrow> cdb \<Rightarrow> cdb" where
  "cm_run H (CmPublish ulid inp) f now db = fst (PublishTerms f now ulid inp db)"
| "cm_run H (CmRetire tid ver) f now db = fst (RetireTerms f now tid ver db)"
| "cm_run H (CmQuote ulid inp) f now db = fst (MintQuote H f now ulid inp db)"
| "cm_run H (CmAccept ulid inp) f now db = fst (AcceptInvocation H f now ulid inp db)"
| "cm_run H (CmTransition tenant inp) f now db = fst (TransitionCommerceInvocation f now tenant inp db)"
| "cm_run H (CmDispatch sg inp) f now db = fst (Dispatch sg f now inp db)"
| "cm_run H (CmSetBudget inp) f now db = fst (SetBudget f now inp db)"
| "cm_run H (CmReserve A ulids inp) f now db = fst (Reserve A f now ulids inp db)"
| "cm_run H (CmFinalize A inp) f now db = fst (Finalize A f now inp db)"
| "cm_run H (CmRelease A inp) f now db = fst (ReleaseHold A f now inp db)"
| "cm_run H (CmGrant ulid inp) f now db = fst (GrantEntitlement f now ulid inp db)"
| "cm_run H (CmRetireEntitlement tenant i) f now db = fst (RetireEntitlement f now tenant i db)"
| "cm_run H (CmExpire A faults actor limit) f now db = fst (ExpireStale A faults now actor limit db)"

text \<open>The rail an operation uses keeps the interface.\<close>

fun rail_ok :: "cm_op \<Rightarrow> bool" where
  "rail_ok (CmReserve A ulids inp) = payment_rail A"
| "rail_ok (CmFinalize A inp) = payment_rail A"
| "rail_ok (CmRelease A inp) = payment_rail A"
| "rail_ok (CmExpire A faults actor limit) = (\<forall>i. payment_rail (A i))"
| "rail_ok _ = True"

text \<open>What an operation leaves is the ledger it found, or the one its committed body left.\<close>

lemma precheck_withTx:
  obtains "fst (precheck c db (withTx f db body)) = db"
  | x where "body = Inr (fst (precheck c db (withTx f db body)), x)"
  using precheck_fst [of c db "withTx f db body"] withTx_fst [of f db body] by metis

lemma refines_precheck:
  assumes "\<And>db' x. body = Inr (db', x) \<Longrightarrow> hold_step (holds_of db) (holds_of db')"
  shows "hold_step (holds_of db) (holds_of (fst (precheck c db (withTx f db body))))"
  by (rule precheck_withTx [of c db f body]) (use assms in \<open>auto intro: hs_stay\<close>)

lemma refines_withTx:
  assumes "\<And>db' x. body = Inr (db', x) \<Longrightarrow> hold_step (holds_of db) (holds_of db')"
  shows "hold_step (holds_of db) (holds_of (fst (withTx f db body)))"
  using refines_precheck [of body db None f] assms by (simp add: precheck_def)

lemma stay_same: "holds_of db' = holds_of db \<Longrightarrow> hold_step (holds_of db) (holds_of db')"
  by (simp add: hs_stay)

lemma publish_body_terms:
  assumes "publish_body now ulid inp db = Inr (db', t)"
  shows "\<exists>ts. db' = db\<lparr>cd_terms := ts\<rparr>"
proof -
  from assms obtain tid where "(case (pt_price_mode inp, pt_funds_mode inp, pt_effective_from inp) of
         (Val pm, Val fm, Some eff) \<Rightarrow>
           (let t = \<lparr>t_terms_id = tid, t_version = max_version (pt_capability_id inp) tid db + 1,
                     t_capability_id = pt_capability_id inp, t_schema_hash = pt_schema_hash inp,
                     t_provider_id = pt_provider_id inp, t_price_mode = pm, t_price = pt_price inp,
                     t_funds_mode = fm, t_quote_ttl = pt_quote_ttl inp, t_effective_from = eff,
                     t_retired_at = None, t_published_by = pt_published_by inp, t_created_at = now\<rparr>
            in if list_ex (same_terms_key t) (cd_terms db)
               then Inl (CePlain ''commerce: insert terms'')
               else Inr (db\<lparr>cd_terms := cd_terms db @ [t]\<rparr>, t))
       | _ \<Rightarrow> Inl CeInvalid) = Inr (db', t)"
    unfolding publish_body_def andThen_Inr by blast
  then show ?thesis
    unfolding Let_def by (cases "pt_price_mode inp"; cases "pt_funds_mode inp"; cases "pt_effective_from inp")
      (auto split: if_splits)
qed

lemma publish_same: "publish_body now ulid inp db = Inr (db', t) \<Longrightarrow> holds_of db' = holds_of db"
  using publish_body_terms by (fastforce simp: holds_of_def)

lemma grant_same: "grant_body now ulid inp db = Inr (db', n) \<Longrightarrow> holds_of db' = holds_of db"
  by (auto simp: grant_body_def Let_def holds_of_def split: option.splits if_splits)

lemma publish_step: "hold_step (holds_of db) (holds_of (fst (PublishTerms f now ulid inp db)))"
  unfolding PublishTerms_def by (rule refines_precheck, rule stay_same, erule publish_same)

lemma retire_terms_step: "hold_step (holds_of db) (holds_of (fst (RetireTerms f now tid ver db)))"
  unfolding RetireTerms_def
  by (rule refines_withTx, rule stay_same) (auto simp: holds_of_def result_iffs split: prod.splits option.splits)

lemma quote_step: "hold_step (holds_of db) (holds_of (fst (MintQuote H f now ulid inp db)))"
  unfolding MintQuote_def
  by (rule refines_precheck, rule stay_same) (auto simp: result_iffs Let_def holds_of_def split: if_splits)

lemma grant_step: "hold_step (holds_of db) (holds_of (fst (GrantEntitlement f now ulid inp db)))"
  unfolding GrantEntitlement_def by (rule refines_precheck, rule stay_same, erule grant_same)

lemma retire_entitlement_step: "hold_step (holds_of db) (holds_of (fst (RetireEntitlement f now tenant i db)))"
  unfolding RetireEntitlement_def
  by (rule refines_precheck, rule stay_same) (auto simp: holds_of_def result_iffs split: prod.splits option.splits)


lemma precheck_step:
  "hold_step (holds_of db) (holds_of (fst r)) \<Longrightarrow> hold_step (holds_of db) (holds_of (fst (precheck c db r)))"
  by (cases c) (simp_all add: precheck_def hs_stay)

lemma transition_step:
  assumes "\<And>p. ti_to inp = Val p \<Longrightarrow> p \<notin> set ownedEdges"
  shows "hold_step (holds_of db) (holds_of (fst (Transition f now tenant inp db)))"
  unfolding Transition_def
  by (rule precheck_step, rule refines_precheck, erule transition_refines) (rule assms)

lemma handler_step: "hold_step (holds_of db) (holds_of (fst (TransitionCommerceInvocation f now tenant inp db)))"
  using transition_step [of inp db f now tenant]
  by (cases "ti_to inp") (simp_all add: TransitionCommerceInvocation_def hs_stay)

text \<open>The reconciler is a sequence of transactions of its own.\<close>

lemma refuse_stale_steps:
  "hold_step\<^sup>*\<^sup>* (holds_of db) (holds_of (fst (refuse_stale fault now actor refs db out)))"
proof (induction fault now actor refs db out rule: refuse_stale.induct)
  case (1 fault now actor db out)
  then show ?case by simp
next
  case (2 fault now actor tenant i refs db out)
  define inp where "inp = (edge_input i PhaseAccepted PhaseRefused actor)
    \<lparr>ti_reason := ReasonQuoteExpired, ti_note := ''reconciler: quote expired with nothing reserved''\<rparr>"
  obtain db' r where tr: "Transition (fault i) now tenant inp db = (db', r)" by fastforce
  have "hold_step (holds_of db) (holds_of db')"
    using transition_step [of inp db "fault i" now tenant] tr
    by (simp add: inp_def edge_input_def ownedEdges_def)
  moreover have "hold_step\<^sup>*\<^sup>* (holds_of db')
      (holds_of (fst (refuse_stale fault now actor ((tenant, i) # refs) db out)))"
    using "2.IH" tr by (cases r) (auto simp: inp_def [symmetric])
  ultimately show ?case by (rule converse_rtranclp_into_rtranclp)
qed

lemma accept_step: "hold_step (holds_of db) (holds_of (fst (AcceptInvocation H f now ulid inp db)))"
  unfolding AcceptInvocation_def by (rule refines_precheck, erule accept_refines)

lemma dispatch_step: "hold_step (holds_of db) (holds_of (fst (Dispatch sg f now inp db)))"
  by (cases sg) (simp_all add: Dispatch_def hs_stay refines_precheck dispatch_refines)

lemma budget_step: "hold_step (holds_of db) (holds_of (fst (SetBudget f now inp db)))"
  unfolding SetBudget_def by (rule refines_precheck, erule set_budget_refines)

lemma reserve_step:
  assumes "payment_rail A" and "ledger_ok (holds_of db)"
  shows "hold_step (holds_of db) (holds_of (fst (Reserve A f now ulids inp db)))"
  unfolding Reserve_def by (rule refines_precheck, rule payment_rail.reserve_refines [OF assms(1)]) (use assms in auto)

lemma finalize_step:
  assumes "payment_rail A" and "ledger_ok (holds_of db)"
  shows "hold_step (holds_of db) (holds_of (fst (Finalize A f now inp db)))"
  unfolding Finalize_def by (rule refines_precheck, rule payment_rail.finalize_refines [OF assms(1)]) (use assms in auto)

lemma release_step:
  assumes "payment_rail A" and "ledger_ok (holds_of db)"
  shows "hold_step (holds_of db) (holds_of (fst (ReleaseHold A f now inp db)))"
  unfolding ReleaseHold_def by (rule refines_precheck, rule payment_rail.release_refines [OF assms(1)]) (use assms in auto)

lemma release_stale_steps:
  assumes "\<And>i. payment_rail (A i)"
  shows "ledger_ok (holds_of db) \<Longrightarrow>
    hold_step\<^sup>*\<^sup>* (holds_of db) (holds_of (fst (release_stale A fault now actor refs db out)))"
  using assms
proof (induction A fault now actor refs db out rule: release_stale.induct)
  case (1 A fault now actor db out)
  then show ?case by simp
next
  case (2 A fault now actor tenant i refs db out)
  define inp where "inp = \<lparr>li_tenant = tenant, li_invocation = i, li_actor = actor,
    li_reason = ReasonReservationExpired,
    li_note = ''reconciler: reservation deadline passed with no dispatch intent''\<rparr>"
  obtain db' r where tr: "ReleaseHold (A i) (fault i) now inp db = (db', r)" by fastforce
  have step: "hold_step (holds_of db) (holds_of db')"
    using release_step [OF "2.prems"(2,1), of i "fault i" now inp] tr by simp
  then have "ledger_ok (holds_of db')" using "2.prems"(1) by (rule hold_step_ledger_ok)
  then have "hold_step\<^sup>*\<^sup>* (holds_of db')
      (holds_of (fst (release_stale A fault now actor ((tenant, i) # refs) db out)))"
    using "2.IH" "2.prems"(2) tr by (cases r) (auto simp: inp_def [symmetric])
  with step show ?case by (rule converse_rtranclp_into_rtranclp)
qed

lemma steps_ledger_ok: "hold_step\<^sup>*\<^sup>* x y \<Longrightarrow> ledger_ok x \<Longrightarrow> ledger_ok y"
  by (induction rule: rtranclp_induct) (auto dest: hold_step_ledger_ok)

lemma expire_steps:
  assumes "\<And>i. payment_rail (A i)" and "ledger_ok (holds_of db)"
  shows "hold_step\<^sup>*\<^sup>* (holds_of db) (holds_of (fst (ExpireStale A faults now actor limit db)))"
proof (cases "checkText actor MaxIDBytes True")
  case (Some e)
  then show ?thesis by (simp add: ExpireStale_def)
next
  case None
  obtain db1 refused err where r: "refuse_stale faults now actor
      (stale PhaseAccepted (\<lambda>v. Some (v_quote_expires_at v)) now (page_limit limit) db) db [] = (db1, refused, err)"
    by (metis prod_cases3)
  then have s1: "hold_step\<^sup>*\<^sup>* (holds_of db) (holds_of db1)"
    using refuse_stale_steps by (metis fst_conv)
  show ?thesis
  proof (cases err)
    case (Some e)
    with None r s1 show ?thesis by (simp add: ExpireStale_def)
  next
    case err: None
    obtain db2 released unresolved err2 where r2: "release_stale A faults now actor
        (stale PhaseReserved v_reservation_deadline now (page_limit limit) db1) db1 ([], []) =
        (db2, (released, unresolved), err2)"
      by (metis prod_cases3 surj_pair)
    have "hold_step\<^sup>*\<^sup>* (holds_of db1) (holds_of db2)"
      using release_stale_steps [where A = A and fault = faults and now = now and actor = actor and db = db1
        and refs = "stale PhaseReserved v_reservation_deadline now (page_limit limit) db1" and out = "([], [])",
        OF assms(1) steps_ledger_ok [OF s1 assms(2)]]
      unfolding r2 fst_conv .
    with s1 have "hold_step\<^sup>*\<^sup>* (holds_of db) (holds_of db2)" by (rule rtranclp_trans)
    with None err r r2 show ?thesis by (simp add: ExpireStale_def)
  qed
qed

section \<open>Every reachable ledger\<close>

lemma cm_run_refines:
  assumes "ledger_ok (holds_of db)" and "rail_ok op"
  shows "hold_step\<^sup>*\<^sup>* (holds_of db) (holds_of (cm_run H op f now db))"
  using assms
  by (cases op) (simp_all add: r_into_rtranclp publish_step retire_terms_step quote_step accept_step
    handler_step dispatch_step budget_step reserve_step finalize_step release_step grant_step
    retire_entitlement_step expire_steps)

inductive creach :: "hash \<Rightarrow> cdb \<Rightarrow> bool" for H where
  c_start: "creach H empty_cdb"
| c_run: "creach H db \<Longrightarrow> rail_ok op \<Longrightarrow> creach H (cm_run H op f now db)"

lemma empty_ledger_ok: "ledger_ok (holds_of empty_cdb)"
  by (simp add: holds_of_def empty_cdb_def keys_ok_def unique_key_def prices_ok_def holds_match_def
      currencies_ok_def caps_ok_def spent_def max_limit_def)

lemma creach_ledger_ok: "creach H db \<Longrightarrow> ledger_ok (holds_of db)"
proof (induction rule: creach.induct)
  case c_start
  show ?case by (rule empty_ledger_ok)
next
  case (c_run db op f now)
  from steps_ledger_ok [OF cm_run_refines [OF c_run.IH c_run.hyps(2)] c_run.IH] show ?case .
qed

end
