(* ===== verification/Commerce_Demo.thy ===== *)
theory Commerce_Demo
  imports Commerce_Run
begin

text \<open>
  One call bought on the ledger, step by step: terms, a budget of 4.00 EUR a month, a package
  of three units, a quote of 2.50 EUR, the acceptance, the hold, the dispatch and its end.
  Each ledger is written out and shown to be what the next operation of the machine leaves, so
  the witnesses of the commerce properties evaluate on reachable ledgers.
\<close>

section \<open>The requests\<close>

definition demo_hash :: hash where
  "demo_hash s = replicate 64 (CHR ''0'')"

definition demo_digest :: string where
  "demo_digest = digestOf demo_hash ''''"

definition demo_ids :: identities where
  "demo_ids = \<lparr>id_tenant = ''acme'', id_principal = ''alice'', id_subject = ''alice'', id_grant = '''',
     id_payer = ''acme-main'', id_execution = ''ex1''\<rparr>"

definition demo_price :: money where
  "demo_price = \<lparr>m_currency = ''EUR'', m_amount = 250\<rparr>"

definition demo_publish :: publish_terms_input where
  "demo_publish = \<lparr>pt_terms_id = '''', pt_capability_id = ''mctl://cap'', pt_schema_hash = demo_digest,
     pt_provider_id = ''prov'', pt_price_mode = Val PriceModePerCall, pt_price = demo_price,
     pt_funds_mode = Val FundsModeSimulated, pt_quote_ttl = 300, pt_effective_from = Some 0,
     pt_published_by = ''root''\<rparr>"

definition demo_grant :: grant_input where
  "demo_grant = \<lparr>ge_tenant = ''acme'', ge_capability = ''mctl://cap'', ge_units = 3, ge_invoice = ''in1'',
     ge_expires_at = Some 1000000000, ge_actor = ''root'', ge_reason = ''''\<rparr>"

definition demo_quote :: mint_quote_input where
  "demo_quote = \<lparr>mq_capability_id = ''mctl://cap'', mq_schema_hash = demo_digest, mq_ids = demo_ids,
     mq_args_digest = demo_digest\<rparr>"

definition demo_accept :: accept_input where
  "demo_accept = \<lparr>ac_quote_id = ''cq_2'', ac_quote_digest = demo_digest, ac_idempotency_key = ''k1'',
     ac_ids = demo_ids, ac_args_digest = demo_digest, ac_approval_id = '''', ac_terms_binding = ''''\<rparr>"

definition demo_budget :: set_budget_input where
  "demo_budget = \<lparr>sb_tenant = ''acme'', sb_payer = ''acme-main'', sb_currency = ''EUR'',
     sb_monthly_limit = 400, sb_per_request_max = 300, sb_actor = ''root'', sb_reason = ''setup''\<rparr>"

definition demo_reserve :: reserve_input where
  "demo_reserve = \<lparr>ri_tenant = ''acme'', ri_invocation = ''inv_3'', ri_actor = ''alice''\<rparr>"

definition demo_rail :: adapter where
  "demo_rail = SimulatedAuthorizer 5000000 ''9''"

definition demo_dispatch :: dispatch_input where
  "demo_dispatch = \<lparr>di_tenant = ''acme'', di_invocation = ''inv_3'', di_actor = ''gateway'', di_note = ''''\<rparr>"

definition demo_signer :: signer where
  "demo_signer = \<lparr>sg_key_id = ''key1'', sg_sign = (\<lambda>m. ''sig'')\<rparr>"

definition demo_sent :: transition_input where
  "demo_sent = edge_input ''inv_3'' PhaseDispatching PhaseDispatched ''gateway''"

definition demo_finalize :: finalize_input where
  "demo_finalize = \<lparr>fi_tenant = ''acme'', fi_invocation = ''inv_3'', fi_actor = ''gateway'',
     fi_outcome = Val OutcomeSucceeded, fi_usage = None, fi_note = ''''\<rparr>"

definition demo_release :: release_input where
  "demo_release = \<lparr>li_tenant = ''acme'', li_invocation = ''inv_3'', li_actor = ''gateway'',
     li_reason = ''cancelled'', li_note = ''''\<rparr>"

section \<open>The ledgers\<close>

definition demo_quoted :: cdb where
  "demo_quoted = empty_cdb
     \<lparr>cd_terms := [\<lparr>t_terms_id = ''ctm_0'', t_version = 1, t_capability_id = ''mctl://cap'',
         t_schema_hash = demo_digest, t_provider_id = ''prov'', t_price_mode = PriceModePerCall,
         t_price = demo_price, t_funds_mode = FundsModeSimulated, t_quote_ttl = 300,
         t_effective_from = 0, t_retired_at = None, t_published_by = ''root'', t_created_at = 1000000\<rparr>],
      cd_quotes := [\<lparr>q_id = ''cq_2'', q_terms_id = ''ctm_0'', q_terms_version = 1,
         q_capability_id = ''mctl://cap'', q_schema_hash = demo_digest, q_ids = demo_ids,
         q_args_digest = demo_digest, q_price_mode = PriceModePerCall, q_price = demo_price,
         q_funds_mode = FundsModeSimulated, q_expires_at = 303000000, q_digest = demo_digest,
         q_created_at = 3000000\<rparr>],
      cd_budgets := [\<lparr>b_tenant = ''acme'', b_payer = ''acme-main'', b_currency = ''EUR'',
         b_funds_mode = FundsModeSimulated, b_monthly_limit = 400, b_per_request_max = 300,
         b_created_at = 2000000, b_updated_at = 2000000, b_version = 1\<rparr>],
      cd_changes := [\<lparr>bc_seq = 1, bc_tenant = ''acme'', bc_payer = ''acme-main'', bc_actor = ''root'',
         bc_reason = ''setup'', bc_old = None, bc_new_currency = ''EUR'', bc_new_monthly_limit = 400,
         bc_new_per_request_max = 300, bc_recorded_at = 2000000\<rparr>],
      cd_entitlements := [\<lparr>n_id = ''ent_1'', n_tenant = ''acme'', n_capability = ''mctl://cap'',
         n_total = 3, n_remaining = 3, n_reserved = 0, n_invoice = ''in1'', n_granted_by = ''root'',
         n_reason = '''', n_status = EntitlementActive, n_expires_at = 1000000000,
         n_created_at = 2000000, n_updated_at = 2000000\<rparr>]\<rparr>"

definition demo_invocation :: invocation where
  "demo_invocation = \<lparr>v_id = ''inv_3'', v_quote_id = ''cq_2'', v_quote_digest = demo_digest,
     v_quote_expires_at = 303000000, v_terms_id = ''ctm_0'', v_terms_version = 1,
     v_capability_id = ''mctl://cap'', v_provider_id = ''prov'', v_ids = demo_ids,
     v_idempotency_key = ''k1'', v_args_digest = demo_digest, v_price_mode = PriceModePerCall,
     v_price = demo_price, v_funds_mode = FundsModeSimulated, v_phase = PhaseAccepted,
     v_outcome = OutcomeNotDispatched, v_usage = None, v_charge = ChargeNone,
     v_payment = PaymentNone, v_settlement = SettlementNotApplicable, v_reason = '''',
     v_approval_id = '''', v_reservation_deadline = None, v_reconciliation_deadline = 86404000000,
     v_created_at = 4000000, v_updated_at = 4000000, v_finalized_at = None, v_version = 1,
     v_dispatch_deadline = None\<rparr>"

definition demo_event :: "nat \<Rightarrow> phase option \<Rightarrow> phase \<Rightarrow> string \<Rightarrow> gotime \<Rightarrow> transition_row" where
  "demo_event n p q actor t = \<lparr>h_seq = n, h_invocation = ''inv_3'', h_from = p, h_to = q, h_reason = '''',
     h_actor = actor, h_note = '''', h_recorded_at = t\<rparr>"

definition demo_accepted :: cdb where
  "demo_accepted = demo_quoted
     \<lparr>cd_invocations := [demo_invocation],
      cd_history := [demo_event 1 None PhaseAccepted ''alice'' 4000000]\<rparr>"

definition demo_held :: invocation where
  "demo_held = demo_invocation\<lparr>v_phase := PhaseReserved, v_charge := ChargeReserved,
     v_payment := PaymentAuthorized, v_reservation_deadline := Some 905000000,
     v_updated_at := 5000000, v_version := 2\<rparr>"

definition demo_reservation :: reservation where
  "demo_reservation = \<lparr>s_id = ''rsv_5'', s_invocation = ''inv_3'', s_tenant = ''acme'',
     s_payer = ''acme-main'', s_period = ''1970-01'', s_currency = ''EUR'', s_amount = 250,
     s_status = ReservationHeld, s_authorization = ''sauth_9'', s_capture = '''',
     s_deadline = 905000000, s_created_at = 5000000, s_updated_at = 5000000\<rparr>"

definition demo_payment :: payment_row where
  "demo_payment = \<lparr>p_key = ''mctl-pay/v1:inv_3:authorize'', p_invocation = ''inv_3'',
     p_operation = PaymentOpAuthorize, p_tenant = ''acme'', p_payer = ''acme-main'',
     p_money = demo_price, p_funds_mode = Val FundsModeSimulated, p_quote_digest = demo_digest,
     p_authorization = '''', p_result = PaymentResultAuthorized, p_result_id = ''sauth_9'',
     p_reason = '''', p_settlement = Val SettlementNotApplicable, p_recorded_at = 5000000\<rparr>"

definition demo_reserved :: cdb where
  "demo_reserved = demo_accepted
     \<lparr>cd_invocations := [demo_held],
      cd_history := [demo_event 1 None PhaseAccepted ''alice'' 4000000,
                     demo_event 2 (Some PhaseAccepted) PhaseReserved ''alice'' 5000000],
      cd_reservations := [demo_reservation],
      cd_payments := [demo_payment],
      cd_entitlements := [\<lparr>n_id = ''ent_1'', n_tenant = ''acme'', n_capability = ''mctl://cap'',
         n_total = 3, n_remaining = 2, n_reserved = 1, n_invoice = ''in1'', n_granted_by = ''root'',
         n_reason = '''', n_status = EntitlementActive, n_expires_at = 1000000000,
         n_created_at = 2000000, n_updated_at = 5000000\<rparr>],
      cd_allocations := [\<lparr>al_id = ''alc_4'', al_entitlement = ''ent_1'', al_invocation = ''inv_3'',
         al_units = 1, al_state = AllocationHeld, al_recorded_at = 5000000\<rparr>]\<rparr>"

definition demo_dispatching :: cdb where
  "demo_dispatching = demo_reserved
     \<lparr>cd_invocations := [demo_held\<lparr>v_phase := PhaseDispatching, v_updated_at := 6000000, v_version := 3,
                           v_dispatch_deadline := Some 66000000\<rparr>],
      cd_history := cd_history demo_reserved @
        [demo_event 3 (Some PhaseReserved) PhaseDispatching ''gateway'' 6000000]\<rparr>"

definition demo_dispatched :: cdb where
  "demo_dispatched = demo_dispatching
     \<lparr>cd_invocations := [demo_held\<lparr>v_phase := PhaseDispatched, v_updated_at := 7000000, v_version := 4,
                           v_dispatch_deadline := Some 66000000\<rparr>],
      cd_history := cd_history demo_dispatching @
        [demo_event 4 (Some PhaseDispatching) PhaseDispatched ''gateway'' 7000000]\<rparr>"

definition demo_finalized :: cdb where
  "demo_finalized = fst (Finalize demo_rail TxOk 8000000 demo_finalize demo_dispatched)"

section \<open>Each is what the machine leaves\<close>

lemma demo_quote_run:
  "cm_run demo_hash (CmQuote ''2'' demo_quote) TxOk 3000000
     (cm_run demo_hash (CmGrant ''1'' demo_grant) TxOk 2000000
     (cm_run demo_hash (CmSetBudget demo_budget) TxOk 2000000
     (cm_run demo_hash (CmPublish ''0'' demo_publish) TxOk 1000000 empty_cdb))) = demo_quoted"
  by code_simp

lemma demo_accept_run:
  "AcceptInvocation demo_hash TxOk 4000000 ''3'' demo_accept demo_quoted =
     (demo_accepted, Inr (demo_invocation, False))"
  by code_simp

lemma demo_reserve_run:
  "Reserve demo_rail TxOk 5000000 (''4'', ''5'') demo_reserve demo_accepted =
     (demo_reserved, Inr (\<lparr>rs_invocation = demo_held, rs_reservation = Some demo_reservation,
                          rs_replayed = False\<rparr>, None))"
  by code_simp

lemma demo_dispatch_run:
  "cm_run demo_hash (CmDispatch (Some demo_signer) demo_dispatch) TxOk 6000000 demo_reserved = demo_dispatching"
  by code_simp

lemma demo_sent_run:
  "cm_run demo_hash (CmTransition ''acme'' demo_sent) TxOk 7000000 demo_dispatching = demo_dispatched"
  by code_simp

lemma demo_finalized_rows:
  "cd_reservations demo_finalized =
     [demo_reservation\<lparr>s_status := ReservationCaptured, s_capture := ''scap_9'', s_updated_at := 8000000\<rparr>]"
  "map v_phase (cd_invocations demo_finalized) = [PhaseFinalized]"
  "map v_charge (cd_invocations demo_finalized) = [ChargeCaptured]"
  "map n_remaining (cd_entitlements demo_finalized) = [2]"
  "map n_reserved (cd_entitlements demo_finalized) = [0]"
  by code_simp+

lemma demo_rail_ok: "payment_rail demo_rail"
  unfolding demo_rail_def by (rule simulated.payment_rail_axioms)

lemma demo_reach:
  "creach demo_hash demo_quoted" "creach demo_hash demo_accepted" "creach demo_hash demo_reserved"
  "creach demo_hash demo_dispatching" "creach demo_hash demo_dispatched" "creach demo_hash demo_finalized"
proof -
  show q: "creach demo_hash demo_quoted"
    unfolding demo_quote_run [symmetric] by (intro c_run c_start) simp_all
  show a: "creach demo_hash demo_accepted"
    using c_run [OF q, of "CmAccept ''3'' demo_accept" TxOk 4000000] demo_accept_run by simp
  show r: "creach demo_hash demo_reserved"
    using c_run [OF a, of "CmReserve demo_rail (''4'', ''5'') demo_reserve" TxOk 5000000] demo_reserve_run demo_rail_ok
    by simp
  show d: "creach demo_hash demo_dispatching"
    unfolding demo_dispatch_run [symmetric] by (rule c_run [OF r]) simp
  show s: "creach demo_hash demo_dispatched"
    unfolding demo_sent_run [symmetric] by (rule c_run [OF d]) simp
  show "creach demo_hash demo_finalized"
    using c_run [OF s, of "CmFinalize demo_rail demo_finalize" TxOk 8000000] demo_rail_ok
    by (simp add: demo_finalized_def)
qed

end
