(* ===== verification/Commerce_Holds.thy ===== *)
theory Commerce_Holds
  imports Commerce_Demo
begin

text \<open>
  What the ledger guarantees about holds: the spending cap, one hold per invocation with the
  status its phase asks for, and the state machine of an invocation.  They follow from the
  step relation and the invariant of \<open>Commerce_Step\<close> on every ledger the machine reaches.
\<close>

section \<open>What one step does to a row\<close>

definition graph_edge :: "phase \<Rightarrow> phase \<Rightarrow> bool" where
  "graph_edge p q \<longleftrightarrow> q \<in> set (allowedTransitions p)"

lemma hold_step_row:
  assumes "hold_step (vs, rs, bs, cs) (vs', rs', bs', cs')" and "tselect v_id vs i = Some v"
  shows "\<exists>v'. tselect v_id vs' i = Some v' \<and> same_terms v v' \<and>
    (v_phase v' = v_phase v \<or> graph_edge (v_phase v) (v_phase v')) \<and> (IsTerminal (v_phase v) \<longrightarrow> v' = v)"
  using assms(1)
proof cases
  case hs_stay
  with assms(2) show ?thesis by simp
next
  case (hs_accept w)
  with assms(2) show ?thesis by (auto simp: tsel_new)
next
  case (hs_refuse w w')
  with assms(2) show ?thesis by (auto simp: tselect_tput same_terms_def graph_edge_def IsTerminal_def)
next
  case (hs_move w w')
  with assms(2) show ?thesis
    by (auto simp: tselect_tput same_terms_def graph_edge_def dest: live_not_terminal)
next
  case (hs_authorized w w' r r')
  with assms(2) show ?thesis by (auto simp: tselect_tput same_terms_def IsTerminal_def)
next
  case (hs_hold w w' r b)
  with assms(2) show ?thesis by (auto simp: tselect_tput same_terms_def graph_edge_def IsTerminal_def)
next
  case (hs_settle w w' r r')
  with assms(2) show ?thesis
    by (auto simp: tselect_tput same_terms_def graph_edge_def dest: live_not_terminal)
next
  case (hs_budget b prior c)
  with assms(2) show ?thesis by simp
qed

lemma same_terms_trans: "same_terms u v \<Longrightarrow> same_terms v w \<Longrightarrow> same_terms u w"
  by (simp add: same_terms_def)

lemma hold_steps_row:
  assumes "hold_step\<^sup>*\<^sup>* x y" and "tselect v_id (fst x) i = Some v"
  shows "\<exists>v'. tselect v_id (fst y) i = Some v' \<and> same_terms v v' \<and>
    graph_edge\<^sup>*\<^sup>* (v_phase v) (v_phase v') \<and> (IsTerminal (v_phase v) \<longrightarrow> v' = v)"
  using assms(1)
proof (induction rule: rtranclp_induct)
  case base
  with assms(2) show ?case by simp
next
  case (step y z)
  then obtain v1 where v1: "tselect v_id (fst y) i = Some v1" "same_terms v v1"
      "graph_edge\<^sup>*\<^sup>* (v_phase v) (v_phase v1)" "IsTerminal (v_phase v) \<longrightarrow> v1 = v"
    by blast
  obtain v2 where v2: "tselect v_id (fst z) i = Some v2" "same_terms v1 v2"
      "v_phase v2 = v_phase v1 \<or> graph_edge (v_phase v1) (v_phase v2)" "IsTerminal (v_phase v1) \<longrightarrow> v2 = v1"
    using hold_step_row [of "fst y" "fst (snd y)" "fst (snd (snd y))" "snd (snd (snd y))"
        "fst z" "fst (snd z)" "fst (snd (snd z))" "snd (snd (snd z))" i v1] step.hyps(2) v1(1) by auto
  have "graph_edge\<^sup>*\<^sup>* (v_phase v) (v_phase v2)"
    using v1(3) v2(3) by (metis rtranclp.rtrancl_into_rtrancl)
  with v1 v2 same_terms_trans [OF v1(2) v2(2)] show ?case by blast
qed

text \<open>
  The reconciler runs many transactions in one call.  Each ends an invocation or leaves its phase, and
  an ended one is not touched again, so the whole sweep moves an invocation along one edge at most.
\<close>

definition swept :: "cdb \<Rightarrow> cdb \<Rightarrow> bool" where
  "swept db db' \<longleftrightarrow> (\<forall>i v. isel db i = Some v \<longrightarrow> (\<exists>v'. isel db' i = Some v' \<and>
     (v_phase v' = v_phase v \<or> graph_edge (v_phase v) (v_phase v') \<and> IsTerminal (v_phase v')) \<and>
     (IsTerminal (v_phase v) \<longrightarrow> v' = v)))"

lemma swept_refl: "swept db db"
  by (simp add: swept_def)

lemma swept_trans:
  assumes "swept db db1" and "swept db1 db2"
  shows "swept db db2"
  unfolding swept_def
proof (intro allI impI)
  fix i v assume "isel db i = Some v"
  with assms(1) obtain v1 where v1: "isel db1 i = Some v1"
      "v_phase v1 = v_phase v \<or> graph_edge (v_phase v) (v_phase v1) \<and> IsTerminal (v_phase v1)"
      "IsTerminal (v_phase v) \<longrightarrow> v1 = v" unfolding swept_def by blast
  with assms(2) obtain v2 where "isel db2 i = Some v2"
      "v_phase v2 = v_phase v1 \<or> graph_edge (v_phase v1) (v_phase v2) \<and> IsTerminal (v_phase v2)"
      "IsTerminal (v_phase v1) \<longrightarrow> v2 = v1" unfolding swept_def by blast
  with v1 show "\<exists>v'. isel db2 i = Some v' \<and>
      (v_phase v' = v_phase v \<or> graph_edge (v_phase v) (v_phase v') \<and> IsTerminal (v_phase v')) \<and>
      (IsTerminal (v_phase v) \<longrightarrow> v' = v)" by auto
qed

lemma swept_step:
  assumes "hold_step (holds_of db) (holds_of db')" and "IsTerminal p"
    and "\<And>i v v'. isel db i = Some v \<Longrightarrow> isel db' i = Some v' \<Longrightarrow> v_phase v' = v_phase v \<or> v_phase v' = p"
  shows "swept db db'"
  unfolding swept_def
proof (intro allI impI)
  fix i v assume v: "isel db i = Some v"
  from hold_step_row [OF assms(1) [unfolded holds_of_def] v] obtain v' where v': "isel db' i = Some v'"
      "v_phase v' = v_phase v \<or> graph_edge (v_phase v) (v_phase v')" "IsTerminal (v_phase v) \<longrightarrow> v' = v" by blast
  with assms(2) assms(3) [OF v v'(1)] show "\<exists>v'. isel db' i = Some v' \<and>
      (v_phase v' = v_phase v \<or> graph_edge (v_phase v) (v_phase v') \<and> IsTerminal (v_phase v')) \<and>
      (IsTerminal (v_phase v) \<longrightarrow> v' = v)" by auto
qed

text \<open>Where a transition and a release take an invocation.\<close>

lemma applyTransition_target:
  assumes "applyTransition now tenant inp db = Inr (db', x)" and "isel db i = Some v" and "isel db' i = Some v'"
  shows "v_phase v' = v_phase v \<or> ti_to inp = Val (v_phase v')"
  using assms(1)
proof (rule applyTransition_Inr, goal_cases)
  case (1 cur to)
  with assms(2,3) show ?case by (auto simp: tselect_tput moved_invocation_def split: if_splits)
qed

lemma swept_refusal:
  assumes "ti_to inp = Val PhaseRefused"
  shows "swept db (fst (Transition fault now tenant inp db))"
proof (rule swept_step [where p = PhaseRefused])
  show "hold_step (holds_of db) (holds_of (fst (Transition fault now tenant inp db)))"
    by (rule transition_step) (use assms in \<open>simp add: ownedEdges_def\<close>)
  fix i v v' assume v: "isel db i = Some v" "isel (fst (Transition fault now tenant inp db)) i = Some v'"
  consider "fst (Transition fault now tenant inp db) = db"
    | x where "applyTransition now tenant inp db = Inr (fst (Transition fault now tenant inp db), x)"
    unfolding Transition_def
    using precheck_fst [of "checkText tenant MaxIDBytes True" db "withTx fault db (applyTransition now tenant inp db)"]
      precheck_fst [of "transition_validate inp" db "precheck (checkText tenant MaxIDBytes True) db (withTx fault db (applyTransition now tenant inp db))"]
      withTx_fst [of fault db "applyTransition now tenant inp db"] by metis
  then show "v_phase v' = v_phase v \<or> v_phase v' = PhaseRefused"
  proof cases
    case 2
    from applyTransition_target [OF 2 v] assms show ?thesis by auto
  qed (use v in simp)
qed (simp add: IsTerminal_def)

lemma swept_release:
  assumes "payment_rail A" and ok: "ledger_ok (holds_of db)"
  shows "swept db (fst (ReleaseHold A fault now inp db))"
proof (rule swept_step [where p = PhaseReleased])
  show "hold_step (holds_of db) (holds_of (fst (ReleaseHold A fault now inp db)))"
    by (rule release_step [OF assms])
  fix i v v' assume v: "isel db i = Some v" "isel (fst (ReleaseHold A fault now inp db)) i = Some v'"
  show "v_phase v' = v_phase v \<or> v_phase v' = PhaseReleased"
  proof (rule precheck_withTx [of "release_validate inp" db fault "release_body A now inp db"], fold ReleaseHold_def)
    assume "fst (ReleaseHold A fault now inp db) = db"
    with v show ?thesis by simp
  next
    fix x assume "release_body A now inp db = Inr (fst (ReleaseHold A fault now inp db), x)"
    then show ?thesis
    proof (cases rule: release_bodyE)
      case (settled cur r db1 payment db2 updated w)
      have "auth_frame r db db1"
        by (rule payment_rail.void_charge [OF assms(1) reservation_by_id [OF ok settled(3)] settled(5)])
      then have "cd_invocations db1 = cd_invocations db" by (rule auth_frame_sel)
      moreover have "cd_invocations db2 = cd_invocations db1"
        using settled(6) by (auto simp: setReservationStatus_def split: prod.splits option.splits)
      ultimately have "isel (releaseEntitlementUnit now (v_id cur) db2) i = Some v"
        using v(1) by (simp add: releaseEntitlementUnit_def)
      from applyTransition_target [OF settled(7) this v(2)] show ?thesis by (auto simp: edge_input_def)
    qed (use v in simp)
  qed
qed (simp add: IsTerminal_def)

lemma refuse_stale_swept: "swept db (fst (refuse_stale fault now actor refs db out))"
proof (induction fault now actor refs db out rule: refuse_stale.induct)
  case (2 fault now actor tenant i refs db out)
  define inp where "inp = (edge_input i PhaseAccepted PhaseRefused actor)
    \<lparr>ti_reason := ReasonQuoteExpired, ti_note := ''reconciler: quote expired with nothing reserved''\<rparr>"
  obtain db' r where tr: "Transition (fault i) now tenant inp db = (db', r)" by fastforce
  have "swept db db'"
    using swept_refusal [of inp db "fault i" now tenant] tr by (simp add: inp_def edge_input_def)
  moreover have "swept db' (fst (refuse_stale fault now actor ((tenant, i) # refs) db out))"
    using "2.IH" tr by (cases r) (auto simp: inp_def [symmetric] swept_refl)
  ultimately show ?case by (rule swept_trans)
qed (simp add: swept_refl)

lemma release_stale_swept:
  assumes "\<And>i. payment_rail (A i)"
  shows "ledger_ok (holds_of db) \<Longrightarrow> swept db (fst (release_stale A fault now actor refs db out))"
  using assms
proof (induction A fault now actor refs db out rule: release_stale.induct)
  case (2 A fault now actor tenant i refs db out)
  define inp where "inp = \<lparr>li_tenant = tenant, li_invocation = i, li_actor = actor,
    li_reason = ReasonReservationExpired,
    li_note = ''reconciler: reservation deadline passed with no dispatch intent''\<rparr>"
  obtain db' r where tr: "ReleaseHold (A i) (fault i) now inp db = (db', r)" by fastforce
  have "ledger_ok (holds_of db')"
    using hold_step_ledger_ok [OF release_step [OF "2.prems"(2,1), of i "fault i" now inp] "2.prems"(1)] tr by simp
  then have "swept db' (fst (release_stale A fault now actor ((tenant, i) # refs) db out))"
    using "2.IH" "2.prems"(2) tr by (cases r) (auto simp: inp_def [symmetric] swept_refl)
  moreover have "swept db db'"
    using swept_release [OF "2.prems"(2,1), of i "fault i" now inp] tr by simp
  ultimately show ?case using swept_trans by blast
qed (simp add: swept_refl)

lemma expire_swept:
  assumes "\<And>i. payment_rail (A i)" and "ledger_ok (holds_of db)"
  shows "swept db (fst (ExpireStale A faults now actor limit db))"
proof (cases "checkText actor MaxIDBytes True")
  case (Some e)
  then show ?thesis by (simp add: ExpireStale_def swept_refl)
next
  case None
  obtain db1 refused err where r: "refuse_stale faults now actor
      (stale PhaseAccepted (\<lambda>v. Some (v_quote_expires_at v)) now (page_limit limit) db) db [] = (db1, refused, err)"
    by (metis prod_cases3)
  then have s1: "swept db db1" "ledger_ok (holds_of db1)"
    using refuse_stale_swept steps_ledger_ok [OF refuse_stale_steps assms(2)] by (metis fst_conv)+
  show ?thesis
  proof (cases err)
    case (Some e)
    with None r s1 show ?thesis by (simp add: ExpireStale_def)
  next
    case err: None
    obtain db2 released unresolved err2 where r2: "release_stale A faults now actor
        (stale PhaseReserved v_reservation_deadline now (page_limit limit) db1) db1 ([], []) =
        (db2, (released, unresolved), err2)"
      by (metis prod_cases3 surj_pair)
    have "swept db1 db2"
      using release_stale_swept [where A = A and fault = faults and now = now and actor = actor and db = db1
        and refs = "stale PhaseReserved v_reservation_deadline now (page_limit limit) db1" and out = "([], [])",
        OF assms(1) s1(2)]
      unfolding r2 fst_conv .
    with s1 have "swept db db2" by (blast intro: swept_trans)
    with None err r r2 show ?thesis by (simp add: ExpireStale_def)
  qed
qed

lemma cm_run_step:
  assumes "ledger_ok (holds_of db)" and "rail_ok op" and "\<nexists>A faults actor limit. op = CmExpire A faults actor limit"
  shows "hold_step (holds_of db) (holds_of (cm_run H op f now db))"
  using assms
  by (cases op) (simp_all add: publish_step retire_terms_step quote_step accept_step
    handler_step dispatch_step budget_step reserve_step finalize_step release_step grant_step
    retire_entitlement_step)

lemma cm_run_row:
  assumes "creach H db" and "rail_ok op" and "tselect v_id (cd_invocations db) i = Some v"
  shows "\<exists>v'. tselect v_id (cd_invocations (cm_run H op f now db)) i = Some v' \<and> same_terms v v' \<and>
    (v_phase v' = v_phase v \<or> graph_edge (v_phase v) (v_phase v')) \<and> (IsTerminal (v_phase v) \<longrightarrow> v' = v)"
proof (cases "\<exists>A faults actor limit. op = CmExpire A faults actor limit")
  case True
  then obtain A faults actor limit where op: "op = CmExpire A faults actor limit" by blast
  have rails: "\<And>i. payment_rail (A i)" using assms(2) op by simp
  from expire_swept [where A = A and faults = faults and now = now and actor = actor and limit = limit, OF rails creach_ledger_ok [OF assms(1)]] assms(3)
  have "\<exists>v'. isel (cm_run H op f now db) i = Some v' \<and> (v_phase v' = v_phase v \<or> graph_edge (v_phase v) (v_phase v'))"
    unfolding op cm_run.simps swept_def by blast
  moreover have "\<exists>v'. isel (cm_run H op f now db) i = Some v' \<and> same_terms v v' \<and> (IsTerminal (v_phase v) \<longrightarrow> v' = v)"
    using hold_steps_row [OF cm_run_refines [OF creach_ledger_ok [OF assms(1)] assms(2)], of i v H f now] assms(3)
    by (auto simp: holds_of_def)
  ultimately show ?thesis by auto
next
  case False
  then have "hold_step (holds_of db) (holds_of (cm_run H op f now db))"
    by (rule cm_run_step [OF creach_ledger_ok [OF assms(1)] assms(2)])
  from hold_step_row [OF this [unfolded holds_of_def] assms(3)] show ?thesis .
qed

lemma filter_unique_key:
  "unique_key key rows \<Longrightarrow> filter (\<lambda>r. key r = k) rows = (case tselect key rows k of None \<Rightarrow> [] | Some r \<Rightarrow> [r])"
proof (induction rows)
  case Nil
  then show ?case by (simp add: tselect_def)
next
  case (Cons x xs)
  then have "unique_key key xs" by (simp add: unique_key_def)
  moreover have "tselect key xs (key x) = None"
    using Cons.prems by (auto simp: unique_key_def tselect_None_iff)
  ultimately show ?case using Cons.IH by (auto simp: tselect_def)
qed

section \<open>The properties\<close>

text \<open>
  C2: However the operations of the ledger interleave, with any rail that keeps its
  interface and any fault of PostgreSQL, what an account holds and has captured in a month
  is never above the highest monthly limit it was ever given.
\<close>

theorem spending_cap:
  assumes "creach H db"
  shows "sum_list (map (\<lambda>r. if account_of r = acct \<and> s_period r = p \<and> s_status r \<noteq> ReservationReleased
           then s_amount r else 0) (cd_reservations db)) \<le> max_limit acct (cd_changes db)"
proof -
  have "caps_ok (cd_reservations db) (cd_budgets db) (cd_changes db)"
    using creach_ledger_ok [OF assms] by (simp add: holds_of_def)
  then show ?thesis unfolding caps_ok_def spent_def by blast
qed

theorem spending_cap_witness:
  "sum_list (map (\<lambda>r. if account_of r = (''acme'', ''acme-main'') \<and> s_period r = ''1970-01'' \<and>
       s_status r \<noteq> ReservationReleased then s_amount r else 0) (cd_reservations demo_reserved)) = 250 \<and>
   250 \<le> max_limit (''acme'', ''acme-main'') (cd_changes demo_reserved)"
proof -
  have "sum_list (map (\<lambda>r. if account_of r = (''acme'', ''acme-main'') \<and> s_period r = ''1970-01'' \<and>
       s_status r \<noteq> ReservationReleased then s_amount r else 0) (cd_reservations demo_reserved)) = 250"
    by code_simp
  with spending_cap [OF demo_reach(3), of "(''acme'', ''acme-main'')" "''1970-01''"] show ?thesis by simp
qed

text \<open>
  An invocation that was ever reserved has exactly one reservation, no other has one, and
  the reservation is for its price, its account and its currency; it is held while the
  invocation is in flight, captured exactly when it was finalized with a captured charge,
  and released exactly when its charge was given back.
\<close>

theorem one_hold_per_invocation:
  assumes "creach H db" and "tselect v_id (cd_invocations db) i = Some v"
  shows "case filter (\<lambda>r. s_invocation r = i) (cd_reservations db) of
      [] \<Rightarrow> v_phase v \<in> {PhaseAccepted, PhaseRefused} \<and> v_charge v = ChargeNone
    | [r] \<Rightarrow> describes r v \<and>
        (case s_status r of
           ReservationHeld \<Rightarrow> v_phase v \<in> {PhaseReserved, PhaseDispatching, PhaseDispatched, PhaseOutcomeUnknown}
         | ReservationCaptured \<Rightarrow> v_phase v = PhaseFinalized \<and> v_charge v = ChargeCaptured
         | ReservationReleased \<Rightarrow> v_phase v \<in> {PhaseReleased, PhaseFinalized} \<and> v_charge v = ChargeReleased)
    | _ \<Rightarrow> False"
proof -
  have k: "unique_key s_invocation (cd_reservations db)"
    and m: "holds_match (cd_invocations db) (cd_reservations db)"
    using creach_ledger_ok [OF assms(1)] by (simp_all add: holds_of_def keys_ok_def)
  show ?thesis
  proof (cases "tselect s_invocation (cd_reservations db) i")
    case None
    with hold_of_row [OF m assms(2)] show ?thesis
      unfolding filter_unique_key [OF k] by (auto simp: hold_ok_def has_hold_def split: if_splits)
  next
    case (Some r)
    with hold_of_row [OF m assms(2)] have "fits r v" by (auto simp: hold_ok_def split: if_splits)
    with Some show ?thesis
      unfolding filter_unique_key [OF k]
      by (cases "s_status r") (auto simp: fits_def status_fits_def live_phase_def)
  qed
qed

theorem one_hold_per_invocation_witness:
  "tselect v_id (cd_invocations demo_reserved) ''inv_3'' = Some demo_held \<and>
   (case filter (\<lambda>r. s_invocation r = ''inv_3'') (cd_reservations demo_reserved) of
      [] \<Rightarrow> v_phase demo_held \<in> {PhaseAccepted, PhaseRefused} \<and> v_charge demo_held = ChargeNone
    | [r] \<Rightarrow> describes r demo_held \<and>
        (case s_status r of
           ReservationHeld \<Rightarrow> v_phase demo_held \<in> {PhaseReserved, PhaseDispatching, PhaseDispatched, PhaseOutcomeUnknown}
         | ReservationCaptured \<Rightarrow> v_phase demo_held = PhaseFinalized \<and> v_charge demo_held = ChargeCaptured
         | ReservationReleased \<Rightarrow> v_phase demo_held \<in> {PhaseReleased, PhaseFinalized} \<and> v_charge demo_held = ChargeReleased)
    | _ \<Rightarrow> False)"
proof -
  have row: "tselect v_id (cd_invocations demo_reserved) ''inv_3'' = Some demo_held" by code_simp
  from row one_hold_per_invocation [OF demo_reach(3) row] show ?thesis by (rule conjI)
qed

text \<open>
  C13: Whatever operation runs, an invocation stays in the ledger with its buyer, its price, its
  quote and its keys, and its phase stays or moves along one edge of the published graph: no call
  skips a phase, the reconciler's sweep of many transactions included.
\<close>

theorem phases_follow_the_graph:
  assumes "creach H db" and "rail_ok op" and "tselect v_id (cd_invocations db) i = Some v"
  shows "\<exists>v'. tselect v_id (cd_invocations (cm_run H op f now db)) i = Some v' \<and> same_terms v v' \<and>
    (v_phase v' = v_phase v \<or> v_phase v' \<in> set (allowedTransitions (v_phase v)))"
  using cm_run_row [OF assms, of f now] unfolding graph_edge_def by blast

theorem phases_follow_the_graph_witness:
  "\<exists>v'. tselect v_id (cd_invocations (cm_run demo_hash (CmDispatch (Some demo_signer) demo_dispatch) TxOk 6000000 demo_reserved))
      ''inv_3'' = Some v' \<and> same_terms demo_held v' \<and>
    (v_phase v' = v_phase demo_held \<or> v_phase v' \<in> set (allowedTransitions (v_phase demo_held)))"
  by (rule phases_follow_the_graph [OF demo_reach(3)]) (simp, code_simp)

text \<open>
  A refused, released or finalized invocation is never written again: no operation changes
  any column of its row, its charge, payment and settlement facts included.
\<close>

theorem terminal_rows_are_final:
  assumes "creach H db" and "rail_ok op" and "tselect v_id (cd_invocations db) i = Some v"
    and "v_phase v = PhaseRefused \<or> v_phase v = PhaseReleased \<or> v_phase v = PhaseFinalized"
  shows "tselect v_id (cd_invocations (cm_run H op f now db)) i = Some v"
  using cm_run_row [OF assms(1-3), of f now] assms(4) unfolding IsTerminal_def by auto

theorem terminal_rows_are_final_witness:
  "tselect v_id (cd_invocations (cm_run demo_hash (CmFinalize demo_rail (demo_finalize\<lparr>fi_outcome := Val OutcomeFailed\<rparr>))
      TxOk 9000000 demo_finalized)) ''inv_3'' = tselect v_id (cd_invocations demo_finalized) ''inv_3'' \<and>
   map_option v_charge (tselect v_id (cd_invocations demo_finalized) ''inv_3'') = Some ChargeCaptured"
proof -
  have "map_option (\<lambda>v. (v_phase v, v_charge v)) (tselect v_id (cd_invocations demo_finalized) ''inv_3'') =
      Some (PhaseFinalized, ChargeCaptured)"
    by code_simp
  then obtain v where v: "tselect v_id (cd_invocations demo_finalized) ''inv_3'' = Some v"
      "v_phase v = PhaseFinalized" "v_charge v = ChargeCaptured"
    by auto
  have "rail_ok (CmFinalize demo_rail (demo_finalize\<lparr>fi_outcome := Val OutcomeFailed\<rparr>))"
    using demo_rail_ok by simp
  from terminal_rows_are_final [OF demo_reach(6) this v(1), of TxOk 9000000] v show ?thesis by simp
qed

end
