(* ===== verification/Commerce_Intents.thy ===== *)
theory Commerce_Intents
  imports Commerce_Holds
begin

text \<open>
  What the ledger promises a buyer that retries: one invocation per quote, idempotency key and
  approval, and an acceptance that can be repeated at any later time.
\<close>

section \<open>One invocation per intent\<close>

definition intents_ok :: "invocation list \<Rightarrow> bool" where
  "intents_ok vs \<longleftrightarrow> (\<forall>v \<in> set vs. \<forall>w \<in> set vs. same_intent v w \<longrightarrow> v_id v = v_id w)"

lemma same_intent_terms: "same_terms v v' \<Longrightarrow> same_intent v' w = same_intent v w"
  "same_terms v v' \<Longrightarrow> same_intent w v' = same_intent w v"
  by (auto simp: same_terms_def same_intent_def)

lemma same_intent_sym: "same_intent v w \<Longrightarrow> same_intent w v"
  by (auto simp: same_intent_def)

lemma intents_ok_put:
  assumes "intents_ok vs" and "tselect v_id vs (v_id v) = Some v" and "same_terms v v'"
  shows "intents_ok (tput v_id vs v')"
proof -
  have v: "v \<in> set vs" using tselect_SomeD [OF assms(2)] by simp
  have old: "\<exists>w \<in> set vs. same_terms w x" if "x \<in> set (tput v_id vs v')" for x
    using set_tput [OF that] v assms(3) by (auto intro: bexI [of _ x])
  show ?thesis
    unfolding intents_ok_def
  proof (intro ballI impI)
    fix x y
    assume x: "x \<in> set (tput v_id vs v')" and y: "y \<in> set (tput v_id vs v')" and xy: "same_intent x y"
    obtain x0 where x0: "x0 \<in> set vs" "same_terms x0 x" using old [OF x] by blast
    obtain y0 where y0: "y0 \<in> set vs" "same_terms y0 y" using old [OF y] by blast
    from xy have "same_intent x0 y0"
      by (simp add: same_intent_terms [OF x0(2)] same_intent_terms [OF y0(2)])
    with assms(1) x0 y0 show "v_id x = v_id y"
      unfolding intents_ok_def by (metis same_terms_id)
  qed
qed

lemma hold_step_intents: "hold_step x y \<Longrightarrow> intents_ok (fst x) \<Longrightarrow> intents_ok (fst y)"
proof (induction rule: hold_step.induct)
  case (hs_accept vs v rs bs cs)
  then show ?case by (auto simp: intents_ok_def dest: same_intent_sym)
qed (simp_all add: intents_ok_put)

lemma hold_steps_intents: "hold_step\<^sup>*\<^sup>* x y \<Longrightarrow> intents_ok (fst x) \<Longrightarrow> intents_ok (fst y)"
  by (induction rule: rtranclp_induct) (auto dest: hold_step_intents)

lemma creach_intents: "creach H db \<Longrightarrow> intents_ok (cd_invocations db)"
proof (induction rule: creach.induct)
  case c_start
  show ?case by (simp add: empty_cdb_def intents_ok_def)
next
  case (c_run db op f now)
  from hold_steps_intents [OF cm_run_refines [OF creach_ledger_ok [OF c_run.hyps(1)] c_run.hyps(2)]] c_run.IH
  show ?case by (simp add: holds_of_def)
qed

lemma creach_ids: "creach H db \<Longrightarrow> unique_key v_id (cd_invocations db)"
  using creach_ledger_ok by (simp add: holds_of_def keys_ok_def)

section \<open>A sequence of operations\<close>

fun cm_runs :: "hash \<Rightarrow> (cm_op \<times> tx_fault \<times> gotime) list \<Rightarrow> cdb \<Rightarrow> cdb" where
  "cm_runs H [] db = db"
| "cm_runs H ((op, f, now) # ops) db = cm_runs H ops (cm_run H op f now db)"

lemma creach_runs:
  "creach H db \<Longrightarrow> list_all (\<lambda>(op, f, now). rail_ok op) ops \<Longrightarrow> creach H (cm_runs H ops db)"
  by (induction H ops db rule: cm_runs.induct) (auto intro: c_run)

lemma cm_runs_row:
  assumes "creach H db" and "list_all (\<lambda>(op, f, now). rail_ok op) ops"
    and "tselect v_id (cd_invocations db) i = Some v"
  shows "\<exists>v'. tselect v_id (cd_invocations (cm_runs H ops db)) i = Some v' \<and> same_terms v v'"
  using assms
proof (induction H ops db arbitrary: v rule: cm_runs.induct)
  case (1 H db)
  then show ?case by simp
next
  case (2 H op f now ops db)
  obtain v1 where v1: "tselect v_id (cd_invocations (cm_run H op f now db)) i = Some v1" "same_terms v v1"
    using cm_run_row [OF "2.prems"(1) _ "2.prems"(3), of op f now] "2.prems"(2) by auto
  have "creach H (cm_run H op f now db)" using "2.prems"(1,2) by (auto intro: c_run)
  from "2.IH" [OF this _ v1(1)] "2.prems"(2) same_terms_trans [OF v1(2)] show ?case by auto
qed

section \<open>Accepting again\<close>

lemma find_only:
  assumes "x \<in> set xs" and "P x" and "\<And>y. y \<in> set xs \<Longrightarrow> P y \<Longrightarrow> y = x"
  shows "find P xs = Some x"
proof (cases "find P xs")
  case None
  with assms(1,2) show ?thesis by (simp add: find_None_iff)
next
  case (Some y)
  then have "y \<in> set xs" "P y" by (auto simp: find_Some_iff)
  with Some assms(3) show ?thesis by simp
qed

text \<open>The row an idempotency key finds.\<close>

lemma accept_finds:
  assumes "creach H db" and "tselect v_id (cd_invocations db) i = Some v"
  shows "find (\<lambda>w. idem_scope w = idem_scope v) (cd_invocations db) = Some v"
proof (rule find_only)
  show v: "v \<in> set (cd_invocations db)" using tselect_SomeD [OF assms(2)] by blast
  fix w
  assume w: "w \<in> set (cd_invocations db)" "idem_scope w = idem_scope v"
  then have "same_intent w v" unfolding same_intent_def by blast
  with creach_intents [OF assms(1)] v w(1) have "v_id w = v_id v" unfolding intents_ok_def by blast
  with tsel_same [OF creach_ids [OF assms(1)] w(1) v] show "w = v" by blast
qed simp

text \<open>The row an acceptance answers with is in the ledger, with the scope and digest it asked for.\<close>

lemma accept_fresh_row:
  assumes "insert_invocation now v0 db = Inr (db', (v, rep))"
  shows "v = v0" "v \<in> set (cd_invocations db')"
  using assms by (auto simp: insert_invocation_def split: if_splits)

lemma accept_body_row:
  assumes "accept_body H now ulid inp db = Inr (db', (v, rep))"
  shows "v \<in> set (cd_invocations db') \<and> v_quote_digest v = ac_quote_digest inp \<and>
    idem_scope v = (id_tenant (ac_ids inp), id_principal (ac_ids inp), ac_idempotency_key inp)"
proof (cases "find (\<lambda>v. idem_scope v =
    (id_tenant (ac_ids inp), id_principal (ac_ids inp), ac_idempotency_key inp)) (cd_invocations db)")
  case (Some old)
  then have "old \<in> set (cd_invocations db)"
      "idem_scope old = (id_tenant (ac_ids inp), id_principal (ac_ids inp), ac_idempotency_key inp)"
    by (auto simp: find_Some_iff)
  moreover from assms Some have "db' = db" "v = old" "v_quote_digest old = ac_quote_digest inp"
    by (auto simp: accept_body_def split: if_splits)
  ultimately show ?thesis by blast
next
  case None
  with assms obtain q t where q: "accept_checks H now inp q db = Inr t"
      and ins: "insert_invocation now (accepted_invocation now ulid inp q t) db = Inr (db', (v, rep))"
    by (auto simp: accept_body_def result_iffs)
  from q have "q_digest q = ac_quote_digest inp"
    by (auto simp: accept_checks_def result_iffs first_error_None split: if_splits)
  with accept_fresh_row [OF ins] show ?thesis by (simp add: accepted_invocation_def)
qed

lemma accept_row:
  assumes "creach H db" and "AcceptInvocation H f now ulid inp db = (db', Inr (v, rep))"
  shows "accept_validate inp = None" "creach H db'"
    "tselect v_id (cd_invocations db') (v_id v) = Some v"
    "idem_scope v = (id_tenant (ac_ids inp), id_principal (ac_ids inp), ac_idempotency_key inp)"
    "v_quote_digest v = ac_quote_digest inp"
proof -
  from assms(2) have c: "accept_validate inp = None"
    and body: "accept_body H now ulid inp db = Inr (db', (v, rep))"
    by (simp_all add: AcceptInvocation_def precheck_Inr withTx_Inr)
  show "accept_validate inp = None" by (rule c)
  have "db' = cm_run H (CmAccept ulid inp) f now db" using assms(2) by simp
  then show r: "creach H db'" using c_run [OF assms(1), of "CmAccept ulid inp"] by simp
  note row = accept_body_row [OF body]
  show "tselect v_id (cd_invocations db') (v_id v) = Some v"
    using tsel_in [OF creach_ids [OF r]] row by blast
  show "idem_scope v = (id_tenant (ac_ids inp), id_principal (ac_ids inp), ac_idempotency_key inp)"
      "v_quote_digest v = ac_quote_digest inp"
    using row by blast+
qed

text \<open>
  C39: No two invocations of a reachable ledger share a quote, an idempotency key of one
  principal of one tenant, or an approval of one tenant.
\<close>

theorem one_invocation_per_intent:
  assumes "creach H db" and "v \<in> set (cd_invocations db)" and "w \<in> set (cd_invocations db)"
    and "v_quote_id v = v_quote_id w \<or>
      (id_tenant (v_ids v) = id_tenant (v_ids w) \<and> id_principal (v_ids v) = id_principal (v_ids w) \<and>
         v_idempotency_key v = v_idempotency_key w) \<or>
      (id_tenant (v_ids v) = id_tenant (v_ids w) \<and> v_approval_id v = v_approval_id w \<and> v_approval_id v \<noteq> '''')"
  shows "v = w"
proof -
  from assms(4) have "same_intent v w" unfolding same_intent_def by blast
  with creach_intents [OF assms(1)] assms(2,3) have "v_id v = v_id w" unfolding intents_ok_def by blast
  then show ?thesis using tsel_same [OF creach_ids [OF assms(1)] assms(2,3)] by blast
qed

text \<open>
  An acceptance that was answered can be repeated after any operations, with any clock: it
  writes nothing and answers with the same invocation, replayed; the same key for another
  quote digest is an idempotency conflict.
\<close>

theorem accept_can_be_repeated:
  assumes "creach H db" and "AcceptInvocation H f now ulid inp db = (db1, Inr (v, rep))"
    and "list_all (\<lambda>(op, f, now). rail_ok op) ops" and "later = cm_runs H ops db1"
    and "accept_validate inp' = None" and "ac_ids inp' = ac_ids inp"
    and "ac_idempotency_key inp' = ac_idempotency_key inp"
  shows "\<exists>v'. same_terms v v' \<and> tselect v_id (cd_invocations later) (v_id v) = Some v' \<and>
    AcceptInvocation H TxOk now' ulid' inp' later =
      (later, if ac_quote_digest inp' = ac_quote_digest inp then Inr (v', True) else Inl CeIdempotencyConflict)"
proof -
  note row = accept_row [OF assms(1,2)]
  obtain v' where v': "tselect v_id (cd_invocations later) (v_id v) = Some v'" "same_terms v v'"
    using cm_runs_row [OF row(2) assms(3) row(3)] assms(4) by blast
  have "creach H later" using creach_runs [OF row(2) assms(3)] assms(4) by simp
  from accept_finds [OF this v'(1)] have
    "find (\<lambda>w. idem_scope w = (id_tenant (ac_ids inp'), id_principal (ac_ids inp'), ac_idempotency_key inp'))
       (cd_invocations later) = Some v'"
    using row(4) v'(2) unfolding assms(6,7) by (simp add: same_terms_def)
  moreover have "v_quote_digest v' = ac_quote_digest inp"
    using v'(2) row(5) by (simp add: same_terms_def)
  ultimately have "AcceptInvocation H TxOk now' ulid' inp' later =
      (later, if ac_quote_digest inp' = ac_quote_digest inp then Inr (v', True) else Inl CeIdempotencyConflict)"
    by (simp add: AcceptInvocation_def accept_body_def withTx_def precheck_def assms(5))
  with v' show ?thesis by blast
qed

theorem accept_can_be_repeated_witness:
  "\<exists>v'. same_terms demo_invocation v' \<and>
     tselect v_id (cd_invocations demo_reserved) (v_id demo_invocation) = Some v' \<and>
     AcceptInvocation demo_hash TxOk 9000000 ''8'' demo_accept demo_reserved =
       (demo_reserved, if ac_quote_digest demo_accept = ac_quote_digest demo_accept then Inr (v', True)
                       else Inl CeIdempotencyConflict)"
proof -
  define ops where "ops = [(CmReserve demo_rail (''4'', ''5'') demo_reserve, TxOk, 5000000 :: gotime)]"
  have ok: "list_all (\<lambda>(op, f, now). rail_ok op) ops" and run: "demo_reserved = cm_runs demo_hash ops demo_accepted"
    using demo_rail_ok demo_reserve_run by (simp_all add: ops_def)
  have "accept_validate demo_accept = None" by code_simp
  from accept_can_be_repeated [OF demo_reach(1) demo_accept_run ok run this] show ?thesis by simp
qed

theorem one_invocation_per_intent_witness:
  "demo_held \<in> set (cd_invocations demo_reserved) \<and> hd (cd_invocations demo_reserved) = demo_held"
proof -
  have "demo_held \<in> set (cd_invocations demo_reserved)" "hd (cd_invocations demo_reserved) \<in> set (cd_invocations demo_reserved)"
      "v_quote_id (hd (cd_invocations demo_reserved)) = v_quote_id demo_held"
    by (simp_all add: demo_reserved_def)
  with one_invocation_per_intent [OF demo_reach(3)] show ?thesis by blast
qed

end
