(* ===== verification/Commerce_Retry.thy ===== *)
theory Commerce_Retry
  imports Commerce_Intents
begin

text \<open>
  Retries of the operations that move money: \<open>Reserve\<close>, \<open>Finalize\<close>, \<open>Release\<close> and \<open>Dispatch\<close>.
  A repeated call finds the row its first call wrote, so it answers with the same invocation
  and reservation and writes nothing.  Last, the encoding behind the quote digest, and an acceptance that is
  as it was quoted.
\<close>

section \<open>What a transition leaves\<close>

lemma transition_row:
  assumes "applyTransition now tenant inp db = Inr (db', v)"
  shows "lockInvocation tenant (ti_invocation inp) db' = Inr v" "ti_to inp = Val (v_phase v)"
    "v_id v = ti_invocation inp" "cd_reservations db' = cd_reservations db" "cd_quotes db' = cd_quotes db"
    "ti_reason inp \<noteq> '''' \<Longrightarrow> v_reason v = ti_reason inp"
    "ti_outcome inp = Val out \<Longrightarrow> v_phase v \<noteq> PhaseOutcomeUnknown \<Longrightarrow> v_outcome v = out"
  using assms by (auto elim!: applyTransition_Inr simp: lockInvocation_def tselect_tput moved_invocation_def)

lemma close_allocation_rows [simp]:
  "lockInvocation t i (releaseEntitlementUnit now j db) = lockInvocation t i db"
  "reservationOf i (releaseEntitlementUnit now j db) = reservationOf i db"
  "lockInvocation t i (captureEntitlementUnit now j db) = lockInvocation t i db"
  "reservationOf i (captureEntitlementUnit now j db) = reservationOf i db"
  "cd_reservations (releaseEntitlementUnit now j db) = cd_reservations db"
  "cd_reservations (captureEntitlementUnit now j db) = cd_reservations db"
  by (simp_all add: lockInvocation_def reservationOf_def releaseEntitlementUnit_def captureEntitlementUnit_def)

section \<open>The reservation a settlement leaves\<close>

lemma settled_reservation:
  assumes ok: "ledger_ok (holds_of db)" and r: "rsel db (v_id cur) = Some r"
    and f: "auth_frame r db db1"
    and st: "setReservationStatus now (s_id r) st cap db1 = Inr (db2, updated)"
  shows "reservationOf (v_id cur) db2 = Some updated" "s_status updated = st"
proof -
  note rid = reservation_by_id [OF ok r]
  from f rid obtain r1 where r1: "tselect s_id (cd_reservations db1) (s_id r) = Some r1" "same_hold r r1"
      "\<And>r2. s_id r2 = s_id r \<Longrightarrow> tput s_id (cd_reservations db1) r2 = tput s_id (cd_reservations db) r2"
    by (rule auth_frame_row) blast
  note up = setReservationStatus_Inr [OF st r1(1)]
  have same: "same_hold r updated" using r1(2) up(1) by (simp add: same_hold_def)
  have k: "keys_ok (cd_invocations db) (cd_reservations db) (cd_budgets db)"
    using ok by (simp add: holds_of_parts)
  have "cd_reservations db2 = tput s_invocation (cd_reservations db) updated"
    using up(2) r1(3) [of updated] same keys_hold_put(2) [OF k r same] by (simp add: same_hold_def)
  then show "reservationOf (v_id cur) db2 = Some updated"
    using same sel_id(2) [OF r] by (simp add: reservationOf_def tselect_tput same_hold_def)
  show "s_status updated = st" using up(1) by simp
qed

section \<open>Reserve\<close>

text \<open>What an answered \<open>Reserve\<close> leaves for the next one.\<close>

definition answered :: "reserve_input \<Rightarrow> cdb \<Rightarrow> reserve_answer \<Rightarrow> bool" where
  "answered inp db ans \<longleftrightarrow>
     (case ans of (res, cause) \<Rightarrow>
        lockInvocation (ri_tenant inp) (ri_invocation inp) db = Inr (rs_invocation res) \<and>
        (if v_phase (rs_invocation res) = PhaseRefused
         then rs_reservation res = None \<and> \<not> rs_replayed res \<and>
              cause = Some (refusedError (v_reason (rs_invocation res)))
         else v_phase (rs_invocation res) \<noteq> PhaseAccepted \<and>
              reservationOf (v_id (rs_invocation res)) db = rs_reservation res \<and>
              (\<exists>r. rs_reservation res = Some r \<and> (cause = None \<longrightarrow> s_status r = ReservationHeld))))"

lemma answered_retry:
  assumes "answered inp db (res, cause)"
  shows "v_phase (rs_invocation res) = PhaseRefused \<Longrightarrow> reserve_body A now ulids inp db = Inr (db, (res, cause))"
    and "v_phase (rs_invocation res) \<noteq> PhaseRefused \<Longrightarrow> cause = None \<Longrightarrow>
      v_payment (rs_invocation res) \<noteq> PaymentUnknown \<Longrightarrow>
      reserve_body A now ulids inp db = Inr (db, (res\<lparr>rs_replayed := True\<rparr>, None))"
  using assms by (cases res; auto simp: answered_def reserve_body_def)+

lemma answered_refuse:
  assumes "refuse now inp cur reason note cause db = Inr (db', ans)" and "v_id cur = ri_invocation inp"
    and "reason \<noteq> ''''" and "cause = refusedError reason"
  shows "answered inp db' ans"
proof -
  from assms(1) obtain v where tr: "applyTransition now (ri_tenant inp)
         ((edge_input (v_id cur) PhaseAccepted PhaseRefused (ri_actor inp))
            \<lparr>ti_reason := reason, ti_note := note\<rparr>) db = Inr (db', v)"
    and ans: "ans = (\<lparr>rs_invocation = v, rs_reservation = None, rs_replayed = False\<rparr>, Some cause)"
    by (auto simp: refuse_def result_iffs)
  have row: "lockInvocation (ri_tenant inp) (ri_invocation inp) db' = Inr v" "v_phase v = PhaseRefused" "v_reason v = reason"
    using transition_row [OF tr] assms(2,3) by (simp_all add: edge_input_def)
  then show ?thesis by (simp add: answered_def ans assms(4))
qed

lemma answered_hold:
  assumes "hold now ulid inp cur payment authId db = Inr (db', ans)" and "v_id cur = ri_invocation inp"
  shows "answered inp db' ans"
proof -
  define r where "r = \<lparr>s_id = ''rsv_'' @ ulid, s_invocation = v_id cur, s_tenant = id_tenant (v_ids cur),
               s_payer = id_payer (v_ids cur), s_period = Period now,
               s_currency = m_currency (v_price cur), s_amount = m_amount (v_price cur),
               s_status = ReservationHeld, s_authorization = authId, s_capture = '''',
               s_deadline = now + DefaultReservationWindow, s_created_at = now, s_updated_at = now\<rparr>"
  from assms(1) obtain v where new: "\<not> list_ex (\<lambda>x. s_id x = s_id r \<or> s_invocation x = s_invocation r) (cd_reservations db)"
    and tr: "applyTransition now (ri_tenant inp)
             ((edge_input (v_id cur) PhaseAccepted PhaseReserved (ri_actor inp))
                \<lparr>ti_charge := Val ChargeReserved, ti_payment := Val payment,
                 ti_deadline := Some (now + DefaultReservationWindow)\<rparr>)
             (db\<lparr>cd_reservations := cd_reservations db @ [r]\<rparr>) = Inr (db', v)"
    and ans: "ans = (\<lparr>rs_invocation = v, rs_reservation = Some r, rs_replayed = False\<rparr>, None)"
    by (auto simp: hold_def Let_def r_def result_iffs split: if_splits)
  note row = transition_row [OF tr]
  have v: "lockInvocation (ri_tenant inp) (ri_invocation inp) db' = Inr v" "v_phase v = PhaseReserved"
      "v_id v = v_id cur"
    using row(1-3) assms(2) by (simp_all add: edge_input_def)
  have "tselect s_invocation (cd_reservations db) (v_id cur) = None"
    using new by (auto simp: tselect_None_iff list_ex_iff r_def)
  then have "reservationOf (v_id cur) db' = Some r"
    using row(4) by (simp add: reservationOf_def tsel_new r_def)
  with v show ?thesis by (simp add: answered_def ans r_def)
qed

lemma answered_unknown:
  assumes ok: "ledger_ok (holds_of db)"
    and l: "lockInvocation (ri_tenant inp) (ri_invocation inp) db = Inr cur" and ph: "v_phase cur = PhaseReserved"
    and r: "rsel db (v_id cur) = Some r" "s_status r = ReservationHeld"
    and h: "resolveUnknownHold A now inp cur r db = Inr (db', ans)"
  shows "answered inp db' ans"
  using h
proof (cases rule: resolveUnknownHoldE)
  case (denied db1 authId r1 db2 updated db3 v)
  note c = lockInvocation_Inr [OF l]
  from resolve_frame [OF reservation_by_id [OF ok r(1)] denied(1)] have f: "auth_frame r db db1" by blast
  note row = transition_row [OF denied(3)]
  have v: "lockInvocation (ri_tenant inp) (ri_invocation inp) db3 = Inr v" "v_phase v = PhaseReleased"
      "v_id v = v_id cur" "cd_reservations db3 = cd_reservations db2"
    using row(1-4) c(2) by (simp_all add: edge_input_def)
  with settled_reservation(1) [OF ok r(1) f denied(2)] denied(4,5) show ?thesis
    by (simp add: answered_def reservationOf_def)
next
  case (authorized db1 authId r1 v)
  note c = lockInvocation_Inr [OF l]
  note rid = reservation_by_id [OF ok r(1)]
  from resolve_frame [OF rid authorized(1)] obtain a where f: "auth_frame r db db1" "r1 = r\<lparr>s_authorization := a\<rparr>"
      "tselect s_id (cd_reservations db1) (s_id r) = Some r1" by blast
  have "lockInvocation (ri_tenant inp) (ri_invocation inp) db' = Inr v"
    using c authorized(2,3) auth_frame_sel [OF f(1)] by (simp add: lockInvocation_def tselect_tput)
  moreover have "reservationOf (v_id cur) db' = Some r1"
  proof (cases "cd_reservations db1 = cd_reservations db")
    case True
    with f(3) rid r(1) authorized(3) show ?thesis by (simp add: reservationOf_def)
  next
    case False
    with f(1) obtain a' where a': "cd_reservations db1 = tput s_id (cd_reservations db) (r\<lparr>s_authorization := a'\<rparr>)"
      by (auto simp: auth_frame_def)
    with f(3) have r1: "r1 = r\<lparr>s_authorization := a'\<rparr>" by (simp add: tselect_tput)
    have "same_hold r r1" using r1 by (simp add: same_hold_def)
    moreover have "keys_ok (cd_invocations db) (cd_reservations db) (cd_budgets db)"
      using ok by (simp add: holds_of_parts)
    ultimately have "cd_reservations db' = tput s_invocation (cd_reservations db) r1"
      using keys_hold_put(2) [OF _ r(1)] authorized(3) a' r1 by simp
    then show ?thesis
      using sel_id(2) [OF r(1)] r1 by (simp add: reservationOf_def tselect_tput)
  qed
  ultimately show ?thesis using ph r(2) f(2) authorized(2,4) by (simp add: answered_def)
qed

lemma answered_admitted:
  assumes h: "reserve_admitted A now ulids inp cur db = Inr (db', ans)" and i: "v_id cur = ri_invocation inp"
  shows "answered inp db' ans"
  using h by (cases rule: reserve_admittedE) (use i in \<open>auto intro: answered_refuse answered_hold\<close>)

lemma answered_fresh:
  assumes h: "reserve_fresh A now ulids inp cur db = Inr (db', ans)" and i: "v_id cur = ri_invocation inp"
  shows "answered inp db' ans"
  using h by (cases rule: reserve_freshE) (use i in \<open>auto intro: answered_refuse answered_admitted\<close>)

lemma reserve_answered:
  assumes ok: "ledger_ok (holds_of db)" and h: "reserve_body A now ulids inp db = Inr (db', ans)"
  shows "answered inp db' ans"
  using h
proof (cases rule: reserve_bodyE)
  case (fresh cur)
  with lockInvocation_Inr(2) show ?thesis by (blast intro: answered_fresh)
next
  case (unknown cur r)
  from answered_unknown [OF ok unknown] show ?thesis .
next
  case (replay cur r)
  then show ?thesis by (simp add: answered_def reservationOf_def)
qed (simp add: answered_def)

text \<open>
  A \<open>Reserve\<close> that was answered can be repeated, with any rail, clock and fresh ids: it writes
  nothing, a refusal is refused again with the same invocation and the same error, and a hold
  whose payment is known is handed back as the same reservation.
\<close>

theorem reserve_can_be_repeated:
  assumes "creach H db" and "Reserve A f now ulids inp db = (db1, Inr (res, cause))"
    and "v_phase (rs_invocation res) = PhaseRefused \<or>
      (cause = None \<and> v_payment (rs_invocation res) \<noteq> PaymentUnknown)"
  shows "Reserve A' TxOk now' ulids' inp db1 =
    (db1, Inr (if v_phase (rs_invocation res) = PhaseRefused then (res, cause)
               else (res\<lparr>rs_replayed := True\<rparr>, None)))"
proof -
  from assms(2) have body: "reserve_body A now ulids inp db = Inr (db1, (res, cause))"
    and c: "first_error [checkText (ri_tenant inp) MaxIDBytes True, checkText (ri_invocation inp) MaxIDBytes True,
        checkText (ri_actor inp) MaxIDBytes True] = None"
    unfolding Reserve_def precheck_Inr withTx_Inr by blast+
  have "reserve_body A' now' ulids' inp db1 =
      Inr (db1, if v_phase (rs_invocation res) = PhaseRefused then (res, cause) else (res\<lparr>rs_replayed := True\<rparr>, None))"
    using answered_retry [OF reserve_answered [OF creach_ledger_ok [OF assms(1)] body], of A' now' ulids'] assms(3)
    by auto
  then show ?thesis unfolding Reserve_def precheck_def c by (simp add: withTx_def)
qed

section \<open>Finalize and Release\<close>

lemma settling_transition:
  assumes "applyTransition now tenant inp
      (if st = ReservationCaptured then captureEntitlementUnit now i db else releaseEntitlementUnit now i db) = Inr (db', v)"
  shows "cd_reservations db' = cd_reservations db"
  using transition_row(4) [OF assms] by (simp split: if_splits)

context payment_rail
begin

lemma finalize_answered:
  assumes ok: "ledger_ok (holds_of db)" and h: "finalize_body A now inp db = Inr (db', res)"
    and out: "fi_outcome inp = Val out"
  shows "lockInvocation (fi_tenant inp) (fi_invocation inp) db' = Inr (fr_invocation res) \<and>
    v_phase (fr_invocation res) = PhaseFinalized \<and> v_outcome (fr_invocation res) = out \<and>
    reservationOf (fi_invocation inp) db' = fr_reservation res"
  using h
proof (cases rule: finalize_bodyE)
  case (replay cur)
  with lockInvocation_Inr(2) [OF replay(1)] out show ?thesis by simp
next
  case (settled cur r db1 facts st capture db2 updated v)
  note row = transition_row [OF settled(7)]
  have "auth_frame r db db1" using charge [OF reservation_by_id [OF ok settled(3)] settled(5)] by blast
  from settled_reservation(1) [OF ok settled(3) this settled(6)] settling_transition [OF settled(7)]
  have "reservationOf (v_id cur) db' = Some updated" by (simp add: reservationOf_def)
  with row(1,2) row(7) [of out] lockInvocation_Inr(2) [OF settled(1)] out settled(8) show ?thesis
    by (simp add: edge_input_def)
qed

lemma release_answered:
  assumes ok: "ledger_ok (holds_of db)" and h: "release_body A now inp db = Inr (db', res)"
  shows "lockInvocation (li_tenant inp) (li_invocation inp) db' = Inr (fr_invocation res) \<and>
    v_phase (fr_invocation res) = PhaseReleased \<and>
    reservationOf (li_invocation inp) db' = fr_reservation res"
  using h
proof (cases rule: release_bodyE)
  case (replay cur)
  with lockInvocation_Inr(2) [OF replay(1)] show ?thesis by simp
next
  case (settled cur r db1 payment db2 updated v)
  note row = transition_row [OF settled(7)]
  from settled_reservation(1) [OF ok settled(3)
      void_charge [OF reservation_by_id [OF ok settled(3)] settled(5)] settled(6)] row(4)
  have "reservationOf (v_id cur) db' = Some updated" by (simp add: reservationOf_def)
  with row(1,2) lockInvocation_Inr(2) [OF settled(1)] settled(8) show ?thesis by (simp add: edge_input_def)
qed

end

text \<open>Every later call meets the finalized invocation.\<close>

lemma finalize_again:
  assumes "lockInvocation (fi_tenant inp) (fi_invocation inp) db = Inr v" and "v_phase v = PhaseFinalized"
  shows "finalize_body A now inp db =
    (if Val (v_outcome v) \<noteq> fi_outcome inp then Inl CePhaseConflict
     else Inr (db, \<lparr>fr_invocation = v, fr_reservation = reservationOf (fi_invocation inp) db, fr_replayed = True\<rparr>))"
  using assms lockInvocation_Inr [OF assms(1)] by (simp add: finalize_body_def)

lemma release_again:
  assumes "lockInvocation (li_tenant inp) (li_invocation inp) db = Inr v" and "v_phase v = PhaseReleased"
  shows "release_body A now inp db =
    Inr (db, \<lparr>fr_invocation = v, fr_reservation = reservationOf (li_invocation inp) db, fr_replayed = True\<rparr>)"
  using assms lockInvocation_Inr [OF assms(1)] by (simp add: release_body_def)

text \<open>
  C8: A \<open>Finalize\<close> that was answered charges once: repeated with any rail and clock it writes
  nothing and answers with the same invocation and reservation, and reporting another outcome
  is a phase conflict.
\<close>

theorem finalize_charges_once:
  assumes "creach H db" and "payment_rail A" and "Finalize A f now inp db = (db1, Inr res)"
    and "fi_tenant inp' = fi_tenant inp" and "fi_invocation inp' = fi_invocation inp"
    and "finalize_validate inp' = None"
  shows "Finalize A' TxOk now' inp' db1 =
    (db1, if fi_outcome inp' = fi_outcome inp then Inr (res\<lparr>fr_replayed := True\<rparr>) else Inl CePhaseConflict)"
proof -
  from assms(3) have body: "finalize_body A now inp db = Inr (db1, res)" and "finalize_validate inp = None"
    unfolding Finalize_def precheck_Inr withTx_Inr by blast+
  then obtain out where out: "fi_outcome inp = Val out"
    by (auto simp: finalize_validate_def first_error_None split: if_splits)
  note row = payment_rail.finalize_answered [OF assms(2) creach_ledger_ok [OF assms(1)] body out]
  have "lockInvocation (fi_tenant inp') (fi_invocation inp') db1 = Inr (fr_invocation res)"
    using row assms(4,5) by simp
  from finalize_again [OF this, of A' now'] row assms(5,6) out show ?thesis
    by (cases res) (auto simp: Finalize_def precheck_def withTx_def)
qed

text \<open>
  A \<open>Release\<close> that was answered gives the hold back once: repeated with any rail and clock
  it writes nothing and answers with the same invocation and reservation.
\<close>

theorem release_gives_back_once:
  assumes "creach H db" and "payment_rail A" and "ReleaseHold A f now inp db = (db1, Inr res)"
  shows "ReleaseHold A' TxOk now' inp db1 = (db1, Inr (res\<lparr>fr_replayed := True\<rparr>))"
proof -
  from assms(3) have body: "release_body A now inp db = Inr (db1, res)" and v: "release_validate inp = None"
    unfolding ReleaseHold_def precheck_Inr withTx_Inr by blast+
  note row = payment_rail.release_answered [OF assms(2) creach_ledger_ok [OF assms(1)] body]
  from release_again [of inp db1 "fr_invocation res" A' now'] row v show ?thesis
    by (cases res) (simp add: ReleaseHold_def precheck_def withTx_def)
qed

section \<open>Dispatch\<close>

lemma dispatch_answered:
  assumes h: "dispatch_body sg now inp db = Inr (db', res)"
  shows "\<exists>q deadline. lockInvocation (di_tenant inp) (di_invocation inp) db' = Inr (dr_invocation res) \<and>
    tselect q_id (cd_quotes db') (v_quote_id (dr_invocation res)) = Some q \<and>
    v_phase (dr_invocation res) = PhaseDispatching \<and>
    v_dispatch_deadline (dr_invocation res) = Some deadline \<and>
    dr_authorization res = authorizationFor sg (dr_invocation res) deadline (q_schema_hash q)"
  using h
proof (cases rule: dispatch_bodyE)
  case (replay cur q deadline)
  then show ?thesis by simp
next
  case (first cur q db1 moved deadline)
  note row = transition_row [OF first(4)]
  have m: "v_id moved = di_invocation inp" "v_phase moved = PhaseDispatching" "id_tenant (v_ids moved) = di_tenant inp"
    using row lockInvocation_Inr [OF row(1)] by (simp_all add: edge_input_def)
  have "v_quote_id moved = v_quote_id cur"
    using first(4,1) by (auto elim!: applyTransition_Inr
        simp: moved_invocation_def edge_input_def lockInvocation_def split: option.splits if_splits)
  with first(2,5,6) m row(5) show ?thesis by (simp add: lockInvocation_def tselect_tput)
qed

text \<open>
  The fence hands out one authorization: a \<open>Dispatch\<close> that was answered can be repeated at any
  later time, by any actor, and until the provider's answer is recorded it writes nothing and
  returns the same signed bytes, deadline included.
\<close>

theorem dispatch_hands_out_one_authorization:
  assumes "Dispatch (Some sg) f now inp db = (db1, Inr res)"
    and "di_tenant inp' = di_tenant inp" and "di_invocation inp' = di_invocation inp"
    and "checkText (di_actor inp') MaxIDBytes True = None" and "checkText (di_note inp') MaxReasonBytes False = None"
  shows "Dispatch (Some sg) TxOk now' inp' db1 = (db1, Inr (res\<lparr>dr_replayed := True\<rparr>))"
proof -
  from assms(1) have body: "dispatch_body sg now inp db = Inr (db1, res)"
    and c: "checkText (di_tenant inp) MaxIDBytes True = None" "checkText (di_invocation inp) MaxIDBytes True = None"
    by (auto simp: Dispatch_def precheck_Inr withTx_Inr first_error_None)
  from dispatch_answered [OF body] obtain q deadline where
    row: "lockInvocation (di_tenant inp) (di_invocation inp) db1 = Inr (dr_invocation res)"
      "tselect q_id (cd_quotes db1) (v_quote_id (dr_invocation res)) = Some q"
      "v_phase (dr_invocation res) = PhaseDispatching" "v_dispatch_deadline (dr_invocation res) = Some deadline"
      "dr_authorization res = authorizationFor sg (dr_invocation res) deadline (q_schema_hash q)"
    by blast
  then have "dispatch_body sg now' inp' db1 = Inr (db1, res\<lparr>dr_replayed := True\<rparr>)"
    using assms(2,3) by (cases res) (simp add: dispatch_body_def)
  then show ?thesis
    unfolding Dispatch_def using c assms(2-5) by (simp add: precheck_def withTx_def)
qed

section \<open>Witnesses\<close>

theorem reserve_can_be_repeated_witness:
  "Reserve demo_rail TxOk 6000000 (''6'', ''7'') demo_reserve demo_reserved =
     (demo_reserved, Inr (if v_phase demo_held = PhaseRefused
        then (\<lparr>rs_invocation = demo_held, rs_reservation = Some demo_reservation, rs_replayed = False\<rparr>, None)
        else (\<lparr>rs_invocation = demo_held, rs_reservation = Some demo_reservation, rs_replayed = True\<rparr>, None)))"
proof -
  have "v_payment demo_held \<noteq> PaymentUnknown" by (simp add: demo_held_def)
  with reserve_can_be_repeated [OF demo_reach(2) demo_reserve_run, of demo_rail 6000000 "(''6'', ''7'')"]
  show ?thesis by simp
qed

theorem finalize_charges_once_witness:
  "\<exists>res. Finalize demo_rail TxOk 8000000 demo_finalize demo_dispatched = (demo_finalized, Inr res) \<and>
    Finalize demo_rail TxOk 9000000 demo_finalize demo_finalized = (demo_finalized, Inr (res\<lparr>fr_replayed := True\<rparr>)) \<and>
    Finalize demo_rail TxOk 9000000 (demo_finalize\<lparr>fi_outcome := Val OutcomeFailed\<rparr>) demo_finalized =
      (demo_finalized, Inl CePhaseConflict)"
proof -
  have "isl (snd (Finalize demo_rail TxOk 8000000 demo_finalize demo_dispatched)) = False" by code_simp
  then obtain res where res: "Finalize demo_rail TxOk 8000000 demo_finalize demo_dispatched = (demo_finalized, Inr res)"
    unfolding demo_finalized_def by (metis isl_def prod.collapse sum.exhaust)
  have "finalize_validate demo_finalize = None"
    "finalize_validate (demo_finalize\<lparr>fi_outcome := Val OutcomeFailed\<rparr>) = None"
    "fi_outcome demo_finalize \<noteq> Val OutcomeFailed"
    by code_simp+
  with res finalize_charges_once [OF demo_reach(5) demo_rail_ok res, of demo_finalize demo_rail 9000000]
    finalize_charges_once [OF demo_reach(5) demo_rail_ok res, of "demo_finalize\<lparr>fi_outcome := Val OutcomeFailed\<rparr>"
      demo_rail 9000000]
  show ?thesis by auto
qed

theorem release_gives_back_once_witness:
  "\<exists>db res. ReleaseHold demo_rail TxOk 8000000 demo_release demo_reserved = (db, Inr res) \<and>
    ReleaseHold demo_rail TxOk 9000000 demo_release db = (db, Inr (res\<lparr>fr_replayed := True\<rparr>))"
proof -
  have "isl (snd (ReleaseHold demo_rail TxOk 8000000 demo_release demo_reserved)) = False" by code_simp
  then obtain db res where res: "ReleaseHold demo_rail TxOk 8000000 demo_release demo_reserved = (db, Inr res)"
    by (metis isl_def prod.collapse sum.exhaust)
  with release_gives_back_once [OF demo_reach(3) demo_rail_ok res] show ?thesis by blast
qed

theorem dispatch_hands_out_one_authorization_witness:
  "\<exists>res. Dispatch (Some demo_signer) TxOk 6000000 demo_dispatch demo_reserved = (demo_dispatching, Inr res) \<and>
    Dispatch (Some demo_signer) TxOk 7000000 demo_dispatch demo_dispatching =
      (demo_dispatching, Inr (res\<lparr>dr_replayed := True\<rparr>))"
proof -
  have "isl (snd (Dispatch (Some demo_signer) TxOk 6000000 demo_dispatch demo_reserved)) = False" by code_simp
  then obtain res where res: "Dispatch (Some demo_signer) TxOk 6000000 demo_dispatch demo_reserved = (demo_dispatching, Inr res)"
    using demo_dispatch_run by (metis cm_run.simps(6) isl_def prod.collapse sum.exhaust)
  have "checkText (di_actor demo_dispatch) MaxIDBytes True = None" "checkText (di_note demo_dispatch) MaxReasonBytes False = None"
    by code_simp+
  from dispatch_hands_out_one_authorization [OF res refl refl this] res show ?thesis by blast
qed

text \<open>
  What the digests bind.  The length-prefixed encoding of \<open>types.go\<close> and \<open>dispatch.go\<close> is
  injective for a fixed list of field names, so two quotes with one digest have equal fields,
  unless SHA-256 collides on the two messages.
\<close>

section \<open>The encoding\<close>

text \<open>
  The length-prefixed encoding is unambiguous: whatever bytes the values hold, separators
  included, two lists of values of the same fields that encode to the same text are equal.
\<close>

theorem length_prefixed_is_unambiguous:
  assumes "map fst fs = map fst gs"
  shows "lengthPrefixed version fs = lengthPrefixed version gs \<longleftrightarrow> fs = gs"
  using encode_fields_inj [OF assms] by (auto simp: lengthPrefixed_def)

section \<open>Quotes\<close>

definition quote_message :: "cm_quote \<Rightarrow> string" where
  "quote_message q = lengthPrefixed ''mctl-commerce-quote/v1'' (quote_fields q)"

lemma price_mode_text_inj: "price_mode_text a = price_mode_text b \<longleftrightarrow> a = b"
  by (cases a; cases b) simp_all

lemma funds_mode_text_inj: "funds_mode_text a = funds_mode_text b \<longleftrightarrow> a = b"
  by (cases a; cases b) simp_all

lemma quote_message_inj:
  assumes "quote_message q = quote_message q'"
  shows "q_id q = q_id q' \<and> q_terms_id q = q_terms_id q' \<and> q_terms_version q = q_terms_version q' \<and>
    q_capability_id q = q_capability_id q' \<and> q_schema_hash q = q_schema_hash q' \<and> q_ids q = q_ids q' \<and>
    q_args_digest q = q_args_digest q' \<and> q_price_mode q = q_price_mode q' \<and> q_price q = q_price q' \<and>
    q_funds_mode q = q_funds_mode q'"
proof -
  have "quote_fields q = quote_fields q'"
    by (rule encode_fields_inj) (use assms in \<open>simp_all add: quote_message_def lengthPrefixed_def, simp add: quote_fields_def\<close>)
  then show ?thesis
    by (cases "q_ids q"; cases "q_ids q'"; cases "q_price q"; cases "q_price q'")
      (simp add: quote_fields_def show_int_inj price_mode_text_inj funds_mode_text_inj)
qed

text \<open>
  A buyer pays what it was quoted: when an acceptance opens an invocation under the digest
  of a quote the buyer was shown, the invocation has that quote's id, terms, capability,
  arguments, identities, price and modes, or SHA-256 collides on the messages of the shown and
  the stored quote.
\<close>

theorem accepted_invocation_is_as_quoted:
  assumes "AcceptInvocation H f now ulid inp db = (db', Inr (v, False))"
    and "ac_quote_digest inp = QuoteDigest H shown"
  shows "(v_quote_id v = q_id shown \<and> v_terms_id v = q_terms_id shown \<and> v_terms_version v = q_terms_version shown \<and>
      v_capability_id v = q_capability_id shown \<and> v_args_digest v = q_args_digest shown \<and>
      v_ids v = q_ids shown \<and> v_price v = q_price shown \<and> v_price_mode v = q_price_mode shown \<and>
      v_funds_mode v = q_funds_mode shown) \<or>
    (\<exists>q \<in> set (cd_quotes db). quote_message q \<noteq> quote_message shown \<and> H (quote_message q) = H (quote_message shown))"
proof -
  from assms(1) have "accept_body H now ulid inp db = Inr (db', (v, False))"
    by (simp add: AcceptInvocation_def precheck_Inr withTx_Inr)
  then obtain q t where q: "GetQuote (id_tenant (ac_ids inp)) (ac_quote_id inp) db = Inr q"
      and ch: "accept_checks H now inp q db = Inr t"
      and ins: "insert_invocation now (accepted_invocation now ulid inp q t) db = Inr (db', (v, False))"
    by (auto simp: accept_body_def result_iffs split: option.splits if_splits)
  from q have "q \<in> set (cd_quotes db)"
    by (auto simp: GetQuote_def split: option.splits if_splits dest: tselect_SomeD)
  moreover from ch have d: "q_digest q = ac_quote_digest inp" "QuoteDigest H q = q_digest q" "q_ids q = ac_ids inp"
    by (auto simp: accept_checks_def result_iffs first_error_None split: if_splits)
  then have "H (quote_message q) = H (quote_message shown)"
    using assms(2) by (simp add: QuoteDigest_def digestOf_def quote_message_def)
  moreover have "v = accepted_invocation now ulid inp q t" by (rule accept_fresh_row [OF ins])
  ultimately show ?thesis
    using quote_message_inj [of q shown] d(3) by (cases "quote_message q = quote_message shown")
      (auto simp: accepted_invocation_def)
qed

theorem length_prefixed_is_unambiguous_witness:
  "lengthPrefixed ''v'' [(''a'', ''x''), (''b'', ''1:y'')] \<noteq> lengthPrefixed ''v'' [(''a'', ''x1:''), (''b'', ''y'')]"
  using length_prefixed_is_unambiguous [of "[(''a'', ''x''), (''b'', ''1:y'')]" "[(''a'', ''x1:''), (''b'', ''y'')]" "''v''"]
  by simp

theorem accepted_invocation_is_as_quoted_witness:
  "\<exists>q \<in> set (cd_quotes demo_quoted). v_price demo_invocation = q_price q"
proof -
  define q where "q = hd (cd_quotes demo_quoted)"
  have q: "q \<in> set (cd_quotes demo_quoted)" "cd_quotes demo_quoted = [q]" by (simp_all add: q_def demo_quoted_def)
  have "ac_quote_digest demo_accept = QuoteDigest demo_hash q" unfolding q_def by code_simp
  from accepted_invocation_is_as_quoted [OF demo_accept_run this] q show ?thesis by auto
qed

end
