(* ===== verification/Commerce_Invariant.thy ===== *)
theory Commerce_Invariant
  imports Commerce_Run
begin

text \<open>
  How an invariant of the whole ledger is proved: the locale \<open>ledger_invariant\<close> asks that every
  transaction body keeps it, and gives it for every ledger the machine reaches.
\<close>

locale ledger_invariant =
  fixes P :: "cdb \<Rightarrow> bool"
  assumes P_empty: "P empty_cdb"
    and P_terms: "P db \<Longrightarrow> P (db\<lparr>cd_terms := ts\<rparr>)"
    and P_quotes: "P db \<Longrightarrow> P (db\<lparr>cd_quotes := qs\<rparr>)"
    and P_budgets: "P db \<Longrightarrow> P (db\<lparr>cd_budgets := bs, cd_changes := cs\<rparr>)"
    and P_accept: "P db \<Longrightarrow> accept_body H now ulid inp db = Inr (db', a1) \<Longrightarrow> P db'"
    and P_transition: "P db \<Longrightarrow> (\<And>p. ti_to tinp = Val p \<Longrightarrow> p \<notin> set ownedEdges) \<Longrightarrow>
      applyTransition now tenant tinp db = Inr (db', v) \<Longrightarrow> P db'"
    and P_dispatch: "P db \<Longrightarrow> dispatch_body sg now dinp db = Inr (db', a2) \<Longrightarrow> P db'"
    and P_reserve: "P db \<Longrightarrow> ledger_ok (holds_of db) \<Longrightarrow> payment_rail A \<Longrightarrow>
      reserve_body A now ulids rinp db = Inr (db', a3) \<Longrightarrow> P db'"
    and P_finalize: "P db \<Longrightarrow> ledger_ok (holds_of db) \<Longrightarrow> payment_rail A \<Longrightarrow>
      finalize_body A now finp db = Inr (db', a4) \<Longrightarrow> P db'"
    and P_release: "P db \<Longrightarrow> ledger_ok (holds_of db) \<Longrightarrow> payment_rail A \<Longrightarrow>
      release_body A now linp db = Inr (db', a4) \<Longrightarrow> P db'"
    and P_grant: "P db \<Longrightarrow> grant_validate ginp now = None \<Longrightarrow> grant_body now ulid ginp db = Inr (db', n) \<Longrightarrow> P db'"
    and P_retire: "P db \<Longrightarrow> tupdate n_id i (\<lambda>n. n_tenant n = tenant \<and> n_status n = EntitlementActive)
        (\<lambda>n. n\<lparr>n_status := EntitlementRetired, n_updated_at := now\<rparr>) (cd_entitlements db) = (rows, r) \<Longrightarrow>
      P (db\<lparr>cd_entitlements := rows\<rparr>)"
begin

text \<open>A transaction leaves the ledger it found or the one of its body.\<close>

lemma tx:
  assumes "P db" and "\<And>db' x. c = None \<Longrightarrow> body = Inr (db', x) \<Longrightarrow> P db'"
  shows "P (fst (precheck c db (withTx f db body)))" "c = None \<Longrightarrow> P (fst (withTx f db body))"
proof -
  show "P (fst (precheck c db (withTx f db body)))"
    using assms withTx_fst [of f db body] by (cases c) (auto simp: precheck_def)
  show "P (fst (withTx f db body))" if "c = None"
    using withTx_fst [of f db body] assms that by metis
qed

lemma publish: "P db \<Longrightarrow> P (fst (PublishTerms f now ulid inp db))"
  unfolding PublishTerms_def by (rule tx(1)) (auto dest!: publish_body_terms intro: P_terms)

lemma retire_terms: "P db \<Longrightarrow> P (fst (RetireTerms f now tid ver db))"
  unfolding RetireTerms_def by (rule tx(2) [OF _ _ refl]) (auto simp: result_iffs intro: P_terms split: prod.splits option.splits)

lemma quote: "P db \<Longrightarrow> P (fst (MintQuote H f now ulid inp db))"
  unfolding MintQuote_def by (rule tx(1)) (auto simp: result_iffs Let_def intro: P_quotes split: if_splits)

lemma budget: "P db \<Longrightarrow> P (fst (SetBudget f now inp db))"
  unfolding SetBudget_def
  by (rule tx(1)) (auto simp: set_budget_body_def Let_def intro: P_budgets split: if_splits)

lemma grant: "P db \<Longrightarrow> P (fst (GrantEntitlement f now ulid inp db))"
  unfolding GrantEntitlement_def by (rule tx(1)) (auto intro: P_grant)

lemma retire_entitlement: "P db \<Longrightarrow> P (fst (RetireEntitlement f now tenant i db))"
  unfolding RetireEntitlement_def
  by (rule tx(1)) (auto simp: result_iffs intro: P_retire split: prod.splits option.splits)

lemma accept: "P db \<Longrightarrow> P (fst (AcceptInvocation H f now ulid inp db))"
  unfolding AcceptInvocation_def by (rule tx(1)) (auto intro: P_accept)

lemma transition:
  assumes "P db" and "\<And>p. ti_to inp = Val p \<Longrightarrow> p \<notin> set ownedEdges"
  shows "P (fst (Transition f now tenant inp db))"
proof -
  have "P (fst (withTx f db (applyTransition now tenant inp db)))"
    by (rule tx(2) [OF assms(1) _ refl]) (use P_transition assms in blast)
  with assms(1) show ?thesis
    by (auto simp: Transition_def precheck_def split: option.splits)
qed

lemma handler: "P db \<Longrightarrow> P (fst (TransitionCommerceInvocation f now tenant inp db))"
  using transition [of db inp f now tenant] by (auto simp: TransitionCommerceInvocation_def split: field.splits)

lemma dispatch: "P db \<Longrightarrow> P (fst (Dispatch sg f now inp db))"
  by (cases sg) (auto simp: Dispatch_def intro!: tx(1) intro: P_dispatch)

lemma reserve:
  "P db \<Longrightarrow> ledger_ok (holds_of db) \<Longrightarrow> payment_rail A \<Longrightarrow> P (fst (Reserve A f now ulids inp db))"
  unfolding Reserve_def by (rule tx(1)) (auto intro: P_reserve)

lemma finalize:
  "P db \<Longrightarrow> ledger_ok (holds_of db) \<Longrightarrow> payment_rail A \<Longrightarrow> P (fst (Finalize A f now inp db))"
  unfolding Finalize_def by (rule tx(1)) (auto intro: P_finalize)

lemma release:
  "P db \<Longrightarrow> ledger_ok (holds_of db) \<Longrightarrow> payment_rail A \<Longrightarrow> P (fst (ReleaseHold A f now inp db))"
  unfolding ReleaseHold_def by (rule tx(1)) (auto intro: P_release)

lemma refuse_stale: "P db \<Longrightarrow> P (fst (refuse_stale fault now actor refs db out))"
proof (induction fault now actor refs db out rule: refuse_stale.induct)
  case (1 fault now actor db out)
  then show ?case by simp
next
  case (2 fault now actor tenant i refs db out)
  define inp where "inp = (edge_input i PhaseAccepted PhaseRefused actor)
    \<lparr>ti_reason := ReasonQuoteExpired, ti_note := ''reconciler: quote expired with nothing reserved''\<rparr>"
  obtain db' r where tr: "Transition (fault i) now tenant inp db = (db', r)" by fastforce
  then have "P db'"
    using transition [OF "2.prems", of inp "fault i" now tenant] by (simp add: inp_def edge_input_def ownedEdges_def)
  with "2.IH" tr show ?case by (cases r) (auto simp: inp_def [symmetric])
qed

lemma release_stale:
  assumes "\<And>i. payment_rail (A i)"
  shows "P db \<Longrightarrow> ledger_ok (holds_of db) \<Longrightarrow> P (fst (release_stale A fault now actor refs db out))"
  using assms
proof (induction A fault now actor refs db out rule: release_stale.induct)
  case (1 A fault now actor db out)
  then show ?case by simp
next
  case (2 A fault now actor tenant i refs db out)
  define inp where "inp = \<lparr>li_tenant = tenant, li_invocation = i, li_actor = actor,
    li_reason = ReasonReservationExpired,
    li_note = ''reconciler: reservation deadline passed with no dispatch intent''\<rparr>"
  obtain db' r where tr: "ReleaseHold (A i) (fault i) now inp db = (db', r)" by fastforce
  then have "P db'" "ledger_ok (holds_of db')"
    using release [OF "2.prems", of i "fault i" now inp] release_step [OF "2.prems"(3,2), of i "fault i" now inp]
      "2.prems"(2) by (auto dest: hold_step_ledger_ok)
  with "2.IH" "2.prems"(3) tr show ?case by (cases r) (auto simp: inp_def [symmetric])
qed

lemma expire:
  assumes "P db" and "ledger_ok (holds_of db)" and "\<And>i. payment_rail (A i)"
  shows "P (fst (ExpireStale A faults now actor limit db))"
proof (cases "checkText actor MaxIDBytes True")
  case (Some e)
  with assms(1) show ?thesis by (simp add: ExpireStale_def)
next
  case None
  obtain db1 refused err where r: "refuse_stale faults now actor
      (stale PhaseAccepted (\<lambda>v. Some (v_quote_expires_at v)) now (page_limit limit) db) db [] = (db1, refused, err)"
    by (metis prod_cases3)
  then have p1: "P db1" and l1: "ledger_ok (holds_of db1)"
    using refuse_stale [OF assms(1)] steps_ledger_ok [OF refuse_stale_steps assms(2)] by (metis fst_conv)+
  obtain db2 out err2 where r2: "release_stale A faults now actor
      (stale PhaseReserved v_reservation_deadline now (page_limit limit) db1) db1 ([], []) = (db2, out, err2)"
    by (metis prod_cases3)
  have "P db2"
    using release_stale [where A = A, OF assms(3) p1 l1] r2 by (metis fst_conv)
  with None r r2 p1 show ?thesis by (cases err; cases out) (simp_all add: ExpireStale_def)
qed

lemma run:
  "P db \<Longrightarrow> ledger_ok (holds_of db) \<Longrightarrow> rail_ok op \<Longrightarrow> P (cm_run H op f now db)"
  by (cases op) (simp_all add: publish retire_terms quote accept handler dispatch budget reserve finalize
    release grant retire_entitlement expire)

lemma reachable: "creach H db \<Longrightarrow> P db"
  by (induction rule: creach.induct) (auto intro: P_empty run creach_ledger_ok)

end

end
