(* ===== verification/Commerce_Journal.thy ===== *)
theory Commerce_Journal
  imports Commerce_Retry Commerce_Invariant
begin

text \<open>
  The transition history of an invocation.  Every operation that moves an invocation appends the
  edge it took, so the history of an invocation is a path of the published graph from its
  acceptance to the phase its row is in.
\<close>

section \<open>Paths\<close>

text \<open>An edge of the history: the acceptance, an edge of the graph, or a resolved authorization.\<close>

fun journal_edge :: "phase option \<Rightarrow> phase \<Rightarrow> bool" where
  "journal_edge None q \<longleftrightarrow> q = PhaseAccepted"
| "journal_edge (Some p) q \<longleftrightarrow> q \<in> set (allowedTransitions p) \<or> (p = PhaseReserved \<and> q = PhaseReserved)"

fun journal_path :: "phase option \<Rightarrow> transition_row list \<Rightarrow> phase option \<Rightarrow> bool" where
  "journal_path p [] q \<longleftrightarrow> p = q"
| "journal_path p (h # hs) q \<longleftrightarrow> h_from h = p \<and> journal_edge p (h_to h) \<and> journal_path (Some (h_to h)) hs q"

lemma journal_path_append:
  "journal_path p (hs @ [h]) q \<longleftrightarrow>
     (\<exists>m. journal_path p hs m \<and> h_from h = m \<and> journal_edge m (h_to h) \<and> q = Some (h_to h))"
  by (induction hs arbitrary: p) auto

definition journal_ok :: "cdb \<Rightarrow> bool" where
  "journal_ok db \<longleftrightarrow>
     (\<forall>i. journal_path None (filter (\<lambda>h. h_invocation h = i) (cd_history db)) (map_option v_phase (isel db i))) \<and>
     map h_seq (cd_history db) = [1..<length (cd_history db) + 1]"

section \<open>What keeps it\<close>

definition same_journal :: "cdb \<Rightarrow> cdb \<Rightarrow> bool" where
  "same_journal db db' \<longleftrightarrow> cd_invocations db' = cd_invocations db \<and> cd_history db' = cd_history db"

lemma same_journal_ok: "same_journal db db' \<Longrightarrow> journal_ok db' = journal_ok db"
  by (simp add: same_journal_def journal_ok_def)

lemma same_journal_refl [simp]: "same_journal db db"
  by (simp add: same_journal_def)

lemma same_journal_trans [trans]: "same_journal a b \<Longrightarrow> same_journal b c \<Longrightarrow> same_journal a c"
  by (simp add: same_journal_def)

text \<open>One row appended for an invocation whose row moves to the phase it records.\<close>

lemma journal_append:
  assumes "journal_ok db" and "h_from h = map_option v_phase (isel db (h_invocation h))"
    and "journal_edge (h_from h) (h_to h)" and "h_seq h = length (cd_history db) + 1"
    and "cd_history db' = cd_history db @ [h]"
    and "\<And>i. map_option v_phase (isel db' i) =
           (if i = h_invocation h then Some (h_to h) else map_option v_phase (isel db i))"
  shows "journal_ok db'"
  using assms by (auto simp: journal_ok_def journal_path_append)

lemma journal_transition:
  assumes ok: "journal_ok db" and "applyTransition now tenant inp db = Inr (db', v)"
  shows "journal_ok db'"
  using assms(2)
proof (rule applyTransition_Inr, goal_cases)
  case (1 cur to)
  define h where "h = history_row now (v_id cur) (Some (v_phase cur)) to (ti_reason inp) (ti_actor inp) (ti_note inp) db"
  have "isel db (v_id cur) = Some cur" using 1 by simp
  with 1 show ?case
    by (intro journal_append [OF ok, of h]) (auto simp: h_def history_row_def tselect_tput)
qed

text \<open>The same rows and phases under another frame.\<close>

lemma same_journal_simps [simp]:
  "same_journal db (db'\<lparr>cd_reservations := rs\<rparr>) = same_journal db db'"
  "same_journal db (db'\<lparr>cd_payments := ps\<rparr>) = same_journal db db'"
  "same_journal db (releaseEntitlementUnit now i db') = same_journal db db'"
  "same_journal db (captureEntitlementUnit now i db') = same_journal db db'"
  by (simp_all add: same_journal_def releaseEntitlementUnit_def captureEntitlementUnit_def)

lemma payments_same_journal: "payments_only db db' \<Longrightarrow> same_journal db db'"
  by (simp add: same_journal_def payments_only_sel)

lemma auth_same_journal: "auth_frame r db db' \<Longrightarrow> same_journal db db'"
  by (simp add: same_journal_def auth_frame_sel)

lemma unit_same_journal: "holdEntitlementUnit now ulid tenant cap i db = Inr (db', u) \<Longrightarrow> same_journal db db'"
  using holdEntitlementUnit_sel [of now ulid tenant cap i db db' u] by (simp add: same_journal_def)

lemma status_same_journal: "setReservationStatus now rid st cap db = Inr (db', r) \<Longrightarrow> same_journal db db'"
  by (auto simp: setReservationStatus_def split: prod.splits option.splits)

section \<open>The operations\<close>

lemma journal_refuse:
  assumes "refuse now inp cur reason why cause db = Inr (db', ans)" and "journal_ok db"
  shows "journal_ok db'"
  using assms by (auto simp: refuse_def result_iffs intro: journal_transition)

lemma journal_hold:
  assumes "hold now ulid inp cur payment a db = Inr (db', ans)" and "journal_ok db"
  shows "journal_ok db'"
proof -
  have "journal_ok (db\<lparr>cd_reservations := rs\<rparr>)" for rs
    using same_journal_ok [of db "db\<lparr>cd_reservations := rs\<rparr>"] assms(2) by simp
  with assms(1) show ?thesis
    by (auto simp: hold_def Let_def result_iffs split: if_splits intro: journal_transition)
qed

lemma journal_accept:
  assumes "accept_body H now ulid inp db = Inr (db', ans)" and ok: "journal_ok db"
  shows "journal_ok db'"
proof (cases "db' = db")
  case True
  with ok show ?thesis by simp
next
  case False
  with assms(1) obtain q t where
    ins: "insert_invocation now (accepted_invocation now ulid inp q t) db = Inr (db', ans)"
    by (auto simp: accept_body_def result_iffs split: option.splits if_splits)
  define v where "v = accepted_invocation now ulid inp q t"
  define h where "h = history_row now (v_id v) None PhaseAccepted '''' (id_principal (v_ids v)) '''' db"
  from ins have new: "isel db (v_id v) = None" "cd_invocations db' = cd_invocations db @ [v]"
      "cd_history db' = cd_history db @ [h]"
    by (auto simp: insert_invocation_def tselect_None_iff list_ex_iff h_def v_def [symmetric] split: if_splits)
  have "v_phase v = PhaseAccepted" by (simp add: v_def accepted_invocation_def)
  with new show ?thesis
    by (intro journal_append [OF ok, of h]) (auto simp: h_def history_row_def tsel_new)
qed

lemma journal_dispatch:
  assumes "dispatch_body sg now inp db = Inr (db', ans)" and "journal_ok db"
  shows "journal_ok db'"
  using assms(1)
proof (cases rule: dispatch_bodyE)
  case (replay cur q deadline)
  with assms(2) show ?thesis by simp
next
  case (first cur q db1 moved deadline)
  have m: "isel db1 (v_id moved) = Some moved"
    using first(4) by (rule applyTransition_Inr) (simp add: tselect_tput)
  have "map_option v_phase (isel db' i) = map_option v_phase (isel db1 i)" for i
    using m first(5) by (simp add: tselect_tput)
  with journal_transition [OF assms(2) first(4)] first(5) show ?thesis by (simp add: journal_ok_def)
qed

context payment_rail
begin

lemma authorize_same_journal:
  "authorize_payment A cur db = Inr (db', ans) \<Longrightarrow> same_journal db db'"
  using authorize payments_same_journal by (fastforce simp: authorize_payment_def result_iffs split: if_splits)

lemma journal_admitted:
  assumes "reserve_admitted A now ulids inp cur db = Inr (db', ans)" and ok: "journal_ok db"
  shows "journal_ok db'"
  using assms(1)
proof (cases rule: reserve_admittedE)
  case (refused reason why)
  from journal_refuse [OF refused(1) ok] show ?thesis .
next
  case (denied db1 db2 pr)
  have "same_journal db db2"
    using unit_same_journal [OF denied(1)] authorize_same_journal [OF denied(2)] by (rule same_journal_trans)
  with ok have "journal_ok (releaseEntitlementUnit now (v_id cur) db2)"
    using same_journal_ok [of db "releaseEntitlementUnit now (v_id cur) db2"] by simp
  from journal_refuse [OF denied(3) this] show ?thesis .
next
  case (held db1 db2 au p a)
  have "same_journal db db2"
    using unit_same_journal [OF held(1)] authorize_same_journal [OF held(2)] by (rule same_journal_trans)
  with ok have "journal_ok db2" using same_journal_ok by blast
  from journal_hold [OF held(3) this] show ?thesis .
qed

lemma journal_unknown:
  assumes ok: "journal_ok db" and l: "ledger_ok (holds_of db)"
    and cur: "isel db (v_id cur) = Some cur" "v_phase cur = PhaseReserved" and r: "rsel db (v_id cur) = Some r"
    and h: "resolveUnknownHold A now inp cur r db = Inr (db', ans)"
  shows "journal_ok db'"
  using h
proof (cases rule: resolveUnknownHoldE)
  case (denied db1 authId r1 db2 updated db3 v)
  from resolve_frame [OF reservation_by_id [OF l r] denied(1)] have "same_journal db db1"
    using auth_same_journal by blast
  with status_same_journal [OF denied(2)] ok have "journal_ok db2"
    using same_journal_ok same_journal_trans by blast
  from journal_transition [OF this denied(3)] denied(4) show ?thesis
    using same_journal_ok [of db3 db'] by simp
next
  case (authorized db1 authId r1 v)
  from resolve_frame [OF reservation_by_id [OF l r] authorized(1)] have s: "same_journal db db1"
    using auth_same_journal by blast
  define h where "h = history_row now (v_id cur) (Some PhaseReserved) PhaseReserved '''' (ri_actor inp)
    ''authorization resolved by status lookup'' db1"
  have ok1: "journal_ok db1" using same_journal_ok [OF s] ok by simp
  show ?thesis
    by (rule journal_append [OF ok1, of h])
      (use s cur authorized(2,3) in \<open>auto simp: h_def history_row_def tselect_tput same_journal_def\<close>)
qed

lemma journal_reserve:
  assumes ok: "journal_ok db" and l: "ledger_ok (holds_of db)" and h: "reserve_body A now ulids inp db = Inr (db', ans)"
  shows "journal_ok db'"
  using h
proof (cases rule: reserve_bodyE)
  case (fresh cur)
  from fresh(3) show ?thesis
    by (cases rule: reserve_freshE) (use ok in \<open>blast intro: journal_refuse journal_admitted\<close>)+
next
  case (unknown cur r)
  from journal_unknown [OF ok l lockInvocation_Inr(1) [OF unknown(1)] unknown(2,3,5)] show ?thesis .
qed (use ok in simp_all)

lemma journal_finalize:
  assumes ok: "journal_ok db" and l: "ledger_ok (holds_of db)" and h: "finalize_body A now inp db = Inr (db', ans)"
  shows "journal_ok db'"
  using h
proof (cases rule: finalize_bodyE)
  case (settled cur r db1 facts st capture db2 updated v)
  have "same_journal db db1"
    using charge [OF reservation_by_id [OF l settled(3)] settled(5)] auth_same_journal by blast
  with status_same_journal [OF settled(6)] have "same_journal db db2" by (blast intro: same_journal_trans)
  then have "journal_ok (if st = ReservationCaptured then captureEntitlementUnit now (v_id cur) db2
      else releaseEntitlementUnit now (v_id cur) db2)"
    using ok same_journal_ok [of db "captureEntitlementUnit now (v_id cur) db2"]
      same_journal_ok [of db "releaseEntitlementUnit now (v_id cur) db2"] by simp
  from journal_transition [OF this settled(7)] show ?thesis .
qed (use ok in simp)

lemma journal_release:
  assumes ok: "journal_ok db" and l: "ledger_ok (holds_of db)" and h: "release_body A now inp db = Inr (db', ans)"
  shows "journal_ok db'"
  using h
proof (cases rule: release_bodyE)
  case (settled cur r db1 payment db2 updated v)
  have "same_journal db db1"
    using void_charge [OF reservation_by_id [OF l settled(3)] settled(5)] by (rule auth_same_journal)
  with status_same_journal [OF settled(6)] have "same_journal db db2" by (blast intro: same_journal_trans)
  then have "journal_ok (releaseEntitlementUnit now (v_id cur) db2)"
    using ok same_journal_ok [of db "releaseEntitlementUnit now (v_id cur) db2"] by simp
  from journal_transition [OF this settled(7)] show ?thesis .
qed (use ok in simp)

end

lemma grant_same_journal: "grant_body now ulid inp db = Inr (db', n) \<Longrightarrow> same_journal db db'"
  by (auto simp: grant_body_def Let_def same_journal_def split: option.splits if_splits)

interpretation journal: ledger_invariant journal_ok
proof (unfold_locales, goal_cases)
  case 1 show ?case by (simp add: journal_ok_def empty_cdb_def)
next
  case 2 then show ?case by (simp add: journal_ok_def)
next
  case 3 then show ?case by (simp add: journal_ok_def)
next
  case 4 then show ?case by (simp add: journal_ok_def)
next
  case 5 from journal_accept [OF 5(2,1)] show ?case .
next
  case 6 from journal_transition [OF 6(1,3)] show ?case .
next
  case 7 from journal_dispatch [OF 7(2,1)] show ?case .
next
  case 8 from payment_rail.journal_reserve [OF 8(3,1,2,4)] show ?case .
next
  case 9 from payment_rail.journal_finalize [OF 9(3,1,2,4)] show ?case .
next
  case 10 from payment_rail.journal_release [OF 10(3,1,2,4)] show ?case .
next
  case 11 from same_journal_ok [OF grant_same_journal [OF 11(3)]] 11(1) show ?case by simp
next
  case 12 then show ?case by (simp add: journal_ok_def)
qed

text \<open>
  The history of an invocation explains its row: on every reachable ledger its rows start with
  the acceptance, each continues from the phase the one before it ended in, along an edge of
  the graph, the last ends in the phase the row has, and an invocation that is not in the
  ledger has no history.
\<close>

theorem history_is_a_path:
  assumes "creach H db"
  shows "journal_path None (filter (\<lambda>h. h_invocation h = i) (cd_history db))
      (map_option v_phase (tselect v_id (cd_invocations db) i))"
  using journal.reachable [OF assms] by (simp add: journal_ok_def)

theorem history_is_a_path_witness:
  "journal_path None (filter (\<lambda>h. h_invocation h = ''inv_3'') (cd_history demo_finalized))
      (map_option v_phase (tselect v_id (cd_invocations demo_finalized) ''inv_3'')) \<and>
   map h_to (cd_history demo_finalized) =
     [PhaseAccepted, PhaseReserved, PhaseDispatching, PhaseDispatched, PhaseFinalized]"
  using history_is_a_path [OF demo_reach(6), of "''inv_3''"] by (simp, code_simp)

end
