(* ===== verification/Commerce_Units.thy ===== *)
theory Commerce_Units
  imports Commerce_Journal
begin

text \<open>
  Prepaid units.  A package's units are conserved: what it was granted is what remains, what
  invocations in flight hold and what finalized ones consumed; and which units an invocation
  has is decided by its phase.
\<close>

section \<open>The invariant\<close>

definition units :: "alloc_state \<Rightarrow> string \<Rightarrow> allocation list \<Rightarrow> int" where
  "units st i als = sum_list (map (\<lambda>a. if al_entitlement a = i \<and> al_state a = st then al_units a else 0) als)"

definition pack_ok :: "allocation list \<Rightarrow> entitlement \<Rightarrow> bool" where
  "pack_ok als n \<longleftrightarrow> 0 \<le> n_remaining n \<and> n_reserved n = units AllocationHeld (n_id n) als \<and>
     n_total n = n_remaining n + n_reserved n + units AllocationCaptured (n_id n) als"

definition packs_ok :: "entitlement list \<Rightarrow> allocation list \<Rightarrow> bool" where
  "packs_ok ns als \<longleftrightarrow>
     unique_key n_id ns \<and> unique_key al_id als \<and> unique_key al_invocation als \<and>
     (\<forall>n \<in> set ns. pack_ok als n) \<and>
     (\<forall>a \<in> set als. 0 < al_units a \<and> tselect n_id ns (al_entitlement a) \<noteq> None)"

text \<open>Which phase an allocation in a state belongs to.\<close>

definition alloc_fits :: "alloc_state \<Rightarrow> invocation \<Rightarrow> bool" where
  "alloc_fits st v \<longleftrightarrow>
     (case st of
        AllocationHeld \<Rightarrow> live_phase (v_phase v)
      | AllocationCaptured \<Rightarrow> v_phase v = PhaseFinalized \<and> v_charge v = ChargeCaptured
      | AllocationReleased \<Rightarrow> IsTerminal (v_phase v) \<and> v_charge v \<noteq> ChargeCaptured)"

definition allocs_fit :: "invocation list \<Rightarrow> allocation list \<Rightarrow> bool" where
  "allocs_fit vs als \<longleftrightarrow> (\<forall>i a. tselect al_invocation als i = Some a \<longrightarrow>
     (\<exists>v. tselect v_id vs i = Some v \<and> alloc_fits (al_state a) v))"

definition units_ok :: "cdb \<Rightarrow> bool" where
  "units_ok db \<longleftrightarrow> packs_ok (cd_entitlements db) (cd_allocations db) \<and>
     allocs_fit (cd_invocations db) (cd_allocations db)"

section \<open>Units of a package\<close>

lemma units_append: "units st i (als @ [a]) = units st i als + (if al_entitlement a = i \<and> al_state a = st then al_units a else 0)"
  by (simp add: units_def)

lemma units_put:
  assumes "unique_key al_id als" and "a \<in> set als" and "al_id a' = al_id a"
  shows "units st i (tput al_id als a') = units st i als -
    (if al_entitlement a = i \<and> al_state a = st then al_units a else 0) +
    (if al_entitlement a' = i \<and> al_state a' = st then al_units a' else 0)"
proof -
  have "tselect al_id als (al_id a') = Some a" using tsel_in [OF assms(1,2)] assms(3) by simp
  from sum_list_tput [OF assms(1) this] show ?thesis by (simp add: units_def)
qed

lemma units_none:
  assumes "\<forall>a \<in> set als. al_entitlement a \<noteq> i"
  shows "units st i als = 0"
  using assms by (induction als) (simp_all add: units_def)

text \<open>One package replaced, with the others as they were.\<close>

lemma packs_put:
  assumes ok: "packs_ok ns als" and n: "tselect n_id ns (n_id n) = Some n" "n_id n' = n_id n"
    and u: "unique_key al_id als'" "unique_key al_invocation als'"
    and new: "pack_ok als' n'"
    and other: "\<And>st i. i \<noteq> n_id n \<Longrightarrow> units st i als' = units st i als"
    and al: "\<And>a. a \<in> set als' \<Longrightarrow> 0 < al_units a \<and> tselect n_id ns (al_entitlement a) \<noteq> None"
  shows "packs_ok (tput n_id ns n') als'"
proof -
  have k: "unique_key n_id ns" using ok by (simp add: packs_ok_def)
  have sel: "tselect n_id (tput n_id ns n') i \<noteq> None \<longleftrightarrow> tselect n_id ns i \<noteq> None" for i
    using n by (simp add: tselect_tput)
  have "pack_ok als' m" if m: "m \<in> set (tput n_id ns n')" for m
  proof (cases "m = n'")
    case True
    with new show ?thesis by simp
  next
    case False
    with m have mem: "m \<in> set ns" using set_tput by fastforce
    have "tselect n_id (tput n_id ns n') (n_id m) = Some m" using tsel_in [OF unique_tput [OF k] m] .
    with False n have "n_id m \<noteq> n_id n" by (auto simp: tselect_tput split: if_splits)
    with other ok mem show ?thesis by (simp add: packs_ok_def pack_ok_def)
  qed
  with u al sel unique_tput [OF k] show ?thesis by (simp add: packs_ok_def)
qed

section \<open>Holding and closing a unit\<close>

lemma earliest_expiring_in: "earliest_expiring ns = Some n \<Longrightarrow> n \<in> set ns"
  by (induction ns arbitrary: n) (auto split: option.splits if_splits)

lemma hold_unit:
  assumes h: "holdEntitlementUnit now ulid tenant cap i db = Inr (db', u)"
    and ok: "packs_ok (cd_entitlements db) (cd_allocations db)"
  obtains (none) "db' = db"
    | (unit) a where "packs_ok (cd_entitlements db') (cd_allocations db')" "al_invocation a = i"
        "al_state a = AllocationHeld" "tselect al_invocation (cd_allocations db) i = None"
        "cd_allocations db' = cd_allocations db @ [a]"
proof (cases "db' = db")
  case True
  then show ?thesis by (rule none)
next
  case False
  define ours where "ours = filter (\<lambda>n. n_tenant n = tenant \<and> n_capability n = cap \<and> n_status n = EntitlementActive) (cd_entitlements db)"
  from h False obtain n where n: "earliest_expiring (filter (\<lambda>n. 0 < n_remaining n \<and> now < n_expires_at n) ours) = Some n"
    by (auto simp: holdEntitlementUnit_def Let_def ours_def split: option.splits if_splits)
  define a where "a = \<lparr>al_id = ''alc_'' @ ulid, al_entitlement = n_id n, al_invocation = i, al_units = 1,
    al_state = AllocationHeld, al_recorded_at = now\<rparr>"
  define n' where "n' = n\<lparr>n_remaining := n_remaining n - 1, n_reserved := n_reserved n + 1, n_updated_at := now\<rparr>"
  from earliest_expiring_in [OF n] have mem: "n \<in> set (cd_entitlements db)" "0 < n_remaining n"
    by (auto simp: ours_def)
  have k: "unique_key n_id (cd_entitlements db)" using ok by (simp add: packs_ok_def)
  have sel: "tselect n_id (cd_entitlements db) (n_id n) = Some n" by (rule tsel_in [OF k mem(1)])
  from h n have new: "\<not> list_ex (\<lambda>x. al_id x = al_id a \<or> al_invocation x = i) (cd_allocations db)"
    and db': "cd_entitlements db' = tput n_id (cd_entitlements db) n'" "cd_allocations db' = cd_allocations db @ [a]"
    using sel
    by (auto simp: holdEntitlementUnit_def Let_def ours_def [symmetric] a_def n'_def set_entitlement_def tupdate_def
        split: if_splits)
  from new have free: "tselect al_id (cd_allocations db) (al_id a) = None"
      "tselect al_invocation (cd_allocations db) (al_invocation a) = None"
    by (auto simp: tselect_None_iff list_ex_iff a_def)
  have "packs_ok (tput n_id (cd_entitlements db) n') (cd_allocations db @ [a])"
  proof (rule packs_put [OF ok sel])
    show "pack_ok (cd_allocations db @ [a]) n'"
      using ok mem by (auto simp: packs_ok_def pack_ok_def units_append a_def n'_def)
  qed (use ok free sel in \<open>auto simp: packs_ok_def unique_new units_append a_def n'_def\<close>)
  with db' free show ?thesis by (intro unit [of a]) (simp_all add: a_def)
qed

text \<open>A row replaced under one unique key is replaced under another it keeps.\<close>

lemma held_allocation:
  assumes "unique_key al_invocation als"
  shows "find (\<lambda>a. al_invocation a = i \<and> al_state a = AllocationHeld) als =
    (case tselect al_invocation als i of Some a \<Rightarrow> if al_state a = AllocationHeld then Some a else None | None \<Rightarrow> None)"
  using assms
proof (induction als)
  case (Cons a als)
  then have "unique_key al_invocation als" "tselect al_invocation als (al_invocation a) = None"
    by (auto simp: unique_key_def tselect_None_iff)
  moreover from this(2) have "find (\<lambda>b. al_invocation b = al_invocation a \<and> al_state b = AllocationHeld) als = None"
    unfolding tselect_None_iff find_None_iff by (metis image_eqI)
  ultimately show ?case using Cons.IH by (auto simp: tselect_Cons)
qed simp

lemma close_unit:
  assumes ok: "packs_ok (cd_entitlements db) (cd_allocations db)"
    and f: "st = AllocationCaptured \<and> f = (\<lambda>u n. n\<lparr>n_reserved := n_reserved n - u, n_updated_at := now\<rparr>) \<or>
      st = AllocationReleased \<and>
      f = (\<lambda>u n. n\<lparr>n_remaining := n_remaining n + u, n_reserved := n_reserved n - u, n_updated_at := now\<rparr>)"
  shows "packs_ok (cd_entitlements (close_allocation st f i db)) (cd_allocations (close_allocation st f i db))"
    and "tselect al_invocation (cd_allocations (close_allocation st f i db)) j =
      map_option (\<lambda>a. if j = i \<and> al_state a = AllocationHeld then a\<lparr>al_state := st\<rparr> else a)
        (tselect al_invocation (cd_allocations db) j)"
proof -
  let ?als = "cd_allocations db"
  have k: "unique_key al_id ?als" "unique_key al_invocation ?als" using ok by (simp_all add: packs_ok_def)
  note found = held_allocation [OF k(2), of i]
  have "packs_ok (cd_entitlements (close_allocation st f i db)) (cd_allocations (close_allocation st f i db)) \<and>
    tselect al_invocation (cd_allocations (close_allocation st f i db)) j =
      map_option (\<lambda>a. if j = i \<and> al_state a = AllocationHeld then a\<lparr>al_state := st\<rparr> else a)
        (tselect al_invocation ?als j)"
  proof (cases "find (\<lambda>a. al_invocation a = i \<and> al_state a = AllocationHeld) ?als")
    case None
    with found ok show ?thesis
      by (cases "tselect al_invocation ?als j") (auto simp: close_allocation_def split: option.splits if_splits)
  next
    case (Some a)
    with found have a: "tselect al_invocation ?als i = Some a" "al_state a = AllocationHeld"
      by (auto split: option.splits if_splits)
    then have mem: "a \<in> set ?als" "al_invocation a = i" using tselect_SomeD [OF a(1)] by simp_all
    with ok obtain n where n: "tselect n_id (cd_entitlements db) (al_entitlement a) = Some n" "0 < al_units a"
      unfolding packs_ok_def by fastforce
    have id: "n_id n = al_entitlement a" using tselect_SomeD [OF n(1)] by simp
    define a' where "a' = a\<lparr>al_state := st\<rparr>"
    define n' where "n' = f (al_units a) n"
    have n'id: "n_id n' = n_id n" using f by (auto simp: n'_def)
    have eq: "tput al_id ?als a' = tput al_invocation ?als a'"
      by (rule tput_two_keys [OF k mem(1)]) (simp_all add: a'_def)
    have ents: "cd_entitlements (close_allocation st f i db) = tput n_id (cd_entitlements db) n'"
      and als: "cd_allocations (close_allocation st f i db) = tput al_id ?als a'"
      using Some n(1) by (simp_all add: close_allocation_def set_entitlement_def tupdate_def a'_def n'_def)
    have u: "units s e (tput al_id ?als a') = units s e ?als -
        (if al_entitlement a = e \<and> al_state a = s then al_units a else 0) +
        (if al_entitlement a' = e \<and> al_state a' = s then al_units a' else 0)" for s e
      by (rule units_put [OF k(1) mem(1)]) (simp add: a'_def)
    have a's: "al_entitlement a' = al_entitlement a" "al_state a' = st" "al_units a' = al_units a"
      by (simp_all add: a'_def)
    have "n \<in> set (cd_entitlements db)" using tselect_SomeD [OF n(1)] by simp
    with ok have pn: "pack_ok ?als n" by (simp add: packs_ok_def)
    have "packs_ok (tput n_id (cd_entitlements db) n') (tput al_id ?als a')"
    proof (rule packs_put [OF ok _ n'id])
      show "tselect n_id (cd_entitlements db) (n_id n) = Some n" using n(1) id by simp
      show "unique_key al_id (tput al_id ?als a')" by (rule unique_tput [OF k(1)])
      show "unique_key al_invocation (tput al_id ?als a')" unfolding eq by (rule unique_tput [OF k(2)])
      show "pack_ok (tput al_id ?als a') n'"
        using f pn id n(2) a(2) a's by (elim disjE conjE) (simp_all add: pack_ok_def u n'_def)
      show "units s e (tput al_id ?als a') = units s e ?als" if "e \<noteq> n_id n" for s e
        using that id a's by (simp add: u)
      show "0 < al_units x \<and> tselect n_id (cd_entitlements db) (al_entitlement x) \<noteq> None"
        if "x \<in> set (tput al_id ?als a')" for x
        using set_tput [OF that] ok n by (auto simp: a'_def packs_ok_def)
    qed
    moreover have "tselect al_invocation (tput al_id ?als a') j =
        map_option (\<lambda>a. if j = i \<and> al_state a = AllocationHeld then a\<lparr>al_state := st\<rparr> else a) (tselect al_invocation ?als j)"
      unfolding eq using a mem by (cases "tselect al_invocation ?als j") (auto simp: tselect_tput a'_def)
    ultimately show ?thesis by (simp add: ents als)
  qed
  then show "packs_ok (cd_entitlements (close_allocation st f i db)) (cd_allocations (close_allocation st f i db))"
    "tselect al_invocation (cd_allocations (close_allocation st f i db)) j =
      map_option (\<lambda>a. if j = i \<and> al_state a = AllocationHeld then a\<lparr>al_state := st\<rparr> else a)
        (tselect al_invocation ?als j)"
    by blast+
qed

lemma release_unit:
  assumes "packs_ok (cd_entitlements db) (cd_allocations db)"
  shows "packs_ok (cd_entitlements (releaseEntitlementUnit now i db)) (cd_allocations (releaseEntitlementUnit now i db))"
    and "tselect al_invocation (cd_allocations (releaseEntitlementUnit now i db)) j =
      map_option (\<lambda>a. if j = i \<and> al_state a = AllocationHeld then a\<lparr>al_state := AllocationReleased\<rparr> else a)
        (tselect al_invocation (cd_allocations db) j)"
  unfolding releaseEntitlementUnit_def by (rule close_unit [OF assms], simp)+

lemma capture_unit:
  assumes "packs_ok (cd_entitlements db) (cd_allocations db)"
  shows "packs_ok (cd_entitlements (captureEntitlementUnit now i db)) (cd_allocations (captureEntitlementUnit now i db))"
    and "tselect al_invocation (cd_allocations (captureEntitlementUnit now i db)) j =
      map_option (\<lambda>a. if j = i \<and> al_state a = AllocationHeld then a\<lparr>al_state := AllocationCaptured\<rparr> else a)
        (tselect al_invocation (cd_allocations db) j)"
  unfolding captureEntitlementUnit_def by (rule close_unit [OF assms], simp)+

section \<open>Allocations and phases\<close>

text \<open>A row moved: its allocation, if it has one, must fit where it goes.\<close>

lemma allocs_move:
  assumes fit: "\<And>i a. i \<noteq> v_id v' \<Longrightarrow> tselect al_invocation als' i = Some a \<Longrightarrow>
      \<exists>v. tselect v_id vs i = Some v \<and> alloc_fits (al_state a) v"
    and new: "\<And>a. tselect al_invocation als' (v_id v') = Some a \<Longrightarrow> alloc_fits (al_state a) v'"
  shows "allocs_fit (tput v_id vs v') als'"
  unfolding allocs_fit_def
proof (intro allI impI)
  fix i a
  assume "tselect al_invocation als' i = Some a"
  then show "\<exists>v. tselect v_id (tput v_id vs v') i = Some v \<and> alloc_fits (al_state a) v"
    using fit [of i a] new [of a] by (cases "i = v_id v'") (auto simp: tselect_tput)
qed

lemma allocs_fitD:
  "allocs_fit vs als \<Longrightarrow> tselect al_invocation als i = Some a \<Longrightarrow> tselect v_id vs i = Some v \<Longrightarrow>
    alloc_fits (al_state a) v"
  unfolding allocs_fit_def by (metis option.inject)

lemma no_alloc:
  assumes "allocs_fit vs als" and "tselect v_id vs i = Some v" and "v_phase v = PhaseAccepted"
  shows "tselect al_invocation als i = None"
proof (cases "tselect al_invocation als i")
  case (Some a)
  from allocs_fitD [OF assms(1) Some assms(2)] assms(3) show ?thesis
    by (cases "al_state a") (simp_all add: alloc_fits_def IsTerminal_def)
qed simp

lemma live_alloc:
  assumes "allocs_fit vs als" and "tselect v_id vs i = Some v" and "live_phase (v_phase v)"
    and "tselect al_invocation als i = Some a"
  shows "al_state a = AllocationHeld"
  using allocs_fitD [OF assms(1,4,2)] live_not_terminal [OF assms(3)] assms(3)
  by (cases "al_state a") (auto simp: alloc_fits_def)

section \<open>The operations\<close>

lemma units_same:
  assumes "units_ok db" and "cd_entitlements db' = cd_entitlements db" and "cd_allocations db' = cd_allocations db"
    and "cd_invocations db' = cd_invocations db"
  shows "units_ok db'"
  using assms by (simp add: units_ok_def)

text \<open>
  A transition, taken after the packages were changed: the allocation of the invocation, if it
  has one, must fit the row it leaves.
\<close>

lemma units_transition:
  assumes tr: "applyTransition now tenant inp db1 = Inr (db', v)"
    and packs: "packs_ok (cd_entitlements db1) (cd_allocations db1)"
    and inv: "cd_invocations db1 = cd_invocations db" and fit: "allocs_fit (cd_invocations db) (cd_allocations db)"
    and same: "\<And>j. j \<noteq> ti_invocation inp \<Longrightarrow>
      tselect al_invocation (cd_allocations db1) j = tselect al_invocation (cd_allocations db) j"
    and new: "\<And>a. tselect al_invocation (cd_allocations db1) (ti_invocation inp) = Some a \<Longrightarrow> alloc_fits (al_state a) v"
  shows "units_ok db'"
  using tr
proof (rule applyTransition_Inr, goal_cases)
  case (1 cur to)
  have "allocs_fit (tput v_id (cd_invocations db) v) (cd_allocations db1)"
  proof (rule allocs_move)
    fix i a
    assume "i \<noteq> v_id v" and a: "tselect al_invocation (cd_allocations db1) i = Some a"
    then have "tselect al_invocation (cd_allocations db) i = Some a" using same [of i] 1 by simp
    with fit show "\<exists>w. tselect v_id (cd_invocations db) i = Some w \<and> alloc_fits (al_state a) w"
      unfolding allocs_fit_def by blast
  qed (use new 1 in simp)
  with packs inv 1 show ?case by (simp add: units_ok_def)
qed

lemma units_open:
  assumes tr: "applyTransition now tenant inp db = Inr (db', v)" and ok: "units_ok db"
    and "\<And>p. ti_to inp = Val p \<Longrightarrow> p \<notin> set ownedEdges"
  shows "units_ok db'"
  using tr
proof (rule applyTransition_Inr, goal_cases)
  case (1 cur to)
  have fit: "allocs_fit (cd_invocations db) (cd_allocations db)" using ok by (simp add: units_ok_def)
  have to: "to = PhaseRefused \<and> v_phase cur = PhaseAccepted \<or> live_phase to \<and> live_phase (v_phase cur)"
    using 1 assms(3) [OF 1(6)] by (cases "v_phase cur") (auto simp: ownedEdges_def)
  show ?case
  proof (rule units_transition [OF tr])
    fix a
    assume a: "tselect al_invocation (cd_allocations db) (ti_invocation inp) = Some a"
    from to no_alloc [OF fit 1(2)] a have live: "live_phase to" "live_phase (v_phase cur)" by auto
    from live_alloc [OF fit 1(2) live(2) a] live(1) 1 show "alloc_fits (al_state a) v" by (simp add: alloc_fits_def)
  qed (use ok fit in \<open>simp_all add: units_ok_def\<close>)
qed

lemma units_refuse:
  assumes "refuse now inp cur reason why cause db = Inr (db', ans)" and "units_ok db"
  shows "units_ok db'"
proof -
  from assms(1) obtain v where "applyTransition now (ri_tenant inp)
      ((edge_input (v_id cur) PhaseAccepted PhaseRefused (ri_actor inp))\<lparr>ti_reason := reason, ti_note := why\<rparr>) db =
      Inr (db', v)"
    by (auto simp: refuse_def result_iffs)
  from units_open [OF this assms(2)] show ?thesis by (simp add: edge_input_def ownedEdges_def)
qed

lemma units_accept:
  assumes "accept_body H now ulid inp db = Inr (db', ans)" and ok: "units_ok db"
  shows "units_ok db'"
proof (cases "db' = db")
  case True
  with ok show ?thesis by simp
next
  case False
  with assms(1) obtain q t where
    ins: "insert_invocation now (accepted_invocation now ulid inp q t) db = Inr (db', ans)"
    by (auto simp: accept_body_def result_iffs split: option.splits if_splits)
  define v where "v = accepted_invocation now ulid inp q t"
  from ins have "cd_invocations db' = cd_invocations db @ [v]" "cd_entitlements db' = cd_entitlements db"
      "cd_allocations db' = cd_allocations db"
    by (auto simp: insert_invocation_def v_def [symmetric] split: if_splits)
  moreover have "allocs_fit (cd_invocations db @ [v]) (cd_allocations db)"
    unfolding allocs_fit_def
  proof (intro allI impI)
    fix i a
    assume "tselect al_invocation (cd_allocations db) i = Some a"
    with ok obtain w where "tselect v_id (cd_invocations db) i = Some w" "alloc_fits (al_state a) w"
      unfolding units_ok_def allocs_fit_def by blast
    then show "\<exists>w. tselect v_id (cd_invocations db @ [v]) i = Some w \<and> alloc_fits (al_state a) w"
      by (simp add: tselect_append)
  qed
  ultimately show ?thesis using ok by (simp add: units_ok_def)
qed

lemma units_dispatch:
  assumes "dispatch_body sg now inp db = Inr (db', ans)" and ok: "units_ok db"
  shows "units_ok db'"
  using assms(1)
proof (cases rule: dispatch_bodyE)
  case (replay cur q deadline)
  with ok show ?thesis by simp
next
  case (first cur q db1 moved deadline)
  have fit: "allocs_fit (cd_invocations db) (cd_allocations db)" using ok by (simp add: units_ok_def)
  note l = lockInvocation_Inr [OF first(1)]
  from first(4) have m: "isel db1 (v_id moved) = Some moved" "v_phase moved = PhaseDispatching"
      "v_id moved = di_invocation inp"
    by (rule applyTransition_Inr, simp add: tselect_tput edge_input_def)+
  have u1: "units_ok db1"
  proof (rule units_transition [OF first(4)])
    fix a
    assume "tselect al_invocation (cd_allocations db) (ti_invocation (edge_input (di_invocation inp) PhaseReserved
        PhaseDispatching (di_actor inp)\<lparr>ti_note := di_note inp\<rparr>)) = Some a"
    then have "tselect al_invocation (cd_allocations db) (v_id cur) = Some a" using l(2) by (simp add: edge_input_def)
    from live_alloc [OF fit l(1) _ this] first(3) m(2) show "alloc_fits (al_state a) moved" by (simp add: alloc_fits_def)
  qed (use ok fit in \<open>simp_all add: units_ok_def\<close>)
  have "allocs_fit (tput v_id (cd_invocations db1) (moved\<lparr>v_dispatch_deadline := Some deadline\<rparr>)) (cd_allocations db1)"
  proof (rule allocs_move)
    fix i a
    assume "tselect al_invocation (cd_allocations db1) i = Some a"
    with u1 show "\<exists>w. tselect v_id (cd_invocations db1) i = Some w \<and> alloc_fits (al_state a) w"
      unfolding units_ok_def allocs_fit_def by blast
  next
    fix a
    assume "tselect al_invocation (cd_allocations db1) (v_id (moved\<lparr>v_dispatch_deadline := Some deadline\<rparr>)) = Some a"
    then have "alloc_fits (al_state a) moved"
      using u1 m(1) allocs_fitD unfolding units_ok_def by auto
    then show "alloc_fits (al_state a) (moved\<lparr>v_dispatch_deadline := Some deadline\<rparr>)"
      by (cases "al_state a") (simp_all add: alloc_fits_def)
  qed
  with u1 first(5) show ?thesis by (simp add: units_ok_def)
qed

lemma units_grant:
  assumes "grant_body now ulid inp db = Inr (db', n)" and "0 < ge_units inp" and ok: "units_ok db"
  shows "units_ok db'"
proof -
  from assms(1) have new: "tselect n_id (cd_entitlements db) (n_id n) = None"
    and db': "db' = db\<lparr>cd_entitlements := cd_entitlements db @ [n]\<rparr>"
    and n: "n_total n = ge_units inp" "n_remaining n = ge_units inp" "n_reserved n = 0"
    by (auto simp: grant_body_def Let_def tselect_None_iff list_ex_iff split: option.splits if_splits)
  from ok have p: "packs_ok (cd_entitlements db) (cd_allocations db)" by (simp add: units_ok_def)
  then have "\<forall>a \<in> set (cd_allocations db). al_entitlement a \<noteq> n_id n"
    using new unfolding packs_ok_def by metis
  then have "units st (n_id n) (cd_allocations db) = 0" for st by (rule units_none)
  with p new n assms(2) have "packs_ok (cd_entitlements db @ [n]) (cd_allocations db)"
    by (auto simp: packs_ok_def pack_ok_def unique_new tsel_new)
  with ok db' show ?thesis by (simp add: units_ok_def)
qed

lemma units_retire:
  assumes up: "tupdate n_id i (\<lambda>n. n_tenant n = tenant \<and> n_status n = EntitlementActive)
      (\<lambda>n. n\<lparr>n_status := EntitlementRetired, n_updated_at := now\<rparr>) (cd_entitlements db) = (rows, r)" and ok: "units_ok db"
  shows "units_ok (db\<lparr>cd_entitlements := rows\<rparr>)"
proof (cases r)
  case None
  from pg.upd_none [OF up [unfolded None]] have "rows = cd_entitlements db" by simp
  with ok show ?thesis by (simp add: units_ok_def)
next
  case (Some r')
  from pg.upd_row [OF up [unfolded Some]] obtain n where n: "tselect n_id (cd_entitlements db) i = Some n"
      "rows = tput n_id (cd_entitlements db) (n\<lparr>n_status := EntitlementRetired, n_updated_at := now\<rparr>)" by auto
  from ok have p: "packs_ok (cd_entitlements db) (cd_allocations db)" by (simp add: units_ok_def)
  have i: "n_id n = i" "n \<in> set (cd_entitlements db)" using tselect_SomeD [OF n(1)] by simp_all
  have "packs_ok rows (cd_allocations db)"
    unfolding n(2) by (rule packs_put [OF p, of n]) (use n i p in \<open>auto simp: packs_ok_def pack_ok_def\<close>)
  with ok show ?thesis by (simp add: units_ok_def)
qed

section \<open>Operations that hold or close a unit\<close>

text \<open>
  In the middle of an operation on invocation \<open>i\<close>: the packages add up, the other invocations
  have the units they had, and the unit of \<open>i\<close>, if it has one, is still held.
\<close>

definition unit_pending :: "string \<Rightarrow> cdb \<Rightarrow> cdb \<Rightarrow> bool" where
  "unit_pending i db db1 \<longleftrightarrow>
     packs_ok (cd_entitlements db1) (cd_allocations db1) \<and> cd_invocations db1 = cd_invocations db \<and>
     allocs_fit (cd_invocations db) (cd_allocations db) \<and>
     (\<forall>j. j \<noteq> i \<longrightarrow> tselect al_invocation (cd_allocations db1) j = tselect al_invocation (cd_allocations db) j) \<and>
     (\<forall>a. tselect al_invocation (cd_allocations db1) i = Some a \<longrightarrow> al_state a = AllocationHeld)"

lemma pending_live:
  assumes "units_ok db" and "isel db i = Some cur" and "live_phase (v_phase cur)"
  shows "unit_pending i db db"
  using assms live_alloc [of "cd_invocations db" "cd_allocations db" i cur]
  by (simp add: unit_pending_def units_ok_def)

lemma pending_hold:
  assumes ok: "units_ok db" and cur: "isel db i = Some cur" "v_phase cur = PhaseAccepted"
    and h: "holdEntitlementUnit now ulid tenant cap i db = Inr (db', u)"
  shows "unit_pending i db db'"
proof -
  from ok have p: "packs_ok (cd_entitlements db) (cd_allocations db)"
    and fit: "allocs_fit (cd_invocations db) (cd_allocations db)" by (simp_all add: units_ok_def)
  note none = no_alloc [OF fit cur]
  from h p show ?thesis
  proof (cases rule: hold_unit)
    case none
    with p fit no_alloc [OF fit cur] show ?thesis by (simp add: unit_pending_def)
  next
    case (unit a)
    with fit none holdEntitlementUnit_sel [OF h] show ?thesis
      by (simp add: unit_pending_def tselect_append split: option.split)
  qed
qed

lemma pending_frame:
  assumes "unit_pending i db db1" and "cd_entitlements db2 = cd_entitlements db1"
    and "cd_allocations db2 = cd_allocations db1" and "cd_invocations db2 = cd_invocations db1"
  shows "unit_pending i db db2"
  using assms by (simp add: unit_pending_def)

lemma pending_rail:
  "unit_pending i db db1 \<Longrightarrow> payments_only db1 db2 \<Longrightarrow> unit_pending i db db2"
  "unit_pending i db db1 \<Longrightarrow> auth_frame r db1 db2 \<Longrightarrow> unit_pending i db db2"
  by (erule pending_frame; simp add: payments_only_sel auth_frame_sel)+

lemma pending_status:
  "unit_pending i db db1 \<Longrightarrow> setReservationStatus now rid st cap db1 = Inr (db2, r) \<Longrightarrow> unit_pending i db db2"
  by (erule pending_frame) (auto simp: setReservationStatus_def split: prod.splits option.splits)

text \<open>The unit closed: its state is the one it was closed to.\<close>

lemma pending_closed:
  assumes "unit_pending i db db1"
    and "db2 = releaseEntitlementUnit now i db1 \<and> st = AllocationReleased \<or>
      db2 = captureEntitlementUnit now i db1 \<and> st = AllocationCaptured"
  shows "packs_ok (cd_entitlements db2) (cd_allocations db2)" "cd_invocations db2 = cd_invocations db"
    "j \<noteq> i \<Longrightarrow> tselect al_invocation (cd_allocations db2) j = tselect al_invocation (cd_allocations db) j"
    "tselect al_invocation (cd_allocations db2) i = Some a \<Longrightarrow> al_state a = st"
proof -
  from assms(1) have p: "packs_ok (cd_entitlements db1) (cd_allocations db1)" by (simp add: unit_pending_def)
  from assms(2) release_unit(1) [OF p] capture_unit(1) [OF p]
  show "packs_ok (cd_entitlements db2) (cd_allocations db2)" by blast
  from assms show "cd_invocations db2 = cd_invocations db"
    by (auto simp: unit_pending_def releaseEntitlementUnit_def captureEntitlementUnit_def)
  have sel: "tselect al_invocation (cd_allocations db2) k =
      map_option (\<lambda>a. if k = i \<and> al_state a = AllocationHeld then a\<lparr>al_state := st\<rparr> else a)
        (tselect al_invocation (cd_allocations db1) k)" for k
    using assms(2) release_unit(2) [OF p] capture_unit(2) [OF p] by blast
  show "tselect al_invocation (cd_allocations db2) j = tselect al_invocation (cd_allocations db) j" if "j \<noteq> i"
    using that assms(1) by (cases "tselect al_invocation (cd_allocations db) j") (simp_all add: sel unit_pending_def)
  show "al_state a = st" if "tselect al_invocation (cd_allocations db2) i = Some a"
    using that assms(1) by (auto simp: sel unit_pending_def)
qed

lemma pending_close_transition:
  assumes pend: "unit_pending (ti_invocation inp) db db1"
    and cl: "db2 = releaseEntitlementUnit now (ti_invocation inp) db1 \<and> st = AllocationReleased \<or>
      db2 = captureEntitlementUnit now (ti_invocation inp) db1 \<and> st = AllocationCaptured"
    and tr: "applyTransition now tenant inp db2 = Inr (db', v)" and fit: "alloc_fits st v"
  shows "units_ok db'"
proof (rule units_transition [OF tr])
  from pend show "allocs_fit (cd_invocations db) (cd_allocations db)" by (simp add: unit_pending_def)
qed (use pending_closed [OF pend cl] fit in auto)

text \<open>What the row looks like after the move.\<close>

lemma moved_facts:
  assumes "applyTransition now tenant inp db = Inr (db', v)" and "ti_to inp = Val to"
  shows "v_phase v = to" "v_charge v = ChargeCaptured \<Longrightarrow> ti_charge inp = Unset \<Longrightarrow> to = PhaseRefused \<Longrightarrow> False"
    "ti_charge inp = Val c \<Longrightarrow> c \<noteq> ChargeReserved \<Longrightarrow> v_charge v = c"
proof -
  obtain cur to' where *: "ti_to inp = Val to'" "v = moved_invocation now to' inp cur"
      "checkFactCombination to' (merged_charge to' inp cur) (firstNonEmpty (ti_payment inp) (v_payment cur)) = None"
    using assms(1) by (rule applyTransition_Inr) blast
  with assms(2) have to: "to' = to" by simp
  show "v_phase v = to" using * to by simp
  show False if "v_charge v = ChargeCaptured" "to = PhaseRefused"
    using * to that by (auto simp: checkFactCombination_def split: if_splits)
  show "v_charge v = c" if "ti_charge inp = Val c" "c \<noteq> ChargeReserved"
    using * to that by (auto simp: merged_charge_def)
qed

lemma pending_open_transition:
  assumes pend: "unit_pending (ti_invocation inp) db db1"
    and tr: "applyTransition now tenant inp db1 = Inr (db', v)" and "ti_to inp = Val to" and "live_phase to"
  shows "units_ok db'"
proof (rule units_transition [OF tr])
  from pend show "allocs_fit (cd_invocations db) (cd_allocations db)" by (simp add: unit_pending_def)
qed (use pend assms(4) moved_facts(1) [OF tr assms(3)] in \<open>auto simp: unit_pending_def alloc_fits_def\<close>)

lemma units_hold:
  assumes "hold now ulid inp cur payment a db1 = Inr (db', ans)" and pend: "unit_pending (v_id cur) db db1"
  shows "units_ok db'"
proof -
  from assms(1) obtain rs v where tr: "applyTransition now (ri_tenant inp)
      ((edge_input (v_id cur) PhaseAccepted PhaseReserved (ri_actor inp))
         \<lparr>ti_charge := Val ChargeReserved, ti_payment := Val payment,
          ti_deadline := Some (now + DefaultReservationWindow)\<rparr>)
      (db1\<lparr>cd_reservations := rs\<rparr>) = Inr (db', v)"
    by (auto simp: hold_def Let_def result_iffs split: if_splits)
  have "unit_pending (v_id cur) db (db1\<lparr>cd_reservations := rs\<rparr>)" by (rule pending_frame [OF pend]) simp_all
  with tr show ?thesis by (intro pending_open_transition [OF _ tr, of db PhaseReserved]) (simp_all add: edge_input_def)
qed

lemma units_deny:
  assumes "refuse now inp cur reason why cause (releaseEntitlementUnit now (v_id cur) db1) = Inr (db', ans)"
    and pend: "unit_pending (v_id cur) db db1"
  shows "units_ok db'"
proof -
  from assms(1) obtain v where tr: "applyTransition now (ri_tenant inp)
      ((edge_input (v_id cur) PhaseAccepted PhaseRefused (ri_actor inp))\<lparr>ti_reason := reason, ti_note := why\<rparr>)
      (releaseEntitlementUnit now (v_id cur) db1) = Inr (db', v)" (is "applyTransition _ _ ?in _ = _")
    by (auto simp: refuse_def result_iffs)
  have to: "ti_to ?in = Val PhaseRefused" "ti_charge ?in = Unset" "ti_invocation ?in = v_id cur"
    by (simp_all add: edge_input_def)
  from moved_facts(1,2) [OF tr to(1)] to(2) have "alloc_fits AllocationReleased v"
    by (auto simp: alloc_fits_def IsTerminal_def)
  with pend to(3) show ?thesis by (intro pending_close_transition [OF _ _ tr]) auto
qed

context payment_rail
begin

lemma pending_authorize:
  "unit_pending i db db1 \<Longrightarrow> authorize_payment A cur db1 = Inr (db2, ans) \<Longrightarrow> unit_pending i db db2"
  by (auto simp: authorize_payment_def result_iffs split: if_splits intro: pending_rail(1) authorize)

lemma units_admitted:
  assumes ok: "units_ok db" and cur: "isel db (v_id cur) = Some cur" "v_phase cur = PhaseAccepted"
    and "reserve_admitted A now ulids inp cur db = Inr (db', ans)"
  shows "units_ok db'"
  using assms(4)
proof (cases rule: reserve_admittedE)
  case (refused reason why)
  from units_refuse [OF refused(1) ok] show ?thesis .
next
  case (denied db1 db2 pr)
  from pending_authorize [OF pending_hold [OF ok cur denied(1)] denied(2)]
  show ?thesis by (rule units_deny [OF denied(3)])
next
  case (held db1 db2 au p a)
  from pending_authorize [OF pending_hold [OF ok cur held(1)] held(2)]
  show ?thesis by (rule units_hold [OF held(3)])
qed

lemma units_unknown:
  assumes ok: "units_ok db" and l: "ledger_ok (holds_of db)"
    and cur: "isel db (v_id cur) = Some cur" "v_phase cur = PhaseReserved" and r: "rsel db (v_id cur) = Some r"
    and h: "resolveUnknownHold A now inp cur r db = Inr (db', ans)"
  shows "units_ok db'"
proof -
  from cur(2) have live: "live_phase (v_phase cur)" by simp
  note pend = pending_live [OF ok cur(1) live]
  note rid = reservation_by_id [OF l r]
  from h show ?thesis
  proof (cases rule: resolveUnknownHoldE)
    case (denied db1 authId r1 db2 updated db3 v)
    have p2: "unit_pending (v_id cur) db db2"
      using resolve_frame [OF rid denied(1)] pend pending_rail(2) pending_status [OF _ denied(2)] by blast
    from moved_facts(1,3) [OF denied(3)] have v: "v_phase v = PhaseReleased" "v_charge v = ChargeReleased"
      by (simp_all add: edge_input_def)
    have tr: "cd_entitlements db3 = cd_entitlements db2" "cd_allocations db3 = cd_allocations db2"
        "cd_invocations db3 = tput v_id (cd_invocations db2) v" "v_id v = v_id cur"
      using denied(3) by (rule applyTransition_Inr, simp add: edge_input_def)+
    then have p3: "packs_ok (cd_entitlements db3) (cd_allocations db3)" using p2 by (simp add: unit_pending_def)
    have "allocs_fit (tput v_id (cd_invocations db) v) (cd_allocations db')"
    proof (rule allocs_move)
      fix i a
      assume "i \<noteq> v_id v" and a: "tselect al_invocation (cd_allocations db') i = Some a"
      with p2 tr denied(4) release_unit(2) [OF p3] have "tselect al_invocation (cd_allocations db) i = Some a"
        by (auto simp: unit_pending_def)
      with ok show "\<exists>w. tselect v_id (cd_invocations db) i = Some w \<and> alloc_fits (al_state a) w"
        unfolding units_ok_def allocs_fit_def by blast
    next
      fix a
      assume "tselect al_invocation (cd_allocations db') (v_id v) = Some a"
      with p2 tr denied(4) release_unit(2) [OF p3] have "al_state a = AllocationReleased"
        by (auto simp: unit_pending_def)
      with v show "alloc_fits (al_state a) v" by (simp add: alloc_fits_def IsTerminal_def)
    qed
    with p2 tr denied(4) release_unit(1) [OF p3] show ?thesis
      by (simp add: units_ok_def unit_pending_def releaseEntitlementUnit_def)
  next
    case (authorized db1 authId r1 v)
    have p1: "unit_pending (v_id cur) db db1"
      using resolve_frame [OF rid authorized(1)] pend pending_rail(2) by blast
    have "allocs_fit (tput v_id (cd_invocations db) v) (cd_allocations db1)"
    proof (rule allocs_move)
      fix i a
      assume "i \<noteq> v_id v" and a: "tselect al_invocation (cd_allocations db1) i = Some a"
      with p1 authorized(2) have "tselect al_invocation (cd_allocations db) i = Some a"
        by (simp add: unit_pending_def)
      with ok show "\<exists>w. tselect v_id (cd_invocations db) i = Some w \<and> alloc_fits (al_state a) w"
        unfolding units_ok_def allocs_fit_def by blast
    next
      fix a
      assume "tselect al_invocation (cd_allocations db1) (v_id v) = Some a"
      with p1 authorized(2) cur show "alloc_fits (al_state a) v" by (simp add: unit_pending_def alloc_fits_def)
    qed
    with p1 authorized(3) show ?thesis by (simp add: units_ok_def unit_pending_def)
  qed
qed

lemma units_reserve:
  assumes ok: "units_ok db" and l: "ledger_ok (holds_of db)" and h: "reserve_body A now ulids inp db = Inr (db', ans)"
  shows "units_ok db'"
  using h
proof (cases rule: reserve_bodyE)
  case (fresh cur)
  from fresh(3) show ?thesis
  proof (cases rule: reserve_freshE)
    case (refused reason why)
    from units_refuse [OF refused(1) ok] show ?thesis .
  next
    case (admitted b)
    from units_admitted [OF ok lockInvocation_Inr(1) [OF fresh(1)] fresh(2) admitted(5)] show ?thesis .
  qed
next
  case (unknown cur r)
  from units_unknown [OF ok l lockInvocation_Inr(1) [OF unknown(1)] unknown(2,3,5)] show ?thesis .
qed (use ok in simp_all)

lemma units_finalize:
  assumes ok: "units_ok db" and l: "ledger_ok (holds_of db)" and h: "finalize_body A now inp db = Inr (db', ans)"
  shows "units_ok db'"
  using h
proof (cases rule: finalize_bodyE)
  case (settled cur r db1 facts st capture db2 updated v)
  note cur = lockInvocation_Inr [OF settled(1)]
  from settled(2) have live: "live_phase (v_phase cur)" by auto
  from charge [OF reservation_by_id [OF l settled(3)] settled(5)]
  have f: "auth_frame r db db1" and st: "st = ReservationCaptured \<and> fst facts = ChargeCaptured \<or>
      st = ReservationReleased \<and> fst facts = ChargeReleased" by blast+
  have pend: "unit_pending (v_id cur) db db2"
    using pending_rail(2) [OF pending_live [OF ok cur(1) live] f] settled(6) by (rule pending_status)
  from moved_facts(1,3) [OF settled(7)] st have v: "v_phase v = PhaseFinalized" "v_charge v = fst facts"
    by (auto simp: edge_input_def)
  show ?thesis
  proof (rule pending_close_transition [OF _ _ settled(7)])
    show "alloc_fits (if st = ReservationCaptured then AllocationCaptured else AllocationReleased) v"
      using v st by (auto simp: alloc_fits_def IsTerminal_def)
  qed (use pend in \<open>auto simp: edge_input_def\<close>)
qed (use ok in simp)

lemma units_release:
  assumes ok: "units_ok db" and l: "ledger_ok (holds_of db)" and h: "release_body A now inp db = Inr (db', ans)"
  shows "units_ok db'"
  using h
proof (cases rule: release_bodyE)
  case (settled cur r db1 payment db2 updated v)
  note cur = lockInvocation_Inr [OF settled(1)]
  from settled(2) have live: "live_phase (v_phase cur)" by auto
  have pend: "unit_pending (v_id cur) db db2"
    using pending_rail(2) [OF pending_live [OF ok cur(1) live]
        void_charge [OF reservation_by_id [OF l settled(3)] settled(5)]] settled(6) by (rule pending_status)
  from moved_facts(1,3) [OF settled(7)] have "alloc_fits AllocationReleased v"
    by (simp add: alloc_fits_def IsTerminal_def edge_input_def)
  with pend show ?thesis by (intro pending_close_transition [OF _ _ settled(7)]) (auto simp: edge_input_def)
qed (use ok in simp)

end

lemma grant_gives_units: "grant_validate inp now = None \<Longrightarrow> 0 < ge_units inp"
  by (auto simp: grant_validate_def first_error_None split: if_splits)

interpretation packages: ledger_invariant units_ok
proof (unfold_locales, goal_cases)
  case 1 show ?case by (simp add: units_ok_def packs_ok_def allocs_fit_def empty_cdb_def unique_key_def)
next
  case 2 then show ?case by (simp add: units_ok_def)
next
  case 3 then show ?case by (simp add: units_ok_def)
next
  case 4 then show ?case by (simp add: units_ok_def)
next
  case 5 from units_accept [OF 5(2,1)] show ?case .
next
  case 6 from units_open [OF 6(3,1,2)] show ?case .
next
  case 7 from units_dispatch [OF 7(2,1)] show ?case .
next
  case 8 from payment_rail.units_reserve [OF 8(3,1,2,4)] show ?case .
next
  case 9 from payment_rail.units_finalize [OF 9(3,1,2,4)] show ?case .
next
  case 10 from payment_rail.units_release [OF 10(3,1,2,4)] show ?case .
next
  case 11
  from grant_gives_units [OF 11(2)] show ?case using units_grant [OF 11(3) _ 11(1)] by simp
next
  case 12 from units_retire [OF 12(2,1)] show ?case .
qed

text \<open>
  C14: Prepaid units are conserved: on every reachable ledger, for every package, no unit is
  lost or spent twice.  What was granted is what remains, what invocations in flight hold and
  what was consumed; the reserved counter is exactly the units of the held allocations; and what
  remains is never negative.
\<close>

theorem units_are_conserved:
  assumes "creach H db" and "n \<in> set (cd_entitlements db)"
  shows "0 \<le> n_remaining n \<and>
    n_reserved n = units AllocationHeld (n_id n) (cd_allocations db) \<and>
    n_total n = n_remaining n + n_reserved n + units AllocationCaptured (n_id n) (cd_allocations db)"
  using packages.reachable [OF assms(1)] assms(2) by (auto simp: units_ok_def packs_ok_def pack_ok_def)

lemma demo_package: "cd_entitlements demo_finalized = [hd (cd_entitlements demo_finalized)]"
  by code_simp

theorem units_are_conserved_witness:
  "n_total (hd (cd_entitlements demo_finalized)) =
     n_remaining (hd (cd_entitlements demo_finalized)) + n_reserved (hd (cd_entitlements demo_finalized)) +
     units AllocationCaptured (n_id (hd (cd_entitlements demo_finalized))) (cd_allocations demo_finalized) \<and>
   units AllocationCaptured (n_id (hd (cd_entitlements demo_finalized))) (cd_allocations demo_finalized) = 1"
proof -
  have "hd (cd_entitlements demo_finalized) \<in> set (cd_entitlements demo_finalized)"
    using demo_package by (metis list.set_intros(1))
  from units_are_conserved [OF demo_reach(6) this] show ?thesis by (simp, code_simp)
qed

text \<open>
  An allocation follows its invocation: on every reachable ledger each allocation belongs to
  an invocation of the ledger, at most one does to each, its unit is held exactly while the
  invocation is in flight, consumed when the invocation was finalized with a charge, and given
  back when it ended without one.
\<close>

theorem allocation_follows_the_phase:
  assumes "creach H db" and "a \<in> set (cd_allocations db)"
  shows "tselect al_invocation (cd_allocations db) (al_invocation a) = Some a \<and>
    (\<exists>v. tselect v_id (cd_invocations db) (al_invocation a) = Some v \<and>
       (al_state a = AllocationHeld \<longleftrightarrow> live_phase (v_phase v)) \<and>
       (al_state a = AllocationCaptured \<longleftrightarrow> v_phase v = PhaseFinalized \<and> v_charge v = ChargeCaptured))"
proof -
  from packages.reachable [OF assms(1)] have p: "packs_ok (cd_entitlements db) (cd_allocations db)"
    and fit: "allocs_fit (cd_invocations db) (cd_allocations db)" by (simp_all add: units_ok_def)
  from p assms(2) have sel: "tselect al_invocation (cd_allocations db) (al_invocation a) = Some a"
    by (intro tsel_in) (simp_all add: packs_ok_def)
  with fit obtain v where v: "tselect v_id (cd_invocations db) (al_invocation a) = Some v" "alloc_fits (al_state a) v"
    unfolding allocs_fit_def by blast
  have "(al_state a = AllocationHeld \<longleftrightarrow> live_phase (v_phase v)) \<and>
      (al_state a = AllocationCaptured \<longleftrightarrow> v_phase v = PhaseFinalized \<and> v_charge v = ChargeCaptured)"
    using v(2) live_not_terminal [of "v_phase v"]
    by (cases "al_state a") (auto simp: alloc_fits_def IsTerminal_def live_phase_def)
  with sel v(1) show ?thesis by blast
qed

lemma demo_allocation: "cd_allocations demo_reserved = [hd (cd_allocations demo_reserved)]"
  by code_simp

theorem allocation_follows_the_phase_witness:
  "al_invocation (hd (cd_allocations demo_reserved)) = ''inv_3'' \<and>
   al_state (hd (cd_allocations demo_reserved)) = AllocationHeld \<and>
   tselect al_invocation (cd_allocations demo_reserved) ''inv_3'' = Some (hd (cd_allocations demo_reserved))"
proof -
  have mem: "hd (cd_allocations demo_reserved) \<in> set (cd_allocations demo_reserved)"
    using demo_allocation by (metis list.set_intros(1))
  have i: "al_invocation (hd (cd_allocations demo_reserved)) = ''inv_3''" by code_simp
  have st: "al_state (hd (cd_allocations demo_reserved)) = AllocationHeld" by code_simp
  from allocation_follows_the_phase [OF demo_reach(3) mem] i st show ?thesis by simp
qed

end
