(* ===== verification/Secret_Scan.thy ===== *)
theory Secret_Scan
  imports Go_Text
begin

text \<open>
  The secret scanner, \<open>internal/secretscan\<close>: the families of credentials a text may not carry,
  in the order they are tried, \<open>Scan\<close>, what it finds wherever it stands, and texts too short for any family.
\<close>

section \<open>The patterns\<close>

definition rx_alnum :: rx where
  "rx_alnum = rx_class ''ABCDEFGHIJKLMNOPQRSTUVWXYZabcdefghijklmnopqrstuvwxyz0123456789''"

text \<open>\<open>[A-Za-z0-9_-]\<close> and \<open>[A-Za-z0-9-]\<close>.\<close>

definition rx_word :: rx where "rx_word = RxAlt rx_alnum (rx_class ''_-'')"
definition rx_alnum_dash :: rx where "rx_alnum_dash = RxAlt rx_alnum (rx_class ''-'')"

text \<open>
  Under \<open>(?i)\<close> a letter stands for every rune that folds to it: besides its two cases, the
  long s U+017F for an s and the Kelvin sign U+212A for a k.
\<close>

definition folds_to :: "char \<Rightarrow> nat option set" where
  "folds_to c =
     {Some (byte c), Some (byte c - 32)} \<union> (if c = CHR ''s'' then {Some 0x17F} else {}) \<union>
     (if c = CHR ''k'' then {Some 0x212A} else {})"

fun rx_lit_ci :: "string \<Rightarrow> rx" where
  "rx_lit_ci [] = RxEps"
| "rx_lit_ci (c # s) = RxSeq (RxSet (\<lambda>r. r \<in> folds_to c)) (rx_lit_ci s)"

text \<open>\<open>\s\<close>, and \<open>[^\s'"]\<close>.\<close>

definition space_class :: "nat option set" where
  "space_class = {Some 0x09, Some 0x0A, Some 0x0C, Some 0x0D, Some 0x20}"

definition rx_space :: rx where "rx_space = RxSet (\<lambda>r. r \<in> space_class)"

definition rx_value :: rx where
  "rx_value = RxSet (\<lambda>r. r \<notin> space_class \<and> r \<noteq> Some 0x27 \<and> r \<noteq> Some 0x22)"

definition at_least :: "nat \<Rightarrow> rx \<Rightarrow> rx" where
  "at_least n r = RxSeq (rx_times n r) (RxStar r)"

definition github_token :: "string \<Rightarrow> rx" where
  "github_token prefix = RxSeq (rx_lit prefix) (rx_times 36 rx_alnum)"

definition generic_names :: rx where
  "generic_names =
     RxAlt (rx_lit_ci ''secret'') (RxAlt (rx_lit_ci ''token'')
      (RxAlt (RxSeq (rx_lit_ci ''api'') (RxSeq (rx_opt (rx_class ''_-'')) (rx_lit_ci ''key'')))
      (RxAlt (rx_lit_ci ''password'') (rx_lit_ci ''bearer''))))"

definition patterns :: "(string \<times> rx) list" where
  "patterns =
     [(''github-fine-grained-pat'',
        RxSeq (rx_lit ''github_pat_'') (RxSeq (rx_times 22 rx_alnum) (RxSeq (rx_lit ''_'') (rx_times 59 rx_alnum)))),
      (''github-pat'', github_token ''ghp_''),
      (''github-oauth-token'', github_token ''gho_''),
      (''github-user-token'', github_token ''ghu_''),
      (''github-server-token'', github_token ''ghs_''),
      (''github-refresh-token'', github_token ''ghr_''),
      (''aws-access-key-id'',
        RxSeq (rx_lit ''AKIA'') (rx_times 16 (rx_class ''0123456789ABCDEFGHIJKLMNOPQRSTUVWXYZ''))),
      (''slack-token'',
        RxSeq (rx_lit ''xox'') (RxSeq (rx_class ''bpoa'') (RxSeq (rx_lit ''-'') (at_least 10 rx_alnum_dash)))),
      (''jwt'',
        RxSeq (rx_lit ''eyJ'') (RxSeq (rx_plus rx_word) (RxSeq (rx_lit ''.eyJ'') (RxSeq (rx_plus rx_word)
          (RxSeq (rx_lit ''.'') (rx_plus rx_word)))))),
      (''private-key'',
        RxSeq (rx_lit ''-----BEGIN '')
          (RxSeq (rx_opt (RxAlt (rx_lit ''RSA '') (RxAlt (rx_lit ''EC '') (rx_lit ''OPENSSH ''))))
            (rx_lit ''PRIVATE KEY-----''))),
      (''generic-credential-assignment'',
        RxSeq generic_names (RxSeq (RxStar rx_space) (RxSeq (rx_class '':='')
          (RxSeq (RxStar rx_space) (at_least 16 rx_value)))))]"

definition Scan :: "string \<Rightarrow> string option" where
  "Scan content = map_option fst (find (\<lambda>p. rx_find (snd p) content) patterns)"

section \<open>What is found\<close>

lemma Scan_finds: "(n, r) \<in> set patterns \<Longrightarrow> rx_find r content \<Longrightarrow> Scan content \<noteq> None"
  by (auto simp: Scan_def find_None_iff)

text \<open>An ASCII match is found wherever it stands, in whatever bytes.\<close>

lemma found_anywhere:
  assumes "(n, r) \<in> set patterns" and "ascii m" "m \<noteq> []" and "rx_in r (map (Some \<circ> byte) m)"
  shows "Scan (a @ m @ b) \<noteq> None"
  using assms(4) by (intro Scan_finds [OF assms(1)]) (auto simp: rx_find_in runes_around_ascii assms(2,3))

lemma class_in: "rx_in (rx_class cs) [Some (byte c)] \<longleftrightarrow> c \<in> set cs"
  by (auto simp: rx_class_def)

lemma class_times:
  "set t \<subseteq> set cs \<Longrightarrow> rx_in (rx_times (length t) (rx_class cs)) (map (Some \<circ> byte) t)"
  by (induction t) (auto simp: class_in intro!: in_eps in_seq [where u = "[_]", simplified])

lemma github_patterns:
  "(''github-pat'', github_token ''ghp_'') \<in> set patterns"
  "(''github-oauth-token'', github_token ''gho_'') \<in> set patterns"
  "(''github-user-token'', github_token ''ghu_'') \<in> set patterns"
  "(''github-server-token'', github_token ''ghs_'') \<in> set patterns"
  "(''github-refresh-token'', github_token ''ghr_'') \<in> set patterns"
  unfolding patterns_def list.set by (rule insertI1 | rule insertI2)+

definition alnum :: string where
  "alnum = ''ABCDEFGHIJKLMNOPQRSTUVWXYZabcdefghijklmnopqrstuvwxyz0123456789''"

text \<open>
  A GitHub token is found wherever it stands: whatever bytes surround it, valid UTF-8 or not,
  a text with the prefix of one of the five families and 36 letters or digits after it is
  refused.
\<close>

theorem github_tokens_are_found:
  assumes "prefix \<in> {''ghp_'', ''gho_'', ''ghu_'', ''ghs_'', ''ghr_''}" and "length t = 36" and "set t \<subseteq> set alnum"
  shows "Scan (a @ (prefix @ t) @ b) \<noteq> None"
proof -
  have "\<forall>c \<in> set alnum. byte c < 0x80" by code_simp
  with assms(3) have "ascii t" by (auto simp: ascii_def list_all_iff)
  moreover have "ascii prefix" using assms(1) by auto
  moreover have "rx_in (rx_times 36 rx_alnum) (map (Some \<circ> byte) t)"
    using class_times [OF assms(3)] assms(2) by (simp add: rx_alnum_def alnum_def)
  then have "rx_in (github_token prefix) (map (Some \<circ> byte) (prefix @ t))"
    unfolding github_token_def map_append by (intro in_seq) (simp add: rx_lit_in)
  moreover have "\<exists>n. (n, github_token prefix) \<in> set patterns"
    using assms(1) github_patterns by blast
  moreover have "prefix @ t \<noteq> []" using assms(2) by auto
  ultimately show ?thesis using found_anywhere [of _ "github_token prefix" "prefix @ t" a b] by auto
qed

theorem github_tokens_are_found_witness:
  "Scan ([CHR 0xE2] @ (''ghp_'' @ ''ABABABABABABABABABABABABABABABABABAB'') @ [CHR 0x80]) \<noteq> None"
proof (rule github_tokens_are_found)
  have "list_all (\<lambda>c. c \<in> set alnum) ''ABABABABABABABABABABABABABABABABABAB''" by code_simp
  then show "set ''ABABABABABABABABABABABABABABABABABAB'' \<subseteq> set alnum" unfolding list_all_iff by blast
qed simp_all

text \<open>
  Texts the scanner passes.  Every family of credentials cannot do without certain characters, so a
  text without them is clean; this decides concrete texts without running the expressions.
\<close>

text \<open>Whether an expression could match with runes of \<open>cs\<close> only, by what it cannot do without.\<close>

fun fits :: "nat option list \<Rightarrow> rx \<Rightarrow> bool" where
  "fits cs RxNone = False"
| "fits cs RxEps = True"
| "fits cs (RxSet p) = list_ex p cs"
| "fits cs (RxSeq r s) = (fits cs r \<and> fits cs s)"
| "fits cs (RxAlt r s) = (fits cs r \<or> fits cs s)"
| "fits cs (RxStar r) = True"

lemma fits_in: "rx_in r v \<Longrightarrow> set v \<subseteq> set cs \<Longrightarrow> fits cs r"
  by (induction rule: rx_in.induct) (auto simp: list_ex_iff)

lemma no_fit: "list_all (\<lambda>p. \<not> fits (runes s) (snd p)) patterns \<Longrightarrow> Scan s = None"
  by (auto simp: Scan_def find_None_iff list_all_iff rx_find_in dest!: fits_in [where cs = "runes s"])

text \<open>Every family needs one of these letters.\<close>

definition telltale :: string where "telltale = ''hAxJ-sSkKbB''"

lemma fits_lit [simp]: "fits cs (rx_lit l) \<longleftrightarrow> (\<forall>c \<in> set l. Some (byte c) \<in> set cs)"
  by (induction l) (auto simp: list_ex_iff)

lemma fits_lit_ci: "fits cs (rx_lit_ci l) \<longleftrightarrow> (\<forall>c \<in> set l. \<exists>r \<in> set cs. r \<in> folds_to c)"
  by (induction l) (auto simp: list_ex_iff)

lemma no_credential:
  assumes "ascii s" and "list_all (\<lambda>c. c \<notin> set telltale) s"
  shows "Scan s = None"
proof (rule no_fit)
  have r: "runes s = map (\<lambda>c. Some (byte c)) s" by (rule runes_of_ascii [OF assms(1)])
  have "Some (byte c) \<notin> set (runes s)" if "c \<in> set telltale" for c
    using that assms(2) unfolding r by (auto simp: list_all_iff)
  then have not: "\<forall>c \<in> set telltale. Some (byte c) \<notin> set (runes s)" by blast
  have lit: "\<not> fits (runes s) (rx_lit l)" if "list_ex (\<lambda>c. c \<in> set telltale) l" for l
    using that not by (auto simp: list_ex_iff)
  have ci: "\<not> fits (runes s) (rx_lit_ci l)" if "CHR ''s'' \<in> set l \<or> CHR ''k'' \<in> set l \<or> CHR ''b'' \<in> set l" for l
  proof
    assume "fits (runes s) (rx_lit_ci l)"
    then have all: "\<forall>c \<in> set l. \<exists>x \<in> set (runes s). x \<in> folds_to c" by (simp only: fits_lit_ci)
    from that obtain c where c: "c \<in> set l" "c = CHR ''s'' \<or> c = CHR ''k'' \<or> c = CHR ''b''" by metis
    with all obtain x where "x \<in> set (runes s)" "x \<in> folds_to c" by metis
    moreover have "Some 0x17F \<notin> set (runes s)" "Some 0x212A \<notin> set (runes s)"
      using assms(1) unfolding r by (auto simp: ascii_def list_all_iff)
    ultimately show False using not c(2) by (elim disjE) (auto simp: folds_to_def telltale_def)
  qed
  have "\<not> fits (runes s) generic_names" by (simp del: rx_lit_ci.simps add: generic_names_def ci)
  then show "list_all (\<lambda>p. \<not> fits (runes s) (snd p)) patterns"
    unfolding patterns_def github_token_def
    by (simp del: fits_lit rx_lit.simps add: lit telltale_def)
qed

section \<open>Trimming\<close>

lemma rune_bytes_ascii: "ascii s \<Longrightarrow> rune_bytes s = map (\<lambda>c. (Some (byte c), [c])) s"
  by (induction s) (simp_all add: decode_rune.simps Let_def)

lemma trim_plain:
  assumes "ascii s" and "list_all (\<lambda>c. 0x20 < byte c) s"
  shows "TrimSpace s = s"
proof -
  have "dropWhile space_piece (map (\<lambda>c. (Some (byte c), [c])) t) = map (\<lambda>c. (Some (byte c), [c])) t"
    if "set t \<subseteq> set s" for t
    using that assms by (cases t) (auto simp: space_piece_def is_space_def ascii_def list_all_iff)
  from this [of s] this [of "rev s"] show ?thesis
    by (simp add: TrimSpace_def rune_bytes_ascii [OF assms(1)] rev_map comp_def)
qed

end
