(* ===== verification/Approval_Types.thy ===== *)
theory Approval_Types
  imports Secret_Scan Go_Text Pg_Table
begin

text \<open>
  Action approval requests, \<open>internal/workitems/action_approvals.go\<close>: the record, the intent it
  binds and its hash, the validation of a request, and the effective state.

  A text is a byte string; \<open>H\<close> is SHA-256 in lower-case hex.
\<close>

section \<open>States and errors\<close>

datatype approval_state =
    ApprovalPending | ApprovalApproved | ApprovalDenied | ApprovalConsumed | ApprovalExecuted
  | ApprovalExpired | ApprovalInFlight

text \<open>The sentinels of the package; \<open>ApFailed\<close> is an error of the driver.\<close>

datatype approval_error =
    ApprovalNotFound | ApprovalIdempotencyConflict | ApprovalIntentHash | ApprovalAlreadyDecided
  | ApprovalSelfDecision | ApprovalNotApproved | ApprovalWasDenied | ApprovalHasExpired
  | ApprovalIntentMismatch | ApprovalWasConsumed | ApprovalStale | ApprovalNotConsumed
  | ApprovalWasExecuted | ApprovalTargetMismatch | ApprovalIsInFlight | ApprovalReceiptStale
  | WiInvalid | WiSecretInText | ApFailed

definition MaxApprovalFieldBytes :: nat where "MaxApprovalFieldBytes = 512"
definition MaxApprovalTargetBytes :: nat where "MaxApprovalTargetBytes = 2048"
definition MaxApprovalReasonBytes :: nat where "MaxApprovalReasonBytes = 1024"
definition MaxExternalIDBytes :: nat where "MaxExternalIDBytes = 256"
definition MaxKeyBytes :: nat where "MaxKeyBytes = 512"
definition MaxPolicyReasons :: nat where "MaxPolicyReasons = 8"
definition MaxPolicyReasonBytes :: nat where "MaxPolicyReasonBytes = 128"
definition MaxApprovalTTL :: duration where "MaxApprovalTTL = 7 * 24 * hour"
definition MaxApprovalList :: int where "MaxApprovalList = 500"
definition defaultApprovalList :: int where "defaultApprovalList = 100"
definition WorkItemIDPrefix :: string where "WorkItemIDPrefix = ''wi_''"
definition ActionApprovalIDPrefix :: string where "ActionApprovalIDPrefix = ''aar_''"

section \<open>Text\<close>

definition wi_checkText :: "string \<Rightarrow> nat \<Rightarrow> bool \<Rightarrow> approval_error option" where
  "wi_checkText v maxlen required =
     (if required \<and> TrimSpace v = '''' then Some WiInvalid
      else if maxlen < length v then Some WiInvalid
      else if \<not> valid_utf8 v then Some WiInvalid
      else None)"

definition scanSecrets :: "string \<Rightarrow> approval_error option" where
  "scanSecrets v = (if v = '''' then None else if Scan v \<noteq> None then Some WiSecretInText else None)"

section \<open>The request\<close>

record action_intent =
  in_execution :: string
  in_kind :: string
  in_target :: string
  in_args_digest :: string
  in_policy_rule :: string
  in_policy_version :: string
  in_artifact_hash :: string
  in_work_item :: string

definition intent_fields :: "action_intent \<Rightarrow> (string \<times> string) list" where
  "intent_fields i =
     [(''execution_id'', in_execution i),
      (''action_kind'', in_kind i),
      (''target'', in_target i),
      (''args_digest'', in_args_digest i),
      (''policy_rule_id'', in_policy_rule i),
      (''policy_version'', in_policy_version i),
      (''artifact_hash'', in_artifact_hash i),
      (''work_item_id'', in_work_item i)]"

definition IntentHash :: "hash \<Rightarrow> action_intent \<Rightarrow> string" where
  "IntentHash H i = ''sha256:'' @ H (lengthPrefixed ''mctl-action-intent/v1'' (intent_fields i))"

text \<open>Who asked and why, as the HTTP layer took it from the authenticated caller and the body.\<close>

record approval_origin =
  og_requested_by_principal :: string
  og_via_principal :: string
  og_actor_kind :: string
  og_actor_name :: string
  og_subject_principal :: string
  og_subject_kind :: string
  og_agent_run :: string

record approval_context =
  ctx_risk_level :: string
  ctx_side_effect :: string
  ctx_intent_source :: string
  ctx_policy_decision :: string
  ctx_policy_reasons :: "string list"

record action_approval =
  ap_id :: string
  ap_intent :: action_intent
  ap_idempotency_key :: string
  ap_requested_by :: string
  ap_intent_hash :: string
  ap_state :: approval_state
  ap_expires_at :: gotime
  ap_created_at :: gotime
  ap_decided_by :: string
  ap_decided_at :: "gotime option"
  ap_reason :: string
  ap_consumed_at :: "gotime option"
  ap_executed_at :: "gotime option"
  ap_reserved_at :: "gotime option"
  ap_origin :: approval_origin
  ap_context :: approval_context
  ap_decided_by_principal :: string
  ap_decided_via_principal :: string
  ap_decided_context_digest :: string
  ap_authority_basis :: string
  ap_authz_mode :: string
  ap_fresh_until :: "gotime option"

text \<open>Lazy expiry: only a request that was never spent expires.\<close>

definition effectiveState :: "approval_state \<Rightarrow> gotime \<Rightarrow> gotime \<Rightarrow> approval_state" where
  "effectiveState stored expires now =
     (if (stored = ApprovalPending \<or> stored = ApprovalApproved) \<and> expires \<le> now then ApprovalExpired else stored)"

text \<open>A row as a read at \<open>now\<close> returns it.\<close>

definition scanActionApproval :: "gotime \<Rightarrow> action_approval \<Rightarrow> action_approval" where
  "scanActionApproval now a = a\<lparr>ap_state := effectiveState (ap_state a) (ap_expires_at a) now\<rparr>"

section \<open>Validation\<close>

record approval_input =
  ai_intent :: action_intent
  ai_requested_by :: string
  ai_origin :: approval_origin
  ai_idempotency_key :: string
  ai_expires_at :: "gotime option"
  ai_intent_hash :: string
  ai_context :: approval_context

definition ValidRiskLevel :: "string \<Rightarrow> bool" where
  "ValidRiskLevel v \<longleftrightarrow> v \<in> {''low'', ''medium'', ''high''}"

definition ValidSideEffect :: "string \<Rightarrow> bool" where
  "ValidSideEffect v \<longleftrightarrow> v \<in> {''none'', ''read'', ''write'', ''destructive'', ''external''}"

text \<open>\<open>^[a-z0-9._:-]+$\<close>.\<close>

definition policyReasonRE :: rx where
  "policyReasonRE = rx_plus (rx_class ''abcdefghijklmnopqrstuvwxyz0123456789._:-'')"

definition text_check :: "string \<times> nat \<times> bool \<Rightarrow> approval_error option" where
  "text_check f = (case f of (v, m, required) \<Rightarrow> first_error [wi_checkText v m required, scanSecrets v])"

definition validateContext :: "approval_context \<Rightarrow> approval_error option" where
  "validateContext c = first_error
     ([if ctx_risk_level c \<noteq> '''' \<and> \<not> ValidRiskLevel (ctx_risk_level c) then Some WiInvalid else None,
       if ctx_side_effect c \<noteq> '''' \<and> \<not> ValidSideEffect (ctx_side_effect c) then Some WiInvalid else None,
       text_check (ctx_intent_source c, MaxApprovalFieldBytes, False),
       text_check (ctx_policy_decision c, MaxApprovalFieldBytes, False),
       if MaxPolicyReasons < length (ctx_policy_reasons c) then Some WiInvalid else None] @
      map (\<lambda>r. if MaxPolicyReasonBytes < length r \<or> \<not> rx_full policyReasonRE r then Some WiInvalid else None)
        (ctx_policy_reasons c))"

definition approval_texts :: "approval_input \<Rightarrow> (string \<times> nat \<times> bool) list" where
  "approval_texts inp =
     (let i = ai_intent inp in
      [(ai_requested_by inp, MaxExternalIDBytes, True),
       (in_execution i, MaxExternalIDBytes, True),
       (in_kind i, MaxApprovalFieldBytes, True),
       (in_target i, MaxApprovalTargetBytes, True),
       (in_args_digest i, MaxApprovalFieldBytes, True),
       (in_policy_rule i, MaxApprovalFieldBytes, True),
       (in_policy_version i, MaxApprovalFieldBytes, True),
       (in_artifact_hash i, MaxApprovalFieldBytes, False),
       (in_work_item i, MaxExternalIDBytes, False),
       (ai_idempotency_key inp, MaxKeyBytes, True)])"

definition approval_validate :: "hash \<Rightarrow> approval_input \<Rightarrow> approval_error option" where
  "approval_validate H inp = first_error
     (map text_check (approval_texts inp) @
      [if in_work_item (ai_intent inp) \<noteq> '''' \<and> take 3 (in_work_item (ai_intent inp)) \<noteq> WorkItemIDPrefix
         then Some WiInvalid else None,
       validateContext (ai_context inp),
       if ai_expires_at inp = None then Some WiInvalid else None,
       if ai_intent_hash inp \<noteq> '''' \<and> ai_intent_hash inp \<noteq> IntentHash H (ai_intent inp)
         then Some ApprovalIntentHash else None])"

datatype decision_word = DecisionApprove | DecisionDeny | DecisionOther string

definition ValidateDecisionInput :: "decision_word \<Rightarrow> string \<Rightarrow> approval_error option" where
  "ValidateDecisionInput d reason = first_error
     [wi_checkText reason MaxApprovalReasonBytes False, scanSecrets reason,
      case d of DecisionOther _ \<Rightarrow> Some WiInvalid | _ \<Rightarrow> None]"

end
