(* ===== verification/Approval_Store.thy ===== *)
theory Approval_Store
  imports Approval_Types "HOL-Library.Char_ord" "HOL-Library.List_Lexorder" "HOL-Library.Product_Lexorder"
begin

text \<open>
  The store of action approvals, \<open>internal/workitems/action_approvals.go\<close>: creation, decision, and
  the compare-and-set updates that consume, mark, reserve and settle a request.

  A compare-and-set is one statement; when it matches no row the request is read back to name the
  reason, from a ledger \<open>dbr\<close> that other calls may have changed in between (None when the read
  fails), at a second reading \<open>now'\<close> of the clock.
\<close>

section \<open>Tables and statements\<close>

record approval_db =
  ad_rows :: "action_approval list"
  ad_items :: "string list"

definition empty_adb :: approval_db where
  "empty_adb = \<lparr>ad_rows = [], ad_items = []\<rparr>"

definition getActionApproval :: "gotime \<Rightarrow> string \<Rightarrow> approval_db option \<Rightarrow> approval_error + action_approval" where
  "getActionApproval now i db =
     (case db of
        None \<Rightarrow> Inl ApFailed
      | Some d \<Rightarrow> (case tselect ap_id (ad_rows d) i of
          None \<Rightarrow> Inl ApprovalNotFound | Some a \<Rightarrow> Inr (scanActionApproval now a)))"

text \<open>\<open>UPDATE ... WHERE id = i AND p RETURNING ...\<close>, with the refusal when it matches no row.\<close>

definition cas_update ::
  "stmt_fault \<Rightarrow> gotime \<Rightarrow> string \<Rightarrow> (action_approval \<Rightarrow> bool) \<Rightarrow> (action_approval \<Rightarrow> action_approval) \<Rightarrow>
     approval_error \<Rightarrow> approval_db \<Rightarrow> approval_db \<times> (approval_error + action_approval)" where
  "cas_update fault now i p f refusal db =
     (case tupdate ap_id i p f (ad_rows db) of
        (rows, Some a) \<Rightarrow>
          (case fault of
             StmtOk \<Rightarrow> (db\<lparr>ad_rows := rows\<rparr>, Inr (scanActionApproval now a))
           | StmtFails \<Rightarrow> (db, Inl ApFailed)
           | StmtLost \<Rightarrow> (db\<lparr>ad_rows := rows\<rparr>, Inl ApFailed))
      | (rows, None) \<Rightarrow> (db, Inl (if fault = StmtOk then refusal else ApFailed)))"

definition ap_precheck ::
  "approval_error option \<Rightarrow> approval_db \<Rightarrow> approval_db \<times> (approval_error + 'a) \<Rightarrow>
     approval_db \<times> (approval_error + 'a)" where
  "ap_precheck c db r = (case c of None \<Rightarrow> r | Some e \<Rightarrow> (db, Inl e))"

definition wi_withTx ::
  "tx_fault \<Rightarrow> approval_db \<Rightarrow> approval_error + approval_db \<times> 'a \<Rightarrow> approval_db \<times> (approval_error + 'a)" where
  "wi_withTx fault db body =
     (if fault = TxBeginFails \<or> fault = TxLockFails \<or> fault = TxStatementFails then (db, Inl ApFailed)
      else case body of
        Inl e \<Rightarrow> (db, Inl e)
      | Inr (db', x) \<Rightarrow> if fault = TxCommitFails then (db, Inl ApFailed) else (db', Inr x))"

section \<open>Create\<close>

definition new_approval :: "hash \<Rightarrow> gotime \<Rightarrow> string \<Rightarrow> approval_input \<Rightarrow> gotime \<Rightarrow> action_approval" where
  "new_approval H now uuid inp expires =
     \<lparr>ap_id = ActionApprovalIDPrefix @ uuid, ap_intent = ai_intent inp,
      ap_idempotency_key = ai_idempotency_key inp, ap_requested_by = ai_requested_by inp,
      ap_intent_hash = IntentHash H (ai_intent inp), ap_state = ApprovalPending,
      ap_expires_at = expires, ap_created_at = now, ap_decided_by = '''', ap_decided_at = None,
      ap_reason = '''', ap_consumed_at = None, ap_executed_at = None, ap_reserved_at = None,
      ap_origin = ai_origin inp, ap_context = ai_context inp, ap_decided_by_principal = '''',
      ap_decided_via_principal = '''', ap_decided_context_digest = '''', ap_authority_basis = '''',
      ap_authz_mode = '''', ap_fresh_until = None\<rparr>"

abbreviation request_key :: "action_approval \<Rightarrow> string \<times> string" where
  "request_key a \<equiv> (ap_requested_by a, ap_idempotency_key a)"

definition create_body ::
  "hash \<Rightarrow> gotime \<Rightarrow> string \<Rightarrow> approval_input \<Rightarrow> approval_db \<Rightarrow>
     approval_error + approval_db \<times> action_approval \<times> bool" where
  "create_body H now uuid inp db =
     (case tselect request_key (ad_rows db) (ai_requested_by inp, ai_idempotency_key inp) of
        Some old \<Rightarrow>
          if ap_intent_hash old \<noteq> IntentHash H (ai_intent inp) then Inl ApprovalIdempotencyConflict
          else Inr (db, (scanActionApproval now old, False))
      | None \<Rightarrow>
          (case ai_expires_at inp of
             None \<Rightarrow> Inl WiInvalid
           | Some expires \<Rightarrow>
               if expires \<le> now then Inl WiInvalid
               else if MaxApprovalTTL < time_sub expires now then Inl WiInvalid
               else if in_work_item (ai_intent inp) \<noteq> '''' \<and> in_work_item (ai_intent inp) \<notin> set (ad_items db)
               then Inl WiInvalid
               else (let a = new_approval H now uuid inp expires
                     in if list_ex (\<lambda>b. ap_id b = ap_id a \<or> request_key b = request_key a) (ad_rows db)
                        then Inl ApFailed
                        else Inr (db\<lparr>ad_rows := ad_rows db @ [a]\<rparr>, (scanActionApproval now a, True)))))"

text \<open>The flag is \<open>created\<close>.\<close>

definition CreateActionApproval ::
  "hash \<Rightarrow> tx_fault \<Rightarrow> gotime \<Rightarrow> string \<Rightarrow> approval_input \<Rightarrow> approval_db \<Rightarrow>
     approval_db \<times> (approval_error + action_approval \<times> bool)" where
  "CreateActionApproval H fault now uuid inp db =
     ap_precheck (approval_validate H inp) db (wi_withTx fault db (create_body H now uuid inp db))"

section \<open>Decide\<close>

record decision_input =
  dn_id :: string
  dn_decided_by :: string
  dn_by_principal :: string
  dn_via_principal :: string
  dn_decision :: decision_word
  dn_reason :: string
  dn_context_digest :: string
  dn_authority_basis :: string
  dn_authz_mode :: string
  dn_fresh_for :: duration

definition fresh_bound :: "decision_input \<Rightarrow> gotime \<Rightarrow> action_approval \<Rightarrow> gotime option" where
  "fresh_bound inp now cur =
     (if dn_decision inp = DecisionApprove \<and> 0 < dn_fresh_for inp
      then Some (if ap_expires_at cur < now + dn_fresh_for inp then ap_expires_at cur else now + dn_fresh_for inp)
      else None)"

definition decided :: "decision_input \<Rightarrow> gotime \<Rightarrow> gotime option \<Rightarrow> action_approval \<Rightarrow> action_approval" where
  "decided inp now fresh a = a\<lparr>
     ap_state := (if dn_decision inp = DecisionApprove then ApprovalApproved else ApprovalDenied),
     ap_decided_by := dn_decided_by inp, ap_decided_at := Some now, ap_reason := dn_reason inp,
     ap_decided_by_principal := dn_by_principal inp, ap_decided_via_principal := dn_via_principal inp,
     ap_decided_context_digest := dn_context_digest inp, ap_authority_basis := dn_authority_basis inp,
     ap_authz_mode := dn_authz_mode inp, ap_fresh_until := fresh\<rparr>"

text \<open>The row is read under its lock at \<open>now1\<close>; \<open>now2\<close> is the time of the decision.\<close>

definition decide_body ::
  "gotime \<Rightarrow> gotime \<Rightarrow> decision_input \<Rightarrow> approval_db \<Rightarrow> approval_error + approval_db \<times> action_approval" where
  "decide_body now1 now2 inp db =
     andThen (getActionApproval now1 (dn_id inp) (Some db)) (\<lambda>cur.
       if ap_requested_by cur = dn_decided_by inp then Inl ApprovalSelfDecision
       else if ap_state cur = ApprovalExpired then Inl ApprovalHasExpired
       else if ap_state cur \<noteq> ApprovalPending then Inl ApprovalAlreadyDecided
       else (case tupdate ap_id (ap_id cur) (\<lambda>a. ap_state a = ApprovalPending)
               (decided inp now2 (fresh_bound inp now2 cur)) (ad_rows db) of
               (rows, Some a) \<Rightarrow> Inr (db\<lparr>ad_rows := rows\<rparr>, scanActionApproval now2 a)
             | (rows, None) \<Rightarrow> Inl ApFailed))"

definition decide_validate :: "decision_input \<Rightarrow> approval_error option" where
  "decide_validate inp = first_error
     [wi_checkText (dn_decided_by inp) MaxExternalIDBytes True,
      ValidateDecisionInput (dn_decision inp) (dn_reason inp)]"

definition DecideActionApproval ::
  "tx_fault \<Rightarrow> gotime \<Rightarrow> gotime \<Rightarrow> decision_input \<Rightarrow> approval_db \<Rightarrow>
     approval_db \<times> (approval_error + action_approval)" where
  "DecideActionApproval fault now1 now2 inp db =
     ap_precheck (decide_validate inp) db (wi_withTx fault db (decide_body now1 now2 inp db))"

section \<open>Consume\<close>

definition ConsumeStateRefusal :: "action_approval \<Rightarrow> approval_error option" where
  "ConsumeStateRefusal a =
     (case ap_state a of
        ApprovalApproved \<Rightarrow> None
      | ApprovalConsumed \<Rightarrow> Some ApprovalWasConsumed
      | ApprovalInFlight \<Rightarrow> Some ApprovalWasConsumed
      | ApprovalExecuted \<Rightarrow> Some ApprovalWasConsumed
      | ApprovalDenied \<Rightarrow> Some ApprovalWasDenied
      | ApprovalExpired \<Rightarrow> Some ApprovalHasExpired
      | ApprovalPending \<Rightarrow> Some ApprovalNotApproved)"

text \<open>\<open>fresh_until IS NULL OR fresh_until > now\<close>.\<close>

definition still_fresh :: "gotime \<Rightarrow> action_approval \<Rightarrow> bool" where
  "still_fresh now a = (case ap_fresh_until a of None \<Rightarrow> True | Some t \<Rightarrow> now < t)"

definition consume_refusal ::
  "gotime \<Rightarrow> gotime \<Rightarrow> string \<Rightarrow> string \<Rightarrow> approval_db option \<Rightarrow> approval_error" where
  "consume_refusal now now' i intent dbr =
     (case getActionApproval now' i dbr of
        Inl e \<Rightarrow> e
      | Inr cur \<Rightarrow>
          (case ConsumeStateRefusal cur of
             Some e \<Rightarrow> e
           | None \<Rightarrow>
               if ap_intent_hash cur \<noteq> intent then ApprovalIntentMismatch
               else if \<not> still_fresh now cur then ApprovalStale
               else ApprovalNotApproved))"

definition ConsumeActionApproval ::
  "stmt_fault \<Rightarrow> gotime \<Rightarrow> gotime \<Rightarrow> string \<Rightarrow> string \<Rightarrow> approval_db option \<Rightarrow> approval_db \<Rightarrow>
     approval_db \<times> (approval_error + action_approval)" where
  "ConsumeActionApproval fault now now' i intent dbr db =
     ap_precheck (wi_checkText intent MaxApprovalFieldBytes True) db
       (cas_update fault now i
          (\<lambda>a. ap_state a = ApprovalApproved \<and> ap_intent_hash a = intent \<and> now < ap_expires_at a \<and> still_fresh now a)
          (\<lambda>a. a\<lparr>ap_state := ApprovalConsumed, ap_consumed_at := Some now\<rparr>)
          (consume_refusal now now' i intent dbr) db)"

section \<open>Mark executed\<close>

text \<open>The guard the execution mark and the reservation share, and the refusals they share.\<close>

definition spends :: "string \<Rightarrow> string \<Rightarrow> string \<Rightarrow> action_approval \<Rightarrow> bool" where
  "spends target artifact caller a \<longleftrightarrow>
     ap_state a = ApprovalConsumed \<and> ap_requested_by a = caller \<and> in_target (ap_intent a) = target \<and>
     in_artifact_hash (ap_intent a) = artifact \<and> in_artifact_hash (ap_intent a) \<noteq> ''''"

definition spend_refusal :: "string \<Rightarrow> string \<Rightarrow> string \<Rightarrow> action_approval \<Rightarrow> approval_error option" where
  "spend_refusal target artifact caller cur =
     (if ap_requested_by cur \<noteq> caller then Some ApprovalNotFound
      else case ap_state cur of
        ApprovalExecuted \<Rightarrow> Some ApprovalWasExecuted
      | ApprovalInFlight \<Rightarrow> Some ApprovalIsInFlight
      | ApprovalDenied \<Rightarrow> Some ApprovalWasDenied
      | ApprovalConsumed \<Rightarrow>
          if in_target (ap_intent cur) \<noteq> target \<or> in_artifact_hash (ap_intent cur) = '''' \<or>
             in_artifact_hash (ap_intent cur) \<noteq> artifact
          then Some ApprovalTargetMismatch else None
      | _ \<Rightarrow> Some ApprovalNotConsumed)"

definition mark_refusal ::
  "gotime \<Rightarrow> string \<Rightarrow> string \<Rightarrow> string \<Rightarrow> string \<Rightarrow> approval_db option \<Rightarrow> approval_error" where
  "mark_refusal now' i target artifact caller dbr =
     (case getActionApproval now' i dbr of
        Inl e \<Rightarrow> e
      | Inr cur \<Rightarrow> (case spend_refusal target artifact caller cur of Some e \<Rightarrow> e | None \<Rightarrow> ApprovalNotConsumed))"

definition spend_validate :: "string \<Rightarrow> string \<Rightarrow> string \<Rightarrow> approval_error option" where
  "spend_validate target artifact caller = first_error
     [wi_checkText target MaxApprovalTargetBytes True, wi_checkText artifact MaxApprovalFieldBytes True,
      wi_checkText caller MaxExternalIDBytes True]"

definition MarkActionApprovalExecuted ::
  "stmt_fault \<Rightarrow> gotime \<Rightarrow> gotime \<Rightarrow> string \<Rightarrow> string \<Rightarrow> string \<Rightarrow> string \<Rightarrow> approval_db option \<Rightarrow> approval_db \<Rightarrow>
     approval_db \<times> (approval_error + action_approval)" where
  "MarkActionApprovalExecuted fault now now' i target artifact caller dbr db =
     ap_precheck (spend_validate target artifact caller) db
       (cas_update fault now i (spends target artifact caller)
          (\<lambda>a. a\<lparr>ap_state := ApprovalExecuted, ap_executed_at := Some now\<rparr>)
          (mark_refusal now' i target artifact caller dbr) db)"

section \<open>Reserve and settle\<close>

definition receiptStaleness :: "action_approval \<Rightarrow> duration \<Rightarrow> gotime \<Rightarrow> approval_error option" where
  "receiptStaleness a maxAge now =
     (if maxAge \<le> 0 then Some ApprovalReceiptStale
      else case ap_consumed_at a of
        None \<Rightarrow> Some ApprovalReceiptStale
      | Some c \<Rightarrow> if c \<le> now - maxAge then Some ApprovalReceiptStale
                  else if \<not> still_fresh now a then Some ApprovalReceiptStale
                  else None)"

definition reserve_refusal ::
  "gotime \<Rightarrow> gotime \<Rightarrow> string \<Rightarrow> string \<Rightarrow> string \<Rightarrow> string \<Rightarrow> duration \<Rightarrow> approval_db option \<Rightarrow> approval_error" where
  "reserve_refusal now now' i target artifact caller maxAge dbr =
     (case getActionApproval now' i dbr of
        Inl e \<Rightarrow> e
      | Inr cur \<Rightarrow>
          (case spend_refusal target artifact caller cur of
             Some e \<Rightarrow> e
           | None \<Rightarrow> (case receiptStaleness cur maxAge now of Some e \<Rightarrow> e | None \<Rightarrow> ApprovalNotConsumed)))"

definition ReserveActionApproval ::
  "stmt_fault \<Rightarrow> gotime \<Rightarrow> gotime \<Rightarrow> string \<Rightarrow> string \<Rightarrow> string \<Rightarrow> string \<Rightarrow> duration \<Rightarrow> approval_db option \<Rightarrow>
     approval_db \<Rightarrow> approval_db \<times> (approval_error + action_approval)" where
  "ReserveActionApproval fault now now' i target artifact caller maxAge dbr db =
     ap_precheck (first_error [spend_validate target artifact caller, if maxAge \<le> 0 then Some WiInvalid else None]) db
       (cas_update fault now i
          (\<lambda>a. spends target artifact caller a \<and>
             (case ap_consumed_at a of None \<Rightarrow> False | Some c \<Rightarrow> now - maxAge < c) \<and> still_fresh now a)
          (\<lambda>a. a\<lparr>ap_state := ApprovalInFlight, ap_reserved_at := Some now\<rparr>)
          (reserve_refusal now now' i target artifact caller maxAge dbr) db)"

definition settle_refusal :: "gotime \<Rightarrow> string \<Rightarrow> string \<Rightarrow> approval_db option \<Rightarrow> approval_error" where
  "settle_refusal now' i caller dbr =
     (case getActionApproval now' i dbr of
        Inl e \<Rightarrow> e
      | Inr cur \<Rightarrow>
          if ap_requested_by cur \<noteq> caller then ApprovalNotFound
          else if ap_state cur = ApprovalExecuted then ApprovalWasExecuted
          else ApprovalNotConsumed)"

definition SettleActionApproval ::
  "stmt_fault \<Rightarrow> gotime \<Rightarrow> gotime \<Rightarrow> string \<Rightarrow> string \<Rightarrow> bool \<Rightarrow> approval_db option \<Rightarrow> approval_db \<Rightarrow>
     approval_db \<times> (approval_error + action_approval)" where
  "SettleActionApproval fault now now' i caller succeeded dbr db =
     ap_precheck (wi_checkText caller MaxExternalIDBytes True) db
       (cas_update fault now i (\<lambda>a. ap_state a = ApprovalInFlight \<and> ap_requested_by a = caller)
          (\<lambda>a. if succeeded then a\<lparr>ap_state := ApprovalExecuted, ap_executed_at := Some now\<rparr>
               else a\<lparr>ap_state := ApprovalConsumed\<rparr>)
          (settle_refusal now' i caller dbr) db)"

section \<open>Reads\<close>

definition ActionApproval :: "gotime \<Rightarrow> string \<Rightarrow> approval_db option \<Rightarrow> approval_error + action_approval" where
  "ActionApproval now i db = getActionApproval now i db"

definition NewestSpentActionApproval ::
  "gotime \<Rightarrow> string \<Rightarrow> string \<Rightarrow> string \<Rightarrow> approval_db \<Rightarrow> approval_error + action_approval" where
  "NewestSpentActionApproval now kind target requester db =
     (case rev (sort_key (\<lambda>a. (the (ap_consumed_at a), ap_id a))
         (filter (\<lambda>a. in_kind (ap_intent a) = kind \<and> in_target (ap_intent a) = target \<and>
            ap_requested_by a = requester \<and> (ap_state a = ApprovalConsumed \<or> ap_state a = ApprovalExecuted) \<and>
            ap_consumed_at a \<noteq> None) (ad_rows db))) of
        [] \<Rightarrow> Inl ApprovalNotFound
      | a # _ \<Rightarrow> Inr (scanActionApproval now a))"

record approval_filter =
  af_state :: "approval_state option"
  af_execution :: string
  af_kind :: string
  af_requested_by :: string
  af_limit :: int

text \<open>The filter on the stored columns that selects an effective state.\<close>

definition state_matches :: "gotime \<Rightarrow> approval_state option \<Rightarrow> action_approval \<Rightarrow> bool" where
  "state_matches now st a =
     (case st of
        None \<Rightarrow> True
      | Some ApprovalExpired \<Rightarrow>
          (ap_state a = ApprovalPending \<or> ap_state a = ApprovalApproved) \<and> ap_expires_at a \<le> now
      | Some ApprovalPending \<Rightarrow> ap_state a = ApprovalPending \<and> now < ap_expires_at a
      | Some ApprovalApproved \<Rightarrow> ap_state a = ApprovalApproved \<and> now < ap_expires_at a
      | Some s \<Rightarrow> ap_state a = s)"

definition ActionApprovals :: "gotime \<Rightarrow> approval_filter \<Rightarrow> approval_db \<Rightarrow> action_approval list" where
  "ActionApprovals now f db =
     map (scanActionApproval now)
       (take (nat (clamp_limit defaultApprovalList MaxApprovalList (af_limit f)))
         (sort_key (\<lambda>a. (- ap_created_at a, ap_id a))
           (filter (\<lambda>a. state_matches now (af_state f) a \<and>
              (af_execution f \<noteq> '''' \<longrightarrow> in_execution (ap_intent a) = af_execution f) \<and>
              (af_kind f \<noteq> '''' \<longrightarrow> in_kind (ap_intent a) = af_kind f) \<and>
              (af_requested_by f \<noteq> '''' \<longrightarrow> ap_requested_by a = af_requested_by f)) (ad_rows db))))"

end
