(* ===== verification/Approval_Machine.thy ===== *)
theory Approval_Machine
  imports Approval_Store
begin

text \<open>
  What the store lets happen to a request, as a relation on one row: a decision, a consume and an
  execution mark, which the REST routes make, and a reservation and its settlement, which only
  the receipt gate makes.  Every operation of the store implements it, whatever it reads back
  and whatever PostgreSQL does to its statement.
\<close>

section \<open>One row\<close>

inductive rest_step :: "action_approval \<Rightarrow> action_approval \<Rightarrow> bool" where
  decide: "ap_state a = ApprovalPending \<Longrightarrow> dn_decided_by inp \<noteq> ap_requested_by a \<Longrightarrow>
    decide_validate inp = None \<Longrightarrow> rest_step a (decided inp now fresh a)"
| consume: "ap_state a = ApprovalApproved \<Longrightarrow> ap_intent_hash a = intent \<Longrightarrow> now < ap_expires_at a \<Longrightarrow>
    still_fresh now a \<Longrightarrow> rest_step a (a\<lparr>ap_state := ApprovalConsumed, ap_consumed_at := Some now\<rparr>)"
| mark: "ap_state a = ApprovalConsumed \<Longrightarrow>
    rest_step a (a\<lparr>ap_state := ApprovalExecuted, ap_executed_at := Some now\<rparr>)"

inductive gate_row_step :: "action_approval \<Rightarrow> action_approval \<Rightarrow> bool" where
  reserve: "ap_state a = ApprovalConsumed \<Longrightarrow>
    gate_row_step a (a\<lparr>ap_state := ApprovalInFlight, ap_reserved_at := Some now\<rparr>)"
| spend: "ap_state a = ApprovalInFlight \<Longrightarrow>
    gate_row_step a (a\<lparr>ap_state := ApprovalExecuted, ap_executed_at := Some now\<rparr>)"
| give_back: "ap_state a = ApprovalInFlight \<Longrightarrow> gate_row_step a (a\<lparr>ap_state := ApprovalConsumed\<rparr>)"

inductive_cases rest_stepE: "rest_step a a'"
inductive_cases gate_row_stepE: "gate_row_step a a'"

text \<open>What no operation writes, and where a row may go.\<close>

definition bound_fields :: "action_approval \<Rightarrow> action_approval \<Rightarrow> bool" where
  "bound_fields a a' \<longleftrightarrow>
     ap_id a' = ap_id a \<and> ap_intent a' = ap_intent a \<and> ap_intent_hash a' = ap_intent_hash a \<and>
     ap_idempotency_key a' = ap_idempotency_key a \<and> ap_requested_by a' = ap_requested_by a \<and>
     ap_expires_at a' = ap_expires_at a \<and> ap_created_at a' = ap_created_at a \<and>
     ap_origin a' = ap_origin a \<and> ap_context a' = ap_context a"

fun approval_graph :: "approval_state \<Rightarrow> approval_state list" where
  "approval_graph ApprovalPending = [ApprovalApproved, ApprovalDenied]"
| "approval_graph ApprovalApproved = [ApprovalConsumed]"
| "approval_graph ApprovalConsumed = [ApprovalInFlight, ApprovalExecuted]"
| "approval_graph ApprovalInFlight = [ApprovalExecuted, ApprovalConsumed]"
| "approval_graph _ = []"

lemma step_bound:
  assumes "rest_step a a' \<or> gate_row_step a a'"
  shows "bound_fields a a'" "ap_state a' \<in> set (approval_graph (ap_state a))"
  using assms by (auto elim!: rest_stepE gate_row_stepE simp: bound_fields_def decided_def)

text \<open>Where the history of a row can only go: what it binds stays, and a consume is for good.\<close>

definition consumed :: "action_approval \<Rightarrow> bool" where
  "consumed a \<longleftrightarrow> ap_state a \<in> {ApprovalConsumed, ApprovalInFlight, ApprovalExecuted}"

definition row_after :: "action_approval \<Rightarrow> action_approval \<Rightarrow> bool" where
  "row_after a a' \<longleftrightarrow> bound_fields a a' \<and> (consumed a \<longrightarrow> consumed a' \<and> ap_consumed_at a' = ap_consumed_at a)"

lemma row_after_refl [simp]: "row_after a a"
  by (simp add: row_after_def bound_fields_def)

lemma row_after_trans: "row_after a b \<Longrightarrow> row_after b c \<Longrightarrow> row_after a c"
  by (simp add: row_after_def bound_fields_def)

lemma step_after: "rest_step a a' \<or> gate_row_step a a' \<Longrightarrow> row_after a a'"
  using step_bound(1) [of a a']
  by (auto elim!: rest_stepE gate_row_stepE simp: row_after_def consumed_def)

section \<open>The table\<close>

text \<open>A call leaves the table, appends a new pending request, or moves one row.\<close>

inductive table_step ::
  "hash \<Rightarrow> (action_approval \<Rightarrow> action_approval \<Rightarrow> bool) \<Rightarrow> action_approval list \<Rightarrow> action_approval list \<Rightarrow> bool"
  for H and R where
  same: "table_step H R rows rows"
| new: "approval_validate H inp = None \<Longrightarrow> ai_expires_at inp = Some expires \<Longrightarrow> now < expires \<Longrightarrow>
    expires - now \<le> MaxApprovalTTL \<Longrightarrow> a = new_approval H now uuid inp expires \<Longrightarrow>
    tselect ap_id rows (ap_id a) = None \<Longrightarrow> tselect request_key rows (request_key a) = None \<Longrightarrow>
    table_step H R rows (rows @ [a])"
| move: "tselect ap_id rows i = Some a \<Longrightarrow> R a a' \<Longrightarrow> table_step H R rows (tput ap_id rows a')"

inductive_cases table_stepE: "table_step H R rows rows'"

lemma cas_table:
  assumes "\<And>a. tselect ap_id (ad_rows db) i = Some a \<Longrightarrow> p a \<Longrightarrow> R a (f a)"
  shows "table_step H R (ad_rows db) (ad_rows (fst (cas_update fault now i p f e db)))"
proof (cases "tupdate ap_id i p f (ad_rows db)")
  case (Pair rows r)
  show ?thesis
  proof (cases r)
    case None
    with Pair show ?thesis by (simp add: cas_update_def table_step.same)
  next
    case (Some a')
    from pg.upd_row [OF Pair [unfolded Some]] obtain a where
      "tselect ap_id (ad_rows db) i = Some a" "p a" "rows = tput ap_id (ad_rows db) (f a)" by blast
    then have "table_step H R (ad_rows db) rows" using assms by (simp add: table_step.move)
    with Pair Some show ?thesis by (cases fault) (simp_all add: cas_update_def table_step.same)
  qed
qed

lemma precheck_table:
  assumes "c = None \<Longrightarrow> table_step H R (ad_rows db) (ad_rows (fst r))"
  shows "table_step H R (ad_rows db) (ad_rows (fst (ap_precheck c db r)))"
  using assms by (auto simp: ap_precheck_def intro: table_step.same split: option.splits)

lemma tx_table:
  assumes "\<And>db' x. body = Inr (db', x) \<Longrightarrow> table_step H R (ad_rows db) (ad_rows db')"
  shows "table_step H R (ad_rows db) (ad_rows (fst (wi_withTx fault db body)))"
  using assms by (auto simp: wi_withTx_def intro: table_step.same split: sum.splits)

section \<open>The operations\<close>

lemma effective_pending:
  "effectiveState st expires now = ApprovalPending \<Longrightarrow> st = ApprovalPending"
  by (auto simp: effectiveState_def split: if_splits)

lemma create_table: "table_step H R (ad_rows db) (ad_rows (fst (CreateActionApproval H fault now uuid inp db)))"
  unfolding CreateActionApproval_def
proof (rule precheck_table, rule tx_table)
  fix db' x
  assume v: "approval_validate H inp = None" and body: "create_body H now uuid inp db = Inr (db', x)"
  show "table_step H R (ad_rows db) (ad_rows db')"
  proof (cases "tselect request_key (ad_rows db) (ai_requested_by inp, ai_idempotency_key inp)")
    case (Some old)
    with body show ?thesis by (auto simp: create_body_def intro: table_step.same split: if_splits)
  next
    case None
    with body obtain expires where e: "ai_expires_at inp = Some expires" "now < expires"
        "\<not> MaxApprovalTTL < time_sub expires now"
        "\<not> list_ex (\<lambda>b. ap_id b = ap_id (new_approval H now uuid inp expires) \<or>
           request_key b = request_key (new_approval H now uuid inp expires)) (ad_rows db)"
        "ad_rows db' = ad_rows db @ [new_approval H now uuid inp expires]"
      by (auto simp: create_body_def Let_def split: option.splits if_splits)
    from e(3) have "expires - now \<le> MaxApprovalTTL"
      using time_sub_gt [of MaxApprovalTTL expires now] by (simp add: MaxApprovalTTL_def max_duration_def)
    moreover from e(4) have "tselect ap_id (ad_rows db) (ap_id (new_approval H now uuid inp expires)) = None"
        "tselect request_key (ad_rows db) (request_key (new_approval H now uuid inp expires)) = None"
      by (auto simp: tselect_None_iff list_ex_iff)
    ultimately show ?thesis using v e(1,2) unfolding e(5) by (intro table_step.new) auto
  qed
qed

lemma decide_table: "table_step H rest_step (ad_rows db) (ad_rows (fst (DecideActionApproval fault now1 now2 inp db)))"
  unfolding DecideActionApproval_def
proof (rule precheck_table, rule tx_table)
  fix db' x
  assume v: "decide_validate inp = None" and body: "decide_body now1 now2 inp db = Inr (db', x)"
  then obtain cur where g: "getActionApproval now1 (dn_id inp) (Some db) = Inr cur"
    by (auto simp: decide_body_def result_iffs)
  then obtain a where a: "tselect ap_id (ad_rows db) (dn_id inp) = Some a" "cur = scanActionApproval now1 a"
    by (auto simp: getActionApproval_def split: option.splits)
  have id: "ap_id a = dn_id inp" using tselect_SomeD [OF a(1)] by simp
  from body g have st: "ap_requested_by cur \<noteq> dn_decided_by inp" "ap_state cur = ApprovalPending"
    by (auto simp: decide_body_def split: if_splits)
  with a have pend: "ap_state a = ApprovalPending" "ap_requested_by a \<noteq> dn_decided_by inp" "ap_id cur = dn_id inp"
    using effective_pending id by (auto simp: scanActionApproval_def)
  from body g st pend(3) obtain rows r where
    up: "tupdate ap_id (dn_id inp) (\<lambda>a. ap_state a = ApprovalPending)
        (decided inp now2 (fresh_bound inp now2 cur)) (ad_rows db) = (rows, Some r)" "ad_rows db' = rows"
    by (auto simp: decide_body_def split: prod.splits option.splits)
  from pg.upd_row [OF up(1)] a(1) have "rows = tput ap_id (ad_rows db) (decided inp now2 (fresh_bound inp now2 cur) a)"
    by auto
  moreover have "rest_step a (decided inp now2 (fresh_bound inp now2 cur) a)"
    using pend v by (intro rest_step.decide) auto
  ultimately show "table_step H rest_step (ad_rows db) (ad_rows db')"
    unfolding up(2) using table_step.move [OF a(1)] by simp
qed

lemma consume_table:
  "table_step H rest_step (ad_rows db) (ad_rows (fst (ConsumeActionApproval fault now now' i intent dbr db)))"
  unfolding ConsumeActionApproval_def
  by (rule precheck_table, rule cas_table) (auto intro: rest_step.consume)

lemma mark_table:
  "table_step H rest_step (ad_rows db)
     (ad_rows (fst (MarkActionApprovalExecuted fault now now' i target artifact caller dbr db)))"
  unfolding MarkActionApprovalExecuted_def
  by (rule precheck_table, rule cas_table) (auto simp: spends_def intro: rest_step.mark)

lemma reserve_table:
  "table_step H gate_row_step (ad_rows db)
     (ad_rows (fst (ReserveActionApproval fault now now' i target artifact caller maxAge dbr db)))"
  unfolding ReserveActionApproval_def
  by (rule precheck_table, rule cas_table) (auto simp: spends_def intro: gate_row_step.reserve)

lemma settle_table:
  "table_step H gate_row_step (ad_rows db)
     (ad_rows (fst (SettleActionApproval fault now now' i caller ok dbr db)))"
  unfolding SettleActionApproval_def
  by (rule precheck_table, rule cas_table) (auto intro: gate_row_step.spend gate_row_step.give_back)

end
