(* ===== verification/Auth_User.thy ===== *)
theory Auth_User
  imports Prelude
begin

text \<open>
  The authenticated caller, \<open>internal/auth\<close>: how it authenticated, what it may claim, and the
  constructors of the principals that are not people.  A field that Go leaves empty is the empty
  string; the request's user is an option where the code admits none.
\<close>

record auth_user =
  au_id :: string
  au_groups :: "string list"
  au_service :: bool
  au_github_login :: bool
  au_support_producer :: bool
  au_surface :: string
  au_acting_principal :: string
  au_relay_surface :: string
  au_delegating_agent :: string
  au_principal_id :: string
  au_via_principal_id :: string
  au_principal_authz :: bool
  au_platform_admin :: bool
  au_agent :: string
  au_execution :: string
  au_work_item :: string
  au_run :: string
  au_agent_scope :: string
  au_bound_tenant :: string
  au_pinned_grant :: string

definition plain_user :: "string \<Rightarrow> auth_user" where
  "plain_user i =
     \<lparr>au_id = i, au_groups = [], au_service = False, au_github_login = False,
      au_support_producer = False, au_surface = '''', au_acting_principal = '''',
      au_relay_surface = '''', au_delegating_agent = '''', au_principal_id = '''',
      au_via_principal_id = '''', au_principal_authz = False, au_platform_admin = False,
      au_agent = '''', au_execution = '''', au_work_item = '''', au_run = '''', au_agent_scope = '''',
      au_bound_tenant = '''', au_pinned_grant = ''''\<rparr>"

definition ServiceUserID :: string where "ServiceUserID = ''mctl-agent''"
definition SurfacePrincipalPrefix :: string where "SurfacePrincipalPrefix = ''surface:''"
definition AgentPrincipalPrefix :: string where "AgentPrincipalPrefix = ''agent:''"

section \<open>What a caller is\<close>

definition IsService :: "auth_user \<Rightarrow> bool" where "IsService u = au_service u"

definition IsAgent :: "auth_user \<Rightarrow> bool" where "IsAgent u \<longleftrightarrow> au_agent u \<noteq> ''''"

definition IsAdmin :: "auth_user \<Rightarrow> bool" where
  "IsAdmin u \<longleftrightarrow> au_platform_admin u \<or> \<not> au_principal_authz u \<and> ''admins'' \<in> set (au_groups u)"

definition relayed :: "auth_user \<Rightarrow> bool" where "relayed u \<longleftrightarrow> au_relay_surface u \<noteq> ''''"

definition AgentScopeName :: "auth_user \<Rightarrow> string" where
  "AgentScopeName u = (if au_agent u = '''' then '''' else au_agent_scope u)"

definition PinnedGrantID :: "auth_user \<Rightarrow> string" where
  "PinnedGrantID u = (if au_agent u = '''' then '''' else au_pinned_grant u)"

section \<open>Constructors\<close>

definition NewServiceUser :: auth_user where
  "NewServiceUser = (plain_user ServiceUserID)
     \<lparr>au_groups := [''admins''], au_service := True, au_platform_admin := True\<rparr>"

definition NewSurfaceUser :: "string \<Rightarrow> auth_user" where
  "NewSurfaceUser surface = (plain_user (SurfacePrincipalPrefix @ surface))\<lparr>au_surface := surface\<rparr>"

text \<open>Relaying and delegating never confer admin: the group is dropped.\<close>

definition NewRelayedUser :: "string \<Rightarrow> string list \<Rightarrow> auth_user \<Rightarrow> auth_user option" where
  "NewRelayedUser login groups acting =
     (if au_surface acting = '''' \<or> login = '''' then None
      else Some ((plain_user login)\<lparr>au_groups := filter (\<lambda>g. g \<noteq> ''admins'') groups, au_github_login := True,
        au_acting_principal := au_id acting, au_relay_surface := au_surface acting,
        au_via_principal_id := au_principal_id acting\<rparr>))"

record agent_run =
  ar_execution :: string
  ar_work_item :: string
  ar_run :: string
  ar_scope :: string
  ar_tenant :: string
  ar_grant :: string

definition NewAgentUser :: "string \<Rightarrow> agent_run \<Rightarrow> auth_user" where
  "NewAgentUser name run = (plain_user (AgentPrincipalPrefix @ name))
     \<lparr>au_agent := name, au_execution := ar_execution run, au_work_item := ar_work_item run,
      au_run := ar_run run, au_agent_scope := ar_scope run, au_bound_tenant := ar_tenant run,
      au_pinned_grant := ar_grant run\<rparr>"

definition NewDelegatedUser :: "string \<Rightarrow> string list \<Rightarrow> auth_user \<Rightarrow> auth_user option" where
  "NewDelegatedUser login groups acting =
     (if au_agent acting = '''' \<or> login = '''' then None
      else Some ((plain_user login)\<lparr>au_groups := filter (\<lambda>g. g \<noteq> ''admins'') groups, au_github_login := True,
        au_acting_principal := AgentPrincipalPrefix @ au_agent acting, au_delegating_agent := au_agent acting,
        au_via_principal_id := au_principal_id acting, au_execution := au_execution acting,
        au_work_item := au_work_item acting, au_run := au_run acting\<rparr>))"

section \<open>The caller as a principal\<close>

definition principalOf :: "auth_user \<Rightarrow> string" where
  "principalOf u =
     (if au_agent u \<noteq> '''' then AgentPrincipalPrefix @ au_agent u
      else if au_support_producer u then au_id u
      else if au_service u then ''service:'' @ au_id u
      else if au_github_login u then ''github:'' @ au_id u
      else ''oidc:'' @ au_id u)"

end
