(* ===== verification/Agent_Scope.thy ===== *)
theory Agent_Scope
  imports Auth_User
begin

text \<open>
  The scopes of agent run tokens, \<open>internal/auth/agent_scope.go\<close>: the routes and tools a scoped run
  may reach, and the tenant it is bound to.

  A route pattern is the list of the alternatives its optional parts spell out, each a list of
  pieces: a literal, \<open>[^/]+\<close> (captured or not), and \<open>.*\<close> to the end.  What the code reads of a
  match are the \<open>[^/]+\<close> groups of the routes that bind something, in order.
\<close>

section \<open>Patterns\<close>

datatype piece = PLit string | PSeg | PCap | PRest

fun pmatch :: "piece list \<Rightarrow> string \<Rightarrow> string list option" where
  "pmatch [] s = (if s = [] then Some [] else None)"
| "pmatch (PLit l # ps) s = (if take (length l) s = l then pmatch ps (drop (length l) s) else None)"
| "pmatch (PSeg # ps) s =
     (let seg = takeWhile (\<lambda>c. c \<noteq> CHR ''/'') s
      in if seg = [] then None else pmatch ps (drop (length seg) s))"
| "pmatch (PCap # ps) s =
     (let seg = takeWhile (\<lambda>c. c \<noteq> CHR ''/'') s
      in if seg = [] then None else map_option (\<lambda>m. seg # m) (pmatch ps (drop (length seg) s)))"
| "pmatch (PRest # ps) s = (if ps = [] \<and> CHR 0x0A \<notin> set s then Some [] else None)"

text \<open>\<open>FindStringSubmatch\<close>: the groups of the first alternative that matches.\<close>

fun find_submatch :: "piece list list \<Rightarrow> string \<Rightarrow> string list option" where
  "find_submatch [] s = None"
| "find_submatch (alt # alts) s = (case pmatch alt s of Some m \<Rightarrow> Some m | None \<Rightarrow> find_submatch alts s)"

section \<open>Scopes\<close>

record scope_route =
  rt_method :: string
  rt_pattern :: "piece list list"
  rt_bind_work_item :: bool
  rt_bind_execution :: bool
  rt_bind_tenant :: bool
  rt_tenant_query :: string

record agent_scope =
  sc_name :: string
  sc_agents :: "string list"
  sc_read_all_tenants :: bool
  sc_pinned_grant :: bool
  sc_bound_tenant :: bool
  sc_mint_by_member :: bool
  sc_audit_requests :: bool
  sc_default_ttl :: duration
  sc_max_ttl :: duration
  sc_routes :: "scope_route list"
  sc_deny :: "scope_route list"
  sc_tool :: "string \<Rightarrow> bool"

definition route :: "string \<Rightarrow> piece list list \<Rightarrow> scope_route" where
  "route meth pat = \<lparr>rt_method = meth, rt_pattern = pat, rt_bind_work_item = False,
     rt_bind_execution = False, rt_bind_tenant = False, rt_tenant_query = ''''\<rparr>"

definition getRoute :: "piece list list \<Rightarrow> scope_route" where
  "getRoute pat = route ''GET'' pat"

definition tenantRoute :: "piece list list \<Rightarrow> scope_route" where
  "tenantRoute pat = (getRoute pat)\<lparr>rt_bind_tenant := True\<rparr>"

definition listRoute :: "piece list list \<Rightarrow> string \<Rightarrow> scope_route" where
  "listRoute pat key = (getRoute pat)\<lparr>rt_tenant_query := key\<rparr>"

definition lit :: "string \<Rightarrow> piece list list" where "lit p = [[PLit p]]"

text \<open>\<open>p(/[^/]+)?\<close>.\<close>

definition lit_opt_seg :: "string \<Rightarrow> piece list list" where
  "lit_opt_seg p = [[PLit p, PLit ''/'', PSeg], [PLit p]]"

subsection \<open>Tools\<close>

text \<open>\<open>strings.TrimPrefix(name, "mctl_")\<close>.\<close>

definition bare :: "string \<Rightarrow> string" where
  "bare name = (if take 5 name = ''mctl_'' then drop 5 name else name)"

definition readVerbs :: "string list" where
  "readVerbs = [''get_'', ''list_'', ''read_'', ''search_'', ''describe_'']"

definition readTools :: "string list" where
  "readTools = [''whoami'', ''incident_summary'', ''resolve_agent'']"

definition IsReadTool :: "string \<Rightarrow> bool" where
  "IsReadTool name \<longleftrightarrow>
     list_ex (\<lambda>v. take (length v) (bare name) = v \<and> length v < length (bare name)) readVerbs \<or>
     bare name \<in> set readTools"

definition agentDeniedTools :: "string list" where
  "agentDeniedTools = [''list_work_item_intents'']"

definition supportTools :: "string list" where
  "supportTools =
     [''whoami'', ''get_service_status'', ''list_services'', ''get_service_logs'',
      ''get_service_config'', ''list_workflows'', ''get_workflow_status'',
      ''get_workflow_logs'', ''get_resource_usage'', ''list_incidents'',
      ''get_incident'', ''incident_summary'', ''list_operations'', ''get_operation'',
      ''list_domains'', ''list_platform_skills'', ''read_platform_skill'',
      ''get_service_pods'', ''list_namespace_events'']"

definition supportTenantTools :: "string list" where
  "supportTenantTools =
     [''get_service_status'', ''list_services'', ''get_service_logs'',
      ''get_service_config'', ''list_workflows'', ''get_resource_usage'',
      ''list_incidents'', ''list_domains'', ''get_service_pods'', ''list_namespace_events'']"

definition tenantQueryKeys :: "string list" where
  "tenantQueryKeys = [''team'', ''tenant'', ''team_name'', ''namespace'']"

definition tenantToolArgs :: "string list" where
  "tenantToolArgs = [''team'', ''team_name'', ''tenant'']"

subsection \<open>Routes\<close>

definition intents_pattern :: "piece list list" where
  "intents_pattern =
     [[PLit ''/api/v1/work-items/'', PSeg, PLit ''/intents'', PLit ''/'', PRest],
      [PLit ''/api/v1/work-items/'', PSeg, PLit ''/intents'']]"

text \<open>An empty method denies every method.\<close>

definition agentDeniedRoutes :: "scope_route list" where
  "agentDeniedRoutes = [route '''' intents_pattern]"

definition mcpRoutes :: "scope_route list" where
  "mcpRoutes = [route ''POST'' (lit ''/mcp''), route ''GET'' (lit ''/mcp''), route ''DELETE'' (lit ''/mcp'')]"

definition agentPlatformReads :: "scope_route list" where
  "agentPlatformReads =
     [getRoute (lit ''/api/v1/whoami''),
      getRoute (lit ''/api/v1/identity/self''),
      getRoute (lit_opt_seg ''/api/v1/tenants''),
      getRoute [[PLit ''/api/v1/services'', PLit ''/'', PSeg, PLit ''/'', PSeg], [PLit ''/api/v1/services'']],
      getRoute [[PLit ''/api/v1/status/'', PSeg, PLit ''/'', PSeg]],
      getRoute [[PLit ''/api/v1/workflows'', PLit ''/'', PSeg, PLit ''/logs''],
                [PLit ''/api/v1/workflows'', PLit ''/'', PSeg], [PLit ''/api/v1/workflows'']],
      getRoute (lit ''/api/v1/previews''),
      getRoute [[PLit ''/api/v1/resources/'', PSeg]],
      getRoute [[PLit ''/api/v1/logs/'', PSeg, PLit ''/'', PSeg]],
      getRoute [[PLit ''/api/v1/pods/'', PSeg, PLit ''/'', PSeg]],
      getRoute [[PLit ''/api/v1/events/'', PSeg]],
      getRoute (lit ''/api/v1/agent-runs''),
      getRoute (lit_opt_seg ''/api/v1/platform-skills''),
      getRoute (lit ''/api/v1/repos''),
      getRoute (lit ''/api/v1/domains''),
      getRoute [[PLit ''/api/v1/incidents'', PLit ''/summary''],
                [PLit ''/api/v1/incidents'', PLit ''/'', PSeg], [PLit ''/api/v1/incidents'']],
      getRoute [[PLit ''/api/v1/roadmap/'', PLit ''epics''], [PLit ''/api/v1/roadmap/'', PLit ''epic-status''],
                [PLit ''/api/v1/roadmap/'', PLit ''ready'']],
      getRoute [[PLit ''/api/v1/lifecycle/ownership'', PLit ''/record''],
                [PLit ''/api/v1/lifecycle/ownership'', PLit ''/batch''],
                [PLit ''/api/v1/lifecycle/ownership'', PLit ''/conflict''],
                [PLit ''/api/v1/lifecycle/ownership'']],
      getRoute (lit ''/api/v1/lifecycle/events''),
      getRoute (lit_opt_seg ''/api/v1/operations'')]"

definition agentApprovalRoutes :: "scope_route list" where
  "agentApprovalRoutes =
     [route ''POST'' (lit ''/api/v1/action-approvals''),
      getRoute [[PLit ''/api/v1/action-approvals/'', PSeg]],
      route ''POST'' [[PLit ''/api/v1/action-approvals/'', PSeg, PLit ''/consume'']],
      route ''POST'' [[PLit ''/api/v1/action-approvals/'', PSeg, PLit ''/execute'']]]"

text \<open>\<open>^/api/v1/work-items/([^/]+)(/.*)?$\<close>, and the seal of the run's own execution.\<close>

definition own_work_item :: scope_route where
  "own_work_item = (route ''GET''
     [[PLit ''/api/v1/work-items/'', PCap, PLit ''/'', PRest], [PLit ''/api/v1/work-items/'', PCap]])
     \<lparr>rt_bind_work_item := True\<rparr>"

definition own_snapshot :: scope_route where
  "own_snapshot = (route ''POST''
     [[PLit ''/api/v1/work-items/'', PCap, PLit ''/executions/'', PCap, PLit ''/snapshot'']])
     \<lparr>rt_bind_work_item := True, rt_bind_execution := True\<rparr>"

subsection \<open>The table\<close>

definition base_scope :: "string \<Rightarrow> string list \<Rightarrow> agent_scope" where
  "base_scope name agents =
     \<lparr>sc_name = name, sc_agents = agents, sc_read_all_tenants = False, sc_pinned_grant = False,
      sc_bound_tenant = False, sc_mint_by_member = False, sc_audit_requests = False,
      sc_default_ttl = 0, sc_max_ttl = 0, sc_routes = [], sc_deny = agentDeniedRoutes,
      sc_tool = (\<lambda>_. False)\<rparr>"

definition AgentScopeInvestigate :: agent_scope where
  "AgentScopeInvestigate = (base_scope ''investigate'' [''issue-investigator''])
     \<lparr>sc_read_all_tenants := True, sc_tool := IsReadTool,
      sc_routes := mcpRoutes @ agentPlatformReads @ [own_work_item, own_snapshot]\<rparr>"

definition AgentScopeImplement :: agent_scope where
  "AgentScopeImplement = (base_scope ''implement'' [''implementer''])
     \<lparr>sc_read_all_tenants := True, sc_tool := IsReadTool,
      sc_routes := mcpRoutes @ agentPlatformReads @ [own_work_item] @ agentApprovalRoutes\<rparr>"

definition AgentScopeImplementGrant :: agent_scope where
  "AgentScopeImplementGrant = (base_scope ''implement-grant'' [''implementer''])
     \<lparr>sc_read_all_tenants := True, sc_pinned_grant := True, sc_tool := IsReadTool,
      sc_routes := mcpRoutes @ agentPlatformReads @
        [getRoute [[PLit ''/api/v1/action-approvals/'', PSeg]],
         route ''POST'' [[PLit ''/api/v1/action-approvals/'', PSeg, PLit ''/execute'']]]\<rparr>"

definition AgentScopeReview :: agent_scope where
  "AgentScopeReview = (base_scope ''review'' [''review-worker''])
     \<lparr>sc_audit_requests := True,
      sc_routes := [getRoute (lit ''/api/v1/whoami''), route ''POST'' (lit ''/api/v1/review-receipts'')]\<rparr>"

definition AgentScopeShepherd :: agent_scope where
  "AgentScopeShepherd = (base_scope ''shepherd'' [''shepherd''])
     \<lparr>sc_routes := [getRoute (lit ''/api/v1/whoami''), getRoute [[PLit ''/api/v1/agents/dev-loop/'', PSeg]]]\<rparr>"

definition AgentScopeSupport :: agent_scope where
  "AgentScopeSupport = (base_scope ''support'' [''mctl-support''])
     \<lparr>sc_bound_tenant := True, sc_mint_by_member := True, sc_audit_requests := True,
      sc_default_ttl := 10 * minute, sc_max_ttl := hour,
      sc_tool := (\<lambda>n. IsReadTool n \<and> bare n \<in> set supportTools),
      sc_routes := mcpRoutes @
        [getRoute (lit ''/api/v1/whoami''),
         tenantRoute [[PLit ''/api/v1/status/'', PCap, PLit ''/'', PSeg]],
         tenantRoute [[PLit ''/api/v1/services/'', PCap, PLit ''/'', PSeg]],
         tenantRoute [[PLit ''/api/v1/logs/'', PCap, PLit ''/'', PSeg]],
         tenantRoute [[PLit ''/api/v1/resources/'', PCap]],
         tenantRoute [[PLit ''/api/v1/pods/'', PCap, PLit ''/'', PSeg]],
         tenantRoute [[PLit ''/api/v1/events/'', PCap]],
         listRoute (lit ''/api/v1/services'') ''team'',
         listRoute (lit ''/api/v1/workflows'') ''team'',
         listRoute (lit ''/api/v1/domains'') ''team'',
         listRoute (lit ''/api/v1/incidents'') ''tenant'',
         getRoute [[PLit ''/api/v1/workflows/'', PSeg, PLit ''/logs''], [PLit ''/api/v1/workflows/'', PSeg]],
         getRoute [[PLit ''/api/v1/incidents/'', PLit ''summary''], [PLit ''/api/v1/incidents/'', PSeg]],
         getRoute (lit_opt_seg ''/api/v1/operations''),
         getRoute (lit_opt_seg ''/api/v1/platform-skills'')]\<rparr>"

definition agentScopes :: "(string \<times> agent_scope) list" where
  "agentScopes =
     [(''investigate'', AgentScopeInvestigate), (''implement'', AgentScopeImplement),
      (''implement-grant'', AgentScopeImplementGrant), (''review'', AgentScopeReview),
      (''shepherd'', AgentScopeShepherd), (''support'', AgentScopeSupport)]"

definition LookupAgentScope :: "string \<Rightarrow> agent_scope option" where
  "LookupAgentScope name = map_of agentScopes name"

definition AdmitsAgent :: "agent_scope \<Rightarrow> string \<Rightarrow> bool" where
  "AdmitsAgent s agent \<longleftrightarrow> agent \<in> set (sc_agents s)"

section \<open>Judging a request\<close>

text \<open>A query: the values of each key, in order.\<close>

type_synonym query = "string \<Rightarrow> string list"

record scope_request =
  rq_method :: string
  rq_path :: string
  rq_query :: query
  rq_work_item :: string
  rq_execution :: string
  rq_tenant :: string

definition denies :: "scope_request \<Rightarrow> scope_route \<Rightarrow> bool" where
  "denies rq d \<longleftrightarrow> (rt_method d = '''' \<or> rt_method d = rq_method rq) \<and>
     find_submatch (rt_pattern d) (rq_path rq) \<noteq> None"

text \<open>\<open>m[i]\<close> of a match that has it.\<close>

definition group :: "string list \<Rightarrow> nat \<Rightarrow> string option" where
  "group m i = (if i < length m then Some (m ! i) else None)"

definition admits_route :: "agent_scope \<Rightarrow> scope_request \<Rightarrow> scope_route \<Rightarrow> bool" where
  "admits_route s rq r \<longleftrightarrow>
     rt_method r = rq_method rq \<and>
     (case find_submatch (rt_pattern r) (rq_path rq) of
        None \<Rightarrow> False
      | Some m \<Rightarrow>
          (rt_bind_work_item r \<longrightarrow> rq_work_item rq \<noteq> '''' \<and> group m 0 = Some (rq_work_item rq)) \<and>
          (rt_bind_execution r \<longrightarrow> rq_execution rq \<noteq> '''' \<and> group m 1 = Some (rq_execution rq)) \<and>
          (sc_bound_tenant s \<longrightarrow>
             (rt_bind_tenant r \<longrightarrow> group m 0 = Some (rq_tenant rq)) \<and>
             (rt_tenant_query r \<noteq> '''' \<longrightarrow> rq_query rq (rt_tenant_query r) = [rq_tenant rq])))"

definition Allows :: "agent_scope \<Rightarrow> scope_request \<Rightarrow> bool" where
  "Allows s rq \<longleftrightarrow>
     (sc_bound_tenant s \<longrightarrow> rq_tenant rq \<noteq> '''' \<and>
        list_all (\<lambda>k. rq_query rq k = [] \<or> rq_query rq k = [rq_tenant rq]) tenantQueryKeys) \<and>
     \<not> list_ex (denies rq) (agentDeniedRoutes @ sc_deny s) \<and>
     list_ex (admits_route s rq) (sc_routes s)"

definition AllowsTool :: "agent_scope \<Rightarrow> string \<Rightarrow> bool" where
  "AllowsTool s name \<longleftrightarrow> bare name \<notin> set agentDeniedTools \<and> sc_tool s name"

text \<open>An argument of a tool call: a string, or any other JSON value.\<close>

datatype tool_arg = ArgString string | ArgOther

type_synonym tool_args = "(string \<times> tool_arg) list"

definition AllowsToolCall :: "agent_scope \<Rightarrow> string \<Rightarrow> tool_args \<Rightarrow> string \<Rightarrow> bool" where
  "AllowsToolCall s name args tenant \<longleftrightarrow>
     AllowsTool s name \<and>
     (sc_bound_tenant s \<longrightarrow>
        tenant \<noteq> '''' \<and>
        list_all (\<lambda>k. case map_of args k of None \<Rightarrow> True | Some v \<Rightarrow> v = ArgString tenant) tenantToolArgs \<and>
        (bare name \<in> set supportTenantTools \<longrightarrow> list_ex (\<lambda>k. map_of args k \<noteq> None) tenantToolArgs))"

section \<open>The scope of a caller\<close>

definition AgentScope :: "auth_user \<Rightarrow> agent_scope option" where
  "AgentScope u = (if AgentScopeName u = '''' then None else LookupAgentScope (AgentScopeName u))"

definition BoundTenant :: "auth_user \<Rightarrow> string option" where
  "BoundTenant u =
     (if IsAgent u \<and> au_bound_tenant u \<noteq> '''' then
        (case AgentScope u of Some s \<Rightarrow> if sc_bound_tenant s then Some (au_bound_tenant u) else None | None \<Rightarrow> None)
      else None)"

definition HasTenantAccess :: "auth_user \<Rightarrow> string \<Rightarrow> bool" where
  "HasTenantAccess u tenant \<longleftrightarrow>
     IsAdmin u \<or>
     (case AgentScope u of
        Some s \<Rightarrow>
          if sc_bound_tenant s then tenant \<noteq> '''' \<and> tenant = au_bound_tenant u
          else sc_read_all_tenants s \<or> tenant \<in> set (au_groups u)
      | None \<Rightarrow> tenant \<in> set (au_groups u))"

text \<open>
  \<open>agentScopeGate\<close>: whether a request passes on to the router.  An unscoped run and every other
  caller do; a scoped run may always revoke its own token; a name the table lacks admits nothing.
\<close>

definition self_revoke_path :: string where
  "self_revoke_path = ''/api/v1/agent-run-tokens/self/revoke''"

definition agentScopeGate :: "auth_user option \<Rightarrow> string \<Rightarrow> string \<Rightarrow> query \<Rightarrow> bool" where
  "agentScopeGate user meth path q =
     (case user of
        None \<Rightarrow> True
      | Some u \<Rightarrow>
          if \<not> IsAgent u \<or> AgentScopeName u = '''' then True
          else if meth = ''POST'' \<and> path = self_revoke_path then True
          else (case AgentScope u of
            None \<Rightarrow> False
          | Some s \<Rightarrow> Allows s \<lparr>rq_method = meth, rq_path = path, rq_query = q, rq_work_item = au_work_item u,
               rq_execution = au_execution u, rq_tenant = (case BoundTenant u of Some t \<Rightarrow> t | None \<Rightarrow> '''')\<rparr>))"

end
