(* ===== verification/Approval_Gate.thy ===== *)
theory Approval_Gate
  imports Approval_Store Agent_Scope
begin

text \<open>
  Who may do what with an action approval, \<open>internal/api/handlers_action_approvals.go\<close>: the
  predicates on the authenticated caller the handlers decide by, and the routes up to the store call they end in;
  and the receipt gate in front of governed tools: its configuration, the tools and receipts, the checks of the
  store side and the middleware.
\<close>

definition devLoopApprovalKind :: string where
  "devLoopApprovalKind = ''mctl-agents-approve''"

definition isDirectService :: "auth_user \<Rightarrow> bool" where
  "isDirectService u \<longleftrightarrow> IsService u \<and> \<not> relayed u"

definition isHumanAdmin :: "auth_user \<Rightarrow> bool" where
  "isHumanAdmin u \<longleftrightarrow> IsAdmin u \<and> \<not> IsService u \<and> \<not> relayed u \<and> au_surface u = ''''"

definition boundAgentExecution :: "auth_user \<Rightarrow> string option" where
  "boundAgentExecution u =
     (if \<not> IsAgent u \<or> relayed u \<or> AgentScope u = None \<or> au_execution u = '''' then None
      else Some (au_execution u))"

definition isApprovalRequester :: "auth_user \<Rightarrow> bool" where
  "isApprovalRequester u \<longleftrightarrow> isDirectService u \<or> boundAgentExecution u \<noteq> None"

definition isAgentOwnApproval :: "auth_user \<Rightarrow> action_approval \<Rightarrow> bool" where
  "isAgentOwnApproval u a \<longleftrightarrow>
     boundAgentExecution u = Some (in_execution (ap_intent a)) \<and> ap_requested_by a = principalOf u"

definition isAgentExecutionGrant :: "auth_user \<Rightarrow> action_approval \<Rightarrow> bool" where
  "isAgentExecutionGrant u a \<longleftrightarrow>
     boundAgentExecution u = Some (in_execution (ap_intent a)) \<and>
     in_kind (ap_intent a) = devLoopApprovalKind \<and> ap_requested_by a = principalOf NewServiceUser"

definition pinnedAgentGrant :: "auth_user \<Rightarrow> string option" where
  "pinnedAgentGrant u =
     (if \<not> IsAgent u \<or> relayed u then None
      else case AgentScope u of
        None \<Rightarrow> None
      | Some s \<Rightarrow> if \<not> sc_pinned_grant s \<or> PinnedGrantID u = '''' then None else Some (PinnedGrantID u))"

definition isPinnedAgentGrant :: "auth_user \<Rightarrow> action_approval \<Rightarrow> bool" where
  "isPinnedAgentGrant u a \<longleftrightarrow>
     pinnedAgentGrant u = Some (ap_id a) \<and> in_kind (ap_intent a) = devLoopApprovalKind \<and>
     ap_requested_by a = principalOf NewServiceUser"

definition canSeeActionApproval :: "auth_user \<Rightarrow> action_approval \<Rightarrow> bool" where
  "canSeeActionApproval u a \<longleftrightarrow>
     isHumanAdmin u \<or> isAgentOwnApproval u a \<or> isAgentExecutionGrant u a \<or> isPinnedAgentGrant u a \<or>
     isDirectService u \<and> ap_requested_by a = principalOf u"

text \<open>\<open>visibleActionApproval\<close>: a request the caller may not read answers as absent.\<close>

definition visibleActionApproval ::
  "gotime \<Rightarrow> auth_user \<Rightarrow> string \<Rightarrow> approval_db option \<Rightarrow> approval_error + action_approval" where
  "visibleActionApproval now u i db =
     andThen (ActionApproval now i db) (\<lambda>a. if canSeeActionApproval u a then Inr a else Inl ApprovalNotFound)"

text \<open>
  \<open>admitAgentApprovalCreate\<close>: an agent run asks for its own execution and work item only, and
  never for the DevLoop approval.
\<close>

definition admitAgentApprovalCreate :: "auth_user \<Rightarrow> action_intent \<Rightarrow> bool" where
  "admitAgentApprovalCreate u body =
     (case boundAgentExecution u of
        None \<Rightarrow> True
      | Some exec \<Rightarrow>
          in_execution body = exec \<and> (in_work_item body = '''' \<or> in_work_item body = au_work_item u) \<and>
          in_kind body \<noteq> devLoopApprovalKind)"

section \<open>The routes, up to the store call they end in\<close>

text \<open>Consume: the approval the caller may spend, or the refusal.\<close>

definition consume_route ::
  "gotime \<Rightarrow> auth_user \<Rightarrow> string \<Rightarrow> approval_db option \<Rightarrow> approval_error + action_approval" where
  "consume_route now u i db =
     (if \<not> isApprovalRequester u then Inl ApprovalNotFound
      else andThen (visibleActionApproval now u i db) (\<lambda>cur.
        if boundAgentExecution u \<noteq> None \<and> \<not> isAgentOwnApproval u cur then Inl ApprovalNotFound
        else (case ConsumeStateRefusal cur of Some e \<Rightarrow> Inl e | None \<Rightarrow> Inr cur)))"

text \<open>Mark executed: the approval and the requester the store's compare-and-set is given.\<close>

definition execute_route ::
  "gotime \<Rightarrow> auth_user \<Rightarrow> string \<Rightarrow> approval_db option \<Rightarrow> approval_error + action_approval \<times> string" where
  "execute_route now u i db =
     (if \<not> isApprovalRequester u \<and> pinnedAgentGrant u = None then Inl ApprovalNotFound
      else andThen (visibleActionApproval now u i db) (\<lambda>cur.
        Inr (cur, if isAgentExecutionGrant u cur \<and> \<not> isAgentOwnApproval u cur \<or> isPinnedAgentGrant u cur
                  then ap_requested_by cur else principalOf u)))"

text \<open>
  The MCP receipt gate, \<open>internal/mcp/agent_receipt_gate.go\<close>, and its store side,
  \<open>internal/api/agent_receipt_gate.go\<close>: a governed tool call of an agent needs the id of an approval
  that was approved, consumed and not yet spent.
\<close>

section \<open>Configuration\<close>

datatype gate_mode = GateOff | GateObserve | GateEnforce

definition ParseAgentReceiptGateMode :: "string \<Rightarrow> gate_mode option" where
  "ParseAgentReceiptGateMode raw =
     (let m = TrimSpace raw in
      if m = '''' \<or> m = ''off'' then Some GateOff
      else if m = ''observe'' then Some GateObserve
      else if m = ''enforce'' then Some GateEnforce
      else None)"

definition DefaultAgentReceiptMaxAge :: duration where "DefaultAgentReceiptMaxAge = 5 * minute"
definition MaxAgentReceiptMaxAge :: duration where "MaxAgentReceiptMaxAge = hour"

text \<open>\<open>time.ParseDuration\<close> is the argument.\<close>

definition ParseAgentReceiptMaxAge :: "(string \<Rightarrow> duration option) \<Rightarrow> string \<Rightarrow> duration option" where
  "ParseAgentReceiptMaxAge parse raw0 =
     (let raw = TrimSpace raw0 in
      if raw = '''' then Some DefaultAgentReceiptMaxAge
      else case parse raw of
        None \<Rightarrow> None
      | Some d \<Rightarrow> if d \<le> 0 \<or> MaxAgentReceiptMaxAge < d then None else Some d)"

definition receiptMaxAge :: "duration \<Rightarrow> duration" where
  "receiptMaxAge configured = (if 0 < configured then configured else DefaultAgentReceiptMaxAge)"

section \<open>Tools and receipts\<close>

definition governedAgentTools :: "string list" where
  "governedAgentTools =
     [''mctl_abandon_dev_loop'', ''mctl_ask_support'', ''mctl_deploy_analyze'', ''mctl_deploy_plan'',
      ''mctl_add_custom_domain'', ''mctl_approve_dev_loop'', ''mctl_bind_agent_release'',
      ''mctl_cancel_customer_deletion'', ''mctl_create_agent'', ''mctl_create_preview'',
      ''mctl_create_tenant'', ''mctl_decide_signup_request'', ''mctl_delete_preview'',
      ''mctl_delete_tenant'', ''mctl_deploy_service'', ''mctl_deprecate_platform_skill'',
      ''mctl_disable_tenant_skill'', ''mctl_enable_tenant_skill'', ''mctl_erpact_create_site'',
      ''mctl_erpact_list_sites'', ''mctl_erpact_site_status'', ''mctl_fence_lifecycle_claim'',
      ''mctl_grant_repo_access'', ''mctl_inspect_lifecycle_conflict'', ''mctl_plan_epic_wave'',
      ''mctl_promote_agent'', ''mctl_provision_database'', ''mctl_publish_agent_definition_version'',
      ''mctl_publish_agent_profile_version'', ''mctl_publish_agent_version'',
      ''mctl_publish_platform_skill'', ''mctl_remove_custom_domain'', ''mctl_request_lifecycle_handoff'',
      ''mctl_request_lifecycle_reconcile'', ''mctl_request_work_item_execution'',
      ''mctl_create_work_item'', ''mctl_append_work_item_intent'', ''mctl_retire_service'',
      ''mctl_retry_lifecycle_handoff'', ''mctl_rollback_agent'', ''mctl_rollback_agent_binding'',
      ''mctl_rollback_service'', ''mctl_scale_service'', ''mctl_set_agent_version_lifecycle'',
      ''mctl_signup_capacity'', ''mctl_submit_review_assertion'', ''mctl_start_epic_wave'',
      ''mctl_sync_repos'', ''mctl_trigger_agents_run'', ''mctl_trigger_approve'',
      ''mctl_trigger_implementer'', ''mctl_trigger_incident_responder'', ''mctl_trigger_issue'',
      ''mctl_trigger_mentor_only'', ''mctl_trigger_portal_server_auth_apply'',
      ''mctl_trigger_reconcile'', ''mctl_trigger_shepherd'', ''mctl_trigger_single_service'',
      ''mctl_verify_domain'']"

definition ArgActionApprovalRef :: string where "ArgActionApprovalRef = ''action_approval_ref''"
definition ArgActionApprovalArtifactHash :: string where
  "ArgActionApprovalArtifactHash = ''action_approval_artifact_hash''"
definition ReceiptActionKindPrefix :: string where "ReceiptActionKindPrefix = ''mcp.tool.call:mcp__mctl__''"
definition ReceiptTarget :: string where "ReceiptTarget = ''mctl''"

datatype receipt_code =
    ReceiptMissing | ReceiptMalformed | ReceiptNotFound | ReceiptOperationMismatch
  | ReceiptTargetMismatch | ReceiptNotConsumed | ReceiptAlreadyExecuted | ReceiptArtifactMismatch
  | ReceiptUnverifiable | ReceiptInFlight | ReceiptStale

definition isASCIIAlnum :: "char \<Rightarrow> bool" where
  "isASCIIAlnum c \<longleftrightarrow> c \<in> set ''ABCDEFGHIJKLMNOPQRSTUVWXYZabcdefghijklmnopqrstuvwxyz0123456789''"

text \<open>Every byte of a rune above U+007F is above 0x7F, so the shape is one of the bytes.\<close>

definition WellFormedReceipt :: "string \<Rightarrow> string \<Rightarrow> bool" where
  "WellFormedReceipt ref artifact \<longleftrightarrow>
     length ref \<le> 64 \<and> take 4 ref = ''aar_'' \<and> length ref \<noteq> 4 \<and> list_all isASCIIAlnum (drop 4 ref) \<and>
     length artifact \<le> 512 \<and> list_all (\<lambda>c. 0x21 \<le> byte c \<and> byte c \<le> 0x7E) artifact"

definition DescribeMalformedReceipt :: "string \<Rightarrow> string \<Rightarrow> string" where
  "DescribeMalformedReceipt ref artifact =
     (let prefixed = (take 4 ref = ''aar_'');
          tail = (if prefixed then drop 4 ref else ref);
          head = take 8 (takeWhile isASCIIAlnum tail)
      in ''prefix='' @ (if prefixed then ''true'' else ''false'') @ '' ref_len='' @ show_nat (length ref) @
         '' head='' @ [CHR 0x22] @ head @ [CHR 0x22] @ '' hash_len='' @ show_nat (length artifact))"

record receipt_check =
  rk_tool :: string
  rk_ref :: string
  rk_artifact :: string
  rk_redeem :: bool

record receipt_outcome =
  ro_tool :: string
  ro_ref :: string
  ro_code :: "receipt_code option"
  ro_mode :: gate_mode
  ro_refused :: bool
  ro_malformed :: string

section \<open>The store side\<close>

text \<open>
  What a call finds besides the ledger it writes: the ledger its first read sees, the readings of
  the clock, what PostgreSQL does to the reservation, the ledger of the read back.  \<open>cfg\<close> is the
  configured age bound.
\<close>

record gate_world =
  gw_configured :: bool
  gw_read_db :: "approval_db option"
  gw_read_now :: gotime
  gw_stale_now :: gotime
  gw_fault :: stmt_fault
  gw_now :: gotime
  gw_now' :: gotime
  gw_back_db :: "approval_db option"

definition spendErrorCode :: "approval_error \<Rightarrow> receipt_code" where
  "spendErrorCode e =
     (case e of
        ApprovalWasExecuted \<Rightarrow> ReceiptAlreadyExecuted
      | ApprovalIsInFlight \<Rightarrow> ReceiptInFlight
      | ApprovalReceiptStale \<Rightarrow> ReceiptStale
      | ApprovalNotConsumed \<Rightarrow> ReceiptNotConsumed
      | ApprovalWasDenied \<Rightarrow> ReceiptNotConsumed
      | ApprovalTargetMismatch \<Rightarrow> ReceiptArtifactMismatch
      | ApprovalNotFound \<Rightarrow> ReceiptNotFound
      | _ \<Rightarrow> ReceiptUnverifiable)"

text \<open>The checks on the row as it was read; None is a receipt that may be reserved.\<close>

definition receipt_checks :: "duration \<Rightarrow> gotime \<Rightarrow> auth_user \<Rightarrow> receipt_check \<Rightarrow> action_approval \<Rightarrow> receipt_code option" where
  "receipt_checks age now u c a =
     (if ap_requested_by a \<noteq> principalOf u then Some ReceiptNotFound
      else if IsAgent u \<and> boundAgentExecution u \<noteq> Some (in_execution (ap_intent a)) then Some ReceiptNotFound
      else if in_kind (ap_intent a) \<noteq> ReceiptActionKindPrefix @ rk_tool c then Some ReceiptOperationMismatch
      else if in_target (ap_intent a) \<noteq> ReceiptTarget then Some ReceiptTargetMismatch
      else if ap_state a = ApprovalInFlight then Some ReceiptInFlight
      else if ap_state a = ApprovalExecuted then Some ReceiptAlreadyExecuted
      else if ap_state a \<noteq> ApprovalConsumed then Some ReceiptNotConsumed
      else if rk_artifact c = '''' \<or> in_artifact_hash (ap_intent a) = '''' \<or>
         in_artifact_hash (ap_intent a) \<noteq> rk_artifact c then Some ReceiptArtifactMismatch
      else if receiptStaleness a age now \<noteq> None then Some ReceiptStale
      else None)"

definition VerifyAgentReceipt ::
  "duration \<Rightarrow> auth_user option \<Rightarrow> receipt_check \<Rightarrow> gate_world \<Rightarrow> approval_db \<Rightarrow> approval_db \<times> receipt_code option" where
  "VerifyAgentReceipt cfg user c w db =
     (case user of
        None \<Rightarrow> (db, Some ReceiptUnverifiable)
      | Some u \<Rightarrow>
          if \<not> gw_configured w then (db, Some ReceiptUnverifiable)
          else case ActionApproval (gw_read_now w) (rk_ref c) (gw_read_db w) of
            Inl e \<Rightarrow> (db, Some (if e = ApprovalNotFound then ReceiptNotFound else ReceiptUnverifiable))
          | Inr a \<Rightarrow>
              (case receipt_checks (receiptMaxAge cfg) (gw_stale_now w) u c a of
                 Some code \<Rightarrow> (db, Some code)
               | None \<Rightarrow>
                   if \<not> rk_redeem c then (db, None)
                   else (case ReserveActionApproval (gw_fault w) (gw_now w) (gw_now' w) (rk_ref c) ReceiptTarget
                           (rk_artifact c) (principalOf u) (receiptMaxAge cfg) (gw_back_db w) db of
                           (db', Inl e) \<Rightarrow> (db', Some (spendErrorCode e))
                         | (db', Inr _) \<Rightarrow> (db', None))))"

definition SettleAgentReceipt ::
  "auth_user option \<Rightarrow> receipt_check \<Rightarrow> bool \<Rightarrow> gate_world \<Rightarrow> approval_db \<Rightarrow> approval_db" where
  "SettleAgentReceipt user c succeeded w db =
     (case user of
        None \<Rightarrow> db
      | Some u \<Rightarrow>
          if \<not> gw_configured w then db
          else fst (SettleActionApproval (gw_fault w) (gw_now w) (gw_now' w) (rk_ref c) (principalOf u) succeeded
                 (gw_back_db w) db))"

section \<open>The middleware\<close>

definition isAgentServicePrincipal :: "auth_user \<Rightarrow> bool" where
  "isAgentServicePrincipal u \<longleftrightarrow> IsService u \<and> au_id u = ServiceUserID \<and> \<not> relayed u"

definition isReceiptGatedPrincipal :: "auth_user \<Rightarrow> bool" where
  "isReceiptGatedPrincipal u \<longleftrightarrow> isAgentServicePrincipal u \<or> IsAgent u \<and> \<not> relayed u"

record tool_call =
  tc_tool :: string
  tc_args :: tool_args

text \<open>The text of a reserved argument; any other JSON value reads as the empty string.\<close>

definition arg_text :: "tool_args \<Rightarrow> string \<Rightarrow> string" where
  "arg_text args k = (case map_of args k of Some (ArgString s) \<Rightarrow> s | _ \<Rightarrow> '''')"

definition takeReceiptArgs :: "tool_call \<Rightarrow> string \<times> string \<times> tool_call" where
  "takeReceiptArgs call =
     (let args = tc_args call in
      if map_of args ArgActionApprovalRef = None \<and> map_of args ArgActionApprovalArtifactHash = None
      then ('''', '''', call)
      else (TrimSpace (arg_text args ArgActionApprovalRef), TrimSpace (arg_text args ArgActionApprovalArtifactHash),
            call\<lparr>tc_args := filter (\<lambda>(k, v). k \<noteq> ArgActionApprovalRef \<and> k \<noteq> ArgActionApprovalArtifactHash) args\<rparr>))"

text \<open>\<open>SetAgentReceiptGate\<close>: off disables the gate.\<close>

definition SetAgentReceiptGate :: "gate_mode \<Rightarrow> gate_mode option" where
  "SetAgentReceiptGate mode = (if mode = GateOff then None else Some mode)"

text \<open>
  The middleware up to the handler: the call is passed on, refused, or passed on with a
  reservation to settle.
\<close>

datatype admission = Passed tool_call | Refused receipt_code | Reserved tool_call receipt_check

definition admit_call ::
  "gate_mode option \<Rightarrow> duration \<Rightarrow> auth_user option \<Rightarrow> tool_call \<Rightarrow> gate_world \<Rightarrow> approval_db \<Rightarrow>
     approval_db \<times> admission \<times> receipt_outcome option" where
  "admit_call gate cfg user call0 w db =
     (case takeReceiptArgs call0 of
        (ref, artifact, call) \<Rightarrow>
          (case gate of
             None \<Rightarrow> (db, Passed call, None)
           | Some mode \<Rightarrow>
               if tc_tool call \<notin> set governedAgentTools then (db, Passed call, None)
               else if (case user of None \<Rightarrow> True | Some u \<Rightarrow> \<not> isReceiptGatedPrincipal u)
               then (db, Passed call, None)
               else (let enforce = (mode = GateEnforce);
                         chk = \<lparr>rk_tool = tc_tool call, rk_ref = ref, rk_artifact = artifact, rk_redeem = enforce\<rparr>;
                         malformed = (ref \<noteq> '''' \<and> \<not> WellFormedReceipt ref artifact);
                         (db', code) =
                           (if ref = '''' then (db, Some ReceiptMissing)
                            else if malformed then (db, Some ReceiptMalformed)
                            else VerifyAgentReceipt cfg user chk w db);
                         refused = (enforce \<and> code \<noteq> None);
                         outcome = \<lparr>ro_tool = tc_tool call, ro_ref = (if malformed then '''' else ref),
                           ro_code = code, ro_mode = mode, ro_refused = refused,
                           ro_malformed = (if malformed then DescribeMalformedReceipt ref artifact else '''')\<rparr>
                     in (db',
                         (case code of
                            Some c \<Rightarrow> if enforce then Refused c else Passed call
                          | None \<Rightarrow> if enforce then Reserved call chk else Passed call),
                         Some outcome))))"

text \<open>How the handler ended: whether the request was cancelled, its error, \<open>isError\<close> of its result.\<close>

record call_end =
  ce_cancelled :: bool
  ce_error :: bool
  ce_result :: "bool option"

definition callSucceeded :: "call_end \<Rightarrow> bool" where
  "callSucceeded e \<longleftrightarrow> ce_cancelled e \<or> \<not> ce_error e \<and> ce_result e = Some False"

end
