(* ===== verification/Approval_Calls.thy ===== *)
theory Approval_Calls
  imports Approval_Machine Approval_Gate
begin

text \<open>
  The approvals and the tool calls they authorize, running together: REST calls, calls entering
  the gate (whose first read may be of any earlier state of the ledger), handlers ending and being
  settled, and processes that die with a reservation.
\<close>

section \<open>The machine\<close>

datatype approval_op =
    ApCreate tx_fault gotime string approval_input
  | ApDecide tx_fault gotime gotime decision_input
  | ApConsume stmt_fault gotime gotime string string "approval_db option"
  | ApMark stmt_fault gotime gotime string string string string "approval_db option"
  | ApWorkItem string

fun ap_run :: "hash \<Rightarrow> approval_op \<Rightarrow> approval_db \<Rightarrow> approval_db" where
  "ap_run H (ApCreate f now uuid inp) db = fst (CreateActionApproval H f now uuid inp db)"
| "ap_run H (ApDecide f now1 now2 inp) db = fst (DecideActionApproval f now1 now2 inp db)"
| "ap_run H (ApConsume f now now' i intent dbr) db = fst (ConsumeActionApproval f now now' i intent dbr db)"
| "ap_run H (ApMark f now now' i target artifact caller dbr) db =
     fst (MarkActionApprovalExecuted f now now' i target artifact caller dbr db)"
| "ap_run H (ApWorkItem i) db = db\<lparr>ad_items := i # ad_items db\<rparr>"

text \<open>A call whose handler runs, with the reservation it holds.\<close>

record running_call =
  rn_user :: auth_user
  rn_check :: receipt_check

text \<open>\<open>gs_past\<close> are the ledgers there were; \<open>gs_done\<close> the calls that ended, with the verdict on each.\<close>

record gate_state =
  gs_db :: approval_db
  gs_past :: "approval_db list"
  gs_calls :: "running_call list"
  gs_done :: "(string \<times> bool) list"

definition gate_init :: gate_state where
  "gate_init = \<lparr>gs_db = empty_adb, gs_past = [], gs_calls = [], gs_done = []\<rparr>"

definition to_db :: "approval_db \<Rightarrow> gate_state \<Rightarrow> gate_state" where
  "to_db db' s = s\<lparr>gs_db := db', gs_past := gs_db s # gs_past s\<rparr>"

definition reads_past :: "gate_world \<Rightarrow> gate_state \<Rightarrow> bool" where
  "reads_past w s \<longleftrightarrow> (case gw_read_db w of None \<Rightarrow> True | Some d \<Rightarrow> d \<in> set (gs_db s # gs_past s))"

fun admitted_calls :: "auth_user option \<Rightarrow> admission \<Rightarrow> running_call list" where
  "admitted_calls (Some u) (Reserved call chk) = [\<lparr>rn_user = u, rn_check = chk\<rparr>]"
| "admitted_calls user ad = []"

abbreviation rn_ref :: "running_call \<Rightarrow> string" where "rn_ref r \<equiv> rk_ref (rn_check r)"

inductive gate_reach :: "hash \<Rightarrow> duration \<Rightarrow> gate_state \<Rightarrow> bool" for H cfg where
  g_init: "gate_reach H cfg gate_init"
| g_rest: "gate_reach H cfg s \<Longrightarrow> gate_reach H cfg (to_db (ap_run H op (gs_db s)) s)"
| g_admit: "gate_reach H cfg s \<Longrightarrow> reads_past w s \<Longrightarrow>
    admit_call gate cfg user call w (gs_db s) = (db', ad, outcome) \<Longrightarrow>
    gate_reach H cfg (to_db db' (s\<lparr>gs_calls := admitted_calls user ad @ gs_calls s\<rparr>))"
| g_finish: "gate_reach H cfg s \<Longrightarrow> gs_calls s = xs @ r # ys \<Longrightarrow>
    gate_reach H cfg (to_db (SettleAgentReceipt (Some (rn_user r)) (rn_check r) (callSucceeded e) w (gs_db s))
      (s\<lparr>gs_calls := xs @ ys, gs_done := (rn_ref r, callSucceeded e) # gs_done s\<rparr>))"
| g_crash: "gate_reach H cfg s \<Longrightarrow> gs_calls s = xs @ r # ys \<Longrightarrow> gate_reach H cfg (s\<lparr>gs_calls := xs @ ys\<rparr>)"

section \<open>The rows\<close>

definition asel :: "approval_db \<Rightarrow> string \<Rightarrow> action_approval option" where
  "asel db i = tselect ap_id (ad_rows db) i"

lemma table_rest:
  "table_step H rest_step (ad_rows db) (ad_rows (ap_run H op db))"
  by (cases op) (simp_all add: create_table decide_table consume_table mark_table table_step.same)

text \<open>A row that is in flight or executed is left alone by everything but the gate.\<close>

lemma rest_keeps:
  assumes "table_step H rest_step rows rows'" and "tselect ap_id rows i = Some a"
    and "ap_state a \<in> {ApprovalInFlight, ApprovalExecuted}"
  shows "tselect ap_id rows' i = Some a"
  using assms(1)
proof (cases rule: table_step.cases)
  case (new inp expires now b uuid)
  with assms(2) show ?thesis by (simp add: tselect_append)
next
  case (move j b b')
  from move(3) have "ap_state b \<notin> {ApprovalInFlight, ApprovalExecuted}" "ap_id b' = ap_id b"
    by (auto elim: rest_stepE simp: decided_def)
  with move assms(2,3) tselect_SomeD [OF move(2)] show ?thesis by (auto simp: tselect_tput)
qed (use assms in simp)

text \<open>What a reservation and a settlement do to one row.\<close>

lemma cas_row:
  assumes "cas_update fault now i p f e db = (db', res)" and "\<And>a. ap_id (f a) = ap_id a"
  obtains (kept) "db' = db" "\<And>a. res \<noteq> Inr a"
    | (moved) a where "asel db i = Some a" "p a" "asel db' i = Some (f a)" "ap_id a = i"
        "\<And>j. j \<noteq> i \<Longrightarrow> asel db' j = asel db j" "ad_rows db' = tput ap_id (ad_rows db) (f a)"
proof (cases "tupdate ap_id i p f (ad_rows db)")
  case (Pair rows r)
  show ?thesis
  proof (cases r)
    case None
    with Pair assms(1) kept show ?thesis by (auto simp: cas_update_def)
  next
    case (Some a')
    from pg.upd_row [OF Pair [unfolded Some]] obtain a where
      a: "tselect ap_id (ad_rows db) i = Some a" "p a" "rows = tput ap_id (ad_rows db) (f a)" by blast
    have id: "ap_id a = i" using tselect_SomeD [OF a(1)] by simp
    show ?thesis
    proof (cases "fault = StmtFails")
      case True
      with Pair Some assms(1) show ?thesis by (intro kept) (auto simp: cas_update_def)
    next
      case False
      with Pair Some assms(1) have "ad_rows db' = rows" by (cases fault) (auto simp: cas_update_def)
      with a id assms(2) show ?thesis by (intro moved [of a]) (auto simp: asel_def tselect_tput)
    qed
  qed
qed

lemma reserve_row:
  assumes "ReserveActionApproval fault now now' i target artifact caller age dbr db = (db', res)"
  obtains (same) "ad_rows db' = ad_rows db" "\<And>a. res \<noteq> Inr a"
    | (moved) a where "asel db i = Some a" "spends target artifact caller a" "receiptStaleness a age now = None"
        "asel db' i = Some (a\<lparr>ap_state := ApprovalInFlight, ap_reserved_at := Some now\<rparr>)"
        "\<And>j. j \<noteq> i \<Longrightarrow> asel db' j = asel db j"
proof (cases "first_error [spend_validate target artifact caller, if age \<le> 0 then Some WiInvalid else None]")
  case (Some e)
  with assms same show ?thesis by (auto simp: ReserveActionApproval_def ap_precheck_def)
next
  case None
  then have age: "0 < age" by (auto simp: first_error_None split: if_splits)
  let ?f = "\<lambda>a. a\<lparr>ap_state := ApprovalInFlight, ap_reserved_at := Some now\<rparr>"
  from None assms have "cas_update fault now i
      (\<lambda>a. spends target artifact caller a \<and> (case ap_consumed_at a of None \<Rightarrow> False | Some c \<Rightarrow> now - age < c) \<and>
        still_fresh now a) ?f (reserve_refusal now now' i target artifact caller age dbr) db = (db', res)"
    by (simp add: ReserveActionApproval_def ap_precheck_def)
  moreover have "ap_id (?f a) = ap_id a" for a by simp
  ultimately show ?thesis
  proof (cases rule: cas_row)
    case kept
    show ?thesis by (rule same) (use kept in auto)
  next
    case (moved a)
    moreover from moved(2) age have "receiptStaleness a age now = None"
      by (auto simp: receiptStaleness_def split: option.splits)
    ultimately show ?thesis by (intro that(2) [of a]) auto
  qed
qed

lemma settle_row:
  obtains (same) "ad_rows (SettleAgentReceipt (Some u) c ok w db) = ad_rows db"
    | (moved) a a' where "asel db (rk_ref c) = Some a" "ap_state a = ApprovalInFlight"
        "asel (SettleAgentReceipt (Some u) c ok w db) (rk_ref c) = Some a'" "row_after a a'"
        "ap_state a' = (if ok then ApprovalExecuted else ApprovalConsumed)"
        "\<And>j. j \<noteq> rk_ref c \<Longrightarrow> asel (SettleAgentReceipt (Some u) c ok w db) j = asel db j"
proof (cases "gw_configured w \<and> wi_checkText (principalOf u) MaxExternalIDBytes True = None")
  case False
  then show ?thesis by (intro same) (auto simp: SettleAgentReceipt_def SettleActionApproval_def ap_precheck_def)
next
  case True
  define f where "f = (\<lambda>a :: action_approval. if ok then a\<lparr>ap_state := ApprovalExecuted, ap_executed_at := Some (gw_now w)\<rparr>
      else a\<lparr>ap_state := ApprovalConsumed\<rparr>)"
  obtain db' res where cas: "cas_update (gw_fault w) (gw_now w) (rk_ref c)
      (\<lambda>a. ap_state a = ApprovalInFlight \<and> ap_requested_by a = principalOf u) f
      (settle_refusal (gw_now' w) (rk_ref c) (principalOf u) (gw_back_db w)) db = (db', res)" by fastforce
  with True have eq: "SettleAgentReceipt (Some u) c ok w db = db'"
    by (simp add: SettleAgentReceipt_def SettleActionApproval_def ap_precheck_def f_def [symmetric])
  have "ap_id (f a) = ap_id a" for a by (simp add: f_def)
  with cas show ?thesis
  proof (cases rule: cas_row)
    case kept
    with eq show ?thesis by (intro same) simp
  next
    case (moved a)
    with eq show ?thesis by (intro that(2) [of a "f a"]) (auto simp: f_def row_after_def bound_fields_def consumed_def)
  qed
qed

section \<open>A call entering the gate\<close>

lemma verify_cases:
  assumes "VerifyAgentReceipt cfg user c w db = (db', code)" and "rk_redeem c"
  obtains (refused) e where "code = Some e" "ad_rows db' = ad_rows db"
    | (stuck) e a where "code = Some e" "asel db (rk_ref c) = Some a" "ap_state a = ApprovalConsumed"
        "asel db' (rk_ref c) = Some (a\<lparr>ap_state := ApprovalInFlight, ap_reserved_at := Some (gw_now w)\<rparr>)"
        "\<And>j. j \<noteq> rk_ref c \<Longrightarrow> asel db' j = asel db j"
    | (reserved) u d r a where "code = None" "user = Some u" "gw_read_db w = Some d" "asel d (rk_ref c) = Some r"
        "receipt_checks (receiptMaxAge cfg) (gw_stale_now w) u c (scanActionApproval (gw_read_now w) r) = None"
        "asel db (rk_ref c) = Some a" "spends ReceiptTarget (rk_artifact c) (principalOf u) a"
        "receiptStaleness a (receiptMaxAge cfg) (gw_now w) = None"
        "asel db' (rk_ref c) = Some (a\<lparr>ap_state := ApprovalInFlight, ap_reserved_at := Some (gw_now w)\<rparr>)"
        "\<And>j. j \<noteq> rk_ref c \<Longrightarrow> asel db' j = asel db j"
proof (cases "\<exists>u d r. user = Some u \<and> gw_read_db w = Some d \<and> asel d (rk_ref c) = Some r \<and> gw_configured w \<and>
    receipt_checks (receiptMaxAge cfg) (gw_stale_now w) u c (scanActionApproval (gw_read_now w) r) = None")
  case False
  then have "\<exists>e. VerifyAgentReceipt cfg user c w db = (db, Some e)"
    by (auto simp: VerifyAgentReceipt_def ActionApproval_def getActionApproval_def asel_def
        split: option.split sum.split)
  with assms(1) refused show ?thesis by auto
next
  case True
  then obtain u d r where g: "user = Some u" "gw_read_db w = Some d" "asel d (rk_ref c) = Some r" "gw_configured w"
      "receipt_checks (receiptMaxAge cfg) (gw_stale_now w) u c (scanActionApproval (gw_read_now w) r) = None" by blast
  obtain db1 res where rsv: "ReserveActionApproval (gw_fault w) (gw_now w) (gw_now' w) (rk_ref c) ReceiptTarget
      (rk_artifact c) (principalOf u) (receiptMaxAge cfg) (gw_back_db w) db = (db1, res)" by fastforce
  with g assms have ans: "db' = db1" "code = (case res of Inl e \<Rightarrow> Some (spendErrorCode e) | Inr _ \<Rightarrow> None)"
    by (auto simp: VerifyAgentReceipt_def ActionApproval_def getActionApproval_def asel_def split: sum.splits)
  from rsv show ?thesis
  proof (cases rule: reserve_row)
    case same
    then obtain e where "res = Inl e" by (cases res) auto
    with ans same refused show ?thesis by simp
  next
    case (moved a)
    show ?thesis
    proof (cases res)
      case (Inl e)
      with ans moved show ?thesis by (intro stuck [of _ a]) (auto simp: spends_def)
    next
      case (Inr x)
      with ans moved g show ?thesis by (intro reserved [of u d r a]) auto
    qed
  qed
qed

lemma admit_cases:
  assumes "admit_call gate cfg user call w db = (db', ad, out)"
  obtains (idle) "ad_rows db' = ad_rows db" "admitted_calls user ad = []"
    | (stuck) i a where "admitted_calls user ad = []" "asel db i = Some a" "ap_state a = ApprovalConsumed"
        "asel db' i = Some (a\<lparr>ap_state := ApprovalInFlight, ap_reserved_at := Some (gw_now w)\<rparr>)"
        "\<And>j. j \<noteq> i \<Longrightarrow> asel db' j = asel db j"
    | (reserved) u call' chk d r a where "ad = Reserved call' chk" "user = Some u" "gate = Some GateEnforce"
        "call' = snd (snd (takeReceiptArgs call))" "rk_tool chk = tc_tool call'"
        "isReceiptGatedPrincipal u" "tc_tool call' \<in> set governedAgentTools"
        "gw_read_db w = Some d" "asel d (rk_ref chk) = Some r"
        "receipt_checks (receiptMaxAge cfg) (gw_stale_now w) u chk (scanActionApproval (gw_read_now w) r) = None"
        "asel db (rk_ref chk) = Some a" "spends ReceiptTarget (rk_artifact chk) (principalOf u) a"
        "receiptStaleness a (receiptMaxAge cfg) (gw_now w) = None"
        "asel db' (rk_ref chk) = Some (a\<lparr>ap_state := ApprovalInFlight, ap_reserved_at := Some (gw_now w)\<rparr>)"
        "\<And>j. j \<noteq> rk_ref chk \<Longrightarrow> asel db' j = asel db j"
proof -
  obtain ref artifact call' where t: "takeReceiptArgs call = (ref, artifact, call')" by (metis prod_cases3)
  show ?thesis
  proof (cases "\<exists>u. user = Some u \<and> isReceiptGatedPrincipal u \<and> gate = Some GateEnforce \<and>
      tc_tool call' \<in> set governedAgentTools \<and> ref \<noteq> '''' \<and> WellFormedReceipt ref artifact")
    case False
    have obs: "fst (VerifyAgentReceipt cfg user c w db) = db" if "\<not> rk_redeem c" for c
      using that by (auto simp: VerifyAgentReceipt_def split: option.split sum.split)
    have "db' = db \<and> admitted_calls user ad = []"
    proof (cases "gate = Some GateEnforce")
      case True
      with False assms t show ?thesis
        by (cases user) (auto simp: admit_call_def Let_def split: if_splits)
    next
      case f: False
      with assms t obs [of "\<lparr>rk_tool = tc_tool call', rk_ref = ref, rk_artifact = artifact, rk_redeem = False\<rparr>"]
      show ?thesis
        by (cases user) (auto simp: admit_call_def Let_def split: if_splits option.splits prod.splits)
    qed
    then show ?thesis by (intro idle) simp_all
  next
    case True
    then obtain u where u: "user = Some u" "isReceiptGatedPrincipal u" "gate = Some GateEnforce"
        "tc_tool call' \<in> set governedAgentTools" "ref \<noteq> ''''" "WellFormedReceipt ref artifact" by blast
    define chk where "chk = \<lparr>rk_tool = tc_tool call', rk_ref = ref, rk_artifact = artifact, rk_redeem = True\<rparr>"
    obtain db1 code where v: "VerifyAgentReceipt cfg (Some u) chk w db = (db1, code)" by fastforce
    with u assms t have ans: "db' = db1" "ad = (case code of Some c \<Rightarrow> Refused c | None \<Rightarrow> Reserved call' chk)"
      unfolding chk_def by (auto simp: admit_call_def Let_def split: prod.splits option.splits)
    have redeem: "rk_redeem chk" by (simp add: chk_def)
    from v redeem show ?thesis
    proof (cases rule: verify_cases)
      case (refused e)
      with ans u show ?thesis by (intro idle) simp_all
    next
      case (stuck e a)
      with ans u show ?thesis by (intro that(2) [of "rk_ref chk" a]) simp_all
    next
      case (reserved v d r a)
      with ans u t show ?thesis by (intro that(3) [of call' chk u d r a]) (simp_all add: chk_def)
    qed
  qed
qed

section \<open>The invariant\<close>

text \<open>A row of an earlier ledger is still there, with what it binds.\<close>

definition evolves :: "approval_db \<Rightarrow> approval_db \<Rightarrow> bool" where
  "evolves d db \<longleftrightarrow> (\<forall>i a. asel d i = Some a \<longrightarrow> (\<exists>a'. asel db i = Some a' \<and> row_after a a'))"

lemma evolves_refl [simp]: "evolves db db"
  by (simp add: evolves_def)

lemma evolves_trans: "evolves a b \<Longrightarrow> evolves b c \<Longrightarrow> evolves a c"
  unfolding evolves_def by (meson row_after_trans)

lemma evolves_same: "ad_rows db' = ad_rows db \<Longrightarrow> evolves db db'"
  by (auto simp: evolves_def asel_def)

lemma evolves_row:
  assumes "asel db i = Some a" "asel db' i = Some a'" "row_after a a'" "\<And>j. j \<noteq> i \<Longrightarrow> asel db' j = asel db j"
  shows "evolves db db'"
  unfolding evolves_def
proof (intro allI impI)
  fix j b
  assume "asel db j = Some b"
  with assms show "\<exists>a'. asel db' j = Some a' \<and> row_after b a'" by (cases "j = i") auto
qed

lemma evolves_table:
  assumes "table_step H R (ad_rows db) (ad_rows db')" and "\<And>a a'. R a a' \<Longrightarrow> row_after a a'"
  shows "evolves db db'"
  using assms(1)
proof (cases rule: table_step.cases)
  case same
  then show ?thesis by (intro evolves_same) simp
next
  case (new inp expires now b uuid)
  then show ?thesis by (auto simp: evolves_def asel_def tselect_append)
next
  case (move j b b')
  from assms(2) [OF move(3)] tselect_SomeD [OF move(2)] have "row_after b b'" "ap_id b' = j"
    by (auto simp: row_after_def bound_fields_def)
  with move show ?thesis by (intro evolves_row [of db j b db' b']) (auto simp: asel_def tselect_tput)
qed

definition succeeded :: "gate_state \<Rightarrow> string list" where
  "succeeded s = map fst (filter snd (gs_done s))"

lemma succeeded_calls [simp]: "succeeded (s\<lparr>gs_calls := cs\<rparr>) = succeeded s"
  by (simp add: succeeded_def)

definition in_flight :: "approval_db \<Rightarrow> string \<Rightarrow> bool" where
  "in_flight db i \<longleftrightarrow> (\<exists>a. asel db i = Some a \<and> ap_state a = ApprovalInFlight)"

definition receipt_spent :: "approval_db \<Rightarrow> string \<Rightarrow> bool" where
  "receipt_spent db i \<longleftrightarrow> (\<exists>a. asel db i = Some a \<and> ap_state a \<in> {ApprovalInFlight, ApprovalExecuted})"

definition gate_ok :: "gate_state \<Rightarrow> bool" where
  "gate_ok s \<longleftrightarrow>
     distinct (map rn_ref (gs_calls s) @ succeeded s) \<and>
     (\<forall>r \<in> set (gs_calls s). in_flight (gs_db s) (rn_ref r)) \<and>
     (\<forall>i \<in> set (succeeded s). receipt_spent (gs_db s) i) \<and>
     (\<forall>d \<in> set (gs_past s). evolves d (gs_db s))"

lemma gate_ok_to_db:
  assumes "gate_ok s" and ev: "evolves (gs_db s) db'"
    and "gs_past s' = gs_past s" "gs_db s' = gs_db s"
    and "distinct (map rn_ref (gs_calls s') @ succeeded s')"
    and "\<And>r. r \<in> set (gs_calls s') \<Longrightarrow> in_flight db' (rn_ref r)"
    and "\<And>i. i \<in> set (succeeded s') \<Longrightarrow> receipt_spent db' i"
  shows "gate_ok (to_db db' s')"
  using assms evolves_trans [OF _ ev] by (auto simp: gate_ok_def to_db_def succeeded_def)

lemma gate_ok_rest:
  assumes ok: "gate_ok s" and t: "table_step H rest_step (ad_rows (gs_db s)) (ad_rows db')"
  shows "gate_ok (to_db db' s)"
proof (rule gate_ok_to_db [OF ok])
  show "evolves (gs_db s) db'" using evolves_table [OF t] step_after by blast
  have keep: "asel db' i = Some a"
    if "asel (gs_db s) i = Some a" "ap_state a \<in> {ApprovalInFlight, ApprovalExecuted}" for i a
    using rest_keeps [OF t] that by (simp add: asel_def)
  show "in_flight db' (rn_ref r)" if "r \<in> set (gs_calls s)" for r
    using ok that keep unfolding gate_ok_def in_flight_def by blast
  show "receipt_spent db' i" if "i \<in> set (succeeded s)" for i
    using ok that keep unfolding gate_ok_def receipt_spent_def by blast
qed (use ok in \<open>auto simp: gate_ok_def\<close>)

text \<open>One row taken from consumed to in flight.\<close>

lemma gate_ok_reserved:
  assumes ok: "gate_ok s" and a: "asel (gs_db s) i = Some a" "ap_state a = ApprovalConsumed"
    and a': "asel db' i = Some (a\<lparr>ap_state := ApprovalInFlight, ap_reserved_at := t\<rparr>)"
    and other: "\<And>j. j \<noteq> i \<Longrightarrow> asel db' j = asel (gs_db s) j"
    and new: "new = [] \<or> (\<exists>r. new = [r] \<and> rn_ref r = i)"
  shows "gate_ok (to_db db' (s\<lparr>gs_calls := new @ gs_calls s\<rparr>))"
proof (rule gate_ok_to_db [OF ok])
  show "evolves (gs_db s) db'"
    by (rule evolves_row [OF a(1) a' _ other]) (simp_all add: row_after_def bound_fields_def consumed_def a(2))
  have not: "\<not> receipt_spent (gs_db s) i" "\<not> in_flight (gs_db s) i" using a by (auto simp: receipt_spent_def in_flight_def)
  then have free: "i \<notin> set (succeeded s)" "i \<notin> rn_ref ` set (gs_calls s)"
    using ok by (auto simp: gate_ok_def)
  then show "distinct (map rn_ref (gs_calls (s\<lparr>gs_calls := new @ gs_calls s\<rparr>)) @
      succeeded (s\<lparr>gs_calls := new @ gs_calls s\<rparr>))"
    using ok new by (auto simp: gate_ok_def)
  show "in_flight db' (rn_ref r)" if "r \<in> set (gs_calls (s\<lparr>gs_calls := new @ gs_calls s\<rparr>))" for r
  proof (cases "rn_ref r = i")
    case True
    with a' show ?thesis by (simp add: in_flight_def)
  next
    case False
    with that new have "r \<in> set (gs_calls s)" by auto
    with ok other [OF False] show ?thesis unfolding gate_ok_def in_flight_def by simp
  qed
  show "receipt_spent db' j" if "j \<in> set (succeeded (s\<lparr>gs_calls := new @ gs_calls s\<rparr>))" for j
  proof -
    from that have j: "j \<in> set (succeeded s)" by (simp add: succeeded_def)
    with free(1) have "j \<noteq> i" by auto
    with other ok j show ?thesis by (simp add: gate_ok_def receipt_spent_def)
  qed
qed simp_all

lemma gate_ok_finish:
  assumes ok: "gate_ok s" and c: "gs_calls s = xs @ r # ys"
    and db': "db' = SettleAgentReceipt (Some (rn_user r)) (rn_check r) ok' w (gs_db s)"
  shows "gate_ok (to_db db' (s\<lparr>gs_calls := xs @ ys, gs_done := (rn_ref r, ok') # gs_done s\<rparr>))"
proof -
  let ?i = "rn_ref r"
  have fl: "in_flight (gs_db s) ?i" using ok c by (simp add: gate_ok_def)
  have "evolves (gs_db s) db' \<and> (\<forall>j. j \<noteq> ?i \<longrightarrow> asel db' j = asel (gs_db s) j) \<and> (ok' \<longrightarrow> receipt_spent db' ?i)"
    using settle_row [of "rn_user r" "rn_check r" ok' w "gs_db s"]
  proof (cases rule: settle_row [of "rn_user r" "rn_check r" ok' w "gs_db s", case_names same moved])
    case same
    with db' have "ad_rows db' = ad_rows (gs_db s)" by simp
    with fl show ?thesis by (auto simp: evolves_same asel_def in_flight_def receipt_spent_def)
  next
    case (moved a a')
    have "evolves (gs_db s) db'" unfolding db' by (rule evolves_row [OF moved(1,3,4)]) (rule moved(6))
    with moved show ?thesis by (auto simp: db' receipt_spent_def)
  qed
  then have ev: "evolves (gs_db s) db'" and other: "\<And>j. j \<noteq> ?i \<Longrightarrow> asel db' j = asel (gs_db s) j"
    and sp: "ok' \<Longrightarrow> receipt_spent db' ?i" by blast+
  have ne: "rn_ref x \<noteq> ?i" if "x \<in> set (xs @ ys)" for x
    using ok c that by (auto simp: gate_ok_def) (metis image_eqI)+
  have ns: "?i \<notin> set (succeeded s)" using ok c by (auto simp: gate_ok_def)
  show ?thesis
  proof (rule gate_ok_to_db [OF ok ev])
    show "distinct (map rn_ref (gs_calls (s\<lparr>gs_calls := xs @ ys, gs_done := (?i, ok') # gs_done s\<rparr>)) @
        succeeded (s\<lparr>gs_calls := xs @ ys, gs_done := (?i, ok') # gs_done s\<rparr>))"
      using ok c by (auto simp: gate_ok_def succeeded_def)
  next
    fix x
    assume "x \<in> set (gs_calls (s\<lparr>gs_calls := xs @ ys, gs_done := (?i, ok') # gs_done s\<rparr>))"
    then have "x \<in> set (xs @ ys)" by simp
    with ok c other [OF ne [OF this]] show "in_flight db' (rn_ref x)" by (auto simp: gate_ok_def in_flight_def)
  next
    fix j
    assume "j \<in> set (succeeded (s\<lparr>gs_calls := xs @ ys, gs_done := (?i, ok') # gs_done s\<rparr>))"
    then consider "j = ?i" "ok'" | "j \<in> set (succeeded s)" by (auto simp: succeeded_def split: if_splits)
    then show "receipt_spent db' j"
    proof cases
      case 1
      with sp show ?thesis by simp
    next
      case 2
      with ns have "j \<noteq> ?i" by auto
      with other ok 2 show ?thesis by (simp add: gate_ok_def receipt_spent_def)
    qed
  qed simp_all
qed

lemma gate_reach_ok: "gate_reach H cfg s \<Longrightarrow> gate_ok s"
proof (induction rule: gate_reach.induct)
  case g_init
  show ?case by (simp add: gate_ok_def gate_init_def succeeded_def)
next
  case (g_rest s op)
  from gate_ok_rest [OF g_rest.IH table_rest] show ?case .
next
  case (g_admit s w gate user call db' ad outcome)
  from g_admit.hyps(3) show ?case
  proof (cases rule: admit_cases)
    case idle
    have "table_step H rest_step (ad_rows (gs_db s)) (ad_rows db')" unfolding idle(1) by (rule table_step.same)
    from gate_ok_rest [OF g_admit.IH this] idle(2) show ?thesis by simp
  next
    case (stuck i a)
    from gate_ok_reserved [OF g_admit.IH stuck(2-5), of "[]"] stuck(1) show ?thesis by simp
  next
    case (reserved u call' chk d r a)
    have "ap_state a = ApprovalConsumed" using reserved(12) by (simp add: spends_def)
    from gate_ok_reserved [OF g_admit.IH reserved(11) this reserved(14,15), of "admitted_calls user ad"] reserved(1,2)
    show ?thesis by simp
  qed
next
  case (g_finish s xs r ys e w)
  from gate_ok_finish [OF g_finish.IH g_finish.hyps(2) refl] show ?case .
next
  case (g_crash s xs r ys)
  then show ?case by (auto simp: gate_ok_def succeeded_def)
qed

end
