(* ===== verification/Approval_Props.thy ===== *)
theory Approval_Props
  imports Approval_Calls
begin

text \<open>
  The approvals of every reachable state, and what the receipt gate guarantees: four eyes, an
  intent that cannot be changed, bounded life, no credential in a scanned text, and one successful call per
  approval.
\<close>

section \<open>Rows\<close>

text \<open>
  The texts of a row that a create and a decision put through the secret scanner.  The policy reasons
  of the context are not among them: \<open>validateContext\<close> bounds their length and their alphabet only.
\<close>

definition scanned_texts :: "action_approval \<Rightarrow> string list" where
  "scanned_texts a =
     (let i = ap_intent a; c = ap_context a in
      [ap_requested_by a, in_execution i, in_kind i, in_target i, in_args_digest i, in_policy_rule i,
       in_policy_version i, in_artifact_hash i, in_work_item i, ap_idempotency_key a,
       ctx_intent_source c, ctx_policy_decision c, ap_reason a])"

definition approval_ok :: "hash \<Rightarrow> action_approval \<Rightarrow> bool" where
  "approval_ok H a \<longleftrightarrow>
     ap_intent_hash a = IntentHash H (ap_intent a) \<and> ap_state a \<noteq> ApprovalExpired \<and>
     ap_created_at a < ap_expires_at a \<and> ap_expires_at a - ap_created_at a \<le> MaxApprovalTTL \<and>
     (ap_state a \<noteq> ApprovalPending \<longrightarrow>
        ap_decided_by a \<noteq> '''' \<and> ap_decided_by a \<noteq> ap_requested_by a \<and> ap_decided_at a \<noteq> None) \<and>
     (ap_state a = ApprovalPending \<longrightarrow> ap_decided_at a = None) \<and>
     (consumed a \<longrightarrow> (\<exists>c. ap_consumed_at a = Some c \<and> c < ap_expires_at a \<and> still_fresh c a)) \<and>
     (ap_state a = ApprovalExecuted \<longrightarrow> ap_executed_at a \<noteq> None) \<and>
     list_all (\<lambda>t. Scan t = None) (scanned_texts a) \<and>
     list_all (\<lambda>t. length t \<le> MaxPolicyReasonBytes \<and> rx_full policyReasonRE t) (ctx_policy_reasons (ap_context a))"

definition approvals_ok :: "hash \<Rightarrow> action_approval list \<Rightarrow> bool" where
  "approvals_ok H rows \<longleftrightarrow>
     unique_key ap_id rows \<and> unique_key request_key rows \<and> (\<forall>a \<in> set rows. approval_ok H a)"

lemma scan_empty: "Scan '''' = None"
  by code_simp

lemma scanSecrets_None: "scanSecrets v = None \<Longrightarrow> Scan v = None"
  by (cases "v = ''''") (auto simp: scanSecrets_def scan_empty split: if_splits)

lemma text_check_scan: "text_check (v, m, r) = None \<Longrightarrow> Scan v = None"
  by (auto simp: text_check_def first_error_None dest: scanSecrets_None)

lemma new_approval_ok:
  assumes v: "approval_validate H inp = None" and "now < expires" "expires - now \<le> MaxApprovalTTL"
  shows "approval_ok H (new_approval H now uuid inp expires)"
proof -
  from v have t: "\<forall>f \<in> set (approval_texts inp). text_check f = None" and c: "validateContext (ai_context inp) = None"
    by (auto simp: approval_validate_def first_error_None)
  from t have "Scan (ai_requested_by inp) = None" "Scan (in_execution (ai_intent inp)) = None"
      "Scan (in_kind (ai_intent inp)) = None" "Scan (in_target (ai_intent inp)) = None"
      "Scan (in_args_digest (ai_intent inp)) = None" "Scan (in_policy_rule (ai_intent inp)) = None"
      "Scan (in_policy_version (ai_intent inp)) = None" "Scan (in_artifact_hash (ai_intent inp)) = None"
      "Scan (in_work_item (ai_intent inp)) = None" "Scan (ai_idempotency_key inp) = None"
    by (auto simp: approval_texts_def Let_def dest: text_check_scan)
  moreover from c have "Scan (ctx_intent_source (ai_context inp)) = None" "Scan (ctx_policy_decision (ai_context inp)) = None"
    by (auto simp: validateContext_def first_error_None dest: text_check_scan)
  moreover have "list_all (\<lambda>t. length t \<le> MaxPolicyReasonBytes \<and> rx_full policyReasonRE t) (ctx_policy_reasons (ai_context inp))"
  proof -
    from c have "\<forall>t \<in> set (ctx_policy_reasons (ai_context inp)).
        (if MaxPolicyReasonBytes < length t \<or> \<not> rx_full policyReasonRE t then Some WiInvalid else None) = None"
      unfolding validateContext_def first_error_None set_append ball_Un set_map ball_simps by blast
    then show ?thesis unfolding list_all_iff by (metis not_less option.distinct(1))
  qed
  ultimately show ?thesis
    using assms(2,3) by (simp add: approval_ok_def new_approval_def scanned_texts_def Let_def consumed_def scan_empty)
qed

text \<open>So a reason that reads as a credential is accepted and stored.\<close>

lemma lit_ci_in: "rx_in (rx_lit_ci s) (map (Some \<circ> byte) s)"
  by (induction s) (auto simp: folds_to_def intro!: in_eps in_set in_seq [where u = "[_]", simplified])

lemma values_in:
  "list_all (\<lambda>c. rx_in rx_value [Some (byte c)]) t \<Longrightarrow> rx_in (rx_times (length t) rx_value) (map (Some \<circ> byte) t)"
  by (induction t) (auto intro!: in_eps in_seq [where u = "[_]", simplified])

lemma a_policy_reason_escapes_the_scanner:
  "validateContext \<lparr>ctx_risk_level = ''low'', ctx_side_effect = ''write'', ctx_intent_source = '''',
       ctx_policy_decision = '''', ctx_policy_reasons = [''token:aaaaaaaaaaaaaaaa'']\<rparr> = None"
  "Scan ''token:aaaaaaaaaaaaaaaa'' \<noteq> None"
proof -
  show "validateContext \<lparr>ctx_risk_level = ''low'', ctx_side_effect = ''write'', ctx_intent_source = '''',
       ctx_policy_decision = '''', ctx_policy_reasons = [''token:aaaaaaaaaaaaaaaa'']\<rparr> = None"
    by code_simp
  let ?r = "RxSeq generic_names (RxSeq (RxStar rx_space) (RxSeq (rx_class '':='') (RxSeq (RxStar rx_space) (at_least 16 rx_value))))"
  let ?w = "map (Some \<circ> byte)"
  have "rx_in rx_value [Some (byte CHR ''a'')]" by (simp add: rx_value_def space_class_def in_set)
  then have "list_all (\<lambda>c. rx_in rx_value [Some (byte c)]) ''aaaaaaaaaaaaaaaa''" by (simp only: list.pred_inject simp_thms)
  moreover have "length ''aaaaaaaaaaaaaaaa'' = 16" by simp
  ultimately have "rx_in (rx_times 16 rx_value) (?w ''aaaaaaaaaaaaaaaa'')" by (metis values_in)
  then have "rx_in (at_least 16 rx_value) (?w ''aaaaaaaaaaaaaaaa'' @ [])"
    unfolding at_least_def by (intro in_seq in_star0)
  moreover have "rx_in (rx_class '':='') (?w '':'')" using class_in [of "'':=''" "CHR '':''"] by simp
  moreover have "rx_in generic_names (?w ''token'')"
    unfolding generic_names_def by (intro in_altr in_altl) (rule lit_ci_in)
  ultimately have "rx_in ?r (?w ''token'' @ ([] @ (?w '':'' @ ([] @ (?w ''aaaaaaaaaaaaaaaa'' @ [])))))"
    by (intro in_seq in_star0)
  then have "rx_in ?r (?w ''token:aaaaaaaaaaaaaaaa'')" by simp
  moreover have "(''generic-credential-assignment'', ?r) \<in> set patterns" by (simp add: patterns_def)
  ultimately show "Scan ''token:aaaaaaaaaaaaaaaa'' \<noteq> None"
    using found_anywhere [of _ ?r "''token:aaaaaaaaaaaaaaaa''" "[]" "[]"] by (simp add: ascii_def)
qed

lemma trim_empty [simp]: "TrimSpace '''' = ''''"
  by code_simp

lemma rest_row_ok:
  assumes "rest_step a a'" and "approval_ok H a"
  shows "approval_ok H a'"
  using assms(1)
proof cases
  case (decide inp fresh now)
  from decide(4) have "dn_decided_by inp \<noteq> ''''" "Scan (dn_reason inp) = None"
    by (auto simp: decide_validate_def ValidateDecisionInput_def first_error_None wi_checkText_def
        dest: scanSecrets_None split: if_splits)
  with decide assms(2) show ?thesis
    by (simp add: approval_ok_def decided_def scanned_texts_def Let_def consumed_def)
next
  case (consume intent now)
  with assms(2) show ?thesis by (simp add: approval_ok_def scanned_texts_def consumed_def still_fresh_def)
next
  case (mark now)
  with assms(2) show ?thesis by (simp add: approval_ok_def scanned_texts_def consumed_def still_fresh_def)
qed

lemma gate_row_ok:
  assumes "gate_row_step a a'" and "approval_ok H a"
  shows "approval_ok H a'"
  using assms(1)
  by cases (use assms(2) in \<open>simp_all add: approval_ok_def scanned_texts_def consumed_def still_fresh_def\<close>)

lemma table_ok:
  assumes "table_step H R rows rows'" and "approvals_ok H rows"
    and "\<And>a a'. R a a' \<Longrightarrow> approval_ok H a \<Longrightarrow> approval_ok H a'" and "\<And>a a'. R a a' \<Longrightarrow> bound_fields a a'"
  shows "approvals_ok H rows'"
  using assms(1)
proof (cases rule: table_step.cases)
  case (new inp expires now a uuid)
  with assms(2) new_approval_ok [OF new(2,4,5)] show ?thesis
    by (auto simp: approvals_ok_def unique_key_def tselect_None_iff)
next
  case (move i a a')
  have a: "a \<in> set rows" using tselect_SomeD [OF move(2)] by simp
  from assms(4) [OF move(3)] have same: "ap_id a' = ap_id a" "request_key a' = request_key a"
    by (auto simp: bound_fields_def)
  have "approval_ok H a'" using assms(2,3) move(3) a by (auto simp: approvals_ok_def)
  moreover have "tput ap_id rows a' = tput request_key rows a'"
    by (rule tput_two_keys [OF _ _ a]) (use assms(2) same in \<open>auto simp: approvals_ok_def\<close>)
  then have "unique_key request_key (tput ap_id rows a')" using assms(2) by (simp add: approvals_ok_def unique_tput)
  ultimately show ?thesis using assms(2) move(1) by (auto simp: approvals_ok_def unique_tput dest: set_tput)
qed (use assms in simp)

section \<open>Every reachable state\<close>

lemma verify_table:
  "table_step H gate_row_step (ad_rows db) (ad_rows (fst (VerifyAgentReceipt cfg user c w db)))"
proof -
  have "fst (VerifyAgentReceipt cfg user c w db) = db \<or>
      (\<exists>u. fst (VerifyAgentReceipt cfg user c w db) = fst (ReserveActionApproval (gw_fault w) (gw_now w) (gw_now' w)
        (rk_ref c) ReceiptTarget (rk_artifact c) (principalOf u) (receiptMaxAge cfg) (gw_back_db w) db))"
    by (auto simp: VerifyAgentReceipt_def split: option.split sum.split prod.split) (metis fst_conv)+
  then show ?thesis using reserve_table table_step.same by metis
qed

lemma admit_table:
  assumes "admit_call gate cfg user call w db = (db', ad, out)"
  shows "table_step H gate_row_step (ad_rows db) (ad_rows db')"
proof -
  have "db' = db \<or> (\<exists>c. db' = fst (VerifyAgentReceipt cfg user c w db))"
    using assms by (auto simp: admit_call_def Let_def split: prod.splits option.splits if_splits) (metis fst_conv)+
  then show ?thesis using verify_table table_step.same by metis
qed

lemma settle_receipt_table:
  "table_step H gate_row_step (ad_rows db) (ad_rows (SettleAgentReceipt user c ok w db))"
  by (auto simp: SettleAgentReceipt_def settle_table table_step.same split: option.split)

lemma gate_reach_rows: "gate_reach H cfg s \<Longrightarrow> approvals_ok H (ad_rows (gs_db s))"
proof (induction rule: gate_reach.induct)
  case g_init
  show ?case by (simp add: gate_init_def empty_adb_def approvals_ok_def unique_key_def)
next
  case (g_rest s op)
  from table_ok [OF table_rest g_rest.IH rest_row_ok] step_bound(1) show ?case by (simp add: to_db_def)
next
  case (g_admit s w gate user call db' ad outcome)
  from table_ok [OF admit_table [OF g_admit.hyps(3)] g_admit.IH gate_row_ok] step_bound(1)
  show ?case by (simp add: to_db_def)
next
  case (g_finish s xs r ys e w)
  from table_ok [OF settle_receipt_table g_finish.IH gate_row_ok] step_bound(1) show ?case by (simp add: to_db_def)
next
  case (g_crash s xs r ys)
  then show ?case by simp
qed

lemma reach_row: "gate_reach H cfg s \<Longrightarrow> asel (gs_db s) i = Some a \<Longrightarrow> approval_ok H a"
  using gate_reach_rows tselect_SomeD unfolding approvals_ok_def asel_def by fastforce

end
