(* ===== verification/Approval_Demo.thy ===== *)
theory Approval_Demo
  imports Approval_Calls Secret_Scan
begin

text \<open>
  One run of the receipt gate, for the properties to be applied to: an agent asks for
  a tool call, a person approves it, the agent consumes it, and its call is admitted, runs and succeeds.
\<close>

definition demo_agent :: auth_user where
  "demo_agent = NewAgentUser ''dev''
     \<lparr>ar_execution = ''we_1'', ar_work_item = ''wi_1'', ar_run = ''art_1'', ar_scope = ''implement'',
      ar_tenant = '''', ar_grant = ''''\<rparr>"

definition demo_intent :: action_intent where
  "demo_intent = \<lparr>in_execution = ''we_1'', in_kind = ReceiptActionKindPrefix @ ''mctl_trigger_approve'',
     in_target = ReceiptTarget, in_args_digest = ''d1'', in_policy_rule = ''r1'', in_policy_version = ''v1'',
     in_artifact_hash = ''a1'', in_work_item = ''''\<rparr>"

definition demo_request :: approval_input where
  "demo_request = \<lparr>ai_intent = demo_intent, ai_requested_by = ''agent:dev'',
     ai_origin = \<lparr>og_requested_by_principal = '''', og_via_principal = '''', og_actor_kind = '''',
       og_actor_name = '''', og_subject_principal = '''', og_subject_kind = '''', og_agent_run = ''''\<rparr>,
     ai_idempotency_key = ''c1'', ai_expires_at = Some hour, ai_intent_hash = '''',
     ai_context = \<lparr>ctx_risk_level = ''low'', ctx_side_effect = ''write'', ctx_intent_source = '''',
       ctx_policy_decision = '''', ctx_policy_reasons = []\<rparr>\<rparr>"

definition demo_decision :: decision_input where
  "demo_decision = \<lparr>dn_id = ''aar_7'', dn_decided_by = ''github:ada'', dn_by_principal = '''', dn_via_principal = '''',
     dn_decision = DecisionApprove, dn_reason = ''fine'', dn_context_digest = '''', dn_authority_basis = '''',
     dn_authz_mode = '''', dn_fresh_for = 0\<rparr>"

definition zero_hash :: hash where "zero_hash s = ''0''"

definition demo_adb1 :: approval_db where
  "demo_adb1 = ap_run zero_hash (ApCreate TxOk 0 ''7'' demo_request) empty_adb"

definition demo_adb2 :: approval_db where
  "demo_adb2 = ap_run zero_hash (ApDecide TxOk 1 1 demo_decision) demo_adb1"

definition demo_adb3 :: approval_db where
  "demo_adb3 = ap_run zero_hash (ApConsume StmtOk 2 2 ''aar_7'' (IntentHash zero_hash demo_intent) None) demo_adb2"

definition demo_gate_world :: gate_world where
  "demo_gate_world = \<lparr>gw_configured = True, gw_read_db = Some demo_adb3, gw_read_now = 3, gw_stale_now = 3,
     gw_fault = StmtOk, gw_now = 3, gw_now' = 3, gw_back_db = None\<rparr>"

definition demo_call :: tool_call where
  "demo_call = \<lparr>tc_tool = ''mctl_trigger_approve'', tc_args =
     [(''proposal'', ArgString ''p-1''), (ArgActionApprovalRef, ArgString ''aar_7''),
      (ArgActionApprovalArtifactHash, ArgString ''a1'')]\<rparr>"

definition demo_check :: receipt_check where
  "demo_check = \<lparr>rk_tool = ''mctl_trigger_approve'', rk_ref = ''aar_7'', rk_artifact = ''a1'', rk_redeem = True\<rparr>"

definition demo_row :: action_approval where
  "demo_row = \<lparr>ap_id = ''aar_7'', ap_intent = demo_intent, ap_idempotency_key = ''c1'', ap_requested_by = ''agent:dev'',
     ap_intent_hash = IntentHash zero_hash demo_intent, ap_state = ApprovalPending, ap_expires_at = hour,
     ap_created_at = 0, ap_decided_by = '''', ap_decided_at = None, ap_reason = '''', ap_consumed_at = None,
     ap_executed_at = None, ap_reserved_at = None, ap_origin = ai_origin demo_request,
     ap_context = ai_context demo_request, ap_decided_by_principal = '''', ap_decided_via_principal = '''',
     ap_decided_context_digest = '''', ap_authority_basis = '''', ap_authz_mode = '''', ap_fresh_until = None\<rparr>"


text \<open>Every text of the demo is clean.\<close>

definition plain_text :: "string \<Rightarrow> bool" where
  "plain_text v \<longleftrightarrow> ascii v \<and> list_all (\<lambda>c. c \<notin> set telltale \<and> 0x20 < byte c) v \<and> v \<noteq> ''''"

lemma clean_text:
  assumes "plain_text v" and "length v \<le> m"
  shows "wi_checkText v m req = None" "text_check (v, m, req) = None"
  using assms by (auto simp: plain_text_def trim_plain list_all_iff text_check_def first_error_None wi_checkText_def scanSecrets_def
      ascii_valid no_credential [unfolded list_all_iff])

lemma clean_empty: "text_check ('''', m, False) = None"
  by (simp add: text_check_def first_error_None wi_checkText_def scanSecrets_def ascii_valid)

lemma plain_texts:
  "plain_text ''agent:dev''" "plain_text ''we_1''" "plain_text ''mcp.tool.call:mcp__mctl__mctl_trigger_approve''"
  "plain_text ''mctl''" "plain_text ''d1''" "plain_text ''r1''" "plain_text ''v1''" "plain_text ''a1''"
  "plain_text ''c1''" "plain_text ''fine''"
  by code_simp+

lemma demo_texts: "\<forall>f \<in> set (approval_texts demo_request). text_check f = None"
  by (simp add: approval_texts_def demo_request_def demo_intent_def ReceiptActionKindPrefix_def ReceiptTarget_def
      clean_text plain_texts clean_empty MaxExternalIDBytes_def MaxApprovalFieldBytes_def MaxApprovalTargetBytes_def
      MaxKeyBytes_def)

lemma demo_valid: "approval_validate zero_hash demo_request = None"
proof -
  have "validateContext (ai_context demo_request) = None"
    by (simp add: demo_request_def validateContext_def first_error_None clean_empty ValidRiskLevel_def ValidSideEffect_def)
  with demo_texts show ?thesis
    unfolding approval_validate_def first_error_None by (auto simp: demo_request_def demo_intent_def)
qed

lemma demo_decidable: "decide_validate demo_decision = None"
proof -
  have "text_check (''fine'', MaxApprovalReasonBytes, False) = None"
    by (rule clean_text) (simp_all add: plain_texts MaxApprovalReasonBytes_def)
  moreover have "TrimSpace ''github:ada'' = ''github:ada''" by (rule trim_plain) simp_all
  then have "wi_checkText ''github:ada'' MaxExternalIDBytes True = None"
    by (simp add: wi_checkText_def MaxExternalIDBytes_def ascii_valid)
  ultimately show ?thesis
    by (simp add: decide_validate_def ValidateDecisionInput_def text_check_def first_error_None demo_decision_def)
qed

section \<open>The run\<close>

definition demo_row2 :: action_approval where "demo_row2 = decided demo_decision 1 None demo_row"
definition demo_row3 :: action_approval where
  "demo_row3 = demo_row2\<lparr>ap_state := ApprovalConsumed, ap_consumed_at := Some 2\<rparr>"
definition demo_row4 :: action_approval where
  "demo_row4 = demo_row3\<lparr>ap_state := ApprovalInFlight, ap_reserved_at := Some 3\<rparr>"


lemmas demo_rows = demo_row_def demo_row2_def demo_row3_def demo_row4_def decided_def demo_decision_def

lemma demo_created: "demo_adb1 = \<lparr>ad_rows = [demo_row], ad_items = []\<rparr>"
  using demo_valid
  by (simp add: demo_adb1_def CreateActionApproval_def ap_precheck_def wi_withTx_def create_body_def empty_adb_def)
    (simp add: demo_request_def demo_row_def new_approval_def demo_intent_def MaxApprovalTTL_def time_sub_def
      Let_def max_duration_def ActionApprovalIDPrefix_def)

lemma demo_approved: "demo_adb2 = \<lparr>ad_rows = [demo_row2], ad_items = []\<rparr>"
proof -
  have "decide_body 1 1 demo_decision demo_adb1 = Inr (\<lparr>ad_rows = [demo_row2], ad_items = []\<rparr>, demo_row2)"
    by (simp add: decide_body_def demo_created getActionApproval_def tselect_Cons scanActionApproval_def
        effectiveState_def tupdate_def tput_def fresh_bound_def demo_rows)
  with demo_decidable show ?thesis
    by (simp add: demo_adb2_def DecideActionApproval_def ap_precheck_def wi_withTx_def)
qed

lemma demo_consumed: "demo_adb3 = \<lparr>ad_rows = [demo_row3], ad_items = []\<rparr>"
proof -
  have "wi_checkText ''sha256:0'' MaxApprovalFieldBytes True = None"
    by (simp add: wi_checkText_def MaxApprovalFieldBytes_def ascii_valid trim_plain)
  then have "wi_checkText (IntentHash zero_hash demo_intent) MaxApprovalFieldBytes True = None"
    by (simp add: IntentHash_def zero_hash_def)
  then show ?thesis
    by (simp add: demo_adb3_def ConsumeActionApproval_def ap_precheck_def cas_update_def demo_approved tselect_Cons
        tupdate_def tput_def still_fresh_def demo_rows)
qed

lemma demo_principal:
  "principalOf demo_agent = ''agent:dev''" "IsAgent demo_agent" "boundAgentExecution demo_agent = Some ''we_1''"
  "isReceiptGatedPrincipal demo_agent"
proof -
  have "AgentScope demo_agent \<noteq> None" by code_simp
  then show "boundAgentExecution demo_agent = Some ''we_1''"
    by (auto simp: boundAgentExecution_def demo_agent_def NewAgentUser_def plain_user_def IsAgent_def relayed_def)
qed (simp_all add: demo_agent_def NewAgentUser_def plain_user_def IsAgent_def relayed_def principalOf_def
    AgentPrincipalPrefix_def isReceiptGatedPrincipal_def)

lemma demo_taken:
  "takeReceiptArgs demo_call =
     (''aar_7'', ''a1'', \<lparr>tc_tool = ''mctl_trigger_approve'', tc_args = [(''proposal'', ArgString ''p-1'')]\<rparr>)"
  by (simp add: takeReceiptArgs_def demo_call_def Let_def arg_text_def ArgActionApprovalRef_def
      ArgActionApprovalArtifactHash_def trim_plain)

lemma demo_shape: "WellFormedReceipt ''aar_7'' ''a1''" "''mctl_trigger_approve'' \<in> set governedAgentTools"
  by (simp_all add: WellFormedReceipt_def isASCIIAlnum_def governedAgentTools_def)

lemma demo_checked: "receipt_checks (receiptMaxAge minute) 3 demo_agent demo_check (scanActionApproval 3 demo_row3) = None"
  by (simp add: receipt_checks_def demo_principal demo_check_def scanActionApproval_def effectiveState_def demo_rows
      demo_intent_def receiptStaleness_def receiptMaxAge_def still_fresh_def)

lemma demo_verified:
  "VerifyAgentReceipt minute (Some demo_agent) demo_check demo_gate_world demo_adb3 =
     (\<lparr>ad_rows = [demo_row4], ad_items = []\<rparr>, None)"
proof -
  have "spend_validate ReceiptTarget ''a1'' ''agent:dev'' = None"
    by (simp add: spend_validate_def first_error_None clean_text plain_texts ReceiptTarget_def MaxApprovalTargetBytes_def
        MaxApprovalFieldBytes_def MaxExternalIDBytes_def)
  then have "ReserveActionApproval StmtOk 3 3 ''aar_7'' ReceiptTarget ''a1'' ''agent:dev'' (receiptMaxAge minute) None demo_adb3 =
      (\<lparr>ad_rows = [demo_row4], ad_items = []\<rparr>, Inr demo_row4)"
    by (simp add: ReserveActionApproval_def ap_precheck_def first_error_None cas_update_def demo_consumed tselect_Cons
        tupdate_def tput_def still_fresh_def demo_rows spends_def demo_intent_def receiptMaxAge_def
        scanActionApproval_def effectiveState_def)
  moreover have "ActionApproval 3 ''aar_7'' (Some demo_adb3) = Inr (scanActionApproval 3 demo_row3)"
    by (simp add: ActionApproval_def getActionApproval_def demo_consumed tselect_Cons demo_rows)
  ultimately show ?thesis
    using demo_checked by (simp add: VerifyAgentReceipt_def demo_gate_world_def demo_principal demo_check_def)
qed

lemma demo_admitted:
  "admit_call (Some GateEnforce) minute (Some demo_agent) demo_call demo_gate_world demo_adb3 =
     (\<lparr>ad_rows = [demo_row4], ad_items = []\<rparr>,
      Reserved \<lparr>tc_tool = ''mctl_trigger_approve'', tc_args = [(''proposal'', ArgString ''p-1'')]\<rparr> demo_check,
      Some \<lparr>ro_tool = ''mctl_trigger_approve'', ro_ref = ''aar_7'', ro_code = None, ro_mode = GateEnforce,
        ro_refused = False, ro_malformed = ''''\<rparr>)"
  using demo_verified by (simp add: admit_call_def demo_taken demo_shape demo_principal demo_check_def)

definition demo_gate :: "approval_db \<Rightarrow> approval_db list \<Rightarrow> gate_state" where
  "demo_gate db past = \<lparr>gs_db = db, gs_past = past, gs_calls = [], gs_done = []\<rparr>"

lemma demo_reach3: "gate_reach zero_hash minute (demo_gate demo_adb3 [demo_adb2, demo_adb1, empty_adb])"
proof -
  have "gate_reach zero_hash minute (demo_gate empty_adb [])"
    using gate_reach.g_init by (simp add: gate_init_def demo_gate_def)
  from g_rest [OF this, of "ApCreate TxOk 0 ''7'' demo_request"]
  have "gate_reach zero_hash minute (demo_gate demo_adb1 [empty_adb])"
    by (simp only: demo_gate_def to_db_def demo_adb1_def gate_state.simps)
  from g_rest [OF this, of "ApDecide TxOk 1 1 demo_decision"]
  have "gate_reach zero_hash minute (demo_gate demo_adb2 [demo_adb1, empty_adb])"
    by (simp only: demo_gate_def to_db_def demo_adb2_def gate_state.simps)
  from g_rest [OF this, of "ApConsume StmtOk 2 2 ''aar_7'' (IntentHash zero_hash demo_intent) None"]
  show ?thesis by (simp only: demo_gate_def to_db_def demo_adb3_def gate_state.simps)
qed

definition demo_running :: gate_state where
  "demo_running = \<lparr>gs_db = \<lparr>ad_rows = [demo_row4], ad_items = []\<rparr>,
     gs_past = [demo_adb3, demo_adb2, demo_adb1, empty_adb],
     gs_calls = [\<lparr>rn_user = demo_agent, rn_check = demo_check\<rparr>], gs_done = []\<rparr>"

lemma demo_reads: "reads_past demo_gate_world (demo_gate demo_adb3 [demo_adb2, demo_adb1, empty_adb])"
  by (simp add: reads_past_def demo_gate_def demo_gate_world_def)

lemma demo_reach4: "gate_reach zero_hash minute demo_running"
  using g_admit [OF demo_reach3 demo_reads, of "Some GateEnforce" "Some demo_agent" demo_call] demo_admitted
  by (simp add: demo_gate_def to_db_def demo_running_def)

definition demo_end :: call_end where "demo_end = \<lparr>ce_cancelled = False, ce_error = False, ce_result = Some False\<rparr>"

definition demo_finished :: gate_state where
  "demo_finished = to_db (SettleAgentReceipt (Some demo_agent) demo_check True demo_gate_world (gs_db demo_running))
     (demo_running\<lparr>gs_calls := [], gs_done := [(''aar_7'', True)]\<rparr>)"

lemma demo_reach5: "gate_reach zero_hash minute demo_finished"
  using g_finish [OF demo_reach4, of "[]" "\<lparr>rn_user = demo_agent, rn_check = demo_check\<rparr>" "[]" demo_end demo_gate_world]
  by (simp add: demo_running_def demo_finished_def demo_end_def callSucceeded_def demo_check_def)

end
