(* ===== verification/Agent_Confined.thy ===== *)
theory Agent_Confined
  imports Agent_Scope
begin

text \<open>
  What a scoped agent run can reach: it writes nothing but its own execution's snapshot, the approval
  calls its scope lists and a review receipt, it never reads the intents of a work item, and a support run
  stays in the one tenant it was minted for.
\<close>

section \<open>Passing the gate\<close>

lemma gate_scoped:
  assumes "agentScopeGate (Some u) meth path q" and "IsAgent u" and "AgentScopeName u \<noteq> ''''"
    and "\<not> (meth = ''POST'' \<and> path = self_revoke_path)"
  obtains s where "AgentScope u = Some s" "Allows s \<lparr>rq_method = meth, rq_path = path, rq_query = q,
    rq_work_item = au_work_item u, rq_execution = au_execution u,
    rq_tenant = (case BoundTenant u of Some t \<Rightarrow> t | None \<Rightarrow> '''')\<rparr>"
  using assms by (auto simp: agentScopeGate_def split: if_splits option.splits)

lemma AgentScope_cases:
  assumes "AgentScope u = Some s"
  obtains "s = AgentScopeInvestigate" | "s = AgentScopeImplement" | "s = AgentScopeImplementGrant"
    | "s = AgentScopeReview" | "s = AgentScopeShepherd" | "s = AgentScopeSupport"
  using assms by (auto simp: AgentScope_def LookupAgentScope_def agentScopes_def split: if_splits)

lemma Allows_route:
  assumes "Allows s rq"
  obtains r where "r \<in> set (sc_routes s)" "admits_route s rq r"
  using assms by (auto simp: Allows_def list_ex_iff)

text \<open>A route of another method is not the one that admitted the request.\<close>

lemma Allows_method:
  assumes "Allows s rq"
  shows "list_ex (admits_route s rq) (filter (\<lambda>r. rt_method r = rq_method rq) (sc_routes s))"
  using assms by (auto simp: Allows_def list_ex_iff admits_route_def)

lemma route_method [simp]:
  "rt_method (route m p) = m" "rt_method (getRoute p) = ''GET''" "rt_method (tenantRoute p) = ''GET''"
  "rt_method (listRoute p k) = ''GET''" "rt_method own_work_item = ''GET''" "rt_method own_snapshot = ''POST''"
  by (simp_all add: route_def getRoute_def tenantRoute_def listRoute_def own_work_item_def own_snapshot_def)

lemma platform_reads_read: "r \<in> set agentPlatformReads \<Longrightarrow> rt_method r = ''GET''"
  by (auto simp: agentPlatformReads_def)

lemma admits_plain:
  "admits_route s rq (route m p) \<longleftrightarrow> m = rq_method rq \<and> find_submatch p (rq_path rq) \<noteq> None"
  by (auto simp: admits_route_def route_def split: option.splits)

lemma lit_match [simp]: "find_submatch (lit l) s \<noteq> None \<longleftrightarrow> s = l" "find_submatch (lit l) s = None \<longleftrightarrow> s \<noteq> l"
  by (auto simp: lit_def)

text \<open>A literal that a pattern starts with is a prefix of what it matches.\<close>

lemma pmatch_lit: "pmatch (PLit l # ps) s = Some m \<Longrightarrow> \<exists>t. s = l @ t \<and> pmatch ps t = Some m"
  by (auto split: if_splits intro!: exI [of _ "drop (length l) s"]) (metis append_take_drop_id)

lemma lit_prefix:
  assumes "find_submatch [PLit l # ps] s \<noteq> None"
  shows "\<exists>t. s = l @ t"
proof -
  from assms obtain m where "pmatch (PLit l # ps) s = Some m"
    by (cases "pmatch (PLit l # ps) s") simp_all
  from pmatch_lit [OF this] show ?thesis by blast
qed

lemma pmatch_seg:
  assumes "pmatch (PCap # ps) s = Some m"
  obtains seg rest m' where "s = seg @ rest" "seg \<noteq> []" "CHR ''/'' \<notin> set seg" "m = seg # m'" "pmatch ps rest = Some m'"
proof -
  let ?seg = "takeWhile (\<lambda>c. c \<noteq> CHR ''/'') s"
  have "s = ?seg @ drop (length ?seg) s" by (metis append_take_drop_id takeWhile_eq_take)
  moreover have "CHR ''/'' \<notin> set ?seg" by (auto dest: set_takeWhileD)
  ultimately show ?thesis using assms that by (auto simp: Let_def split: if_splits)
qed

lemma pmatch_any_seg:
  assumes "pmatch (PSeg # ps) s = Some m"
  obtains seg rest where "s = seg @ rest" "seg \<noteq> []" "CHR ''/'' \<notin> set seg" "pmatch ps rest = Some m"
proof -
  let ?seg = "takeWhile (\<lambda>c. c \<noteq> CHR ''/'') s"
  have "s = ?seg @ drop (length ?seg) s" by (metis append_take_drop_id takeWhile_eq_take)
  moreover have "CHR ''/'' \<notin> set ?seg" by (auto dest: set_takeWhileD)
  ultimately show ?thesis using assms that by (auto simp: Let_def split: if_splits)
qed

section \<open>What a run writes\<close>

text \<open>
  The path of the snapshot of an execution, and the calls that change an approval a scope may make:
  the implement scope asks, consumes and executes, the granted one only executes.  No scope decides.
\<close>

definition snapshot_path :: "string \<Rightarrow> string \<Rightarrow> string" where
  "snapshot_path item exec = ''/api/v1/work-items/'' @ item @ ''/executions/'' @ exec @ ''/snapshot''"

definition approval_path :: "string \<Rightarrow> string \<Rightarrow> string" where
  "approval_path i op = ''/api/v1/action-approvals/'' @ i @ op"

definition approval_call :: "string \<Rightarrow> string \<Rightarrow> bool" where
  "approval_call scope path \<longleftrightarrow>
     scope = ''implement'' \<and> path = ''/api/v1/action-approvals'' \<or>
     (\<exists>i. i \<noteq> '''' \<and> CHR ''/'' \<notin> set i \<and>
       (scope = ''implement'' \<and> path = approval_path i ''/consume'' \<or>
        scope \<in> {''implement'', ''implement-grant''} \<and> path = approval_path i ''/execute''))"

lemma snapshot_admitted:
  assumes "admits_route s rq own_snapshot"
  shows "rq_path rq = snapshot_path (rq_work_item rq) (rq_execution rq)"
    "rq_work_item rq \<noteq> ''''" "rq_execution rq \<noteq> ''''"
proof -
  let ?ps = "[PCap, PLit ''/executions/'', PCap, PLit ''/snapshot'']"
  from assms obtain m where m: "pmatch (PLit ''/api/v1/work-items/'' # ?ps) (rq_path rq) = Some m"
      "group m 0 = Some (rq_work_item rq)" "group m 1 = Some (rq_execution rq)"
      "rq_work_item rq \<noteq> ''''" "rq_execution rq \<noteq> ''''"
    by (auto simp: admits_route_def own_snapshot_def route_def split: option.splits)
  then show "rq_work_item rq \<noteq> ''''" "rq_execution rq \<noteq> ''''" by blast+
  from pmatch_lit [OF m(1)] obtain t where t: "rq_path rq = ''/api/v1/work-items/'' @ t" "pmatch ?ps t = Some m"
    by blast
  from t(2) obtain item rest m1 where i: "t = item @ rest" "m = item # m1"
      "pmatch [PLit ''/executions/'', PCap, PLit ''/snapshot''] rest = Some m1" by (rule pmatch_seg)
  from pmatch_lit [OF i(3)] obtain t2 where t2: "rest = ''/executions/'' @ t2" "pmatch [PCap, PLit ''/snapshot''] t2 = Some m1"
    by blast
  from t2(2) obtain exec rest2 m2 where e: "t2 = exec @ rest2" "m1 = exec # m2"
      "pmatch [PLit ''/snapshot''] rest2 = Some m2" by (rule pmatch_seg)
  from pmatch_lit [OF e(3)] obtain t3 where "rest2 = ''/snapshot'' @ t3" "pmatch [] t3 = Some m2" by blast
  then have "rest2 = ''/snapshot''" by (simp split: if_splits)
  with t i t2 e m(2,3) show "rq_path rq = snapshot_path (rq_work_item rq) (rq_execution rq)"
    by (simp add: group_def snapshot_path_def)
qed

lemma op_admitted:
  assumes "admits_route s rq (route m [[PLit ''/api/v1/action-approvals/'', PSeg, PLit op]])"
  shows "\<exists>i. i \<noteq> '''' \<and> CHR ''/'' \<notin> set i \<and> rq_path rq = approval_path i op"
proof -
  from assms obtain g where "pmatch [PLit ''/api/v1/action-approvals/'', PSeg, PLit op] (rq_path rq) = Some g"
    by (auto simp: admits_plain simp del: pmatch.simps split: option.splits)
  from pmatch_lit [OF this] obtain t where t: "rq_path rq = ''/api/v1/action-approvals/'' @ t" "pmatch [PSeg, PLit op] t = Some g"
    by blast
  from t(2) obtain i rest where i: "t = i @ rest" "i \<noteq> []" "CHR ''/'' \<notin> set i" "pmatch [PLit op] rest = Some g"
    by (rule pmatch_any_seg)
  from pmatch_lit [OF i(4)] obtain u where "rest = op @ u" "pmatch [] u = Some g" by blast
  then have "rest = op" by (simp split: if_splits)
  with t i show ?thesis by (auto simp: approval_path_def)
qed

lemma approvals_admitted:
  assumes "admits_route s rq r" and "r \<in> set agentApprovalRoutes" and "rt_method r \<noteq> ''GET''"
  shows "rq_method rq = ''POST'' \<and> approval_call ''implement'' (rq_path rq)"
proof -
  from assms(2,3) have "r = route ''POST'' (lit ''/api/v1/action-approvals'') \<or>
      (\<exists>op \<in> {''/consume'', ''/execute''}. r = route ''POST'' [[PLit ''/api/v1/action-approvals/'', PSeg, PLit op]])"
    by (auto simp: agentApprovalRoutes_def)
  then show ?thesis
  proof (elim disjE bexE)
    assume "r = route ''POST'' (lit ''/api/v1/action-approvals'')"
    with assms(1) show ?thesis by (simp add: admits_plain approval_call_def)
  next
    fix op assume op: "op \<in> {''/consume'', ''/execute''}" and r: "r = route ''POST'' [[PLit ''/api/v1/action-approvals/'', PSeg, PLit op]]"
    from assms(1) [unfolded r] have "rq_method rq = ''POST''" by (simp add: admits_plain)
    with op op_admitted [OF assms(1) [unfolded r]] show ?thesis by (auto simp: approval_call_def)
  qed
qed

lemma mcp_admitted: "r \<in> set mcpRoutes \<Longrightarrow> admits_route s rq r \<Longrightarrow> rq_path rq = ''/mcp''"
  by (auto simp: mcpRoutes_def admits_plain)

text \<open>None of these is a decision.\<close>

lemma last_segment:
  assumes "approval_path i op = approval_path j op'" and "hd op = CHR ''/''" "hd op' = CHR ''/''" "op \<noteq> []" "op' \<noteq> []"
    and "CHR ''/'' \<notin> set (tl op)" "CHR ''/'' \<notin> set (tl op')"
  shows "op = op'"
proof -
  let ?last = "\<lambda>s. takeWhile (\<lambda>c. c \<noteq> CHR ''/'') (rev s)"
  have "?last (x @ op) = rev (tl op)" if "hd op = CHR ''/''" "op \<noteq> []" "CHR ''/'' \<notin> set (tl op)" for x op
    using that by (cases op) (auto simp: takeWhile_append)
  then have "rev (tl op) = rev (tl op')"
    using assms by (metis append_assoc approval_path_def)
  with assms(2-5) show ?thesis by (metis list.collapse rev_is_rev_conv)
qed

lemma not_decision:
  "approval_call scope path \<Longrightarrow> path \<noteq> approval_path i ''/decision''"
  "snapshot_path w e \<noteq> approval_path i ''/decision''" "''/api/v1/review-receipts'' \<noteq> approval_path i ''/decision''"
proof -
  show "path \<noteq> approval_path i ''/decision''" if c: "approval_call scope path"
  proof
    assume p: "path = approval_path i ''/decision''"
    then have "path \<noteq> ''/api/v1/action-approvals''" by (simp add: approval_path_def)
    with c obtain j op where "path = approval_path j op" "op = ''/consume'' \<or> op = ''/execute''"
      by (auto simp: approval_call_def)
    with p last_segment [of i "''/decision''" j op] show False by auto
  qed
qed (simp_all add: snapshot_path_def approval_path_def)

lemma scope_writes:
  assumes "AgentScope u = Some s" and "Allows s rq" and "rq_method rq \<noteq> ''GET''" and "rq_path rq \<noteq> ''/mcp''"
  shows "rq_method rq = ''POST'' \<and>
    (sc_name s = ''investigate'' \<and> rq_path rq = snapshot_path (rq_work_item rq) (rq_execution rq) \<and>
       rq_work_item rq \<noteq> '''' \<and> rq_execution rq \<noteq> '''' \<or>
     approval_call (sc_name s) (rq_path rq) \<or>
     sc_name s = ''review'' \<and> rq_path rq = ''/api/v1/review-receipts'')"
proof -
  from assms(2) obtain r where r: "r \<in> set (sc_routes s)" "admits_route s rq r" by (rule Allows_route)
  have m: "rt_method r \<noteq> ''GET''" "r \<notin> set mcpRoutes" "rq_method rq = rt_method r"
    using r(2) assms(3,4) mcp_admitted by (auto simp: admits_route_def)
  have np: "r \<notin> set agentPlatformReads" using m(1) platform_reads_read by blast
  from assms(1) show ?thesis
  proof (cases rule: AgentScope_cases)
    case 1
    with r m np have "r = own_snapshot" by (auto simp: AgentScopeInvestigate_def base_scope_def)
    with 1 r(2) m(3) snapshot_admitted show ?thesis by (simp add: AgentScopeInvestigate_def base_scope_def)
  next
    case 2
    with r m np have "r \<in> set agentApprovalRoutes" by (auto simp: AgentScopeImplement_def base_scope_def)
    with 2 r(2) m(1) approvals_admitted show ?thesis by (simp add: AgentScopeImplement_def base_scope_def)
  next
    case 3
    with r m np have e: "r = route ''POST'' [[PLit ''/api/v1/action-approvals/'', PSeg, PLit ''/execute'']]"
      by (auto simp: AgentScopeImplementGrant_def base_scope_def)
    from op_admitted [OF r(2) [unfolded e]] show ?thesis
      using 3 m(3) by (auto simp: AgentScopeImplementGrant_def base_scope_def approval_call_def e)
  next
    case 4
    with r m have "r = route ''POST'' (lit ''/api/v1/review-receipts'')"
      by (auto simp: AgentScopeReview_def base_scope_def)
    with 4 r(2) m(3) show ?thesis by (simp add: admits_plain AgentScopeReview_def base_scope_def)
  next
    case 5
    with r m show ?thesis by (auto simp: AgentScopeShepherd_def base_scope_def)
  next
    case 6
    with r m show ?thesis by (auto simp: AgentScopeSupport_def base_scope_def)
  qed
qed

text \<open>
  C23: A scoped agent run writes only what its scope lists.  Apart from revoking its own token and from
  the MCP endpoint, whose calls come back through this gate, every request that is not a
  read it gets past the gate is a POST: in the investigate scope the seal of the snapshot of its own
  execution of its own work item; in the implement scope to ask for an approval, or to consume or execute
  one by its id; in the scope of a pinned grant only to execute one; in the review scope the review receipt.  It
  never decides an approval.  The gate does not look at whose the approval of an id is: the approval
  handlers and the store do.
\<close>

theorem scoped_run_writes_its_own:
  assumes "agentScopeGate (Some u) meth path q" and "IsAgent u" and "AgentScopeName u \<noteq> ''''"
    and "meth \<noteq> ''GET''" and "path \<noteq> ''/mcp''" and "\<not> (meth = ''POST'' \<and> path = self_revoke_path)"
  shows "meth = ''POST'' \<and>
    (AgentScopeName u = ''investigate'' \<and> path = snapshot_path (au_work_item u) (au_execution u) \<and>
       au_work_item u \<noteq> '''' \<and> au_execution u \<noteq> '''' \<or>
     approval_call (AgentScopeName u) path \<or>
     AgentScopeName u = ''review'' \<and> path = ''/api/v1/review-receipts'') \<and>
    path \<noteq> approval_path i ''/decision''"
proof -
  from assms obtain s where s: "AgentScope u = Some s" "Allows s \<lparr>rq_method = meth, rq_path = path, rq_query = q,
      rq_work_item = au_work_item u, rq_execution = au_execution u,
      rq_tenant = (case BoundTenant u of Some t \<Rightarrow> t | None \<Rightarrow> '''')\<rparr>"
    by (auto elim: gate_scoped)
  have "sc_name s = AgentScopeName u"
    using s(1) by (auto simp: AgentScope_def LookupAgentScope_def agentScopes_def base_scope_def
        AgentScopeInvestigate_def AgentScopeImplement_def AgentScopeImplementGrant_def AgentScopeReview_def
        AgentScopeShepherd_def AgentScopeSupport_def split: if_splits)
  with scope_writes [OF s] assms(4,5) have w: "meth = ''POST'' \<and>
    (AgentScopeName u = ''investigate'' \<and> path = snapshot_path (au_work_item u) (au_execution u) \<and>
       au_work_item u \<noteq> '''' \<and> au_execution u \<noteq> '''' \<or>
     approval_call (AgentScopeName u) path \<or>
     AgentScopeName u = ''review'' \<and> path = ''/api/v1/review-receipts'')"
    by simp
  then have "path \<noteq> approval_path i ''/decision''"
    by (elim conjE disjE) (hypsubst, rule not_decision, erule not_decision, hypsubst, rule not_decision)
  with w show ?thesis by blast
qed

definition demo_investigator :: auth_user where
  "demo_investigator = NewAgentUser ''issue-investigator''
     \<lparr>ar_execution = ''we_1'', ar_work_item = ''wi_1'', ar_run = ''art_1'', ar_scope = ''investigate'',
      ar_tenant = '''', ar_grant = ''''\<rparr>"

theorem scoped_run_writes_its_own_witness:
  "agentScopeGate (Some demo_investigator) ''POST'' ''/api/v1/work-items/wi_1/executions/we_1/snapshot'' (\<lambda>_. []) \<and>
   ''/api/v1/work-items/wi_1/executions/we_1/snapshot'' = snapshot_path ''wi_1'' ''we_1''"
proof -
  have pass: "agentScopeGate (Some demo_investigator) ''POST'' ''/api/v1/work-items/wi_1/executions/we_1/snapshot'' (\<lambda>_. [])"
    by code_simp
  have "IsAgent demo_investigator" "AgentScopeName demo_investigator = ''investigate''"
      "au_work_item demo_investigator = ''wi_1''" "au_execution demo_investigator = ''we_1''"
    by code_simp+
  with scoped_run_writes_its_own [OF pass] pass show ?thesis by (simp add: self_revoke_path_def approval_call_def)
qed

section \<open>One tenant\<close>

text \<open>The paths whose next segment names a tenant.\<close>

definition tenant_trees :: "string list" where
  "tenant_trees = [''/api/v1/status/'', ''/api/v1/services/'', ''/api/v1/logs/'', ''/api/v1/resources/'',
     ''/api/v1/pods/'', ''/api/v1/events/'']"

text \<open>An alternative that matches nothing strictly below \<open>p\<close>, and one whose group comes right after it.\<close>

fun clash :: "string \<Rightarrow> piece list \<Rightarrow> bool" where
  "clash p (PLit l # ps) \<longleftrightarrow> take (length l) p \<noteq> take (length p) l \<or> ps = [] \<and> length l \<le> length p"
| "clash p _ \<longleftrightarrow> False"

fun_cases clashE: "clash p alt"

definition captures :: "string \<Rightarrow> scope_route \<Rightarrow> bool" where
  "captures p r \<longleftrightarrow> rt_bind_tenant r \<and> rt_pattern r = [PLit p # PCap # tl (tl (hd (rt_pattern r)))]"

lemma clash_no_match:
  assumes "clash p alt" and "t \<noteq> ''''"
  shows "pmatch alt (p @ t) = None"
proof (rule ccontr)
  assume "pmatch alt (p @ t) \<noteq> None"
  then obtain m where m: "pmatch alt (p @ t) = Some m" by blast
  from assms(1) obtain l ps where alt: "alt = PLit l # ps"
      "take (length l) p \<noteq> take (length p) l \<or> ps = [] \<and> length l \<le> length p"
    by (elim clashE) blast
  from pmatch_lit [OF m [unfolded alt(1)]] obtain u where u: "p @ t = l @ u" "pmatch ps u = Some m" by blast
  from u(1) have "take (length l) p = take (length p) l" by (auto simp: append_eq_append_conv2)
  with alt(2) have "ps = []" "length l \<le> length p" by blast+
  with u(2) have "u = ''''" by (simp split: if_splits)
  with u(1) \<open>length l \<le> length p\<close> assms(2) show False by (auto dest: arg_cong [of _ _ length])
qed

lemma find_no_match: "list_all (clash p) alts \<Longrightarrow> t \<noteq> '''' \<Longrightarrow> find_submatch alts (p @ t) = None"
  by (induction alts) (simp_all add: clash_no_match)

lemma support_routes:
  "list_all (\<lambda>p. list_all (\<lambda>r. list_all (clash p) (rt_pattern r) \<or> captures p r) (sc_routes AgentScopeSupport)) tenant_trees"
  by code_simp

lemma captured_segment:
  assumes "pmatch (PLit p # PCap # ps) (p @ seg @ rest) = Some m" and "CHR ''/'' \<notin> set seg"
    and "rest = '''' \<or> hd rest = CHR ''/''"
  shows "group m 0 = Some seg"
proof -
  from pmatch_lit [OF assms(1)] have m: "pmatch (PCap # ps) (seg @ rest) = Some m" by auto
  have "takeWhile (\<lambda>c. c \<noteq> CHR ''/'') (seg @ rest) = seg"
    using assms(2,3) by (cases rest) (auto simp: takeWhile_tail takeWhile_append2 takeWhile_eq_all_conv)
  with m show ?thesis by (auto simp: Let_def group_def split: if_splits)
qed

lemma support_segment:
  assumes "Allows AgentScopeSupport rq" and "p \<in> set tenant_trees" and "rq_path rq = p @ seg @ rest"
    and "seg \<noteq> ''''" "CHR ''/'' \<notin> set seg" "rest = '''' \<or> hd rest = CHR ''/''"
  shows "seg = rq_tenant rq"
proof -
  from assms(1) obtain r where r: "r \<in> set (sc_routes AgentScopeSupport)" "admits_route AgentScopeSupport rq r"
    by (rule Allows_route)
  with support_routes assms(2) have "list_all (clash p) (rt_pattern r) \<or> captures p r" by (auto simp: list_all_iff)
  moreover from r(2) obtain m where m: "find_submatch (rt_pattern r) (rq_path rq) = Some m"
      "rt_bind_tenant r \<longrightarrow> group m 0 = Some (rq_tenant rq)"
    by (auto simp: admits_route_def AgentScopeSupport_def split: option.splits)
  then have "\<not> list_all (clash p) (rt_pattern r)" using find_no_match [of p _ "seg @ rest"] assms(3,4) by auto
  ultimately have "captures p r" by blast
  then obtain ps where ps: "rt_pattern r = [PLit p # PCap # ps]" "rt_bind_tenant r"
    unfolding captures_def by blast
  with m(1) assms(3) have "pmatch (PLit p # PCap # ps) (p @ seg @ rest) = Some m"
    by (simp del: pmatch.simps split: option.splits)
  from captured_segment [OF this assms(5,6)] m(2) ps(2) show ?thesis by simp
qed

text \<open>
  C24: A support run stays in its tenant.  It is bound to one tenant, every tenant its query names
  is that one, it reads (or talks to the MCP endpoint), and when its path goes through a tenant,
  the tenant is its own.
\<close>

theorem support_run_stays_in_its_tenant:
  assumes "agentScopeGate (Some u) meth path q" and "IsAgent u" and "AgentScopeName u = ''support''"
    and "path \<noteq> self_revoke_path"
  shows "\<exists>t. BoundTenant u = Some t \<and> t \<noteq> '''' \<and> (meth = ''GET'' \<or> path = ''/mcp'') \<and>
    (\<forall>k \<in> set tenantQueryKeys. q k = [] \<or> q k = [t]) \<and>
    (\<forall>p \<in> set tenant_trees. \<forall>seg rest. path = p @ seg @ rest \<and> seg \<noteq> '''' \<and> CHR ''/'' \<notin> set seg \<and>
       (rest = '''' \<or> hd rest = CHR ''/'') \<longrightarrow> seg = t)"
proof -
  from assms(3) have s: "AgentScope u = Some AgentScopeSupport"
    by (simp add: AgentScope_def LookupAgentScope_def agentScopes_def)
  define rq where "rq = \<lparr>rq_method = meth, rq_path = path, rq_query = q,
      rq_work_item = au_work_item u, rq_execution = au_execution u,
      rq_tenant = (case BoundTenant u of Some t \<Rightarrow> t | None \<Rightarrow> '''')\<rparr>"
  have al: "Allows AgentScopeSupport rq"
    using assms s by (auto elim!: gate_scoped simp: rq_def)
  then have t: "rq_tenant rq \<noteq> ''''" "\<forall>k \<in> set tenantQueryKeys. q k = [] \<or> q k = [rq_tenant rq]"
    by (auto simp: Allows_def AgentScopeSupport_def list_all_iff rq_def)
  from t(1) have "BoundTenant u = Some (rq_tenant rq)" by (auto simp: rq_def split: option.splits)
  moreover have "meth = ''GET'' \<or> path = ''/mcp''"
    using scope_writes [OF s al] by (auto simp: rq_def AgentScopeSupport_def base_scope_def approval_call_def)
  moreover have "seg = rq_tenant rq" if "p \<in> set tenant_trees" "path = p @ seg @ rest" "seg \<noteq> ''''"
      "CHR ''/'' \<notin> set seg" "rest = '''' \<or> hd rest = CHR ''/''" for p seg rest
    using support_segment [OF al that(1) _ that(3-5)] that(2) by (simp add: rq_def)
  ultimately show ?thesis using t by blast
qed

definition demo_support :: auth_user where
  "demo_support = NewAgentUser ''mctl-support''
     \<lparr>ar_execution = '''', ar_work_item = '''', ar_run = ''art_2'', ar_scope = ''support'',
      ar_tenant = ''acme'', ar_grant = ''''\<rparr>"

theorem support_run_stays_in_its_tenant_witness:
  "agentScopeGate (Some demo_support) ''GET'' ''/api/v1/logs/acme/web'' (\<lambda>_. []) \<and>
   \<not> agentScopeGate (Some demo_support) ''GET'' ''/api/v1/logs/other/web'' (\<lambda>_. []) \<and>
   BoundTenant demo_support = Some ''acme'' \<and>
   (\<exists>t. BoundTenant demo_support = Some t \<and> t = ''acme'')"
proof -
  have pass: "agentScopeGate (Some demo_support) ''GET'' ''/api/v1/logs/acme/web'' (\<lambda>_. [])"
    and stop: "\<not> agentScopeGate (Some demo_support) ''GET'' ''/api/v1/logs/other/web'' (\<lambda>_. [])"
    and u: "IsAgent demo_support" "AgentScopeName demo_support = ''support''" "BoundTenant demo_support = Some ''acme''"
    by code_simp+
  have "''/api/v1/logs/acme/web'' \<noteq> self_revoke_path" by code_simp
  from support_run_stays_in_its_tenant [OF pass u(1,2) this] pass stop u(3) show ?thesis by simp
qed

end
