(* ===== verification/Approval_Guarantees.thy ===== *)
theory Approval_Guarantees
  imports Approval_Props Approval_Demo Agent_Confined
begin

text \<open>What the approvals and the receipt gate guarantee, for every run of them.\<close>

section \<open>One call per approval\<close>

text \<open>
  C1: One approval authorizes one successful call.  However the REST calls, the admissions (on
  whatever ledger they read first), the handlers that end and the processes that die interleave,
  no approval has two calls that succeeded, none has two calls running, and none has a call
  running after one that succeeded.
\<close>

theorem one_receipt_one_successful_call:
  assumes "gate_reach H cfg s"
  shows "distinct (map fst (filter snd (gs_done s))) \<and> distinct (map rn_ref (gs_calls s)) \<and>
    (\<forall>r \<in> set (gs_calls s). rn_ref r \<notin> fst ` set (filter snd (gs_done s)))"
  using gate_reach_ok [OF assms] by (auto simp: gate_ok_def succeeded_def)

theorem one_receipt_one_successful_call_witness:
  "gs_done demo_finished = [(''aar_7'', True)] \<and> distinct (map fst (filter snd (gs_done demo_finished)))"
  using one_receipt_one_successful_call [OF demo_reach5] by (simp add: demo_finished_def to_db_def)

section \<open>Admission\<close>

lemma take_tool: "takeReceiptArgs call = (ref, artifact, call') \<Longrightarrow> tc_tool call' = tc_tool call"
  by (auto simp: takeReceiptArgs_def Let_def split: if_splits)

lemma take_args:
  assumes "call' = snd (snd (takeReceiptArgs call))" and "k \<in> {ArgActionApprovalRef, ArgActionApprovalArtifactHash}"
  shows "map_of (tc_args call') k = None"
proof (cases "map_of (tc_args call) ArgActionApprovalRef = None \<and> map_of (tc_args call) ArgActionApprovalArtifactHash = None")
  case True
  with assms show ?thesis by (auto simp only: takeReceiptArgs_def Let_def if_True simp_thms snd_conv)
next
  case False
  with assms have "tc_args call' = filter (\<lambda>(k, v). k \<noteq> ArgActionApprovalRef \<and> k \<noteq> ArgActionApprovalArtifactHash) (tc_args call)"
    by (simp add: takeReceiptArgs_def Let_def)
  with assms(2) show ?thesis by (auto simp: map_of_eq_None_iff)
qed

lemma checked_row:
  assumes "receipt_checks age now u c (scanActionApproval t r) = None"
  shows "in_kind (ap_intent r) = ReceiptActionKindPrefix @ rk_tool c"
    "IsAgent u \<Longrightarrow> boundAgentExecution u = Some (in_execution (ap_intent r))"
  using assms by (auto simp: receipt_checks_def scanActionApproval_def split: if_splits)

text \<open>
  C5: A governed call needs an approval of its own.  When the gate enforces, the call of a gated
  principal to a governed tool is refused, or it passes on one approval of the ledger: one this
  principal asked for and another decided, for this tool and (of an agent) its own execution, of
  an intent whose hash is the one that was approved, consumed no longer than the bound ago; that
  approval is in flight from then on, and the reserved arguments do not reach the handler.
\<close>

theorem governed_call_needs_an_approval:
  assumes "gate_reach H cfg s" and "reads_past w s"
    and "admit_call (Some GateEnforce) cfg (Some u) call w (gs_db s) = (db', ad, outcome)"
    and "isReceiptGatedPrincipal u" and "tc_tool call \<in> set governedAgentTools"
  shows "(\<exists>code. ad = Refused code) \<or>
    (\<exists>call' chk a c. ad = Reserved call' chk \<and> tc_tool call' = tc_tool call \<and>
       asel (gs_db s) (rk_ref chk) = Some a \<and> ap_state a = ApprovalConsumed \<and>
       ap_requested_by a = principalOf u \<and> ap_decided_by a \<noteq> '''' \<and> ap_decided_by a \<noteq> principalOf u \<and>
       in_kind (ap_intent a) = ReceiptActionKindPrefix @ tc_tool call \<and> in_target (ap_intent a) = ReceiptTarget \<and>
       (IsAgent u \<longrightarrow> boundAgentExecution u = Some (in_execution (ap_intent a))) \<and>
       in_artifact_hash (ap_intent a) = rk_artifact chk \<and> rk_artifact chk \<noteq> '''' \<and>
       ap_intent_hash a = IntentHash H (ap_intent a) \<and>
       ap_consumed_at a = Some c \<and> gw_now w - receiptMaxAge cfg < c \<and> c < ap_expires_at a \<and>
       asel db' (rk_ref chk) = Some (a\<lparr>ap_state := ApprovalInFlight, ap_reserved_at := Some (gw_now w)\<rparr>) \<and>
       map_of (tc_args call') ArgActionApprovalRef = None \<and>
       map_of (tc_args call') ArgActionApprovalArtifactHash = None)"
proof -
  obtain ref artifact call0 where t: "takeReceiptArgs call = (ref, artifact, call0)" by (metis prod_cases3)
  have gov: "tc_tool call0 \<in> set governedAgentTools" using take_tool [OF t] assms(5) by simp
  have form: "(\<exists>code. ad = Refused code) \<or> (\<exists>call' chk. ad = Reserved call' chk)"
    using assms(3,4) gov by (auto simp: admit_call_def t Let_def split: prod.splits option.splits if_splits)
  from assms(3) show ?thesis
  proof (cases rule: admit_cases)
    case idle
    with form show ?thesis by auto
  next
    case (stuck i a)
    with form show ?thesis by auto
  next
    case (reserved v call' chk d r a)
    have row: "approval_ok H a" by (rule reach_row [OF assms(1) reserved(11)])
    from reserved(8) assms(1,2) gate_reach_ok [OF assms(1)] have "evolves d (gs_db s)"
      by (auto simp: reads_past_def gate_ok_def)
    with reserved(9) obtain a0 where "asel (gs_db s) (rk_ref chk) = Some a0" "row_after r a0" unfolding evolves_def by blast
    with reserved(11) have "ap_intent a = ap_intent r" by (simp add: row_after_def bound_fields_def)
    moreover from reserved(12) have sp: "ap_state a = ApprovalConsumed" "ap_requested_by a = principalOf v"
        "in_target (ap_intent a) = ReceiptTarget" "in_artifact_hash (ap_intent a) = rk_artifact chk" "rk_artifact chk \<noteq> ''''"
      by (auto simp: spends_def)
    moreover from row sp(1) obtain c where "ap_consumed_at a = Some c" "c < ap_expires_at a"
      by (auto simp: approval_ok_def consumed_def)
    moreover from this(1) reserved(13) have "gw_now w - receiptMaxAge cfg < c"
      by (auto simp: receiptStaleness_def split: if_splits)
    moreover have "tc_tool call' = tc_tool call" using reserved(4) t take_tool by simp
    ultimately show ?thesis
      using reserved checked_row [OF reserved(10)] row take_args [OF reserved(4)]
      by (intro disjI2 exI [of _ call'] exI [of _ chk] exI [of _ a] exI [of _ c])
        (auto simp: approval_ok_def)
  qed
qed

theorem governed_call_needs_an_approval_witness:
  "\<exists>(chk :: receipt_check) a. asel demo_adb3 (rk_ref chk) = Some a \<and> ap_requested_by a = principalOf demo_agent \<and>
     ap_decided_by a \<noteq> principalOf demo_agent"
proof -
  have tool: "tc_tool demo_call \<in> set governedAgentTools" by (simp add: demo_call_def demo_shape)
  have "admit_call (Some GateEnforce) minute (Some demo_agent) demo_call demo_gate_world
      (gs_db (demo_gate demo_adb3 [demo_adb2, demo_adb1, empty_adb])) =
     (\<lparr>ad_rows = [demo_row4], ad_items = []\<rparr>,
      Reserved \<lparr>tc_tool = ''mctl_trigger_approve'', tc_args = [(''proposal'', ArgString ''p-1'')]\<rparr> demo_check,
      Some \<lparr>ro_tool = ''mctl_trigger_approve'', ro_ref = ''aar_7'', ro_code = None, ro_mode = GateEnforce,
        ro_refused = False, ro_malformed = ''''\<rparr>)"
    using demo_admitted by (simp add: demo_gate_def)
  from governed_call_needs_an_approval [OF demo_reach3 demo_reads this demo_principal(4) tool]
  obtain chk :: receipt_check and a where "asel (gs_db (demo_gate demo_adb3 [demo_adb2, demo_adb1, empty_adb])) (rk_ref chk) = Some a"
      "ap_requested_by a = principalOf demo_agent" "ap_decided_by a \<noteq> principalOf demo_agent"
    by (elim disjE exE conjE) (simp only: admission.distinct, blast)
  then show ?thesis by (auto simp: demo_gate_def)
qed

section \<open>Rows\<close>

text \<open>
  C15: Four eyes.  Whatever was done to the approvals, a request that was decided was decided by
  somebody, and not by the principal who made it; it still carries the hash of the intent it
  stores; the scanner recognises no credential in who asked for it, the fields of its intent, its
  idempotency key, its intent source, its policy decision and the reason of its decision; and its
  policy reasons, which are not scanned, are words of at most 128 bytes of the alphabet they are checked for.
\<close>

theorem nobody_decides_his_own_request:
  assumes "gate_reach H cfg s" and "a \<in> set (ad_rows (gs_db s))"
  shows "(ap_state a \<noteq> ApprovalPending \<longrightarrow> ap_decided_by a \<noteq> '''' \<and> ap_decided_by a \<noteq> ap_requested_by a) \<and>
    ap_intent_hash a = IntentHash H (ap_intent a) \<and> (\<forall>t \<in> set (scanned_texts a). Scan t = None) \<and>
    (\<forall>t \<in> set (ctx_policy_reasons (ap_context a)). length t \<le> 128 \<and> rx_full policyReasonRE t)"
  using gate_reach_rows [OF assms(1)] assms(2) by (auto simp: approvals_ok_def approval_ok_def list_all_iff MaxPolicyReasonBytes_def)

theorem nobody_decides_his_own_request_witness:
  "ap_state demo_row3 = ApprovalConsumed \<and> ap_decided_by demo_row3 \<noteq> ap_requested_by demo_row3"
  using nobody_decides_his_own_request [OF demo_reach3, of demo_row3]
  by (simp add: demo_gate_def demo_consumed demo_row3_def)

text \<open>
  C40: The life of an approval is bounded.  It expires after it was made and no later than seven
  days after, and when it was consumed, that was before it expired and while the approval was
  fresh.
\<close>

theorem approval_lives_are_bounded:
  assumes "gate_reach H cfg s" and "a \<in> set (ad_rows (gs_db s))"
  shows "ap_created_at a < ap_expires_at a \<and> ap_expires_at a \<le> ap_created_at a + 7 * 24 * hour \<and>
    (ap_state a \<in> {ApprovalConsumed, ApprovalInFlight, ApprovalExecuted} \<longrightarrow>
       (\<exists>c. ap_consumed_at a = Some c \<and> c < ap_expires_at a \<and> still_fresh c a))"
proof -
  from gate_reach_rows [OF assms(1)] assms(2) have ok: "approval_ok H a" by (simp add: approvals_ok_def)
  then have "ap_expires_at a - ap_created_at a \<le> 7 * 24 * hour" by (simp only: approval_ok_def MaxApprovalTTL_def)
  with ok show ?thesis by (auto simp: approval_ok_def consumed_def)
qed

theorem approval_lives_are_bounded_witness:
  "demo_row3 \<in> set (ad_rows demo_adb3) \<and> (\<exists>c. ap_consumed_at demo_row3 = Some c \<and> c < ap_expires_at demo_row3)"
  using approval_lives_are_bounded [OF demo_reach3, of demo_row3]
  by (auto simp: demo_gate_def demo_consumed demo_row3_def)

text \<open>
  C10: A consume is for good.  An approval that some ledger of the run shows as consumed cannot be
  consumed again in any later one, whatever intent hash is presented and whatever happened since;
  the moment it was consumed, and what it binds, never change.
\<close>

theorem an_approval_is_consumed_once:
  assumes "gate_reach H cfg s" and "d \<in> set (gs_past s)" and "asel d i = Some a"
    and "ap_state a \<in> {ApprovalConsumed, ApprovalInFlight, ApprovalExecuted}"
  shows "\<exists>a'. asel (gs_db s) i = Some a' \<and> ap_consumed_at a' = ap_consumed_at a \<and> ap_intent a' = ap_intent a \<and>
    ap_requested_by a' = ap_requested_by a \<and> ap_expires_at a' = ap_expires_at a \<and>
    (\<exists>e. ConsumeActionApproval fault now now' i intent dbr (gs_db s) = (gs_db s, Inl e))"
proof -
  from gate_reach_ok [OF assms(1)] assms(2,3) obtain a' where a': "asel (gs_db s) i = Some a'" "row_after a a'"
    unfolding gate_ok_def evolves_def by blast
  with assms(4) have st: "ap_state a' \<noteq> ApprovalApproved" "ap_consumed_at a' = ap_consumed_at a"
    by (auto simp: row_after_def consumed_def)
  from a'(1) st(1) have "\<exists>e. ConsumeActionApproval fault now now' i intent dbr (gs_db s) = (gs_db s, Inl e)"
    by (auto simp: ConsumeActionApproval_def ap_precheck_def cas_update_def tupdate_def asel_def split: option.splits)
  with a' st(2) show ?thesis by (auto simp: row_after_def bound_fields_def)
qed

theorem an_approval_is_consumed_once_witness:
  "\<exists>e. ConsumeActionApproval StmtOk 4 4 ''aar_7'' (IntentHash zero_hash demo_intent) None (gs_db demo_running) =
     (gs_db demo_running, Inl e)"
proof -
  have "asel demo_adb3 ''aar_7'' = Some demo_row3" by (simp add: asel_def demo_consumed tselect_Cons demo_rows)
  moreover have "demo_adb3 \<in> set (gs_past demo_running)" by (simp add: demo_running_def)
  ultimately show ?thesis
    using an_approval_is_consumed_once [OF demo_reach4, of demo_adb3 "''aar_7''" demo_row3 StmtOk 4 4
        "IntentHash zero_hash demo_intent" None]
    by (auto simp: demo_row3_def)
qed

section \<open>Answers\<close>

text \<open>
  A refused consume names its reason.  On a request that exists, with a statement that runs
  and a read back of the same ledger at the same time, a consume succeeds exactly when the request
  is approved, unexpired and fresh and the hash presented is its own, and otherwise says which
  of these failed: the state first, then the hash, then freshness.
\<close>

theorem consume_names_the_reason:
  assumes "wi_checkText intent MaxApprovalFieldBytes True = None" and "asel db i = Some a"
  shows "snd (ConsumeActionApproval StmtOk now now i intent (Some db) db) =
    (if ap_state a \<in> {ApprovalConsumed, ApprovalInFlight, ApprovalExecuted} then Inl ApprovalWasConsumed
     else if ap_state a = ApprovalDenied then Inl ApprovalWasDenied
     else if ap_state a = ApprovalExpired \<or> ap_expires_at a \<le> now then Inl ApprovalHasExpired
     else if ap_state a = ApprovalPending then Inl ApprovalNotApproved
     else if ap_intent_hash a \<noteq> intent then Inl ApprovalIntentMismatch
     else if \<not> still_fresh now a then Inl ApprovalStale
     else Inr (a\<lparr>ap_state := ApprovalConsumed, ap_consumed_at := Some now\<rparr>))"
proof -
  have sel: "tselect ap_id (ad_rows db) i = Some a" using assms(2) by (simp add: asel_def)
  have fresh: "still_fresh now (scanActionApproval now a) = still_fresh now a"
    by (simp add: still_fresh_def scanActionApproval_def)
  show ?thesis
  proof (cases "ap_state a = ApprovalApproved \<and> ap_intent_hash a = intent \<and> now < ap_expires_at a \<and> still_fresh now a")
    case True
    with sel assms(1) show ?thesis
      by (simp add: ConsumeActionApproval_def ap_precheck_def cas_update_def tupdate_def scanActionApproval_def effectiveState_def)
  next
    case False
    then have "snd (ConsumeActionApproval StmtOk now now i intent (Some db) db) = Inl (consume_refusal now now i intent (Some db))"
      using sel assms(1) by (auto simp: ConsumeActionApproval_def ap_precheck_def cas_update_def tupdate_def)
    with False sel fresh show ?thesis
      by (cases "ap_state a")
        (auto simp: consume_refusal_def getActionApproval_def ConsumeStateRefusal_def scanActionApproval_def
          effectiveState_def still_fresh_def split: option.splits)
  qed
qed

theorem consume_names_the_reason_witness:
  "snd (ConsumeActionApproval StmtOk 3 3 ''aar_7'' ''a1'' (Some demo_adb2) demo_adb2) = Inl ApprovalIntentMismatch \<and>
   snd (ConsumeActionApproval StmtOk 3 3 ''aar_7'' ''a1'' (Some demo_adb3) demo_adb3) = Inl ApprovalWasConsumed"
proof -
  have "wi_checkText ''a1'' MaxApprovalFieldBytes True = None"
    by (rule clean_text) (simp_all add: plain_texts MaxApprovalFieldBytes_def)
  moreover have "asel demo_adb2 ''aar_7'' = Some demo_row2" "asel demo_adb3 ''aar_7'' = Some demo_row3"
    by (simp_all add: asel_def demo_approved demo_consumed tselect_Cons demo_rows)
  ultimately show ?thesis
    using consume_names_the_reason [of "''a1''" demo_adb2 "''aar_7''" demo_row2 3]
      consume_names_the_reason [of "''a1''" demo_adb3 "''aar_7''" demo_row3 3]
    by (simp add: demo_rows IntentHash_def zero_hash_def still_fresh_def)
qed

text \<open>
  A listing by state lists effective states.  The SQL filter on the stored columns selects,
  in every reachable ledger, exactly the requests whose state as read is the one asked for: a
  listing by state holds only such requests, no more than the page, and all of them when they fit.
\<close>

theorem listing_selects_effective_states:
  assumes "gate_reach H cfg s" and "af_state f = Some st"
    and "af_execution f = ''''" "af_kind f = ''''" "af_requested_by f = ''''"
  shows "length (ActionApprovals now f (gs_db s)) \<le> 500 \<and>
    (\<forall>a \<in> set (ActionApprovals now f (gs_db s)). ap_state a = st) \<and>
    (\<forall>a \<in> set (ad_rows (gs_db s)). ap_state (scanActionApproval now a) = st \<longrightarrow>
       scanActionApproval now a \<in> set (ActionApprovals now f (gs_db s)) \<or>
       length (ActionApprovals now f (gs_db s)) = nat (clamp_limit defaultApprovalList MaxApprovalList (af_limit f)))"
proof -
  let ?n = "nat (clamp_limit defaultApprovalList MaxApprovalList (af_limit f))"
  let ?sel = "filter (state_matches now (Some st)) (ad_rows (gs_db s))"
  let ?sorted = "sort_key (\<lambda>a. (- ap_created_at a, ap_id a)) ?sel"
  have eff: "state_matches now (Some st) a \<longleftrightarrow> ap_state (scanActionApproval now a) = st"
    if "a \<in> set (ad_rows (gs_db s))" for a
  proof -
    have "ap_state a \<noteq> ApprovalExpired"
      using gate_reach_rows [OF assms(1)] that by (simp add: approvals_ok_def approval_ok_def)
    then show ?thesis
      by (cases st; cases "ap_state a") (auto simp: state_matches_def scanActionApproval_def effectiveState_def)
  qed
  have list: "ActionApprovals now f (gs_db s) = map (scanActionApproval now) (take ?n ?sorted)"
    by (simp add: ActionApprovals_def assms(2-5))
  have bound: "?n \<le> 500"
    using clamp_limit_bounds [of defaultApprovalList MaxApprovalList "af_limit f"]
    by (simp only: defaultApprovalList_def MaxApprovalList_def) linarith
  have sound: "\<forall>a \<in> set (ActionApprovals now f (gs_db s)). ap_state a = st"
    unfolding list by (auto simp: eff dest!: in_set_takeD)
  have "scanActionApproval now a \<in> set (ActionApprovals now f (gs_db s)) \<or> length (ActionApprovals now f (gs_db s)) = ?n"
    if "a \<in> set (ad_rows (gs_db s))" "ap_state (scanActionApproval now a) = st" for a
  proof (cases "length ?sorted \<le> ?n")
    case True
    with that eff show ?thesis unfolding list by auto
  next
    case False
    then show ?thesis unfolding list by simp
  qed
  with bound sound show ?thesis by (simp add: list)
qed

definition demo_filter :: approval_filter where
  "demo_filter = \<lparr>af_state = Some ApprovalExpired, af_execution = '''', af_kind = '''', af_requested_by = '''', af_limit = 0\<rparr>"

theorem listing_selects_effective_states_witness:
  "list_all (\<lambda>a. ap_state a = ApprovalExpired) (ActionApprovals hour demo_filter (gs_db demo_finished))"
  unfolding list_all_iff
  using listing_selects_effective_states [OF demo_reach5, of demo_filter ApprovalExpired hour]
  by (simp add: demo_filter_def)

section \<open>Scoped runs\<close>

lemma governed_tools_write: "list_all (\<lambda>t. \<not> IsReadTool t) governedAgentTools"
  by code_simp

text \<open>
  A scoped run calls no governed tool.  Whatever the scope of an agent's run and whatever the
  arguments, the tool filter of the scope refuses every tool that the receipt gate governs: a
  scope only reads.
\<close>

theorem scoped_run_calls_no_governed_tool:
  assumes "AgentScope u = Some s" and "tool \<in> set governedAgentTools"
  shows "\<not> AllowsToolCall s tool args tenant"
proof -
  have "\<not> IsReadTool tool" using governed_tools_write assms(2) by (simp add: list_all_iff)
  with assms(1) show ?thesis
    by (cases rule: AgentScope_cases)
      (simp_all add: AllowsToolCall_def AllowsTool_def AgentScopeInvestigate_def AgentScopeImplement_def
        AgentScopeImplementGrant_def AgentScopeReview_def AgentScopeShepherd_def AgentScopeSupport_def base_scope_def)
qed

theorem scoped_run_calls_no_governed_tool_witness:
  "AgentScope demo_agent = Some AgentScopeImplement \<and> \<not> AllowsToolCall AgentScopeImplement ''mctl_deploy_service'' [] ''''"
proof -
  have "AgentScope demo_agent = Some AgentScopeImplement"
    by (simp add: AgentScope_def AgentScopeName_def demo_agent_def NewAgentUser_def plain_user_def LookupAgentScope_def
        agentScopes_def)
  moreover have "''mctl_deploy_service'' \<in> set governedAgentTools" by (simp add: governedAgentTools_def)
  ultimately show ?thesis using scoped_run_calls_no_governed_tool by blast
qed

end
