(* ===== verification/Work_Types.thy ===== *)
theory Work_Types
  imports Approval_Types
begin

text \<open>
  Work items, \<open>internal/workitems/types.go\<close> and \<open>inputs.go\<close>: states, actions and phases, the rows
  of the tables, and the validation of every request.

  A text is a byte string.  The constructors of a state carry \<open>Work\<close> where the source has \<open>State\<close>,
  those of a phase \<open>Ex\<close> where it has \<open>Phase\<close>; an error is its sentinel, without the text and the
  current item it is wrapped with.
\<close>

section \<open>States\<close>

datatype work_state = WorkActive | WorkWaiting | WorkCompleted | WorkSuperseded | WorkArchived

datatype work_action =
    ActionWait | ActionResume | ActionComplete | ActionSupersede | ActionArchive | ActionOther string

datatype exec_phase = ExPending | ExRunning | ExSucceeded | ExFailed | ExError

datatype work_event_kind =
    EvCreated | EvStateChanged | EvResumed | EvIntentAppended | EvExecutionAttached | EvSurfaceLinked
  | EvSnapshotSealed | EvExecutionRequested | EvRequestClaimed | EvRequestFulfilled | EvRequestRejected
  | EvOrphanClosed

text \<open>The sentinels; \<open>WkFailed\<close> is an error of the driver.\<close>

datatype work_error =
    WkNotFound | WkInvalid | WkInvalidTransition | WkVersionConflict | WkExecutionActive
  | WkIdempotencyKeyReuse | WkSecretInText | WkExternalKeyInUse
  | XrNotFound | XrNotClaimed | XrClosed | XrOpen | IntentNotFound | IntentUnavailable
  | ExecutionNotFound | SnapshotDivergence | PriorSnapshot | SnapshotNotFound
  | ProvenanceAbsent | ExecutionTerminal | RunTokenTTL | RunTokenBinding | RunNotFound | WkFailed

fun Transitions :: "work_state \<Rightarrow> work_action \<Rightarrow> work_state option" where
  "Transitions WorkActive ActionWait = Some WorkWaiting"
| "Transitions WorkActive ActionComplete = Some WorkCompleted"
| "Transitions WorkActive ActionSupersede = Some WorkSuperseded"
| "Transitions WorkActive ActionArchive = Some WorkArchived"
| "Transitions WorkWaiting ActionResume = Some WorkActive"
| "Transitions WorkWaiting ActionComplete = Some WorkCompleted"
| "Transitions WorkWaiting ActionSupersede = Some WorkSuperseded"
| "Transitions WorkWaiting ActionArchive = Some WorkArchived"
| "Transitions _ _ = None"

definition Next :: "work_state \<Rightarrow> work_action \<Rightarrow> work_error + work_state" where
  "Next st a = (case Transitions st a of Some t \<Rightarrow> Inr t | None \<Rightarrow> Inl WkInvalidTransition)"

definition IsTerminalState :: "work_state \<Rightarrow> bool" where
  "IsTerminalState st \<longleftrightarrow> st \<noteq> WorkActive \<and> st \<noteq> WorkWaiting"

definition IsTerminalPhase :: "exec_phase \<Rightarrow> bool" where
  "IsTerminalPhase p \<longleftrightarrow> p = ExSucceeded \<or> p = ExFailed \<or> p = ExError"

definition ExecutionIDPrefix :: string where "ExecutionIDPrefix = ''we_''"
definition ExecutionRequestIDPrefix :: string where "ExecutionRequestIDPrefix = ''xr_''"
definition SnapshotIDPrefix :: string where "SnapshotIDPrefix = ''cs_''"
definition MaxIntentBytes :: nat where "MaxIntentBytes = 8192"
definition MaxIntentParamBytes :: nat where "MaxIntentParamBytes = 8192"
definition MaxTitleBytes :: nat where "MaxTitleBytes = 256"
definition MaxEngineRefBytes :: nat where "MaxEngineRefBytes = 256"
definition DefaultIntentPageLimit :: int where "DefaultIntentPageLimit = 50"
definition MaxIntentPageLimit :: int where "MaxIntentPageLimit = 100"

section \<open>Rows\<close>

record work_item =
  wi_id :: string
  wi_tenant :: string
  wi_owner :: string
  wi_owner_principal :: string
  wi_origin_client :: string
  wi_visibility :: string
  wi_origin_surface :: string
  wi_title :: string
  wi_external_key :: string
  wi_state :: work_state
  wi_waiting_reason :: string
  wi_superseded_by :: string
  wi_version :: int
  wi_created_by :: string
  wi_created_at :: gotime
  wi_updated_at :: gotime
  wi_completed_at :: "gotime option"

text \<open>What every write carries, as the HTTP layer derived it from the authenticated caller.\<close>

record mutation =
  mu_actor :: string
  mu_acting :: string
  mu_actor_principal :: string
  mu_via_principal :: string
  mu_via_execution :: string
  mu_actor_client :: string
  mu_direct_service :: bool
  mu_surface :: string
  mu_request_id :: string
  mu_key :: string
  mu_hash :: string

text \<open>An event: states are None where the column is empty, the detail is its JSON object.\<close>

record work_event =
  ev_item :: string
  ev_seq :: int
  ev_kind :: work_event_kind
  ev_from :: "work_state option"
  ev_to :: "work_state option"
  ev_actor :: string
  ev_acting :: string
  ev_surface :: string
  ev_request_id :: string
  ev_detail :: "(string \<times> string) list"
  ev_created_at :: gotime
  ev_actor_principal :: string
  ev_via_principal :: string
  ev_via_execution :: string
  ev_actor_client :: string

text \<open>An intent; its text is None once a retention sweep has dropped it.\<close>

record work_intent =
  it_id :: int
  it_item :: string
  it_actor :: string
  it_surface :: string
  it_text :: "string option"
  it_params :: "string option"
  it_created_at :: gotime
  it_actor_principal :: string
  it_actor_client :: string

record execution =
  xe_id :: string
  xe_item :: string
  xe_engine :: string
  xe_ref :: string
  xe_attempt :: int
  xe_from :: string
  xe_phase :: exec_phase
  xe_started_at :: gotime
  xe_ended_at :: "gotime option"

record surface_ref =
  sf_item :: string
  sf_surface :: string
  sf_external :: string
  sf_actor_external :: string
  sf_first_seen :: gotime
  sf_last_seen :: gotime

section \<open>Requests\<close>

record create_input =
  cr_mutation :: mutation
  cr_tenant :: string
  cr_visibility :: string
  cr_origin_surface :: string
  cr_title :: string
  cr_external_key :: string

record work_transition_input =
  wt_mutation :: mutation
  wt_item :: string
  wt_action :: work_action
  wt_waiting_reason :: string
  wt_superseded_by :: string
  wt_expected :: int

record resume_input =
  re_mutation :: mutation
  re_item :: string
  re_expected :: int
  re_from :: string
  re_engine :: string
  re_ref :: string

text \<open>The parameters with what \<open>json.Unmarshal\<close> makes of them: whether they are one JSON object.\<close>

record intent_input =
  ii_mutation :: mutation
  ii_item :: string
  ii_text :: string
  ii_params :: string
  ii_params_object :: bool

text \<open>A phase of a request that is none of the five is None.\<close>

record execution_input =
  xi_mutation :: mutation
  xi_item :: string
  xi_engine :: string
  xi_ref :: string
  xi_phase :: "exec_phase option"

record surface_input =
  si_mutation :: mutation
  si_item :: string
  si_external :: string
  si_actor_external :: string

section \<open>Validation\<close>

text \<open>The checks the package shares with the action approvals, with this theory's errors.\<close>

fun work_check :: "approval_error option \<Rightarrow> work_error option" where
  "work_check None = None"
| "work_check (Some e) = Some (if e = WiSecretInText then WkSecretInText else WkInvalid)"

definition wk_text :: "string \<Rightarrow> nat \<Rightarrow> bool \<Rightarrow> work_error option" where
  "wk_text v m req = work_check (wi_checkText v m req)"

definition wk_secrets :: "string \<Rightarrow> work_error option" where
  "wk_secrets v = work_check (scanSecrets v)"

definition wk_require :: "bool \<Rightarrow> work_error option" where
  "wk_require ok = (if ok then None else Some WkInvalid)"

definition checkIdentity :: "string \<Rightarrow> work_error option" where
  "checkIdentity v = first_error [wk_text v MaxExternalIDBytes True, wk_require (v = TrimSpace v)]"

text \<open>\<open>^[a-z][a-z0-9_-]{0,31}$\<close>.\<close>

definition surfacePattern :: "string \<Rightarrow> bool" where
  "surfacePattern s \<longleftrightarrow>
     s \<noteq> '''' \<and> hd s \<in> set ''abcdefghijklmnopqrstuvwxyz'' \<and> length s \<le> 32 \<and>
     list_all (\<lambda>c. c \<in> set ''abcdefghijklmnopqrstuvwxyz0123456789_-'') (tl s)"

definition mutation_validate :: "mutation \<Rightarrow> work_error option" where
  "mutation_validate m = first_error
     [checkIdentity (mu_actor m), wk_text (mu_request_id m) MaxExternalIDBytes False,
      wk_require (mu_surface m = '''' \<or> surfacePattern (mu_surface m)),
      wk_text (mu_key m) MaxKeyBytes False, wk_require (mu_key m = '''' \<or> mu_hash m \<noteq> '''')]"

definition create_validate :: "create_input \<Rightarrow> work_error option" where
  "create_validate inp = first_error
     [mutation_validate (cr_mutation inp), checkIdentity (cr_tenant inp),
      wk_require (cr_visibility inp = ''tenant'' \<or> cr_visibility inp = ''private''),
      wk_require (surfacePattern (cr_origin_surface inp)), wk_text (cr_title inp) MaxTitleBytes True,
      wk_text (cr_external_key inp) MaxKeyBytes False, wk_secrets (cr_title inp), wk_secrets (cr_external_key inp)]"

definition work_transition_validate :: "work_transition_input \<Rightarrow> work_error option" where
  "work_transition_validate inp = first_error
     [mutation_validate (wt_mutation inp), wk_require (wt_item inp \<noteq> ''''),
      wk_require (wt_action inp \<in> {ActionWait, ActionComplete, ActionSupersede, ActionArchive}),
      wk_require (if wt_action inp = ActionWait
                  then wt_waiting_reason inp = ''input'' \<or> wt_waiting_reason inp = ''approval''
                  else wt_waiting_reason inp = ''''),
      wk_require (if wt_action inp = ActionSupersede
                  then wt_superseded_by inp \<noteq> '''' \<and> wt_superseded_by inp \<noteq> wt_item inp
                  else wt_superseded_by inp = ''''),
      wk_require (0 < wt_expected inp)]"

definition validateEngine :: "string \<Rightarrow> string \<Rightarrow> work_error option" where
  "validateEngine engine ref = first_error
     [wk_require (engine = ''temporal'' \<or> engine = ''argo'' \<or> engine = ''a2a''), wk_text ref MaxEngineRefBytes True]"

definition resume_validate :: "resume_input \<Rightarrow> work_error option" where
  "resume_validate inp = first_error
     [mutation_validate (re_mutation inp), wk_require (re_item inp \<noteq> ''''), wk_require (0 < re_expected inp),
      validateEngine (re_engine inp) (re_ref inp)]"

definition intent_validate :: "intent_input \<Rightarrow> work_error option" where
  "intent_validate inp = first_error
     [mutation_validate (ii_mutation inp), wk_require (ii_item inp \<noteq> ''''), wk_text (ii_text inp) MaxIntentBytes True,
      wk_require (ii_params inp = '''' \<or> length (ii_params inp) \<le> MaxIntentParamBytes \<and> ii_params_object inp),
      wk_secrets (ii_text inp), wk_secrets (ii_params inp)]"

definition execution_validate :: "execution_input \<Rightarrow> work_error option" where
  "execution_validate inp = first_error
     [mutation_validate (xi_mutation inp), wk_require (xi_item inp \<noteq> ''''), wk_require (xi_phase inp \<noteq> None),
      validateEngine (xi_engine inp) (xi_ref inp)]"

definition surface_validate :: "surface_input \<Rightarrow> work_error option" where
  "surface_validate inp = first_error
     [mutation_validate (si_mutation inp), wk_require (si_item inp \<noteq> ''''),
      wk_require (mu_surface (si_mutation inp) \<noteq> ''''), wk_text (si_external inp) MaxExternalIDBytes True,
      wk_text (si_actor_external inp) MaxExternalIDBytes False, wk_secrets (si_external inp),
      wk_secrets (si_actor_external inp)]"

end
