(* ===== verification/Work_Db.thy ===== *)
theory Work_Db
  imports Work_Types
begin

text \<open>
  The tables of the work item store and the statements its operations share: the transaction under
  the advisory lock of an item, events, idempotency keys, executions and their provenance
  (\<open>internal/workitems/store.go\<close>, \<open>provenance.go\<close>, \<open>internal/executionprovenance\<close>).

  Every body runs under the lock of its item (Create under the lock of its tenant), so it is one
  function of the database.  The ids PostgreSQL or the UUID package draw are arguments; an insert
  that meets a unique index fails.
\<close>

section \<open>Tables\<close>

record work_request =
  iq_item :: string
  iq_key :: string
  iq_op :: string
  iq_hash :: string
  iq_actor :: string
  iq_result :: string

record create_request =
  cq_tenant :: string
  cq_key :: string
  cq_hash :: string
  cq_actor :: string
  cq_item :: string

record provenance =
  pv_execution :: string
  pv_contract :: string
  pv_attempt :: string
  pv_lineage :: string
  pv_engine :: string
  pv_engine_run :: string
  pv_parent :: string
  pv_root :: string
  pv_attached_by :: string
  pv_attached_by_principal :: string
  pv_path :: string
  pv_direct_service :: bool
  pv_recorded_at :: gotime

datatype xr_kind = XrStart | XrResume
datatype xr_state = XrPending | XrClaimed | XrFulfilled | XrRejected

record exec_request =
  xr_id :: string
  xr_item :: string
  xr_kind :: xr_kind
  xr_expected :: int
  xr_from :: string
  xr_intent :: "int option"
  xr_surface :: string
  xr_requested_by :: string
  xr_acting :: string
  xr_key :: string
  xr_state :: xr_state
  xr_claimed_by :: string
  xr_token :: string
  xr_claimed_at :: "gotime option"
  xr_claim_expires_at :: "gotime option"
  xr_execution :: string
  xr_reason :: string
  xr_created_at :: gotime
  xr_updated_at :: gotime
  xr_closed_at :: "gotime option"
  xr_requested_by_principal :: string
  xr_via_principal :: string
  xr_claimed_by_principal :: string

record context_snapshot =
  cs_id :: string
  cs_item :: string
  cs_execution :: string
  cs_sequence :: int
  cs_hash :: string
  cs_canonical :: string
  cs_strategy :: string
  cs_strategy_version :: string
  cs_prior_execution :: string
  cs_prior_snapshot :: string
  cs_produced_by :: string
  cs_created_at :: gotime

record run_token =
  tk_id :: string
  tk_hash :: string
  tk_agent :: string
  tk_agent_principal :: string
  tk_execution :: string
  tk_item :: string
  tk_permissions :: "string list"
  tk_scope :: string
  tk_issued_by :: string
  tk_tenant :: string
  tk_via_principal :: string
  tk_grant :: string
  tk_created_at :: gotime
  tk_expires_at :: gotime
  tk_revoked_at :: "gotime option"

record work_db =
  wd_items :: "work_item list"
  wd_events :: "work_event list"
  wd_intents :: "work_intent list"
  wd_executions :: "execution list"
  wd_provenance :: "provenance list"
  wd_surfaces :: "surface_ref list"
  wd_creates :: "create_request list"
  wd_requests :: "work_request list"
  wd_exec_requests :: "exec_request list"
  wd_snapshots :: "context_snapshot list"
  wd_tokens :: "run_token list"

definition empty_wdb :: work_db where
  "empty_wdb = \<lparr>wd_items = [], wd_events = [], wd_intents = [], wd_executions = [], wd_provenance = [],
     wd_surfaces = [], wd_creates = [], wd_requests = [], wd_exec_requests = [], wd_snapshots = [], wd_tokens = []\<rparr>"

section \<open>Transactions\<close>

type_synonym 'a wtx = "work_error + work_db \<times> 'a"

definition wk_withTx :: "tx_fault \<Rightarrow> work_db \<Rightarrow> 'a wtx \<Rightarrow> work_db \<times> (work_error + 'a)" where
  "wk_withTx fault db body =
     (if fault = TxBeginFails \<or> fault = TxLockFails \<or> fault = TxStatementFails then (db, Inl WkFailed)
      else case body of
        Inl e \<Rightarrow> (db, Inl e)
      | Inr (db', x) \<Rightarrow> if fault = TxCommitFails then (db, Inl WkFailed) else (db', Inr x))"

definition wk_precheck :: "work_error option \<Rightarrow> work_db \<Rightarrow> work_db \<times> (work_error + 'a) \<Rightarrow> work_db \<times> (work_error + 'a)" where
  "wk_precheck c db r = (case c of None \<Rightarrow> r | Some e \<Rightarrow> (db, Inl e))"

section \<open>Rows by key\<close>

definition getItem :: "string \<Rightarrow> work_db \<Rightarrow> work_error + work_item" where
  "getItem i db = (case tselect wi_id (wd_items db) i of None \<Rightarrow> Inl WkNotFound | Some w \<Rightarrow> Inr w)"

text \<open>The executions of an item, by attempt.\<close>

definition listExecutions :: "string \<Rightarrow> work_db \<Rightarrow> execution list" where
  "listExecutions i db = sort_key xe_attempt (filter (\<lambda>e. xe_item e = i) (wd_executions db))"

definition getExecution :: "string \<Rightarrow> string \<Rightarrow> work_db \<Rightarrow> work_error + execution" where
  "getExecution item i db =
     (case find (\<lambda>e. xe_item e = item \<and> xe_id e = i) (wd_executions db) of
        None \<Rightarrow> Inl WkNotFound | Some e \<Rightarrow> Inr e)"

definition containsExecution :: "execution list \<Rightarrow> string \<Rightarrow> bool" where
  "containsExecution xs i = list_ex (\<lambda>e. xe_id e = i) xs"

definition active_execution :: "execution list \<Rightarrow> bool" where
  "active_execution xs = list_ex (\<lambda>e. \<not> IsTerminalPhase (xe_phase e)) xs"

section \<open>Events and idempotency keys\<close>

definition next_seq :: "string \<Rightarrow> work_event list \<Rightarrow> int" where
  "next_seq i evs = 1 + foldr (\<lambda>e m. if ev_item e = i then max (ev_seq e) m else m) evs 0"

definition appendEvent ::
  "string \<Rightarrow> work_event_kind \<Rightarrow> work_state option \<Rightarrow> work_state option \<Rightarrow> mutation \<Rightarrow> (string \<times> string) list \<Rightarrow>
     gotime \<Rightarrow> work_db \<Rightarrow> work_db" where
  "appendEvent i kind from to m detail now db = db\<lparr>wd_events := wd_events db @
     [\<lparr>ev_item = i, ev_seq = next_seq i (wd_events db), ev_kind = kind, ev_from = from, ev_to = to,
       ev_actor = mu_actor m, ev_acting = mu_acting m, ev_surface = mu_surface m, ev_request_id = mu_request_id m,
       ev_detail = detail, ev_created_at = now, ev_actor_principal = mu_actor_principal m,
       ev_via_principal = mu_via_principal m, ev_via_execution = mu_via_execution m,
       ev_actor_client = mu_actor_client m\<rparr>]\<rparr>"

abbreviation iq_name :: "work_request \<Rightarrow> string \<times> string" where
  "iq_name q \<equiv> (iq_item q, iq_key q)"

text \<open>None is a new key; Some the recorded result of a replay.\<close>

definition replayed :: "string \<Rightarrow> string \<Rightarrow> mutation \<Rightarrow> work_db \<Rightarrow> work_error + string option" where
  "replayed i op m db =
     (if mu_key m = '''' then Inr None
      else case tselect iq_name (wd_requests db) (i, mu_key m) of
        None \<Rightarrow> Inr None
      | Some q \<Rightarrow>
          if iq_op q \<noteq> op \<or> iq_hash q \<noteq> mu_hash m \<or> iq_actor q \<noteq> mu_actor m then Inl WkIdempotencyKeyReuse
          else Inr (Some (iq_result q)))"

definition remember :: "string \<Rightarrow> string \<Rightarrow> string \<Rightarrow> mutation \<Rightarrow> work_db \<Rightarrow> work_error + work_db" where
  "remember i op result m db =
     (if mu_key m = '''' then Inr db
      else if tselect iq_name (wd_requests db) (i, mu_key m) \<noteq> None then Inl WkFailed
      else Inr (db\<lparr>wd_requests := wd_requests db @
        [\<lparr>iq_item = i, iq_key = mu_key m, iq_op = op, iq_hash = mu_hash m, iq_actor = mu_actor m, iq_result = result\<rparr>]\<rparr>))"

section \<open>Provenance\<close>

text \<open>\<open>H\<close> is SHA-256 in lower-case hex.  \<open>EngineRun\<close> is the reference up to its first \<open>#\<close>.\<close>

definition ContractVersion :: string where "ContractVersion = ''execution_attempt_v1''"

definition EngineRun :: "string \<Rightarrow> string" where
  "EngineRun ref = takeWhile (\<lambda>c. c \<noteq> CHR ''#'') ref"

text \<open>\<open>%04x\<close>, and the text of one rune in a JSON string; a byte that is no rune reads as U+FFFD.\<close>

definition lower_hex :: "nat \<Rightarrow> char" where
  "lower_hex n = char_of (if n < 10 then 48 + n else 87 + n)"

definition hex4 :: "nat \<Rightarrow> string" where
  "hex4 n = [lower_hex (n div 4096 mod 16), lower_hex (n div 256 mod 16), lower_hex (n div 16 mod 16), lower_hex (n mod 16)]"

definition bslash :: char where "bslash = char_of (92 :: nat)"
definition quote :: char where "quote = char_of (34 :: nat)"

definition json_rune :: "nat option \<Rightarrow> string" where
  "json_rune o' = (let r = (case o' of Some r \<Rightarrow> r | None \<Rightarrow> 0xFFFD) in
     if r = 34 then [bslash, quote]
     else if r = 92 then [bslash, bslash]
     else if r = 10 then [bslash, CHR ''n'']
     else if r = 13 then [bslash, CHR ''r'']
     else if r = 9 then [bslash, CHR ''t'']
     else if r = 8 then [bslash, CHR ''b'']
     else if r = 12 then [bslash, CHR ''f'']
     else if 0x20 \<le> r \<and> r \<le> 0x7E then [char_of r]
     else if 0x10000 \<le> r
     then bslash # CHR ''u'' # hex4 (0xD800 + (r - 0x10000) div 1024) @ bslash # CHR ''u'' # hex4 (0xDC00 + (r - 0x10000) mod 1024)
     else bslash # CHR ''u'' # hex4 r)"

definition writeString :: "string \<Rightarrow> string" where
  "writeString s = quote # concat (map json_rune (runes s)) @ [quote]"

fun join_comma :: "string list \<Rightarrow> string" where
  "join_comma [] = ''''"
| "join_comma [s] = s"
| "join_comma (s # ss) = s @ CHR '','' # join_comma ss"

definition CanonicalStrings :: "string list \<Rightarrow> string" where
  "CanonicalStrings ss = CHR ''['' # join_comma (map writeString ss) @ '']''"

definition AttemptID :: "hash \<Rightarrow> string \<Rightarrow> string \<Rightarrow> string" where
  "AttemptID H engine ref = ''at_'' @ take 32 (H (CanonicalStrings [ContractVersion, ''attempt'', engine, EngineRun ref]))"

definition LineageRoot :: "hash \<Rightarrow> string \<Rightarrow> string" where
  "LineageRoot H root = ''ln_'' @ take 32 (H (CanonicalStrings [ContractVersion, ''lineage'', root]))"

text \<open>The walk of a lineage whose parent has no provenance, at most \<open>maxLineageWalk\<close> links.\<close>

definition maxLineageWalk :: nat where "maxLineageWalk = 10000"

fun walk_lineage :: "nat \<Rightarrow> execution list \<Rightarrow> string \<Rightarrow> string option" where
  "walk_lineage 0 xs cur = None"
| "walk_lineage (Suc n) xs cur =
     (case tselect xe_id xs cur of
        None \<Rightarrow> None
      | Some e \<Rightarrow> if xe_from e = '''' then Some cur else walk_lineage n xs (xe_from e))"

definition rootOf :: "string \<Rightarrow> work_db \<Rightarrow> string option" where
  "rootOf parent db =
     (case tselect pv_execution (wd_provenance db) parent of
        Some p \<Rightarrow> Some (pv_root p)
      | None \<Rightarrow> walk_lineage maxLineageWalk (wd_executions db) parent)"

definition insertProvenance ::
  "hash \<Rightarrow> execution \<Rightarrow> string \<Rightarrow> mutation \<Rightarrow> string \<Rightarrow> gotime \<Rightarrow> work_db \<Rightarrow> work_error + work_db" where
  "insertProvenance H e from m path now db =
     (if path = '''' then Inl WkFailed
      else case (if from = '''' then Some (xe_id e) else rootOf from db) of
        None \<Rightarrow> Inl WkFailed
      | Some root \<Rightarrow>
          if tselect pv_execution (wd_provenance db) (xe_id e) \<noteq> None then Inl WkFailed
          else Inr (db\<lparr>wd_provenance := wd_provenance db @
            [\<lparr>pv_execution = xe_id e, pv_contract = ContractVersion, pv_attempt = AttemptID H (xe_engine e) (xe_ref e),
              pv_lineage = LineageRoot H root, pv_engine = xe_engine e, pv_engine_run = EngineRun (xe_ref e),
              pv_parent = from, pv_root = root, pv_attached_by = mu_actor m,
              pv_attached_by_principal = mu_actor_principal m, pv_path = path,
              pv_direct_service = mu_direct_service m, pv_recorded_at = now\<rparr>]\<rparr>))"

section \<open>Executions\<close>

text \<open>The unique indexes an insert meets: the id, the run, the attempt, and one open execution per item.\<close>

definition exec_clash :: "execution \<Rightarrow> execution \<Rightarrow> bool" where
  "exec_clash e x \<longleftrightarrow>
     xe_id x = xe_id e \<or>
     xe_item x = xe_item e \<and>
       (xe_engine x = xe_engine e \<and> xe_ref x = xe_ref e \<or> xe_attempt x = xe_attempt e \<or>
        \<not> IsTerminalPhase (xe_phase x) \<and> \<not> IsTerminalPhase (xe_phase e))"

definition insertExecution ::
  "hash \<Rightarrow> string \<Rightarrow> mutation \<Rightarrow> string \<Rightarrow> string \<Rightarrow> string \<Rightarrow> exec_phase \<Rightarrow> string \<Rightarrow> int \<Rightarrow> string \<Rightarrow> gotime \<Rightarrow>
     work_db \<Rightarrow> execution wtx" where
  "insertExecution H uuid m item engine ref phase from attempt path now db =
     (let e = \<lparr>xe_id = ExecutionIDPrefix @ uuid, xe_item = item, xe_engine = engine, xe_ref = ref,
               xe_attempt = attempt, xe_from = from, xe_phase = phase, xe_started_at = now,
               xe_ended_at = (if IsTerminalPhase phase then Some now else None)\<rparr>
      in if list_ex (exec_clash e) (wd_executions db) then Inl WkFailed
         else andThen (insertProvenance H e from m path now (db\<lparr>wd_executions := wd_executions db @ [e]\<rparr>))
                (\<lambda>db'. Inr (db', e)))"

definition AttachPathAttach :: string where "AttachPathAttach = ''attach''"
definition AttachPathResume :: string where "AttachPathResume = ''resume''"
definition AttachPathFulfilStart :: string where "AttachPathFulfilStart = ''fulfil_start''"
definition AttachPathFulfilResume :: string where "AttachPathFulfilResume = ''fulfil_resume''"

text \<open>\<open>^at_[0-9a-f]{32}$\<close> and \<open>^ln_[0-9a-f]{32}$\<close>.\<close>

definition derived_id :: "string \<Rightarrow> string \<Rightarrow> bool" where
  "derived_id prefix s \<longleftrightarrow>
     take 3 s = prefix \<and> length s = 35 \<and> list_all (\<lambda>c. c \<in> set ''0123456789abcdef'') (drop 3 s)"

definition validProvenance :: "provenance \<Rightarrow> bool" where
  "validProvenance p \<longleftrightarrow>
     pv_contract p = ContractVersion \<and> derived_id ''at_'' (pv_attempt p) \<and> derived_id ''ln_'' (pv_lineage p)"

definition ExecutionProvenance :: "string \<Rightarrow> work_db \<Rightarrow> work_error + provenance" where
  "ExecutionProvenance i db =
     (case tselect pv_execution (wd_provenance db) i of
        None \<Rightarrow> Inl ProvenanceAbsent
      | Some p \<Rightarrow> if validProvenance p then Inr p else Inl WkFailed)"

definition LineageAttempts :: "string \<Rightarrow> string list \<Rightarrow> work_db \<Rightarrow> string list" where
  "LineageAttempts root ids db =
     filter (\<lambda>a. list_ex (\<lambda>p. pv_lineage p = root \<and> pv_attempt p = a) (wd_provenance db)) ids"

end
