(* ===== verification/Work_Store.thy ===== *)
theory Work_Store
  imports Work_Db "HOL-Library.Char_ord" "HOL-Library.List_Lexorder" "HOL-Library.Product_Lexorder"
begin

text \<open>
  The work item store, \<open>internal/workitems/store.go\<close> and \<open>orphans.go\<close>: creation with its two
  dedupes, transitions under the state version, resumes, executions, intents, surface links, and
  the reads.
\<close>

section \<open>Create\<close>

definition new_item :: "gotime \<Rightarrow> string \<Rightarrow> create_input \<Rightarrow> work_item" where
  "new_item now uuid inp =
     (let m = cr_mutation inp in
      \<lparr>wi_id = WorkItemIDPrefix @ uuid, wi_tenant = cr_tenant inp, wi_owner = mu_actor m,
       wi_owner_principal = mu_actor_principal m, wi_origin_client = mu_actor_client m,
       wi_visibility = cr_visibility inp, wi_origin_surface = cr_origin_surface inp, wi_title = cr_title inp,
       wi_external_key = cr_external_key inp, wi_state = WorkActive, wi_waiting_reason = '''',
       wi_superseded_by = '''', wi_version = 1, wi_created_by = mu_actor m, wi_created_at = now,
       wi_updated_at = now, wi_completed_at = None\<rparr>)"

abbreviation cq_name :: "create_request \<Rightarrow> string \<times> string" where
  "cq_name q \<equiv> (cq_tenant q, cq_key q)"

definition rememberCreate :: "create_input \<Rightarrow> string \<Rightarrow> work_db \<Rightarrow> work_error + work_db" where
  "rememberCreate inp i db =
     (let m = cr_mutation inp in
      if mu_key m = '''' then Inr db
      else if tselect cq_name (wd_creates db) (cr_tenant inp, mu_key m) \<noteq> None then Inl WkFailed
      else Inr (db\<lparr>wd_creates := wd_creates db @
        [\<lparr>cq_tenant = cr_tenant inp, cq_key = mu_key m, cq_hash = mu_hash m, cq_actor = mu_actor m, cq_item = i\<rparr>]\<rparr>))"

definition open_state :: "work_state \<Rightarrow> bool" where
  "open_state st \<longleftrightarrow> st = WorkActive \<or> st = WorkWaiting"

text \<open>The open item of a tenant under an external key, which a partial unique index keeps single.\<close>

definition open_under :: "string \<Rightarrow> string \<Rightarrow> work_item \<Rightarrow> bool" where
  "open_under tenant key w \<longleftrightarrow> wi_tenant w = tenant \<and> wi_external_key w = key \<and> open_state (wi_state w)"

definition create_fresh :: "gotime \<Rightarrow> string \<Rightarrow> create_input \<Rightarrow> work_db \<Rightarrow> (work_item \<times> bool) wtx" where
  "create_fresh now uuid inp db =
     (let w = new_item now uuid inp in
      if list_ex (\<lambda>x. wi_id x = wi_id w \<or>
           wi_external_key w \<noteq> '''' \<and> open_under (wi_tenant w) (wi_external_key w) x) (wd_items db)
      then Inl WkFailed
      else andThen (rememberCreate inp (wi_id w)
             (appendEvent (wi_id w) EvCreated None (Some WorkActive) (cr_mutation inp) [] now
                (db\<lparr>wd_items := wd_items db @ [w]\<rparr>))) (\<lambda>db'. Inr (db', (w, True))))"

definition work_create_body :: "gotime \<Rightarrow> string \<Rightarrow> create_input \<Rightarrow> work_db \<Rightarrow> (work_item \<times> bool) wtx" where
  "work_create_body now uuid inp db =
     (let m = cr_mutation inp;
          old = (if mu_key m = '''' then None else tselect cq_name (wd_creates db) (cr_tenant inp, mu_key m))
      in case old of
        Some q \<Rightarrow>
          if cq_hash q \<noteq> mu_hash m \<or> cq_actor q \<noteq> mu_actor m then Inl WkIdempotencyKeyReuse
          else andThen (getItem (cq_item q) db) (\<lambda>w. Inr (db, (w, False)))
      | None \<Rightarrow>
          (case (if cr_external_key inp = '''' then None
                 else find (open_under (cr_tenant inp) (cr_external_key inp)) (wd_items db)) of
             Some w \<Rightarrow>
               if wi_visibility w \<noteq> cr_visibility inp \<or>
                  wi_visibility w = ''private'' \<and> wi_owner w \<noteq> mu_actor m
               then Inl WkExternalKeyInUse
               else andThen (rememberCreate inp (wi_id w) db) (\<lambda>db'. Inr (db', (w, False)))
           | None \<Rightarrow> create_fresh now uuid inp db))"

text \<open>The flag is \<open>created\<close>.\<close>

definition WorkCreate ::
  "tx_fault \<Rightarrow> gotime \<Rightarrow> string \<Rightarrow> create_input \<Rightarrow> work_db \<Rightarrow> work_db \<times> (work_error + work_item \<times> bool)" where
  "WorkCreate fault now uuid inp db =
     wk_precheck (create_validate inp) db (wk_withTx fault db (work_create_body now uuid inp db))"

section \<open>Transition\<close>

text \<open>\<open>UPDATE work_items ... WHERE id AND state_version\<close>.\<close>

definition move_item ::
  "string \<Rightarrow> int \<Rightarrow> (work_item \<Rightarrow> work_item) \<Rightarrow> gotime \<Rightarrow> work_db \<Rightarrow> work_item wtx" where
  "move_item i version f now db =
     (case tupdate wi_id i (\<lambda>w. wi_version w = version)
             (\<lambda>w. (f w)\<lparr>wi_version := wi_version w + 1, wi_updated_at := now\<rparr>) (wd_items db) of
        (rows, Some w) \<Rightarrow> Inr (db\<lparr>wd_items := rows\<rparr>, w)
      | (rows, None) \<Rightarrow> Inl WkVersionConflict)"

definition action_text :: "work_action \<Rightarrow> string" where
  "action_text a =
     (case a of ActionWait \<Rightarrow> ''wait'' | ActionResume \<Rightarrow> ''resume'' | ActionComplete \<Rightarrow> ''complete''
      | ActionSupersede \<Rightarrow> ''supersede'' | ActionArchive \<Rightarrow> ''archive'' | ActionOther s \<Rightarrow> s)"

definition nonempty_detail :: "string \<Rightarrow> string \<Rightarrow> (string \<times> string) list" where
  "nonempty_detail k v = (if v = '''' then [] else [(k, v)])"

definition successor_ok :: "work_transition_input \<Rightarrow> work_item \<Rightarrow> work_db \<Rightarrow> bool" where
  "successor_ok inp cur db \<longleftrightarrow>
     (wt_action inp = ActionSupersede \<longrightarrow>
        (case tselect wi_id (wd_items db) (wt_superseded_by inp) of
           None \<Rightarrow> False | Some next \<Rightarrow> wi_tenant next = wi_tenant cur))"

definition work_transition_body :: "gotime \<Rightarrow> work_transition_input \<Rightarrow> work_db \<Rightarrow> work_item wtx" where
  "work_transition_body now inp db =
     andThen (getItem (wt_item inp) db) (\<lambda>cur.
     andThen (replayed (wi_id cur) ''transition'' (wt_mutation inp) db) (\<lambda>seen.
       case seen of
         Some _ \<Rightarrow> Inr (db, cur)
       | None \<Rightarrow>
           if wi_version cur \<noteq> wt_expected inp then Inl WkVersionConflict
           else andThen (Next (wi_state cur) (wt_action inp)) (\<lambda>to.
             if \<not> successor_ok inp cur db then Inl WkInvalid
             else andThen (move_item (wi_id cur) (wi_version cur)
                    (\<lambda>w. w\<lparr>wi_state := to, wi_waiting_reason := wt_waiting_reason inp,
                           wi_superseded_by := wt_superseded_by inp,
                           wi_completed_at := (if IsTerminalState to then Some now else None)\<rparr>) now db) (\<lambda>(db1, w).
               let detail = (''action'', action_text (wt_action inp)) #
                     nonempty_detail ''waiting_reason'' (wt_waiting_reason inp) @
                     nonempty_detail ''superseded_by'' (wt_superseded_by inp)
               in andThen (remember (wi_id cur) ''transition'' '''' (wt_mutation inp)
                      (appendEvent (wi_id cur) EvStateChanged (Some (wi_state cur)) (Some to) (wt_mutation inp)
                         detail now db1)) (\<lambda>db2. Inr (db2, w))))))"

definition WorkTransition ::
  "tx_fault \<Rightarrow> gotime \<Rightarrow> work_transition_input \<Rightarrow> work_db \<Rightarrow> work_db \<times> (work_error + work_item)" where
  "WorkTransition fault now inp db =
     wk_precheck (work_transition_validate inp) db (wk_withTx fault db (work_transition_body now inp db))"

section \<open>Resume\<close>

definition same_run :: "string \<Rightarrow> string \<Rightarrow> execution \<Rightarrow> bool" where
  "same_run engine ref e \<longleftrightarrow> xe_engine e = engine \<and> xe_ref e = ref"

definition resume_from :: "string \<Rightarrow> execution list \<Rightarrow> string" where
  "resume_from from execs = (if from = '''' \<and> execs \<noteq> [] then xe_id (last execs) else from)"

definition resume_checks :: "resume_input \<Rightarrow> work_item \<Rightarrow> execution list \<Rightarrow> work_error option" where
  "resume_checks inp cur execs =
     (let from = resume_from (re_from inp) execs in first_error
       [if wi_version cur \<noteq> re_expected inp then Some WkVersionConflict else None,
        if IsTerminalState (wi_state cur) then Some WkInvalidTransition else None,
        if active_execution execs then Some WkExecutionActive else None,
        wk_require (execs \<noteq> [] \<or> wi_state cur \<noteq> WorkActive),
        wk_require (from = '''' \<or> containsExecution execs from),
        wk_require (\<not> list_ex (same_run (re_engine inp) (re_ref inp)) execs)])"

text \<open>A waiting item goes back to active, an active one stays.\<close>

definition resumed_state :: "work_state \<Rightarrow> work_error + work_state" where
  "resumed_state st = (if st = WorkWaiting then Next st ActionResume else Inr st)"

definition resumeTx ::
  "hash \<Rightarrow> string \<Rightarrow> work_item \<Rightarrow> resume_input \<Rightarrow> string \<Rightarrow> gotime \<Rightarrow> work_db \<Rightarrow> (work_item \<times> execution) wtx" where
  "resumeTx H uuid cur inp path now db =
     (let execs = listExecutions (wi_id cur) db; from = resume_from (re_from inp) execs in
      check (resume_checks inp cur execs)
        (andThen (insertExecution H uuid (re_mutation inp) (wi_id cur) (re_engine inp) (re_ref inp) ExPending from
             (int (length execs) + 1) path now db) (\<lambda>(db1, e).
         andThen (resumed_state (wi_state cur)) (\<lambda>to.
         andThen (move_item (wi_id cur) (wi_version cur)
             (\<lambda>w. w\<lparr>wi_state := to, wi_waiting_reason := ''''\<rparr>) now db1) (\<lambda>(db2, w).
           Inr (appendEvent (wi_id cur) EvResumed (Some (wi_state cur)) (Some to) (re_mutation inp)
                  ((''execution_id'', xe_id e) # nonempty_detail ''resumed_from_execution_id'' from) now db2,
                (w, e)))))))"

definition resume_body ::
  "hash \<Rightarrow> gotime \<Rightarrow> string \<Rightarrow> resume_input \<Rightarrow> work_db \<Rightarrow> (work_item \<times> execution \<times> bool) wtx" where
  "resume_body H now uuid inp db =
     andThen (getItem (re_item inp) db) (\<lambda>cur.
     andThen (replayed (wi_id cur) ''resume'' (re_mutation inp) db) (\<lambda>seen.
       case seen of
         Some result \<Rightarrow> andThen (getExecution (wi_id cur) result db) (\<lambda>e. Inr (db, (cur, e, False)))
       | None \<Rightarrow>
           andThen (resumeTx H uuid cur inp AttachPathResume now db) (\<lambda>(db1, (w, e)).
           andThen (remember (wi_id cur) ''resume'' (xe_id e) (re_mutation inp) db1) (\<lambda>db2.
             Inr (db2, (w, e, True))))))"

definition WorkResume ::
  "hash \<Rightarrow> tx_fault \<Rightarrow> gotime \<Rightarrow> string \<Rightarrow> resume_input \<Rightarrow> work_db \<Rightarrow>
     work_db \<times> (work_error + work_item \<times> execution \<times> bool)" where
  "WorkResume H fault now uuid inp db =
     wk_precheck (resume_validate inp) db (wk_withTx fault db (resume_body H now uuid inp db))"

section \<open>Executions\<close>

definition attach_checks :: "work_item \<Rightarrow> execution list \<Rightarrow> exec_phase \<Rightarrow> work_error option" where
  "attach_checks cur execs phase = first_error
     [if IsTerminalState (wi_state cur) then Some WkInvalidTransition else None,
      if \<not> IsTerminalPhase phase \<and> active_execution execs then Some WkExecutionActive else None]"

definition attachNewTx ::
  "hash \<Rightarrow> string \<Rightarrow> work_item \<Rightarrow> mutation \<Rightarrow> string \<Rightarrow> string \<Rightarrow> exec_phase \<Rightarrow> string \<Rightarrow> gotime \<Rightarrow> work_db \<Rightarrow> execution wtx" where
  "attachNewTx H uuid cur m engine ref phase path now db =
     (let execs = listExecutions (wi_id cur) db in
      check (attach_checks cur execs phase)
        (andThen (insertExecution H uuid m (wi_id cur) engine ref phase '''' (int (length execs) + 1) path now db)
           (\<lambda>(db1, e). Inr (appendEvent (wi_id cur) EvExecutionAttached None None m
              [(''execution_id'', xe_id e), (''engine'', engine), (''engine_ref'', ref)] now db1, e))))"

text \<open>A later phase of an execution already attached; a finished one never changes.\<close>

definition correlate_phase :: "exec_phase \<Rightarrow> gotime \<Rightarrow> execution \<Rightarrow> work_db \<Rightarrow> execution wtx" where
  "correlate_phase phase now e db =
     (if xe_phase e = phase then Inr (db, e)
      else if IsTerminalPhase (xe_phase e) then Inl WkInvalidTransition
      else (let e' = e\<lparr>xe_phase := phase, xe_ended_at := (if IsTerminalPhase phase then Some now else None)\<rparr> in
            if list_ex (\<lambda>x. xe_id x \<noteq> xe_id e \<and> xe_item x = xe_item e \<and>
                 \<not> IsTerminalPhase (xe_phase x) \<and> \<not> IsTerminalPhase phase) (wd_executions db)
            then Inl WkFailed
            else Inr (db\<lparr>wd_executions := tput xe_id (wd_executions db) e'\<rparr>, e')))"

definition attach_body ::
  "hash \<Rightarrow> gotime \<Rightarrow> string \<Rightarrow> execution_input \<Rightarrow> exec_phase \<Rightarrow> work_db \<Rightarrow> (execution \<times> bool) wtx" where
  "attach_body H now uuid inp phase db =
     andThen (getItem (xi_item inp) db) (\<lambda>cur.
     andThen (replayed (wi_id cur) ''execution'' (xi_mutation inp) db) (\<lambda>seen.
       case seen of
         Some result \<Rightarrow> andThen (getExecution (wi_id cur) result db) (\<lambda>e. Inr (db, (e, False)))
       | None \<Rightarrow>
           andThen (case find (\<lambda>e. xe_item e = wi_id cur \<and> same_run (xi_engine inp) (xi_ref inp) e) (wd_executions db) of
               Some e \<Rightarrow> andThen (correlate_phase phase now e db) (\<lambda>(db1, e'). Inr (db1, (e', False)))
             | None \<Rightarrow> andThen (attachNewTx H uuid cur (xi_mutation inp) (xi_engine inp) (xi_ref inp) phase AttachPathAttach now db)
                 (\<lambda>(db1, e). Inr (db1, (e, True)))) (\<lambda>(db1, (e, created)).
           andThen (remember (wi_id cur) ''execution'' (xe_id e) (xi_mutation inp) db1) (\<lambda>db2.
             Inr (db2, (e, created))))))"

definition AttachExecution ::
  "hash \<Rightarrow> tx_fault \<Rightarrow> gotime \<Rightarrow> string \<Rightarrow> execution_input \<Rightarrow> work_db \<Rightarrow> work_db \<times> (work_error + execution \<times> bool)" where
  "AttachExecution H fault now uuid inp db =
     wk_precheck (execution_validate inp) db
       (case xi_phase inp of
          None \<Rightarrow> (db, Inl WkInvalid)
        | Some phase \<Rightarrow> wk_withTx fault db (attach_body H now uuid inp phase db))"

text \<open>
  \<open>CloseOrphanedExecution\<close>: the execution is looked up before the transaction, in a ledger \<open>dbr\<close>
  other calls may have changed in between; the update compares and sets on its phase.
\<close>

datatype phase_word = PhaseWord exec_phase | PhaseEmpty | PhaseOther

record orphan_input =
  oc_mutation :: mutation
  oc_execution :: string
  oc_expected :: phase_word
  oc_engine_status :: string

definition ExecutionByID :: "string \<Rightarrow> work_db \<Rightarrow> work_error + execution" where
  "ExecutionByID i db = (case tselect xe_id (wd_executions db) i of None \<Rightarrow> Inl WkNotFound | Some e \<Rightarrow> Inr e)"

definition orphan_body :: "gotime \<Rightarrow> orphan_input \<Rightarrow> work_db \<Rightarrow> execution option wtx" where
  "orphan_body now inp db =
     (case tupdate xe_id (oc_execution inp) (\<lambda>e. PhaseWord (xe_phase e) = oc_expected inp)
             (\<lambda>e. e\<lparr>xe_phase := ExError, xe_ended_at := Some now\<rparr>) (wd_executions db) of
        (rows, None) \<Rightarrow> Inr (db, None)
      | (rows, Some e) \<Rightarrow>
          Inr (appendEvent (xe_item e) EvOrphanClosed None None (oc_mutation inp)
                 [(''execution_id'', xe_id e), (''engine_ref'', xe_ref e), (''engine_status'', oc_engine_status inp)] now
                 (db\<lparr>wd_executions := rows\<rparr>), Some e))"

definition orphan_validate :: "orphan_input \<Rightarrow> work_error option" where
  "orphan_validate inp = first_error
     [mutation_validate (oc_mutation inp),
      wk_require (oc_execution inp \<noteq> '''' \<and>
        (case oc_expected inp of PhaseEmpty \<Rightarrow> False | PhaseWord p \<Rightarrow> \<not> IsTerminalPhase p | PhaseOther \<Rightarrow> True))]"

definition CloseOrphanedExecution ::
  "tx_fault \<Rightarrow> gotime \<Rightarrow> orphan_input \<Rightarrow> work_db \<Rightarrow> work_db \<Rightarrow> work_db \<times> (work_error + execution option)" where
  "CloseOrphanedExecution fault now inp dbr db =
     wk_precheck (orphan_validate inp) db
       (case ExecutionByID (oc_execution inp) dbr of
          Inl e \<Rightarrow> (db, Inl e)
        | Inr _ \<Rightarrow> wk_withTx fault db (orphan_body now inp db))"

section \<open>Intents\<close>

definition getIntent :: "string \<Rightarrow> string \<Rightarrow> work_db \<Rightarrow> work_intent option" where
  "getIntent item i db = find (\<lambda>t. it_item t = item \<and> show_int (it_id t) = i) (wd_intents db)"

text \<open>The id is the value \<open>serial\<close> of the sequence.\<close>

definition intent_body :: "gotime \<Rightarrow> int \<Rightarrow> intent_input \<Rightarrow> work_db \<Rightarrow> (work_intent \<times> bool) wtx" where
  "intent_body now serial inp db =
     andThen (getItem (ii_item inp) db) (\<lambda>cur.
     andThen (replayed (wi_id cur) ''intent'' (ii_mutation inp) db) (\<lambda>seen.
       case seen of
         Some result \<Rightarrow> (case getIntent (wi_id cur) result db of
             None \<Rightarrow> Inl WkNotFound | Some t \<Rightarrow> Inr (db, (t, False)))
       | None \<Rightarrow>
           if IsTerminalState (wi_state cur) then Inl WkInvalidTransition
           else if serial \<in> it_id ` set (wd_intents db) then Inl WkFailed
           else (let m = ii_mutation inp;
                     t = \<lparr>it_id = serial, it_item = wi_id cur, it_actor = mu_actor m, it_surface = mu_surface m,
                          it_text = Some (ii_text inp),
                          it_params = (if ii_params inp = '''' then None else Some (ii_params inp)), it_created_at = now,
                          it_actor_principal = mu_actor_principal m, it_actor_client = mu_actor_client m\<rparr>
                 in andThen (remember (wi_id cur) ''intent'' (show_int serial) m
                      (appendEvent (wi_id cur) EvIntentAppended None None m [(''intent_id'', show_int serial)] now
                         (db\<lparr>wd_intents := wd_intents db @ [t]\<rparr>))) (\<lambda>db1. Inr (db1, (t, True))))))"

definition AppendIntent ::
  "tx_fault \<Rightarrow> gotime \<Rightarrow> int \<Rightarrow> intent_input \<Rightarrow> work_db \<Rightarrow> work_db \<times> (work_error + work_intent \<times> bool)" where
  "AppendIntent fault now serial inp db =
     wk_precheck (intent_validate inp) db (wk_withTx fault db (intent_body now serial inp db))"

text \<open>A page of intents after \<open>afterID\<close>, the flag \<open>Truncated\<close> and the limit it was cut to.\<close>

definition intent_limit :: "int \<Rightarrow> nat" where
  "intent_limit l = nat (clamp_limit DefaultIntentPageLimit MaxIntentPageLimit l)"

definition Intents :: "string \<Rightarrow> int \<Rightarrow> int \<Rightarrow> work_db \<Rightarrow> work_intent list \<times> bool \<times> nat" where
  "Intents item afterID l db =
     (let n = intent_limit l;
          rows = take (n + 1) (sort_key it_id (filter (\<lambda>t. it_item t = item \<and> afterID < it_id t) (wd_intents db)))
      in (take n rows, n < length rows, n))"

definition Intent :: "string \<Rightarrow> string \<Rightarrow> work_db \<Rightarrow> work_error + work_intent" where
  "Intent item i db = (case getIntent item i db of None \<Rightarrow> Inl IntentNotFound | Some t \<Rightarrow> Inr t)"

section \<open>Surfaces\<close>

abbreviation sf_name :: "surface_ref \<Rightarrow> string \<times> string \<times> string" where
  "sf_name r \<equiv> (sf_item r, sf_surface r, sf_external r)"

definition surface_body :: "gotime \<Rightarrow> surface_input \<Rightarrow> work_db \<Rightarrow> (surface_ref \<times> bool) wtx" where
  "surface_body now inp db =
     andThen (getItem (si_item inp) db) (\<lambda>cur.
       let m = si_mutation inp in
       case tselect sf_name (wd_surfaces db) (wi_id cur, mu_surface m, si_external inp) of
         Some r \<Rightarrow>
           (let r' = r\<lparr>sf_last_seen := now,
                 sf_actor_external := coalesce_nonempty (si_actor_external inp) (sf_actor_external r)\<rparr>
            in Inr (db\<lparr>wd_surfaces := tput sf_name (wd_surfaces db) r'\<rparr>, (r', False)))
       | None \<Rightarrow>
           (let r = \<lparr>sf_item = wi_id cur, sf_surface = mu_surface m, sf_external = si_external inp,
                     sf_actor_external = si_actor_external inp, sf_first_seen = now, sf_last_seen = now\<rparr>
            in Inr (appendEvent (wi_id cur) EvSurfaceLinked None None m [] now
                 (db\<lparr>wd_surfaces := wd_surfaces db @ [r]\<rparr>), (r, True))))"

definition LinkSurface ::
  "tx_fault \<Rightarrow> gotime \<Rightarrow> surface_input \<Rightarrow> work_db \<Rightarrow> work_db \<times> (work_error + surface_ref \<times> bool)" where
  "LinkSurface fault now inp db =
     wk_precheck (surface_validate inp) db (wk_withTx fault db (surface_body now inp db))"

section \<open>Reads\<close>

definition WorkGet :: "string \<Rightarrow> work_db \<Rightarrow> work_error + work_item" where
  "WorkGet i db = getItem i db"

definition Executions :: "string \<Rightarrow> work_db \<Rightarrow> execution list" where
  "Executions i db = listExecutions i db"

definition WorkEvents :: "string \<Rightarrow> work_db \<Rightarrow> work_event list" where
  "WorkEvents i db = sort_key ev_seq (filter (\<lambda>e. ev_item e = i) (wd_events db))"

record execution_correlation =
  xc_item :: string
  xc_engine :: string
  xc_ref :: string
  xc_tenant :: string
  xc_external_key :: string

definition ResolveExecution :: "string \<Rightarrow> work_db \<Rightarrow> execution_correlation option" where
  "ResolveExecution i db =
     (case tselect xe_id (wd_executions db) i of
        None \<Rightarrow> None
      | Some e \<Rightarrow> (case tselect wi_id (wd_items db) (xe_item e) of
          None \<Rightarrow> None
        | Some w \<Rightarrow> Some \<lparr>xc_item = xe_item e, xc_engine = xe_engine e, xc_ref = xe_ref e,
                          xc_tenant = wi_tenant w, xc_external_key = wi_external_key w\<rparr>))"

definition of_engine_run :: "string \<Rightarrow> string \<Rightarrow> execution \<Rightarrow> bool" where
  "of_engine_run engine run e \<longleftrightarrow>
     xe_engine e = engine \<and> (xe_ref e = run \<or> take (length run + 1) (xe_ref e) = run @ ''#'')"

definition OpenExecutionsOfEngineRun :: "string \<Rightarrow> string \<Rightarrow> work_db \<Rightarrow> execution list" where
  "OpenExecutionsOfEngineRun engine run db =
     sort_key (\<lambda>e. (xe_started_at e, xe_id e))
       (filter (\<lambda>e. of_engine_run engine run e \<and> \<not> IsTerminalPhase (xe_phase e)) (wd_executions db))"

definition OpenExecutionsWithQueuedRequests ::
  "string \<Rightarrow> gotime \<Rightarrow> nat \<Rightarrow> (gotime \<times> string) option \<Rightarrow> work_db \<Rightarrow> execution list" where
  "OpenExecutionsWithQueuedRequests engine older limit after db =
     take limit (sort_key (\<lambda>e. (xe_started_at e, xe_id e))
       (filter (\<lambda>e. xe_engine e = engine \<and> \<not> IsTerminalPhase (xe_phase e) \<and> xe_started_at e \<le> older \<and>
          list_ex (\<lambda>x. xr_item x = xe_item e \<and> (xr_state x = XrPending \<or> xr_state x = XrClaimed)) (wd_exec_requests db) \<and>
          (case after of None \<Rightarrow> True | Some c \<Rightarrow> snd c = '''' \<or> c < (xe_started_at e, xe_id e))) (wd_executions db)))"

text \<open>A filter of the listing; a state that is neither empty, \<open>open\<close> nor one of the five is \<open>StateUnknown\<close>.\<close>

datatype state_filter = StateOpen | StateIs work_state | StateUnknown

record work_filter =
  wf_tenants :: "string list"
  wf_all_tenants :: bool
  wf_state :: state_filter
  wf_owner :: string
  wf_viewer :: string
  wf_limit :: int

definition defaultListLimit :: int where "defaultListLimit = 100"
definition maxListLimit :: int where "maxListLimit = 500"

definition list_matches :: "work_filter \<Rightarrow> work_item \<Rightarrow> bool" where
  "list_matches f w \<longleftrightarrow>
     (wf_tenants f \<noteq> [] \<longrightarrow> wi_tenant w \<in> set (wf_tenants f)) \<and>
     (case wf_state f of StateOpen \<Rightarrow> open_state (wi_state w) | StateIs st \<Rightarrow> wi_state w = st | StateUnknown \<Rightarrow> False) \<and>
     (wf_owner f \<noteq> '''' \<longrightarrow> wi_owner w = wf_owner f) \<and>
     (wf_viewer f \<noteq> '''' \<longrightarrow> wi_visibility w = ''tenant'' \<or> wi_owner w = wf_viewer f)"

definition WorkList :: "work_filter \<Rightarrow> work_db \<Rightarrow> work_error + work_item list" where
  "WorkList f db =
     (if wf_state f = StateUnknown then Inl WkInvalid
      else if wf_tenants f = [] \<and> \<not> wf_all_tenants f then Inr []
      else Inr (take (nat (clamp_limit defaultListLimit maxListLimit (wf_limit f)))
             (sort_key (\<lambda>w. (- wi_updated_at w, wi_id w)) (filter (list_matches f) (wd_items db)))))"

end
