(* ===== verification/Work_Requests.thy ===== *)
theory Work_Requests
  imports Work_Store
begin

text \<open>
  Execution requests, \<open>internal/workitems/execution_requests.go\<close>: creation, the claim under a lease,
  fulfilment and rejection by the holder of the claim.
\<close>

definition MinClaimLease :: duration where "MinClaimLease = 5 * second"
definition MaxClaimLease :: duration where "MaxClaimLease = 15 * minute"
definition MaxExecutionRequestReason :: nat where "MaxExecutionRequestReason = 1024"
definition maxExecutionRequestList :: nat where "maxExecutionRequestList = 100"
definition claimCandidates :: nat where "claimCandidates = 8"
definition executionRequestClaimPrefix :: string where "executionRequestClaimPrefix = ''xc_''"

section \<open>Reading\<close>

text \<open>An empty item is no condition on the item.\<close>

definition getExecutionRequest :: "string \<Rightarrow> string \<Rightarrow> work_db \<Rightarrow> work_error + exec_request" where
  "getExecutionRequest item i db =
     (case tselect xr_id (wd_exec_requests db) i of
        None \<Rightarrow> Inl XrNotFound
      | Some x \<Rightarrow> if item = '''' \<or> xr_item x = item then Inr x else Inl XrNotFound)"

definition open_request :: "exec_request \<Rightarrow> bool" where
  "open_request x \<longleftrightarrow> xr_state x = XrPending \<or> xr_state x = XrClaimed"

definition openExecutionRequest :: "string \<Rightarrow> work_db \<Rightarrow> exec_request option" where
  "openExecutionRequest item db = find (\<lambda>x. xr_item x = item \<and> open_request x) (wd_exec_requests db)"

definition ExecutionRequests :: "string \<Rightarrow> work_db \<Rightarrow> exec_request list" where
  "ExecutionRequests item db =
     take maxExecutionRequestList (sort_key (\<lambda>x. (- xr_created_at x, xr_id x))
       (filter (\<lambda>x. xr_item x = item) (wd_exec_requests db)))"

text \<open>Whether the intent is there, and whether its text still is.\<close>

definition pinnedIntentState :: "string \<Rightarrow> int \<Rightarrow> work_db \<Rightarrow> bool \<times> bool" where
  "pinnedIntentState item i db =
     (case find (\<lambda>t. it_item t = item \<and> it_id t = i) (wd_intents db) of
        None \<Rightarrow> (False, False) | Some t \<Rightarrow> (True, it_text t \<noteq> None))"

section \<open>Create\<close>

datatype kind_word = KindWord xr_kind | KindOther

record exec_request_input =
  xq_mutation :: mutation
  xq_item :: string
  xq_kind :: kind_word
  xq_expected :: int
  xq_from :: string
  xq_intent :: "int option"

definition exec_request_validate :: "exec_request_input \<Rightarrow> work_error option" where
  "exec_request_validate inp = first_error
     [mutation_validate (xq_mutation inp), wk_require (xq_item inp \<noteq> ''''),
      wk_require (xq_kind inp \<noteq> KindOther \<and> (xq_kind inp = KindWord XrStart \<longrightarrow> xq_from inp = '''')),
      wk_require (0 < xq_expected inp), wk_require (case xq_intent inp of None \<Rightarrow> True | Some i \<Rightarrow> 0 < i),
      wk_require (mu_surface (xq_mutation inp) \<noteq> ''''), wk_text (xq_from inp) MaxExternalIDBytes False]"

text \<open>The answer is the execution a queued request waits behind, or the empty id.\<close>

definition checkRunnable ::
  "work_item \<Rightarrow> execution list \<Rightarrow> xr_kind \<Rightarrow> string \<Rightarrow> bool \<Rightarrow> work_error + string" where
  "checkRunnable cur execs kind from allowActive =
     (let active = filter (\<lambda>e. \<not> IsTerminalPhase (xe_phase e)) execs in
      if IsTerminalState (wi_state cur) then Inl WkInvalidTransition
      else if active \<noteq> [] \<and> \<not> allowActive then Inl WkExecutionActive
      else case kind of
        XrStart \<Rightarrow>
          if wi_state cur \<noteq> WorkActive then Inl WkInvalidTransition
          else if execs \<noteq> [] then Inl WkInvalidTransition
          else Inr ''''
      | XrResume \<Rightarrow>
          if execs = [] \<and> wi_state cur = WorkActive then Inl WkInvalid
          else if from \<noteq> '''' \<and> \<not> containsExecution execs from then Inl ExecutionNotFound
          else Inr (if active = [] then '''' else xe_id (last active)))"

definition intent_check :: "string \<Rightarrow> int option \<Rightarrow> work_db \<Rightarrow> work_error option" where
  "intent_check item i db =
     (case i of
        None \<Rightarrow> None
      | Some n \<Rightarrow> (case pinnedIntentState item n db of
          (found, readable) \<Rightarrow>
            if \<not> found then Some IntentNotFound else if \<not> readable then Some IntentUnavailable else None))"

definition kind_text :: "xr_kind \<Rightarrow> string" where
  "kind_text k = (case k of XrStart \<Rightarrow> ''start'' | XrResume \<Rightarrow> ''resume'')"

definition new_exec_request :: "gotime \<Rightarrow> string \<Rightarrow> exec_request_input \<Rightarrow> xr_kind \<Rightarrow> exec_request" where
  "new_exec_request now uuid inp kind =
     (let m = xq_mutation inp in
      \<lparr>xr_id = ExecutionRequestIDPrefix @ uuid, xr_item = xq_item inp, xr_kind = kind, xr_expected = xq_expected inp,
       xr_from = xq_from inp, xr_intent = xq_intent inp, xr_surface = mu_surface m, xr_requested_by = mu_actor m,
       xr_acting = mu_acting m, xr_key = mu_key m, xr_state = XrPending, xr_claimed_by = '''', xr_token = '''',
       xr_claimed_at = None, xr_claim_expires_at = None, xr_execution = '''', xr_reason = '''', xr_created_at = now,
       xr_updated_at = now, xr_closed_at = None, xr_requested_by_principal = mu_actor_principal m,
       xr_via_principal = mu_via_principal m, xr_claimed_by_principal = ''''\<rparr>)"

definition request_detail :: "exec_request \<Rightarrow> string \<Rightarrow> (string \<times> string) list" where
  "request_detail x queued =
     [(''execution_request_id'', xr_id x), (''kind'', kind_text (xr_kind x))] @
     (case xr_intent x of None \<Rightarrow> [] | Some i \<Rightarrow> [(''intent_id'', show_int i)]) @
     nonempty_detail ''resumed_from_execution_id'' (xr_from x) @
     nonempty_detail ''queued_behind_execution_id'' queued"

text \<open>\<open>queue\<close> is the switch \<open>queueWhileActive\<close>; the flag is \<open>created\<close>.\<close>

definition request_create_body ::
  "bool \<Rightarrow> gotime \<Rightarrow> string \<Rightarrow> exec_request_input \<Rightarrow> xr_kind \<Rightarrow> work_db \<Rightarrow> (exec_request \<times> bool) wtx" where
  "request_create_body queue now uuid inp kind db =
     andThen (getItem (xq_item inp) db) (\<lambda>cur.
     andThen (replayed (wi_id cur) ''execution_request'' (xq_mutation inp) db) (\<lambda>seen.
       case seen of
         Some result \<Rightarrow> andThen (getExecutionRequest (wi_id cur) result db) (\<lambda>x. Inr (db, (x, False)))
       | None \<Rightarrow>
           if wi_version cur \<noteq> xq_expected inp then Inl WkVersionConflict
           else if openExecutionRequest (wi_id cur) db \<noteq> None then Inl XrOpen
           else andThen (checkRunnable cur (listExecutions (wi_id cur) db) kind (xq_from inp) queue) (\<lambda>queued.
             check (intent_check (wi_id cur) (xq_intent inp) db)
               (let x = new_exec_request now uuid inp kind in
                if tselect xr_id (wd_exec_requests db) (xr_id x) \<noteq> None then Inl WkFailed
                else andThen (remember (wi_id cur) ''execution_request'' (xr_id x) (xq_mutation inp)
                       (appendEvent (wi_id cur) EvExecutionRequested None None (xq_mutation inp)
                          (request_detail x queued) now
                          (db\<lparr>wd_exec_requests := wd_exec_requests db @ [x]\<rparr>))) (\<lambda>db1. Inr (db1, (x, True)))))))"

definition CreateExecutionRequest ::
  "bool \<Rightarrow> tx_fault \<Rightarrow> gotime \<Rightarrow> string \<Rightarrow> exec_request_input \<Rightarrow> work_db \<Rightarrow>
     work_db \<times> (work_error + exec_request \<times> bool)" where
  "CreateExecutionRequest queue fault now uuid inp db =
     wk_precheck (exec_request_validate inp) db
       (case xq_kind inp of
          KindOther \<Rightarrow> (db, Inl WkInvalid)
        | KindWord kind \<Rightarrow> wk_withTx fault db (request_create_body queue now uuid inp kind db))"

section \<open>Claim\<close>

text \<open>Pending, or claimed under a lease that has lapsed.\<close>

definition claimable :: "gotime \<Rightarrow> exec_request \<Rightarrow> bool" where
  "claimable now x \<longleftrightarrow>
     xr_state x = XrPending \<or>
     xr_state x = XrClaimed \<and> (case xr_claim_expires_at x of None \<Rightarrow> False | Some t \<Rightarrow> t \<le> now)"

definition claimCandidateSQL :: "bool \<Rightarrow> gotime \<Rightarrow> work_db \<Rightarrow> (string \<times> string) list" where
  "claimCandidateSQL guard now db =
     map (\<lambda>x. (xr_id x, xr_item x)) (take claimCandidates (sort_key (\<lambda>x. (xr_created_at x, xr_id x))
       (filter (\<lambda>x. claimable now x \<and>
          (guard \<longrightarrow> \<not> list_ex (\<lambda>e. xe_item e = xr_item x \<and> \<not> IsTerminalPhase (xe_phase e)) (wd_executions db)))
         (wd_exec_requests db))))"

record claim_input =
  cl_mutation :: mutation
  cl_lease :: duration

definition claimed :: "claim_input \<Rightarrow> string \<Rightarrow> gotime \<Rightarrow> exec_request \<Rightarrow> exec_request" where
  "claimed inp token now x = x\<lparr>xr_state := XrClaimed, xr_claimed_by := mu_actor (cl_mutation inp),
     xr_token := token, xr_claimed_at := Some now, xr_claim_expires_at := Some (now + cl_lease inp),
     xr_updated_at := now, xr_claimed_by_principal := mu_actor_principal (cl_mutation inp)\<rparr>"

text \<open>
  One candidate, in its own transaction: the claim with its item and, of a pinned intent, whether
  its text is still readable; None when there is nothing to claim any more.
\<close>

definition claim_body ::
  "bool \<Rightarrow> gotime \<Rightarrow> string \<Rightarrow> claim_input \<Rightarrow> string \<times> string \<Rightarrow> work_db \<Rightarrow>
     (exec_request \<times> work_item \<times> bool option) option wtx" where
  "claim_body guard now uuid inp c db =
     (if guard \<and> active_execution (listExecutions (snd c) db) then Inr (db, None)
      else case tupdate xr_id (fst c) (claimable now) (claimed inp (executionRequestClaimPrefix @ uuid) now)
                  (wd_exec_requests db) of
        (rows, None) \<Rightarrow> Inr (db, None)
      | (rows, Some x) \<Rightarrow>
          andThen (getItem (snd c) db) (\<lambda>w.
            Inr (appendEvent (snd c) EvRequestClaimed None None (cl_mutation inp)
                   [(''execution_request_id'', xr_id x), (''claim_expires_at'', rfc3339 (now + cl_lease inp))] now
                   (db\<lparr>wd_exec_requests := rows\<rparr>),
                 Some (x, w, map_option (\<lambda>i. snd (pinnedIntentState (snd c) i db)) (xr_intent x)))))"

text \<open>
  The candidates in turn, until one is claimed or a transaction fails.  What else runs between two
  of them is in \<open>between\<close>, what the transaction of each meets in \<open>tries\<close>: the fault, the clock and the
  token drawn.
\<close>

fun claim_loop ::
  "bool \<Rightarrow> claim_input \<Rightarrow> (string \<times> string) list \<Rightarrow> (tx_fault \<times> gotime \<times> string \<times> (work_db \<Rightarrow> work_db)) list \<Rightarrow>
     work_db \<Rightarrow> work_db \<times> (work_error + (exec_request \<times> work_item \<times> bool option) option)" where
  "claim_loop guard inp [] tries db = (db, Inr None)"
| "claim_loop guard inp (c # cs) [] db = (db, Inl WkFailed)"
| "claim_loop guard inp (c # cs) ((fault, now, uuid, between) # tries) db =
     (case wk_withTx fault (between db) (claim_body guard now uuid inp c (between db)) of
        (db', Inl e) \<Rightarrow> (db', Inl e)
      | (db', Inr (Some r)) \<Rightarrow> (db', Inr (Some r))
      | (db', Inr None) \<Rightarrow> claim_loop guard inp cs tries db')"

definition claim_validate :: "claim_input \<Rightarrow> work_error option" where
  "claim_validate inp = first_error
     [mutation_validate (cl_mutation inp), wk_require (MinClaimLease \<le> cl_lease inp \<and> cl_lease inp \<le> MaxClaimLease)]"

text \<open>\<open>scan\<close> is the ledger of the scan with the clock, None when it fails.\<close>

definition ClaimExecutionRequest ::
  "bool \<Rightarrow> claim_input \<Rightarrow> (gotime \<times> work_db) option \<Rightarrow>
     (tx_fault \<times> gotime \<times> string \<times> (work_db \<Rightarrow> work_db)) list \<Rightarrow> work_db \<Rightarrow>
     work_db \<times> (work_error + (exec_request \<times> work_item \<times> bool option) option)" where
  "ClaimExecutionRequest guard inp scan tries db =
     wk_precheck (claim_validate inp) db
       (case scan of
          None \<Rightarrow> (db, Inl WkFailed)
        | Some (now, dbr) \<Rightarrow> claim_loop guard inp (claimCandidateSQL guard now dbr) tries db)"

section \<open>Fulfil and reject\<close>

record claim_ref =
  rf_mutation :: mutation
  rf_request :: string
  rf_token :: string

definition claim_ref_validate :: "claim_ref \<Rightarrow> work_error option" where
  "claim_ref_validate r = first_error
     [mutation_validate (rf_mutation r), wk_require (rf_request r \<noteq> ''''), wk_text (rf_token r) MaxExternalIDBytes True]"

definition holds_claim :: "claim_ref \<Rightarrow> exec_request \<Rightarrow> bool" where
  "holds_claim r x \<longleftrightarrow> xr_claimed_by x = mu_actor (rf_mutation r) \<and> xr_token x = rf_token r"

definition live_claim :: "gotime \<Rightarrow> claim_ref \<Rightarrow> exec_request \<Rightarrow> bool" where
  "live_claim now r x \<longleftrightarrow>
     xr_state x = XrClaimed \<and> holds_claim r x \<and>
     (case xr_claim_expires_at x of None \<Rightarrow> False | Some t \<Rightarrow> now < t)"

text \<open>
  \<open>lockedRequest\<close>: the item of the request is looked up before the transaction, in \<open>dbr\<close>; item and
  request are read again under the lock.
\<close>

definition lockedRequest ::
  "tx_fault \<Rightarrow> string \<Rightarrow> work_db \<Rightarrow> (exec_request \<Rightarrow> work_item \<Rightarrow> work_db \<Rightarrow> 'a wtx) \<Rightarrow> work_db \<Rightarrow>
     work_db \<times> (work_error + 'a)" where
  "lockedRequest fault i dbr body db =
     (case getExecutionRequest '''' i dbr of
        Inl e \<Rightarrow> (db, Inl e)
      | Inr x0 \<Rightarrow> wk_withTx fault db
          (andThen (getItem (xr_item x0) db) (\<lambda>cur.
           andThen (getExecutionRequest (xr_item x0) i db) (\<lambda>x. body x cur db))))"

definition close_request ::
  "string \<Rightarrow> (exec_request \<Rightarrow> exec_request) \<Rightarrow> work_db \<Rightarrow> exec_request wtx" where
  "close_request i f db =
     (case tupdate xr_id i (\<lambda>x. xr_state x = XrClaimed) f (wd_exec_requests db) of
        (rows, Some x) \<Rightarrow> Inr (db\<lparr>wd_exec_requests := rows\<rparr>, x)
      | (rows, None) \<Rightarrow> Inl WkFailed)"

record fulfil_input =
  ff_ref :: claim_ref
  ff_engine :: string
  ff_run :: string

definition checkStart :: "work_item \<Rightarrow> exec_request \<Rightarrow> fulfil_input \<Rightarrow> work_db \<Rightarrow> work_error option" where
  "checkStart cur x inp db =
     (let execs = listExecutions (wi_id cur) db in first_error
       [if wi_version cur \<noteq> xr_expected x then Some WkVersionConflict else None,
        wk_require (\<not> list_ex (same_run (ff_engine inp) (ff_run inp)) execs),
        case checkRunnable cur execs XrStart '''' False of Inl e \<Rightarrow> Some e | Inr _ \<Rightarrow> None])"

definition resume_of :: "exec_request \<Rightarrow> work_item \<Rightarrow> fulfil_input \<Rightarrow> resume_input" where
  "resume_of x cur inp = \<lparr>re_mutation = rf_mutation (ff_ref inp), re_item = wi_id cur, re_expected = xr_expected x,
     re_from = xr_from x, re_engine = ff_engine inp, re_ref = ff_run inp\<rparr>"

text \<open>The execution a fulfilment attaches, with the item as it then is.\<close>

definition attach_for ::
  "hash \<Rightarrow> gotime \<Rightarrow> string \<Rightarrow> fulfil_input \<Rightarrow> exec_request \<Rightarrow> work_item \<Rightarrow> work_db \<Rightarrow> (work_item \<times> execution) wtx" where
  "attach_for H now uuid inp x cur db =
     (case xr_kind x of
        XrStart \<Rightarrow>
          check (checkStart cur x inp db)
            (andThen (attachNewTx H uuid cur (rf_mutation (ff_ref inp)) (ff_engine inp) (ff_run inp) ExRunning
                AttachPathFulfilStart now db) (\<lambda>(db1, e). Inr (db1, (cur, e))))
      | XrResume \<Rightarrow> resumeTx H uuid cur (resume_of x cur inp) AttachPathFulfilResume now db)"

definition fulfil_claimed ::
  "hash \<Rightarrow> gotime \<Rightarrow> string \<Rightarrow> fulfil_input \<Rightarrow> exec_request \<Rightarrow> work_item \<Rightarrow> work_db \<Rightarrow>
     (exec_request \<times> work_item \<times> execution \<times> bool) wtx" where
  "fulfil_claimed H now uuid inp x cur db =
     (if \<not> live_claim now (ff_ref inp) x then Inl XrNotClaimed
      else if (case xr_intent x of None \<Rightarrow> False | Some i \<Rightarrow> \<not> snd (pinnedIntentState (wi_id cur) i db))
      then Inl IntentUnavailable
      else andThen (attach_for H now uuid inp x cur db) (\<lambda>(db1, (w, e)).
        andThen (close_request (xr_id x) (\<lambda>y. y\<lparr>xr_state := XrFulfilled, xr_execution := xe_id e,
              xr_updated_at := now, xr_closed_at := Some now\<rparr>) db1) (\<lambda>(db2, y).
          Inr (appendEvent (wi_id cur) EvRequestFulfilled None None (rf_mutation (ff_ref inp))
                 [(''execution_request_id'', xr_id x), (''execution_id'', xe_id e), (''requested_by'', xr_requested_by x)]
                 now db2, (y, w, e, True)))))"

definition fulfil_body ::
  "hash \<Rightarrow> gotime \<Rightarrow> string \<Rightarrow> fulfil_input \<Rightarrow> exec_request \<Rightarrow> work_item \<Rightarrow> work_db \<Rightarrow>
     (exec_request \<times> work_item \<times> execution \<times> bool) wtx" where
  "fulfil_body H now uuid inp x cur db =
     (case xr_state x of
        XrFulfilled \<Rightarrow>
          if \<not> holds_claim (ff_ref inp) x then Inl XrNotClaimed
          else andThen (getExecution (wi_id cur) (xr_execution x) db) (\<lambda>e.
            if \<not> same_run (ff_engine inp) (ff_run inp) e then Inl XrClosed else Inr (db, (x, cur, e, False)))
      | XrRejected \<Rightarrow> Inl XrClosed
      | _ \<Rightarrow> fulfil_claimed H now uuid inp x cur db)"

text \<open>The flag is \<open>created\<close>.\<close>

definition FulfilExecutionRequest ::
  "hash \<Rightarrow> tx_fault \<Rightarrow> gotime \<Rightarrow> string \<Rightarrow> fulfil_input \<Rightarrow> work_db \<Rightarrow> work_db \<Rightarrow>
     work_db \<times> (work_error + exec_request \<times> work_item \<times> execution \<times> bool)" where
  "FulfilExecutionRequest H fault now uuid inp dbr db =
     wk_precheck (first_error [claim_ref_validate (ff_ref inp), validateEngine (ff_engine inp) (ff_run inp)]) db
       (lockedRequest fault (rf_request (ff_ref inp)) dbr (fulfil_body H now uuid inp) db)"

record reject_input =
  rj_ref :: claim_ref
  rj_reason :: string

definition reject_body ::
  "gotime \<Rightarrow> reject_input \<Rightarrow> exec_request \<Rightarrow> work_item \<Rightarrow> work_db \<Rightarrow> (exec_request \<times> work_item \<times> bool) wtx" where
  "reject_body now inp x cur db =
     (case xr_state x of
        XrRejected \<Rightarrow>
          if \<not> holds_claim (rj_ref inp) x then Inl XrNotClaimed
          else if xr_reason x \<noteq> rj_reason inp then Inl XrClosed
          else Inr (db, (x, cur, False))
      | XrFulfilled \<Rightarrow> Inl XrClosed
      | _ \<Rightarrow>
          if \<not> live_claim now (rj_ref inp) x then Inl XrNotClaimed
          else andThen (close_request (xr_id x) (\<lambda>y. y\<lparr>xr_state := XrRejected, xr_reason := rj_reason inp,
                xr_updated_at := now, xr_closed_at := Some now\<rparr>) db) (\<lambda>(db1, y).
            Inr (appendEvent (wi_id cur) EvRequestRejected None None (rf_mutation (rj_ref inp))
                   [(''execution_request_id'', xr_id x), (''requested_by'', xr_requested_by x)] now db1, (y, cur, True))))"

definition RejectExecutionRequest ::
  "tx_fault \<Rightarrow> gotime \<Rightarrow> reject_input \<Rightarrow> work_db \<Rightarrow> work_db \<Rightarrow> work_db \<times> (work_error + exec_request \<times> work_item \<times> bool)" where
  "RejectExecutionRequest fault now inp dbr db =
     wk_precheck (first_error [claim_ref_validate (rj_ref inp), wk_text (rj_reason inp) MaxExecutionRequestReason True,
         wk_secrets (rj_reason inp)]) db
       (lockedRequest fault (rf_request (rj_ref inp)) dbr (reject_body now inp) db)"

end
