(* ===== verification/Work_Tokens.thy ===== *)
theory Work_Tokens
  imports Work_Requests Auth_User
begin

text \<open>
  Sealed context snapshots and agent run tokens, \<open>internal/workitems/snapshots.go\<close> and
  \<open>agent_run_tokens.go\<close>.  \<open>H\<close> is SHA-256 in lower-case hex.
\<close>

section \<open>Snapshots\<close>

definition MaxSnapshotBytes :: nat where "MaxSnapshotBytes = 1048576"

definition HashCanonical :: "hash \<Rightarrow> string \<Rightarrow> string" where
  "HashCanonical H bytes = ''sha256:'' @ H bytes"

definition SnapshotIDFor :: "hash \<Rightarrow> string \<Rightarrow> string \<Rightarrow> string" where
  "SnapshotIDFor H execution content = SnapshotIDPrefix @ take 32 (H (execution @ char_of (0 :: nat) # content))"

text \<open>\<open>sn_object\<close>: the bytes are one JSON object.\<close>

record snapshot_input =
  sn_mutation :: mutation
  sn_item :: string
  sn_execution :: string
  sn_sequence :: int
  sn_canonical :: string
  sn_object :: bool
  sn_hash :: string
  sn_strategy :: string
  sn_strategy_version :: string
  sn_prior_execution :: string
  sn_prior_snapshot :: string

definition has_prefix :: "string \<Rightarrow> string \<Rightarrow> bool" where
  "has_prefix p s \<longleftrightarrow> take (length p) s = p"

definition snapshot_validate :: "hash \<Rightarrow> snapshot_input \<Rightarrow> work_error option" where
  "snapshot_validate H inp = first_error
     [mutation_validate (sn_mutation inp), wk_require (mu_key (sn_mutation inp) = ''''),
      wk_require (sn_item inp \<noteq> '''' \<and> has_prefix ExecutionIDPrefix (sn_execution inp)),
      wk_require (1 \<le> sn_sequence inp),
      wk_require (sn_canonical inp \<noteq> '''' \<and> length (sn_canonical inp) \<le> MaxSnapshotBytes),
      wk_require (sn_object inp), wk_require (sn_hash inp = HashCanonical H (sn_canonical inp)),
      wk_text (sn_strategy inp) MaxKeyBytes True, wk_text (sn_strategy_version inp) MaxKeyBytes True,
      wk_require (sn_prior_snapshot inp = '''' \<or> has_prefix SnapshotIDPrefix (sn_prior_snapshot inp)),
      wk_require (sn_prior_execution inp = '''' \<or> has_prefix ExecutionIDPrefix (sn_prior_execution inp))]"

text \<open>A row whose bytes no longer hash to its hash is never served.\<close>

definition scanSnapshot :: "hash \<Rightarrow> context_snapshot \<Rightarrow> work_error + context_snapshot" where
  "scanSnapshot H c = (if HashCanonical H (cs_canonical c) = cs_hash c then Inr c else Inl WkFailed)"

definition getSnapshot :: "hash \<Rightarrow> string \<Rightarrow> string \<Rightarrow> work_db \<Rightarrow> work_error + context_snapshot" where
  "getSnapshot H item i db =
     (case find (\<lambda>c. cs_item c = item \<and> cs_id c = i) (wd_snapshots db) of
        None \<Rightarrow> Inl SnapshotNotFound | Some c \<Rightarrow> scanSnapshot H c)"

definition resolvePriorExecution :: "hash \<Rightarrow> string \<Rightarrow> snapshot_input \<Rightarrow> work_db \<Rightarrow> work_error + string" where
  "resolvePriorExecution H item inp db =
     (if sn_prior_execution inp \<noteq> '''' \<or> sn_prior_snapshot inp = '''' then Inr (sn_prior_execution inp)
      else case getSnapshot H item (sn_prior_snapshot inp) db of
        Inl e \<Rightarrow> if e = SnapshotNotFound then Inr '''' else Inl e
      | Inr prior \<Rightarrow> Inr (cs_execution prior))"

definition prior_snapshot_execution :: "hash \<Rightarrow> string \<Rightarrow> snapshot_input \<Rightarrow> work_db \<Rightarrow> work_error + string" where
  "prior_snapshot_execution H item inp db =
     (if sn_prior_snapshot inp = '''' then Inr (sn_prior_execution inp)
      else case getSnapshot H item (sn_prior_snapshot inp) db of
        Inl e \<Rightarrow> Inl (if e = SnapshotNotFound then PriorSnapshot else e)
      | Inr prior \<Rightarrow>
          if sn_prior_execution inp \<noteq> '''' \<and> sn_prior_execution inp \<noteq> cs_execution prior then Inl PriorSnapshot
          else Inr (cs_execution prior))"

definition checkPrior :: "hash \<Rightarrow> string \<Rightarrow> execution \<Rightarrow> snapshot_input \<Rightarrow> work_db \<Rightarrow> work_error + string" where
  "checkPrior H item e inp db =
     andThen (prior_snapshot_execution H item inp db) (\<lambda>prior.
       if prior = '''' then Inr ''''
       else case getExecution item prior db of
         Inl _ \<Rightarrow> Inl PriorSnapshot
       | Inr pe \<Rightarrow> if xe_attempt e \<le> xe_attempt pe then Inl PriorSnapshot else Inr prior)"

definition sealed :: "hash \<Rightarrow> gotime \<Rightarrow> snapshot_input \<Rightarrow> execution \<Rightarrow> string \<Rightarrow> context_snapshot" where
  "sealed H now inp e prior =
     \<lparr>cs_id = SnapshotIDFor H (xe_id e) (sn_hash inp), cs_item = sn_item inp, cs_execution = xe_id e,
      cs_sequence = xe_attempt e, cs_hash = sn_hash inp, cs_canonical = sn_canonical inp,
      cs_strategy = sn_strategy inp, cs_strategy_version = sn_strategy_version inp,
      cs_prior_execution = prior, cs_prior_snapshot = sn_prior_snapshot inp,
      cs_produced_by = mu_actor (sn_mutation inp), cs_created_at = now\<rparr>"

definition same_claims :: "snapshot_input \<Rightarrow> string \<Rightarrow> context_snapshot \<Rightarrow> bool" where
  "same_claims inp prior c \<longleftrightarrow>
     cs_strategy c = sn_strategy inp \<and> cs_strategy_version c = sn_strategy_version inp \<and>
     cs_prior_execution c = prior \<and> cs_prior_snapshot c = sn_prior_snapshot inp"

definition seal_body :: "hash \<Rightarrow> gotime \<Rightarrow> snapshot_input \<Rightarrow> work_db \<Rightarrow> (context_snapshot \<times> bool) wtx" where
  "seal_body H now inp db =
     andThen (getItem (sn_item inp) db) (\<lambda>cur.
       case getExecution (wi_id cur) (sn_execution inp) db of
         Inl _ \<Rightarrow> Inl ExecutionNotFound
       | Inr e \<Rightarrow>
           if xe_attempt e \<noteq> sn_sequence inp then Inl WkInvalid
           else case tselect cs_execution (wd_snapshots db) (xe_id e) of
             Some old \<Rightarrow>
               andThen (scanSnapshot H old) (\<lambda>c.
                 if cs_hash c \<noteq> sn_hash inp then Inl SnapshotDivergence
                 else andThen (resolvePriorExecution H (wi_id cur) inp db) (\<lambda>prior.
                   if \<not> same_claims inp prior c then Inl SnapshotDivergence else Inr (db, (c, False))))
           | None \<Rightarrow>
               andThen (checkPrior H (wi_id cur) e inp db) (\<lambda>prior.
                 let c = sealed H now inp e prior in
                 if cs_id c \<in> cs_id ` set (wd_snapshots db) then Inl WkFailed
                 else Inr (appendEvent (wi_id cur) EvSnapshotSealed None None (sn_mutation inp)
                        [(''snapshot_id'', cs_id c), (''execution_id'', xe_id e), (''content_hash'', cs_hash c)] now
                        (db\<lparr>wd_snapshots := wd_snapshots db @ [c]\<rparr>), (c, True))))"

definition SealSnapshot ::
  "hash \<Rightarrow> tx_fault \<Rightarrow> gotime \<Rightarrow> snapshot_input \<Rightarrow> work_db \<Rightarrow> work_db \<times> (work_error + context_snapshot \<times> bool)" where
  "SealSnapshot H fault now inp db =
     wk_precheck (snapshot_validate H inp) db (wk_withTx fault db (seal_body H now inp db))"

definition ExecutionSnapshot :: "hash \<Rightarrow> string \<Rightarrow> string \<Rightarrow> work_db \<Rightarrow> work_error + context_snapshot" where
  "ExecutionSnapshot H item execution db =
     (case find (\<lambda>c. cs_item c = item \<and> cs_execution c = execution) (wd_snapshots db) of
        None \<Rightarrow> Inl SnapshotNotFound | Some c \<Rightarrow> scanSnapshot H c)"

text \<open>A reference to a snapshot: its id, execution and content hash.\<close>

definition LatestSnapshot :: "string \<Rightarrow> work_db \<Rightarrow> (string \<times> string \<times> string) option" where
  "LatestSnapshot item db =
     (case rev (sort_key cs_sequence (filter (\<lambda>c. cs_item c = item) (wd_snapshots db))) of
        [] \<Rightarrow> None | c # _ \<Rightarrow> Some (cs_id c, cs_execution c, cs_hash c))"

section \<open>Run tokens\<close>

definition DefaultAgentRunTokenTTL :: duration where "DefaultAgentRunTokenTTL = hour"
definition MaxAgentRunTokenTTL :: duration where "MaxAgentRunTokenTTL = 24 * hour"
definition AgentRunTokenIDPrefix :: string where "AgentRunTokenIDPrefix = ''art_''"

record mint_input =
  mi_agent :: string
  mi_agent_principal :: string
  mi_execution :: string
  mi_permissions :: "string list"
  mi_scope :: string
  mi_ttl :: duration
  mi_issued_by :: string
  mi_tenant :: string
  mi_via_principal :: string
  mi_without_execution :: bool
  mi_grant :: string

text \<open>The work item the token is bound to, read from \<open>dbr\<close>: empty for a token without an execution.\<close>

definition mint_item :: "mint_input \<Rightarrow> work_db \<Rightarrow> work_error + string" where
  "mint_item inp dbr =
     (if mi_without_execution inp \<and> mi_execution inp \<noteq> '''' then Inl RunTokenBinding
      else if mi_grant inp \<noteq> '''' \<and> \<not> mi_without_execution inp then Inl RunTokenBinding
      else if mi_without_execution inp then Inr ''''
      else case tselect xe_id (wd_executions dbr) (mi_execution inp) of
        None \<Rightarrow> Inl WkNotFound
      | Some e \<Rightarrow> if IsTerminalPhase (xe_phase e) then Inl ExecutionTerminal else Inr (xe_item e))"

definition minted :: "hash \<Rightarrow> gotime \<Rightarrow> string \<Rightarrow> string \<Rightarrow> mint_input \<Rightarrow> string \<Rightarrow> run_token" where
  "minted H now uuid secret inp item =
     \<lparr>tk_id = AgentRunTokenIDPrefix @ uuid, tk_hash = H secret, tk_agent = mi_agent inp,
      tk_agent_principal = mi_agent_principal inp, tk_execution = mi_execution inp, tk_item = item,
      tk_permissions = mi_permissions inp, tk_scope = mi_scope inp, tk_issued_by = mi_issued_by inp,
      tk_tenant = mi_tenant inp, tk_via_principal = mi_via_principal inp, tk_grant = mi_grant inp,
      tk_created_at = now,
      tk_expires_at = now + (if mi_ttl inp \<le> 0 then DefaultAgentRunTokenTTL else mi_ttl inp), tk_revoked_at = None\<rparr>"

text \<open>
  The execution is read from \<open>dbr\<close> (None when the read fails) before the insert; \<open>secret\<close> is what the
  random source gave, None when it failed.
\<close>

definition MintAgentRunToken ::
  "hash \<Rightarrow> bool \<Rightarrow> gotime \<Rightarrow> string \<Rightarrow> string option \<Rightarrow> mint_input \<Rightarrow> work_db option \<Rightarrow> work_db \<Rightarrow>
     work_db \<times> (work_error + run_token \<times> string)" where
  "MintAgentRunToken H ok now uuid secret inp dbr db =
     (if MaxAgentRunTokenTTL < (if mi_ttl inp \<le> 0 then DefaultAgentRunTokenTTL else mi_ttl inp) then (db, Inl RunTokenTTL)
      else case (case dbr of
                   None \<Rightarrow> if mi_without_execution inp \<or> mi_grant inp \<noteq> '''' then mint_item inp db else Inl WkFailed
                 | Some d \<Rightarrow> mint_item inp d) of
        Inl e \<Rightarrow> (db, Inl e)
      | Inr item \<Rightarrow> (case secret of
          None \<Rightarrow> (db, Inl WkFailed)
        | Some s \<Rightarrow>
            (let t = minted H now uuid s inp item in
             if \<not> ok \<or> list_ex (\<lambda>x. tk_id x = tk_id t \<or> tk_hash x = tk_hash t) (wd_tokens db) then (db, Inl WkFailed)
             else (db\<lparr>wd_tokens := wd_tokens db @ [t]\<rparr>, Inr (t, s)))))"

text \<open>Whether the execution a token is bound to still runs; one it lacks is as good as ended.\<close>

definition bound_run_open :: "run_token \<Rightarrow> work_db \<Rightarrow> bool" where
  "bound_run_open t db \<longleftrightarrow>
     tk_execution t = '''' \<or>
     (case tselect xe_id (wd_executions db) (tk_execution t) of
        None \<Rightarrow> False | Some e \<Rightarrow> \<not> IsTerminalPhase (xe_phase e))"

definition ResolveAgentRunToken :: "hash \<Rightarrow> gotime \<Rightarrow> string \<Rightarrow> work_db \<Rightarrow> work_error + string \<times> agent_run" where
  "ResolveAgentRunToken H now secret db =
     (case tselect tk_hash (wd_tokens db) (H secret) of
        None \<Rightarrow> Inl RunNotFound
      | Some t \<Rightarrow>
          if tk_revoked_at t \<noteq> None \<or> tk_expires_at t \<le> now \<or> \<not> bound_run_open t db then Inl RunNotFound
          else Inr (tk_agent t,
            \<lparr>ar_execution = tk_execution t, ar_work_item = tk_item t, ar_run = tk_id t, ar_scope = tk_scope t,
             ar_tenant = tk_tenant t, ar_grant = tk_grant t\<rparr>))"

definition RevokeAgentRunToken :: "gotime \<Rightarrow> string \<Rightarrow> work_db \<Rightarrow> work_db" where
  "RevokeAgentRunToken now i db = db\<lparr>wd_tokens := map
     (\<lambda>t. if tk_id t = i \<and> tk_revoked_at t = None then t\<lparr>tk_revoked_at := Some now\<rparr> else t) (wd_tokens db)\<rparr>"

definition PurgeExpiredAgentRunTokens :: "gotime \<Rightarrow> duration \<Rightarrow> work_db \<Rightarrow> work_db \<times> nat" where
  "PurgeExpiredAgentRunTokens now grace db =
     (let keep = filter (\<lambda>t. now - grace \<le> tk_expires_at t) (wd_tokens db)
      in (db\<lparr>wd_tokens := keep\<rparr>, length (wd_tokens db) - length keep))"

end
