(* ===== verification/Work_Step.thy ===== *)
theory Work_Step
  imports Work_Tokens
begin

text \<open>
  What the store lets happen to its tables, as relations on them: items with their events, executions
  with their provenance, execution requests, snapshots.  Every operation implements them, whatever
  the reads outside its lock returned and whatever PostgreSQL did to its transaction.
\<close>

section \<open>Items and events\<close>

text \<open>What no operation writes in an item.\<close>

definition same_work :: "work_item \<Rightarrow> work_item \<Rightarrow> bool" where
  "same_work w w' \<longleftrightarrow>
     wi_id w' = wi_id w \<and> wi_tenant w' = wi_tenant w \<and> wi_owner w' = wi_owner w \<and>
     wi_visibility w' = wi_visibility w \<and> wi_external_key w' = wi_external_key w \<and>
     wi_created_by w' = wi_created_by w \<and> wi_created_at w' = wi_created_at w"

definition allowed_move :: "work_item \<Rightarrow> work_item \<Rightarrow> bool" where
  "allowed_move w w' \<longleftrightarrow>
     same_work w w' \<and> \<not> IsTerminalState (wi_state w) \<and> wi_version w' = wi_version w + 1 \<and>
     (wi_state w' = wi_state w \<or> (\<exists>a. Transitions (wi_state w) a = Some (wi_state w')))"

definition numbered :: "work_event list \<Rightarrow> work_event \<Rightarrow> bool" where
  "numbered evs e \<longleftrightarrow> ev_seq e = next_seq (ev_item e) evs"

inductive item_step :: "work_item list \<times> work_event list \<Rightarrow> work_item list \<times> work_event list \<Rightarrow> bool" where
  remark: "numbered evs e \<Longrightarrow> ev_from e = None \<Longrightarrow> ev_to e = None \<Longrightarrow> item_step (items, evs) (items, evs @ [e])"
| opened: "tselect wi_id items (wi_id w) = None \<Longrightarrow> wi_id w \<noteq> '''' \<Longrightarrow> wi_state w = WorkActive \<Longrightarrow> wi_version w = 1 \<Longrightarrow>
    (wi_external_key w = '''' \<or> \<not> list_ex (open_under (wi_tenant w) (wi_external_key w)) items) \<Longrightarrow>
    numbered evs e \<Longrightarrow> ev_item e = wi_id w \<Longrightarrow> ev_from e = None \<Longrightarrow> ev_to e = Some WorkActive \<Longrightarrow>
    item_step (items, evs) (items @ [w], evs @ [e])"
| moved: "tselect wi_id items i = Some w \<Longrightarrow> allowed_move w w' \<Longrightarrow> numbered evs e \<Longrightarrow> ev_item e = i \<Longrightarrow>
    ev_from e = Some (wi_state w) \<Longrightarrow> ev_to e = Some (wi_state w') \<Longrightarrow>
    item_step (items, evs) (tput wi_id items w', evs @ [e])"

section \<open>Executions and provenance\<close>

abbreviation runs_of :: "string \<Rightarrow> execution list \<Rightarrow> execution list" where
  "runs_of i xs \<equiv> filter (\<lambda>e. xe_item e = i) xs"

definition prov_of :: "hash \<Rightarrow> execution \<Rightarrow> string \<Rightarrow> provenance \<Rightarrow> bool" where
  "prov_of H e root p \<longleftrightarrow>
     pv_execution p = xe_id e \<and> pv_parent p = xe_from e \<and> pv_root p = root \<and> pv_contract p = ContractVersion \<and>
     pv_attempt p = AttemptID H (xe_engine e) (xe_ref e) \<and> pv_lineage p = LineageRoot H root"

inductive exec_step ::
  "hash \<Rightarrow> string set \<Rightarrow> execution list \<times> provenance list \<Rightarrow> execution list \<times> provenance list \<Rightarrow> bool" for H items where
  unrun: "exec_step H items xp xp"
| run: "\<not> list_ex (exec_clash e) xs \<Longrightarrow> xe_item e \<in> items \<Longrightarrow> xe_attempt e = int (length (runs_of (xe_item e) xs)) + 1 \<Longrightarrow>
    xe_id e \<noteq> '''' \<Longrightarrow> (xe_from e = '''' \<or> xe_from e \<in> xe_id ` set (runs_of (xe_item e) xs)) \<Longrightarrow>
    (if xe_from e = '''' then root = xe_id e
     else case tselect pv_execution ps (xe_from e) of
       Some q \<Rightarrow> root = pv_root q | None \<Rightarrow> walk_lineage maxLineageWalk (xs @ [e]) (xe_from e) = Some root) \<Longrightarrow>
    tselect pv_execution ps (xe_id e) = None \<Longrightarrow> prov_of H e root p \<Longrightarrow>
    exec_step H items (xs, ps) (xs @ [e], ps @ [p])"
| phase: "tselect xe_id xs i = Some e \<Longrightarrow> \<not> IsTerminalPhase (xe_phase e) \<Longrightarrow>
    exec_step H items (xs, ps) (tput xe_id xs (e\<lparr>xe_phase := ph, xe_ended_at := t\<rparr>), ps)"

section \<open>Execution requests\<close>

text \<open>What a fulfilment adds is the execution the same transaction attached.\<close>

inductive request_step ::
  "execution list \<Rightarrow> execution list \<Rightarrow> exec_request list \<Rightarrow> exec_request list \<Rightarrow> bool" for xs xs' where
  unasked: "request_step xs xs' rs rs"
| asked: "tselect xr_id rs (xr_id x) = None \<Longrightarrow> xr_state x = XrPending \<Longrightarrow> xr_execution x = '''' \<Longrightarrow>
    find (\<lambda>y. xr_item y = xr_item x \<and> open_request y) rs = None \<Longrightarrow> request_step xs xs' rs (rs @ [x])"
| taken: "tselect xr_id rs i = Some x \<Longrightarrow> open_request x \<Longrightarrow> claimable now x \<Longrightarrow>
    request_step xs xs' rs (tput xr_id rs (claimed inp token now x))"
| fulfilled: "tselect xr_id rs i = Some x \<Longrightarrow> xr_state x = XrClaimed \<Longrightarrow> xs' = xs @ [e] \<Longrightarrow> xe_item e = xr_item x \<Longrightarrow>
    request_step xs xs' rs (tput xr_id rs (x\<lparr>xr_state := XrFulfilled, xr_execution := xe_id e,
      xr_updated_at := now, xr_closed_at := Some now\<rparr>))"
| rejected: "tselect xr_id rs i = Some x \<Longrightarrow> xr_state x = XrClaimed \<Longrightarrow>
    request_step xs xs' rs (tput xr_id rs (x\<lparr>xr_state := XrRejected, xr_reason := why, xr_updated_at := now,
      xr_closed_at := Some now\<rparr>))"

section \<open>Snapshots\<close>

inductive snapshot_step :: "hash \<Rightarrow> execution list \<Rightarrow> context_snapshot list \<Rightarrow> context_snapshot list \<Rightarrow> bool" for H xs where
  unsealed: "snapshot_step H xs cs cs"
| seal: "tselect cs_execution cs (cs_execution c) = None \<Longrightarrow> e \<in> set xs \<Longrightarrow> xe_id e = cs_execution c \<Longrightarrow>
    xe_item e = cs_item c \<Longrightarrow> cs_sequence c = xe_attempt e \<Longrightarrow>
    cs_hash c = HashCanonical H (cs_canonical c) \<Longrightarrow> snapshot_step H xs cs (cs @ [c])"

section \<open>The step of a database\<close>

definition work_step :: "hash \<Rightarrow> work_db \<Rightarrow> work_db \<Rightarrow> bool" where
  "work_step H db db' \<longleftrightarrow>
     item_step\<^sup>*\<^sup>* (wd_items db, wd_events db) (wd_items db', wd_events db') \<and>
     exec_step H (wi_id ` set (wd_items db)) (wd_executions db, wd_provenance db) (wd_executions db', wd_provenance db') \<and>
     request_step (wd_executions db) (wd_executions db') (wd_exec_requests db) (wd_exec_requests db') \<and>
     snapshot_step H (wd_executions db) (wd_snapshots db) (wd_snapshots db')"

text \<open>A database with other idempotency keys, intents, surfaces and tokens only.\<close>

definition same_core :: "work_db \<Rightarrow> work_db \<Rightarrow> bool" where
  "same_core db db' \<longleftrightarrow>
     wd_items db' = wd_items db \<and> wd_executions db' = wd_executions db \<and> wd_provenance db' = wd_provenance db \<and>
     wd_exec_requests db' = wd_exec_requests db \<and> wd_snapshots db' = wd_snapshots db"

lemma work_step_core:
  assumes "same_core db db'" and "item_step\<^sup>*\<^sup>* (wd_items db, wd_events db) (wd_items db', wd_events db')"
  shows "work_step H db db'"
  using assms by (simp add: work_step_def same_core_def exec_step.unrun request_step.unasked snapshot_step.unsealed)

lemma work_step_refl [simp]: "work_step H db db"
  by (rule work_step_core) (simp_all add: same_core_def)

text \<open>Appending an event, on top of the same items.\<close>

lemma appendEvent_simps [simp]:
  "wd_items (appendEvent i k from to m d t db) = wd_items db"
  "wd_executions (appendEvent i k from to m d t db) = wd_executions db"
  "wd_provenance (appendEvent i k from to m d t db) = wd_provenance db"
  "wd_exec_requests (appendEvent i k from to m d t db) = wd_exec_requests db"
  "wd_snapshots (appendEvent i k from to m d t db) = wd_snapshots db"
  "wd_requests (appendEvent i k from to m d t db) = wd_requests db"
  "wd_creates (appendEvent i k from to m d t db) = wd_creates db"
  "wd_intents (appendEvent i k from to m d t db) = wd_intents db"
  "wd_tokens (appendEvent i k from to m d t db) = wd_tokens db"
  by (simp_all add: appendEvent_def)

lemma appendEvent_last:
  "\<exists>e. wd_events (appendEvent i k from to m d t db) = wd_events db @ [e] \<and> numbered (wd_events db) e \<and>
     ev_item e = i \<and> ev_from e = from \<and> ev_to e = to"
  by (simp add: appendEvent_def numbered_def)

lemma appendEvent_remark:
  "item_step (items, wd_events db) (items, wd_events (appendEvent i k None None m d t db))"
  using appendEvent_last [of i k None None m d t db] by (auto intro: item_step.remark)

lemma appendEvent_moved:
  assumes "tselect wi_id items i = Some w" and "allowed_move w w'"
  shows "item_step (items, wd_events db)
    (tput wi_id items w', wd_events (appendEvent i k (Some (wi_state w)) (Some (wi_state w')) m d t db))"
proof -
  obtain e where e: "wd_events (appendEvent i k (Some (wi_state w)) (Some (wi_state w')) m d t db) = wd_events db @ [e]"
      "numbered (wd_events db) e" "ev_item e = i" "ev_from e = Some (wi_state w)" "ev_to e = Some (wi_state w')"
    using appendEvent_last by metis
  show ?thesis unfolding e(1) by (rule item_step.moved [OF assms e(2-5)])
qed

lemma remark_on:
  "wd_events db = evs \<Longrightarrow> item_step (items, evs) (items, wd_events (appendEvent i k None None m d t db))"
  using appendEvent_remark by blast

lemma moved_on:
  assumes "tselect wi_id items (wi_id w) = Some w" and "allowed_move w w'" and "wd_events db = evs"
  shows "item_step (items, evs) (tput wi_id items w',
    wd_events (appendEvent (wi_id w) k (Some (wi_state w)) (Some (wi_state w')) m d t db))"
  using appendEvent_moved [OF assms(1,2)] assms(3) by blast

text \<open>Recording a key changes the table of keys only.\<close>

lemma remember_Inr:
  assumes "remember i op res m db = Inr db'"
  shows "\<exists>qs. db' = db\<lparr>wd_requests := qs\<rparr>"
  using assms by (auto simp: remember_def split: if_splits intro: exI [of _ "wd_requests db"])

lemma rememberCreate_Inr:
  assumes "rememberCreate inp i db = Inr db'"
  shows "\<exists>qs. db' = db\<lparr>wd_creates := qs\<rparr>"
  using assms by (auto simp: rememberCreate_def Let_def split: if_splits intro: exI [of _ "wd_creates db"])

text \<open>Transactions.\<close>

lemma tx_rule:
  assumes "P db" and "\<And>db' x. body = Inr (db', x) \<Longrightarrow> P db'"
  shows "P (fst (wk_withTx fault db body))"
  using assms by (auto simp: wk_withTx_def split: sum.splits)

lemma precheck_rule:
  assumes "P db" and "c = None \<Longrightarrow> P (fst r)"
  shows "P (fst (wk_precheck c db r))"
  using assms by (auto simp: wk_precheck_def split: option.splits)

lemma getItem_Inr: "getItem i db = Inr w \<longleftrightarrow> tselect wi_id (wd_items db) i = Some w"
  by (auto simp: getItem_def split: option.splits)

lemma item_at: "tselect wi_id items i = Some w \<Longrightarrow> wi_id w = i \<and> i \<in> wi_id ` set items"
  by (auto dest: tselect_SomeD)

end
