(* ===== verification/Work_Ops.thy ===== *)
theory Work_Ops
  imports Work_Step
begin

text \<open>Every operation of the store implements the step of the database.\<close>

section \<open>Executions\<close>

lemma listExecutions_set [simp]: "set (listExecutions i db) = set (runs_of i (wd_executions db))"
  by (simp add: listExecutions_def)

lemma listExecutions_length [simp]: "length (listExecutions i db) = length (runs_of i (wd_executions db))"
  by (simp add: listExecutions_def)

lemma insertExecution_Inr:
  assumes "insertExecution H uuid m item engine ref phase from (int (length (runs_of item (wd_executions db))) + 1) path now db = Inr (db', e)"
    and "item \<in> items" and "from = '''' \<or> from \<in> xe_id ` set (runs_of item (wd_executions db))"
  obtains p where
    "db' = db\<lparr>wd_executions := wd_executions db @ [e], wd_provenance := wd_provenance db @ [p]\<rparr>"
    "exec_step H items (wd_executions db, wd_provenance db) (wd_executions db @ [e], wd_provenance db @ [p])"
    "xe_item e = item" "xe_engine e = engine" "xe_ref e = ref" "xe_phase e = phase" "xe_from e = from"
proof -
  define e0 where "e0 = \<lparr>xe_id = ExecutionIDPrefix @ uuid, xe_item = item, xe_engine = engine, xe_ref = ref,
      xe_attempt = int (length (runs_of item (wd_executions db))) + 1, xe_from = from, xe_phase = phase, xe_started_at = now,
      xe_ended_at = (if IsTerminalPhase phase then Some now else None)\<rparr>"
  let ?db1 = "db\<lparr>wd_executions := wd_executions db @ [e0]\<rparr>"
  from assms(1) have cl: "\<not> list_ex (exec_clash e0) (wd_executions db)"
      and ins: "insertProvenance H e0 from m path now ?db1 = Inr db'" "e = e0"
    by (auto simp: insertExecution_def Let_def e0_def result_iffs split: if_splits)
  from ins(1) obtain root where root: "(if from = '''' then Some (xe_id e0) else rootOf from ?db1) = Some root"
    unfolding insertProvenance_def by (cases "if from = '''' then Some (xe_id e0) else rootOf from ?db1") (auto split: if_splits)
  define p where "p = \<lparr>pv_execution = xe_id e0, pv_contract = ContractVersion, pv_attempt = AttemptID H (xe_engine e0) (xe_ref e0),
      pv_lineage = LineageRoot H root, pv_engine = xe_engine e0, pv_engine_run = EngineRun (xe_ref e0),
      pv_parent = from, pv_root = root, pv_attached_by = mu_actor m,
      pv_attached_by_principal = mu_actor_principal m, pv_path = path,
      pv_direct_service = mu_direct_service m, pv_recorded_at = now\<rparr>"
  from ins(1) root have free: "tselect pv_execution (wd_provenance db) (xe_id e0) = None"
      and db': "db' = ?db1\<lparr>wd_provenance := wd_provenance db @ [p]\<rparr>"
    by (auto simp: insertProvenance_def p_def split: if_splits)
  have "exec_step H items (wd_executions db, wd_provenance db) (wd_executions db @ [e0], wd_provenance db @ [p])"
  proof (rule exec_step.run [where root = root])
    show "xe_id e0 \<noteq> ''''" by (simp add: e0_def ExecutionIDPrefix_def)
    show "if xe_from e0 = '''' then root = xe_id e0
      else case tselect pv_execution (wd_provenance db) (xe_from e0) of
        Some q \<Rightarrow> root = pv_root q
      | None \<Rightarrow> walk_lineage maxLineageWalk (wd_executions db @ [e0]) (xe_from e0) = Some root"
      using root by (auto simp: e0_def rootOf_def split: option.splits)
    show "prov_of H e0 root p" by (simp add: prov_of_def p_def e0_def)
  qed (use cl free assms(2,3) in \<open>simp_all add: e0_def\<close>)
  with db' ins(2) that [of p] show ?thesis by (simp add: e0_def)
qed

lemma resume_from_known:
  assumes "resume_checks inp cur execs = None"
  shows "resume_from (re_from inp) execs = '''' \<or> resume_from (re_from inp) execs \<in> xe_id ` set execs"
  using assms unfolding resume_checks_def Let_def first_error_None wk_require_def containsExecution_def list_ex_iff
  by (simp split: if_splits) (metis image_eqI)+

text \<open>What a resume does, whoever asked for it.\<close>

lemma resumeTx_Inr:
  assumes "resumeTx H uuid cur inp path now db = Inr (db', (w, e))"
    and cur: "tselect wi_id (wd_items db) (wi_id cur) = Some cur"
  obtains p w1 d where
    "db' = appendEvent (wi_id cur) EvResumed (Some (wi_state cur)) (Some (wi_state w)) (re_mutation inp) d now
       (db\<lparr>wd_executions := wd_executions db @ [e], wd_provenance := wd_provenance db @ [p], wd_items := tput wi_id (wd_items db) w\<rparr>)"
    "exec_step H (wi_id ` set (wd_items db)) (wd_executions db, wd_provenance db) (wd_executions db @ [e], wd_provenance db @ [p])"
    "allowed_move cur w" "xe_item e = wi_id cur" "same_run (re_engine inp) (re_ref inp) e"
    "resume_checks inp cur (listExecutions (wi_id cur) db) = None"
proof -
  let ?execs = "listExecutions (wi_id cur) db"
  let ?from = "resume_from (re_from inp) ?execs"
  from assms(1) obtain db1 to db2 where c: "resume_checks inp cur ?execs = None"
      and i: "insertExecution H uuid (re_mutation inp) (wi_id cur) (re_engine inp) (re_ref inp) ExPending ?from
        (int (length ?execs) + 1) path now db = Inr (db1, e)"
      and t: "resumed_state (wi_state cur) = Inr to"
      and m: "move_item (wi_id cur) (wi_version cur) (\<lambda>w. w\<lparr>wi_state := to, wi_waiting_reason := ''''\<rparr>) now db1 = Inr (db2, w)"
      and db': "db' = appendEvent (wi_id cur) EvResumed (Some (wi_state cur)) (Some to) (re_mutation inp)
        ((''execution_id'', xe_id e) # nonempty_detail ''resumed_from_execution_id'' ?from) now db2"
    by (auto simp: resumeTx_def Let_def result_iffs)
  have ids: "wi_id cur \<in> wi_id ` set (wd_items db)" using item_at [OF cur] by simp
  from resume_from_known [OF c] have f: "?from = '''' \<or> ?from \<in> xe_id ` set (runs_of (wi_id cur) (wd_executions db))" by simp
  from insertExecution_Inr [OF i [unfolded listExecutions_length] ids f] obtain p where p:
      "db1 = db\<lparr>wd_executions := wd_executions db @ [e], wd_provenance := wd_provenance db @ [p]\<rparr>"
      "exec_step H (wi_id ` set (wd_items db)) (wd_executions db, wd_provenance db) (wd_executions db @ [e], wd_provenance db @ [p])"
      "xe_item e = wi_id cur" "xe_engine e = re_engine inp" "xe_ref e = re_ref inp"
    by metis
  have w: "w = cur\<lparr>wi_state := to, wi_waiting_reason := '''', wi_version := wi_version cur + 1, wi_updated_at := now\<rparr>"
      "db2 = db1\<lparr>wd_items := tput wi_id (wd_items db) w\<rparr>"
    using m cur by (auto simp: move_item_def tupdate_def p(1) split: option.splits)
  from c have "\<not> IsTerminalState (wi_state cur)"
    by (auto simp: resume_checks_def Let_def first_error_None split: if_splits)
  moreover have "to = wi_state cur \<or> (\<exists>a. Transitions (wi_state cur) a = Some to)"
    using t by (cases "wi_state cur = WorkWaiting") (auto simp: resumed_state_def Next_def intro: exI [of _ ActionResume])
  ultimately have "allowed_move cur w" by (auto simp: allowed_move_def same_work_def w(1))
  with db' w p c show ?thesis by (intro that) (auto simp: same_run_def)
qed

lemma attachNewTx_Inr:
  assumes "attachNewTx H uuid cur m engine ref ph path now db = Inr (db', e)"
    and cur: "tselect wi_id (wd_items db) (wi_id cur) = Some cur"
  obtains p d where
    "db' = appendEvent (wi_id cur) EvExecutionAttached None None m d now
       (db\<lparr>wd_executions := wd_executions db @ [e], wd_provenance := wd_provenance db @ [p]\<rparr>)"
    "exec_step H (wi_id ` set (wd_items db)) (wd_executions db, wd_provenance db) (wd_executions db @ [e], wd_provenance db @ [p])"
    "xe_item e = wi_id cur" "same_run engine ref e" "\<not> IsTerminalState (wi_state cur)"
proof -
  let ?execs = "listExecutions (wi_id cur) db"
  from assms(1) obtain db1 where c: "attach_checks cur ?execs ph = None"
      and i: "insertExecution H uuid m (wi_id cur) engine ref ph '''' (int (length ?execs) + 1) path now db = Inr (db1, e)"
      and db': "db' = appendEvent (wi_id cur) EvExecutionAttached None None m
        [(''execution_id'', xe_id e), (''engine'', engine), (''engine_ref'', ref)] now db1"
    by (auto simp: attachNewTx_def Let_def result_iffs)
  have ids: "wi_id cur \<in> wi_id ` set (wd_items db)" using item_at [OF cur] by simp
  from insertExecution_Inr [OF i [unfolded listExecutions_length] ids] obtain p where p:
      "db1 = db\<lparr>wd_executions := wd_executions db @ [e], wd_provenance := wd_provenance db @ [p]\<rparr>"
      "exec_step H (wi_id ` set (wd_items db)) (wd_executions db, wd_provenance db) (wd_executions db @ [e], wd_provenance db @ [p])"
      "xe_item e = wi_id cur" "xe_engine e = engine" "xe_ref e = ref"
    by metis
  from c have "\<not> IsTerminalState (wi_state cur)" by (auto simp: attach_checks_def first_error_None split: if_splits)
  with db' p that show ?thesis by (auto simp: same_run_def)
qed

section \<open>Items\<close>

lemma create_step:
  assumes "work_create_body now uuid inp db = Inr (db', r)"
  shows "work_step H db db'"
proof -
  consider (same) "same_core db db'" "wd_events db' = wd_events db"
    | (fresh) "create_fresh now uuid inp db = Inr (db', r)"
  proof (cases "if mu_key (cr_mutation inp) = '''' then None else tselect cq_name (wd_creates db) (cr_tenant inp, mu_key (cr_mutation inp))")
    case (Some q)
    with assms have "db' = db" by (auto simp: work_create_body_def Let_def result_iffs split: if_splits)
    then show ?thesis by (intro same) (simp_all add: same_core_def)
  next
    case None
    show ?thesis
    proof (cases "if cr_external_key inp = '''' then None else find (open_under (cr_tenant inp) (cr_external_key inp)) (wd_items db)")
      case None': None
      with None assms show ?thesis by (intro fresh) (simp add: work_create_body_def Let_def)
    next
      case (Some w)
      with None assms have "rememberCreate inp (wi_id w) db = Inr db'"
        by (auto simp: work_create_body_def Let_def result_iffs split: if_splits)
      then show ?thesis using rememberCreate_Inr same by (fastforce simp: same_core_def)
    qed
  qed
  then show ?thesis
  proof cases
    case same
    then show ?thesis by (intro work_step_core) (simp_all add: same_core_def)
  next
    case fresh
    define w where "w = new_item now uuid inp"
    from fresh have free: "tselect wi_id (wd_items db) (wi_id w) = None"
        "wi_external_key w = '''' \<or> \<not> list_ex (open_under (wi_tenant w) (wi_external_key w)) (wd_items db)"
      by (auto simp: create_fresh_def w_def [symmetric] list_ex_iff tselect_None_iff split: if_splits)
    from fresh obtain cs where db': "db' = appendEvent (wi_id w) EvCreated None (Some WorkActive) (cr_mutation inp) [] now
        (db\<lparr>wd_items := wd_items db @ [w]\<rparr>)\<lparr>wd_creates := cs\<rparr>"
      by (auto simp: create_fresh_def w_def [symmetric] result_iffs split: if_splits dest!: rememberCreate_Inr)
    obtain e where e: "wd_events db' = wd_events db @ [e]" "numbered (wd_events db) e"
        "ev_item e = wi_id w" "ev_from e = None" "ev_to e = Some WorkActive"
      unfolding db' using appendEvent_last [of "wi_id w" EvCreated None "Some WorkActive" "cr_mutation inp" "[]" now "db\<lparr>wd_items := wd_items db @ [w]\<rparr>"]
      by auto
    have "item_step (wd_items db, wd_events db) (wd_items db', wd_events db')"
      unfolding e(1) unfolding db' by (simp, rule item_step.opened) (use free e in \<open>simp_all add: w_def new_item_def Let_def WorkItemIDPrefix_def\<close>)
    then show ?thesis
      by (simp add: work_step_def db' exec_step.unrun request_step.unasked snapshot_step.unsealed r_into_rtranclp)
  qed
qed

lemma Next_moves: "Next st a = Inr to \<Longrightarrow> Transitions st a = Some to \<and> \<not> IsTerminalState st"
  by (cases st; cases a) (simp_all add: Next_def IsTerminalState_def)

lemma work_transition_step:
  assumes "work_transition_body now inp db = Inr (db', r)"
  shows "work_step H db db'"
proof -
  from assms obtain cur seen where cur: "tselect wi_id (wd_items db) (wt_item inp) = Some cur"
      and seen: "replayed (wi_id cur) ''transition'' (wt_mutation inp) db = Inr seen"
    by (auto simp: work_transition_body_def result_iffs getItem_Inr)
  show ?thesis
  proof (cases seen)
    case (Some x)
    with assms cur seen have "db' = db"
      by (simp add: work_transition_body_def getItem_def)
    then show ?thesis by simp
  next
    case None
    have i: "wi_id cur = wt_item inp" using item_at [OF cur] by simp
    from assms None cur seen obtain to db1 w d qs where
        to: "Next (wi_state cur) (wt_action inp) = Inr to"
        and m: "move_item (wi_id cur) (wi_version cur)
                    (\<lambda>w. w\<lparr>wi_state := to, wi_waiting_reason := wt_waiting_reason inp,
                           wi_superseded_by := wt_superseded_by inp,
                           wi_completed_at := (if IsTerminalState to then Some now else None)\<rparr>) now db = Inr (db1, w)"
        and db': "db' = (appendEvent (wi_id cur) EvStateChanged (Some (wi_state cur)) (Some to) (wt_mutation inp) d now db1)\<lparr>wd_requests := qs\<rparr>"
      by (auto simp: work_transition_body_def getItem_def result_iffs Let_def split: if_splits dest!: remember_Inr)
    have w: "db1 = db\<lparr>wd_items := tput wi_id (wd_items db) w\<rparr>" "wi_state w = to" "allowed_move cur w"
      using m cur i Next_moves [OF to]
      by (auto simp: move_item_def tupdate_def allowed_move_def same_work_def split: option.splits)
    have "item_step (wd_items db, wd_events db) (wd_items db', wd_events db')"
      using appendEvent_moved [OF cur w(3), of db1 EvStateChanged "wt_mutation inp" d now] by (simp add: db' w i)
    then show ?thesis
      by (simp add: work_step_def db' w(1) exec_step.unrun request_step.unasked snapshot_step.unsealed r_into_rtranclp)
  qed
qed

section \<open>Runs\<close>

lemma resume_step:
  assumes "resume_body H now uuid inp db = Inr (db', r)"
  shows "work_step H db db'"
proof -
  from assms obtain cur seen where cur: "tselect wi_id (wd_items db) (re_item inp) = Some cur"
      and seen: "replayed (wi_id cur) ''resume'' (re_mutation inp) db = Inr seen"
    by (auto simp: resume_body_def result_iffs getItem_Inr)
  have i: "wi_id cur = re_item inp" using item_at [OF cur] by simp
  show ?thesis
  proof (cases seen)
    case (Some x)
    with assms cur seen have "db' = db" by (auto simp: resume_body_def getItem_def result_iffs)
    then show ?thesis by simp
  next
    case None
    with assms cur seen obtain db1 w e qs where
        t: "resumeTx H uuid cur inp AttachPathResume now db = Inr (db1, (w, e))" and db': "db' = db1\<lparr>wd_requests := qs\<rparr>"
      by (auto simp: resume_body_def getItem_def result_iffs dest!: remember_Inr)
    from cur i have c: "tselect wi_id (wd_items db) (wi_id cur) = Some cur" by simp
    from resumeTx_Inr [OF t c] obtain p d where p:
        "db1 = appendEvent (wi_id cur) EvResumed (Some (wi_state cur)) (Some (wi_state w)) (re_mutation inp) d now
          (db\<lparr>wd_executions := wd_executions db @ [e], wd_provenance := wd_provenance db @ [p], wd_items := tput wi_id (wd_items db) w\<rparr>)"
        "exec_step H (wi_id ` set (wd_items db)) (wd_executions db, wd_provenance db) (wd_executions db @ [e], wd_provenance db @ [p])"
        "allowed_move cur w" by metis
    have "item_step (wd_items db, wd_events db) (wd_items db', wd_events db')"
      using moved_on [OF c p(3)] by (simp add: db' p(1))
    with p(2) show ?thesis
      by (simp add: work_step_def db' p(1) request_step.unasked snapshot_step.unsealed r_into_rtranclp)
  qed
qed

lemma correlate_step:
  assumes "correlate_phase ph now e db = Inr (db', e')" and "e \<in> set (wd_executions db)"
    and "unique_key xe_id (wd_executions db)"
  shows "work_step H db db'"
proof (cases "db' = db")
  case False
  with assms(1) have "\<not> IsTerminalPhase (xe_phase e)"
      and "db' = db\<lparr>wd_executions := tput xe_id (wd_executions db)
        (e\<lparr>xe_phase := ph, xe_ended_at := (if IsTerminalPhase ph then Some now else None)\<rparr>)\<rparr>"
    by (auto simp: correlate_phase_def Let_def split: if_splits)
  with tsel_in [OF assms(3,2)] show ?thesis
    by (simp add: work_step_def request_step.unasked snapshot_step.unsealed exec_step.phase)
qed simp

lemma attach_step:
  assumes "attach_body H now uuid inp ph db = Inr (db', r)" and "unique_key xe_id (wd_executions db)"
  shows "work_step H db db'"
proof -
  from assms(1) obtain cur seen where cur: "tselect wi_id (wd_items db) (xi_item inp) = Some cur"
      and seen: "replayed (wi_id cur) ''execution'' (xi_mutation inp) db = Inr seen"
    by (auto simp: attach_body_def result_iffs getItem_Inr)
  from cur item_at [OF cur] have c: "tselect wi_id (wd_items db) (wi_id cur) = Some cur" by simp
  let ?found = "find (\<lambda>e. xe_item e = wi_id cur \<and> same_run (xi_engine inp) (xi_ref inp) e) (wd_executions db)"
  show ?thesis
  proof (cases seen)
    case (Some x)
    with assms(1) cur seen have "db' = db" by (auto simp: attach_body_def getItem_def result_iffs)
    then show ?thesis by simp
  next
    case None
    show ?thesis
    proof (cases ?found)
      case (Some e)
      with None assms(1) cur seen obtain db1 e' qs where t: "correlate_phase ph now e db = Inr (db1, e')"
          and db': "db' = db1\<lparr>wd_requests := qs\<rparr>"
        by (auto simp: attach_body_def getItem_def result_iffs dest!: remember_Inr)
      from Some have "e \<in> set (wd_executions db)" by (auto simp: find_Some_iff)
      from correlate_step [OF t this assms(2), of H] show ?thesis by (simp add: db' work_step_def)
    next
      case none: None
      with None assms(1) cur seen obtain db1 e qs where
          t: "attachNewTx H uuid cur (xi_mutation inp) (xi_engine inp) (xi_ref inp) ph AttachPathAttach now db = Inr (db1, e)"
          and db': "db' = db1\<lparr>wd_requests := qs\<rparr>"
        by (auto simp: attach_body_def getItem_def result_iffs dest!: remember_Inr)
      from attachNewTx_Inr [OF t c] obtain p d where p:
          "db1 = appendEvent (wi_id cur) EvExecutionAttached None None (xi_mutation inp) d now
            (db\<lparr>wd_executions := wd_executions db @ [e], wd_provenance := wd_provenance db @ [p]\<rparr>)"
          "exec_step H (wi_id ` set (wd_items db)) (wd_executions db, wd_provenance db) (wd_executions db @ [e], wd_provenance db @ [p])"
        by metis
      have "item_step (wd_items db, wd_events db) (wd_items db', wd_events db')"
        by (simp add: db' p(1) remark_on)
      with p(2) show ?thesis
        by (simp add: work_step_def db' p(1) request_step.unasked snapshot_step.unsealed r_into_rtranclp)
    qed
  qed
qed

lemma orphan_step:
  assumes "orphan_body now inp db = Inr (db', r)"
    and "case oc_expected inp of PhaseEmpty \<Rightarrow> False | PhaseWord p \<Rightarrow> \<not> IsTerminalPhase p | PhaseOther \<Rightarrow> True"
  shows "work_step H db db'"
proof (cases r)
  case None
  with assms(1) have "db' = db" by (auto simp: orphan_body_def split: prod.splits option.splits)
  then show ?thesis by simp
next
  case (Some e1)
  with assms(1) obtain e where e: "tselect xe_id (wd_executions db) (oc_execution inp) = Some e"
      "PhaseWord (xe_phase e) = oc_expected inp"
      and db': "db' = appendEvent (xe_item e) EvOrphanClosed None None (oc_mutation inp)
        [(''execution_id'', xe_id e), (''engine_ref'', xe_ref e), (''engine_status'', oc_engine_status inp)] now
        (db\<lparr>wd_executions := tput xe_id (wd_executions db) (e\<lparr>xe_phase := ExError, xe_ended_at := Some now\<rparr>)\<rparr>)"
    by (auto simp: orphan_body_def tupdate_def split: option.splits if_splits prod.splits)
  from e(2) [symmetric] assms(2) have "\<not> IsTerminalPhase (xe_phase e)" by simp
  from exec_step.phase [OF e(1) this]
  have "exec_step H (wi_id ` set (wd_items db)) (wd_executions db, wd_provenance db) (wd_executions db', wd_provenance db')"
    by (simp add: db')
  moreover have "item_step (wd_items db, wd_events db) (wd_items db', wd_events db')"
    by (simp add: db' remark_on)
  ultimately show ?thesis
    by (simp add: work_step_def db' request_step.unasked snapshot_step.unsealed r_into_rtranclp)
qed

section \<open>Intents, surfaces and snapshots\<close>

lemma intent_body_Inr:
  assumes "intent_body now serial inp db = Inr (db', r)" and "db' \<noteq> db"
  obtains i ts d where "remember i ''intent'' (show_int serial) (ii_mutation inp)
    (appendEvent i EvIntentAppended None None (ii_mutation inp) d now (db\<lparr>wd_intents := ts\<rparr>)) = Inr db'"
proof -
  from assms(1) obtain cur seen where cur: "getItem (ii_item inp) db = Inr cur"
      and seen: "replayed (wi_id cur) ''intent'' (ii_mutation inp) db = Inr seen"
    by (auto simp: intent_body_def result_iffs)
  show ?thesis
  proof (cases seen)
    case (Some x)
    with assms cur seen show ?thesis by (auto simp: intent_body_def split: option.splits)
  next
    case None
    with assms cur seen have "\<exists>ts. remember (wi_id cur) ''intent'' (show_int serial) (ii_mutation inp)
        (appendEvent (wi_id cur) EvIntentAppended None None (ii_mutation inp) [(''intent_id'', show_int serial)] now
          (db\<lparr>wd_intents := ts\<rparr>)) = Inr db'"
      by (auto simp: intent_body_def result_iffs Let_def simp del: not_None_eq split: if_split_asm)
    then show ?thesis by (elim exE) (rule that)
  qed
qed

lemma intent_step:
  assumes "intent_body now serial inp db = Inr (db', r)"
  shows "work_step H db db'"
proof (cases "db' = db")
  case False
  show ?thesis
  proof (rule intent_body_Inr [OF assms False])
    fix i ts d
    assume "remember i ''intent'' (show_int serial) (ii_mutation inp)
      (appendEvent i EvIntentAppended None None (ii_mutation inp) d now (db\<lparr>wd_intents := ts\<rparr>)) = Inr db'"
    then obtain qs where
        db': "db' = (appendEvent i EvIntentAppended None None (ii_mutation inp) d now (db\<lparr>wd_intents := ts\<rparr>))\<lparr>wd_requests := qs\<rparr>"
      by (auto dest!: remember_Inr)
    show ?thesis by (rule work_step_core) (simp_all add: db' same_core_def remark_on r_into_rtranclp)
  qed
qed simp

lemma surface_step:
  assumes "surface_body now inp db = Inr (db', r)"
  shows "work_step H db db'"
proof -
  from assms obtain sfs i d where "db' = db\<lparr>wd_surfaces := sfs\<rparr> \<or>
      db' = appendEvent i EvSurfaceLinked None None (si_mutation inp) d now (db\<lparr>wd_surfaces := sfs\<rparr>)"
    by (auto simp: surface_body_def result_iffs Let_def split: option.splits)
  then show ?thesis
    by (elim disjE; intro work_step_core) (simp_all add: same_core_def remark_on r_into_rtranclp)
qed

lemma seal_body_Inr:
  assumes "seal_body H now inp db = Inr (db', (c, b))"
  obtains cur e where "tselect wi_id (wd_items db) (sn_item inp) = Some cur"
      "getExecution (wi_id cur) (sn_execution inp) db = Inr e" "xe_attempt e = sn_sequence inp"
    and "(\<exists>old. tselect cs_execution (wd_snapshots db) (xe_id e) = Some old \<and> scanSnapshot H old = Inr c \<and> \<not> b \<and> db' = db) \<or>
      (\<exists>prior d. tselect cs_execution (wd_snapshots db) (xe_id e) = None \<and> b \<and> c = sealed H now inp e prior \<and>
        db' = appendEvent (wi_id cur) EvSnapshotSealed None None (sn_mutation inp) d now
          (db\<lparr>wd_snapshots := wd_snapshots db @ [c]\<rparr>))"
proof -
  from assms obtain cur where cur: "tselect wi_id (wd_items db) (sn_item inp) = Some cur"
    by (auto simp: seal_body_def result_iffs getItem_Inr)
  with assms obtain e where e: "getExecution (wi_id cur) (sn_execution inp) db = Inr e" and a: "xe_attempt e = sn_sequence inp"
    by (cases "getExecution (wi_id cur) (sn_execution inp) db") (auto simp: seal_body_def getItem_def split: if_splits)
  show ?thesis
  proof (cases "tselect cs_execution (wd_snapshots db) (xe_id e)")
    case (Some old)
    with assms cur e a have "scanSnapshot H old = Inr c \<and> \<not> b \<and> db' = db"
      by (auto simp: seal_body_def getItem_def result_iffs split: if_splits)
    with Some cur e a show ?thesis by (intro that [of cur e]) auto
  next
    case None
    with assms cur e a obtain prior d where "b" "c = sealed H now inp e prior"
        "db' = appendEvent (wi_id cur) EvSnapshotSealed None None (sn_mutation inp) d now
          (db\<lparr>wd_snapshots := wd_snapshots db @ [c]\<rparr>)"
      by (auto simp: seal_body_def getItem_def result_iffs Let_def split: if_splits)
    with None cur e a show ?thesis by (intro that [of cur e]) blast+
  qed
qed

lemma seal_step:
  assumes "seal_body H now inp db = Inr (db', (c, b))" and "snapshot_validate H inp = None"
  shows "work_step H db db'"
proof (rule seal_body_Inr [OF assms(1)])
  fix cur e assume cur: "tselect wi_id (wd_items db) (sn_item inp) = Some cur"
    and e: "getExecution (wi_id cur) (sn_execution inp) db = Inr e"
    and r: "(\<exists>old. tselect cs_execution (wd_snapshots db) (xe_id e) = Some old \<and> scanSnapshot H old = Inr c \<and> \<not> b \<and> db' = db) \<or>
      (\<exists>prior d. tselect cs_execution (wd_snapshots db) (xe_id e) = None \<and> b \<and> c = sealed H now inp e prior \<and>
        db' = appendEvent (wi_id cur) EvSnapshotSealed None None (sn_mutation inp) d now
          (db\<lparr>wd_snapshots := wd_snapshots db @ [c]\<rparr>))"
  from e have mem: "e \<in> set (wd_executions db)" and it: "xe_item e = wi_id cur"
    by (auto simp: getExecution_def find_Some_iff split: option.splits)
  from r show ?thesis
  proof (elim disjE exE conjE)
    fix prior d
    assume none: "tselect cs_execution (wd_snapshots db) (xe_id e) = None" and c: "c = sealed H now inp e prior"
      and db': "db' = appendEvent (wi_id cur) EvSnapshotSealed None None (sn_mutation inp) d now
          (db\<lparr>wd_snapshots := wd_snapshots db @ [c]\<rparr>)"
    have "snapshot_step H (wd_executions db) (wd_snapshots db) (wd_snapshots db @ [c])"
    proof (rule snapshot_step.seal [OF _ mem])
      show "cs_hash c = HashCanonical H (cs_canonical c)"
        using assms(2) by (simp add: snapshot_validate_def first_error_None c sealed_def wk_require_def split: if_splits)
    qed (use none it item_at [OF cur] in \<open>simp_all add: c sealed_def\<close>)
    then show ?thesis
      by (simp add: work_step_def db' remark_on r_into_rtranclp exec_step.unrun request_step.unasked)
  qed simp
qed

section \<open>Execution requests\<close>

lemma ask_step:
  assumes "request_create_body queue now uuid inp kind db = Inr (db', r)"
  shows "work_step H db db'"
proof -
  from assms obtain cur seen where cur: "tselect wi_id (wd_items db) (xq_item inp) = Some cur"
      and seen: "replayed (wi_id cur) ''execution_request'' (xq_mutation inp) db = Inr seen"
    by (auto simp: request_create_body_def result_iffs getItem_Inr)
  show ?thesis
  proof (cases seen)
    case (Some x)
    with assms cur seen have "db' = db" by (auto simp: request_create_body_def getItem_def result_iffs)
    then show ?thesis by simp
  next
    case None
    define x where "x = new_exec_request now uuid inp kind"
    have xi: "xr_item x = wi_id cur" "xr_state x = XrPending" "xr_execution x = ''''"
      using item_at [OF cur] by (simp_all add: x_def new_exec_request_def Let_def)
    from None assms cur seen have none: "openExecutionRequest (wi_id cur) db = None" "tselect xr_id (wd_exec_requests db) (xr_id x) = None"
      by (auto simp: request_create_body_def getItem_def result_iffs Let_def x_def split: if_splits)
    from None assms cur seen obtain d qs where
        db': "db' = (appendEvent (wi_id cur) EvExecutionRequested None None (xq_mutation inp) d now
          (db\<lparr>wd_exec_requests := wd_exec_requests db @ [x]\<rparr>))\<lparr>wd_requests := qs\<rparr>"
      by (auto simp: request_create_body_def getItem_def result_iffs Let_def x_def split: if_splits dest!: remember_Inr)
    have "request_step (wd_executions db) (wd_executions db) (wd_exec_requests db) (wd_exec_requests db @ [x])"
      using none xi by (intro request_step.asked) (simp_all add: openExecutionRequest_def)
    then show ?thesis
      by (simp add: work_step_def db' remark_on r_into_rtranclp exec_step.unrun snapshot_step.unsealed)
  qed
qed

lemma claim_step:
  assumes "claim_body guard now uuid inp c db = Inr (db', r)"
  shows "work_step H db db'"
proof (cases r)
  case None
  with assms have "db' = db" by (auto simp: claim_body_def result_iffs split: if_splits prod.splits option.splits)
  then show ?thesis by simp
next
  case (Some y)
  with assms obtain x d where x: "tselect xr_id (wd_exec_requests db) (fst c) = Some x" "claimable now x"
      and db': "db' = appendEvent (snd c) EvRequestClaimed None None (cl_mutation inp) d now
        (db\<lparr>wd_exec_requests := tput xr_id (wd_exec_requests db) (claimed inp (executionRequestClaimPrefix @ uuid) now x)\<rparr>)"
    by (auto simp: claim_body_def result_iffs tupdate_def split: if_splits prod.splits option.splits)
  from x(2) have "open_request x" by (auto simp: claimable_def open_request_def)
  from request_step.taken [OF x(1) this x(2)] show ?thesis
    by (simp add: work_step_def db' remark_on r_into_rtranclp exec_step.unrun snapshot_step.unsealed)
qed

lemma getExecutionRequest_Inr:
  "getExecutionRequest item i db = Inr x \<Longrightarrow> tselect xr_id (wd_exec_requests db) i = Some x \<and> (item = '''' \<or> xr_item x = item)"
  by (auto simp: getExecutionRequest_def split: option.splits if_splits)

lemma close_request_Inr:
  assumes "close_request i f db = Inr (db', y)"
  obtains x where "tselect xr_id (wd_exec_requests db) i = Some x" "xr_state x = XrClaimed" "y = f x"
    "db' = db\<lparr>wd_exec_requests := tput xr_id (wd_exec_requests db) (f x)\<rparr>"
  using assms by (auto simp: close_request_def tupdate_def split: prod.splits option.splits if_splits)

lemma reject_step:
  assumes "reject_body now inp x cur db = Inr (db', r)"
  shows "work_step H db db'"
proof (cases "db' = db")
  case False
  with assms obtain db1 y d where c: "close_request (xr_id x) (\<lambda>y. y\<lparr>xr_state := XrRejected, xr_reason := rj_reason inp,
        xr_updated_at := now, xr_closed_at := Some now\<rparr>) db = Inr (db1, y)"
      and db': "db' = appendEvent (wi_id cur) EvRequestRejected None None (rf_mutation (rj_ref inp)) d now db1"
    by (auto simp: reject_body_def result_iffs split: xr_state.splits if_splits)
  from close_request_Inr [OF c] obtain z where z: "tselect xr_id (wd_exec_requests db) (xr_id x) = Some z" "xr_state z = XrClaimed"
      "db1 = db\<lparr>wd_exec_requests := tput xr_id (wd_exec_requests db) (z\<lparr>xr_state := XrRejected, xr_reason := rj_reason inp,
        xr_updated_at := now, xr_closed_at := Some now\<rparr>)\<rparr>"
    by metis
  from request_step.rejected [OF z(1,2)] show ?thesis
    by (simp add: work_step_def db' z(3) remark_on r_into_rtranclp exec_step.unrun snapshot_step.unsealed)
qed simp

text \<open>What the attachment of a fulfilment does: one new execution of the item, and its events.\<close>

lemma attach_for_Inr:
  assumes "attach_for H now uuid inp x cur db = Inr (db', (w, e))"
    and c: "tselect wi_id (wd_items db) (wi_id cur) = Some cur"
  obtains "wd_executions db' = wd_executions db @ [e]" "xe_item e = wi_id cur"
    "same_run (ff_engine inp) (ff_run inp) e" "\<not> IsTerminalState (wi_state cur)"
    "exec_step H (wi_id ` set (wd_items db)) (wd_executions db, wd_provenance db) (wd_executions db', wd_provenance db')"
    "item_step (wd_items db, wd_events db) (wd_items db', wd_events db')"
    "wd_exec_requests db' = wd_exec_requests db" "wd_snapshots db' = wd_snapshots db"
proof (cases "xr_kind x")
  case XrStart
  with assms(1) have t: "attachNewTx H uuid cur (rf_mutation (ff_ref inp)) (ff_engine inp) (ff_run inp) ExRunning
      AttachPathFulfilStart now db = Inr (db', e)"
    by (auto simp: attach_for_def result_iffs)
  from attachNewTx_Inr [OF t c] obtain p d where p:
      "db' = appendEvent (wi_id cur) EvExecutionAttached None None (rf_mutation (ff_ref inp)) d now
        (db\<lparr>wd_executions := wd_executions db @ [e], wd_provenance := wd_provenance db @ [p]\<rparr>)"
      "exec_step H (wi_id ` set (wd_items db)) (wd_executions db, wd_provenance db) (wd_executions db @ [e], wd_provenance db @ [p])"
      "xe_item e = wi_id cur" "same_run (ff_engine inp) (ff_run inp) e" "\<not> IsTerminalState (wi_state cur)"
    by metis
  then show ?thesis by (intro that) (simp_all add: remark_on)
next
  case XrResume
  with assms(1) have t: "resumeTx H uuid cur (resume_of x cur inp) AttachPathFulfilResume now db = Inr (db', (w, e))"
    by (simp add: attach_for_def)
  from resumeTx_Inr [OF t c] obtain p d where p:
      "db' = appendEvent (wi_id cur) EvResumed (Some (wi_state cur)) (Some (wi_state w)) (rf_mutation (ff_ref inp)) d now
        (db\<lparr>wd_executions := wd_executions db @ [e], wd_provenance := wd_provenance db @ [p], wd_items := tput wi_id (wd_items db) w\<rparr>)"
      "exec_step H (wi_id ` set (wd_items db)) (wd_executions db, wd_provenance db) (wd_executions db @ [e], wd_provenance db @ [p])"
      "allowed_move cur w" "xe_item e = wi_id cur" "same_run (ff_engine inp) (ff_run inp) e"
    unfolding resume_of_def by (metis resume_input.select_convs)
  have "item_step (wd_items db, wd_events db) (wd_items db', wd_events db')"
    using moved_on [OF c p(3)] by (simp add: p(1))
  with p show ?thesis by (intro that) (simp_all add: allowed_move_def)
qed

lemma fulfil_claimed_Inr:
  assumes "fulfil_claimed H now uuid inp x cur db = Inr (db', (y, w, e, b))"
    and c: "tselect wi_id (wd_items db) (wi_id cur) = Some cur"
    and x: "tselect xr_id (wd_exec_requests db) (xr_id x) = Some x"
  obtains db1 d where "attach_for H now uuid inp x cur db = Inr (db1, (w, e))" "live_claim now (ff_ref inp) x" "b"
    "y = x\<lparr>xr_state := XrFulfilled, xr_execution := xe_id e, xr_updated_at := now, xr_closed_at := Some now\<rparr>"
    "db' = appendEvent (wi_id cur) EvRequestFulfilled None None (rf_mutation (ff_ref inp)) d now
      (db1\<lparr>wd_exec_requests := tput xr_id (wd_exec_requests db) y\<rparr>)"
proof -
  from assms(1) obtain db1 db2 d where l: "live_claim now (ff_ref inp) x" "b"
      and a: "attach_for H now uuid inp x cur db = Inr (db1, (w, e))"
      and cl: "close_request (xr_id x) (\<lambda>y. y\<lparr>xr_state := XrFulfilled, xr_execution := xe_id e,
              xr_updated_at := now, xr_closed_at := Some now\<rparr>) db1 = Inr (db2, y)"
      and db': "db' = appendEvent (wi_id cur) EvRequestFulfilled None None (rf_mutation (ff_ref inp)) d now db2"
    by (auto simp: fulfil_claimed_def result_iffs split: if_splits)
  from attach_for_Inr [OF a c] have "wd_exec_requests db1 = wd_exec_requests db" by metis
  with close_request_Inr [OF cl] x
  have "y = x\<lparr>xr_state := XrFulfilled, xr_execution := xe_id e, xr_updated_at := now, xr_closed_at := Some now\<rparr>"
      "db2 = db1\<lparr>wd_exec_requests := tput xr_id (wd_exec_requests db) y\<rparr>"
    by (metis option.inject)+
  with l a db' that [of db1 d] show ?thesis by simp
qed

lemma fulfil_step:
  assumes "fulfil_body H now uuid inp x cur db = Inr (db', r)"
    and c: "tselect wi_id (wd_items db) (wi_id cur) = Some cur"
    and x: "tselect xr_id (wd_exec_requests db) (xr_id x) = Some x" "xr_item x = wi_id cur"
  shows "work_step H db db'"
proof (cases "db' = db")
  case False
  obtain y w e b where r: "r = (y, w, e, b)" by (cases r)
  with assms(1) False have "fulfil_claimed H now uuid inp x cur db = Inr (db', (y, w, e, b))"
    by (auto simp: fulfil_body_def result_iffs split: xr_state.splits if_splits)
  from fulfil_claimed_Inr [OF this c x(1)] obtain db1 d where
      a: "attach_for H now uuid inp x cur db = Inr (db1, (w, e))" and l: "xr_state x = XrClaimed"
      and y: "y = x\<lparr>xr_state := XrFulfilled, xr_execution := xe_id e, xr_updated_at := now, xr_closed_at := Some now\<rparr>"
      and db': "db' = appendEvent (wi_id cur) EvRequestFulfilled None None (rf_mutation (ff_ref inp)) d now
        (db1\<lparr>wd_exec_requests := tput xr_id (wd_exec_requests db) y\<rparr>)"
    unfolding live_claim_def by metis
  from attach_for_Inr [OF a c] have at: "wd_executions db1 = wd_executions db @ [e]" "xe_item e = wi_id cur"
      "exec_step H (wi_id ` set (wd_items db)) (wd_executions db, wd_provenance db) (wd_executions db1, wd_provenance db1)"
      "item_step (wd_items db, wd_events db) (wd_items db1, wd_events db1)" "wd_snapshots db1 = wd_snapshots db"
    by metis+
  have "item_step (wd_items db1, wd_events db1) (wd_items db', wd_events db')"
    by (simp add: db' remark_on)
  with at(4) have "item_step\<^sup>*\<^sup>* (wd_items db, wd_events db) (wd_items db', wd_events db')"
    by (metis converse_rtranclp_into_rtranclp r_into_rtranclp)
  moreover have "request_step (wd_executions db) (wd_executions db') (wd_exec_requests db) (wd_exec_requests db')"
    using request_step.fulfilled [OF x(1) l, of "wd_executions db'" "wd_executions db" e now] at(1,2) x(2)
    by (simp add: db' y)
  ultimately show ?thesis using at(3,5) by (simp add: work_step_def db' snapshot_step.unsealed)
qed simp

lemma locked_rule:
  assumes "P db" and "\<And>x cur db' r. tselect wi_id (wd_items db) (wi_id cur) = Some cur \<Longrightarrow>
      tselect xr_id (wd_exec_requests db) (xr_id x) = Some x \<Longrightarrow> xr_item x = wi_id cur \<Longrightarrow>
      body x cur db = Inr (db', r) \<Longrightarrow> P db'"
    and "tselect wi_id (wd_items db) '''' = None"
  shows "P (fst (lockedRequest fault i dbr body db))"
proof (cases "getExecutionRequest '''' i dbr")
  case (Inr x0)
  have "P db'" if b: "andThen (getItem (xr_item x0) db) (\<lambda>cur. andThen (getExecutionRequest (xr_item x0) i db) (\<lambda>x. body x cur db)) = Inr (db', r)" for db' r
  proof -
    from b obtain cur x where cur: "tselect wi_id (wd_items db) (xr_item x0) = Some cur"
        and x: "getExecutionRequest (xr_item x0) i db = Inr x" and bd: "body x cur db = Inr (db', r)"
      by (auto simp: result_iffs getItem_Inr)
    from cur assms(3) have "xr_item x0 \<noteq> ''''" by auto
    with getExecutionRequest_Inr [OF x] have xs: "tselect xr_id (wd_exec_requests db) i = Some x" "xr_item x = xr_item x0" by auto
    moreover from xs have "xr_id x = i" by (auto dest: tselect_SomeD)
    ultimately show ?thesis using assms(2) [OF _ _ _ bd] cur item_at [OF cur] by simp
  qed
  with assms(1) show ?thesis unfolding lockedRequest_def Inr sum.case by (rule tx_rule)
qed (use assms(1) in \<open>simp add: lockedRequest_def\<close>)

end
