(* ===== verification/Work_Machine.thy ===== *)
theory Work_Machine
  imports Work_Ops
begin

text \<open>
  The runs of the work item store: any operations one after another, each with the reads its caller
  made outside the lock, which may be of any earlier or later database; that each is a step of
  \<open>Work_Step\<close>; and what a step keeps of the items and their journal.
\<close>

datatype work_op =
    OpCreate tx_fault gotime string create_input
  | OpTransition tx_fault gotime work_transition_input
  | OpResume tx_fault gotime string resume_input
  | OpAttach tx_fault gotime string execution_input
  | OpCloseOrphan tx_fault gotime orphan_input work_db
  | OpIntent tx_fault gotime int intent_input
  | OpSurface tx_fault gotime surface_input
  | OpRequest bool tx_fault gotime string exec_request_input
  | OpClaim bool tx_fault gotime string claim_input "string \<times> string"
  | OpFulfil tx_fault gotime string fulfil_input work_db
  | OpReject tx_fault gotime reject_input work_db
  | OpSeal tx_fault gotime snapshot_input
  | OpMint bool gotime string "string option" mint_input "work_db option"
  | OpRevoke gotime string
  | OpPurge gotime duration

fun work_op_run :: "hash \<Rightarrow> work_op \<Rightarrow> work_db \<Rightarrow> work_db" where
  "work_op_run H (OpCreate fault now uuid inp) db = fst (WorkCreate fault now uuid inp db)"
| "work_op_run H (OpTransition fault now inp) db = fst (WorkTransition fault now inp db)"
| "work_op_run H (OpResume fault now uuid inp) db = fst (WorkResume H fault now uuid inp db)"
| "work_op_run H (OpAttach fault now uuid inp) db = fst (AttachExecution H fault now uuid inp db)"
| "work_op_run H (OpCloseOrphan fault now inp dbr) db = fst (CloseOrphanedExecution fault now inp dbr db)"
| "work_op_run H (OpIntent fault now serial inp) db = fst (AppendIntent fault now serial inp db)"
| "work_op_run H (OpSurface fault now inp) db = fst (LinkSurface fault now inp db)"
| "work_op_run H (OpRequest queue fault now uuid inp) db = fst (CreateExecutionRequest queue fault now uuid inp db)"
| "work_op_run H (OpClaim guard fault now uuid inp c) db = fst (wk_withTx fault db (claim_body guard now uuid inp c db))"
| "work_op_run H (OpFulfil fault now uuid inp dbr) db = fst (FulfilExecutionRequest H fault now uuid inp dbr db)"
| "work_op_run H (OpReject fault now inp dbr) db = fst (RejectExecutionRequest fault now inp dbr db)"
| "work_op_run H (OpSeal fault now inp) db = fst (SealSnapshot H fault now inp db)"
| "work_op_run H (OpMint ok now uuid secret inp dbr) db = fst (MintAgentRunToken H ok now uuid secret inp dbr db)"
| "work_op_run H (OpRevoke now i) db = RevokeAgentRunToken now i db"
| "work_op_run H (OpPurge now grace) db = fst (PurgeExpiredAgentRunTokens now grace db)"

fun work_runs :: "hash \<Rightarrow> work_op list \<Rightarrow> work_db \<Rightarrow> work_db" where
  "work_runs H [] db = db"
| "work_runs H (a # as) db = work_runs H as (work_op_run H a db)"

text \<open>The loop of a claim is a run of claims, when nothing else runs between its transactions.\<close>

lemma claim_loop_runs:
  assumes "\<forall>t \<in> set tries. snd (snd (snd t)) = id"
  shows "\<exists>as. fst (claim_loop guard inp cs tries db) = work_runs H as db \<and>
    (\<forall>a \<in> set as. \<exists>fault now uuid c. a = OpClaim guard fault now uuid inp c)"
  using assms
proof (induction guard inp cs tries db rule: claim_loop.induct)
  case (3 guard inp c cs fault now uuid between tries db)
  then have b: "between = id" by (simp add: id_def)
  let ?r = "wk_withTx fault db (claim_body guard now uuid inp c db)"
  let ?a = "OpClaim guard fault now uuid inp c"
  show ?case
  proof (cases "snd ?r = Inr None")
    case True
    then obtain db1 where db1: "?r = (db1, Inr None)" by (cases ?r) simp
    from 3(2) have "\<forall>t \<in> set tries. snd (snd (snd t)) = id" by (simp add: id_def)
    from 3(1) [OF _ _ _ this] db1 b obtain as where "fst (claim_loop guard inp cs tries db1) = work_runs H as db1"
        "\<forall>a \<in> set as. \<exists>fault now uuid c. a = OpClaim guard fault now uuid inp c"
      by (metis id_apply)
    with db1 b show ?thesis by (intro exI [of _ "?a # as"]) simp
  next
    case False
    then have "fst (claim_loop guard inp (c # cs) ((fault, now, uuid, between) # tries) db) = fst ?r"
      using b by (cases ?r; cases "snd ?r") (auto split: option.splits sum.splits)
    with b show ?thesis by (intro exI [of _ "[?a]"]) simp
  qed
qed (intro exI [of _ "[]"], simp)+

section \<open>Every operation is a step\<close>

definition step_ready :: "work_db \<Rightarrow> bool" where
  "step_ready db \<longleftrightarrow> unique_key xe_id (wd_executions db) \<and> tselect wi_id (wd_items db) '''' = None"

lemma tokens_step: "work_step H db (db\<lparr>wd_tokens := ts\<rparr>)"
  by (rule work_step_core) (simp_all add: same_core_def)

lemma mint_step: "work_step H db (fst (MintAgentRunToken H' ok now uuid secret inp dbr db))"
  by (auto simp: MintAgentRunToken_def Let_def tokens_step split: option.splits sum.splits)

lemma tx_step:
  assumes "\<And>db' r. body = Inr (db', r) \<Longrightarrow> c = None \<Longrightarrow> work_step H db db'"
  shows "work_step H db (fst (wk_precheck c db (wk_withTx fault db body)))"
  by (rule precheck_rule, simp, rule tx_rule) (use assms in auto)

lemma orphan_call_step: "work_step H db (fst (CloseOrphanedExecution fault now inp dbr db))"
proof (cases "ExecutionByID (oc_execution inp) dbr")
  case (Inr x)
  show ?thesis unfolding CloseOrphanedExecution_def Inr sum.case
  proof (rule tx_step)
    fix db' r assume b: "orphan_body now inp db = Inr (db', r)" and "orphan_validate inp = None"
    then have "case oc_expected inp of PhaseEmpty \<Rightarrow> False | PhaseWord p \<Rightarrow> \<not> IsTerminalPhase p | PhaseOther \<Rightarrow> True"
      by (simp add: orphan_validate_def first_error_None wk_require_def split: if_splits)
    with b show "work_step H db db'" by (rule orphan_step)
  qed
qed (simp add: CloseOrphanedExecution_def wk_precheck_def split: option.splits)

lemma attach_call_step:
  assumes "step_ready db"
  shows "work_step H db (fst (AttachExecution H fault now uuid inp db))"
proof (cases "xi_phase inp")
  case (Some ph)
  show ?thesis unfolding AttachExecution_def Some option.case
    by (rule tx_step) (erule attach_step, use assms in \<open>simp add: step_ready_def\<close>)
qed (simp add: AttachExecution_def wk_precheck_def split: option.splits)

lemma ask_call_step: "work_step H db (fst (CreateExecutionRequest queue fault now uuid inp db))"
proof (cases "xq_kind inp")
  case (KindWord k)
  show ?thesis unfolding CreateExecutionRequest_def KindWord kind_word.case
    by (rule tx_step) (erule ask_step)
qed (simp add: CreateExecutionRequest_def wk_precheck_def split: option.splits)

lemma fulfil_call_step:
  assumes "step_ready db"
  shows "work_step H db (fst (FulfilExecutionRequest H fault now uuid inp dbr db))"
  unfolding FulfilExecutionRequest_def
  by (rule precheck_rule, simp, rule locked_rule, simp, erule (2) fulfil_step [rotated])
    (use assms in \<open>simp_all add: step_ready_def\<close>)

lemma reject_call_step:
  assumes "step_ready db"
  shows "work_step H db (fst (RejectExecutionRequest fault now inp dbr db))"
  unfolding RejectExecutionRequest_def
  by (rule precheck_rule, simp, rule locked_rule, simp, erule reject_step)
    (use assms in \<open>simp_all add: step_ready_def\<close>)

theorem work_op_step:
  assumes "step_ready db"
  shows "work_step H db (work_op_run H a db)"
proof (cases a)
  case (OpCreate fault now uuid inp)
  show ?thesis unfolding OpCreate work_op_run.simps WorkCreate_def by (rule tx_step) (erule create_step)
next
  case (OpTransition fault now inp)
  show ?thesis unfolding OpTransition work_op_run.simps WorkTransition_def by (rule tx_step) (erule work_transition_step)
next
  case (OpResume fault now uuid inp)
  show ?thesis unfolding OpResume work_op_run.simps WorkResume_def by (rule tx_step) (erule resume_step)
next
  case (OpAttach fault now uuid inp)
  with assms show ?thesis by (simp add: attach_call_step)
next
  case (OpCloseOrphan fault now inp dbr)
  then show ?thesis by (simp add: orphan_call_step)
next
  case (OpIntent fault now serial inp)
  show ?thesis unfolding OpIntent work_op_run.simps AppendIntent_def by (rule tx_step) (erule intent_step)
next
  case (OpSurface fault now inp)
  show ?thesis unfolding OpSurface work_op_run.simps LinkSurface_def by (rule tx_step) (erule surface_step)
next
  case (OpRequest queue fault now uuid inp)
  then show ?thesis by (simp add: ask_call_step)
next
  case (OpClaim guard fault now uuid inp c)
  show ?thesis unfolding OpClaim work_op_run.simps by (rule tx_rule) (simp, erule claim_step)
next
  case (OpFulfil fault now uuid inp dbr)
  with assms show ?thesis by (simp add: fulfil_call_step)
next
  case (OpReject fault now inp dbr)
  with assms show ?thesis by (simp add: reject_call_step)
next
  case (OpSeal fault now inp)
  show ?thesis unfolding OpSeal work_op_run.simps SealSnapshot_def
    by (rule tx_step) (metis seal_step surj_pair)
next
  case (OpMint ok now uuid secret inp dbr)
  then show ?thesis by (simp add: mint_step)
next
  case (OpRevoke now i)
  then show ?thesis by (simp add: RevokeAgentRunToken_def tokens_step)
next
  case (OpPurge now grace)
  then show ?thesis by (simp add: PurgeExpiredAgentRunTokens_def Let_def tokens_step)
qed

text \<open>
  The invariants of the work item store: the journal of an item replays to its state, an item has at
  most one open execution and one open request, every execution's lineage is the one stored with it,
  a fulfilled request names an execution of its own, a snapshot is the only one of its execution.
\<close>

section \<open>Items and their journal\<close>

abbreviation events_of :: "string \<Rightarrow> work_event list \<Rightarrow> work_event list" where
  "events_of i evs \<equiv> filter (\<lambda>e. ev_item e = i) evs"

definition legal_move :: "work_state option \<Rightarrow> work_state \<Rightarrow> bool" where
  "legal_move o' to = (case o' of
     None \<Rightarrow> to = WorkActive
   | Some st \<Rightarrow> \<not> IsTerminalState st \<and>
       (to = st \<or> list_ex (\<lambda>a. Transitions st a = Some to)
          [ActionWait, ActionResume, ActionComplete, ActionSupersede, ActionArchive]))"

text \<open>The state after a journal, None when the journal is not one the transitions allow.\<close>

fun replay :: "work_state option \<Rightarrow> work_event list \<Rightarrow> work_state option option" where
  "replay st [] = Some st"
| "replay st (e # es) = (case ev_to e of
     None \<Rightarrow> replay st es
   | Some to \<Rightarrow> if ev_from e = st \<and> legal_move st to then replay (Some to) es else None)"

definition moves :: "work_event list \<Rightarrow> nat" where
  "moves evs = length (filter (\<lambda>e. ev_to e \<noteq> None) evs)"

definition item_journal_ok :: "work_item list \<times> work_event list \<Rightarrow> string \<Rightarrow> bool" where
  "item_journal_ok s i \<longleftrightarrow>
     map ev_seq (events_of i (snd s)) = map int [1..<Suc (length (events_of i (snd s)))] \<and>
     replay None (events_of i (snd s)) = Some (map_option wi_state (tselect wi_id (fst s) i)) \<and>
     int (moves (events_of i (snd s))) = (case tselect wi_id (fst s) i of None \<Rightarrow> 0 | Some w \<Rightarrow> wi_version w)"

definition items_ok :: "work_item list \<times> work_event list \<Rightarrow> bool" where
  "items_ok s \<longleftrightarrow> unique_key wi_id (fst s) \<and> tselect wi_id (fst s) '''' = None \<and> (\<forall>i. item_journal_ok s i)"

lemma replay_append:
  "replay st (es @ [e]) = (case replay st es of
     None \<Rightarrow> None
   | Some st' \<Rightarrow> (case ev_to e of
       None \<Rightarrow> Some st'
     | Some to \<Rightarrow> if ev_from e = st' \<and> legal_move st' to then Some (Some to) else None))"
  by (induction es arbitrary: st) (auto split: option.splits)

lemma next_seq_count:
  assumes "map ev_seq (events_of i evs) = map int [1..<Suc (length (events_of i evs))]"
  shows "next_seq i evs = int (Suc (length (events_of i evs)))"
proof -
  have "foldr (\<lambda>e m. if ev_item e = i then max (ev_seq e) m else m) evs 0 = foldr max (map ev_seq (events_of i evs)) 0"
    by (induction evs) auto
  also have "\<dots> = int (length (events_of i evs))"
  proof -
    have "foldr max (map int [1..<Suc n]) k = max k (int n)" if "0 \<le> k" for k :: int and n
      using that by (induction n arbitrary: k) (auto simp: max_def)
    then show ?thesis unfolding assms by simp
  qed
  finally show ?thesis by (simp add: next_seq_def)
qed

lemma allowed_legal: "allowed_move w w' \<Longrightarrow> legal_move (Some (wi_state w)) (wi_state w')"
  unfolding allowed_move_def legal_move_def
  by (cases "wi_state w") (auto elim!: Transitions.elims)

lemma journal_other:
  assumes "item_journal_ok (items, evs) i" and "ev_item e \<noteq> i" and "tselect wi_id items' i = tselect wi_id items i"
  shows "item_journal_ok (items', evs @ [e]) i"
  using assms by (simp add: item_journal_ok_def)

lemma journal_remark:
  assumes "item_journal_ok (items, evs) i" and "numbered evs e" and "ev_item e = i" and "ev_to e = None"
  shows "item_journal_ok (items, evs @ [e]) i"
  using assms next_seq_count [of i evs] by (simp add: item_journal_ok_def replay_append moves_def numbered_def)

lemma journal_move:
  assumes "item_journal_ok (items, evs) i" and "numbered evs e" and "ev_item e = i"
    and "ev_from e = map_option wi_state (tselect wi_id items i)" and "ev_to e = Some (wi_state w)"
    and "legal_move (ev_from e) (wi_state w)" and "tselect wi_id items' i = Some w"
    and "wi_version w = (case tselect wi_id items i of None \<Rightarrow> 0 | Some w \<Rightarrow> wi_version w) + 1"
  shows "item_journal_ok (items', evs @ [e]) i"
  using assms next_seq_count [of i evs] by (simp add: item_journal_ok_def replay_append moves_def numbered_def)

lemma item_step_ok:
  assumes "item_step s s'" and "items_ok s"
  shows "items_ok s'"
  using assms
proof (induction rule: item_step.induct)
  case (remark evs e items)
  then have "item_journal_ok (items, evs @ [e]) i" for i
    by (cases "ev_item e = i") (auto simp: items_ok_def intro: journal_remark journal_other)
  with remark show ?case by (simp add: items_ok_def)
next
  case (opened items w evs e)
  have "item_journal_ok (items @ [w], evs @ [e]) i" for i
  proof (cases "ev_item e = i")
    case True
    with opened show ?thesis
      by (intro journal_move [where items = items and w = w]) (auto simp: items_ok_def tsel_new legal_move_def)
  next
    case False
    with opened show ?thesis by (intro journal_other [where items = items]) (auto simp: items_ok_def tsel_new)
  qed
  with opened show ?case by (auto simp: items_ok_def tsel_new unique_new)
next
  case (moved items i w w' evs e)
  have id: "wi_id w' = i" "wi_version w' = wi_version w + 1"
    using moved item_at [of items i w] by (auto simp: allowed_move_def same_work_def)
  have "item_journal_ok (tput wi_id items w', evs @ [e]) j" for j
  proof (cases "ev_item e = j")
    case True
    with moved id show ?thesis
      by (intro journal_move [where items = items and w = w']) (auto simp: items_ok_def tselect_tput allowed_legal)
  next
    case False
    with moved id show ?thesis by (intro journal_other [where items = items]) (auto simp: items_ok_def tselect_tput)
  qed
  moreover have "i \<noteq> ''''" using moved by (auto simp: items_ok_def)
  ultimately show ?case using moved id by (simp add: items_ok_def unique_tput tselect_tput)
qed

lemma item_steps_ok: "item_step\<^sup>*\<^sup>* s s' \<Longrightarrow> items_ok s \<Longrightarrow> items_ok s'"
  by (induction rule: rtranclp_induct) (auto intro: item_step_ok)

text \<open>A row once there stays, and a finished item never changes.\<close>

definition item_kept :: "work_item \<Rightarrow> work_item \<Rightarrow> bool" where
  "item_kept w w' \<longleftrightarrow>
     same_work w w' \<and> wi_version w \<le> wi_version w' \<and> (wi_version w' = wi_version w \<or> IsTerminalState (wi_state w) \<longrightarrow> w' = w)"

lemma item_step_kept:
  assumes "item_step s s'" and "tselect wi_id (fst s) i = Some w"
  shows "\<exists>w'. tselect wi_id (fst s') i = Some w' \<and> item_kept w w'"
  using assms
proof (induction rule: item_step.induct)
  case (moved items j v v' evs e)
  have "wi_id v' = j" using moved item_at [of items j v] by (auto simp: allowed_move_def same_work_def)
  with moved show ?case by (auto simp: tselect_tput item_kept_def allowed_move_def same_work_def)
qed (auto simp: tsel_new item_kept_def same_work_def)

lemma item_kept_trans: "item_kept u v \<Longrightarrow> item_kept v w \<Longrightarrow> item_kept u w"
  unfolding item_kept_def same_work_def by auto

lemma item_steps_kept:
  assumes "item_step\<^sup>*\<^sup>* s s'" and "tselect wi_id (fst s) i = Some w"
  shows "\<exists>w'. tselect wi_id (fst s') i = Some w' \<and> item_kept w w'"
  using assms
proof (induction rule: rtranclp_induct)
  case base
  then show ?case by (auto simp: item_kept_def same_work_def)
next
  case (step s' s'')
  then show ?case by (metis item_step_kept item_kept_trans)
qed

end
