(* ===== verification/Work_Lineage.thy ===== *)
theory Work_Lineage
  imports Work_Machine
begin

text \<open>
  Executions and their lineage: the attempts of an item are numbered, at most one of them is open,
  a parent is an earlier attempt of the same item, and the provenance row of an execution holds the
  root a walk over its ancestors reaches.
\<close>

section \<open>Walking the ancestors\<close>

lemma walk_more:
  "walk_lineage n xs c = Some r \<Longrightarrow> n \<le> m \<Longrightarrow> walk_lineage m xs c = Some r"
proof (induction n xs c arbitrary: m rule: walk_lineage.induct)
  case (2 n xs cur)
  then obtain k where "m = Suc k" "n \<le> k" by (cases m) auto
  with 2 show ?case by (auto split: option.splits if_splits)
qed simp

lemma walk_append:
  assumes "walk_lineage n xs c = Some r"
  shows "walk_lineage n (xs @ [e]) c = Some r"
  using assms by (induction n xs c rule: walk_lineage.induct) (auto simp: tsel_new split: option.splits if_splits)

text \<open>The walk reads only the ids and the parents.\<close>

definition links :: "execution list \<Rightarrow> (string \<times> string) list" where
  "links xs = map (\<lambda>e. (xe_id e, xe_from e)) xs"

lemma tselect_links:
  "links xs = links ys \<Longrightarrow> map_option xe_from (tselect xe_id xs c) = map_option xe_from (tselect xe_id ys c)"
proof (induction xs arbitrary: ys)
  case Nil
  then show ?case by (simp add: links_def)
next
  case (Cons x xs)
  then obtain y ys' where "ys = y # ys'" "xe_id y = xe_id x" "xe_from y = xe_from x" "links xs = links ys'"
    unfolding links_def by (cases ys) auto
  with Cons.IH [of ys'] show ?case by (simp add: tselect_Cons)
qed

lemma walk_links:
  assumes "links xs = links ys"
  shows "walk_lineage n xs c = walk_lineage n ys c"
proof (induction n arbitrary: c)
  case (Suc n)
  from tselect_links [OF assms, of c] Suc show ?case
    by (cases "tselect xe_id xs c"; cases "tselect xe_id ys c") auto
qed simp

section \<open>A phase changes no link\<close>

abbreviation phased :: "execution \<Rightarrow> exec_phase \<Rightarrow> gotime option \<Rightarrow> execution" where
  "phased e ph t \<equiv> e\<lparr>xe_phase := ph, xe_ended_at := t\<rparr>"

lemma tput_phased:
  assumes "tselect xe_id xs i = Some e"
  shows "tput xe_id xs (phased e ph t) = map (\<lambda>x. if xe_id x = xe_id e then phased e ph t else x) xs"
  using tselect_SomeD [OF assms] by (auto simp: tput_def)

lemma phased_row:
  assumes "unique_key xe_id xs" and "tselect xe_id xs i = Some e" and "x \<in> set xs" and "xe_id x = xe_id e"
  shows "x = e"
  using tsel_same [OF assms(1,3)] tselect_SomeD [OF assms(2)] assms(4) by metis

lemma map_phased:
  assumes "unique_key xe_id xs" and "tselect xe_id xs i = Some e" and "f (phased e ph t) = f e"
  shows "map f (tput xe_id xs (phased e ph t)) = map f xs"
  unfolding tput_phased [OF assms(2)] map_map
  by (rule map_cong) (use phased_row [OF assms(1,2)] assms(3) in auto)

lemma filter_phased:
  assumes "unique_key xe_id xs" and "tselect xe_id xs i = Some e" and "P (phased e ph t) = P e"
  shows "filter P (tput xe_id xs (phased e ph t)) =
    map (\<lambda>x. if xe_id x = xe_id e then phased e ph t else x) (filter P xs)"
proof -
  have "filter (P \<circ> (\<lambda>x. if xe_id x = xe_id e then phased e ph t else x)) xs = filter P xs"
    by (rule filter_cong) (use phased_row [OF assms(1,2)] assms(3) in auto)
  then show ?thesis by (simp add: tput_phased [OF assms(2)] filter_map)
qed

section \<open>The invariant\<close>

abbreviation is_open :: "execution \<Rightarrow> bool" where
  "is_open e \<equiv> \<not> IsTerminalPhase (xe_phase e)"

abbreviation engine_run :: "execution \<Rightarrow> string \<times> string" where
  "engine_run e \<equiv> (xe_engine e, xe_ref e)"

definition lineage_ok :: "hash \<Rightarrow> execution list \<Rightarrow> provenance list \<Rightarrow> execution \<Rightarrow> bool" where
  "lineage_ok H xs ps e \<longleftrightarrow>
     xe_id e \<noteq> '''' \<and> 1 \<le> xe_attempt e \<and>
     (xe_from e = '''' \<or> (\<exists>f \<in> set xs. xe_id f = xe_from e \<and> xe_item f = xe_item e \<and> xe_attempt f < xe_attempt e)) \<and>
     (\<exists>root p. tselect pv_execution ps (xe_id e) = Some p \<and> prov_of H e root p \<and>
        walk_lineage (nat (xe_attempt e)) xs (xe_id e) = Some root)"

definition execs_ok :: "hash \<Rightarrow> string set \<Rightarrow> execution list \<times> provenance list \<Rightarrow> bool" where
  "execs_ok H items s \<longleftrightarrow>
     unique_key xe_id (fst s) \<and>
     (\<forall>i. map xe_attempt (runs_of i (fst s)) = map int [1..<Suc (length (runs_of i (fst s)))]) \<and>
     (\<forall>i. length (filter is_open (runs_of i (fst s))) \<le> 1) \<and>
     (\<forall>i. distinct (map engine_run (runs_of i (fst s)))) \<and>
     (\<forall>e \<in> set (fst s). xe_item e \<in> items \<and> lineage_ok H (fst s) (snd s) e)"

lemma execs_ok_items: "execs_ok H items s \<Longrightarrow> items \<subseteq> items' \<Longrightarrow> execs_ok H items' s"
  by (auto simp: execs_ok_def)

lemma nat_pred: "(a :: int) = int n + 1 \<Longrightarrow> nat a = Suc n"
  by simp

lemma attempt_le:
  assumes "execs_ok H items s" and "f \<in> set (fst s)"
  shows "xe_attempt f \<le> int (length (runs_of (xe_item f) (fst s)))"
proof -
  let ?r = "runs_of (xe_item f) (fst s)"
  have "xe_attempt f \<in> set (map xe_attempt ?r)" using assms(2) by auto
  also have "\<dots> = set (map int [1..<Suc (length ?r)])" using assms(1) by (simp only: execs_ok_def)
  finally show ?thesis by auto
qed

lemma new_run_ok:
  assumes ok: "execs_ok H items (xs, ps)" and noclash: "\<not> list_ex (exec_clash e) xs" and "xe_item e \<in> items"
    and att: "xe_attempt e = int (length (runs_of (xe_item e) xs)) + 1" and "xe_id e \<noteq> ''''"
    and from_known: "xe_from e = '''' \<or> xe_from e \<in> xe_id ` set (runs_of (xe_item e) xs)"
    and root: "if xe_from e = '''' then root = xe_id e
      else case tselect pv_execution ps (xe_from e) of
        Some q \<Rightarrow> root = pv_root q | None \<Rightarrow> walk_lineage maxLineageWalk (xs @ [e]) (xe_from e) = Some root"
    and free: "tselect pv_execution ps (xe_id e) = None" and p: "prov_of H e root p"
  shows "lineage_ok H (xs @ [e]) (ps @ [p]) e"
proof -
  have new: "tselect xe_id xs (xe_id e) = None"
    using noclash by (auto simp: tselect_None_iff list_ex_iff exec_clash_def)
  have parent: "\<exists>f \<in> set xs. xe_id f = xe_from e \<and> xe_item f = xe_item e \<and> xe_attempt f < xe_attempt e" if "xe_from e \<noteq> ''''"
  proof -
    from from_known that obtain f where f: "f \<in> set xs" "xe_item f = xe_item e" "xe_from e = xe_id f" by auto
    from attempt_le [OF ok, of f] f att show ?thesis by force
  qed
  have "walk_lineage (nat (xe_attempt e)) (xs @ [e]) (xe_id e) = Some root"
  proof -
    obtain k where k: "nat (xe_attempt e) = Suc k" using nat_pred [OF att] by blast
    show ?thesis
    proof (cases "xe_from e = ''''")
      case True
      with root new k show ?thesis by (simp add: tsel_new)
    next
      case False
      with parent obtain f where f: "f \<in> set xs" "xe_id f = xe_from e" "xe_attempt f < xe_attempt e" by auto
      from ok f(1) have "lineage_ok H xs ps f" by (simp add: execs_ok_def)
      then obtain r q where q: "tselect pv_execution ps (xe_id f) = Some q" "prov_of H f r q"
          "walk_lineage (nat (xe_attempt f)) xs (xe_id f) = Some r"
        unfolding lineage_ok_def by blast
      with root False f(2) have "r = root" by (simp add: prov_of_def)
      moreover from f(3) k have "nat (xe_attempt f) \<le> k" by simp
      ultimately have "walk_lineage k (xs @ [e]) (xe_from e) = Some root"
        using walk_append [OF walk_more [OF q(3)]] f(2) by simp
      with False new k show ?thesis by (simp add: tsel_new)
    qed
  qed
  moreover have "tselect pv_execution (ps @ [p]) (xe_id e) = Some p" using free p by (simp add: tsel_new prov_of_def)
  ultimately show ?thesis using assms parent by (auto simp: lineage_ok_def)
qed

lemma exec_step_ok:
  assumes "exec_step H items s s'" and "execs_ok H items s"
  shows "execs_ok H items s'"
  using assms
proof (induction rule: exec_step.induct)
  case (run e xs root ps p)
  from run have new: "tselect xe_id xs (xe_id e) = None"
    by (auto simp: tselect_None_iff list_ex_iff exec_clash_def)
  have old: "lineage_ok H (xs @ [e]) (ps @ [p]) f" if "f \<in> set xs" for f
  proof -
    from run.prems that have l: "lineage_ok H xs ps f" by (simp add: execs_ok_def)
    then obtain root q where "tselect pv_execution ps (xe_id f) = Some q" "prov_of H f root q"
        "walk_lineage (nat (xe_attempt f)) xs (xe_id f) = Some root"
      unfolding lineage_ok_def by blast
    moreover from this have "walk_lineage (nat (xe_attempt f)) (xs @ [e]) (xe_id f) = Some root" by (simp add: walk_append)
    ultimately show ?thesis using l by (fastforce simp: lineage_ok_def tsel_new)
  qed
  have "lineage_ok H (xs @ [e]) (ps @ [p]) e"
    by (rule new_run_ok [OF run.prems run.hyps])
  moreover have "length (filter is_open (runs_of i (xs @ [e]))) \<le> 1" for i
  proof (cases "xe_item e = i \<and> is_open e")
    case True
    with run.hyps(1) have "filter is_open (runs_of i xs) = []"
      by (auto simp: list_ex_iff exec_clash_def filter_empty_conv)
    with True show ?thesis by simp
  next
    case False
    with run.prems show ?thesis by (auto simp: execs_ok_def)
  qed
  moreover have "map xe_attempt (runs_of i (xs @ [e])) = map int [1..<Suc (length (runs_of i (xs @ [e])))]" for i
    using run.prems run.hyps(3) by (simp add: execs_ok_def)
  moreover have "distinct (map engine_run (runs_of i (xs @ [e])))" for i
    using run.prems run.hyps(1) by (auto simp: execs_ok_def list_ex_iff exec_clash_def)
  moreover have "unique_key xe_id (xs @ [e])" using run.prems new by (simp add: execs_ok_def unique_new)
  ultimately show ?case using old run by (simp add: execs_ok_def)
next
  case (phase xs i e ps t ph)
  then have u: "unique_key xe_id xs" by (simp add: execs_ok_def)
  let ?e = "phased e ph t"
  let ?g = "\<lambda>x. if xe_id x = xe_id e then ?e else x"
  have runs: "runs_of j (tput xe_id xs ?e) = map ?g (runs_of j xs)" for j
    by (rule filter_phased [OF u phase.hyps(1)]) simp
  have att: "map xe_attempt (runs_of j (tput xe_id xs ?e)) = map xe_attempt (runs_of j xs)" for j
    unfolding runs map_map by (rule map_cong) (use phased_row [OF u phase.hyps(1)] in auto)
  have fewer: "length (filter is_open (map ?g ys)) \<le> length (filter is_open ys)" if "set ys \<subseteq> set xs" for ys
    using that phased_row [OF u phase.hyps(1)] phase.hyps(2) by (induction ys) auto
  have opens: "length (filter is_open (runs_of j (tput xe_id xs ?e))) \<le> 1" for j
  proof -
    have "length (filter is_open (map ?g (runs_of j xs))) \<le> length (filter is_open (runs_of j xs))"
      by (rule fewer) auto
    also have "\<dots> \<le> 1" using phase.prems unfolding execs_ok_def fst_conv by blast
    finally show ?thesis unfolding runs .
  qed
  have links: "links (tput xe_id xs ?e) = links xs"
    unfolding links_def by (rule map_phased [OF u phase.hyps(1)]) simp
  have lin: "lineage_ok H (tput xe_id xs ?e) ps f'" if "f' \<in> set (tput xe_id xs ?e)" for f'
  proof -
    from that obtain f where f: "f \<in> set xs" "f' = ?g f" unfolding tput_phased [OF phase.hyps(1)] by auto
    with phased_row [OF u phase.hyps(1)] have same: "xe_id f' = xe_id f" "xe_item f' = xe_item f" "xe_from f' = xe_from f"
        "xe_attempt f' = xe_attempt f" "xe_engine f' = xe_engine f" "xe_ref f' = xe_ref f" by auto
    have parent: "\<exists>h' \<in> set (tput xe_id xs ?e). xe_id h' = xe_id h \<and> xe_item h' = xe_item h \<and> xe_attempt h' = xe_attempt h"
      if "h \<in> set xs" for h
      unfolding tput_phased [OF phase.hyps(1)]
      by (rule bexI [of _ "?g h"]) (use that phased_row [OF u phase.hyps(1)] in auto)
    from phase.prems f(1) have "lineage_ok H xs ps f" by (simp add: execs_ok_def)
    with same parent show ?thesis
      unfolding lineage_ok_def prov_of_def walk_links [OF links] by metis
  qed
  have it: "xe_item f \<in> items" if "f \<in> set (tput xe_id xs ?e)" for f
    using set_tput [OF that] phase tselect_SomeD [OF phase.hyps(1)] by (auto simp: execs_ok_def)
  have eng: "map engine_run (runs_of j (tput xe_id xs ?e)) = map engine_run (runs_of j xs)" for j
    unfolding runs map_map by (rule map_cong) (use phased_row [OF u phase.hyps(1)] in auto)
  have "length (runs_of j (tput xe_id xs ?e)) = length (runs_of j xs)" for j by (simp add: runs)
  with att eng opens lin it phase.prems u show ?case by (simp add: execs_ok_def unique_tput)
qed

end
