(* ===== verification/Work_Claims.thy ===== *)
theory Work_Claims
  imports Work_Lineage
begin

text \<open>
  Execution requests, snapshots, and the invariant of the whole database: every run of operations
  from the empty database keeps it.
\<close>

section \<open>Requests\<close>

abbreviation requests_of :: "string \<Rightarrow> exec_request list \<Rightarrow> exec_request list" where
  "requests_of i rs \<equiv> filter (\<lambda>x. xr_item x = i) rs"

definition fulfilled_by :: "execution list \<Rightarrow> exec_request \<Rightarrow> bool" where
  "fulfilled_by xs x \<longleftrightarrow>
     (if xr_state x = XrFulfilled then \<exists>e \<in> set xs. xe_id e = xr_execution x \<and> xe_item e = xr_item x
      else xr_execution x = '''')"

definition requests_ok :: "execution list \<Rightarrow> exec_request list \<Rightarrow> bool" where
  "requests_ok xs rs \<longleftrightarrow>
     unique_key xr_id rs \<and>
     (\<forall>x \<in> set rs. \<forall>y \<in> set rs. open_request x \<and> open_request y \<and> xr_item x = xr_item y \<longrightarrow> x = y) \<and>
     (\<forall>x \<in> set rs. fulfilled_by xs x) \<and>
     (\<forall>x \<in> set rs. \<forall>y \<in> set rs. xr_state x = XrFulfilled \<and> xr_execution x = xr_execution y \<longrightarrow> x = y)"

text \<open>Executions keep their id and item.\<close>

definition runs_kept :: "execution list \<Rightarrow> execution list \<Rightarrow> bool" where
  "runs_kept xs xs' \<longleftrightarrow> (\<forall>e \<in> set xs. \<exists>e' \<in> set xs'. xe_id e' = xe_id e \<and> xe_item e' = xe_item e \<and> xe_attempt e' = xe_attempt e)"

lemma runs_kept_append: "runs_kept xs (xs @ [e])"
  by (auto simp: runs_kept_def)

lemma exec_step_kept:
  assumes "exec_step H items s s'" and "unique_key xe_id (fst s)"
  shows "runs_kept (fst s) (fst s')"
  using assms
proof (induction rule: exec_step.induct)
  case (phase xs i e ps t ph)
  show ?case unfolding runs_kept_def fst_conv tput_phased [OF phase.hyps(1)]
  proof
    fix x assume "x \<in> set xs"
    with phased_row [OF _ phase.hyps(1)] phase.prems
    show "\<exists>e' \<in> set (map (\<lambda>x. if xe_id x = xe_id e then phased e ph t else x) xs).
        xe_id e' = xe_id x \<and> xe_item e' = xe_item x \<and> xe_attempt e' = xe_attempt x"
      by (intro bexI [of _ "if xe_id x = xe_id e then phased e ph t else x"]) auto
  qed
qed (auto simp: runs_kept_def)

lemma fulfilled_kept:
  assumes "runs_kept xs xs'" and "fulfilled_by xs x"
  shows "fulfilled_by xs' x"
proof (cases "xr_state x = XrFulfilled")
  case True
  with assms(2) obtain e where "e \<in> set xs" "xe_id e = xr_execution x" "xe_item e = xr_item x"
    by (auto simp: fulfilled_by_def)
  moreover from assms(1) this(1) obtain e' where "e' \<in> set xs'" "xe_id e' = xe_id e" "xe_item e' = xe_item e"
    unfolding runs_kept_def by blast
  ultimately show ?thesis using True by (auto simp: fulfilled_by_def)
qed (use assms(2) in \<open>simp add: fulfilled_by_def\<close>)

lemma requests_ok_kept: "requests_ok xs rs \<Longrightarrow> runs_kept xs xs' \<Longrightarrow> requests_ok xs' rs"
  by (simp add: requests_ok_def fulfilled_kept)

text \<open>Replacing a row by one that keeps its id and item and is no more open.\<close>

lemma requests_put:
  assumes ok: "requests_ok xs rs" and x: "tselect xr_id rs i = Some x"
    and same: "xr_id y = xr_id x" "xr_item y = xr_item x" and "open_request y \<Longrightarrow> open_request x"
    and "fulfilled_by xs y"
    and used: "\<forall>e \<in> set xs. xe_id e \<noteq> ''''"
    and fresh: "xr_state y = XrFulfilled \<Longrightarrow> \<forall>z \<in> set rs. xr_execution z \<noteq> xr_execution y"
  shows "requests_ok xs (tput xr_id rs y)"
proof -
  have u: "unique_key xr_id rs" using ok by (simp add: requests_ok_def)
  have mem: "x \<in> set rs" "xr_id x = i" using tselect_SomeD [OF x] by auto
  have row: "z = y \<or> z \<in> set rs \<and> xr_id z \<noteq> xr_id x" if "z \<in> set (tput xr_id rs y)" for z
    using that mem same by (auto simp: tput_def split: if_splits)
  have one: "a = b" if "a \<in> set (tput xr_id rs y)" "b \<in> set (tput xr_id rs y)" "open_request a" "open_request b" "xr_item a = xr_item b" for a b
    using row [OF that(1)] row [OF that(2)] that ok mem same assms(5) unfolding requests_ok_def by metis
  have "fulfilled_by xs z" if "z \<in> set (tput xr_id rs y)" for z
    using row [OF that] ok assms(6) unfolding requests_ok_def by metis
  moreover have "a = b" if "a \<in> set (tput xr_id rs y)" "b \<in> set (tput xr_id rs y)" "xr_state a = XrFulfilled" "xr_execution a = xr_execution b" for a b
  proof -
    note ab = that
    from row [OF ab(1)] row [OF ab(2)]
    consider "a = y" "b = y" | "a = y" "b \<in> set rs" | "b = y" "a \<in> set rs" | "a \<in> set rs" "b \<in> set rs"
      by auto
    then show ?thesis
    proof cases
      case 2
      with fresh ab show ?thesis by auto
    next
      case 3
      with ab ok have "fulfilled_by xs a" "xr_execution y \<noteq> '''' \<or> xr_execution a = ''''" by (auto simp: requests_ok_def)
      with 3 ab ok assms(6) fresh used show ?thesis
        by (cases "xr_state y = XrFulfilled") (auto simp: fulfilled_by_def)
    next
      case 4
      with ab ok show ?thesis unfolding requests_ok_def by metis
    qed simp
  qed
  ultimately show ?thesis using u one by (simp add: requests_ok_def unique_tput)
qed

lemma request_step_ok:
  assumes "request_step xs xs' rs rs'" and "requests_ok xs rs" and "runs_kept xs xs'"
    and "unique_key xe_id xs'" and "\<forall>e \<in> set xs'. xe_id e \<noteq> ''''"
  shows "requests_ok xs' rs'"
proof -
  have ok: "requests_ok xs' rs" by (rule requests_ok_kept [OF assms(2,3)])
  from assms(1) show ?thesis
  proof cases
    case unasked
    with ok show ?thesis by simp
  next
    case (asked x)
    have none: "\<not> (xr_item y = xr_item x \<and> open_request y)" if "y \<in> set rs" for y
      using asked(5) that by (auto simp: find_None_iff)
    have used: "xr_execution y \<noteq> ''''" if "y \<in> set rs" "xr_state y = XrFulfilled" for y
      using ok that assms(5) by (fastforce simp: requests_ok_def fulfilled_by_def)
    have "unique_key xr_id (rs @ [x])" using ok asked(2) by (simp add: requests_ok_def unique_new)
    with ok none used asked show ?thesis
      unfolding asked(1) requests_ok_def by (auto simp: fulfilled_by_def)
  next
    case (taken i x now inp token)
    show ?thesis unfolding taken(1)
      by (rule requests_put [OF ok taken(2)])
        (use assms(5) ok taken tselect_SomeD [OF taken(2)] in \<open>auto simp: claimed_def open_request_def fulfilled_by_def requests_ok_def\<close>)
  next
    case (fulfilled i x e now)
    have "xe_id e \<notin> xe_id ` set xs" using fulfilled(4) assms(4) by (simp add: unique_key_def)
    then have e: "e \<in> set xs'" "\<forall>f \<in> set xs. xe_id f \<noteq> xe_id e" "xe_id e \<noteq> ''''"
      using fulfilled(4) assms(5) by (simp_all add: image_iff) metis
    have "xr_execution z \<noteq> xe_id e" if "z \<in> set rs" for z
      using assms(2) that e(2,3) by (cases "xr_state z = XrFulfilled") (fastforce simp: requests_ok_def fulfilled_by_def)+
    with e fulfilled assms(5) show ?thesis unfolding fulfilled(1)
      by (intro requests_put [OF ok fulfilled(2)]) (auto simp: open_request_def fulfilled_by_def)
  next
    case (rejected i x why now)
    show ?thesis unfolding rejected(1)
      by (rule requests_put [OF ok rejected(2)])
        (use assms(5) ok rejected tselect_SomeD [OF rejected(2)] in \<open>auto simp: open_request_def fulfilled_by_def requests_ok_def\<close>)
  qed
qed

section \<open>Snapshots\<close>

definition snapshots_ok :: "hash \<Rightarrow> execution list \<Rightarrow> context_snapshot list \<Rightarrow> bool" where
  "snapshots_ok H xs cs \<longleftrightarrow>
     unique_key cs_execution cs \<and>
     (\<forall>c \<in> set cs. cs_hash c = HashCanonical H (cs_canonical c) \<and>
        (\<exists>e \<in> set xs. xe_id e = cs_execution c \<and> xe_item e = cs_item c \<and> xe_attempt e = cs_sequence c))"

lemma snapshot_step_ok:
  assumes "snapshot_step H xs cs cs'" and "snapshots_ok H xs cs"
  shows "snapshots_ok H xs cs'"
  using assms by (induction rule: snapshot_step.induct) (auto simp: snapshots_ok_def unique_new)

lemma snapshots_ok_kept: "snapshots_ok H xs cs \<Longrightarrow> runs_kept xs xs' \<Longrightarrow> snapshots_ok H xs' cs"
  unfolding snapshots_ok_def runs_kept_def by metis

section \<open>The database\<close>

definition work_ok :: "hash \<Rightarrow> work_db \<Rightarrow> bool" where
  "work_ok H db \<longleftrightarrow>
     items_ok (wd_items db, wd_events db) \<and>
     execs_ok H (wi_id ` set (wd_items db)) (wd_executions db, wd_provenance db) \<and>
     requests_ok (wd_executions db) (wd_exec_requests db) \<and>
     snapshots_ok H (wd_executions db) (wd_snapshots db)"

lemma items_kept:
  assumes "item_step\<^sup>*\<^sup>* (items, evs) (items', evs')"
  shows "wi_id ` set items \<subseteq> wi_id ` set items'"
proof
  fix i assume "i \<in> wi_id ` set items"
  then obtain w where "tselect wi_id items i = Some w" by (cases "tselect wi_id items i") (auto simp: tselect_None_iff)
  with item_steps_kept [OF assms] obtain w' where "tselect wi_id items' i = Some w'" by fastforce
  then show "i \<in> wi_id ` set items'" by (auto dest: item_at)
qed

theorem work_step_ok:
  assumes "work_step H db db'" and "work_ok H db"
  shows "work_ok H db'"
proof -
  from assms have st: "item_step\<^sup>*\<^sup>* (wd_items db, wd_events db) (wd_items db', wd_events db')"
      "exec_step H (wi_id ` set (wd_items db)) (wd_executions db, wd_provenance db) (wd_executions db', wd_provenance db')"
      "request_step (wd_executions db) (wd_executions db') (wd_exec_requests db) (wd_exec_requests db')"
      "snapshot_step H (wd_executions db) (wd_snapshots db) (wd_snapshots db')"
      and ok: "items_ok (wd_items db, wd_events db)"
      "execs_ok H (wi_id ` set (wd_items db)) (wd_executions db, wd_provenance db)"
      "requests_ok (wd_executions db) (wd_exec_requests db)" "snapshots_ok H (wd_executions db) (wd_snapshots db)"
    by (simp_all add: work_step_def work_ok_def)
  have x: "execs_ok H (wi_id ` set (wd_items db')) (wd_executions db', wd_provenance db')"
    by (rule execs_ok_items [OF exec_step_ok [OF st(2) ok(2)] items_kept [OF st(1)]])
  have kept: "runs_kept (wd_executions db) (wd_executions db')"
    using exec_step_kept [OF st(2)] ok(2) by (simp add: execs_ok_def)
  from x have ids: "unique_key xe_id (wd_executions db')" "\<forall>e \<in> set (wd_executions db'). xe_id e \<noteq> ''''"
    by (simp_all add: execs_ok_def lineage_ok_def)
  from x item_steps_ok [OF st(1) ok(1)] request_step_ok [OF st(3) ok(3) kept ids] snapshots_ok_kept [OF snapshot_step_ok [OF st(4) ok(4)] kept]
  show ?thesis by (simp add: work_ok_def)
qed

lemma work_ok_ready: "work_ok H db \<Longrightarrow> step_ready db"
  by (simp add: work_ok_def step_ready_def items_ok_def execs_ok_def)

lemma work_ok_empty: "work_ok H empty_wdb"
  by (simp add: work_ok_def empty_wdb_def items_ok_def item_journal_ok_def execs_ok_def requests_ok_def snapshots_ok_def
      unique_key_def moves_def)

theorem work_op_ok: "work_ok H db \<Longrightarrow> work_ok H (work_op_run H a db)"
  using work_step_ok [OF work_op_step [OF work_ok_ready]] by blast

lemma work_runs_ok: "work_ok H db \<Longrightarrow> work_ok H (work_runs H as db)"
  by (induction as arbitrary: db) (simp_all add: work_op_ok)

text \<open>The databases the store can be in.\<close>

inductive work_reach :: "hash \<Rightarrow> work_db \<Rightarrow> bool" for H where
  start: "work_reach H empty_wdb"
| call: "work_reach H db \<Longrightarrow> work_reach H (work_op_run H a db)"

lemma reach_ok: "work_reach H db \<Longrightarrow> work_ok H db"
  by (induction rule: work_reach.induct) (simp_all add: work_ok_empty work_op_ok)

lemma reach_runs: "work_reach H db \<Longrightarrow> work_reach H (work_runs H as db)"
  by (induction as arbitrary: db) (simp_all add: work_reach.call)

lemma runs_reach: "work_reach H (work_runs H as empty_wdb)"
  by (rule reach_runs) (rule work_reach.start)

text \<open>Along any run, an item is kept, and a finished one does not change.\<close>

lemma runs_item_kept:
  assumes "work_ok H db" and "tselect wi_id (wd_items db) i = Some w"
  shows "\<exists>w'. tselect wi_id (wd_items (work_runs H as db)) i = Some w' \<and> item_kept w w'"
  using assms
proof (induction as arbitrary: db w)
  case Nil
  then show ?case by (auto simp: item_kept_def same_work_def)
next
  case (Cons a as)
  have "item_step\<^sup>*\<^sup>* (wd_items db, wd_events db) (wd_items (work_op_run H a db), wd_events (work_op_run H a db))"
    using work_op_step [OF work_ok_ready [OF Cons.prems(1)]] by (simp add: work_step_def)
  from item_steps_kept [OF this] Cons.prems(2) obtain w1 where
      w1: "tselect wi_id (wd_items (work_op_run H a db)) i = Some w1" "item_kept w w1" by auto
  from Cons.IH [OF work_op_ok [OF Cons.prems(1)] w1(1)] w1(2) show ?case by (auto intro: item_kept_trans)
qed

text \<open>A finished execution keeps its row.\<close>

lemma exec_step_final:
  assumes "exec_step H items s s'" and "tselect xe_id (fst s) i = Some e" and "IsTerminalPhase (xe_phase e)"
  shows "tselect xe_id (fst s') i = Some e"
  using assms
proof (induction rule: exec_step.induct)
  case (phase xs j f ps t ph)
  then have "xe_id f = j" by (auto dest: tselect_SomeD)
  with phase show ?case by (auto simp: tselect_tput)
qed (auto simp: tsel_new)

lemma runs_finished:
  assumes "work_ok H db" and "tselect xe_id (wd_executions db) i = Some e" and "IsTerminalPhase (xe_phase e)"
  shows "tselect xe_id (wd_executions (work_runs H as db)) i = Some e"
  using assms
proof (induction as arbitrary: db)
  case (Cons a as)
  have "exec_step H (wi_id ` set (wd_items db)) (wd_executions db, wd_provenance db)
      (wd_executions (work_op_run H a db), wd_provenance (work_op_run H a db))"
    using work_op_step [OF work_ok_ready [OF Cons.prems(1)]] by (simp add: work_step_def)
  from exec_step_final [OF this] Cons.prems have "tselect xe_id (wd_executions (work_op_run H a db)) i = Some e" by simp
  with Cons work_op_ok show ?case by simp
qed simp

end
