(* ===== verification/Work_Retry.thy ===== *)
theory Work_Retry
  imports Work_Claims
begin

text \<open>
  What stays for good: recorded idempotency keys, closed requests, sealed snapshots.  A call that is
  repeated meets the record of the first one, however many operations ran in between.
\<close>

section \<open>Keys\<close>

definition keys_kept :: "work_db \<Rightarrow> work_db \<Rightarrow> bool" where
  "keys_kept db db' \<longleftrightarrow>
     (\<forall>k q. tselect iq_name (wd_requests db) k = Some q \<longrightarrow> tselect iq_name (wd_requests db') k = Some q) \<and>
     (\<forall>k q. tselect cq_name (wd_creates db) k = Some q \<longrightarrow> tselect cq_name (wd_creates db') k = Some q)"

lemma keys_kept_refl [simp]: "keys_kept db db" by (simp add: keys_kept_def)

lemma keys_kept_same:
  "wd_requests db' = wd_requests db \<Longrightarrow> wd_creates db' = wd_creates db \<Longrightarrow> keys_kept db db'"
  by (simp add: keys_kept_def)

lemma keys_kept_trans: "keys_kept a b \<Longrightarrow> keys_kept b c \<Longrightarrow> keys_kept a c"
  by (auto simp: keys_kept_def)

lemma remember_kept: "remember i op res m db = Inr db' \<Longrightarrow> keys_kept db db'"
  by (auto simp: remember_def keys_kept_def tsel_new split: if_splits)

lemma rememberCreate_kept: "rememberCreate inp i db = Inr db' \<Longrightarrow> keys_kept db db'"
  by (auto simp: rememberCreate_def Let_def keys_kept_def tsel_new split: if_splits)

lemma insertExecution_keys:
  "insertExecution H uuid m i eng ref ph from att path now db = Inr (db', e) \<Longrightarrow>
     wd_requests db' = wd_requests db \<and> wd_creates db' = wd_creates db"
  by (auto simp: insertExecution_def insertProvenance_def Let_def result_iffs split: if_splits option.splits)

lemma move_item_keys:
  "move_item i v f now db = Inr (db', w) \<Longrightarrow> wd_requests db' = wd_requests db \<and> wd_creates db' = wd_creates db"
  by (auto simp: move_item_def split: prod.splits option.splits)

lemma resumeTx_keys:
  "resumeTx H uuid cur inp path now db = Inr (db', r) \<Longrightarrow> wd_requests db' = wd_requests db \<and> wd_creates db' = wd_creates db"
  by (auto simp: resumeTx_def Let_def result_iffs dest!: insertExecution_keys move_item_keys)

lemma attachNewTx_keys:
  "attachNewTx H uuid cur m eng ref ph path now db = Inr (db', r) \<Longrightarrow> wd_requests db' = wd_requests db \<and> wd_creates db' = wd_creates db"
  by (auto simp: attachNewTx_def Let_def result_iffs dest!: insertExecution_keys)

lemma correlate_keys:
  "correlate_phase ph now e db = Inr (db', r) \<Longrightarrow> wd_requests db' = wd_requests db \<and> wd_creates db' = wd_creates db"
  by (auto simp: correlate_phase_def Let_def split: if_splits)

lemma close_request_keys:
  "close_request i f db = Inr (db', r) \<Longrightarrow> wd_requests db' = wd_requests db \<and> wd_creates db' = wd_creates db"
  by (auto simp: close_request_def split: prod.splits option.splits)

lemma remember_on:
  assumes "remember i op res m db1 = Inr db'" and "wd_requests db1 = wd_requests db" and "wd_creates db1 = wd_creates db"
  shows "keys_kept db db'"
  using keys_kept_trans [OF keys_kept_same [OF assms(2,3)] remember_kept [OF assms(1)]] .

section \<open>Every operation keeps them\<close>

lemma create_keys: "work_create_body now uuid inp db = Inr (db', r) \<Longrightarrow> keys_kept db db'"
  unfolding work_create_body_def create_fresh_def Let_def
  by (auto simp: result_iffs keys_kept_def split: if_splits option.splits dest!: rememberCreate_kept)

lemma transition_keys:
  assumes "work_transition_body now inp db = Inr (db', r)"
  shows "keys_kept db db'"
proof (cases "db' = db")
  case False
  with assms obtain i v f db1 w k st d res where "move_item i v f now db = Inr (db1, w)"
      and rem: "remember i ''transition'' res (wt_mutation inp)
        (appendEvent i EvStateChanged st k (wt_mutation inp) d now db1) = Inr db'"
    by (auto simp: work_transition_body_def result_iffs Let_def split: option.splits if_splits)
  from move_item_keys [OF this(1)] show ?thesis by (intro remember_on [OF rem]) simp_all
qed simp

lemma resume_keys:
  assumes "resume_body H now uuid inp db = Inr (db', r)"
  shows "keys_kept db db'"
proof (cases "db' = db")
  case False
  with assms obtain cur db1 w e where t: "resumeTx H uuid cur inp AttachPathResume now db = Inr (db1, (w, e))"
      and rem: "remember (wi_id cur) ''resume'' (xe_id e) (re_mutation inp) db1 = Inr db'"
    by (auto simp: resume_body_def result_iffs split: option.splits)
  from resumeTx_keys [OF t] show ?thesis by (intro remember_on [OF rem]) simp_all
qed simp

lemma attach_keys:
  assumes "attach_body H now uuid inp ph db = Inr (db', r)"
  shows "keys_kept db db'"
proof (cases "db' = db")
  case False
  with assms obtain cur db1 e where rem: "remember (wi_id cur) ''execution'' (xe_id e) (xi_mutation inp) db1 = Inr db'"
      and t: "(\<exists>e0. correlate_phase ph now e0 db = Inr (db1, e)) \<or>
        attachNewTx H uuid cur (xi_mutation inp) (xi_engine inp) (xi_ref inp) ph AttachPathAttach now db = Inr (db1, e)"
    by (auto simp: attach_body_def result_iffs split: option.splits) blast
  from t have "wd_requests db1 = wd_requests db \<and> wd_creates db1 = wd_creates db"
    using correlate_keys attachNewTx_keys by metis
  then show ?thesis by (intro remember_on [OF rem]) simp_all
qed simp

lemma orphan_keys: "orphan_body now inp db = Inr (db', r) \<Longrightarrow> keys_kept db db'"
  by (rule keys_kept_same) (auto simp: orphan_body_def split: prod.splits option.splits)

lemma intent_keys:
  assumes "intent_body now serial inp db = Inr (db', r)"
  shows "keys_kept db db'"
proof (cases "db' = db")
  case False
  show ?thesis by (rule intent_body_Inr [OF assms False]) (erule remember_on, simp_all)
qed simp

lemma surface_keys: "surface_body now inp db = Inr (db', r) \<Longrightarrow> keys_kept db db'"
  by (rule keys_kept_same) (auto simp: surface_body_def result_iffs Let_def split: option.splits)

lemma ask_keys:
  assumes "request_create_body queue now uuid inp k db = Inr (db', r)"
  shows "keys_kept db db'"
proof (cases "db' = db")
  case False
  with assms obtain i x k' m d xs where rem: "remember i ''execution_request'' x (xq_mutation inp)
      (appendEvent i k' None None m d now (db\<lparr>wd_exec_requests := xs\<rparr>)) = Inr db'"
    by (auto simp: request_create_body_def result_iffs Let_def split: option.splits if_splits)
  show ?thesis by (rule remember_on [OF rem]) simp_all
qed simp

lemma claim_keys: "claim_body guard now uuid inp c db = Inr (db', r) \<Longrightarrow> keys_kept db db'"
  by (rule keys_kept_same) (auto simp: claim_body_def result_iffs split: if_splits prod.splits option.splits)

lemma attach_for_keys:
  "attach_for H now uuid inp x cur db = Inr (db', r) \<Longrightarrow> wd_requests db' = wd_requests db \<and> wd_creates db' = wd_creates db"
  by (auto simp: attach_for_def result_iffs split: xr_kind.splits dest: attachNewTx_keys resumeTx_keys)

lemma fulfil_keys:
  assumes "fulfil_body H now uuid inp x cur db = Inr (db', r)"
  shows "keys_kept db db'"
proof (cases "db' = db")
  case False
  with assms have "fulfil_claimed H now uuid inp x cur db = Inr (db', r)"
    by (auto simp: fulfil_body_def result_iffs split: xr_state.splits if_splits)
  then obtain db1 we f db2 y where "attach_for H now uuid inp x cur db = Inr (db1, we)"
      "close_request (xr_id x) f db1 = Inr (db2, y)" "wd_requests db' = wd_requests db2" "wd_creates db' = wd_creates db2"
    by (auto simp: fulfil_claimed_def result_iffs split: if_splits)
  with attach_for_keys close_request_keys show ?thesis by (metis keys_kept_same)
qed simp

lemma reject_keys: "reject_body now inp x cur db = Inr (db', r) \<Longrightarrow> keys_kept db db'"
  by (rule keys_kept_same) (auto simp: reject_body_def result_iffs split: xr_state.splits if_splits dest!: close_request_keys)

lemma seal_keys:
  assumes "seal_body H now inp db = Inr (db', (c, b))"
  shows "keys_kept db db'"
  by (rule seal_body_Inr [OF assms]) (auto intro!: keys_kept_same)

lemma tx_keys:
  assumes "\<And>db' r. body = Inr (db', r) \<Longrightarrow> keys_kept db db'"
  shows "keys_kept db (fst (wk_precheck c db (wk_withTx fault db body)))"
  by (rule precheck_rule, simp, rule tx_rule) (use assms in auto)

lemma locked_keys:
  assumes "\<And>x cur db' r. body x cur db = Inr (db', r) \<Longrightarrow> keys_kept db db'"
  shows "keys_kept db (fst (lockedRequest fault i dbr body db))"
proof (cases "getExecutionRequest '''' i dbr")
  case (Inr x0)
  show ?thesis unfolding lockedRequest_def Inr sum.case
    by (rule tx_rule) (use assms in \<open>auto simp: result_iffs\<close>)
qed (simp add: lockedRequest_def)

theorem work_op_keys: "keys_kept db (work_op_run H a db)"
proof (cases a)
  case (OpCreate fault now uuid inp)
  show ?thesis unfolding OpCreate work_op_run.simps WorkCreate_def by (rule tx_keys) (erule create_keys)
next
  case (OpTransition fault now inp)
  show ?thesis unfolding OpTransition work_op_run.simps WorkTransition_def by (rule tx_keys) (erule transition_keys)
next
  case (OpResume fault now uuid inp)
  show ?thesis unfolding OpResume work_op_run.simps WorkResume_def by (rule tx_keys) (erule resume_keys)
next
  case (OpAttach fault now uuid inp)
  show ?thesis
  proof (cases "xi_phase inp")
    case (Some ph)
    show ?thesis unfolding OpAttach work_op_run.simps AttachExecution_def Some option.case
      by (rule tx_keys) (erule attach_keys)
  qed (simp add: OpAttach AttachExecution_def wk_precheck_def split: option.splits)
next
  case (OpCloseOrphan fault now inp dbr)
  show ?thesis
  proof (cases "ExecutionByID (oc_execution inp) dbr")
    case (Inr x)
    show ?thesis unfolding OpCloseOrphan work_op_run.simps CloseOrphanedExecution_def Inr sum.case
      by (rule tx_keys) (erule orphan_keys)
  qed (simp add: OpCloseOrphan CloseOrphanedExecution_def wk_precheck_def split: option.splits)
next
  case (OpIntent fault now serial inp)
  show ?thesis unfolding OpIntent work_op_run.simps AppendIntent_def by (rule tx_keys) (erule intent_keys)
next
  case (OpSurface fault now inp)
  show ?thesis unfolding OpSurface work_op_run.simps LinkSurface_def by (rule tx_keys) (erule surface_keys)
next
  case (OpRequest queue fault now uuid inp)
  show ?thesis
  proof (cases "xq_kind inp")
    case (KindWord k)
    show ?thesis unfolding OpRequest work_op_run.simps CreateExecutionRequest_def KindWord kind_word.case
      by (rule tx_keys) (erule ask_keys)
  qed (simp add: OpRequest CreateExecutionRequest_def wk_precheck_def split: option.splits)
next
  case (OpClaim guard fault now uuid inp c)
  show ?thesis unfolding OpClaim work_op_run.simps by (rule tx_rule) (simp, erule claim_keys)
next
  case (OpFulfil fault now uuid inp dbr)
  show ?thesis unfolding OpFulfil work_op_run.simps FulfilExecutionRequest_def
    by (rule precheck_rule, simp, rule locked_keys, erule fulfil_keys)
next
  case (OpReject fault now inp dbr)
  show ?thesis unfolding OpReject work_op_run.simps RejectExecutionRequest_def
    by (rule precheck_rule, simp, rule locked_keys, erule reject_keys)
next
  case (OpSeal fault now inp)
  show ?thesis unfolding OpSeal work_op_run.simps SealSnapshot_def by (rule tx_keys) (auto elim: seal_keys)
next
  case (OpMint ok now uuid secret inp dbr)
  then show ?thesis
    by (auto simp: MintAgentRunToken_def Let_def keys_kept_same split: option.splits sum.splits)
next
  case (OpRevoke now i)
  then show ?thesis by (simp add: RevokeAgentRunToken_def keys_kept_same)
next
  case (OpPurge now grace)
  then show ?thesis by (simp add: PurgeExpiredAgentRunTokens_def Let_def keys_kept_same)
qed

lemma work_runs_keys: "keys_kept db (work_runs H as db)"
  by (induction as arbitrary: db) (auto intro: keys_kept_trans work_op_keys)

end
