(* ===== verification/Work_Final.thy ===== *)
theory Work_Final
  imports Work_Retry
begin

text \<open>
  What a run of operations leaves as it was: executions but for their phase, closed requests, sealed
  snapshots, and the row of a claim until its claimant closes it or its lease ends.
\<close>

lemma sorted_ints: "sorted (map int [1..<Suc n])"
  by (simp add: sorted_wrt_map del: upt_Suc)

lemma Executions_runs:
  assumes "work_ok H db"
  shows "Executions i db = runs_of i (wd_executions db)"
proof -
  have "map xe_attempt (runs_of i (wd_executions db)) = map int [1..<Suc (length (runs_of i (wd_executions db)))]"
    using assms by (simp add: work_ok_def execs_ok_def)
  then have "sorted (map xe_attempt (runs_of i (wd_executions db)))"
    by (simp only: sorted_ints)
  then show ?thesis by (simp add: Executions_def listExecutions_def sort_key_id_if_sorted)
qed

text \<open>Executions.\<close>

definition same_run_row :: "execution \<Rightarrow> execution \<Rightarrow> bool" where
  "same_run_row e e' \<longleftrightarrow>
     xe_id e' = xe_id e \<and> xe_item e' = xe_item e \<and> xe_engine e' = xe_engine e \<and> xe_ref e' = xe_ref e \<and>
     xe_attempt e' = xe_attempt e \<and> xe_from e' = xe_from e \<and> xe_started_at e' = xe_started_at e"

lemma same_run_row_refl: "same_run_row e e"
  by (simp add: same_run_row_def)

lemma same_run_row_trans: "same_run_row a b \<Longrightarrow> same_run_row b c \<Longrightarrow> same_run_row a c"
  by (simp add: same_run_row_def)

lemma exec_step_row:
  assumes "exec_step H items s s'" and "tselect xe_id (fst s) i = Some e"
  shows "\<exists>e'. tselect xe_id (fst s') i = Some e' \<and> same_run_row e e'"
  using assms
proof (induction rule: exec_step.induct)
  case (phase xs j f ps t ph)
  then have "xe_id f = j" by (auto dest: tselect_SomeD)
  with phase show ?case
    by (cases "i = j") (auto simp: tselect_tput same_run_row_def)
qed (auto simp: tsel_new same_run_row_refl)

lemma op_parts:
  assumes "work_ok H db"
  shows "exec_step H (wi_id ` set (wd_items db)) (wd_executions db, wd_provenance db)
      (wd_executions (work_op_run H a db), wd_provenance (work_op_run H a db))"
    and "request_step (wd_executions db) (wd_executions (work_op_run H a db)) (wd_exec_requests db) (wd_exec_requests (work_op_run H a db))"
    and "snapshot_step H (wd_executions db) (wd_snapshots db) (wd_snapshots (work_op_run H a db))"
  using work_op_step [OF work_ok_ready [OF assms], where a = a] by (simp_all add: work_step_def)

lemma runs_execution:
  assumes "work_ok H db" and "tselect xe_id (wd_executions db) i = Some e"
  shows "\<exists>e'. tselect xe_id (wd_executions (work_runs H as db)) i = Some e' \<and> same_run_row e e'"
  using assms
proof (induction as arbitrary: db e)
  case Nil
  then show ?case by (simp add: same_run_row_refl)
next
  case (Cons a as)
  from exec_step_row [OF op_parts(1) [OF Cons.prems(1), where a = a]] Cons.prems(2) obtain e1 where
      e1: "tselect xe_id (wd_executions (work_op_run H a db)) i = Some e1" "same_run_row e e1" by auto
  from Cons.IH [OF work_op_ok [OF Cons.prems(1)] e1(1)] e1(2) show ?case by (auto intro: same_run_row_trans)
qed

lemma getExecution_later:
  assumes "work_ok H db" and "tselect xe_id (wd_executions db) i = Some e"
  shows "\<exists>e'. getExecution (xe_item e) i (work_runs H as db) = Inr e' \<and> same_run_row e e'"
proof -
  let ?db = "work_runs H as db"
  from runs_execution [OF assms] obtain e' where e': "tselect xe_id (wd_executions ?db) i = Some e'" "same_run_row e e'"
    by blast
  then have item: "xe_item e' = xe_item e" by (auto simp: same_run_row_def)
  have u: "unique_key xe_id (wd_executions ?db)" using work_runs_ok [OF assms(1)] by (simp add: work_ok_def execs_ok_def)
  have "find (\<lambda>x. xe_item x = xe_item e \<and> xe_id x = i) (wd_executions ?db) = Some e'"
  proof (cases "find (\<lambda>x. xe_item x = xe_item e \<and> xe_id x = i) (wd_executions ?db)")
    case None
    with tselect_SomeD [OF e'(1)] item show ?thesis unfolding find_None_iff by blast
  next
    case (Some f)
    then have "f \<in> set (wd_executions ?db)" "xe_id f = i" by (auto simp: find_Some_iff)
    with tsel_same [OF u this(1)] tselect_SomeD [OF e'(1)] have "f = e'" by metis
    with Some show ?thesis by simp
  qed
  with e'(2) show ?thesis by (simp add: getExecution_def)
qed

text \<open>Closed requests.\<close>

lemma request_step_closed:
  assumes "request_step xs xs' rs rs'" and "tselect xr_id rs i = Some x" and "\<not> open_request x"
  shows "tselect xr_id rs' i = Some x"
proof -
  have put: "tselect xr_id (tput xr_id rs y') i = Some x"
    if "tselect xr_id rs j = Some y" "open_request y" "xr_id y' = xr_id y" for j y y'
    using that assms(2,3) tselect_SomeD [OF that(1)] by (auto simp: tselect_tput)
  from assms(1) show ?thesis
  proof cases
    case (taken j y now inp token)
    show ?thesis unfolding taken(1) by (rule put [OF taken(2,3)]) (simp add: claimed_def)
  next
    case (fulfilled j y e now)
    show ?thesis unfolding fulfilled(1) by (rule put [OF fulfilled(2)]) (simp_all add: open_request_def fulfilled(3))
  next
    case (rejected j y why now)
    show ?thesis unfolding rejected(1) by (rule put [OF rejected(2)]) (simp_all add: open_request_def rejected(3))
  qed (use assms(2) in \<open>auto simp: tsel_new\<close>)
qed

lemma runs_closed:
  assumes "work_ok H db" and "tselect xr_id (wd_exec_requests db) i = Some x" and "\<not> open_request x"
  shows "tselect xr_id (wd_exec_requests (work_runs H as db)) i = Some x"
  using assms
proof (induction as arbitrary: db)
  case (Cons a as)
  from request_step_closed [OF op_parts(2) [OF Cons.prems(1), where a = a] Cons.prems(2,3)] Cons work_op_ok show ?case by simp
qed simp

text \<open>Snapshots.\<close>

lemma runs_snapshot:
  assumes "work_ok H db" and "tselect cs_execution (wd_snapshots db) i = Some c"
  shows "tselect cs_execution (wd_snapshots (work_runs H as db)) i = Some c"
  using assms
proof (induction as arbitrary: db)
  case (Cons a as)
  from op_parts(3) [OF Cons.prems(1), where a = a] Cons.prems(2)
  have "tselect cs_execution (wd_snapshots (work_op_run H a db)) i = Some c"
    by (cases rule: snapshot_step.cases) (auto simp: tsel_new)
  with Cons work_op_ok show ?case by simp
qed simp

text \<open>A successful call went through its body.\<close>

lemma call_Inr:
  assumes "wk_precheck c db (wk_withTx fault db body) = (db', Inr r)"
  shows "c = None \<and> body = Inr (db', r)"
  using assms by (auto simp: wk_precheck_def wk_withTx_def split: option.splits if_splits sum.splits)

lemma call_ok: "wk_precheck None db (wk_withTx TxOk db body) =
    (case body of Inl e \<Rightarrow> (db, Inl e) | Inr (db', r) \<Rightarrow> (db', Inr r))"
  by (simp add: wk_precheck_def wk_withTx_def split: sum.splits prod.splits)

lemma locked_Inr:
  assumes "lockedRequest fault i dbr body db = (db', Inr r)" and "tselect wi_id (wd_items db) '''' = None"
  obtains x cur where "tselect wi_id (wd_items db) (wi_id cur) = Some cur"
    "tselect xr_id (wd_exec_requests db) i = Some x" "xr_item x = wi_id cur" "body x cur db = Inr (db', r)"
proof -
  from assms(1) obtain x0 where x0: "getExecutionRequest '''' i dbr = Inr x0"
    by (auto simp: lockedRequest_def split: sum.splits)
  with assms(1) obtain cur x where cur: "tselect wi_id (wd_items db) (xr_item x0) = Some cur"
      and x: "getExecutionRequest (xr_item x0) i db = Inr x" and b: "body x cur db = Inr (db', r)"
    by (auto simp: lockedRequest_def wk_withTx_def result_iffs getItem_Inr split: if_splits sum.splits)
  from cur assms(2) have "xr_item x0 \<noteq> ''''" by auto
  with getExecutionRequest_Inr [OF x] have "tselect xr_id (wd_exec_requests db) i = Some x" "xr_item x = xr_item x0" by auto
  with cur item_at [OF cur] b show ?thesis by (intro that [of cur x]) auto
qed

lemma locked_run:
  assumes "tselect xr_id (wd_exec_requests db) i = Some x" and "tselect wi_id (wd_items db) (xr_item x) = Some cur"
  shows "lockedRequest TxOk i db body db =
    (case body x cur db of Inl e \<Rightarrow> (db, Inl e) | Inr (db', r) \<Rightarrow> (db', Inr r))"
  using assms by (simp add: lockedRequest_def getExecutionRequest_def getItem_def wk_withTx_def split: sum.splits prod.splits)

section \<open>Claims\<close>

text \<open>The claimant's own call on its claim, before the lease ends.\<close>

definition claimants_call :: "exec_request \<Rightarrow> gotime \<Rightarrow> claim_ref \<Rightarrow> bool" where
  "claimants_call x now c \<longleftrightarrow>
     rf_request c = xr_id x \<and> mu_actor (rf_mutation c) = xr_claimed_by x \<and> rf_token c = xr_token x \<and>
     (\<exists>t. xr_claim_expires_at x = Some t \<and> now < t)"

text \<open>
  The operations that may run beside a claim: all but the two that may end it, a claim of the same
  request once the lease has ended, and the claimant's own fulfilment or rejection before.
\<close>

definition spares_claim :: "exec_request \<Rightarrow> work_op \<Rightarrow> bool" where
  "spares_claim x a \<longleftrightarrow> (case a of
       OpClaim guard fault now uuid inp c \<Rightarrow> fst c = xr_id x \<longrightarrow> (\<exists>t. xr_claim_expires_at x = Some t \<and> now < t)
     | OpFulfil fault now uuid inp dbr \<Rightarrow> \<not> claimants_call x now (ff_ref inp)
     | OpReject fault now inp dbr \<Rightarrow> \<not> claimants_call x now (rj_ref inp)
     | _ \<Rightarrow> True)"

lemma live_claimants: "live_claim now c x \<Longrightarrow> rf_request c = xr_id x \<Longrightarrow> claimants_call x now c"
  by (auto simp: live_claim_def holds_claim_def claimants_call_def split: option.splits)

lemma insertExecution_requests:
  "insertExecution H uuid m item engine ref ph from n path now db = Inr (db', e) \<Longrightarrow> wd_exec_requests db' = wd_exec_requests db"
  by (auto simp: insertExecution_def insertProvenance_def Let_def result_iffs split: if_splits option.splits)

lemma move_item_requests: "move_item i v f now db = Inr (db', w) \<Longrightarrow> wd_exec_requests db' = wd_exec_requests db"
  by (auto simp: move_item_def split: prod.splits option.splits)

lemma remember_requests: "remember i k res m db = Inr db' \<Longrightarrow> wd_exec_requests db' = wd_exec_requests db"
  by (auto dest!: remember_Inr)

lemma rememberCreate_requests: "rememberCreate inp i db = Inr db' \<Longrightarrow> wd_exec_requests db' = wd_exec_requests db"
  by (auto dest!: rememberCreate_Inr)

lemma create_requests:
  "work_create_body now uuid inp db = Inr (db', r) \<Longrightarrow> wd_exec_requests db' = wd_exec_requests db"
  by (auto simp: work_create_body_def create_fresh_def Let_def result_iffs split: if_splits option.splits
      dest!: rememberCreate_requests)

lemma transition_requests:
  "work_transition_body now inp db = Inr (db', r) \<Longrightarrow> wd_exec_requests db' = wd_exec_requests db"
  by (auto simp: work_transition_body_def Let_def result_iffs split: if_splits option.splits
      dest!: remember_requests move_item_requests)

lemma resumeTx_requests:
  "resumeTx H uuid cur inp path now db = Inr (db', r) \<Longrightarrow> wd_exec_requests db' = wd_exec_requests db"
  by (cases r) (auto simp: resumeTx_def Let_def result_iffs dest!: insertExecution_requests move_item_requests)

lemma resume_requests:
  "resume_body H now uuid inp db = Inr (db', r) \<Longrightarrow> wd_exec_requests db' = wd_exec_requests db"
  by (auto simp: resume_body_def result_iffs split: option.splits dest!: remember_requests resumeTx_requests)

lemma attachNewTx_requests:
  "attachNewTx H uuid cur m engine ref ph path now db = Inr (db', e) \<Longrightarrow> wd_exec_requests db' = wd_exec_requests db"
  by (auto simp: attachNewTx_def Let_def result_iffs dest!: insertExecution_requests)

lemma correlate_requests: "correlate_phase ph now e db = Inr (db', e') \<Longrightarrow> wd_exec_requests db' = wd_exec_requests db"
  by (auto simp: correlate_phase_def Let_def split: if_splits)

lemma attach_requests:
  assumes "attach_body H now uuid inp ph db = Inr (db', r)"
  shows "wd_exec_requests db' = wd_exec_requests db"
proof -
  from assms obtain cur seen where cur: "getItem (xi_item inp) db = Inr cur"
      and seen: "replayed (wi_id cur) ''execution'' (xi_mutation inp) db = Inr seen"
    by (auto simp: attach_body_def result_iffs)
  show ?thesis
  proof (cases seen)
    case (Some x)
    with assms cur seen show ?thesis by (auto simp: attach_body_def result_iffs)
  next
    case None
    show ?thesis
    proof (cases "find (\<lambda>e. xe_item e = wi_id cur \<and> same_run (xi_engine inp) (xi_ref inp) e) (wd_executions db)")
      case (Some e)
      with None assms cur seen show ?thesis
        by (auto simp: attach_body_def result_iffs dest!: remember_requests correlate_requests)
    next
      case none: None
      with None assms cur seen show ?thesis
        by (auto simp: attach_body_def result_iffs dest!: remember_requests attachNewTx_requests)
    qed
  qed
qed

lemma attach_for_requests:
  "attach_for H now uuid inp x cur db = Inr (db', r) \<Longrightarrow> wd_exec_requests db' = wd_exec_requests db"
  by (cases r) (auto simp: attach_for_def result_iffs split: xr_kind.splits dest!: attachNewTx_requests resumeTx_requests)

lemma orphan_requests:
  "orphan_body now inp db = Inr (db', r) \<Longrightarrow> wd_exec_requests db' = wd_exec_requests db"
  by (auto simp: orphan_body_def split: prod.splits option.splits)

lemma intent_requests:
  assumes "intent_body now serial inp db = Inr (db', r)"
  shows "wd_exec_requests db' = wd_exec_requests db"
proof (cases "db' = db")
  case False
  show ?thesis by (rule intent_body_Inr [OF assms False], drule remember_requests) simp
qed simp

lemma surface_requests:
  "surface_body now inp db = Inr (db', r) \<Longrightarrow> wd_exec_requests db' = wd_exec_requests db"
  by (auto simp: surface_body_def result_iffs Let_def split: option.splits)

lemma seal_requests:
  assumes "seal_body H now inp db = Inr (db', r)"
  shows "wd_exec_requests db' = wd_exec_requests db"
  using assms by (cases r) (auto elim!: seal_body_Inr)

text \<open>Asking for another request appends a row.\<close>

lemma ask_requests:
  assumes "request_create_body queue now uuid inp kind db = Inr (db', r)"
    and "tselect xr_id (wd_exec_requests db) i = Some x"
  shows "tselect xr_id (wd_exec_requests db') i = Some x"
  using assms by (auto simp: request_create_body_def result_iffs Let_def tsel_new split: option.splits if_splits dest!: remember_requests)

lemma claim_spared:
  assumes "claim_body guard now uuid inp c db = Inr (db', r)" and x: "tselect xr_id (wd_exec_requests db) (xr_id x) = Some x"
    and "xr_state x = XrClaimed" and "fst c = xr_id x \<longrightarrow> (\<exists>t. xr_claim_expires_at x = Some t \<and> now < t)"
  shows "tselect xr_id (wd_exec_requests db') (xr_id x) = Some x"
proof (cases r)
  case None
  with assms(1) have "db' = db" by (auto simp: claim_body_def result_iffs split: if_splits prod.splits option.splits)
  with x show ?thesis by simp
next
  case (Some y)
  with assms(1) obtain z where z: "tselect xr_id (wd_exec_requests db) (fst c) = Some z" "claimable now z"
      and db': "wd_exec_requests db' = tput xr_id (wd_exec_requests db) (claimed inp (executionRequestClaimPrefix @ uuid) now z)"
    by (auto simp: claim_body_def result_iffs tupdate_def split: if_splits prod.splits option.splits)
  then have "fst c \<noteq> xr_id x" using assms(3,4) x by (auto simp: claimable_def)
  with x tselect_SomeD [OF z(1)] show ?thesis by (auto simp: db' tselect_tput claimed_def)
qed

lemma close_spared:
  assumes "close_request i f db = Inr (db', y)" and "i \<noteq> xr_id x" and "\<And>z. xr_id (f z) = xr_id z"
    and "tselect xr_id (wd_exec_requests db) (xr_id x) = Some x"
  shows "tselect xr_id (wd_exec_requests db') (xr_id x) = Some x"
proof -
  from assms(1) obtain z where "tselect xr_id (wd_exec_requests db) i = Some z"
      "wd_exec_requests db' = tput xr_id (wd_exec_requests db) (f z)"
    by (auto simp: close_request_def tupdate_def split: option.splits if_splits)
  with assms(2-4) tselect_SomeD [of xr_id "wd_exec_requests db" i z] show ?thesis by (simp add: tselect_tput)
qed

lemma fulfil_spared:
  assumes "fulfil_body H now uuid inp z cur db = Inr (db', r)" and x: "tselect xr_id (wd_exec_requests db) (xr_id x) = Some x"
    and z: "tselect xr_id (wd_exec_requests db) (rf_request (ff_ref inp)) = Some z" and "xr_state x = XrClaimed"
    and "\<not> claimants_call x now (ff_ref inp)"
  shows "tselect xr_id (wd_exec_requests db') (xr_id x) = Some x"
proof (cases "z = x")
  case True
  from tselect_SomeD [OF z] True live_claimants assms(5) have "\<not> live_claim now (ff_ref inp) x" by auto
  with assms(1,4) True show ?thesis by (simp add: fulfil_body_def fulfil_claimed_def)
next
  case False
  with x z tselect_SomeD [OF z] have i: "xr_id z \<noteq> xr_id x" by auto
  show ?thesis
  proof (cases "db' = db")
    case False
    obtain y w e b where r: "r = (y, w, e, b)" by (cases r)
    with assms(1) False have "fulfil_claimed H now uuid inp z cur db = Inr (db', (y, w, e, b))"
      by (auto simp: fulfil_body_def result_iffs split: xr_state.splits if_splits)
    then obtain db1 db2 where a: "attach_for H now uuid inp z cur db = Inr (db1, (w, e))"
        and c: "close_request (xr_id z) (\<lambda>y. y\<lparr>xr_state := XrFulfilled, xr_execution := xe_id e,
              xr_updated_at := now, xr_closed_at := Some now\<rparr>) db1 = Inr (db2, y)"
        and db': "wd_exec_requests db' = wd_exec_requests db2"
      by (auto simp: fulfil_claimed_def result_iffs split: if_splits)
    from x attach_for_requests [OF a] have x1: "tselect xr_id (wd_exec_requests db1) (xr_id x) = Some x" by simp
    from close_spared [OF c i _ x1] show ?thesis by (simp add: db')
  qed (use x in simp)
qed

lemma reject_spared:
  assumes "reject_body now inp z cur db = Inr (db', r)" and x: "tselect xr_id (wd_exec_requests db) (xr_id x) = Some x"
    and z: "tselect xr_id (wd_exec_requests db) (rf_request (rj_ref inp)) = Some z" and "xr_state x = XrClaimed"
    and "\<not> claimants_call x now (rj_ref inp)"
  shows "tselect xr_id (wd_exec_requests db') (xr_id x) = Some x"
proof (cases "z = x")
  case True
  from tselect_SomeD [OF z] True live_claimants assms(5) have "\<not> live_claim now (rj_ref inp) x" by auto
  with assms(1,4) True show ?thesis by (simp add: reject_body_def)
next
  case False
  with x z tselect_SomeD [OF z] have i: "xr_id z \<noteq> xr_id x" by auto
  show ?thesis
  proof (cases "db' = db")
    case False
    with assms(1) obtain db2 y where
        c: "close_request (xr_id z) (\<lambda>y. y\<lparr>xr_state := XrRejected, xr_reason := rj_reason inp,
              xr_updated_at := now, xr_closed_at := Some now\<rparr>) db = Inr (db2, y)"
        and db': "wd_exec_requests db' = wd_exec_requests db2"
      by (auto simp: reject_body_def result_iffs split: xr_state.splits if_splits)
    from close_spared [OF c i _ x] show ?thesis by (simp add: db')
  qed (use x in simp)
qed

text \<open>No other operation touches the row of a claim.\<close>

lemma locked_row:
  assumes "P db" and "\<And>x cur db' r. tselect xr_id (wd_exec_requests db) i = Some x \<Longrightarrow> body x cur db = Inr (db', r) \<Longrightarrow> P db'"
  shows "P (fst (lockedRequest fault i dbr body db))"
proof (cases "getExecutionRequest '''' i dbr")
  case (Inr x0)
  show ?thesis unfolding lockedRequest_def Inr sum.case
    by (rule tx_rule, rule assms(1)) (auto simp: result_iffs dest!: getExecutionRequest_Inr intro: assms(2))
qed (use assms(1) in \<open>simp add: lockedRequest_def\<close>)

lemma call_requests:
  assumes "\<And>db' r. body = Inr (db', r) \<Longrightarrow> tselect xr_id (wd_exec_requests db') i = Some x"
    and "tselect xr_id (wd_exec_requests db) i = Some x"
  shows "tselect xr_id (wd_exec_requests (fst (wk_precheck c db (wk_withTx fault db body)))) i = Some x"
  by (rule precheck_rule [where P = "\<lambda>d. tselect xr_id (wd_exec_requests d) i = Some x"], rule assms(2), rule tx_rule)
    (use assms in auto)

lemma op_spared:
  assumes x: "tselect xr_id (wd_exec_requests db) (xr_id x) = Some x" and "xr_state x = XrClaimed" and "spares_claim x a"
  shows "tselect xr_id (wd_exec_requests (work_op_run H a db)) (xr_id x) = Some x"
proof (cases a)
  case (OpCreate fault now uuid inp)
  show ?thesis unfolding OpCreate work_op_run.simps WorkCreate_def
    by (rule call_requests [OF _ x]) (simp add: create_requests x)
next
  case (OpTransition fault now inp)
  show ?thesis unfolding OpTransition work_op_run.simps WorkTransition_def
    by (rule call_requests [OF _ x]) (simp add: transition_requests x)
next
  case (OpResume fault now uuid inp)
  show ?thesis unfolding OpResume work_op_run.simps WorkResume_def
    by (rule call_requests [OF _ x]) (simp add: resume_requests x)
next
  case (OpAttach fault now uuid inp)
  have c: "tselect xr_id (wd_exec_requests (fst (wk_precheck c db (wk_withTx fault db (attach_body H now uuid inp ph db))))) (xr_id x) = Some x" for c ph
    by (rule call_requests [OF _ x]) (simp add: attach_requests x)
  show ?thesis unfolding OpAttach work_op_run.simps AttachExecution_def
    by (cases "xi_phase inp") (use c x in \<open>simp_all add: wk_precheck_def split: option.splits\<close>)
next
  case (OpCloseOrphan fault now inp dbr)
  have c: "tselect xr_id (wd_exec_requests (fst (wk_precheck c db (wk_withTx fault db (orphan_body now inp db))))) (xr_id x) = Some x" for c
    by (rule call_requests [OF _ x]) (simp add: orphan_requests x)
  show ?thesis unfolding OpCloseOrphan work_op_run.simps CloseOrphanedExecution_def
    by (cases "ExecutionByID (oc_execution inp) dbr") (use c x in \<open>simp_all add: wk_precheck_def split: option.splits\<close>)
next
  case (OpIntent fault now serial inp)
  show ?thesis unfolding OpIntent work_op_run.simps AppendIntent_def
    by (rule call_requests [OF _ x]) (simp add: intent_requests x)
next
  case (OpSurface fault now inp)
  show ?thesis unfolding OpSurface work_op_run.simps LinkSurface_def
    by (rule call_requests [OF _ x]) (simp add: surface_requests x)
next
  case (OpRequest queue fault now uuid inp)
  have c: "tselect xr_id (wd_exec_requests (fst (wk_precheck c db (wk_withTx fault db (request_create_body queue now uuid inp k db))))) (xr_id x) = Some x" for c k
    by (rule call_requests [OF _ x]) (erule ask_requests [OF _ x])
  show ?thesis unfolding OpRequest work_op_run.simps CreateExecutionRequest_def
    by (cases "xq_kind inp") (use c x in \<open>simp_all add: wk_precheck_def split: option.splits\<close>)
next
  case (OpClaim guard fault now uuid inp c)
  with assms(3) have s: "fst c = xr_id x \<longrightarrow> (\<exists>t. xr_claim_expires_at x = Some t \<and> now < t)" by (simp add: spares_claim_def)
  show ?thesis unfolding OpClaim work_op_run.simps
    by (rule tx_rule [where P = "\<lambda>d. tselect xr_id (wd_exec_requests d) (xr_id x) = Some x"])
      (use x claim_spared [OF _ x assms(2) s] in auto)
next
  case (OpFulfil fault now uuid inp dbr)
  with assms(3) have s: "\<not> claimants_call x now (ff_ref inp)" by (simp add: spares_claim_def)
  show ?thesis unfolding OpFulfil work_op_run.simps FulfilExecutionRequest_def
    by (rule precheck_rule [where P = "\<lambda>d. tselect xr_id (wd_exec_requests d) (xr_id x) = Some x"], rule x,
        rule locked_row [where P = "\<lambda>d. tselect xr_id (wd_exec_requests d) (xr_id x) = Some x"], rule x)
      (rule fulfil_spared [OF _ x _ assms(2) s])
next
  case (OpReject fault now inp dbr)
  with assms(3) have s: "\<not> claimants_call x now (rj_ref inp)" by (simp add: spares_claim_def)
  show ?thesis unfolding OpReject work_op_run.simps RejectExecutionRequest_def
    by (rule precheck_rule [where P = "\<lambda>d. tselect xr_id (wd_exec_requests d) (xr_id x) = Some x"], rule x,
        rule locked_row [where P = "\<lambda>d. tselect xr_id (wd_exec_requests d) (xr_id x) = Some x"], rule x)
      (rule reject_spared [OF _ x _ assms(2) s])
next
  case (OpSeal fault now inp)
  show ?thesis unfolding OpSeal work_op_run.simps SealSnapshot_def
    by (rule call_requests [OF _ x]) (simp add: seal_requests x)
next
  case (OpMint ok now uuid secret inp dbr)
  with x show ?thesis by (auto simp: MintAgentRunToken_def Let_def split: option.splits sum.splits)
next
  case (OpRevoke now i)
  with x show ?thesis by (simp add: RevokeAgentRunToken_def)
next
  case (OpPurge now grace)
  with x show ?thesis by (simp add: PurgeExpiredAgentRunTokens_def Let_def)
qed

lemma runs_spared:
  assumes "tselect xr_id (wd_exec_requests db) (xr_id x) = Some x" and "xr_state x = XrClaimed"
    and "\<forall>a \<in> set as. spares_claim x a"
  shows "tselect xr_id (wd_exec_requests (work_runs H as db)) (xr_id x) = Some x"
  using assms by (induction as arbitrary: db) (simp_all add: op_spared)

end
