(* ===== verification/Work_Demo.thy ===== *)
theory Work_Demo
  imports Work_Final Approval_Demo
begin

text \<open>
  One run of the store, for the properties to be applied to: an item, a run attached to it that a
  snapshot is sealed for and that ends, a request to resume it which is claimed and fulfilled.
\<close>

section \<open>The requests\<close>

definition demo_by :: "string \<Rightarrow> string \<Rightarrow> mutation" where
  "demo_by actor key = \<lparr>mu_actor = actor, mu_acting = '''', mu_actor_principal = '''', mu_via_principal = '''',
     mu_via_execution = '''', mu_actor_client = '''', mu_direct_service = False, mu_surface = ''mcp'',
     mu_request_id = '''', mu_key = key, mu_hash = ''f0''\<rparr>"

lemma demo_by_simps [simp]:
  "mu_actor (demo_by a k) = a" "mu_acting (demo_by a k) = ''''" "mu_actor_principal (demo_by a k) = ''''"
  "mu_via_principal (demo_by a k) = ''''" "mu_via_execution (demo_by a k) = ''''" "mu_actor_client (demo_by a k) = ''''"
  "mu_direct_service (demo_by a k) = False" "mu_surface (demo_by a k) = ''mcp''" "mu_request_id (demo_by a k) = ''''"
  "mu_key (demo_by a k) = k" "mu_hash (demo_by a k) = ''f0''"
  by (simp_all add: demo_by_def)

definition demo_create :: create_input where
  "demo_create = \<lparr>cr_mutation = demo_by ''ada'' '''', cr_tenant = ''acme'', cr_visibility = ''tenant'',
     cr_origin_surface = ''mcp'', cr_title = ''plan'', cr_external_key = ''''\<rparr>"

definition demo_attach :: "exec_phase \<Rightarrow> execution_input" where
  "demo_attach ph = \<lparr>xi_mutation = demo_by ''ada'' '''', xi_item = ''wi_1'', xi_engine = ''argo'', xi_ref = ''r1'',
     xi_phase = Some ph\<rparr>"

lemma demo_attach_is [simp]:
  "xi_mutation (demo_attach ph) = demo_by ''ada'' ''''" "xi_item (demo_attach ph) = ''wi_1''"
  "xi_engine (demo_attach ph) = ''argo''" "xi_ref (demo_attach ph) = ''r1''" "xi_phase (demo_attach ph) = Some ph"
  by (simp_all add: demo_attach_def)

definition demo_snapshot :: snapshot_input where
  "demo_snapshot = \<lparr>sn_mutation = demo_by ''ada'' '''', sn_item = ''wi_1'', sn_execution = ''we_1'', sn_sequence = 1,
     sn_canonical = ''{}'', sn_object = True, sn_hash = HashCanonical zero_hash ''{}'', sn_strategy = ''plain'',
     sn_strategy_version = ''1'', sn_prior_execution = '''', sn_prior_snapshot = ''''\<rparr>"

definition demo_ask :: exec_request_input where
  "demo_ask = \<lparr>xq_mutation = demo_by ''ada'' '''', xq_item = ''wi_1'', xq_kind = KindWord XrResume, xq_expected = 1,
     xq_from = '''', xq_intent = None\<rparr>"

definition demo_claim :: claim_input where
  "demo_claim = \<lparr>cl_mutation = demo_by ''runner'' '''', cl_lease = minute\<rparr>"

definition demo_fulfil :: fulfil_input where
  "demo_fulfil = \<lparr>ff_ref = \<lparr>rf_mutation = demo_by ''runner'' '''', rf_request = ''xr_1'', rf_token = ''xc_9''\<rparr>,
     ff_engine = ''argo'', ff_run = ''r2''\<rparr>"

definition demo_move :: "string \<Rightarrow> work_transition_input" where
  "demo_move actor = \<lparr>wt_mutation = demo_by actor '''', wt_item = ''wi_1'', wt_action = ActionComplete,
     wt_waiting_reason = '''', wt_superseded_by = '''', wt_expected = 2\<rparr>"

definition demo_resume :: "string \<Rightarrow> resume_input" where
  "demo_resume key = \<lparr>re_mutation = demo_by ''ada'' key, re_item = ''wi_1'', re_expected = 1, re_from = '''',
     re_engine = ''argo'', re_ref = ''r3''\<rparr>"

section \<open>They are valid\<close>

lemma plain_words:
  "plain_text ''ada''" "plain_text ''acme''" "plain_text ''plan''" "plain_text ''argo''" "plain_text ''r1''"
  "plain_text ''r2''" "plain_text ''r3''" "plain_text ''plain''" "plain_text ''1''" "plain_text ''runner''"
  "plain_text ''c9''" "plain_text ''late''"
  by code_simp+

lemma plain_parts: "plain_text v \<Longrightarrow> ascii v \<and> list_all (\<lambda>c. c \<notin> set telltale) v \<and> list_all (\<lambda>c. 0x20 < byte c) v"
  by (auto simp: plain_text_def list_all_iff)

lemma plain_wk:
  assumes "plain_text v" and "length v \<le> m"
  shows "wk_text v m req = None"
  by (simp add: wk_text_def clean_text(1) [OF assms])

lemma empty_wk: "wk_text '''' m False = None"
  by (simp add: wk_text_def wi_checkText_def ascii_valid)

lemma plain_secrets: "plain_text v \<Longrightarrow> wk_secrets v = None"
  using plain_parts [of v] by (simp add: wk_secrets_def scanSecrets_def no_credential)

lemma empty_secrets: "wk_secrets '''' = None"
  by (simp add: wk_secrets_def scanSecrets_def)

lemma plain_identity: "plain_text v \<Longrightarrow> length v \<le> MaxExternalIDBytes \<Longrightarrow> checkIdentity v = None"
  using plain_parts [of v] by (simp add: checkIdentity_def first_error_None plain_wk wk_require_def trim_plain)

lemma demo_by_ok:
  "plain_text a \<Longrightarrow> length a \<le> MaxExternalIDBytes \<Longrightarrow> key = '''' \<or> plain_text key \<and> length key \<le> MaxKeyBytes \<Longrightarrow>
     mutation_validate (demo_by a key) = None"
  by (auto simp: mutation_validate_def first_error_None plain_identity empty_wk plain_wk wk_require_def surfacePattern_def)

lemmas demo_valid_simps = first_error_None wk_require_def plain_wk plain_words plain_secrets empty_wk empty_secrets
  plain_identity demo_by_ok MaxExternalIDBytes_def MaxKeyBytes_def MaxTitleBytes_def MaxEngineRefBytes_def surfacePattern_def
  validateEngine_def

lemma demo_create_ok: "create_validate demo_create = None"
  by (simp add: create_validate_def demo_create_def demo_valid_simps)

lemma demo_attach_ok: "execution_validate (demo_attach ph) = None"
  by (simp add: execution_validate_def demo_valid_simps)

lemma demo_snapshot_ok: "snapshot_validate zero_hash demo_snapshot = None"
  by (simp add: snapshot_validate_def demo_snapshot_def demo_valid_simps has_prefix_def ExecutionIDPrefix_def MaxSnapshotBytes_def HashCanonical_def)

lemma demo_ask_ok: "exec_request_validate demo_ask = None"
  by (simp add: exec_request_validate_def demo_ask_def demo_valid_simps)

lemma demo_fulfil_ok: "first_error [claim_ref_validate (ff_ref demo_fulfil),
    validateEngine (ff_engine demo_fulfil) (ff_run demo_fulfil)] = None"
proof -
  have "TrimSpace ''xc_9'' = ''xc_9''" by (rule trim_plain) simp_all
  then have t: "wk_text ''xc_9'' MaxExternalIDBytes True = None"
    by (simp add: wk_text_def wi_checkText_def MaxExternalIDBytes_def ascii_valid)
  have v: "validateEngine ''argo'' ''r2'' = None" "mutation_validate (demo_by ''runner'' '''') = None"
    by (simp_all add: demo_valid_simps)
  show ?thesis unfolding claim_ref_validate_def demo_fulfil_def first_error_None
    by (simp add: t v wk_require_def)
qed

lemma demo_move_ok: "plain_text a \<Longrightarrow> length a \<le> MaxExternalIDBytes \<Longrightarrow> work_transition_validate (demo_move a) = None"
  by (simp add: work_transition_validate_def demo_move_def demo_valid_simps)

lemma demo_resume_ok: "key = '''' \<or> plain_text key \<and> length key \<le> MaxKeyBytes \<Longrightarrow> resume_validate (demo_resume key) = None"
  by (simp add: resume_validate_def demo_resume_def demo_valid_simps)

section \<open>The run\<close>

definition demo_item :: work_item where
  "demo_item = \<lparr>wi_id = ''wi_1'', wi_tenant = ''acme'', wi_owner = ''ada'', wi_owner_principal = '''', wi_origin_client = '''',
     wi_visibility = ''tenant'', wi_origin_surface = ''mcp'', wi_title = ''plan'', wi_external_key = '''', wi_state = WorkActive,
     wi_waiting_reason = '''', wi_superseded_by = '''', wi_version = 1, wi_created_by = ''ada'', wi_created_at = 0,
     wi_updated_at = 0, wi_completed_at = None\<rparr>"

definition demo_exec :: execution where
  "demo_exec = \<lparr>xe_id = ''we_1'', xe_item = ''wi_1'', xe_engine = ''argo'', xe_ref = ''r1'', xe_attempt = 1, xe_from = '''',
     xe_phase = ExRunning, xe_started_at = 1, xe_ended_at = None\<rparr>"

definition demo_wdb1 :: work_db where
  "demo_wdb1 = work_op_run zero_hash (OpCreate TxOk 0 ''1'' demo_create) empty_wdb"

definition demo_wdb2 :: work_db where
  "demo_wdb2 = work_op_run zero_hash (OpAttach TxOk 1 ''1'' (demo_attach ExRunning)) demo_wdb1"

definition demo_wdb3 :: work_db where
  "demo_wdb3 = work_op_run zero_hash (OpSeal TxOk 2 demo_snapshot) demo_wdb2"

definition demo_wdb4 :: work_db where
  "demo_wdb4 = work_op_run zero_hash (OpAttach TxOk 3 ''0'' (demo_attach ExSucceeded)) demo_wdb3"

definition demo_wdb5 :: work_db where
  "demo_wdb5 = work_op_run zero_hash (OpRequest False TxOk 4 ''1'' demo_ask) demo_wdb4"

definition demo_wdb6 :: work_db where
  "demo_wdb6 = work_op_run zero_hash (OpClaim False TxOk 5 ''9'' demo_claim (''xr_1'', ''wi_1'')) demo_wdb5"

definition demo_wdb7 :: work_db where
  "demo_wdb7 = work_op_run zero_hash (OpFulfil TxOk 6 ''2'' demo_fulfil demo_wdb6) demo_wdb6"

lemma wdemo_reach:
  "work_reach zero_hash demo_wdb1" "work_reach zero_hash demo_wdb2" "work_reach zero_hash demo_wdb3"
  "work_reach zero_hash demo_wdb4" "work_reach zero_hash demo_wdb5" "work_reach zero_hash demo_wdb6"
  "work_reach zero_hash demo_wdb7"
  unfolding demo_wdb1_def demo_wdb2_def demo_wdb3_def demo_wdb4_def demo_wdb5_def demo_wdb6_def demo_wdb7_def
  by (intro work_reach.intros)+

lemmas work_eval = wk_precheck_def wk_withTx_def andThen.simps check.simps Let_def getItem_def tselect_Cons
  replayed_def remember_def rememberCreate_def

lemma wdemo_created: "WorkCreate TxOk 0 ''1'' demo_create empty_wdb =
    (appendEvent ''wi_1'' EvCreated None (Some WorkActive) (demo_by ''ada'' '''') [] 0 (empty_wdb\<lparr>wd_items := [demo_item]\<rparr>),
     Inr (demo_item, True))"
proof -
  have "new_item 0 ''1'' demo_create = demo_item"
    by (simp add: new_item_def demo_create_def demo_item_def WorkItemIDPrefix_def)
  then have "create_fresh 0 ''1'' demo_create empty_wdb =
      Inr (appendEvent ''wi_1'' EvCreated None (Some WorkActive) (demo_by ''ada'' '''') [] 0 (empty_wdb\<lparr>wd_items := [demo_item]\<rparr>),
        demo_item, True)"
    by (simp add: create_fresh_def work_eval empty_wdb_def demo_create_def) (simp add: demo_item_def)
  then show ?thesis
    by (simp add: WorkCreate_def demo_create_ok call_ok work_create_body_def Let_def) (simp add: demo_create_def)
qed

lemma demo_wdb1_is:
  "wd_items demo_wdb1 = [demo_item]" "wd_executions demo_wdb1 = []" "wd_provenance demo_wdb1 = []" "wd_requests demo_wdb1 = []"
  "wd_exec_requests demo_wdb1 = []" "wd_snapshots demo_wdb1 = []" "wd_tokens demo_wdb1 = []"
  unfolding demo_wdb1_def work_op_run.simps wdemo_created by (simp_all add: empty_wdb_def)

definition demo_prov :: "execution \<Rightarrow> string \<Rightarrow> string \<Rightarrow> string \<Rightarrow> gotime \<Rightarrow> provenance" where
  "demo_prov e actor path root now = \<lparr>pv_execution = xe_id e, pv_contract = ContractVersion,
     pv_attempt = AttemptID zero_hash (xe_engine e) (xe_ref e), pv_lineage = LineageRoot zero_hash root,
     pv_engine = xe_engine e, pv_engine_run = EngineRun (xe_ref e), pv_parent = xe_from e, pv_root = root,
     pv_attached_by = actor, pv_attached_by_principal = '''', pv_path = path, pv_direct_service = False, pv_recorded_at = now\<rparr>"

lemma demo_item_is [simp]:
  "wi_id demo_item = ''wi_1''" "wi_state demo_item = WorkActive" "wi_version demo_item = 1" "wi_tenant demo_item = ''acme''"
  by (simp_all add: demo_item_def)

lemma demo_exec_is [simp]:
  "xe_id demo_exec = ''we_1''" "xe_item demo_exec = ''wi_1''" "xe_engine demo_exec = ''argo''" "xe_ref demo_exec = ''r1''"
  "xe_attempt demo_exec = 1" "xe_from demo_exec = ''''" "xe_phase demo_exec = ExRunning"
  by (simp_all add: demo_exec_def)

lemma demo_attached:
  "AttachExecution zero_hash TxOk 1 ''1'' (demo_attach ExRunning) demo_wdb1 =
     (appendEvent ''wi_1'' EvExecutionAttached None None (demo_by ''ada'' '''')
        [(''execution_id'', ''we_1''), (''engine'', ''argo''), (''engine_ref'', ''r1'')] 1
        (demo_wdb1\<lparr>wd_executions := [demo_exec], wd_provenance := [demo_prov demo_exec ''ada'' AttachPathAttach ''we_1'' 1]\<rparr>),
      Inr (demo_exec, True))"
proof -
  have ins: "insertExecution zero_hash ''1'' (demo_by ''ada'' '''') ''wi_1'' ''argo'' ''r1'' ExRunning '''' 1 AttachPathAttach 1 demo_wdb1 =
      Inr (demo_wdb1\<lparr>wd_executions := [demo_exec], wd_provenance := [demo_prov demo_exec ''ada'' AttachPathAttach ''we_1'' 1]\<rparr>, demo_exec)"
    by (simp add: insertExecution_def insertProvenance_def Let_def demo_wdb1_is AttachPathAttach_def demo_prov_def)
      (simp add: demo_exec_def ExecutionIDPrefix_def IsTerminalPhase_def)
  have new: "attachNewTx zero_hash ''1'' demo_item (demo_by ''ada'' '''') ''argo'' ''r1'' ExRunning AttachPathAttach 1 demo_wdb1 =
      Inr (appendEvent ''wi_1'' EvExecutionAttached None None (demo_by ''ada'' '''')
        [(''execution_id'', ''we_1''), (''engine'', ''argo''), (''engine_ref'', ''r1'')] 1
        (demo_wdb1\<lparr>wd_executions := [demo_exec], wd_provenance := [demo_prov demo_exec ''ada'' AttachPathAttach ''we_1'' 1]\<rparr>), demo_exec)"
    by (simp add: attachNewTx_def Let_def listExecutions_def demo_wdb1_is ins attach_checks_def first_error_None
        IsTerminalState_def active_execution_def check.simps)
  show ?thesis
    by (simp add: AttachExecution_def demo_attach_ok call_ok attach_body_def demo_wdb1_is new getItem_def tselect_Cons
        replayed_def remember_def)
qed

lemma demo_wdb2_is:
  "wd_items demo_wdb2 = [demo_item]" "wd_executions demo_wdb2 = [demo_exec]"
  "wd_provenance demo_wdb2 = [demo_prov demo_exec ''ada'' AttachPathAttach ''we_1'' 1]" "wd_requests demo_wdb2 = []"
  "wd_exec_requests demo_wdb2 = []" "wd_snapshots demo_wdb2 = []" "wd_tokens demo_wdb2 = []"
  unfolding demo_wdb2_def work_op_run.simps demo_attached by (simp_all add: demo_wdb1_is)

definition demo_sealed :: context_snapshot where
  "demo_sealed = \<lparr>cs_id = ''cs_0'', cs_item = ''wi_1'', cs_execution = ''we_1'', cs_sequence = 1,
     cs_hash = HashCanonical zero_hash ''{}'', cs_canonical = ''{}'', cs_strategy = ''plain'', cs_strategy_version = ''1'',
     cs_prior_execution = '''', cs_prior_snapshot = '''', cs_produced_by = ''ada'', cs_created_at = 2\<rparr>"

lemma demo_seals: "SealSnapshot zero_hash TxOk 2 demo_snapshot demo_wdb2 =
    (appendEvent ''wi_1'' EvSnapshotSealed None None (demo_by ''ada'' '''')
       [(''snapshot_id'', ''cs_0''), (''execution_id'', ''we_1''), (''content_hash'', HashCanonical zero_hash ''{}'')] 2
       (demo_wdb2\<lparr>wd_snapshots := [demo_sealed]\<rparr>), Inr (demo_sealed, True))"
proof -
  have s: "sealed zero_hash 2 demo_snapshot demo_exec '''' = demo_sealed"
    by (simp add: sealed_def demo_sealed_def demo_snapshot_def SnapshotIDFor_def SnapshotIDPrefix_def zero_hash_def)
  have e: "getExecution ''wi_1'' ''we_1'' demo_wdb2 = Inr demo_exec"
    by (simp add: getExecution_def demo_wdb2_is)
  have p: "checkPrior zero_hash ''wi_1'' demo_exec demo_snapshot demo_wdb2 = Inr ''''"
    by (simp add: checkPrior_def prior_snapshot_execution_def demo_snapshot_def)
  have "seal_body zero_hash 2 demo_snapshot demo_wdb2 = Inr (appendEvent ''wi_1'' EvSnapshotSealed None None (demo_by ''ada'' '''')
       [(''snapshot_id'', ''cs_0''), (''execution_id'', ''we_1''), (''content_hash'', HashCanonical zero_hash ''{}'')] 2
       (demo_wdb2\<lparr>wd_snapshots := [demo_sealed]\<rparr>), demo_sealed, True)"
    using e p s by (simp add: seal_body_def getItem_def tselect_Cons demo_wdb2_is demo_snapshot_def demo_sealed_def Let_def)
  then show ?thesis by (simp add: SealSnapshot_def demo_snapshot_ok call_ok)
qed

lemma demo_wdb3_is:
  "wd_items demo_wdb3 = [demo_item]" "wd_executions demo_wdb3 = [demo_exec]"
  "wd_provenance demo_wdb3 = [demo_prov demo_exec ''ada'' AttachPathAttach ''we_1'' 1]" "wd_requests demo_wdb3 = []"
  "wd_exec_requests demo_wdb3 = []" "wd_snapshots demo_wdb3 = [demo_sealed]" "wd_tokens demo_wdb3 = []"
  unfolding demo_wdb3_def work_op_run.simps demo_seals by (simp_all add: demo_wdb2_is)

definition demo_ended :: execution where
  "demo_ended = demo_exec\<lparr>xe_phase := ExSucceeded, xe_ended_at := Some 3\<rparr>"

lemma demo_ended_is [simp]:
  "xe_id demo_ended = ''we_1''" "xe_item demo_ended = ''wi_1''" "xe_engine demo_ended = ''argo''" "xe_ref demo_ended = ''r1''"
  "xe_attempt demo_ended = 1" "xe_from demo_ended = ''''" "xe_phase demo_ended = ExSucceeded"
  by (simp_all add: demo_ended_def)

lemma demo_ends: "AttachExecution zero_hash TxOk 3 ''0'' (demo_attach ExSucceeded) demo_wdb3 =
    (demo_wdb3\<lparr>wd_executions := [demo_ended]\<rparr>, Inr (demo_ended, False))"
  by (simp add: AttachExecution_def demo_attach_ok call_ok attach_body_def demo_wdb3_is getItem_def tselect_Cons
      replayed_def remember_def Let_def same_run_def correlate_phase_def IsTerminalPhase_def
      tput_def demo_ended_def)

lemma demo_wdb4_is:
  "wd_items demo_wdb4 = [demo_item]" "wd_executions demo_wdb4 = [demo_ended]"
  "wd_provenance demo_wdb4 = [demo_prov demo_exec ''ada'' AttachPathAttach ''we_1'' 1]" "wd_requests demo_wdb4 = []"
  "wd_exec_requests demo_wdb4 = []" "wd_snapshots demo_wdb4 = [demo_sealed]" "wd_tokens demo_wdb4 = []"
  unfolding demo_wdb4_def work_op_run.simps demo_ends by (simp_all add: demo_wdb3_is)

definition demo_asked :: exec_request where
  "demo_asked = \<lparr>xr_id = ''xr_1'', xr_item = ''wi_1'', xr_kind = XrResume, xr_expected = 1, xr_from = '''', xr_intent = None,
     xr_surface = ''mcp'', xr_requested_by = ''ada'', xr_acting = '''', xr_key = '''', xr_state = XrPending, xr_claimed_by = '''',
     xr_token = '''', xr_claimed_at = None, xr_claim_expires_at = None, xr_execution = '''', xr_reason = '''', xr_created_at = 4,
     xr_updated_at = 4, xr_closed_at = None, xr_requested_by_principal = '''', xr_via_principal = '''', xr_claimed_by_principal = ''''\<rparr>"

lemma demo_asks: "CreateExecutionRequest False TxOk 4 ''1'' demo_ask demo_wdb4 =
    (appendEvent ''wi_1'' EvExecutionRequested None None (demo_by ''ada'' '''') (request_detail demo_asked '''') 4
       (demo_wdb4\<lparr>wd_exec_requests := [demo_asked]\<rparr>), Inr (demo_asked, True))"
proof -
  have x: "new_exec_request 4 ''1'' demo_ask XrResume = demo_asked"
    by (simp add: new_exec_request_def demo_ask_def demo_asked_def ExecutionRequestIDPrefix_def)
  have r: "checkRunnable demo_item (listExecutions ''wi_1'' demo_wdb4) XrResume '''' False = Inr ''''"
    by (simp add: checkRunnable_def listExecutions_def demo_wdb4_is IsTerminalPhase_def IsTerminalState_def)
  have "request_create_body False 4 ''1'' demo_ask XrResume demo_wdb4 =
      Inr (appendEvent ''wi_1'' EvExecutionRequested None None (demo_by ''ada'' '''') (request_detail demo_asked '''') 4
        (demo_wdb4\<lparr>wd_exec_requests := [demo_asked]\<rparr>), demo_asked, True)"
    using x r by (simp add: request_create_body_def getItem_def tselect_Cons demo_wdb4_is demo_ask_def replayed_def remember_def
        openExecutionRequest_def intent_check_def check.simps Let_def)
  then show ?thesis by (simp add: CreateExecutionRequest_def demo_ask_ok call_ok demo_ask_def [THEN arg_cong [of _ _ xq_kind]])
qed

lemma demo_wdb5_is:
  "wd_items demo_wdb5 = [demo_item]" "wd_executions demo_wdb5 = [demo_ended]"
  "wd_provenance demo_wdb5 = [demo_prov demo_exec ''ada'' AttachPathAttach ''we_1'' 1]" "wd_requests demo_wdb5 = []"
  "wd_exec_requests demo_wdb5 = [demo_asked]" "wd_snapshots demo_wdb5 = [demo_sealed]" "wd_tokens demo_wdb5 = []"
  unfolding demo_wdb5_def work_op_run.simps demo_asks by (simp_all add: demo_wdb4_is)

definition demo_taken :: exec_request where
  "demo_taken = claimed demo_claim ''xc_9'' 5 demo_asked"

lemma demo_claims: "claim_body False 5 ''9'' demo_claim (''xr_1'', ''wi_1'') demo_wdb5 =
    Inr (appendEvent ''wi_1'' EvRequestClaimed None None (demo_by ''runner'' '''')
       [(''execution_request_id'', ''xr_1''), (''claim_expires_at'', rfc3339 (5 + minute))] 5
       (demo_wdb5\<lparr>wd_exec_requests := [demo_taken]\<rparr>), Some (demo_taken, demo_item, None))"
  by (simp add: claim_body_def tupdate_def tselect_Cons demo_wdb5_is demo_asked_def claimable_def tput_def demo_taken_def
      claimed_def executionRequestClaimPrefix_def demo_claim_def getItem_def)

lemma demo_wdb6_is:
  "wd_items demo_wdb6 = [demo_item]" "wd_executions demo_wdb6 = [demo_ended]"
  "wd_provenance demo_wdb6 = [demo_prov demo_exec ''ada'' AttachPathAttach ''we_1'' 1]" "wd_requests demo_wdb6 = []"
  "wd_exec_requests demo_wdb6 = [demo_taken]" "wd_snapshots demo_wdb6 = [demo_sealed]" "wd_tokens demo_wdb6 = []"
  unfolding demo_wdb6_def work_op_run.simps demo_claims by (simp_all add: demo_wdb5_is wk_withTx_def)

definition demo_again :: execution where
  "demo_again = \<lparr>xe_id = ''we_2'', xe_item = ''wi_1'', xe_engine = ''argo'', xe_ref = ''r2'', xe_attempt = 2,
     xe_from = ''we_1'', xe_phase = ExPending, xe_started_at = 6, xe_ended_at = None\<rparr>"

lemma demo_again_is [simp]:
  "xe_id demo_again = ''we_2''" "xe_item demo_again = ''wi_1''" "xe_engine demo_again = ''argo''" "xe_ref demo_again = ''r2''"
  "xe_attempt demo_again = 2" "xe_from demo_again = ''we_1''" "xe_phase demo_again = ExPending"
  by (simp_all add: demo_again_def)

definition demo_item2 :: work_item where
  "demo_item2 = demo_item\<lparr>wi_version := 2, wi_updated_at := 6\<rparr>"

definition demo_done :: exec_request where
  "demo_done = demo_taken\<lparr>xr_state := XrFulfilled, xr_execution := ''we_2'', xr_updated_at := 6, xr_closed_at := Some 6\<rparr>"

lemma demo_taken_is [simp]:
  "xr_id demo_taken = ''xr_1''" "xr_item demo_taken = ''wi_1''" "xr_kind demo_taken = XrResume" "xr_expected demo_taken = 1"
  "xr_from demo_taken = ''''" "xr_intent demo_taken = None" "xr_state demo_taken = XrClaimed" "xr_claimed_by demo_taken = ''runner''"
  "xr_token demo_taken = ''xc_9''" "xr_claim_expires_at demo_taken = Some (5 + minute)" "xr_requested_by demo_taken = ''ada''"
  by (simp_all add: demo_taken_def claimed_def demo_asked_def demo_claim_def)

lemma demo_fulfil_is [simp]:
  "ff_engine demo_fulfil = ''argo''" "ff_run demo_fulfil = ''r2''" "rf_mutation (ff_ref demo_fulfil) = demo_by ''runner'' ''''"
  "rf_request (ff_ref demo_fulfil) = ''xr_1''" "rf_token (ff_ref demo_fulfil) = ''xc_9''"
  by (simp_all add: demo_fulfil_def)

definition demo_wdb6' :: work_db where
  "demo_wdb6' = demo_wdb6\<lparr>wd_executions := [demo_ended, demo_again],
     wd_provenance := [demo_prov demo_exec ''ada'' AttachPathAttach ''we_1'' 1, demo_prov demo_again ''runner'' AttachPathFulfilResume ''we_1'' 6]\<rparr>"

lemma demo_fulfils: "FulfilExecutionRequest zero_hash TxOk 6 ''2'' demo_fulfil demo_wdb6 demo_wdb6 =
    (appendEvent ''wi_1'' EvRequestFulfilled None None (demo_by ''runner'' '''')
       [(''execution_request_id'', ''xr_1''), (''execution_id'', ''we_2''), (''requested_by'', ''ada'')] 6
       (appendEvent ''wi_1'' EvResumed (Some WorkActive) (Some WorkActive) (demo_by ''runner'' '''')
          [(''execution_id'', ''we_2''), (''resumed_from_execution_id'', ''we_1'')] 6
          (demo_wdb6'\<lparr>wd_items := [demo_item2]\<rparr>)\<lparr>wd_exec_requests := [demo_done]\<rparr>),
     Inr (demo_done, demo_item2, demo_again, True))"
proof -
  have execs: "listExecutions ''wi_1'' demo_wdb6 = [demo_ended]" by (simp add: listExecutions_def demo_wdb6_is)
  have ins: "insertExecution zero_hash ''2'' (demo_by ''runner'' '''') ''wi_1'' ''argo'' ''r2'' ExPending ''we_1'' 2
      AttachPathFulfilResume 6 demo_wdb6 = Inr (demo_wdb6', demo_again)"
    by (simp add: insertExecution_def insertProvenance_def rootOf_def tselect_Cons Let_def demo_wdb6_is AttachPathFulfilResume_def
        demo_wdb6'_def demo_prov_def exec_clash_def demo_again_def ExecutionIDPrefix_def IsTerminalPhase_def)
  have items: "wd_items demo_wdb6' = [demo_item]" "wd_exec_requests demo_wdb6' = [demo_taken]"
    by (simp_all add: demo_wdb6'_def demo_wdb6_is)
  have checks: "resume_checks (resume_of demo_taken demo_item demo_fulfil) demo_item [demo_ended] = None"
    by (simp add: resume_checks_def Let_def resume_from_def resume_of_def first_error_None IsTerminalState_def active_execution_def
        IsTerminalPhase_def wk_require_def containsExecution_def same_run_def)
  have res: "attach_for zero_hash 6 ''2'' demo_fulfil demo_taken demo_item demo_wdb6 =
      Inr (appendEvent ''wi_1'' EvResumed (Some WorkActive) (Some WorkActive) (demo_by ''runner'' '''')
        [(''execution_id'', ''we_2''), (''resumed_from_execution_id'', ''we_1'')] 6 (demo_wdb6'\<lparr>wd_items := [demo_item2]\<rparr>),
        demo_item2, demo_again)"
    using checks ins by (simp add: attach_for_def resumeTx_def execs Let_def resume_from_def resume_of_def resumed_state_def move_item_def
        tupdate_def tselect_Cons items tput_def nonempty_detail_def demo_item2_def demo_item_def)
  have live: "live_claim 6 (ff_ref demo_fulfil) demo_taken"
    by (simp add: live_claim_def holds_claim_def)
  have "fulfil_body zero_hash 6 ''2'' demo_fulfil demo_taken demo_item demo_wdb6 =
      Inr (appendEvent ''wi_1'' EvRequestFulfilled None None (demo_by ''runner'' '''')
       [(''execution_request_id'', ''xr_1''), (''execution_id'', ''we_2''), (''requested_by'', ''ada'')] 6
       (appendEvent ''wi_1'' EvResumed (Some WorkActive) (Some WorkActive) (demo_by ''runner'' '''')
          [(''execution_id'', ''we_2''), (''resumed_from_execution_id'', ''we_1'')] 6
          (demo_wdb6'\<lparr>wd_items := [demo_item2]\<rparr>)\<lparr>wd_exec_requests := [demo_done]\<rparr>), demo_done, demo_item2, demo_again, True)"
    by (simp add: fulfil_body_def fulfil_claimed_def live res close_request_def tupdate_def tselect_Cons items tput_def demo_done_def)
  then show ?thesis
    using demo_fulfil_ok by (simp add: FulfilExecutionRequest_def wk_precheck_def locked_run [where x = demo_taken and cur = demo_item]
        demo_wdb6_is tselect_Cons)
qed

lemma demo_wdb7_is:
  "wd_items demo_wdb7 = [demo_item2]" "wd_executions demo_wdb7 = [demo_ended, demo_again]"
  "wd_provenance demo_wdb7 = [demo_prov demo_exec ''ada'' AttachPathAttach ''we_1'' 1, demo_prov demo_again ''runner'' AttachPathFulfilResume ''we_1'' 6]"
  "wd_requests demo_wdb7 = []" "wd_exec_requests demo_wdb7 = [demo_done]" "wd_snapshots demo_wdb7 = [demo_sealed]" "wd_tokens demo_wdb7 = []"
  unfolding demo_wdb7_def work_op_run.simps demo_fulfils by (simp_all add: demo_wdb6'_def demo_wdb6_is)

end
