(* ===== verification/Work_Props.thy ===== *)
theory Work_Props
  imports Work_Demo
begin

text \<open>
  The properties of the work item store: its journal, one run and one request at a time, lineages,
  finality, exclusive claims, repeated calls, snapshots and run tokens.
\<close>

section \<open>The journal\<close>

text \<open>
  C16: The event log of an item is its history.  In every reachable database, the events of an item
  are numbered from 1 without a gap, replaying them through the transition table from nothing is
  possible and ends in the state the item's row has, and the version of the row is the number of
  events that moved it.
\<close>

theorem the_journal_replays_to_the_row:
  assumes "work_reach H db" and "WorkGet i db = Inr w"
  shows "map ev_seq (events_of i (wd_events db)) = map int [1..<Suc (length (events_of i (wd_events db)))] \<and>
    replay None (events_of i (wd_events db)) = Some (Some (wi_state w)) \<and>
    int (moves (events_of i (wd_events db))) = wi_version w"
  using reach_ok [OF assms(1)] assms(2)
  by (simp add: work_ok_def items_ok_def item_journal_ok_def WorkGet_def getItem_Inr)

lemma demo_get: "WorkGet ''wi_1'' demo_wdb7 = Inr demo_item2"
  by (simp add: WorkGet_def getItem_def demo_wdb7_is tselect_Cons demo_item2_def)

theorem the_journal_replays_to_the_row_witness:
  "replay None (events_of ''wi_1'' (wd_events demo_wdb7)) = Some (Some WorkActive) \<and>
   int (moves (events_of ''wi_1'' (wd_events demo_wdb7))) = 2"
  using the_journal_replays_to_the_row [OF wdemo_reach(7) demo_get] by (simp add: demo_item2_def)

section \<open>One run, one request\<close>

text \<open>
  C4: An item runs once at a time.  In every reachable database the executions of an item read back
  in the order of their attempts, which are numbered from 1 without a gap, at most one of them has
  not ended, no two executions anywhere share an id, and no two of one item the same engine run.
\<close>

theorem an_item_runs_once_at_a_time:
  assumes "work_reach H db"
  shows "map xe_attempt (Executions i db) = map int [1..<Suc (length (Executions i db))] \<and>
    length (filter is_open (Executions i db)) \<le> 1 \<and> distinct (map xe_id (wd_executions db)) \<and>
    distinct (map (\<lambda>e. (xe_engine e, xe_ref e)) (Executions i db))"
proof -
  note ok = reach_ok [OF assms]
  then have "execs_ok H (wi_id ` set (wd_items db)) (wd_executions db, wd_provenance db)" by (simp add: work_ok_def)
  then show ?thesis unfolding Executions_runs [OF ok] execs_ok_def unique_key_def fst_conv by blast
qed

theorem an_item_runs_once_at_a_time_witness:
  "map xe_attempt (Executions ''wi_1'' demo_wdb7) = [1, 2] \<and> length (filter is_open (Executions ''wi_1'' demo_wdb7)) \<le> 1"
  using an_item_runs_once_at_a_time [OF wdemo_reach(7), of "''wi_1''"]
  by (simp add: Executions_def listExecutions_def demo_wdb7_is)

text \<open>
  C7: A request is fulfilled by an execution of its own.  In every reachable database an item has at
  most one request that is pending or claimed; exactly the fulfilled requests name an execution, it
  is one of the request's item, and no two requests name the same.
\<close>

theorem requests_are_one_to_one:
  assumes "work_reach H db"
  shows "distinct (map xr_item (filter open_request (wd_exec_requests db))) \<and>
    (\<forall>x \<in> set (wd_exec_requests db). if xr_state x = XrFulfilled
       then \<exists>e \<in> set (wd_executions db). xe_id e = xr_execution x \<and> xe_item e = xr_item x
       else xr_execution x = '''') \<and>
    distinct (map xr_execution (filter (\<lambda>x. xr_state x = XrFulfilled) (wd_exec_requests db)))"
proof -
  from reach_ok [OF assms] have ok: "requests_ok (wd_executions db) (wd_exec_requests db)" by (simp add: work_ok_def)
  have u: "distinct (wd_exec_requests db)"
    using ok by (auto simp: requests_ok_def unique_key_def distinct_map)
  have "distinct (map xr_item (filter open_request (wd_exec_requests db)))"
    unfolding distinct_map by (rule conjI) (use u ok in \<open>auto simp: requests_ok_def inj_on_def\<close>)
  moreover have "distinct (map xr_execution (filter (\<lambda>x. xr_state x = XrFulfilled) (wd_exec_requests db)))"
    unfolding distinct_map by (rule conjI) (use u ok in \<open>auto simp: requests_ok_def inj_on_def\<close>)
  ultimately show ?thesis using ok by (simp add: requests_ok_def fulfilled_by_def)
qed

theorem requests_are_one_to_one_witness:
  "distinct (map xr_item (filter open_request (wd_exec_requests demo_wdb6))) \<and>
   distinct (map xr_execution (filter (\<lambda>x. xr_state x = XrFulfilled) (wd_exec_requests demo_wdb7)))"
  using requests_are_one_to_one [OF wdemo_reach(6)] requests_are_one_to_one [OF wdemo_reach(7)] by blast

section \<open>Lineage\<close>

lemma walk_root: "walk_lineage n xs c = Some r \<Longrightarrow> \<exists>e \<in> set xs. xe_id e = r \<and> xe_from e = ''''"
proof (induction n xs c rule: walk_lineage.induct)
  case (2 n xs cur)
  then obtain e where e: "tselect xe_id xs cur = Some e" by (auto split: option.splits)
  with tselect_SomeD [OF e] 2 show ?case by (cases "xe_from e = ''''") auto
qed simp

lemma derived_idI:
  assumes "list_all (\<lambda>c. c \<in> set ''0123456789abcdef'') h" and "32 \<le> length h" and "length p = 3"
  shows "derived_id p (p @ take 32 h)"
proof -
  have "list_all (\<lambda>c. c \<in> set ''0123456789abcdef'') (take 32 h)"
    using assms(1) by (metis append_take_drop_id list_all_append)
  moreover have "length (take 32 h) = 32" using assms(2) by (simp only: length_take min_absorb2)
  moreover have "take 3 (p @ take 32 h) = p" "drop 3 (p @ take 32 h) = take 32 h" using assms(3) by simp_all
  ultimately show ?thesis unfolding derived_id_def length_append assms(3) by simp
qed

lemma derived_ids:
  assumes "\<And>s. 32 \<le> length (H s) \<and> list_all (\<lambda>c. c \<in> set ''0123456789abcdef'') (H s)"
  shows "derived_id ''at_'' (AttemptID H engine ref)" and "derived_id ''ln_'' (LineageRoot H root)"
proof -
  show "derived_id ''at_'' (AttemptID H engine ref)" unfolding AttemptID_def
    by (rule derived_idI) (use assms in blast, use assms in blast, simp)
  show "derived_id ''ln_'' (LineageRoot H root)" unfolding LineageRoot_def
    by (rule derived_idI) (use assms in blast, use assms in blast, simp)
qed

text \<open>
  C28: A lineage ends, at the root that is stored.  When \<open>H\<close> writes at least 32 hex digits, every
  execution of a reachable database has a provenance record that reads back valid; the walk over
  its ancestors ends after no more links than its attempt number, at the root the record names,
  which is an execution resumed from nothing; and the lineage id is the one derived from that root.
\<close>

theorem a_lineage_ends_at_its_stored_root:
  assumes "work_reach H db" and "e \<in> set (wd_executions db)"
    and "\<And>s. 32 \<le> length (H s) \<and> list_all (\<lambda>c. c \<in> set ''0123456789abcdef'') (H s)"
  shows "\<exists>p. ExecutionProvenance (xe_id e) db = Inr p \<and>
    (\<forall>n. xe_attempt e \<le> int n \<longrightarrow> walk_lineage n (wd_executions db) (xe_id e) = Some (pv_root p)) \<and>
    (\<exists>r \<in> set (wd_executions db). xe_id r = pv_root p \<and> xe_from r = '''') \<and>
    pv_lineage p = LineageRoot H (pv_root p) \<and> pv_attempt p = AttemptID H (xe_engine e) (xe_ref e)"
proof -
  from reach_ok [OF assms(1)] assms(2) have "lineage_ok H (wd_executions db) (wd_provenance db) e"
    by (simp add: work_ok_def execs_ok_def)
  then obtain root p where p: "tselect pv_execution (wd_provenance db) (xe_id e) = Some p" "prov_of H e root p"
      and w: "walk_lineage (nat (xe_attempt e)) (wd_executions db) (xe_id e) = Some root"
    unfolding lineage_ok_def by blast
  from p(2) have f: "pv_contract p = ContractVersion" "pv_attempt p = AttemptID H (xe_engine e) (xe_ref e)"
      "pv_lineage p = LineageRoot H root"
    by (simp_all add: prov_of_def)
  have v: "validProvenance p"
    unfolding validProvenance_def f by (intro conjI refl derived_ids assms(3))
  have "walk_lineage n (wd_executions db) (xe_id e) = Some root" if "xe_attempt e \<le> int n" for n
    by (rule walk_more [OF w]) (use that in simp)
  moreover have "\<exists>r \<in> set (wd_executions db). xe_id r = root \<and> xe_from r = ''''" by (rule walk_root [OF w])
  ultimately show ?thesis
    using p v by (intro exI [of _ p]) (simp add: ExecutionProvenance_def prov_of_def)
qed

definition demo_hex :: hash where "demo_hex s = replicate 32 CHR ''0''"

text \<open>The first two calls of the demo, under any hash.\<close>

definition demo_run :: "hash \<Rightarrow> work_db" where
  "demo_run H = work_runs H [OpCreate TxOk 0 ''1'' demo_create, OpAttach TxOk 1 ''1'' (demo_attach ExRunning)] empty_wdb"

lemma demo_run_is:
  "wd_items (demo_run H) = [demo_item]" "wd_executions (demo_run H) = [demo_exec]" "wd_snapshots (demo_run H) = []"
proof -
  have c: "work_op_run H (OpCreate TxOk 0 ''1'' demo_create) empty_wdb = demo_wdb1"
    unfolding demo_wdb1_def work_op_run.simps ..
  have r: "demo_run H = work_op_run H (OpAttach TxOk 1 ''1'' (demo_attach ExRunning)) demo_wdb1"
    unfolding demo_run_def work_runs.simps c ..
  have "attachNewTx H ''1'' demo_item (demo_by ''ada'' '''') ''argo'' ''r1'' ExRunning AttachPathAttach 1 demo_wdb1 =
      Inr (appendEvent ''wi_1'' EvExecutionAttached None None (demo_by ''ada'' '''')
        [(''execution_id'', ''we_1''), (''engine'', ''argo''), (''engine_ref'', ''r1'')] 1
        (demo_wdb1\<lparr>wd_executions := [demo_exec], wd_provenance := [(demo_prov demo_exec ''ada'' AttachPathAttach ''we_1'' 1)
          \<lparr>pv_attempt := AttemptID H ''argo'' ''r1'', pv_lineage := LineageRoot H ''we_1''\<rparr>]\<rparr>), demo_exec)"
    by (simp add: attachNewTx_def Let_def listExecutions_def demo_wdb1_is attach_checks_def first_error_None insertExecution_def
        insertProvenance_def IsTerminalState_def active_execution_def AttachPathAttach_def demo_prov_def)
      (simp add: demo_exec_def ExecutionIDPrefix_def IsTerminalPhase_def)
  then have "fst (AttachExecution H TxOk 1 ''1'' (demo_attach ExRunning) demo_wdb1) =
      appendEvent ''wi_1'' EvExecutionAttached None None (demo_by ''ada'' '''')
        [(''execution_id'', ''we_1''), (''engine'', ''argo''), (''engine_ref'', ''r1'')] 1
        (demo_wdb1\<lparr>wd_executions := [demo_exec], wd_provenance := [(demo_prov demo_exec ''ada'' AttachPathAttach ''we_1'' 1)
          \<lparr>pv_attempt := AttemptID H ''argo'' ''r1'', pv_lineage := LineageRoot H ''we_1''\<rparr>]\<rparr>)"
    by (simp add: AttachExecution_def demo_attach_ok call_ok attach_body_def demo_wdb1_is getItem_def tselect_Cons
        replayed_def remember_def)
  then show "wd_items (demo_run H) = [demo_item]" "wd_executions (demo_run H) = [demo_exec]" "wd_snapshots (demo_run H) = []"
    unfolding r work_op_run.simps by (simp_all add: demo_wdb1_is)
qed

lemma demo_run_reach: "work_reach H (demo_run H)"
  unfolding demo_run_def by (rule runs_reach)

theorem a_lineage_ends_at_its_stored_root_witness:
  "\<exists>p. ExecutionProvenance ''we_1'' (demo_run demo_hex) = Inr p \<and> walk_lineage 1 (wd_executions (demo_run demo_hex)) ''we_1'' = Some (pv_root p)"
proof -
  have "demo_exec \<in> set (wd_executions (demo_run demo_hex))" by (simp add: demo_run_is)
  moreover have "\<And>s. 32 \<le> length (demo_hex s) \<and> list_all (\<lambda>c. c \<in> set ''0123456789abcdef'') (demo_hex s)"
    by (simp add: demo_hex_def list_all_iff)
  ultimately obtain p where "ExecutionProvenance ''we_1'' (demo_run demo_hex) = Inr p"
      "\<forall>n. 1 \<le> int n \<longrightarrow> walk_lineage n (wd_executions (demo_run demo_hex)) ''we_1'' = Some (pv_root p)"
    using a_lineage_ends_at_its_stored_root [OF demo_run_reach, of demo_exec demo_hex] by auto
  then show ?thesis by (intro exI [of _ p]) (simp del: walk_lineage.simps)
qed

section \<open>Finality\<close>

text \<open>
  C22: What is finished stays.  From a reachable database, through any operations, an item keeps its
  identity, tenant, owner and visibility, its version never goes back, and as long as its version is the
  same, or once it is completed, superseded or archived, its row does not change at all; and an
  execution that has ended keeps its row.
\<close>

theorem finished_work_is_final:
  assumes "work_reach H db" and "WorkGet i db = Inr w" and "ExecutionByID x db = Inr e"
  shows "(\<exists>w'. WorkGet i (work_runs H as db) = Inr w' \<and> wi_tenant w' = wi_tenant w \<and> wi_owner w' = wi_owner w \<and>
      wi_visibility w' = wi_visibility w \<and> wi_version w \<le> wi_version w' \<and>
      (wi_version w' = wi_version w \<or> IsTerminalState (wi_state w) \<longrightarrow> w' = w)) \<and>
    (\<exists>e'. ExecutionByID x (work_runs H as db) = Inr e' \<and> xe_item e' = xe_item e \<and> xe_ref e' = xe_ref e \<and>
      (IsTerminalPhase (xe_phase e) \<longrightarrow> e' = e))"
proof -
  note ok = reach_ok [OF assms(1)]
  from runs_item_kept [OF ok, of i w as] assms(2) obtain w' where "tselect wi_id (wd_items (work_runs H as db)) i = Some w'" "item_kept w w'"
    by (auto simp: WorkGet_def getItem_Inr)
  moreover have e: "tselect xe_id (wd_executions db) x = Some e"
    using assms(3) by (simp add: ExecutionByID_def split: option.splits)
  moreover from runs_execution [OF ok e] obtain e' where "tselect xe_id (wd_executions (work_runs H as db)) x = Some e'" "same_run_row e e'"
    by blast
  moreover have "e' = e" if "IsTerminalPhase (xe_phase e)"
    using runs_finished [OF ok e that, of as] \<open>tselect xe_id (wd_executions (work_runs H as db)) x = Some e'\<close> by simp
  ultimately show ?thesis
    by (auto simp: WorkGet_def getItem_Inr item_kept_def same_work_def ExecutionByID_def same_run_row_def)
qed

theorem finished_work_is_final_witness:
  "\<exists>e'. ExecutionByID ''we_1'' (work_runs zero_hash [OpRequest False TxOk 4 ''1'' demo_ask] demo_wdb4) = Inr e' \<and> e' = demo_ended"
proof -
  have "WorkGet ''wi_1'' demo_wdb4 = Inr demo_item" "ExecutionByID ''we_1'' demo_wdb4 = Inr demo_ended" "IsTerminalPhase (xe_phase demo_ended)"
    by (simp_all add: WorkGet_def getItem_def ExecutionByID_def demo_wdb4_is tselect_Cons IsTerminalPhase_def)
  with finished_work_is_final [OF wdemo_reach(4), of "''wi_1''" demo_item "''we_1''" demo_ended "[OpRequest False TxOk 4 ''1'' demo_ask]"]
  show ?thesis by blast
qed

section \<open>Claims\<close>

text \<open>What a claim transaction writes.\<close>

lemma claim_outcome:
  assumes "wk_withTx fault db (claim_body guard now uuid inp c db) = (db', Inr (Some (x, w, r)))"
  shows "tselect xr_id (wd_exec_requests db') (xr_id x) = Some x" and "fst c = xr_id x" and "xr_state x = XrClaimed"
    and "xr_claim_expires_at x = Some (now + cl_lease inp)" and "xr_claimed_by x = mu_actor (cl_mutation inp)"
    and "xr_token x = executionRequestClaimPrefix @ uuid"
proof -
  from assms have "claim_body guard now uuid inp c db = Inr (db', Some (x, w, r))"
    by (auto simp: wk_withTx_def split: if_splits sum.splits)
  then obtain z where z: "tselect xr_id (wd_exec_requests db) (fst c) = Some z"
      and x: "x = claimed inp (executionRequestClaimPrefix @ uuid) now z"
      and rows: "wd_exec_requests db' = tput xr_id (wd_exec_requests db) x"
    by (auto simp: claim_body_def tupdate_def result_iffs split: if_splits option.splits)
  from tselect_SomeD [OF z] have id: "xr_id x = fst c" by (simp add: x claimed_def)
  then show "fst c = xr_id x" by simp
  from z id show "tselect xr_id (wd_exec_requests db') (xr_id x) = Some x" by (simp add: rows tselect_tput)
qed (use assms in \<open>auto simp: wk_withTx_def claim_body_def tupdate_def result_iffs claimed_def split: if_splits option.splits sum.splits\<close>)

text \<open>A body that refuses, on the one row of its request, is a call that refuses.\<close>

lemma locked_refused:
  assumes "tselect xr_id (wd_exec_requests db) i = Some x" and "\<And>cur. body x cur db = Inl e"
  shows "\<exists>e. lockedRequest fault i dbr body db = (db, Inl e)"
proof (cases "getExecutionRequest '''' i dbr")
  case (Inr x0)
  have "\<exists>e. andThen (getItem (xr_item x0) db) (\<lambda>cur. andThen (getExecutionRequest (xr_item x0) i db) (\<lambda>x. body x cur db)) = Inl e"
    using assms by (cases "getItem (xr_item x0) db") (auto simp: getExecutionRequest_def)
  with Inr show ?thesis by (auto simp: lockedRequest_def wk_withTx_def)
qed (simp add: lockedRequest_def)

lemma precheck_refused: "\<exists>e. r = (db, Inl e) \<Longrightarrow> \<exists>e. wk_precheck c db r = (db, Inl e)"
  by (auto simp: wk_precheck_def split: option.splits)

text \<open>
  C12: A claim is exclusive until it lapses, and worth nothing after.  A claim transaction that
  claimed a request stores the row it answers, and however many operations run after it, that row stays exactly as it
  is until one of two calls: a claim of this request once the lease has ended, or the claimant's own
  fulfilment or rejection, under the token of this claim, before.  Up to then no claim gets the
  request before the lease ends, nor does the candidate query list it; and a fulfilment or a rejection by anyone else, under
  another token, or after the lease has ended, never succeeds; all of these leave the
  database as it was.
\<close>

theorem a_claim_is_exclusive_until_it_lapses:
  assumes "work_reach H db0"
    and "wk_withTx fault db0 (claim_body guard now uuid inp c db0) = (db1, Inr (Some (x, w, r)))"
    and "\<forall>a \<in> set as. spares_claim x a"
  shows "getExecutionRequest '''' (xr_id x) (work_runs H as db1) = Inr x \<and>
    (xr_id x, xr_state x, xr_claimed_by x, xr_token x, xr_claim_expires_at x) =
      (fst c, XrClaimed, mu_actor (cl_mutation inp), executionRequestClaimPrefix @ uuid, Some (now + cl_lease inp)) \<and>
    (now' < now + cl_lease inp \<longrightarrow>
       xr_id x \<notin> fst ` set (claimCandidateSQL guard' now' (work_runs H as db1)) \<and>
       claim_body guard' now' uuid' inp' (xr_id x, item') (work_runs H as db1) = Inr (work_runs H as db1, None)) \<and>
    (rf_request (ff_ref f) = xr_id x \<and> \<not> claimants_call x now' (ff_ref f) \<longrightarrow>
       fulfil_body H now' uuid' f x cur (work_runs H as db1) = Inl XrNotClaimed \<and>
       (\<exists>e. FulfilExecutionRequest H fault' now' uuid' f dbr (work_runs H as db1) = (work_runs H as db1, Inl e))) \<and>
    (rf_request (rj_ref j) = xr_id x \<and> \<not> claimants_call x now' (rj_ref j) \<longrightarrow>
       reject_body now' j x cur (work_runs H as db1) = Inl XrNotClaimed \<and>
       (\<exists>e. RejectExecutionRequest fault' now' j dbr (work_runs H as db1) = (work_runs H as db1, Inl e)))"
proof -
  let ?db = "work_runs H as db1"
  note x = claim_outcome [OF assms(2)]
  have "work_reach H db1" using work_reach.call [OF assms(1), of "OpClaim guard fault now uuid inp c"] assms(2) by simp
  then have u: "unique_key xr_id (wd_exec_requests ?db)"
    using reach_ok [OF reach_runs] by (simp add: work_ok_def requests_ok_def)
  from runs_spared [OF x(1,3) assms(3)] have row: "tselect xr_id (wd_exec_requests ?db) (xr_id x) = Some x" .
  have free: "xr_id x \<notin> fst ` set (claimCandidateSQL guard' now' ?db) \<and>
      claim_body guard' now' uuid' inp' (xr_id x, item') ?db = Inr (?db, None)" if t: "now' < now + cl_lease inp"
  proof
    have n: "\<not> claimable now' x" using t x by (simp add: claimable_def)
    have "xr_id y \<noteq> xr_id x" if "y \<in> set (wd_exec_requests ?db)" "claimable now' y" for y
      using tsel_same [OF u that(1), of x] tselect_SomeD [OF row] n that(2) by auto
    then show "xr_id x \<notin> fst ` set (claimCandidateSQL guard' now' ?db)"
      by (fastforce simp: claimCandidateSQL_def dest!: in_set_takeD)
    show "claim_body guard' now' uuid' inp' (xr_id x, item') ?db = Inr (?db, None)"
      using n row by (simp add: claim_body_def tupdate_def)
  qed
  have f: "fulfil_body H now' uuid' f x cur ?db = Inl XrNotClaimed"
    if "rf_request (ff_ref f) = xr_id x \<and> \<not> claimants_call x now' (ff_ref f)" for cur
    using that live_claimants x(3) by (auto simp: fulfil_body_def fulfil_claimed_def)
  have j: "reject_body now' j x cur ?db = Inl XrNotClaimed"
    if "rf_request (rj_ref j) = xr_id x \<and> \<not> claimants_call x now' (rj_ref j)" for cur
    using that live_claimants x(3) by (auto simp: reject_body_def)
  have F: "\<exists>e. FulfilExecutionRequest H fault' now' uuid' f dbr ?db = (?db, Inl e)"
    if "rf_request (ff_ref f) = xr_id x \<and> \<not> claimants_call x now' (ff_ref f)"
    using that locked_refused [OF row, of "fulfil_body H now' uuid' f", OF f]
    by (simp add: FulfilExecutionRequest_def precheck_refused)
  have J: "\<exists>e. RejectExecutionRequest fault' now' j dbr ?db = (?db, Inl e)"
    if "rf_request (rj_ref j) = xr_id x \<and> \<not> claimants_call x now' (rj_ref j)"
    using that locked_refused [OF row, of "reject_body now' j", OF j]
    by (simp add: RejectExecutionRequest_def precheck_refused)
  have "getExecutionRequest '''' (xr_id x) ?db = Inr x" using row by (simp add: getExecutionRequest_def)
  then show ?thesis using x(2-6) free f j F J by simp
qed

theorem a_claim_is_exclusive_until_it_lapses_witness:
  "claim_body False 7 ''8'' demo_claim (''xr_1'', ''wi_1'')
     (work_runs zero_hash [OpClaim False TxOk 6 ''7'' demo_claim (''xr_1'', ''wi_1''), OpRevoke 6 ''t''] demo_wdb6) =
   Inr (work_runs zero_hash [OpClaim False TxOk 6 ''7'' demo_claim (''xr_1'', ''wi_1''), OpRevoke 6 ''t''] demo_wdb6, None)"
proof -
  have "wk_withTx TxOk demo_wdb5 (claim_body False 5 ''9'' demo_claim (''xr_1'', ''wi_1'') demo_wdb5) =
      (demo_wdb6, Inr (Some (demo_taken, demo_item, None)))"
    unfolding demo_wdb6_def work_op_run.simps demo_claims by (simp add: wk_withTx_def)
  from a_claim_is_exclusive_until_it_lapses [OF wdemo_reach(5) this,
      of "[OpClaim False TxOk 6 ''7'' demo_claim (''xr_1'', ''wi_1''), OpRevoke 6 ''t'']" 7 False "''8''" demo_claim "''wi_1''"]
  show ?thesis by (simp add: spares_claim_def demo_claim_def del: work_runs.simps)
qed

lemma attach_for_idle:
  assumes "attach_for H now uuid inp x cur db = Inr (db', r)"
  shows "\<not> IsTerminalState (wi_state cur) \<and> \<not> active_execution (listExecutions (wi_id cur) db)"
proof (cases "xr_kind x")
  case XrStart
  with assms have "checkStart cur x inp db = None" by (auto simp: attach_for_def result_iffs)
  then have "\<exists>q. checkRunnable cur (listExecutions (wi_id cur) db) XrStart '''' False = Inr q"
    by (auto simp: checkStart_def Let_def first_error_None split: sum.splits)
  then show ?thesis
    by (auto simp: checkRunnable_def Let_def active_execution_def list_ex_iff filter_empty_conv split: if_splits)
next
  case XrResume
  with assms have "resume_checks (resume_of x cur inp) cur (listExecutions (wi_id cur) db) = None"
    by (auto simp: attach_for_def resumeTx_def Let_def result_iffs)
  then show ?thesis by (auto simp: resume_checks_def Let_def first_error_None split: if_splits)
qed

text \<open>
  C9: A fulfilment attaches one run.  When FulfilExecutionRequest answers that it created an
  execution, whatever it read before its transaction, the request was claimed by the caller under the
  token it named and the lease had not ended; the item was not finished and no run of it was open; the executions are the old ones and
  the new one, which is a run of the request's item with the engine and reference of the call; and
  the request is stored as fulfilled by it.
\<close>

theorem a_fulfilment_attaches_one_run:
  assumes "work_reach H db"
    and "FulfilExecutionRequest H fault now uuid inp dbr db = (db', Inr (y, w, e, True))"
  shows "\<exists>x cur. getExecutionRequest '''' (rf_request (ff_ref inp)) db = Inr x \<and> live_claim now (ff_ref inp) x \<and>
    WorkGet (xr_item x) db = Inr cur \<and> \<not> IsTerminalState (wi_state cur) \<and> filter is_open (Executions (xr_item x) db) = [] \<and>
    wd_executions db' = wd_executions db @ [e] \<and> xe_item e = xr_item x \<and> same_run (ff_engine inp) (ff_run inp) e \<and>
    getExecutionRequest '''' (rf_request (ff_ref inp)) db' = Inr y \<and> xr_state y = XrFulfilled \<and> xr_execution y = xe_id e"
proof -
  let ?i = "rf_request (ff_ref inp)"
  have ready: "tselect wi_id (wd_items db) '''' = None"
    using work_ok_ready [OF reach_ok [OF assms(1)]] by (simp add: step_ready_def)
  from assms(2) have "lockedRequest fault ?i dbr (fulfil_body H now uuid inp) db = (db', Inr (y, w, e, True))"
    by (auto simp: FulfilExecutionRequest_def wk_precheck_def split: option.splits)
  from locked_Inr [OF this ready] obtain x cur where c: "tselect wi_id (wd_items db) (wi_id cur) = Some cur"
      and x: "tselect xr_id (wd_exec_requests db) ?i = Some x" and i: "xr_item x = wi_id cur"
      and b: "fulfil_body H now uuid inp x cur db = Inr (db', (y, w, e, True))" by metis
  have xi: "xr_id x = ?i" using tselect_SomeD [OF x] by simp
  from b have f: "fulfil_claimed H now uuid inp x cur db = Inr (db', (y, w, e, True))"
    by (auto simp: fulfil_body_def result_iffs split: xr_state.splits if_splits)
  from fulfil_claimed_Inr [OF f c] x xi obtain db1 d where a: "attach_for H now uuid inp x cur db = Inr (db1, (w, e))"
      and l: "live_claim now (ff_ref inp) x"
      and y: "y = x\<lparr>xr_state := XrFulfilled, xr_execution := xe_id e, xr_updated_at := now, xr_closed_at := Some now\<rparr>"
      and db': "db' = appendEvent (wi_id cur) EvRequestFulfilled None None (rf_mutation (ff_ref inp)) d now
        (db1\<lparr>wd_exec_requests := tput xr_id (wd_exec_requests db) y\<rparr>)"
    by metis
  from attach_for_Inr [OF a c] have at: "wd_executions db1 = wd_executions db @ [e]" "xe_item e = wi_id cur"
      "same_run (ff_engine inp) (ff_run inp) e" by metis+
  have "filter is_open (Executions (xr_item x) db) = []"
    using attach_for_idle [OF a] i by (simp add: active_execution_def list_ex_iff filter_empty_conv Executions_def)
  moreover have "getExecutionRequest '''' ?i db' = Inr y"
    by (simp add: getExecutionRequest_def db' tselect_tput y xi)
  ultimately show ?thesis
    using x c i l at attach_for_idle [OF a]
    by (intro exI [of _ x] exI [of _ cur]) (simp add: getExecutionRequest_def WorkGet_def getItem_Inr db' y)
qed

theorem a_fulfilment_attaches_one_run_witness:
  "\<exists>x. getExecutionRequest '''' ''xr_1'' demo_wdb6 = Inr x \<and> live_claim 6 (ff_ref demo_fulfil) x"
  using a_fulfilment_attaches_one_run [OF wdemo_reach(6) demo_fulfils] by auto

lemma fulfil_outcome:
  assumes ok: "work_ok H db"
    and f: "FulfilExecutionRequest H fault now uuid inp dbr db = (db1, Inr (y, w, e, created))"
  obtains cur where "first_error [claim_ref_validate (ff_ref inp), validateEngine (ff_engine inp) (ff_run inp)] = None"
    "tselect xr_id (wd_exec_requests db1) (rf_request (ff_ref inp)) = Some y" "xr_state y = XrFulfilled"
    "holds_claim (ff_ref inp) y" "tselect wi_id (wd_items db1) (xr_item y) = Some cur"
    "tselect xe_id (wd_executions db1) (xr_execution y) = Some e" "xe_item e = xr_item y"
    "same_run (ff_engine inp) (ff_run inp) e"
proof -
  let ?i = "rf_request (ff_ref inp)"
  have ready: "tselect wi_id (wd_items db) '''' = None" using work_ok_ready [OF ok] by (simp add: step_ready_def)
  from f have v: "first_error [claim_ref_validate (ff_ref inp), validateEngine (ff_engine inp) (ff_run inp)] = None"
      and l: "lockedRequest fault ?i dbr (fulfil_body H now uuid inp) db = (db1, Inr (y, w, e, created))"
    by (auto simp: FulfilExecutionRequest_def wk_precheck_def split: option.splits)
  from locked_Inr [OF l ready] obtain x cur where c: "tselect wi_id (wd_items db) (wi_id cur) = Some cur"
      and x: "tselect xr_id (wd_exec_requests db) ?i = Some x" and i: "xr_item x = wi_id cur"
      and b: "fulfil_body H now uuid inp x cur db = Inr (db1, (y, w, e, created))" by metis
  have xi: "xr_id x = ?i" using tselect_SomeD [OF x] by simp
  have ok1: "work_ok H db1" using work_op_ok [OF ok, of "OpFulfil fault now uuid inp dbr"] f by simp
  then have u: "unique_key xe_id (wd_executions db1)" by (simp add: work_ok_def execs_ok_def)
  show ?thesis
  proof (cases "xr_state x = XrFulfilled")
    case True
    with b have "db1 = db" "y = x" "holds_claim (ff_ref inp) x" "same_run (ff_engine inp) (ff_run inp) e"
        and e: "getExecution (wi_id cur) (xr_execution x) db = Inr e"
      by (auto simp: fulfil_body_def result_iffs split: if_splits)
    moreover from e have "e \<in> set (wd_executions db)" "xe_item e = wi_id cur" "xe_id e = xr_execution x"
      by (auto simp: getExecution_def find_Some_iff split: option.splits)
    moreover from this tsel_in [OF u, of e] \<open>db1 = db\<close> have "tselect xe_id (wd_executions db1) (xr_execution x) = Some e" by simp
    ultimately show ?thesis using that [of cur] v x i c True by simp
  next
    case False
    with b have fc: "fulfil_claimed H now uuid inp x cur db = Inr (db1, (y, w, e, created))"
      by (auto simp: fulfil_body_def split: xr_state.splits)
    from fulfil_claimed_Inr [OF fc c] x xi obtain db2 d where a: "attach_for H now uuid inp x cur db = Inr (db2, (w, e))"
        and lv: "live_claim now (ff_ref inp) x"
        and y: "y = x\<lparr>xr_state := XrFulfilled, xr_execution := xe_id e, xr_updated_at := now, xr_closed_at := Some now\<rparr>"
        and db1: "db1 = appendEvent (wi_id cur) EvRequestFulfilled None None (rf_mutation (ff_ref inp)) d now
          (db2\<lparr>wd_exec_requests := tput xr_id (wd_exec_requests db) y\<rparr>)"
      by metis
    from attach_for_Inr [OF a c] have at: "wd_executions db2 = wd_executions db @ [e]" "xe_item e = wi_id cur"
        "same_run (ff_engine inp) (ff_run inp) e" by metis+
    have "e \<in> set (wd_executions db1)" using at(1) by (simp add: db1)
    from tsel_in [OF u this] have "tselect xe_id (wd_executions db1) (xr_execution y) = Some e" by (simp add: y)
    moreover obtain cur' where "tselect wi_id (wd_items db1) (xr_item x) = Some cur'"
      using runs_item_kept [OF ok c, of "[OpFulfil fault now uuid inp dbr]"] f i by auto
    ultimately show ?thesis
      using that [of cur'] v i lv at y by (simp add: db1 tselect_tput xi live_claim_def holds_claim_def)
  qed
qed

text \<open>
  Fulfilling again changes nothing.  However many operations run after a fulfilment, the same
  call made again answers the request as it was fulfilled with its execution and \<open>created\<close> false,
  and leaves the database as it is; so a lost answer is recovered by asking again.
\<close>

theorem fulfilling_again_answers_the_same:
  assumes "work_reach H db"
    and "FulfilExecutionRequest H fault now uuid inp dbr db = (db1, Inr (y, w, e, created))"
  shows "\<exists>w' e'. FulfilExecutionRequest H TxOk now' uuid' inp (work_runs H as db1) (work_runs H as db1) =
      (work_runs H as db1, Inr (y, w', e', False)) \<and> xe_id e' = xe_id e \<and> xe_ref e' = xe_ref e"
proof -
  note ok = reach_ok [OF assms(1)]
  let ?db = "work_runs H as db1"
  show ?thesis
  proof (rule fulfil_outcome [OF ok assms(2)])
    fix cur
    assume v: "first_error [claim_ref_validate (ff_ref inp), validateEngine (ff_engine inp) (ff_run inp)] = None"
      and y: "tselect xr_id (wd_exec_requests db1) (rf_request (ff_ref inp)) = Some y" "xr_state y = XrFulfilled"
        "holds_claim (ff_ref inp) y"
      and cur: "tselect wi_id (wd_items db1) (xr_item y) = Some cur"
      and e: "tselect xe_id (wd_executions db1) (xr_execution y) = Some e" "xe_item e = xr_item y"
        "same_run (ff_engine inp) (ff_run inp) e"
    have ok1: "work_ok H db1" using work_op_ok [OF ok, of "OpFulfil fault now uuid inp dbr"] assms(2) by simp
    from runs_closed [OF ok1 y(1)] y(2) have y': "tselect xr_id (wd_exec_requests ?db) (rf_request (ff_ref inp)) = Some y"
      by (simp add: open_request_def)
    from runs_item_kept [OF ok1 cur, of as] obtain w' where w': "tselect wi_id (wd_items ?db) (xr_item y) = Some w'" by blast
    from getExecution_later [OF ok1 e(1)] e(2) obtain e' where e': "getExecution (xr_item y) (xr_execution y) ?db = Inr e'"
        "same_run_row e e'" by metis
    have "fulfil_body H now' uuid' inp y w' ?db = Inr (?db, (y, w', e', False))"
      using y(2,3) e' e(3) item_at [OF w'] by (simp add: fulfil_body_def same_run_row_def same_run_def)
    then have "FulfilExecutionRequest H TxOk now' uuid' inp ?db ?db = (?db, Inr (y, w', e', False))"
      using v by (simp add: FulfilExecutionRequest_def wk_precheck_def locked_run [OF y' w'])
    with e'(2) show ?thesis by (auto simp: same_run_row_def)
  qed
qed

theorem fulfilling_again_answers_the_same_witness:
  "\<exists>w' e'. FulfilExecutionRequest zero_hash TxOk 9 ''3'' demo_fulfil demo_wdb7 demo_wdb7 = (demo_wdb7, Inr (demo_done, w', e', False)) \<and>
     xe_id e' = ''we_2''"
proof -
  have "demo_wdb7 = fst (FulfilExecutionRequest zero_hash TxOk 6 ''2'' demo_fulfil demo_wdb6 demo_wdb6)"
    by (simp add: demo_wdb7_def)
  with demo_fulfils have "FulfilExecutionRequest zero_hash TxOk 6 ''2'' demo_fulfil demo_wdb6 demo_wdb6 =
      (demo_wdb7, Inr (demo_done, demo_item2, demo_again, True))" by simp
  from fulfilling_again_answers_the_same [OF wdemo_reach(6) this, of 9 "''3''" "[]"] show ?thesis by auto
qed

section \<open>Repeated and stale calls\<close>

text \<open>
  What an idempotency key of an item stands for: nothing yet, or one call, by its operation, its
  request hash and its actor.
\<close>

definition key_unused :: "string \<Rightarrow> mutation \<Rightarrow> work_db \<Rightarrow> bool" where
  "key_unused i m db \<longleftrightarrow> mu_key m = '''' \<or> tselect iq_name (wd_requests db) (i, mu_key m) = None"

definition answered_before :: "string \<Rightarrow> string \<Rightarrow> mutation \<Rightarrow> work_db \<Rightarrow> bool" where
  "answered_before i op m db \<longleftrightarrow> mu_key m \<noteq> '''' \<and>
     (\<exists>q. tselect iq_name (wd_requests db) (i, mu_key m) = Some q \<and> iq_op q = op \<and> iq_hash q = mu_hash m \<and> iq_actor q = mu_actor m)"

text \<open>How a call that names a version long gone comes out; \<open>valid\<close> is the verdict on its input.\<close>

definition stale_outcome ::
  "string \<Rightarrow> string \<Rightarrow> mutation \<Rightarrow> work_error option \<Rightarrow> tx_fault \<Rightarrow> work_db \<Rightarrow> work_db \<times> (work_error + 'a) \<Rightarrow> bool" where
  "stale_outcome i op m valid fault db out \<longleftrightarrow>
     fst out = db \<and> (isl (snd out) \<or> answered_before i op m db) \<and>
     (valid = None \<and> fault = TxOk \<and> key_unused i m db \<longrightarrow> snd out = Inl WkVersionConflict)"

lemma replayed_unused: "key_unused i m db \<Longrightarrow> replayed i op m db = Inr None"
  by (auto simp: replayed_def key_unused_def split: option.splits)

lemma replayed_answered: "replayed i op m db = Inr (Some x) \<Longrightarrow> answered_before i op m db"
  by (auto simp: replayed_def answered_before_def split: option.splits if_splits)

lemma stale_call:
  assumes "\<And>db' r. body = Inr (db', r) \<Longrightarrow> db' = db \<and> answered_before i op m db"
    and "key_unused i m db \<Longrightarrow> body = Inl WkVersionConflict"
  shows "stale_outcome i op m c fault db (wk_precheck c db (wk_withTx fault db body))"
  using assms by (cases body; cases c; cases fault) (auto simp: stale_outcome_def wk_precheck_def wk_withTx_def)

lemma stale_transition:
  assumes "getItem (wt_item t) db = Inr cur" and "wi_version cur \<noteq> wt_expected t" and "wi_id cur = wt_item t"
  shows "stale_outcome (wt_item t) ''transition'' (wt_mutation t) (work_transition_validate t) fault db (WorkTransition fault now t db)"
  unfolding WorkTransition_def
  by (rule stale_call) (use assms in \<open>auto simp: work_transition_body_def result_iffs replayed_unused
      split: option.splits dest: replayed_answered\<close>)

lemma stale_resume:
  assumes "getItem (re_item r) db = Inr cur" and "wi_version cur \<noteq> re_expected r" and "wi_id cur = re_item r"
  shows "stale_outcome (re_item r) ''resume'' (re_mutation r) (resume_validate r) fault db (WorkResume H fault now uuid r db)"
  unfolding WorkResume_def
  by (rule stale_call) (use assms in \<open>auto simp: resume_body_def resumeTx_def resume_checks_def Let_def result_iffs replayed_unused
      split: option.splits dest: replayed_answered\<close>)

lemma stale_request:
  assumes "getItem (xq_item q) db = Inr cur" and "wi_version cur \<noteq> xq_expected q" and "wi_id cur = xq_item q"
  shows "stale_outcome (xq_item q) ''execution_request'' (xq_mutation q) (exec_request_validate q) fault db
    (CreateExecutionRequest queue fault now uuid q db)"
proof (cases "xq_kind q")
  case KindOther
  then show ?thesis
    by (auto simp: CreateExecutionRequest_def stale_outcome_def wk_precheck_def exec_request_validate_def first_error_None wk_require_def
        split: option.splits)
next
  case (KindWord k)
  show ?thesis unfolding CreateExecutionRequest_def KindWord kind_word.case
    by (rule stale_call) (use assms in \<open>auto simp: request_create_body_def result_iffs replayed_unused
        split: option.splits dest: replayed_answered\<close>)
qed

text \<open>
  C21: One writer per version.  When a transition that named a state version has moved the item, the
  item is one version further; and however many operations run after, whoever names the same version, in a transition, a
  resume or an execution request, under whatever fault of PostgreSQL, changes nothing.  It is answered
  with an error, a version conflict when the input is valid, the transaction commits and its
  idempotency key, if it has one, is not yet used for the item; only a keyed call that the item has on record,
  by the same actor with the same request hash, may be answered as it was then.
\<close>

theorem one_writer_per_version:
  assumes "work_reach H db" and "WorkTransition fault now inp db = (db1, Inr w)" and "db1 \<noteq> db"
    and "wt_item t = wt_item inp" "wt_expected t = wt_expected inp"
    and "re_item r = wt_item inp" "re_expected r = wt_expected inp"
    and "xq_item q = wt_item inp" "xq_expected q = wt_expected inp"
  shows "wi_version w = wt_expected inp + 1 \<and>
    stale_outcome (wt_item inp) ''transition'' (wt_mutation t) (work_transition_validate t) fault' (work_runs H as db1)
      (WorkTransition fault' now' t (work_runs H as db1)) \<and>
    stale_outcome (wt_item inp) ''resume'' (re_mutation r) (resume_validate r) fault' (work_runs H as db1)
      (WorkResume H fault' now' uuid r (work_runs H as db1)) \<and>
    stale_outcome (wt_item inp) ''execution_request'' (xq_mutation q) (exec_request_validate q) fault' (work_runs H as db1)
      (CreateExecutionRequest queue fault' now' uuid q (work_runs H as db1))"
proof -
  note ok = reach_ok [OF assms(1)]
  have ok1: "work_ok H db1" using work_op_ok [OF ok, of "OpTransition fault now inp"] assms(2) by simp
  from call_Inr [OF assms(2) [unfolded WorkTransition_def]] have b: "work_transition_body now inp db = Inr (db1, w)" by simp
  then obtain cur where cur: "getItem (wt_item inp) db = Inr cur" by (auto simp: work_transition_body_def result_iffs)
  then have id: "wi_id cur = wt_item inp" "tselect wi_id (wd_items db) (wt_item inp) = Some cur"
    using item_at [of "wd_items db"] by (auto simp: getItem_Inr)
  from b cur assms(3) obtain f db2 k st d qs where v: "wi_version cur = wt_expected inp"
      and m: "move_item (wi_id cur) (wi_version cur) f now db = Inr (db2, w)" and f: "\<And>v. wi_id (f v) = wi_id v"
      and db1: "db1 = (appendEvent (wi_id cur) EvStateChanged k st (wt_mutation inp) d now db2)\<lparr>wd_requests := qs\<rparr>"
    by (auto simp: work_transition_body_def result_iffs Let_def split: if_splits option.splits dest!: remember_Inr)
  from m id have w: "wi_version w = wt_expected inp + 1" "wi_id w = wt_item inp" "wd_items db2 = tput wi_id (wd_items db) w"
    using f by (auto simp: move_item_def tupdate_def v split: option.splits)
  then have "tselect wi_id (wd_items db1) (wt_item inp) = Some w" by (simp add: db1 tselect_tput)
  from runs_item_kept [OF ok1 this, of as] w(1,2) obtain w' where w': "getItem (wt_item inp) (work_runs H as db1) = Inr w'"
      "wi_version w' \<noteq> wt_expected inp" "wi_id w' = wt_item inp"
    by (auto simp: getItem_Inr item_kept_def same_work_def)
  show ?thesis
    using w(1) stale_transition [of t "work_runs H as db1" w'] stale_resume [of r "work_runs H as db1" w']
      stale_request [of q "work_runs H as db1" w'] w' assms(4-9) by simp
qed

lemma resume_outcome:
  assumes ok: "work_ok H db" and "WorkResume H fault now uuid inp db = (db1, Inr (w, e, created))" and key: "mu_key (re_mutation inp) \<noteq> ''''"
  obtains q cur where "resume_validate inp = None" "tselect wi_id (wd_items db1) (re_item inp) = Some cur"
    "tselect iq_name (wd_requests db1) (re_item inp, mu_key (re_mutation inp)) = Some q" "iq_op q = ''resume''"
    "iq_hash q = mu_hash (re_mutation inp)" "iq_actor q = mu_actor (re_mutation inp)" "iq_result q = xe_id e"
    "tselect xe_id (wd_executions db1) (xe_id e) = Some e" "xe_item e = re_item inp"
proof -
  have ok1: "work_ok H db1" using work_op_ok [OF ok, of "OpResume fault now uuid inp"] assms(2) by simp
  then have u: "unique_key xe_id (wd_executions db1)" by (simp add: work_ok_def execs_ok_def)
  from call_Inr [OF assms(2) [unfolded WorkResume_def]] have v: "resume_validate inp = None"
      and b: "resume_body H now uuid inp db = Inr (db1, (w, e, created))" by simp_all
  from b obtain cur seen where cur: "getItem (re_item inp) db = Inr cur"
      and seen: "replayed (wi_id cur) ''resume'' (re_mutation inp) db = Inr seen"
    by (auto simp: resume_body_def result_iffs)
  then have id: "wi_id cur = re_item inp" "tselect wi_id (wd_items db) (re_item inp) = Some cur"
    using item_at [of "wd_items db"] by (auto simp: getItem_Inr)
  from runs_item_kept [OF ok id(2), of "[OpResume fault now uuid inp]"] assms(2) obtain w' where
      w': "tselect wi_id (wd_items db1) (re_item inp) = Some w'" by auto
  show ?thesis
  proof (cases seen)
    case (Some res)
    with b cur seen have e: "getExecution (wi_id cur) res db = Inr e" and db1: "db1 = db"
      by (auto simp: resume_body_def result_iffs)
    from e have em: "e \<in> set (wd_executions db1)" "xe_item e = wi_id cur" "xe_id e = res"
      by (auto simp: getExecution_def find_Some_iff db1 split: option.splits)
    from seen Some key obtain q where "tselect iq_name (wd_requests db) (wi_id cur, mu_key (re_mutation inp)) = Some q"
        "iq_op q = ''resume''" "iq_hash q = mu_hash (re_mutation inp)" "iq_actor q = mu_actor (re_mutation inp)" "iq_result q = res"
      by (auto simp: replayed_def split: option.splits if_splits)
    moreover from tsel_in [OF u em(1)] have "tselect xe_id (wd_executions db1) (xe_id e) = Some e" .
    ultimately show ?thesis using that [of w' q] v w' id(1) em by (simp add: db1)
  next
    case None
    with b cur seen obtain db2 where t: "resumeTx H uuid cur inp AttachPathResume now db = Inr (db2, (w, e))"
        and r: "remember (wi_id cur) ''resume'' (xe_id e) (re_mutation inp) db2 = Inr db1"
      by (auto simp: resume_body_def result_iffs)
    from id have "tselect wi_id (wd_items db) (wi_id cur) = Some cur" by simp
    from resumeTx_Inr [OF t this] obtain w1 d p where p: "db2 = appendEvent (wi_id cur) EvResumed (Some (wi_state cur)) (Some (wi_state w)) (re_mutation inp) d now
       (db\<lparr>wd_executions := wd_executions db @ [e], wd_provenance := wd_provenance db @ [p], wd_items := tput wi_id (wd_items db) w\<rparr>)"
        "xe_item e = wi_id cur" by metis
    define q where "q = \<lparr>iq_item = wi_id cur, iq_key = mu_key (re_mutation inp), iq_op = ''resume'', iq_hash = mu_hash (re_mutation inp),
      iq_actor = mu_actor (re_mutation inp), iq_result = xe_id e\<rparr>"
    from r key have q: "tselect iq_name (wd_requests db2) (wi_id cur, mu_key (re_mutation inp)) = None"
        "db1 = db2\<lparr>wd_requests := wd_requests db2 @ [q]\<rparr>"
      by (auto simp: remember_def q_def split: if_splits)
    then have "tselect iq_name (wd_requests db1) (wi_id cur, mu_key (re_mutation inp)) = Some q"
      by (simp add: tsel_new) (simp add: q_def)
    moreover have "e \<in> set (wd_executions db1)" by (simp add: q(2) p(1))
    then have "tselect xe_id (wd_executions db1) (xe_id e) = Some e" by (rule tsel_in [OF u])
    ultimately show ?thesis using that [of w' q] v w' id(1) p(2) by (simp add: q_def)
  qed
qed

text \<open>
  Resuming again under the same key changes nothing.  However many operations run after a resume
  that carried an idempotency key, the same call made again answers the execution the first one
  attached, with \<open>created\<close> false, and leaves the database as it is.
\<close>

theorem resuming_again_answers_the_same:
  assumes "work_reach H db" and "WorkResume H fault now uuid inp db = (db1, Inr (w, e, created))"
    and "mu_key (re_mutation inp) \<noteq> ''''"
  shows "\<exists>w' e'. WorkResume H TxOk now' uuid' inp (work_runs H as db1) = (work_runs H as db1, Inr (w', e', False)) \<and>
    xe_id e' = xe_id e \<and> xe_attempt e' = xe_attempt e"
proof -
  note ok = reach_ok [OF assms(1)]
  let ?db = "work_runs H as db1"
  have ok1: "work_ok H db1" using work_op_ok [OF ok, of "OpResume fault now uuid inp"] assms(2) by simp
  show ?thesis
  proof (rule resume_outcome [OF ok assms(2,3)])
    fix q cur
    assume v: "resume_validate inp = None" and cur: "tselect wi_id (wd_items db1) (re_item inp) = Some cur"
      and q: "tselect iq_name (wd_requests db1) (re_item inp, mu_key (re_mutation inp)) = Some q" "iq_op q = ''resume''"
        "iq_hash q = mu_hash (re_mutation inp)" "iq_actor q = mu_actor (re_mutation inp)" "iq_result q = xe_id e"
      and e: "tselect xe_id (wd_executions db1) (xe_id e) = Some e" "xe_item e = re_item inp"
    from runs_item_kept [OF ok1 cur, of as] obtain w' where w': "getItem (re_item inp) ?db = Inr w'" by (auto simp: getItem_Inr)
    then have id: "wi_id w' = re_item inp" using item_at [of "wd_items ?db"] by (auto simp: getItem_Inr)
    from work_runs_keys q(1) have "tselect iq_name (wd_requests ?db) (re_item inp, mu_key (re_mutation inp)) = Some q"
      unfolding keys_kept_def by blast
    with q assms(3) have "replayed (wi_id w') ''resume'' (re_mutation inp) ?db = Inr (Some (xe_id e))"
      by (simp add: replayed_def id)
    moreover obtain e' where e': "getExecution (wi_id w') (xe_id e) ?db = Inr e'" "same_run_row e e'"
      using getExecution_later [OF ok1 e(1), of as] e(2) id by auto
    ultimately have "resume_body H now' uuid' inp ?db = Inr (?db, (w', e', False))"
      using w' by (simp add: resume_body_def)
    with v have "WorkResume H TxOk now' uuid' inp ?db = (?db, Inr (w', e', False))" by (simp add: WorkResume_def call_ok)
    with e'(2) show ?thesis by (auto simp: same_run_row_def)
  qed
qed

theorem one_writer_per_version_witness:
  "\<exists>db w. WorkTransition TxOk 7 (demo_move ''ada'') demo_wdb7 = (db, Inr w) \<and> wi_version w = 3 \<and>
     WorkTransition TxOk 8 (demo_move ''late'') db = (db, Inl WkVersionConflict)"
proof -
  have "\<exists>db w. WorkTransition TxOk 7 (demo_move ''ada'') demo_wdb7 = (db, Inr w) \<and> wd_events db \<noteq> wd_events demo_wdb7"
    using demo_move_ok [of "''ada''"]
    by (simp add: WorkTransition_def call_ok plain_words MaxExternalIDBytes_def work_transition_body_def getItem_def demo_wdb7_is
        tselect_Cons demo_item2_def demo_move_def replayed_def remember_def Next_def successor_ok_def move_item_def tupdate_def Let_def
        appendEvent_def)
  then obtain db w where t: "WorkTransition TxOk 7 (demo_move ''ada'') demo_wdb7 = (db, Inr w)" and "db \<noteq> demo_wdb7" by blast
  note stale = one_writer_per_version [OF wdemo_reach(7) this, of "demo_move ''late''" "(demo_resume '''')\<lparr>re_expected := 2\<rparr>"
      "demo_ask\<lparr>xq_expected := 2\<rparr>" TxOk "[]" 8 "''9''" False]
  have "work_transition_validate (demo_move ''late'') = None"
    by (rule demo_move_ok) (simp_all add: plain_words MaxExternalIDBytes_def)
  moreover have "key_unused ''wi_1'' (wt_mutation (demo_move ''late'')) db" by (simp add: key_unused_def demo_move_def)
  ultimately show ?thesis
    using stale t by (cases "WorkTransition TxOk 8 (demo_move ''late'') db")
      (simp add: demo_move_def demo_resume_def demo_ask_def stale_outcome_def)
qed

lemma demo_resume_is [simp]:
  "re_mutation (demo_resume k) = demo_by ''ada'' k" "re_item (demo_resume k) = ''wi_1''" "re_expected (demo_resume k) = 1"
  "re_from (demo_resume k) = ''''" "re_engine (demo_resume k) = ''argo''" "re_ref (demo_resume k) = ''r3''"
  by (simp_all add: demo_resume_def)

lemma demo_resumes: "\<exists>db w e. WorkResume zero_hash TxOk 7 ''5'' (demo_resume ''c9'') demo_wdb4 = (db, Inr (w, e, True))"
proof -
  let ?r = "demo_resume ''c9''"
  have v: "resume_validate ?r = None" by (rule demo_resume_ok) (simp add: plain_words MaxKeyBytes_def)
  have execs: "listExecutions ''wi_1'' demo_wdb4 = [demo_ended]" by (simp add: listExecutions_def demo_wdb4_is)
  have checks: "resume_checks ?r demo_item [demo_ended] = None"
    by (simp add: resume_checks_def Let_def resume_from_def first_error_None IsTerminalState_def active_execution_def
        IsTerminalPhase_def wk_require_def containsExecution_def same_run_def)
  have "\<exists>db e. insertExecution zero_hash ''5'' (demo_by ''ada'' ''c9'') ''wi_1'' ''argo'' ''r3'' ExPending ''we_1'' 2
      AttachPathResume 7 demo_wdb4 = Inr (db, e) \<and> wd_items db = [demo_item] \<and> wd_requests db = []"
    by (simp add: insertExecution_def insertProvenance_def rootOf_def tselect_Cons Let_def demo_wdb4_is AttachPathResume_def
        demo_prov_def exec_clash_def ExecutionIDPrefix_def IsTerminalPhase_def)
  then obtain db e where i: "insertExecution zero_hash ''5'' (demo_by ''ada'' ''c9'') ''wi_1'' ''argo'' ''r3'' ExPending ''we_1'' 2
      AttachPathResume 7 demo_wdb4 = Inr (db, e)" "wd_items db = [demo_item]" "wd_requests db = []" by blast
  have "\<exists>db w. resumeTx zero_hash ''5'' demo_item ?r AttachPathResume 7 demo_wdb4 = Inr (db, (w, e)) \<and> wd_requests db = []"
    using checks i by (simp add: resumeTx_def execs Let_def resume_from_def resumed_state_def move_item_def tupdate_def tselect_Cons)
  then obtain db' w where t: "resumeTx zero_hash ''5'' demo_item ?r AttachPathResume 7 demo_wdb4 = Inr (db', (w, e))"
      "wd_requests db' = []" by blast
  from v t show ?thesis
    by (simp add: WorkResume_def call_ok resume_body_def getItem_def demo_wdb4_is tselect_Cons replayed_def remember_def)
qed

theorem resuming_again_answers_the_same_witness:
  "\<exists>db w e w' e'. WorkResume zero_hash TxOk 7 ''5'' (demo_resume ''c9'') demo_wdb4 = (db, Inr (w, e, True)) \<and>
     WorkResume zero_hash TxOk 8 ''6'' (demo_resume ''c9'') db = (db, Inr (w', e', False)) \<and> xe_id e' = xe_id e"
proof -
  obtain db w e where r: "WorkResume zero_hash TxOk 7 ''5'' (demo_resume ''c9'') demo_wdb4 = (db, Inr (w, e, True))"
    using demo_resumes by blast
  have "mu_key (re_mutation (demo_resume ''c9'')) \<noteq> ''''" by (simp add: demo_resume_def)
  from resuming_again_answers_the_same [OF wdemo_reach(4) r this, of 8 "''6''" "[]"] r show ?thesis by auto
qed

section \<open>Snapshots and tokens\<close>

lemma seal_outcome:
  assumes ok: "work_ok H db" and "SealSnapshot H fault now inp db = (db1, Inr (c, b))"
  obtains cur e where "getItem (sn_item inp) db1 = Inr cur" "tselect xe_id (wd_executions db1) (sn_execution inp) = Some e"
    "xe_item e = sn_item inp" "xe_attempt e = sn_sequence inp" "cs_item c = sn_item inp"
    "tselect cs_execution (wd_snapshots db1) (sn_execution inp) = Some c" "cs_hash c = sn_hash inp" "scanSnapshot H c = Inr c"
proof -
  have ok1: "work_ok H db1" using work_op_ok [OF ok, of "OpSeal fault now inp"] assms(2) by simp
  from call_Inr [OF assms(2) [unfolded SealSnapshot_def]] have v: "snapshot_validate H inp = None"
      and bd: "seal_body H now inp db = Inr (db1, (c, b))" by simp_all
  show ?thesis
  proof (rule seal_body_Inr [OF bd])
    fix cur e assume cur: "tselect wi_id (wd_items db) (sn_item inp) = Some cur"
      and e: "getExecution (wi_id cur) (sn_execution inp) db = Inr e" and att: "xe_attempt e = sn_sequence inp"
      and r: "(\<exists>old. tselect cs_execution (wd_snapshots db) (xe_id e) = Some old \<and> scanSnapshot H old = Inr c \<and> \<not> b \<and> db1 = db) \<or>
        (\<exists>prior d. tselect cs_execution (wd_snapshots db) (xe_id e) = None \<and> b \<and> c = sealed H now inp e prior \<and>
          db1 = appendEvent (wi_id cur) EvSnapshotSealed None None (sn_mutation inp) d now
            (db\<lparr>wd_snapshots := wd_snapshots db @ [c]\<rparr>))"
    have id: "wi_id cur = sn_item inp" using item_at [OF cur] by simp
    from e have ex: "e \<in> set (wd_executions db)" "xe_id e = sn_execution inp" "xe_item e = sn_item inp"
      by (auto simp: getExecution_def find_Some_iff id split: option.splits)
    have same: "wd_items db1 = wd_items db" "wd_executions db1 = wd_executions db" using r by auto
    have u: "unique_key xe_id (wd_executions db1)" using ok1 by (simp add: work_ok_def execs_ok_def)
    from tsel_in [OF u, of e] ex have sel: "tselect xe_id (wd_executions db1) (sn_execution inp) = Some e" by (simp add: same)
    have c: "tselect cs_execution (wd_snapshots db1) (xe_id e) = Some c \<and> cs_hash c = sn_hash inp \<and> scanSnapshot H c = Inr c"
    proof (cases "tselect cs_execution (wd_snapshots db) (xe_id e)")
      case (Some old)
      with r bd cur e att show ?thesis
        by (auto simp: seal_body_def getItem_def result_iffs scanSnapshot_def split: if_splits)
    next
      case None
      have "sn_hash inp = HashCanonical H (sn_canonical inp)"
        using v by (simp add: snapshot_validate_def first_error_None wk_require_def split: if_splits)
      with r None show ?thesis by (auto simp: tsel_new sealed_def scanSnapshot_def)
    qed
    have "cs_item c = sn_item inp"
    proof -
      from c have "c \<in> set (wd_snapshots db1)" "cs_execution c = xe_id e" by (auto dest: tselect_SomeD)
      moreover have "snapshots_ok H (wd_executions db1) (wd_snapshots db1)" using ok1 by (simp add: work_ok_def)
      ultimately obtain f where "f \<in> set (wd_executions db1)" "xe_id f = xe_id e" "xe_item f = cs_item c"
        unfolding snapshots_ok_def by metis
      with tsel_same [OF u this(1), of e] ex(1,3) same show ?thesis by simp
    qed
    with c cur att ex sel show ?thesis by (intro that [of cur e]) (simp_all add: getItem_Inr same)
  qed
qed

text \<open>
  C27: What is sealed is served, and nothing else can be sealed.  However many operations run after a
  seal, the execution's snapshot reads back as the one the seal answered, with the content hash of
  the call and bytes that hash to it; and sealing other content for that execution is refused as a
  divergence and changes nothing.
\<close>

theorem a_sealed_snapshot_is_served_and_final:
  assumes "work_reach H db" and "SealSnapshot H fault now inp db = (db1, Inr (c, sealed_now))"
    and "snapshot_validate H inp' = None" and "sn_item inp' = sn_item inp" "sn_execution inp' = sn_execution inp"
      "sn_sequence inp' = sn_sequence inp" and "sn_hash inp' \<noteq> sn_hash inp"
  shows "ExecutionSnapshot H (sn_item inp) (sn_execution inp) (work_runs H as db1) = Inr c \<and>
    cs_hash c = sn_hash inp \<and> HashCanonical H (cs_canonical c) = sn_hash inp \<and>
    SealSnapshot H TxOk now' inp' (work_runs H as db1) = (work_runs H as db1, Inl SnapshotDivergence)"
proof -
  note ok = reach_ok [OF assms(1)]
  let ?db = "work_runs H as db1"
  have ok1: "work_ok H db1" using work_op_ok [OF ok, of "OpSeal fault now inp"] assms(2) by simp
  show ?thesis
  proof (rule seal_outcome [OF ok assms(2)])
    fix cur e
    assume cur: "getItem (sn_item inp) db1 = Inr cur" and e: "tselect xe_id (wd_executions db1) (sn_execution inp) = Some e"
        "xe_item e = sn_item inp" "xe_attempt e = sn_sequence inp" and item: "cs_item c = sn_item inp"
      and c: "tselect cs_execution (wd_snapshots db1) (sn_execution inp) = Some c"
      and h: "cs_hash c = sn_hash inp" "scanSnapshot H c = Inr c"
    note c' = runs_snapshot [OF ok1 c, of as]
    have u: "unique_key cs_execution (wd_snapshots ?db)"
      using work_runs_ok [OF ok1] by (simp add: work_ok_def snapshots_ok_def)
    have "find (\<lambda>x. cs_item x = sn_item inp \<and> cs_execution x = sn_execution inp) (wd_snapshots ?db) = Some c"
    proof (cases "find (\<lambda>x. cs_item x = sn_item inp \<and> cs_execution x = sn_execution inp) (wd_snapshots ?db)")
      case None
      with tselect_SomeD [OF c'] item show ?thesis unfolding find_None_iff by blast
    next
      case (Some d)
      then have "d \<in> set (wd_snapshots ?db)" "cs_execution d = sn_execution inp" by (auto simp: find_Some_iff)
      with tsel_same [OF u this(1)] tselect_SomeD [OF c'] have "d = c" by metis
      with Some show ?thesis by simp
    qed
    then have served: "ExecutionSnapshot H (sn_item inp) (sn_execution inp) ?db = Inr c"
      using h(2) by (simp add: ExecutionSnapshot_def)
    from cur obtain w' where w': "getItem (sn_item inp) ?db = Inr w'"
      using runs_item_kept [OF ok1, of "sn_item inp" cur as] by (auto simp: getItem_Inr)
    then have id: "wi_id w' = sn_item inp" using item_at [of "wd_items ?db"] by (auto simp: getItem_Inr)
    from getExecution_later [OF ok1 e(1), of as] e(2) obtain e' where e': "getExecution (sn_item inp) (sn_execution inp) ?db = Inr e'"
        "same_run_row e e'" by metis
    have "xe_id e' = sn_execution inp" "xe_attempt e' = sn_sequence inp"
      using e'(2) e tselect_SomeD [OF e(1)] by (auto simp: same_run_row_def)
    then have "seal_body H now' inp' ?db = Inl SnapshotDivergence"
      using w' id e'(1) c' h assms(4-7) by (simp add: seal_body_def)
    then have "SealSnapshot H TxOk now' inp' ?db = (?db, Inl SnapshotDivergence)"
      using assms(3) by (simp add: SealSnapshot_def call_ok)
    with served h show ?thesis by (auto simp: scanSnapshot_def split: if_splits)
  qed
qed

definition demo_seal :: "hash \<Rightarrow> string \<Rightarrow> snapshot_input" where
  "demo_seal H text = demo_snapshot\<lparr>sn_canonical := text, sn_hash := HashCanonical H text\<rparr>"

lemma demo_seal_is [simp]:
  "sn_mutation (demo_seal H t) = demo_by ''ada'' ''''" "sn_item (demo_seal H t) = ''wi_1''"
  "sn_execution (demo_seal H t) = ''we_1''" "sn_sequence (demo_seal H t) = 1" "sn_canonical (demo_seal H t) = t"
  "sn_hash (demo_seal H t) = HashCanonical H t" "sn_prior_snapshot (demo_seal H t) = ''''" "sn_prior_execution (demo_seal H t) = ''''"
  "sn_strategy (demo_seal H t) = ''plain''" "sn_strategy_version (demo_seal H t) = ''1''" "sn_object (demo_seal H t)"
  by (simp_all add: demo_seal_def demo_snapshot_def)

lemma demo_seal_ok: "t \<noteq> '''' \<Longrightarrow> length t \<le> 8 \<Longrightarrow> snapshot_validate H (demo_seal H t) = None"
  by (simp add: snapshot_validate_def demo_valid_simps has_prefix_def ExecutionIDPrefix_def MaxSnapshotBytes_def)

definition plain_hash :: hash where "plain_hash s = s"

lemma demo_seal_run: "\<exists>db c. SealSnapshot plain_hash TxOk 2 (demo_seal plain_hash ''{}'') (demo_run plain_hash) = (db, Inr (c, True))"
proof -
  have e: "getExecution ''wi_1'' ''we_1'' (demo_run plain_hash) = Inr demo_exec"
    by (simp add: getExecution_def demo_run_is)
  have "checkPrior plain_hash ''wi_1'' demo_exec (demo_seal plain_hash ''{}'') (demo_run plain_hash) = Inr ''''"
    by (simp add: checkPrior_def prior_snapshot_execution_def)
  with e show ?thesis
    by (simp add: SealSnapshot_def demo_seal_ok call_ok seal_body_def getItem_def tselect_Cons demo_run_is Let_def)
qed

theorem a_sealed_snapshot_is_served_and_final_witness:
  "\<exists>db c. ExecutionSnapshot plain_hash ''wi_1'' ''we_1'' db = Inr c \<and>
     SealSnapshot plain_hash TxOk 3 (demo_seal plain_hash ''{ }'') db = (db, Inl SnapshotDivergence)"
proof -
  obtain db c where s: "SealSnapshot plain_hash TxOk 2 (demo_seal plain_hash ''{}'') (demo_run plain_hash) = (db, Inr (c, True))"
    using demo_seal_run by blast
  have "snapshot_validate plain_hash (demo_seal plain_hash ''{ }'') = None" by (rule demo_seal_ok) simp_all
  moreover have "sn_hash (demo_seal plain_hash ''{ }'') \<noteq> sn_hash (demo_seal plain_hash ''{}'')"
    by (simp add: HashCanonical_def plain_hash_def)
  ultimately show ?thesis
    using a_sealed_snapshot_is_served_and_final [OF demo_run_reach s, of "demo_seal plain_hash ''{ }''" "[]" 3] by auto
qed

text \<open>
  C31: A run token dies with its run.  From a reachable database in which an execution has ended,
  through any operations, no token ever resolves to that execution, and minting one for it is
  refused.
\<close>

theorem a_token_dies_with_its_run:
  assumes "work_reach H db" and "ExecutionByID x db = Inr e" and "IsTerminalPhase (xe_phase e)"
  shows "(\<forall>agent run. ResolveAgentRunToken H now secret (work_runs H as db) = Inr (agent, run) \<longrightarrow> ar_execution run \<noteq> x) \<and>
    (mi_execution inp = x \<and> \<not> mi_without_execution inp \<and> mi_grant inp = '''' \<and> mi_ttl inp \<le> MaxAgentRunTokenTTL \<longrightarrow>
      MintAgentRunToken H ok now uuid s inp (Some (work_runs H as db)) db' = (db', Inl ExecutionTerminal))"
proof -
  note k = reach_ok [OF assms(1)]
  let ?db = "work_runs H as db"
  have e: "tselect xe_id (wd_executions db) x = Some e" using assms(2) by (simp add: ExecutionByID_def split: option.splits)
  note e' = runs_finished [OF k e assms(3), of as]
  have "e \<in> set (wd_executions db)" "xe_id e = x" using tselect_SomeD [OF e] by simp_all
  with k have x: "x \<noteq> ''''" by (auto simp: work_ok_def execs_ok_def lineage_ok_def)
  have "ar_execution run \<noteq> x" if "ResolveAgentRunToken H now secret ?db = Inr (agent, run)" for agent run
    using that e' assms(3) x by (auto simp: ResolveAgentRunToken_def bound_run_open_def split: option.splits if_splits)
  moreover have "MintAgentRunToken H ok now uuid s inp (Some ?db) db' = (db', Inl ExecutionTerminal)"
    if "mi_execution inp = x" "\<not> mi_without_execution inp" "mi_grant inp = ''''" "mi_ttl inp \<le> MaxAgentRunTokenTTL"
    using that e' assms(3) by (simp add: MintAgentRunToken_def mint_item_def DefaultAgentRunTokenTTL_def MaxAgentRunTokenTTL_def)
  ultimately show ?thesis by blast
qed

theorem a_token_dies_with_its_run_witness:
  "MintAgentRunToken zero_hash True 4 ''1'' (Some ''s'') \<lparr>mi_agent = ''dev'', mi_agent_principal = '''', mi_execution = ''we_1'',
     mi_permissions = [], mi_scope = ''implement'', mi_ttl = hour, mi_issued_by = '''', mi_tenant = '''', mi_via_principal = '''',
     mi_without_execution = False, mi_grant = ''''\<rparr> (Some demo_wdb4) demo_wdb4 = (demo_wdb4, Inl ExecutionTerminal)"
proof -
  have "ExecutionByID ''we_1'' demo_wdb4 = Inr demo_ended" by (simp add: ExecutionByID_def demo_wdb4_is tselect_Cons)
  from a_token_dies_with_its_run [OF wdemo_reach(4) this, where as = "[]"] show ?thesis
    by (simp add: IsTerminalPhase_def MaxAgentRunTokenTTL_def)
qed

end
