(* ===== verification/Refresh_Store.thy ===== *)
theory Refresh_Store
  imports Pg_Table Go_Text
begin

text \<open>
  The refresh token store of the OAuth server, \<open>internal/auth/refreshstore\<close>: families of tokens that
  rotate, the grace window for a lost response, reuse detection, revocation.

  A transaction under REPEATABLE READ is one function of two tables: the snapshot \<open>dbr\<close> of its first
  statement and the table \<open>db\<close> it commits to, which other transactions may have changed in
  between.  It sees the rows of \<open>dbr\<close>; locking or updating a row that \<open>db\<close> no longer has as it was is
  the serialization failure PostgreSQL answers with.  A single statement under READ COMMITTED
  selects its rows in \<open>dbr\<close> and writes those of them that still match in \<open>db\<close>.
\<close>

section \<open>Rows\<close>

record session =
  se_login :: string
  se_principal :: string
  se_groups :: "string list"
  se_auth_method :: string
  se_resource :: string

text \<open>The groups are the list that their JSON array decodes to.\<close>

record refresh_row =
  rr_hash :: string
  rr_client :: string
  rr_session :: session
  rr_family :: string
  rr_parent :: "string option"
  rr_issued_at :: gotime
  rr_expires_at :: gotime
  rr_rotated_at :: "gotime option"
  rr_revoked_at :: "gotime option"
  rr_reason :: "string option"

type_synonym refresh_db = "refresh_row list"

abbreviation rr_live :: "refresh_row \<Rightarrow> bool" where
  "rr_live r \<equiv> rr_revoked_at r = None"

text \<open>\<open>RefreshFailed\<close> is any other error of the driver, \<open>RefreshSerialization\<close> the codes 40001 and 40P01.\<close>

datatype refresh_error =
    RefreshInvalid | RefreshClientMismatch | RefreshReuse | RefreshServer
  | RefreshRefused string | RefreshSerialization | RefreshFailed

definition rotationGraceWindow :: duration where "rotationGraceWindow = 2 * minute"

section \<open>Insert\<close>

text \<open>\<open>H\<close> is SHA-256; the family is the UUID drawn.\<close>

definition refresh_insert ::
  "hash \<Rightarrow> bool \<Rightarrow> gotime \<Rightarrow> string \<Rightarrow> string \<Rightarrow> string \<Rightarrow> session \<Rightarrow> gotime \<Rightarrow> refresh_db \<Rightarrow>
     refresh_db \<times> refresh_error option" where
  "refresh_insert H ok now family raw client sess expires db =
     (if \<not> ok \<or> tselect rr_hash db (H raw) \<noteq> None then (db, Some RefreshFailed)
      else (db @ [\<lparr>rr_hash = H raw, rr_client = client, rr_session = sess, rr_family = family, rr_parent = None,
                   rr_issued_at = now, rr_expires_at = expires, rr_rotated_at = None, rr_revoked_at = None,
                   rr_reason = None\<rparr>], None))"

section \<open>Rotation\<close>

text \<open>What the driver does to an attempt besides running it; an attempt that fails writes nothing.\<close>

datatype refresh_fault = RtOk | RtFails | RtSerialization

definition refresh_tx :: "refresh_fault \<Rightarrow> refresh_db \<Rightarrow> refresh_db \<times> (refresh_error + 'a) \<Rightarrow> refresh_db \<times> (refresh_error + 'a)" where
  "refresh_tx fault db r =
     (case fault of RtOk \<Rightarrow> r | RtFails \<Rightarrow> (db, Inl RefreshFailed) | RtSerialization \<Rightarrow> (db, Inl RefreshSerialization))"

text \<open>A row that is not in \<open>db\<close> as the snapshot has it.\<close>

definition row_moved :: "refresh_db \<Rightarrow> refresh_row \<Rightarrow> bool" where
  "row_moved db q \<longleftrightarrow> tselect rr_hash db (rr_hash q) \<noteq> Some q"

definition revoked :: "gotime \<Rightarrow> string \<Rightarrow> refresh_row \<Rightarrow> refresh_row" where
  "revoked now why r = r\<lparr>rr_revoked_at := Some now, rr_reason := Some why\<rparr>"

text \<open>\<open>UPDATE ... WHERE p\<close> in the snapshot; None when a row it selects has moved.\<close>

definition revoke_rows :: "gotime \<Rightarrow> string \<Rightarrow> (refresh_row \<Rightarrow> bool) \<Rightarrow> refresh_db \<Rightarrow> refresh_db \<Rightarrow> refresh_db option" where
  "revoke_rows now why p dbr db =
     (let sel = filter p dbr in
      if list_ex (row_moved db) sel then None
      else Some (map (\<lambda>r. if r \<in> set sel then revoked now why r else r) db))"

definition successor_row :: "gotime \<Rightarrow> string \<Rightarrow> gotime \<Rightarrow> refresh_row \<Rightarrow> refresh_row" where
  "successor_row now newh expires r =
     \<lparr>rr_hash = newh, rr_client = rr_client r, rr_session = rr_session r, rr_family = rr_family r,
      rr_parent = Some (rr_hash r), rr_issued_at = now, rr_expires_at = expires, rr_rotated_at = None,
      rr_revoked_at = None, rr_reason = None\<rparr>"

text \<open>The readings of the clock: at the expiry of the token, at the grace window, and the last one.\<close>

type_synonym refresh_clock = "gotime \<times> gotime \<times> gotime"

definition grace_replay ::
  "string \<Rightarrow> string \<Rightarrow> (session \<Rightarrow> string option) \<Rightarrow> gotime \<Rightarrow> refresh_row \<Rightarrow> refresh_db \<Rightarrow> refresh_db \<Rightarrow> refresh_error + session" where
  "grace_replay newh client accept now r dbr db =
     (case find (\<lambda>c. rr_hash c = newh \<and> rr_parent c = Some (rr_hash r) \<and> rr_family c = rr_family r \<and> rr_client c = client) dbr of
        None \<Rightarrow> Inl RefreshInvalid
      | Some c \<Rightarrow>
          if row_moved db c then Inl RefreshSerialization
          else if rr_live c \<and> rr_rotated_at c = None \<and> now < rr_expires_at c
          then (case accept (rr_session c) of Some e \<Rightarrow> Inl (RefreshRefused e) | None \<Rightarrow> Inr (rr_session c))
          else Inl RefreshInvalid)"

definition rotate_body ::
  "string \<Rightarrow> string \<Rightarrow> string \<Rightarrow> gotime \<Rightarrow> (session \<Rightarrow> string option) \<Rightarrow> refresh_clock \<Rightarrow> refresh_db \<Rightarrow> refresh_db \<Rightarrow>
     refresh_db \<times> (refresh_error + session)" where
  "rotate_body oldh newh client expires accept clock dbr db =
     (case clock of (t1, t2, t3) \<Rightarrow>
      case tselect rr_hash dbr oldh of
        None \<Rightarrow> (db, Inl RefreshInvalid)
      | Some r \<Rightarrow>
          if row_moved db r then (db, Inl RefreshSerialization)
          else if rr_expires_at r < t1 then (db, Inl RefreshInvalid)
          else case rr_rotated_at r of
            Some rot \<Rightarrow>
              if \<not> rr_live r then (db, Inl RefreshInvalid)
              else if time_sub t2 rot < rotationGraceWindow then (db, grace_replay newh client accept t3 r dbr db)
              else (case revoke_rows t3 ''reuse_detected'' (\<lambda>q. rr_family q = rr_family r \<and> rr_live q) dbr db of
                  None \<Rightarrow> (db, Inl RefreshSerialization)
                | Some db' \<Rightarrow> (db', Inl RefreshReuse))
          | None \<Rightarrow>
              if \<not> rr_live r then (db, Inl RefreshInvalid)
              else if rr_client r \<noteq> client then (db, Inl RefreshClientMismatch)
              else (case accept (rr_session r) of
                  Some e \<Rightarrow> (db, Inl (RefreshRefused e))
                | None \<Rightarrow>
                    if tselect rr_hash db newh \<noteq> None then (db, Inl RefreshFailed)
                    else (tput rr_hash db (r\<lparr>rr_rotated_at := Some t3\<rparr>) @ [successor_row t3 newh expires r],
                          Inr (rr_session r))))"

definition rotateTx ::
  "hash \<Rightarrow> refresh_fault \<Rightarrow> refresh_clock \<Rightarrow> string \<Rightarrow> string \<Rightarrow> string \<Rightarrow> gotime \<Rightarrow> (session \<Rightarrow> string option) \<Rightarrow>
     refresh_db \<Rightarrow> refresh_db \<Rightarrow> refresh_db \<times> (refresh_error + session)" where
  "rotateTx H fault clock old new client expires accept dbr db =
     refresh_tx fault db (rotate_body (H old) (H new) client expires accept clock dbr db)"

text \<open>
  The attempts of a call: what each meets is its fault, its clock, its snapshot, and what other
  transactions make of the table before it.
\<close>

type_synonym refresh_try = "refresh_fault \<times> refresh_clock \<times> refresh_db \<times> (refresh_db \<Rightarrow> refresh_db)"

fun retry_loop :: "(refresh_try \<Rightarrow> refresh_db \<Rightarrow> refresh_db \<times> (refresh_error + 'a)) \<Rightarrow> refresh_try list \<Rightarrow> refresh_db \<Rightarrow>
     refresh_db \<times> (refresh_error + 'a)" where
  "retry_loop attempt [] db = (db, Inl RefreshServer)"
| "retry_loop attempt (t # ts) db =
     (let db0 = snd (snd (snd t)) db in
      case attempt t db0 of
        (db', Inl RefreshSerialization) \<Rightarrow> retry_loop attempt ts db'
      | r \<Rightarrow> r)"

definition RotateIf ::
  "hash \<Rightarrow> refresh_try list \<Rightarrow> string \<Rightarrow> string \<Rightarrow> string \<Rightarrow> gotime \<Rightarrow> (session \<Rightarrow> string option) \<Rightarrow> refresh_db \<Rightarrow>
     refresh_db \<times> (refresh_error + session)" where
  "RotateIf H tries old new client expires accept db =
     retry_loop (\<lambda>(fault, clock, dbr, _). rotateTx H fault clock old new client expires accept dbr) (take 3 tries) db"

definition Rotate ::
  "hash \<Rightarrow> refresh_try list \<Rightarrow> string \<Rightarrow> string \<Rightarrow> string \<Rightarrow> gotime \<Rightarrow> refresh_db \<Rightarrow> refresh_db \<times> (refresh_error + session)" where
  "Rotate H tries old new client expires db = RotateIf H tries old new client expires (\<lambda>_. None) db"

section \<open>Revocation\<close>

text \<open>One statement under READ COMMITTED: a row of the snapshot is written when it still matches.\<close>

definition family_match :: "string \<Rightarrow> string \<Rightarrow> refresh_row \<Rightarrow> bool" where
  "family_match f client r \<longleftrightarrow> rr_family r = f \<and> (client \<noteq> '''' \<longrightarrow> rr_client r = client) \<and> rr_live r"

definition RevokeFamily ::
  "hash \<Rightarrow> bool \<Rightarrow> gotime \<Rightarrow> string \<Rightarrow> string \<Rightarrow> string \<Rightarrow> refresh_db \<Rightarrow> refresh_db \<Rightarrow> refresh_db \<times> refresh_error option" where
  "RevokeFamily H ok now raw client why dbr db =
     (if \<not> ok then (db, Some RefreshFailed)
      else case tselect rr_hash dbr (H raw) of
        None \<Rightarrow> (db, None)
      | Some t \<Rightarrow>
          (let seen = map rr_hash (filter (family_match (rr_family t) client) dbr) in
           (map (\<lambda>r. if rr_hash r \<in> set seen \<and> family_match (rr_family t) client r then revoked now why r else r) db, None)))"

definition principal_match :: "string \<Rightarrow> refresh_row \<Rightarrow> bool" where
  "principal_match p r \<longleftrightarrow> se_principal (rr_session r) = p \<and> rr_live r"

text \<open>The answer is the number of families touched.\<close>

definition revokePrincipalTx ::
  "refresh_fault \<Rightarrow> gotime \<Rightarrow> string \<Rightarrow> string \<Rightarrow> refresh_db \<Rightarrow> refresh_db \<Rightarrow> refresh_db \<times> (refresh_error + nat)" where
  "revokePrincipalTx fault now p why dbr db =
     refresh_tx fault db
       (case revoke_rows now why (principal_match p) dbr db of
          None \<Rightarrow> (db, Inl RefreshSerialization)
        | Some db' \<Rightarrow> (db', Inr (length (remdups (map rr_family (filter (principal_match p) dbr))))))"

definition RevokePrincipal ::
  "refresh_try list \<Rightarrow> string \<Rightarrow> string \<Rightarrow> refresh_db \<Rightarrow> refresh_db \<times> (refresh_error + nat)" where
  "RevokePrincipal tries p why db =
     (if p = '''' then (db, Inl RefreshFailed)
      else retry_loop (\<lambda>(fault, clock, dbr, _). revokePrincipalTx fault (fst clock) p why dbr) (take 3 tries) db)"

definition refresh_gc :: "bool \<Rightarrow> gotime \<Rightarrow> refresh_db \<Rightarrow> refresh_db \<times> refresh_error option" where
  "refresh_gc ok now db =
     (if \<not> ok then (db, Some RefreshFailed)
      else (filter (\<lambda>r. \<not> rr_expires_at r < now - 7 * 24 * hour) db, None))"

end
