(* ===== verification/Refresh_Step.thy ===== *)
theory Refresh_Step
  imports Refresh_Store
begin

text \<open>
  What a transaction of the refresh token store does to the table, its histories, and the two
  invariants: the tokens of a family are one chain with one tip, and what a snapshot can have missed.
\<close>

section \<open>Steps\<close>

definition fresh_row :: "refresh_row \<Rightarrow> bool" where
  "fresh_row r \<longleftrightarrow> rr_rotated_at r = None \<and> rr_live r"

text \<open>\<open>hist\<close> is what the table has been before: new hashes and families are in none of it.\<close>

inductive refresh_step :: "refresh_db list \<Rightarrow> refresh_db \<Rightarrow> refresh_db \<Rightarrow> bool" for hist where
  same: "refresh_step hist db db"
| inserted: "fresh_row r \<Longrightarrow> rr_parent r = None \<Longrightarrow> (\<forall>d \<in> set hist. rr_hash r \<notin> rr_hash ` set d) \<Longrightarrow>
    (\<forall>d \<in> set hist. rr_family r \<notin> rr_family ` set d) \<Longrightarrow> refresh_step hist db (db @ [r])"
| rotated: "tselect rr_hash db (rr_hash r) = Some r \<Longrightarrow> fresh_row r \<Longrightarrow> (\<forall>d \<in> set hist. h \<notin> rr_hash ` set d) \<Longrightarrow>
    refresh_step hist db (tput rr_hash db (r\<lparr>rr_rotated_at := Some now\<rparr>) @ [successor_row now h expires r])"
| revoke: "(\<And>r. p r \<Longrightarrow> rr_live r) \<Longrightarrow> refresh_step hist db (map (\<lambda>r. if p r then revoked now why r else r) db)"
| collected: "refresh_step hist db (filter p db)"

lemma revoke_rows_Some:
  assumes "revoke_rows now why p dbr db = Some db'"
  shows "db' = map (\<lambda>r. if r \<in> set dbr \<and> p r then revoked now why r else r) db"
    and "\<And>q. q \<in> set dbr \<Longrightarrow> p q \<Longrightarrow> tselect rr_hash db (rr_hash q) = Some q"
  using assms by (auto simp: revoke_rows_def Let_def list_ex_iff row_moved_def split: if_splits)

lemma revoke_rows_step:
  assumes "revoke_rows now why p dbr db = Some db'" and "\<And>r. p r \<Longrightarrow> rr_live r"
  shows "refresh_step hist db db'"
  unfolding revoke_rows_Some(1) [OF assms(1)] by (rule refresh_step.revoke) (use assms(2) in auto)

lemma rotateTx_step:
  assumes "H new \<in> rr_hash ` set db \<or> (\<forall>d \<in> set hist. H new \<notin> rr_hash ` set d)"
  shows "refresh_step hist db (fst (rotateTx H fault clock old new client expires accept dbr db))"
proof (cases fault)
  case RtOk
  obtain t1 t2 t3 where clock: "clock = (t1, t2, t3)" by (cases clock)
  show ?thesis
  proof (cases "tselect rr_hash dbr (H old)")
    case None
    then show ?thesis by (simp add: RtOk clock rotateTx_def refresh_tx_def rotate_body_def refresh_step.same)
  next
    case (Some r)
    show ?thesis
    proof (cases "rr_rotated_at r")
      case (Some rot)
      have "refresh_step hist db (fst (case revoke_rows t3 ''reuse_detected'' (\<lambda>q. rr_family q = rr_family r \<and> rr_live q) dbr db of
          None \<Rightarrow> (db, Inl RefreshSerialization) | Some db' \<Rightarrow> (db', Inl RefreshReuse :: refresh_error + session)))"
        by (auto split: option.splits simp: refresh_step.same elim!: revoke_rows_step)
      with Some \<open>tselect rr_hash dbr (H old) = Some r\<close> show ?thesis
        by (simp add: RtOk clock rotateTx_def refresh_tx_def rotate_body_def refresh_step.same)
    next
      case None
      have r: "tselect rr_hash db (rr_hash r) = Some r" if "\<not> row_moved db r" using that by (simp add: row_moved_def)
      have new: "\<forall>d \<in> set hist. H new \<notin> rr_hash ` set d" if "tselect rr_hash db (H new) = None"
        using assms that by (auto simp: tselect_None_iff)
      show ?thesis
        using None \<open>tselect rr_hash dbr (H old) = Some r\<close> refresh_step.rotated [OF r _ new, of t3 expires]
        by (auto simp: RtOk clock rotateTx_def refresh_tx_def rotate_body_def fresh_row_def intro: refresh_step.same split: option.splits)
    qed
  qed
qed (simp_all add: rotateTx_def refresh_tx_def refresh_step.same)

lemma refresh_insert_step:
  assumes "\<forall>d \<in> set hist. H raw \<notin> rr_hash ` set d \<and> family \<notin> rr_family ` set d"
  shows "refresh_step hist db (fst (refresh_insert H ok now family raw client sess expires db))"
proof (cases "\<not> ok \<or> tselect rr_hash db (H raw) \<noteq> None")
  case False
  have "refresh_step hist db (db @ [\<lparr>rr_hash = H raw, rr_client = client, rr_session = sess, rr_family = family, rr_parent = None,
                   rr_issued_at = now, rr_expires_at = expires, rr_rotated_at = None, rr_revoked_at = None, rr_reason = None\<rparr>])"
    by (rule refresh_step.inserted) (use False assms in \<open>simp_all add: fresh_row_def\<close>)
  with False show ?thesis by (simp add: refresh_insert_def)
qed (auto simp: refresh_insert_def refresh_step.same)

lemma revoke_family_step: "refresh_step hist db (fst (RevokeFamily H ok now raw client why dbr db))"
  unfolding RevokeFamily_def Let_def
  by (auto simp: refresh_step.same family_match_def split: option.splits intro!: refresh_step.revoke)

lemma revoke_principal_step: "refresh_step hist db (fst (revokePrincipalTx fault now p why dbr db))"
  by (cases fault) (auto simp: revokePrincipalTx_def refresh_tx_def refresh_step.same principal_match_def
      split: option.splits elim!: revoke_rows_step)

lemma gc_step: "refresh_step hist db (fst (refresh_gc ok now db))"
  by (simp add: refresh_gc_def refresh_step.same refresh_step.collected)

section \<open>Histories\<close>

text \<open>
  The operations, one transaction each.  A history is the list of the tables, the newest first; a
  snapshot is any of them.  A token hash and a family are new when no table of the history has had
  them, which is what random tokens and UUIDs are for; the successor of a token is derived from it,
  so it may also be the one there already.
\<close>

datatype refresh_op =
    RtInsert bool gotime string string string session gotime
  | RtRotate refresh_fault refresh_clock string string string gotime "session \<Rightarrow> string option" refresh_db
  | RtRevokeFamily bool gotime string string string refresh_db
  | RtRevokePrincipal refresh_fault gotime string string refresh_db
  | RtGC bool gotime

fun refresh_run :: "hash \<Rightarrow> refresh_op \<Rightarrow> refresh_db \<Rightarrow> refresh_db" where
  "refresh_run H (RtInsert ok now family raw client sess expires) db = fst (refresh_insert H ok now family raw client sess expires db)"
| "refresh_run H (RtRotate fault clock old new client expires accept dbr) db =
     fst (rotateTx H fault clock old new client expires accept dbr db)"
| "refresh_run H (RtRevokeFamily ok now raw client why dbr) db = fst (RevokeFamily H ok now raw client why dbr db)"
| "refresh_run H (RtRevokePrincipal fault now p why dbr) db = fst (revokePrincipalTx fault now p why dbr db)"
| "refresh_run H (RtGC ok now) db = fst (refresh_gc ok now db)"

fun op_ok :: "hash \<Rightarrow> refresh_db list \<Rightarrow> refresh_op \<Rightarrow> bool" where
  "op_ok H hist (RtInsert ok now family raw client sess expires) \<longleftrightarrow>
     list_all (\<lambda>db. H raw \<notin> rr_hash ` set db \<and> family \<notin> rr_family ` set db) hist"
| "op_ok H hist (RtRotate fault clock old new client expires accept dbr) \<longleftrightarrow>
     dbr \<in> set hist \<and> (H new \<in> rr_hash ` set (hd hist) \<or> list_all (\<lambda>db. H new \<notin> rr_hash ` set db) hist)"
| "op_ok H hist (RtRevokeFamily ok now raw client why dbr) \<longleftrightarrow> dbr \<in> set hist"
| "op_ok H hist (RtRevokePrincipal fault now p why dbr) \<longleftrightarrow> dbr \<in> set hist"
| "op_ok H hist (RtGC ok now) \<longleftrightarrow> True"

inductive refresh_reach :: "hash \<Rightarrow> refresh_db list \<Rightarrow> bool" for H where
  start: "refresh_reach H [[]]"
| call: "refresh_reach H hist \<Longrightarrow> op_ok H hist a \<Longrightarrow> refresh_reach H (refresh_run H a (hd hist) # hist)"

lemma reach_hd: "refresh_reach H hist \<Longrightarrow> hist \<noteq> [] \<and> hd hist \<in> set hist"
  by (induction rule: refresh_reach.induct) auto

lemma run_step:
  assumes "op_ok H hist a"
  shows "refresh_step hist (hd hist) (refresh_run H a (hd hist))"
proof (cases a)
  case (RtInsert ok now family raw client sess expires)
  with assms show ?thesis unfolding RtInsert refresh_run.simps
    by (intro refresh_insert_step) (simp add: list_all_iff)
next
  case (RtRotate fault clock old new client expires accept dbr)
  with assms show ?thesis unfolding RtRotate refresh_run.simps
    by (intro rotateTx_step) (simp add: list_all_iff)
qed (simp_all add: revoke_family_step revoke_principal_step gc_step)

section \<open>One chain per family\<close>

text \<open>
  Tokens have one hash each; those of a family have one client and one session, and at most one of them has
  not been rotated; a token whose predecessor is still there succeeds one that was rotated, in its family.
\<close>

definition link_ok :: "refresh_row \<Rightarrow> refresh_row \<Rightarrow> bool" where
  "link_ok r q \<longleftrightarrow>
     (rr_family r = rr_family q \<longrightarrow>
        rr_client r = rr_client q \<and> rr_session r = rr_session q \<and>
        (rr_rotated_at r = None \<and> rr_rotated_at q = None \<longrightarrow> r = q) \<and>
        (rr_parent r \<noteq> None \<and> rr_parent r = rr_parent q \<longrightarrow> r = q)) \<and>
     (rr_parent r = Some (rr_hash q) \<longrightarrow> rr_family r = rr_family q \<and> rr_rotated_at q \<noteq> None)"

definition chain_ok :: "refresh_db \<Rightarrow> bool" where
  "chain_ok db \<longleftrightarrow> unique_key rr_hash db \<and> (\<forall>r \<in> set db. \<forall>q \<in> set db. link_ok r q)"

end
