(* ===== verification/Refresh_Invariant.thy ===== *)
theory Refresh_Invariant
  imports Refresh_Step
begin

text \<open>
  Every step keeps the chains, and what it adds to a family a snapshot had shows in a row of that
  snapshot: the predecessor has been rotated.  So a transaction that finds all rows it saw as they were has
  missed none.  Then the histories of such transactions, with the facts about their later tables.
\<close>

section \<open>Chains\<close>

definition parents_known :: "refresh_db list \<Rightarrow> refresh_db \<Rightarrow> bool" where
  "parents_known hist db \<longleftrightarrow> (\<forall>r \<in> set db. \<forall>h. rr_parent r = Some h \<longrightarrow> (\<exists>d \<in> set hist. h \<in> rr_hash ` set d))"

lemma revoked_simps [simp]:
  "rr_hash (revoked t w r) = rr_hash r" "rr_client (revoked t w r) = rr_client r" "rr_session (revoked t w r) = rr_session r"
  "rr_family (revoked t w r) = rr_family r" "rr_parent (revoked t w r) = rr_parent r"
  "rr_rotated_at (revoked t w r) = rr_rotated_at r" "rr_expires_at (revoked t w r) = rr_expires_at r" "\<not> rr_live (revoked t w r)"
  by (simp_all add: revoked_def)

lemma successor_simps [simp]:
  "rr_hash (successor_row t h x r) = h" "rr_client (successor_row t h x r) = rr_client r"
  "rr_session (successor_row t h x r) = rr_session r" "rr_family (successor_row t h x r) = rr_family r"
  "rr_parent (successor_row t h x r) = Some (rr_hash r)" "rr_rotated_at (successor_row t h x r) = None"
  "rr_live (successor_row t h x r)" "rr_expires_at (successor_row t h x r) = x"
  by (simp_all add: successor_row_def)

lemma chainI:
  "unique_key rr_hash db \<Longrightarrow> (\<And>r q. r \<in> set db \<Longrightarrow> q \<in> set db \<Longrightarrow> link_ok r q) \<Longrightarrow> chain_ok db"
  by (simp add: chain_ok_def)

lemma chainD: "chain_ok db \<Longrightarrow> r \<in> set db \<Longrightarrow> q \<in> set db \<Longrightarrow> link_ok r q"
  by (simp add: chain_ok_def)

lemma chain_insert:
  assumes ok: "chain_ok db" and known: "parents_known hist db" and "db \<in> set hist" and "fresh_row r" "rr_parent r = None"
    and hash: "\<forall>d \<in> set hist. rr_hash r \<notin> rr_hash ` set d" and fam: "\<forall>d \<in> set hist. rr_family r \<notin> rr_family ` set d"
  shows "chain_ok (db @ [r])"
proof (rule chainI)
  show "unique_key rr_hash (db @ [r])"
    using ok hash assms(3) by (intro unique_new) (auto simp: chain_ok_def tselect_None_iff)
  have other: "rr_family q \<noteq> rr_family r" if "q \<in> set db" for q using fam assms(3) that by (metis imageI)
  have noparent: "rr_parent q \<noteq> Some (rr_hash r)" if "q \<in> set db" for q
    using known hash that unfolding parents_known_def by blast
  fix a b assume "a \<in> set (db @ [r])" "b \<in> set (db @ [r])"
  then consider "a \<in> set db" "b \<in> set db" | "a = r" "b = r" | "a = r" "b \<in> set db" | "a \<in> set db" "b = r" by auto
  then show "link_ok a b"
  proof cases
    case 1
    then show ?thesis by (rule chainD [OF ok])
  next
    case 3
    then show ?thesis using other [OF 3(2)] assms(5) by (auto simp: link_ok_def)
  next
    case 4
    then show ?thesis using other [OF 4(1)] noparent [OF 4(1)] by (simp add: link_ok_def)
  qed (simp add: link_ok_def assms(5))
qed

lemma put_row:
  assumes "tselect rr_hash db (rr_hash r) = Some r" and "q \<in> set (tput rr_hash db r')" and "rr_hash r' = rr_hash r"
  shows "q = r' \<or> q \<in> set db \<and> rr_hash q \<noteq> rr_hash r"
  using assms tselect_SomeD [OF assms(1)] by (auto simp: tput_def split: if_splits)

text \<open>What a rotation makes of the rows: the rotated one, the others as they were, and the successor.\<close>

lemma chain_rotate:
  assumes ok: "chain_ok db" and "db \<in> set hist" and known: "parents_known hist db"
    and r: "tselect rr_hash db (rr_hash r) = Some r" "fresh_row r"
    and new: "\<forall>d \<in> set hist. h \<notin> rr_hash ` set d"
  shows "chain_ok (tput rr_hash db (r\<lparr>rr_rotated_at := Some now\<rparr>) @ [successor_row now h expires r])"
proof (rule chainI)
  let ?r = "r\<lparr>rr_rotated_at := Some now\<rparr>" and ?n = "successor_row now h expires r"
  have rm: "r \<in> set db" and rr: "rr_rotated_at r = None" using tselect_SomeD [OF r(1)] r(2) by (simp_all add: fresh_row_def)
  have hn: "h \<notin> rr_hash ` set db" using new assms(2) by blast
  then have h: "h \<noteq> rr_hash r" using rm by blast
  show "unique_key rr_hash (tput rr_hash db ?r @ [?n])"
    by (rule unique_new [OF unique_tput]) (use ok hn h in \<open>simp_all add: chain_ok_def tselect_tput tselect_None_iff\<close>)
  have nochild: "rr_parent q \<noteq> Some (rr_hash r)" if "q \<in> set db" for q
    using chainD [OF ok that rm] rr by (auto simp: link_ok_def)
  have noparent: "rr_parent q \<noteq> Some h" if "q \<in> set db" for q
    using known new that unfolding parents_known_def by blast
  fix a b assume "a \<in> set (tput rr_hash db ?r @ [?n])" "b \<in> set (tput rr_hash db ?r @ [?n])"
  then have ab: "a = ?n \<or> a = ?r \<or> a \<in> set db \<and> rr_hash a \<noteq> rr_hash r" "b = ?n \<or> b = ?r \<or> b \<in> set db \<and> rr_hash b \<noteq> rr_hash r"
    using put_row [OF r(1), of _ ?r] by auto
  have old: "link_ok q q'" if "q \<in> set db" "q' \<in> set db" for q q' by (rule chainD [OF ok that])
  consider "a \<in> set db" "b \<in> set db" "rr_hash a \<noteq> rr_hash r" "rr_hash b \<noteq> rr_hash r"
    | "a \<in> {?n, ?r}" "b \<in> {?n, ?r}" | "a \<in> {?n, ?r}" "b \<in> set db" "rr_hash b \<noteq> rr_hash r"
    | "a \<in> set db" "b \<in> {?n, ?r}" "rr_hash a \<noteq> rr_hash r"
    using ab by blast
  then show "link_ok a b"
  proof cases
    case 1
    then show ?thesis by (intro old)
  next
    case 2
    then show ?thesis using h rr nochild [OF rm] noparent [OF rm] by (auto simp: link_ok_def)
  next
    case 3
    have "rr_hash b \<noteq> h" "b \<noteq> r" using 3 hn by auto
    then show ?thesis
      using 3 old [OF rm 3(2)] rr nochild [OF 3(2)] by (auto simp: link_ok_def)
  next
    case 4
    have "rr_hash a \<noteq> h" "a \<noteq> r" using 4 hn by auto
    then show ?thesis
      using 4 old [OF 4(1) rm] rr nochild [OF 4(1)] noparent [OF 4(1)] by (auto simp: link_ok_def)
  qed
qed

lemma chain_image:
  assumes ok: "chain_ok db" and f: "\<And>r. rr_hash (f r) = rr_hash r \<and> rr_client (f r) = rr_client r \<and> rr_session (f r) = rr_session r \<and>
      rr_family (f r) = rr_family r \<and> rr_parent (f r) = rr_parent r \<and> rr_rotated_at (f r) = rr_rotated_at r"
  shows "chain_ok (map f db)"
proof (rule chainI)
  have "map rr_hash (map f db) = map rr_hash db" using f by simp
  then show "unique_key rr_hash (map f db)" using ok by (simp add: chain_ok_def unique_key_def del: map_map)
  fix a b assume "a \<in> set (map f db)" "b \<in> set (map f db)"
  then obtain x y where "x \<in> set db" "y \<in> set db" "a = f x" "b = f y" by auto
  with chainD [OF ok, of x y] show "link_ok a b" by (auto simp: link_ok_def f)
qed

lemma chain_filter: "chain_ok db \<Longrightarrow> chain_ok (filter p db)"
  unfolding chain_ok_def unique_key_def by (auto simp: distinct_map_filter)

lemma step_chain:
  assumes "refresh_step hist db db'" and "chain_ok db" and "parents_known hist db" and "db \<in> set hist"
  shows "chain_ok db'"
  using assms
proof (induction rule: refresh_step.induct)
  case (inserted r db)
  then show ?case by (intro chain_insert)
next
  case (rotated db r h now expires)
  then show ?case by (intro chain_rotate)
next
  case (revoke p db now why)
  then show ?case by (intro chain_image) simp_all
qed (simp_all add: chain_filter)

lemma step_parents:
  assumes "refresh_step hist db db'" and "parents_known hist db" and "db \<in> set hist"
  shows "parents_known (db' # hist) db'"
  using assms
proof (induction rule: refresh_step.induct)
  case (rotated db r h now expires)
  have "r \<in> set db" using tselect_SomeD [OF rotated(1)] by simp
  moreover have "rr_parent q = rr_parent r \<or> q \<in> set db" if "q \<in> set (tput rr_hash db (r\<lparr>rr_rotated_at := Some now\<rparr>))" for q
    using put_row [OF rotated(1) that] by auto
  moreover have "r \<in> set db" by fact
  ultimately have old: "\<exists>q' \<in> set db. rr_parent q = rr_parent q'"
    if "q \<in> set (tput rr_hash db (r\<lparr>rr_rotated_at := Some now\<rparr>))" for q using that by blast
  show ?case unfolding parents_known_def
  proof (intro ballI allI impI)
    fix q k assume "q \<in> set (tput rr_hash db (r\<lparr>rr_rotated_at := Some now\<rparr>) @ [successor_row now h expires r])" and k: "rr_parent q = Some k"
    then consider "q \<in> set (tput rr_hash db (r\<lparr>rr_rotated_at := Some now\<rparr>))" | "q = successor_row now h expires r" by auto
    then show "\<exists>d \<in> set ((tput rr_hash db (r\<lparr>rr_rotated_at := Some now\<rparr>) @ [successor_row now h expires r]) # hist). k \<in> rr_hash ` set d"
    proof cases
      case 1
      with old k rotated(4) show ?thesis unfolding parents_known_def by fastforce
    next
      case 2
      with k have "k = rr_hash r" by simp
      with \<open>r \<in> set db\<close> rotated(5) show ?thesis by auto
    qed
  qed
qed (auto simp: parents_known_def)

text \<open>
  What a later table can differ in from a snapshot, the invariant of histories, and how revocation
  reaches every token of a family.
\<close>

section \<open>Later tables\<close>

definition grows :: "refresh_row \<Rightarrow> refresh_row \<Rightarrow> bool" where
  "grows q r \<longleftrightarrow>
     rr_client r = rr_client q \<and> rr_session r = rr_session q \<and> rr_family r = rr_family q \<and>
     rr_parent r = rr_parent q \<and> rr_expires_at r = rr_expires_at q \<and>
     (rr_rotated_at q \<noteq> None \<longrightarrow> rr_rotated_at r = rr_rotated_at q) \<and>
     (\<not> rr_live q \<longrightarrow> \<not> rr_live r)"

text \<open>A live token of a family the snapshot had, that the snapshot did not have itself, betrays itself by a rotated one.\<close>

definition betrays :: "refresh_db \<Rightarrow> refresh_db \<Rightarrow> string \<Rightarrow> bool" where
  "betrays dbr db f \<longleftrightarrow>
     (\<exists>q \<in> set dbr. rr_family q = f \<and> fresh_row q \<and> (\<forall>r \<in> set db. rr_hash r = rr_hash q \<longrightarrow> rr_rotated_at r \<noteq> None))"

definition later :: "refresh_db \<Rightarrow> refresh_db \<Rightarrow> bool" where
  "later dbr db \<longleftrightarrow>
     (\<forall>q \<in> set dbr. \<forall>r \<in> set db. rr_hash q = rr_hash r \<longrightarrow> grows q r) \<and>
     (\<forall>r \<in> set db. rr_live r \<and> rr_hash r \<notin> rr_hash ` set dbr \<and> rr_family r \<in> rr_family ` set dbr \<longrightarrow>
        betrays dbr db (rr_family r)) \<and>
     (\<forall>q \<in> set dbr. \<forall>r \<in> set db. rr_family q = rr_family r \<longrightarrow> rr_session q = rr_session r)"

lemma grows_refl: "grows r r" by (simp add: grows_def)

lemma later_refl: "chain_ok db \<Longrightarrow> later db db"
  unfolding later_def
proof (intro conjI ballI impI)
  fix q r assume "chain_ok db" "q \<in> set db" "r \<in> set db" "rr_hash q = rr_hash r"
  then have "q = r" using tsel_same [of rr_hash db q r] by (simp add: chain_ok_def)
  then show "grows q r" by (simp add: grows_refl)
next
  fix q r assume "chain_ok db" "q \<in> set db" "r \<in> set db" "rr_family q = rr_family r"
  with chainD [of db q r] show "rr_session q = rr_session r" unfolding link_ok_def by blast
qed auto

lemma betrays_map:
  assumes "betrays dbr db f" and "\<And>r. rr_hash (g r) = rr_hash r \<and> rr_rotated_at (g r) = rr_rotated_at r"
  shows "betrays dbr (map g db) f"
  using assms by (fastforce simp: betrays_def)

lemma step_later:
  assumes "refresh_step hist db db'" and "later dbr db" and "dbr \<in> set hist" and "db \<in> set hist"
  shows "later dbr db'"
  using assms
proof (induction rule: refresh_step.induct)
  case (inserted r db)
  have new: "rr_hash r \<notin> rr_hash ` set dbr" "rr_family r \<notin> rr_family ` set dbr" using inserted by blast+
  then have none: "rr_hash q \<noteq> rr_hash r" if "q \<in> set dbr" for q using that by (metis imageI)
  have keep: "betrays dbr (db @ [r]) f" if "betrays dbr db f" for f
    using that new(1) by (fastforce simp: betrays_def)
  have nofam: "rr_family q \<noteq> rr_family r" if "q \<in> set dbr" for q using new(2) that by (metis imageI)
  show ?case using inserted(5) new none nofam keep unfolding later_def by (auto simp: ball_Un)
next
  case (rotated db r h now expires)
  let ?r = "r\<lparr>rr_rotated_at := Some now\<rparr>" and ?n = "successor_row now h expires r"
  have rm: "r \<in> set db" using tselect_SomeD [OF rotated(1)] by simp
  have hn: "h \<notin> rr_hash ` set dbr" "h \<notin> rr_hash ` set db" using rotated by blast+
  have hq: "rr_hash q \<noteq> h" if "q \<in> set dbr" for q using that hn(1) by (metis imageI)
  have row: "x = ?n \<or> x = ?r \<or> x \<in> set db \<and> rr_hash x \<noteq> rr_hash r" if "x \<in> set (tput rr_hash db ?r @ [?n])" for x
    using put_row [OF rotated(1), of x ?r] that by auto
  have keep: "betrays dbr (tput rr_hash db ?r @ [?n]) f" if "betrays dbr db f" for f
  proof -
    from that obtain q where q: "q \<in> set dbr" "rr_family q = f" "fresh_row q"
        "\<forall>x \<in> set db. rr_hash x = rr_hash q \<longrightarrow> rr_rotated_at x \<noteq> None" by (auto simp: betrays_def)
    then have "rr_rotated_at x \<noteq> None" if "x \<in> set (tput rr_hash db ?r @ [?n])" "rr_hash x = rr_hash q" for x
      using row [OF that(1)] that(2) hq [OF q(1)] by auto
    with q show ?thesis unfolding betrays_def by blast
  qed
  have old: "grows q r" if "q \<in> set dbr" "rr_hash q = rr_hash r" for q using rotated(4) rm that by (auto simp: later_def)
  have showr: "betrays dbr (tput rr_hash db ?r @ [?n]) (rr_family r)" if f: "rr_family r \<in> rr_family ` set dbr"
  proof (cases "rr_hash r \<in> rr_hash ` set dbr")
    case True
    then obtain q where q: "q \<in> set dbr" "rr_hash q = rr_hash r" by auto
    with old [OF q] rotated(2) have "fresh_row q" "rr_family q = rr_family r" by (auto simp: grows_def fresh_row_def)
    moreover have "rr_rotated_at x \<noteq> None" if "x \<in> set (tput rr_hash db ?r @ [?n])" "rr_hash x = rr_hash q" for x
      using row [OF that(1)] that(2) q hq [OF q(1)] by auto
    ultimately show ?thesis using q(1) unfolding betrays_def by blast
  next
    case False
    with rotated(2,4) rm f have "betrays dbr db (rr_family r)" by (auto simp: later_def fresh_row_def)
    then show ?thesis by (rule keep)
  qed
  show ?case unfolding later_def
  proof (intro conjI ballI impI)
    fix q x assume q: "q \<in> set dbr" and x: "x \<in> set (tput rr_hash db ?r @ [?n])" and eq: "rr_hash q = rr_hash x"
    from row [OF x] show "grows q x"
    proof (elim disjE conjE)
      assume "x = ?r"
      with old [OF q] eq rotated(2) show ?thesis by (auto simp: grows_def fresh_row_def)
    qed (use q eq hn rotated(4) in \<open>auto simp: later_def\<close>)
  next
    fix x assume x: "x \<in> set (tput rr_hash db ?r @ [?n])"
      and l: "rr_live x \<and> rr_hash x \<notin> rr_hash ` set dbr \<and> rr_family x \<in> rr_family ` set dbr"
    from row [OF x] show "betrays dbr (tput rr_hash db ?r @ [?n]) (rr_family x)"
    proof (elim disjE conjE)
      assume "x \<in> set db"
      with l rotated(4) show ?thesis by (intro keep) (auto simp: later_def)
    qed (use l showr in auto)
  next
    fix q x assume q: "q \<in> set dbr" and x: "x \<in> set (tput rr_hash db ?r @ [?n])" and f: "rr_family q = rr_family x"
    have "rr_session q = rr_session y" if "y \<in> set db" "rr_family q = rr_family y" for y using rotated(4) q that by (auto simp: later_def)
    with row [OF x] f rm show "rr_session q = rr_session x" by auto
  qed
next
  case (revoke p db now why)
  let ?g = "\<lambda>r. if p r then revoked now why r else r"
  have "betrays dbr (map ?g db) f" if "betrays dbr db f" for f by (rule betrays_map [OF that]) simp
  moreover have "grows q (revoked now why r)" if "grows q r" for q r using that by (auto simp: grows_def revoked_def)
  ultimately show ?case using revoke(2) unfolding later_def by (auto split: if_splits)
next
  case (collected db p)
  have "betrays dbr (filter p db) f" if "betrays dbr db f" for f using that by (auto simp: betrays_def)
  then show ?case using collected unfolding later_def by auto
qed simp

section \<open>Histories\<close>

definition history_ok :: "refresh_db list \<Rightarrow> bool" where
  "history_ok hist \<longleftrightarrow>
     hist \<noteq> [] \<and> (\<forall>d \<in> set hist. chain_ok d \<and> later d (hd hist)) \<and> parents_known hist (hd hist)"

lemma refresh_history:
  assumes "refresh_reach H hist"
  shows "history_ok hist"
  using assms
proof (induction rule: refresh_reach.induct)
  case start
  then show ?case by (simp add: history_ok_def chain_ok_def later_def parents_known_def unique_key_def)
next
  case (call hist a)
  then have hd: "hd hist \<in> set hist" "hist \<noteq> []" using reach_hd by auto
  note st = run_step [OF call(2)]
  have c: "chain_ok (refresh_run H a (hd hist))"
    by (rule step_chain [OF st]) (use call(3) hd in \<open>auto simp: history_ok_def\<close>)
  moreover have "later d (refresh_run H a (hd hist))" if "d \<in> set hist" for d
    by (rule step_later [OF st _ that hd(1)]) (use call(3) that in \<open>simp add: history_ok_def\<close>)
  moreover have "parents_known (refresh_run H a (hd hist) # hist) (refresh_run H a (hd hist))"
    by (rule step_parents [OF st _ hd(1)]) (use call(3) in \<open>simp add: history_ok_def\<close>)
  ultimately show ?case using call(3) hd later_refl [OF c] by (simp add: history_ok_def)
qed

text \<open>A transaction that finds every live row of a family as its snapshot has it has seen all of them.\<close>

lemma nothing_missed:
  assumes "later dbr db" and "chain_ok db" and "rr_family r \<in> rr_family ` set dbr" and "r \<in> set db" "rr_live r"
    and "\<And>q. q \<in> set dbr \<Longrightarrow> rr_family q = rr_family r \<Longrightarrow> rr_live q \<Longrightarrow> tselect rr_hash db (rr_hash q) = Some q"
  shows "r \<in> set dbr"
proof (cases "rr_hash r \<in> rr_hash ` set dbr")
  case True
  then obtain q where q: "q \<in> set dbr" "rr_hash q = rr_hash r" by auto
  from assms(1) q assms(4) have "grows q r" unfolding later_def by blast
  with assms(5) have "rr_family q = rr_family r" "rr_live q" by (auto simp: grows_def)
  with assms(6) [OF q(1)] have "q \<in> set db" by (auto dest: tselect_SomeD)
  with assms(2,4) q(2) have "q = r" using tsel_same [of rr_hash db q r] by (simp add: chain_ok_def)
  with q(1) show ?thesis by simp
next
  case False
  with assms have "betrays dbr db (rr_family r)" by (auto simp: later_def)
  then obtain q where q: "q \<in> set dbr" "rr_family q = rr_family r" "fresh_row q"
      "\<forall>x \<in> set db. rr_hash x = rr_hash q \<longrightarrow> rr_rotated_at x \<noteq> None" by (auto simp: betrays_def)
  with assms(6) [OF q(1,2)] have "tselect rr_hash db (rr_hash q) = Some q" by (simp add: fresh_row_def)
  with q(3,4) show ?thesis by (auto simp: fresh_row_def dest: tselect_SomeD)
qed

end
