(* ===== verification/Refresh_Props.thy ===== *)
theory Refresh_Props
  imports Refresh_Invariant
begin

text \<open>
  What the refresh token store promises: one chain per session, a revocation on reuse that
  no later call undoes, the rotation and the replay inside the grace window, and the revocation of a
  principal with rotations running.
\<close>

section \<open>Reachable histories\<close>

lemma reach_tail: "refresh_reach H (d # hist) \<Longrightarrow> hist \<noteq> [] \<Longrightarrow> refresh_reach H hist \<and> refresh_step hist (hd hist) d"
  by (erule refresh_reach.cases) (use run_step in auto)

lemma reach_suffix: "refresh_reach H (later_dbs @ hist) \<Longrightarrow> hist \<noteq> [] \<Longrightarrow> refresh_reach H hist"
  by (induction later_dbs) (auto dest: reach_tail)

lemma reach_chain: "refresh_reach H hist \<Longrightarrow> d \<in> set hist \<Longrightarrow> chain_ok d"
  by (drule refresh_history) (simp add: history_ok_def)

lemma reach_later: "refresh_reach H hist \<Longrightarrow> d \<in> set hist \<Longrightarrow> later d (hd hist)"
  by (drule refresh_history) (simp add: history_ok_def)

section \<open>Dead families\<close>

definition dead :: "string \<Rightarrow> refresh_db \<Rightarrow> bool" where
  "dead f db \<longleftrightarrow> (\<forall>r \<in> set db. rr_family r = f \<longrightarrow> \<not> rr_live r)"

lemma step_dead:
  assumes "refresh_step hist db db'" and "dead f db" and "d \<in> set hist" "f \<in> rr_family ` set d"
  shows "dead f db'"
  using assms
proof (induction rule: refresh_step.induct)
  case (inserted r db)
  then have "rr_family r \<noteq> f" by blast
  with inserted show ?case by (auto simp: dead_def)
next
  case (rotated db r h now expires)
  have "rr_family r \<noteq> f" using rotated(2,4) tselect_SomeD [OF rotated(1)] by (auto simp: dead_def fresh_row_def)
  with rotated(4) put_row [OF rotated(1), of _ "r\<lparr>rr_rotated_at := Some now\<rparr>"] show ?case
    by (fastforce simp: dead_def)
qed (auto simp: dead_def revoked_def)

lemma dead_for_good:
  assumes "refresh_reach H (later_dbs @ db # hist)" and "hist \<noteq> []" and "dead f db" and "d \<in> set hist" "f \<in> rr_family ` set d"
  shows "dead f (hd (later_dbs @ db # hist))"
  using assms
proof (induction later_dbs)
  case (Cons x later_dbs)
  then have "refresh_step (later_dbs @ db # hist) (hd (later_dbs @ db # hist)) x" and "dead f (hd (later_dbs @ db # hist))"
    using reach_tail [of H x "later_dbs @ db # hist"] by auto
  with Cons.prems(4,5) show ?case by (auto intro: step_dead)
qed simp

lemma dead_not_exchanged:
  assumes "refresh_reach H hist" and "d \<in> set hist" and "dead f (hd hist)" and "tselect rr_hash d (H old) = Some r" "rr_family r = f"
  shows "snd (rotateTx H fault clock old new client expires accept d (hd hist)) \<noteq> Inr s"
proof (cases fault)
  case RtOk
  obtain t1 t2 t3 where clock: "clock = (t1, t2, t3)" by (cases clock)
  have "row_moved (hd hist) r \<or> \<not> rr_live r"
    using assms(3,5) by (auto simp: row_moved_def dead_def dest: tselect_SomeD)
  then show ?thesis
    using assms(4) by (auto simp: RtOk clock rotateTx_def refresh_tx_def rotate_body_def split: option.splits)
qed (simp_all add: rotateTx_def refresh_tx_def)

text \<open>A revocation that finds no row moved leaves no live row of a family it selects whole.\<close>

lemma revoke_rows_dead:
  assumes reach: "refresh_reach H hist" and d: "dbr \<in> set hist" and rev: "revoke_rows now why p dbr (hd hist) = Some db'"
    and p: "\<And>q. q \<in> set dbr \<Longrightarrow> rr_family q = f \<Longrightarrow> rr_live q \<Longrightarrow> p q" and f: "f \<in> rr_family ` set dbr"
  shows "dead f db'"
  unfolding dead_def
proof (intro ballI impI)
  fix x assume x: "x \<in> set db'" "rr_family x = f"
  then obtain r where r: "r \<in> set (hd hist)" "x = (if r \<in> set dbr \<and> p r then revoked now why r else r)"
    using revoke_rows_Some(1) [OF rev] by auto
  show "\<not> rr_live x"
  proof (cases "rr_live r")
    case True
    have fr: "rr_family r = f" using r(2) x(2) by (auto split: if_splits)
    have "r \<in> set dbr"
    proof (rule nothing_missed [OF reach_later [OF reach d] _ _ r(1) True])
      show "chain_ok (hd hist)" using reach reach_hd [OF reach] by (intro reach_chain) auto
      show "rr_family r \<in> rr_family ` set dbr" using f fr by simp
      show "tselect rr_hash (hd hist) (rr_hash q) = Some q" if "q \<in> set dbr" "rr_family q = rr_family r" "rr_live q" for q
        using revoke_rows_Some(2) [OF rev that(1)] p that fr by simp
    qed
    with p fr True r(2) show ?thesis by simp
  qed (use r(2) in \<open>auto simp: revoked_def\<close>)
qed

lemma reuse_outcome:
  assumes "rotateTx H fault clock old new client expires accept dbr db = (db', Inl RefreshReuse)"
  obtains r t where "tselect rr_hash dbr (H old) = Some r"
    "revoke_rows t ''reuse_detected'' (\<lambda>q. rr_family q = rr_family r \<and> rr_live q) dbr db = Some db'"
proof (cases fault)
  case RtOk
  obtain t1 t2 t3 where clock: "clock = (t1, t2, t3)" by (cases clock)
  show ?thesis
    using assms that by (auto simp: RtOk clock rotateTx_def refresh_tx_def rotate_body_def grace_replay_def split: option.splits if_splits)
qed (use assms in \<open>simp_all add: rotateTx_def refresh_tx_def\<close>)

section \<open>Sessions and their chains\<close>

text \<open>
  C32: In every table the store can reach, with any interleaving of its transactions and any snapshots, the
  tokens of a family belong to one client and one session, at most one of them has not been
  exchanged yet, no token has two successors, and a token whose predecessor is still stored succeeds one that was
  exchanged: the refresh tokens of a session never branch.
\<close>

theorem a_session_never_branches:
  assumes "refresh_reach H hist" and "r \<in> set (hd hist)" and "q \<in> set (hd hist)"
  shows "(rr_hash r = rr_hash q \<longrightarrow> r = q) \<and>
    (rr_family r = rr_family q \<longrightarrow>
       rr_client r = rr_client q \<and> rr_session r = rr_session q \<and>
       (rr_rotated_at r = None \<and> rr_rotated_at q = None \<longrightarrow> r = q) \<and>
       (rr_parent r \<noteq> None \<and> rr_parent r = rr_parent q \<longrightarrow> r = q)) \<and>
    (rr_parent r = Some (rr_hash q) \<longrightarrow> rr_family r = rr_family q \<and> rr_rotated_at q \<noteq> None)"
proof -
  have "chain_ok (hd hist)" using assms(1) reach_hd by (blast intro: reach_chain)
  then have "link_ok r q" and "rr_hash r = rr_hash q \<longrightarrow> r = q"
    using assms(2,3) tsel_same [of rr_hash "hd hist" r q] by (auto simp: chain_ok_def)
  then show ?thesis unfolding link_ok_def by blast
qed

text \<open>
  C11: A call that answers that a token was reused has revoked every token of its session, the ones
  minted meanwhile by other calls included, and no later call undoes it: in every table after it no token of
  that family is live, and an exchange of any of its tokens, whatever snapshot it works on, fails.
\<close>

theorem a_reused_session_is_dead_for_good:
  assumes "refresh_reach H (later_dbs @ db' # hist)" and "dbr \<in> set hist"
    and "rotateTx H fault clock old new client expires accept dbr (hd hist) = (db', Inl RefreshReuse)"
  shows "\<exists>r. tselect rr_hash dbr (H old) = Some r \<and>
    (\<forall>q \<in> set (hd (later_dbs @ db' # hist)). rr_family q = rr_family r \<longrightarrow> rr_revoked_at q \<noteq> None) \<and>
    (\<forall>d \<in> set (later_dbs @ db' # hist). \<forall>old' q. tselect rr_hash d (H old') = Some q \<and> rr_family q = rr_family r \<longrightarrow>
       (\<forall>fault' clock' new' client' expires' accept' s.
          snd (rotateTx H fault' clock' old' new' client' expires' accept' d (hd (later_dbs @ db' # hist))) \<noteq> Inr s))"
proof -
  have ne: "hist \<noteq> []" using assms(2) by auto
  then have reach: "refresh_reach H hist" using reach_suffix [of H "later_dbs @ [db']" hist] assms(1) by simp
  from assms(3) obtain r t where r: "tselect rr_hash dbr (H old) = Some r"
    and rev: "revoke_rows t ''reuse_detected'' (\<lambda>q. rr_family q = rr_family r \<and> rr_live q) dbr (hd hist) = Some db'"
    by (rule reuse_outcome)
  have f: "rr_family r \<in> rr_family ` set dbr" using tselect_SomeD [OF r] by simp
  have "dead (rr_family r) db'" by (rule revoke_rows_dead [OF reach assms(2) rev _ f]) simp
  then have "dead (rr_family r) (hd (later_dbs @ db' # hist))"
    by (rule dead_for_good [OF assms(1) ne _ assms(2) f])
  with r dead_not_exchanged [OF assms(1), where f = "rr_family r"] show ?thesis unfolding dead_def by blast
qed

section \<open>One exchange\<close>

lemma grace_outcome:
  assumes "grace_replay newh client accept now r dbr db = Inr s"
  obtains c where "c \<in> set db" "rr_hash c = newh" "rr_parent c = Some (rr_hash r)" "rr_family c = rr_family r" "rr_client c = client"
    "rr_live c" "rr_rotated_at c = None" "rr_session c = s" "accept s = None"
  using assms by (auto simp: grace_replay_def row_moved_def find_Some_iff split: option.splits if_splits dest!: tselect_SomeD)

lemma exchange_outcome:
  assumes "rotateTx H fault clock old new client expires accept dbr db = (db', Inr s)"
  obtains (replay) t r where "db' = db" "tselect rr_hash db (H old) = Some r" "rr_rotated_at r \<noteq> None" "rr_live r"
      "grace_replay (H new) client accept t r dbr db = Inr s"
  | (exchange) t r where "tselect rr_hash db (H old) = Some r" "fresh_row r" "rr_client r = client" "accept s = None" "rr_session r = s"
      "H new \<notin> rr_hash ` set db" "db' = tput rr_hash db (r\<lparr>rr_rotated_at := Some t\<rparr>) @ [successor_row t (H new) expires r]"
proof (cases fault)
  case RtOk
  obtain t1 t2 t3 where clock: "clock = (t1, t2, t3)" by (cases clock)
  from assms obtain r where sel: "tselect rr_hash dbr (H old) = Some r"
    by (auto simp: RtOk clock rotateTx_def refresh_tx_def rotate_body_def split: option.splits)
  then have old: "rr_hash r = H old" by (auto dest: tselect_SomeD)
  show ?thesis
  proof (cases "rr_rotated_at r")
    case None
    with assms sel old show ?thesis
      by (intro exchange [of r t3]) (auto simp: RtOk clock rotateTx_def refresh_tx_def rotate_body_def fresh_row_def row_moved_def
        tselect_None_iff split: option.splits if_splits)
  next
    case (Some rot)
    with assms sel old show ?thesis
      by (intro replay [of r t3]) (auto simp: RtOk clock rotateTx_def refresh_tx_def rotate_body_def row_moved_def
        split: option.splits if_splits)
  qed
qed (use assms in \<open>simp_all add: rotateTx_def refresh_tx_def\<close>)

lemma failed_exchange: "rotateTx H fault clock old new client expires accept dbr db = (db', Inl e) \<Longrightarrow> e \<noteq> RefreshReuse \<Longrightarrow> db' = db"
  by (cases fault) (auto simp: rotateTx_def refresh_tx_def rotate_body_def split: prod.splits option.splits if_splits)

text \<open>
  An exchange that succeeds, the replay inside the grace window included, returns the session of the token
  presented, which the caller's check accepted; afterwards that token is marked exchanged and is of the caller's client,
  and the new token is stored as its live, unexchanged successor with the same client and session.
  With any error but the one of a reused token the table is as it was.
\<close>

theorem an_exchange_passes_the_session_on:
  assumes "refresh_reach H hist" and "rotateTx H fault clock old new client expires accept dbr (hd hist) = (db', out)"
  shows "case out of
      Inl e \<Rightarrow> e = RefreshReuse \<or> db' = hd hist
    | Inr s \<Rightarrow> \<exists>r \<in> set db'. \<exists>tip \<in> set db'.
        rr_hash r = H old \<and> rr_session r = s \<and> rr_client r = client \<and> rr_revoked_at r = None \<and> rr_rotated_at r \<noteq> None \<and>
        accept s = None \<and>
        rr_hash tip = H new \<and> rr_parent tip = Some (H old) \<and> rr_family tip = rr_family r \<and>
        rr_session tip = s \<and> rr_client tip = client \<and> rr_revoked_at tip = None \<and> rr_rotated_at tip = None"
proof (cases out)
  case (Inl e)
  then show ?thesis using assms(2) failed_exchange [of H fault clock old new client expires accept dbr "hd hist" db' e] by auto
next
  case (Inr s)
  have chain: "chain_ok (hd hist)" using assms(1) reach_hd by (blast intro: reach_chain)
  from assms(2) have "rotateTx H fault clock old new client expires accept dbr (hd hist) = (db', Inr s)" by (simp add: Inr)
  then show ?thesis
  proof (cases rule: exchange_outcome)
    case (replay t r)
    from replay(5) obtain c where c: "c \<in> set (hd hist)" "rr_hash c = H new" "rr_parent c = Some (rr_hash r)" "rr_family c = rr_family r"
      "rr_client c = client" "rr_live c" "rr_rotated_at c = None" "rr_session c = s" "accept s = None" by (rule grace_outcome)
    have r: "r \<in> set (hd hist)" "rr_hash r = H old" using tselect_SomeD [OF replay(2)] by simp_all
    have "link_ok c r" by (rule chainD [OF chain c(1) r(1)])
    then have "rr_client r = client" "rr_session r = s" using c by (simp_all add: link_ok_def)
    with c r replay show ?thesis by (simp add: Inr) blast
  next
    case (exchange t r)
    let ?r = "r\<lparr>rr_rotated_at := Some t\<rparr>"
    have "?r \<in> set (tput rr_hash (hd hist) ?r)" by (auto simp: tput_def image_iff)
    with exchange tselect_SomeD [OF exchange(1)] show ?thesis
      unfolding Inr sum.case by (intro bexI [of _ ?r] bexI [of _ "successor_row t (H new) expires r"]) (simp_all add: fresh_row_def)
  qed
qed

section \<open>Revoking a principal\<close>

text \<open>
  C33: When a revocation of a principal succeeds, no token of that principal is live in any session that existed
  when it began, not even one that a concurrent exchange minted meanwhile, and the number it reports is that of
  those sessions with a token it revoked.
\<close>

theorem a_principal_is_revoked_whole:
  assumes "refresh_reach H hist" and "dbr \<in> set hist"
    and "revokePrincipalTx fault now p why dbr (hd hist) = (db', Inr n)"
  shows "(\<forall>r \<in> set db'. se_principal (rr_session r) = p \<and> rr_family r \<in> rr_family ` set dbr \<longrightarrow> rr_revoked_at r \<noteq> None) \<and>
    n = card {f. \<exists>r \<in> set (hd hist). rr_family r = f \<and> f \<in> rr_family ` set dbr \<and>
                   se_principal (rr_session r) = p \<and> rr_revoked_at r = None}"
proof -
  have chain: "chain_ok (hd hist)" using assms(1) reach_hd by (blast intro: reach_chain)
  have later: "later dbr (hd hist)" by (rule reach_later [OF assms(1,2)])
  from assms(3) have rev: "revoke_rows now why (principal_match p) dbr (hd hist) = Some db'"
    and n: "n = length (remdups (map rr_family (filter (principal_match p) dbr)))"
    by (cases fault; auto simp: revokePrincipalTx_def refresh_tx_def split: option.splits)+
  have same: "se_principal (rr_session q) = p" if "q \<in> set dbr" "r \<in> set (hd hist)" "rr_family q = rr_family r" "se_principal (rr_session r) = p" for q r
    using later that unfolding later_def by auto
  have seen: "r \<in> set dbr" if r: "r \<in> set (hd hist)" "rr_live r" "rr_family r \<in> rr_family ` set dbr" "se_principal (rr_session r) = p" for r
    by (rule nothing_missed [OF later chain r(3,1,2)])
      (use same [OF _ r(1)] r(4) in \<open>auto simp: principal_match_def intro!: revoke_rows_Some(2) [OF rev]\<close>)
  have "\<not> rr_live x" if x: "x \<in> set db'" "se_principal (rr_session x) = p" "rr_family x \<in> rr_family ` set dbr" for x
  proof -
    obtain r where r: "r \<in> set (hd hist)" "x = (if r \<in> set dbr \<and> principal_match p r then revoked now why r else r)"
      using x(1) revoke_rows_Some(1) [OF rev] by auto
    have "rr_family r = rr_family x" "rr_session r = rr_session x" using r(2) by simp_all
    with x seen [OF r(1)] have "rr_live r \<Longrightarrow> r \<in> set dbr \<and> principal_match p r" by (simp add: principal_match_def)
    with r(2) show ?thesis by (auto simp: revoked_def)
  qed
  moreover have "rr_family ` set (filter (principal_match p) dbr) =
      {f. \<exists>r \<in> set (hd hist). rr_family r = f \<and> f \<in> rr_family ` set dbr \<and> se_principal (rr_session r) = p \<and> rr_live r}" (is "?A = ?B")
  proof
    show "?A \<subseteq> ?B"
      using tselect_SomeD [OF revoke_rows_Some(2) [OF rev]] by (auto simp: principal_match_def)
    show "?B \<subseteq> ?A" using seen by (auto simp: principal_match_def)
  qed
  ultimately show ?thesis by (simp add: n length_remdups_card_conv)
qed

section \<open>A session\<close>

text \<open>Token \<open>a\<close> is exchanged for \<open>b\<close>, replayed in the grace window, and presented once more much later.\<close>

definition refresh_session :: session where
  "refresh_session = \<lparr>se_login = ''octo'', se_principal = ''p1'', se_groups = [''platform''], se_auth_method = '''', se_resource = ''''\<rparr>"

definition demo_tok :: "string \<Rightarrow> string option \<Rightarrow> gotime \<Rightarrow> gotime option \<Rightarrow> gotime option \<Rightarrow> refresh_row" where
  "demo_tok h par issued rot dead_at =
     \<lparr>rr_hash = h, rr_client = ''client'', rr_session = refresh_session, rr_family = ''f'', rr_parent = par, rr_issued_at = issued,
      rr_expires_at = 30 * hour, rr_rotated_at = rot, rr_revoked_at = dead_at,
      rr_reason = (if dead_at = None then None else Some ''reuse_detected'')\<rparr>"

definition first_db :: refresh_db where "first_db = [demo_tok ''a'' None 0 None None]"

definition exchanged_db :: refresh_db where
  "exchanged_db = [demo_tok ''a'' None 0 (Some 1) None, demo_tok ''b'' (Some ''a'') 1 None None]"

definition reused_db :: refresh_db where
  "reused_db = [demo_tok ''a'' None 0 (Some 1) (Some (3 * minute)), demo_tok ''b'' (Some ''a'') 1 None (Some (3 * minute))]"

definition demo_rotate :: "gotime \<Rightarrow> refresh_db \<Rightarrow> refresh_op" where
  "demo_rotate t dbr = RtRotate RtOk (t, t, t) ''a'' ''b'' ''client'' (30 * hour) (\<lambda>_. None) dbr"

lemmas demo_refresh = demo_tok_def refresh_insert_def rotateTx_def refresh_tx_def rotate_body_def grace_replay_def
  row_moved_def revoke_rows_def revoked_def successor_row_def refresh_gc_def rotationGraceWindow_def time_sub_def max_duration_def
  tselect_def tput_def Let_def first_db_def exchanged_db_def reused_db_def demo_rotate_def

lemma demo_first: "refresh_run (\<lambda>s. s) (RtInsert True 0 ''f'' ''a'' ''client'' refresh_session (30 * hour)) [] = first_db"
  by (simp add: demo_refresh)

lemma demo_exchange:
  "rotateTx (\<lambda>s. s) RtOk (1, 1, 1) ''a'' ''b'' ''client'' (30 * hour) (\<lambda>_. None) first_db first_db = (exchanged_db, Inr refresh_session)"
  by (simp add: demo_refresh)

lemma demo_replay:
  "rotateTx (\<lambda>s. s) RtOk (2, 2, 2) ''a'' ''b'' ''client'' (30 * hour) (\<lambda>_. None) exchanged_db exchanged_db = (exchanged_db, Inr refresh_session)"
  by (simp add: demo_refresh)

lemma demo_reuse:
  "rotateTx (\<lambda>s. s) RtOk (3 * minute, 3 * minute, 3 * minute) ''a'' ''b'' ''client'' (30 * hour) (\<lambda>_. None) exchanged_db exchanged_db
     = (reused_db, Inl RefreshReuse)"
  by (simp add: demo_refresh)

lemma refresh_demo_reach:
  "refresh_reach (\<lambda>s. s) [first_db, []]"
  "refresh_reach (\<lambda>s. s) [exchanged_db, first_db, []]"
  "refresh_reach (\<lambda>s. s) [reused_db, exchanged_db, first_db, []]"
  "refresh_reach (\<lambda>s. s) [reused_db, reused_db, exchanged_db, first_db, []]"
proof -
  note call = refresh_reach.call [where H = "\<lambda>s. s"]
  show 1: "refresh_reach (\<lambda>s. s) [first_db, []]"
    using call [OF refresh_reach.start, of "RtInsert True 0 ''f'' ''a'' ''client'' refresh_session (30 * hour)"]
    by (simp add: demo_refresh)
  show 2: "refresh_reach (\<lambda>s. s) [exchanged_db, first_db, []]"
    using call [OF 1, of "demo_rotate 1 first_db"] demo_exchange by (simp add: demo_refresh)
  show 3: "refresh_reach (\<lambda>s. s) [reused_db, exchanged_db, first_db, []]"
    using call [OF 2, of "demo_rotate (3 * minute) exchanged_db"] demo_reuse by (simp add: demo_refresh)
  show "refresh_reach (\<lambda>s. s) [reused_db, reused_db, exchanged_db, first_db, []]"
    using call [OF 3, of "RtGC True 0"] by (simp add: demo_refresh)
qed

theorem a_session_never_branches_witness:
  "rr_session (demo_tok ''a'' None 0 (Some 1) None) = rr_session (demo_tok ''b'' (Some ''a'') 1 None None) \<and>
   rr_rotated_at (demo_tok ''a'' None 0 (Some 1) None) \<noteq> None"
  using a_session_never_branches [OF refresh_demo_reach(2), of "demo_tok ''a'' None 0 (Some 1) None" "demo_tok ''b'' (Some ''a'') 1 None None"]
    a_session_never_branches [OF refresh_demo_reach(2), of "demo_tok ''b'' (Some ''a'') 1 None None" "demo_tok ''a'' None 0 (Some 1) None"]
  by (simp add: exchanged_db_def demo_tok_def)

text \<open>After the reuse the table is collected, and the successor presented.\<close>

theorem a_reused_session_is_dead_for_good_witness:
  "list_all (\<lambda>q. rr_revoked_at q \<noteq> None) reused_db \<and>
   snd (rotateTx (\<lambda>s. s) RtOk (1, 1, 1) ''b'' ''c'' ''client'' (30 * hour) (\<lambda>_. None) exchanged_db reused_db) \<noteq> Inr refresh_session"
proof -
  have "refresh_reach (\<lambda>s. s) ([reused_db] @ reused_db # [exchanged_db, first_db, []])" using refresh_demo_reach(4) by simp
  moreover have "exchanged_db \<in> set [exchanged_db, first_db, []]" by simp
  moreover have "rotateTx (\<lambda>s. s) RtOk (3 * minute, 3 * minute, 3 * minute) ''a'' ''b'' ''client'' (30 * hour) (\<lambda>_. None) exchanged_db
      (hd [exchanged_db, first_db, []]) = (reused_db, Inl RefreshReuse)" using demo_reuse by simp
  ultimately obtain r where r: "tselect rr_hash exchanged_db ''a'' = Some r"
    and dead: "\<forall>q \<in> set (hd ([reused_db] @ reused_db # [exchanged_db, first_db, []])). rr_family q = rr_family r \<longrightarrow> rr_revoked_at q \<noteq> None"
    and not: "\<forall>d \<in> set ([reused_db] @ reused_db # [exchanged_db, first_db, []]). \<forall>old' q.
       tselect rr_hash d ((\<lambda>s. s) old') = Some q \<and> rr_family q = rr_family r \<longrightarrow>
       (\<forall>fault' clock' new' client' expires' accept' s.
          snd (rotateTx (\<lambda>s. s) fault' clock' old' new' client' expires' accept' d (hd ([reused_db] @ reused_db # [exchanged_db, first_db, []]))) \<noteq> Inr s)"
    using a_reused_session_is_dead_for_good [of "\<lambda>s. s" "[reused_db]" reused_db "[exchanged_db, first_db, []]" exchanged_db RtOk
        "(3 * minute, 3 * minute, 3 * minute)" "''a''" "''b''" "''client''" "30 * hour" "\<lambda>_. None"] by blast
  have fam: "rr_family r = ''f''" using r by (auto simp: exchanged_db_def demo_tok_def tselect_def)
  have b: "tselect rr_hash exchanged_db ''b'' = Some (demo_tok ''b'' (Some ''a'') 1 None None)"
    by (simp add: exchanged_db_def demo_tok_def tselect_def)
  have "snd (rotateTx (\<lambda>s. s) RtOk (1, 1, 1) ''b'' ''c'' ''client'' (30 * hour) (\<lambda>_. None) exchanged_db
      (hd ([reused_db] @ reused_db # [exchanged_db, first_db, []]))) \<noteq> Inr refresh_session"
    using not b fam by (simp add: demo_tok_def)
  moreover have "list_all (\<lambda>q. rr_family q = ''f'') reused_db" by (simp add: reused_db_def demo_tok_def)
  ultimately show ?thesis using dead fam by (auto simp: list_all_iff)
qed

theorem an_exchange_passes_the_session_on_witness:
  "\<exists>r \<in> set exchanged_db. \<exists>tip \<in> set exchanged_db. rr_hash r = ''a'' \<and> rr_hash tip = ''b'' \<and> rr_session tip = refresh_session \<and>
     rr_rotated_at r \<noteq> None \<and> rr_rotated_at tip = None"
  using an_exchange_passes_the_session_on [OF refresh_demo_reach(2), of RtOk "(2, 2, 2)" "''a''" "''b''" "''client''" "30 * hour" "\<lambda>_. None"
      exchanged_db exchanged_db "Inr refresh_session"] demo_replay by fastforce

lemma refresh_principal:
  "revokePrincipalTx RtOk 5 ''p1'' ''left'' exchanged_db exchanged_db
     = ([(demo_tok ''a'' None 0 (Some 1) (Some 5))\<lparr>rr_reason := Some ''left''\<rparr>,
         (demo_tok ''b'' (Some ''a'') 1 None (Some 5))\<lparr>rr_reason := Some ''left''\<rparr>], Inr 1)"
  "snd (revokePrincipalTx RtOk 5 ''p1'' ''left'' first_db exchanged_db) = Inl RefreshSerialization"
  by (simp_all add: revokePrincipalTx_def demo_refresh principal_match_def refresh_session_def)

theorem a_principal_is_revoked_whole_witness:
  "card {f. \<exists>r \<in> set exchanged_db. rr_family r = f \<and> f \<in> rr_family ` set exchanged_db \<and>
      se_principal (rr_session r) = ''p1'' \<and> rr_revoked_at r = None} = 1"
  using a_principal_is_revoked_whole [OF refresh_demo_reach(2), of exchanged_db RtOk 5 "''p1''" "''left''"] refresh_principal(1) by simp

section \<open>A revocation that misses a token\<close>

text \<open>
  \<open>RevokeFamily\<close> is one statement under READ COMMITTED: an exchange that commits after the statement
  took its snapshot and before it writes leaves a successor live, although the call answers that it revoked the family.
\<close>

lemma revoke_family_misses_a_successor:
  "snd (RevokeFamily (\<lambda>s. s) True 5 ''a'' '''' ''logout'' first_db exchanged_db) = None \<and>
   demo_tok ''b'' (Some ''a'') 1 None None \<in> set (fst (RevokeFamily (\<lambda>s. s) True 5 ''a'' '''' ''logout'' first_db exchanged_db))"
  by (simp add: RevokeFamily_def family_match_def demo_refresh)

end
