(* ===== verification/Decision_Types.thy ===== *)
theory Decision_Types
  imports Approval_Store
begin

text \<open>
  Decision records, \<open>internal/decisions/types.go\<close>: the vocabularies, the record of a policy decision and
  the events of the attempts to carry it out, the validation of both, and the content digest.

  Verdicts, codes and phases are the strings the code has.  A zero \<open>time.Time\<close> is None.
\<close>

section \<open>Vocabularies\<close>

definition DecisionIDPrefix :: string where "DecisionIDPrefix = ''dec_''"
definition DecisionSchemaVersion :: string where "DecisionSchemaVersion = ''decisionrecord/v1''"
definition recordEncodingVersion :: string where "recordEncodingVersion = ''mctl-decision-record/v1''"

definition VerdictAllow :: string where "VerdictAllow = ''allow''"
definition VerdictDeny :: string where "VerdictDeny = ''deny''"
definition VerdictRequireApproval :: string where "VerdictRequireApproval = ''require_approval''"

definition CodeAllowed :: string where "CodeAllowed = ''allowed''"
definition CodeApproved :: string where "CodeApproved = ''approved''"

definition validCodes :: "string list" where
  "validCodes =
     [CodeAllowed, CodeApproved, ''denied_by_rule'', ''approval_required'', ''no_matching_rule'', ''grant_missing'',
      ''evaluator_error'', ''identity_unavailable'', ''approval_lookup_error'', ''invalid_request'', ''approval_pending'',
      ''approval_denied'', ''approval_expired'', ''approval_consumed'', ''approval_intent_mismatch'', ''approval_refused'']"

definition Permitted :: "string \<Rightarrow> bool" where
  "Permitted code \<longleftrightarrow> code = CodeAllowed \<or> code = CodeApproved"

definition PhaseStarted :: string where "PhaseStarted = ''started''"
definition PhaseSucceeded :: string where "PhaseSucceeded = ''succeeded''"
definition PhaseFailed :: string where "PhaseFailed = ''failed''"
definition PhasePartial :: string where "PhasePartial = ''partial''"

definition AttemptEnded :: "string \<Rightarrow> bool" where
  "AttemptEnded phase \<longleftrightarrow> phase = PhaseSucceeded \<or> phase = PhaseFailed \<or> phase = PhasePartial"

definition AttemptInProgress :: string where "AttemptInProgress = ''in_progress''"
definition AttemptUnknown :: string where "AttemptUnknown = ''unknown''"

definition ResultRefused :: string where "ResultRefused = ''refused''"
definition ResultPending :: string where "ResultPending = ''pending''"
definition ResultInProgress :: string where "ResultInProgress = ''in_progress''"
definition ResultSucceeded :: string where "ResultSucceeded = ''succeeded''"
definition ResultFailed :: string where "ResultFailed = ''failed''"
definition ResultPartial :: string where "ResultPartial = ''partial''"

lemmas phase_defs = PhaseStarted_def PhaseSucceeded_def PhaseFailed_def PhasePartial_def
lemmas status_defs = phase_defs AttemptInProgress_def AttemptUnknown_def
lemmas result_defs = ResultRefused_def ResultPending_def ResultInProgress_def ResultSucceeded_def ResultFailed_def ResultPartial_def

definition MaxDecisionFieldBytes :: nat where "MaxDecisionFieldBytes = 256"
definition MaxDecisionReasons :: nat where "MaxDecisionReasons = 8"
definition MaxDecisionReasonBytes :: nat where "MaxDecisionReasonBytes = 128"
definition MaxDecisionKeyBytes :: nat where "MaxDecisionKeyBytes = 128"
definition MaxDecisionList :: int where "MaxDecisionList = 200"
definition defaultDecisionList :: int where "defaultDecisionList = 50"
definition maxAttemptsPerDec :: int where "maxAttemptsPerDec = 100"

text \<open>\<open>DcFailed\<close> is an error of the driver.\<close>

datatype decision_error =
    DcNotFound | DcInvalid | DcIdempotencyConflict | DcApprovalBinding | DcApprovalNotFound | DcUnobservable
  | DcNotPermitted | DcAlreadySucceeded | DcAttemptNotFound | DcAttemptClosed | DcTooManyAttempts | DcFailed

section \<open>Records\<close>

text \<open>What a caller says of a decision; the last two fields come from its authentication.\<close>

record record_input =
  di_execution :: string
  di_work_item :: string
  di_intent_source :: string
  di_trace :: string
  di_policy_version :: string
  di_rule :: string
  di_verdict :: string
  di_code :: string
  di_reasons :: "string list"
  di_actor :: string
  di_principal :: string
  di_tenant :: string
  di_approval :: string
  di_basis :: string
  di_action_kind :: string
  di_operation :: string
  di_target_digest :: string
  di_args_digest :: string
  di_action_digest :: string
  di_decided_at :: "gotime option"
  di_key :: string
  di_recorded_by :: string
  di_recorded_by_principal :: string

text \<open>
  A stored decision: what was said, and what the server adds.  The code copies the fields of its input one
  by one; here a row keeps the input it was made of.
\<close>

record decision_row =
  dr_id :: string
  dr_input :: record_input
  dr_intent_hash :: string
  dr_digest :: string
  dr_recorded_at :: gotime

abbreviation dr_code :: "decision_row \<Rightarrow> string" where "dr_code d \<equiv> di_code (dr_input d)"
abbreviation dr_permitted :: "decision_row \<Rightarrow> bool" where "dr_permitted d \<equiv> Permitted (dr_code d)"
abbreviation dr_key :: "decision_row \<Rightarrow> string \<times> string" where "dr_key d \<equiv> (di_recorded_by (dr_input d), di_key (dr_input d))"

record attempt_input =
  at_decision :: string
  at_no :: int
  at_phase :: string
  at_evidence :: string
  at_runtime :: string
  at_invocation :: string
  at_error :: string
  at_result :: string
  at_occurred :: "gotime option"
  at_key :: string
  at_recorded_by :: string
  at_recorded_by_principal :: string

record attempt_event =
  ae_decision :: string
  ae_seq :: int
  ae_no :: int
  ae_phase :: string
  ae_evidence :: string
  ae_runtime :: string
  ae_invocation :: string
  ae_error :: string
  ae_result :: string
  ae_occurred :: gotime
  ae_key :: string
  ae_recorded_by :: string
  ae_recorded_by_principal :: string
  ae_recorded_at :: gotime

section \<open>Shapes\<close>

definition lowers :: string where "lowers = ''abcdefghijklmnopqrstuvwxyz''"
definition id_heads :: string where "id_heads = ''ABCDEFGHIJKLMNOPQRSTUVWXYZ'' @ lowers @ ''0123456789''"
definition code_chars :: string where "code_chars = lowers @ ''0123456789._:-''"

text \<open>\<open>^[A-Za-z0-9][A-Za-z0-9._:/@+-]{0,255}$\<close>\<close>

definition idRE :: "string \<Rightarrow> bool" where
  "idRE v \<longleftrightarrow> (case v of [] \<Rightarrow> False
     | c # s \<Rightarrow> c \<in> set id_heads \<and> list_all (\<lambda>x. x \<in> set (id_heads @ ''._:/@+-'')) s \<and> length s \<le> 255)"

text \<open>\<open>^[a-z0-9._:-]+$\<close> and \<open>^[a-z0-9._:-]{1,64}$\<close>\<close>

definition reasonRE :: "string \<Rightarrow> bool" where
  "reasonRE v \<longleftrightarrow> v \<noteq> '''' \<and> list_all (\<lambda>x. x \<in> set code_chars) v"

definition codeRE :: "string \<Rightarrow> bool" where
  "codeRE v \<longleftrightarrow> reasonRE v \<and> length v \<le> 64"

definition prefixed_hex :: "string \<Rightarrow> nat \<Rightarrow> string \<Rightarrow> bool" where
  "prefixed_hex p n v \<longleftrightarrow>
     take (length p) v = p \<and> length v = length p + n \<and> list_all (\<lambda>x. x \<in> set ''0123456789abcdef'') (drop (length p) v)"

definition digestRE :: "string \<Rightarrow> bool" where "digestRE = prefixed_hex ''sha256:'' 64"
definition evidenceIDRE :: "string \<Rightarrow> bool" where "evidenceIDRE = prefixed_hex ''ev-'' 16"
definition runtimeExecRE :: "string \<Rightarrow> bool" where "runtimeExecRE = prefixed_hex ''ex-'' 16"

section \<open>Validation\<close>

definition dc_require :: "bool \<Rightarrow> decision_error option" where
  "dc_require b = (if b then None else Some DcInvalid)"

definition checkID :: "string \<Rightarrow> bool \<Rightarrow> decision_error option" where
  "checkID v required =
     (if v = '''' then dc_require (\<not> required)
      else if \<not> idRE v then Some DcInvalid
      else dc_require (Scan v = None))"

definition checkPrefixed :: "string \<Rightarrow> string \<Rightarrow> bool \<Rightarrow> decision_error option" where
  "checkPrefixed v p required =
     first_error [checkID v required, dc_require (v = '''' \<or> take (length p) v = p)]"

definition dc_checkDigest :: "string \<Rightarrow> bool \<Rightarrow> decision_error option" where
  "dc_checkDigest v required = (if v = '''' \<and> \<not> required then None else dc_require (digestRE v))"

definition decision_ids :: "record_input \<Rightarrow> (string \<times> bool) list" where
  "decision_ids inp =
     [(di_execution inp, True), (di_intent_source inp, False), (di_trace inp, False), (di_policy_version inp, True),
      (di_rule inp, False), (di_actor inp, True), (di_tenant inp, False), (di_basis inp, False),
      (di_action_kind inp, True), (di_operation inp, True), (di_key inp, True), (di_recorded_by inp, True)]"

definition record_validate :: "record_input \<Rightarrow> decision_error option" where
  "record_validate inp = first_error
     (map (\<lambda>(v, required). checkID v required) (decision_ids inp) @
      [dc_require (length (di_key inp) \<le> MaxDecisionKeyBytes),
       checkPrefixed (di_work_item inp) ''wi_'' False,
       checkPrefixed (di_principal inp) ''prn_'' False,
       checkPrefixed (di_approval inp) ''aar_'' False,
       dc_checkDigest (di_target_digest inp) True,
       dc_checkDigest (di_args_digest inp) True,
       dc_checkDigest (di_action_digest inp) True,
       dc_require (di_verdict inp \<in> {VerdictAllow, VerdictDeny, VerdictRequireApproval}),
       dc_require (di_code inp \<in> set validCodes),
       dc_require (\<not> (di_code inp = CodeAllowed \<and> di_verdict inp \<noteq> VerdictAllow)),
       dc_require (\<not> (di_code inp = CodeApproved \<and> di_verdict inp \<noteq> VerdictRequireApproval)),
       dc_require (\<not> (di_code inp = CodeApproved \<and> di_approval inp = '''')),
       dc_require (\<not> (di_approval inp \<noteq> '''' \<and> di_code inp \<noteq> CodeApproved \<and> take 9 (di_code inp) \<noteq> ''approval_'')),
       dc_require (length (di_reasons inp) \<le> MaxDecisionReasons)] @
      map (\<lambda>r. dc_require (length r \<le> MaxDecisionReasonBytes \<and> reasonRE r)) (di_reasons inp) @
      [dc_require (di_decided_at inp \<noteq> None)])"

definition phase_fields :: "attempt_input \<Rightarrow> decision_error option" where
  "phase_fields inp =
     (if at_phase inp = PhaseStarted then first_error
        [dc_require (at_no inp = 0),
         dc_require (at_evidence inp = '''' \<and> at_error inp = '''' \<and> at_result inp = '''' \<and> at_invocation inp = '''')]
      else if at_phase inp = PhaseSucceeded then first_error
        [dc_require (\<not> at_no inp < 1), dc_require (at_error inp = '''')]
      else if at_phase inp = PhaseFailed \<or> at_phase inp = PhasePartial then first_error
        [dc_require (\<not> at_no inp < 1), dc_require (at_error inp \<noteq> '''')]
      else Some DcInvalid)"

definition attempt_validate :: "attempt_input \<Rightarrow> decision_error option" where
  "attempt_validate inp = first_error
     [checkPrefixed (at_decision inp) DecisionIDPrefix True,
      checkID (at_key inp) True,
      dc_require (length (at_key inp) \<le> MaxDecisionKeyBytes),
      checkID (at_recorded_by inp) True,
      dc_require (at_evidence inp = '''' \<or> evidenceIDRE (at_evidence inp)),
      dc_require (at_runtime inp = '''' \<or> runtimeExecRE (at_runtime inp)),
      checkPrefixed (at_invocation inp) ''inv_'' False,
      dc_require (at_error inp = '''' \<or> codeRE (at_error inp)),
      dc_checkDigest (at_result inp) False,
      dc_require (at_occurred inp \<noteq> None),
      phase_fields inp]"

section \<open>Digests\<close>

definition canonicalDigest :: "hash \<Rightarrow> string \<Rightarrow> (string \<times> string) list \<Rightarrow> string" where
  "canonicalDigest H version fs = ''sha256:'' @ H (lengthPrefixed version fs)"

text \<open>\<open>time.RFC3339Nano\<close> of a time in whole microseconds: the fraction without its trailing zeros.\<close>

definition rfc3339nano :: "gotime \<Rightarrow> string" where
  "rfc3339nano t =
     (let us = nat (t mod second); frac = rev (dropWhile (\<lambda>c. c = CHR ''0'') (rev (pad 6 us)))
      in butlast (rfc3339 t) @ (if us = 0 then '''' else CHR ''.'' # frac) @ ''Z'')"

fun comma_join :: "string list \<Rightarrow> string" where
  "comma_join [] = ''''"
| "comma_join [r] = r"
| "comma_join (r # s # rs) = r @ CHR '','' # comma_join (s # rs)"

definition record_fields :: "record_input \<Rightarrow> (string \<times> string) list" where
  "record_fields inp =
     [(''execution_id'', di_execution inp),
      (''work_item_id'', di_work_item inp),
      (''intent_source'', di_intent_source inp),
      (''trace_id'', di_trace inp),
      (''policy_version'', di_policy_version inp),
      (''rule_id'', di_rule inp),
      (''verdict'', di_verdict inp),
      (''code'', di_code inp),
      (''policy_reasons'', comma_join (di_reasons inp)),
      (''actor'', di_actor inp),
      (''principal_id'', di_principal inp),
      (''tenant'', di_tenant inp),
      (''approval_id'', di_approval inp),
      (''authority_basis'', di_basis inp),
      (''action_kind'', di_action_kind inp),
      (''operation'', di_operation inp),
      (''target_digest'', di_target_digest inp),
      (''args_digest'', di_args_digest inp),
      (''action_digest'', di_action_digest inp),
      (''decided_at'', case di_decided_at inp of None \<Rightarrow> ''0001-01-01T00:00:00Z'' | Some t \<Rightarrow> rfc3339nano t)]"

definition contentDigest :: "hash \<Rightarrow> record_input \<Rightarrow> string" where
  "contentDigest H inp = canonicalDigest H recordEncodingVersion (record_fields inp)"

definition TargetDigest :: "hash \<Rightarrow> string \<Rightarrow> string" where
  "TargetDigest H target = ''sha256:'' @ H target"

text \<open>A reason has no comma, so the joined reasons tell the list.\<close>

lemma code_no_comma: "CHR '','' \<notin> set code_chars"
  by code_simp

lemma reason_no_comma: "reasonRE r \<Longrightarrow> r \<noteq> '''' \<and> CHR '','' \<notin> set r"
  using code_no_comma unfolding reasonRE_def list_all_iff by blast

lemma upto_comma:
  assumes "CHR '','' \<notin> set a" "CHR '','' \<notin> set b" and eq: "a @ CHR '','' # s = b @ CHR '','' # t"
  shows "a = b \<and> s = t"
proof -
  have "takeWhile (\<lambda>c. c \<noteq> CHR '','') (x @ CHR '','' # y) = x" if "CHR '','' \<notin> set x" for x y
    using that by (subst takeWhile_append2) auto
  with assms(1,2) have "a = b" using eq by metis
  with eq show ?thesis by simp
qed

lemma join_comma_free: "list_all reasonRE rs \<Longrightarrow> CHR '','' \<notin> set (comma_join rs) \<Longrightarrow> length rs \<le> 1"
  by (cases rs rule: comma_join.cases) simp_all

lemma comma_join_inj:
  assumes "list_all reasonRE rs" "list_all reasonRE qs" "comma_join rs = comma_join qs"
  shows "rs = qs"
  using assms
proof (induction rs arbitrary: qs rule: comma_join.induct)
  case 1
  then show ?case by (cases qs rule: comma_join.cases) (auto dest: reason_no_comma)
next
  case (2 r)
  then have r: "r \<noteq> ''''" "CHR '','' \<notin> set r" by (auto dest: reason_no_comma)
  with 2 have "length qs \<le> 1" by (intro join_comma_free) simp_all
  with 2 r show ?case by (cases qs rule: comma_join.cases) simp_all
next
  case (3 r s rs)
  show ?case
  proof (cases qs rule: comma_join.cases)
    case (3 a b cs)
    with "3.prems" have "r = a \<and> comma_join (s # rs) = comma_join (b # cs)"
      by (intro upto_comma) (auto dest: reason_no_comma)
    with "3.IH" [of "b # cs"] "3.prems" 3 show ?thesis by simp
  next
    case (2 q)
    with "3.prems" have "CHR '','' \<notin> set (comma_join (r # s # rs))" by (auto dest: reason_no_comma)
    then show ?thesis by simp
  qed (use "3.prems" in simp)
qed

end
