(* ===== verification/Decision_Store.thy ===== *)
theory Decision_Store
  imports Decision_Types
begin

text \<open>
  The store of decision records, \<open>internal/decisions/store.go\<close>: two tables whose rows nobody updates,
  a decision bound to the approval it claims, and the rules by which attempts follow one another.

  \<open>Record\<close> reads the ledger (\<open>dbr\<close>) and the approval (\<open>look\<close>) before its one insert into \<open>db\<close>, and reads
  back (\<open>dbx\<close>) when it lost a race; other calls may run in between, so these are arguments.  None is a
  read that fails.  The last sections are \<open>chain.go\<close>: the attempts, the references and the result a decision id
  reconstructs.
\<close>

section \<open>Tables\<close>

record decision_db =
  dd_rows :: "decision_row list"
  dd_events :: "attempt_event list"

definition empty_ddb :: decision_db where
  "empty_ddb = \<lparr>dd_rows = [], dd_events = []\<rparr>"

definition decisionEvents :: "string \<Rightarrow> decision_db \<Rightarrow> attempt_event list" where
  "decisionEvents i db = sort_key ae_seq (filter (\<lambda>e. ae_decision e = i) (dd_events db))"

definition byIdempotencyKey :: "string \<Rightarrow> string \<Rightarrow> decision_db option \<Rightarrow> decision_error + decision_row" where
  "byIdempotencyKey who k db =
     (case db of None \<Rightarrow> Inl DcFailed
      | Some d \<Rightarrow> (case tselect dr_key (dd_rows d) (who, k) of None \<Rightarrow> Inl DcNotFound | Some r \<Rightarrow> Inr r))"

definition GetDecision :: "string \<Rightarrow> decision_db option \<Rightarrow> decision_error + decision_row" where
  "GetDecision i db =
     (case db of None \<Rightarrow> Inl DcFailed
      | Some d \<Rightarrow> (case tselect dr_id (dd_rows d) i of None \<Rightarrow> Inl DcNotFound | Some r \<Rightarrow> Inr r))"

section \<open>The approval a decision claims\<close>

record action_binding =
  bd_execution :: string
  bd_work_item :: string
  bd_action_kind :: string
  bd_target_digest :: string
  bd_args_digest :: string
  bd_rule :: string
  bd_policy_version :: string

definition bindingMismatches :: "hash \<Rightarrow> action_binding \<Rightarrow> action_approval \<Rightarrow> string list" where
  "bindingMismatches H b a =
     (let i = ap_intent a in
      map fst (filter (\<lambda>(name, got, want). got \<noteq> want)
        [(''execution_id'', bd_execution b, in_execution i),
         (''action_kind'', bd_action_kind b, in_kind i),
         (''target_digest'', bd_target_digest b, TargetDigest H (in_target i)),
         (''args_digest'', bd_args_digest b, in_args_digest i),
         (''rule_id'', bd_rule b, in_policy_rule i),
         (''policy_version'', bd_policy_version b, in_policy_version i)]) @
      (if bd_work_item b \<noteq> '''' \<and> in_work_item i \<noteq> '''' \<and> bd_work_item b \<noteq> in_work_item i then [''work_item_id''] else []))"

definition binding_of :: "record_input \<Rightarrow> action_binding" where
  "binding_of inp =
     \<lparr>bd_execution = di_execution inp, bd_work_item = di_work_item inp, bd_action_kind = di_action_kind inp,
      bd_target_digest = di_target_digest inp, bd_args_digest = di_args_digest inp, bd_rule = di_rule inp,
      bd_policy_version = di_policy_version inp\<rparr>"

definition checkApprovalBinding :: "hash \<Rightarrow> record_input \<Rightarrow> action_approval \<Rightarrow> decision_error option" where
  "checkApprovalBinding H inp a =
     (if di_code inp \<noteq> CodeApproved then Some DcApprovalBinding
      else if bindingMismatches H (binding_of inp) a \<noteq> [] then Some DcApprovalBinding
      else case ap_state a of
          ApprovalApproved \<Rightarrow> None
        | ApprovalConsumed \<Rightarrow> None
        | ApprovalInFlight \<Rightarrow> None
        | ApprovalExecuted \<Rightarrow> None
        | ApprovalExpired \<Rightarrow> (if ap_decided_at a \<noteq> None then None else Some DcApprovalBinding)
        | _ \<Rightarrow> Some DcApprovalBinding)"

section \<open>Record\<close>

text \<open>
  The approval store the lookups are wired to: none, or a ledger that is read at a time (None: the read fails).
\<close>

type_synonym approval_look = "(gotime \<times> approval_db option) option"

definition claimed_intent :: "hash \<Rightarrow> record_input \<Rightarrow> approval_look \<Rightarrow> decision_error + string" where
  "claimed_intent H inp look =
     (if di_approval inp \<noteq> '''' \<and> Permitted (di_code inp)
      then (case look of
          None \<Rightarrow> Inl DcUnobservable
        | Some (t, adb) \<Rightarrow>
            (case ActionApproval t (di_approval inp) adb of
               Inl ApprovalNotFound \<Rightarrow> Inl DcApprovalNotFound
             | Inl _ \<Rightarrow> Inl DcUnobservable
             | Inr a \<Rightarrow> check (checkApprovalBinding H inp a) (Inr (ap_intent_hash a))))
      else Inr '''')"

definition decision_replay :: "string \<Rightarrow> decision_row \<Rightarrow> decision_error + decision_row \<times> bool" where
  "decision_replay digest old = (if dr_digest old \<noteq> digest then Inl DcIdempotencyConflict else Inr (old, False))"

definition new_decision :: "string \<Rightarrow> gotime \<Rightarrow> string \<Rightarrow> string \<Rightarrow> record_input \<Rightarrow> decision_row" where
  "new_decision digest now uuid intent inp =
     \<lparr>dr_id = DecisionIDPrefix @ uuid, dr_input = inp, dr_intent_hash = intent, dr_digest = digest, dr_recorded_at = now\<rparr>"

text \<open>The checks of the table.\<close>

definition decision_checks :: "decision_row \<Rightarrow> bool" where
  "decision_checks d \<longleftrightarrow>
     di_verdict (dr_input d) \<in> {VerdictAllow, VerdictDeny, VerdictRequireApproval} \<and>
     (dr_code d \<noteq> CodeApproved \<or> di_approval (dr_input d) \<noteq> '''')"

text \<open>\<open>INSERT ... ON CONFLICT (recorded_by, idempotency_key) DO NOTHING RETURNING\<close>; None when it returns no row.\<close>

definition insert_decision ::
  "stmt_fault \<Rightarrow> decision_row \<Rightarrow> decision_db \<Rightarrow> decision_db \<times> (decision_error + decision_row option)" where
  "insert_decision fault d db =
     (if fault = StmtFails \<or> \<not> decision_checks d then (db, Inl DcFailed)
      else if tselect dr_key (dd_rows db) (dr_key d) \<noteq> None then (db, if fault = StmtLost then Inl DcFailed else Inr None)
      else if tselect dr_id (dd_rows db) (dr_id d) \<noteq> None then (db, Inl DcFailed)
      else (db\<lparr>dd_rows := dd_rows db @ [d]\<rparr>, if fault = StmtLost then Inl DcFailed else Inr (Some d)))"

text \<open>The flag is \<open>created\<close>.\<close>

definition RecordDecision ::
  "hash \<Rightarrow> stmt_fault \<Rightarrow> gotime \<Rightarrow> string \<Rightarrow> record_input \<Rightarrow> decision_db option \<Rightarrow> approval_look \<Rightarrow> decision_db option \<Rightarrow>
     decision_db \<Rightarrow> decision_db \<times> (decision_error + decision_row \<times> bool)" where
  "RecordDecision H fault now uuid inp dbr look dbx db =
     (case record_validate inp of
        Some e \<Rightarrow> (db, Inl e)
      | None \<Rightarrow>
          (let digest = contentDigest H inp in
           case byIdempotencyKey (di_recorded_by inp) (di_key inp) dbr of
             Inr old \<Rightarrow> (db, decision_replay digest old)
           | Inl e \<Rightarrow>
               if e \<noteq> DcNotFound then (db, Inl e)
               else case claimed_intent H inp look of
                 Inl e \<Rightarrow> (db, Inl e)
               | Inr intent \<Rightarrow>
                   (case insert_decision fault (new_decision digest now uuid intent inp) db of
                      (db', Inl e) \<Rightarrow> (db', Inl e)
                    | (db', Inr (Some d)) \<Rightarrow> (db', Inr (d, True))
                    | (db', Inr None) \<Rightarrow>
                        (db', andThen (byIdempotencyKey (di_recorded_by inp) (di_key inp) dbx) (decision_replay digest)))))"

section \<open>Attempts\<close>

definition sameEvent :: "attempt_event \<Rightarrow> attempt_input \<Rightarrow> bool" where
  "sameEvent e inp \<longleftrightarrow>
     ae_phase e = at_phase inp \<and> (at_phase inp = PhaseStarted \<or> ae_no e = at_no inp) \<and>
     ae_evidence e = at_evidence inp \<and> ae_runtime e = at_runtime inp \<and> ae_invocation e = at_invocation inp \<and>
     ae_error e = at_error inp \<and> ae_result e = at_result inp \<and> Some (ae_occurred e) = at_occurred inp \<and>
     ae_recorded_by e = at_recorded_by inp"

text \<open>The loop over the events: the highest attempt, those started, those closed, whether one succeeded.\<close>

fun attempt_scan ::
  "attempt_event list \<Rightarrow> int \<times> int list \<times> int list \<times> bool \<Rightarrow> int \<times> int list \<times> int list \<times> bool" where
  "attempt_scan [] s = s"
| "attempt_scan (e # es) (m, started, closed, ok) =
     attempt_scan es
       (if ae_phase e = PhaseStarted then (max m (ae_no e), ae_no e # started, closed, ok)
        else (max m (ae_no e), started, ae_no e # closed, ok \<or> ae_phase e = PhaseSucceeded))"

definition nextAttempt :: "string \<Rightarrow> attempt_event list \<Rightarrow> attempt_input \<Rightarrow> decision_error + int" where
  "nextAttempt code evs inp =
     (case attempt_scan evs (0, [], [], False) of (m, started, closed, ok) \<Rightarrow>
        if at_phase inp = PhaseStarted then
          (if \<not> Permitted code then Inl DcNotPermitted
           else if ok then Inl DcAlreadySucceeded
           else if maxAttemptsPerDec \<le> m then Inl DcTooManyAttempts
           else Inr (m + 1))
        else if at_no inp \<notin> set started then Inl DcAttemptNotFound
        else if at_no inp \<in> set closed then Inl DcAttemptClosed
        else Inr (at_no inp))"

definition new_event :: "gotime \<Rightarrow> int \<Rightarrow> int \<Rightarrow> gotime \<Rightarrow> attempt_input \<Rightarrow> attempt_event" where
  "new_event now seq no occurred inp =
     \<lparr>ae_decision = at_decision inp, ae_seq = seq, ae_no = no, ae_phase = at_phase inp, ae_evidence = at_evidence inp,
      ae_runtime = at_runtime inp, ae_invocation = at_invocation inp, ae_error = at_error inp, ae_result = at_result inp,
      ae_occurred = occurred, ae_key = at_key inp, ae_recorded_by = at_recorded_by inp,
      ae_recorded_by_principal = at_recorded_by_principal inp, ae_recorded_at = now\<rparr>"

text \<open>The primary key, the unique indexes and the checks an insert of an event can violate.\<close>

definition event_clash :: "attempt_event \<Rightarrow> attempt_event \<Rightarrow> bool" where
  "event_clash e x \<longleftrightarrow>
     ae_decision x = ae_decision e \<and>
     (ae_seq x = ae_seq e \<or> ae_key x = ae_key e \<or>
      ae_no x = ae_no e \<and> (ae_phase x = PhaseStarted \<longleftrightarrow> ae_phase e = PhaseStarted))"

definition insert_event :: "attempt_event \<Rightarrow> decision_db \<Rightarrow> decision_error + decision_db" where
  "insert_event e db =
     (if list_ex (event_clash e) (dd_events db) \<or> ae_seq e < 1 \<or> ae_no e < 1 then Inl DcFailed
      else Inr (db\<lparr>dd_events := dd_events db @ [e]\<rparr>))"

text \<open>The flag is \<open>created\<close>.  The row of the decision is locked, which keeps the events from changing.\<close>

definition attempt_body :: "gotime \<Rightarrow> attempt_input \<Rightarrow> decision_db \<Rightarrow> decision_error + decision_db \<times> attempt_event \<times> bool" where
  "attempt_body now inp db =
     (case tselect dr_id (dd_rows db) (at_decision inp) of
        None \<Rightarrow> Inl DcNotFound
      | Some d \<Rightarrow>
          (let evs = decisionEvents (at_decision inp) db in
           case find (\<lambda>e. ae_key e = at_key inp) evs of
             Some e \<Rightarrow> if \<not> sameEvent e inp then Inl DcIdempotencyConflict else Inr (db, e, False)
           | None \<Rightarrow>
               andThen (nextAttempt (dr_code d) evs inp) (\<lambda>no.
                 case at_occurred inp of
                   None \<Rightarrow> Inl DcInvalid
                 | Some t \<Rightarrow>
                     (let e = new_event now (int (length evs) + 1) no t inp in
                      andThen (insert_event e db) (\<lambda>db'. Inr (db', e, True))))))"

definition AppendAttempt ::
  "tx_fault \<Rightarrow> gotime \<Rightarrow> attempt_input \<Rightarrow> decision_db \<Rightarrow> decision_db \<times> (decision_error + attempt_event \<times> bool)" where
  "AppendAttempt fault now inp db =
     (case attempt_validate inp of
        Some e \<Rightarrow> (db, Inl e)
      | None \<Rightarrow>
          if fault \<noteq> TxOk \<and> fault \<noteq> TxCommitFails then (db, Inl DcFailed)
          else case attempt_body now inp db of
            Inl e \<Rightarrow> (db, Inl e)
          | Inr (db', e, created) \<Rightarrow> if created \<and> fault = TxCommitFails then (db, Inl DcFailed) else (db', Inr (e, created)))"

section \<open>Reads and retention\<close>

record decision_filter =
  df_execution :: string
  df_work_item :: string
  df_approval :: string
  df_limit :: int

record decision_page =
  dp_rows :: "decision_row list"
  dp_truncated :: bool
  dp_limit :: int

definition filter_field :: "string \<Rightarrow> string \<Rightarrow> bool" where
  "filter_field want v \<longleftrightarrow> want = '''' \<or> v = want"

definition ListDecisions :: "decision_filter \<Rightarrow> decision_db option \<Rightarrow> decision_error + decision_page" where
  "ListDecisions f db =
     (if df_execution f = '''' \<and> df_work_item f = '''' \<and> df_approval f = '''' then Inl DcInvalid
      else case db of
        None \<Rightarrow> Inl DcFailed
      | Some d \<Rightarrow>
          (let limit = min (if df_limit f \<le> 0 then defaultDecisionList else df_limit f) MaxDecisionList;
               sel = filter (\<lambda>r. filter_field (df_execution f) (di_execution (dr_input r)) \<and>
                        filter_field (df_work_item f) (di_work_item (dr_input r)) \<and>
                        filter_field (df_approval f) (di_approval (dr_input r))) (dd_rows d);
               rows = take (nat (limit + 1)) (sort_key (\<lambda>r. (- dr_recorded_at r, dr_id r)) sel)
           in if limit < int (length rows)
              then Inr \<lparr>dp_rows = take (nat limit) rows, dp_truncated = True, dp_limit = limit\<rparr>
              else Inr \<lparr>dp_rows = rows, dp_truncated = False, dp_limit = limit\<rparr>))"

text \<open>The events of a deleted decision go with it.  The answer is the number of decisions deleted.\<close>

definition PurgeOlderThan :: "stmt_fault \<Rightarrow> gotime \<Rightarrow> duration \<Rightarrow> decision_db \<Rightarrow> decision_db \<times> (decision_error + nat)" where
  "PurgeOlderThan fault now maxAge db =
     (if maxAge \<le> 0 \<or> fault = StmtFails then (db, Inl DcFailed)
      else (let old = filter (\<lambda>r. dr_recorded_at r < now - maxAge) (dd_rows db);
                keep = filter (\<lambda>r. \<not> dr_recorded_at r < now - maxAge) (dd_rows db)
            in (\<lparr>dd_rows = keep, dd_events = filter (\<lambda>e. ae_decision e \<notin> set (map dr_id old)) (dd_events db)\<rparr>,
                if fault = StmtLost then Inl DcFailed else Inr (length old))))"

text \<open>
  The chain a decision id reconstructs, \<open>internal/decisions/chain.go\<close>: the attempts with their statuses, the
  result, and the references as they read now.  The evidence store is the interface \<open>EvidenceLookup\<close>: a
  function from ids.
\<close>

section \<open>The attempts of a chain\<close>

record attempt =
  am_no :: int
  am_status :: string
  am_events :: "attempt_event list"

text \<open>An event joins its attempt, or opens one at the end of the order of appearance.\<close>

definition join_attempt :: "attempt_event \<Rightarrow> attempt \<Rightarrow> attempt" where
  "join_attempt e a = a\<lparr>am_events := am_events a @ [e], am_status := (if AttemptEnded (ae_phase e) then ae_phase e else am_status a)\<rparr>"

definition group_event :: "attempt list \<Rightarrow> attempt_event \<Rightarrow> attempt list" where
  "group_event as e =
     (case tselect am_no as (ae_no e) of
        Some a \<Rightarrow> tput am_no as (join_attempt e a)
      | None \<Rightarrow> as @ [join_attempt e \<lparr>am_no = ae_no e, am_status = AttemptInProgress, am_events = []\<rparr>])"

fun mark_unknown :: "attempt list \<Rightarrow> attempt list" where
  "mark_unknown [] = []"
| "mark_unknown [a] = [a]"
| "mark_unknown (a # b # as) =
     (if am_status a = AttemptInProgress then a\<lparr>am_status := AttemptUnknown\<rparr> else a) # mark_unknown (b # as)"

definition groupAttempts :: "attempt_event list \<Rightarrow> attempt list" where
  "groupAttempts evs = mark_unknown (sort_key am_no (foldl group_event [] evs))"

definition deriveResult :: "bool \<Rightarrow> attempt list \<Rightarrow> string" where
  "deriveResult permitted as =
     (if \<not> permitted then ResultRefused
      else if as = [] then ResultPending
      else if list_ex (\<lambda>a. am_status a = PhaseSucceeded) as then ResultSucceeded
      else if am_status (last as) = PhaseFailed then ResultFailed
      else if am_status (last as) = PhasePartial then ResultPartial
      else ResultInProgress)"

section \<open>References\<close>

datatype ref_status = RefFound | RefNotFound | RefMismatch

record approval_ref =
  rf_id :: string
  rf_status :: ref_status
  rf_approval :: "action_approval option"
  rf_detail :: "string list"

record evidence_record =
  ev_execution :: string
  ev_runtime :: string

record evidence_ref =
  rv_id :: string
  rv_no :: int
  rv_seq :: int
  rv_status :: ref_status
  rv_evidence :: "evidence_record option"

text \<open>The detail is the list of the fields the text of the code joins.\<close>

definition resolveApproval :: "hash \<Rightarrow> approval_look \<Rightarrow> decision_row \<Rightarrow> decision_error + approval_ref" where
  "resolveApproval H look d =
     (let i = di_approval (dr_input d) in
      case look of
        None \<Rightarrow> Inl DcUnobservable
      | Some (t, adb) \<Rightarrow>
          (case ActionApproval t i adb of
             Inl ApprovalNotFound \<Rightarrow> Inr \<lparr>rf_id = i, rf_status = RefNotFound, rf_approval = None, rf_detail = []\<rparr>
           | Inl _ \<Rightarrow> Inl DcUnobservable
           | Inr a \<Rightarrow>
               (let bad = bindingMismatches H (binding_of (dr_input d)) a @
                     (if dr_intent_hash d \<noteq> '''' \<and> ap_intent_hash a \<noteq> dr_intent_hash d then [''intent_hash''] else [])
                in Inr \<lparr>rf_id = i, rf_status = (if bad \<noteq> [] then RefMismatch else RefFound), rf_approval = Some a, rf_detail = bad\<rparr>)))"

definition attemptRuntimeID :: "attempt list \<Rightarrow> int \<Rightarrow> string" where
  "attemptRuntimeID as no =
     (case concat (map (\<lambda>a. if am_no a \<noteq> no then [] else filter (\<lambda>i. i \<noteq> '''') (map ae_runtime (am_events a))) as) of
        [] \<Rightarrow> '''' | i # _ \<Rightarrow> i)"

text \<open>An evidence store answers a record, that there is none, or nothing (Inl).\<close>

type_synonym evidence_look = "(string \<Rightarrow> unit + evidence_record option) option"

definition resolveEvidence ::
  "evidence_look \<Rightarrow> decision_row \<Rightarrow> attempt list \<Rightarrow> attempt_event \<Rightarrow> decision_error + evidence_ref" where
  "resolveEvidence look d as e =
     (let ref = \<lparr>rv_id = ae_evidence e, rv_no = ae_no e, rv_seq = ae_seq e, rv_status = RefFound, rv_evidence = None\<rparr>;
          x = di_execution (dr_input d) in
      case look of
        None \<Rightarrow> Inl DcUnobservable
      | Some get \<Rightarrow>
          (case get (ae_evidence e) of
             Inl _ \<Rightarrow> Inl DcUnobservable
           | Inr None \<Rightarrow> Inr (ref\<lparr>rv_status := RefNotFound\<rparr>)
           | Inr (Some ev) \<Rightarrow>
               Inr (ref\<lparr>rv_evidence := Some ev,
                 rv_status := (if ev_execution ev \<noteq> '''' \<and> ev_execution ev = x \<or>
                     ev_runtime ev \<noteq> '''' \<and> (ev_runtime ev = x \<or> ev_runtime ev = attemptRuntimeID as (ae_no e))
                   then RefFound else RefMismatch)\<rparr>)))"

section \<open>The chain\<close>

record chain =
  ch_decision :: decision_row
  ch_approval :: "approval_ref option"
  ch_attempts :: "attempt list"
  ch_evidence :: "evidence_ref list"
  ch_result :: string

text \<open>One REPEATABLE READ transaction; None is a read that fails.\<close>

definition decision_snapshot :: "string \<Rightarrow> decision_db option \<Rightarrow> decision_error + decision_row \<times> attempt_event list" where
  "decision_snapshot i db = andThen (GetDecision i db) (\<lambda>d. Inr (d, decisionEvents i (the db)))"

definition DecisionEvents :: "string \<Rightarrow> decision_db option \<Rightarrow> decision_error + attempt_event list" where
  "DecisionEvents i db = andThen (decision_snapshot i db) (\<lambda>(d, evs). Inr evs)"

fun resolve_all :: "('a \<Rightarrow> 'e + 'b) \<Rightarrow> 'a list \<Rightarrow> 'e + 'b list" where
  "resolve_all f [] = Inr []"
| "resolve_all f (x # xs) = andThen (f x) (\<lambda>y. andThen (resolve_all f xs) (\<lambda>ys. Inr (y # ys)))"

definition Chain :: "hash \<Rightarrow> string \<Rightarrow> decision_db option \<Rightarrow> approval_look \<Rightarrow> evidence_look \<Rightarrow> decision_error + chain" where
  "Chain H i db look evl =
     andThen (decision_snapshot i db) (\<lambda>(d, evs).
       (let as = groupAttempts evs in
        andThen (if di_approval (dr_input d) = '''' then Inr None
                 else andThen (resolveApproval H look d) (\<lambda>r. Inr (Some r))) (\<lambda>ap.
          andThen (resolve_all (resolveEvidence evl d as) (filter (\<lambda>e. ae_evidence e \<noteq> '''') evs)) (\<lambda>refs.
            Inr \<lparr>ch_decision = d, ch_approval = ap, ch_attempts = as, ch_evidence = refs,
                 ch_result = deriveResult (dr_permitted d) as\<rparr>))))"

end
