(* ===== verification/Decision_Invariant.thy ===== *)
theory Decision_Invariant
  imports Decision_Store Approval_Props
begin

text \<open>
  The contract of the attempts of a decision: the log of events they may write, as a relation of its own,
  what every such log looks like, and that the code's rule for the next event is exactly that relation.
\<close>

section \<open>Logs\<close>

abbreviation ae_starts :: "attempt_event \<Rightarrow> bool" where "ae_starts e \<equiv> ae_phase e = PhaseStarted"

definition starts :: "attempt_event list \<Rightarrow> int list" where
  "starts evs = map ae_no (filter ae_starts evs)"

definition ends :: "attempt_event list \<Rightarrow> int list" where
  "ends evs = map ae_no (filter (\<lambda>e. \<not> ae_starts e) evs)"

definition succeeds :: "attempt_event list \<Rightarrow> bool" where
  "succeeds evs \<longleftrightarrow> (\<exists>e \<in> set evs. ae_phase e = PhaseSucceeded)"

inductive attempt_log :: "string \<Rightarrow> attempt_event list \<Rightarrow> bool" for code where
  empty: "attempt_log code []"
| opens: "attempt_log code evs \<Longrightarrow> Permitted code \<Longrightarrow> \<not> succeeds evs \<Longrightarrow> int (length (starts evs)) < maxAttemptsPerDec \<Longrightarrow>
    ae_phase e = PhaseStarted \<Longrightarrow> ae_no e = int (length (starts evs)) + 1 \<Longrightarrow>
    ae_seq e = int (length evs) + 1 \<Longrightarrow> ae_key e \<notin> ae_key ` set evs \<Longrightarrow> attempt_log code (evs @ [e])"
| closes: "attempt_log code evs \<Longrightarrow> AttemptEnded (ae_phase e) \<Longrightarrow> ae_no e \<in> set (starts evs) \<Longrightarrow> ae_no e \<notin> set (ends evs) \<Longrightarrow>
    ae_seq e = int (length evs) + 1 \<Longrightarrow> ae_key e \<notin> ae_key ` set evs \<Longrightarrow> attempt_log code (evs @ [e])"

inductive_cases attempt_logE: "attempt_log code (evs @ [e])"

lemma ended_not_started: "AttemptEnded p \<Longrightarrow> p \<noteq> PhaseStarted"
  by (auto simp: AttemptEnded_def phase_defs)

lemma started_not_ended [simp]: "\<not> AttemptEnded PhaseStarted"
  using ended_not_started by blast

lemma starts_simps [simp]:
  "starts [] = []" "starts (evs @ [e]) = (if ae_starts e then starts evs @ [ae_no e] else starts evs)"
  by (simp_all add: starts_def)

lemma ends_simps [simp]:
  "ends [] = []" "ends (evs @ [e]) = (if ae_starts e then ends evs else ends evs @ [ae_no e])"
  by (simp_all add: ends_def)

lemma succeeds_simps [simp]:
  "\<not> succeeds []" "succeeds (evs @ [e]) \<longleftrightarrow> succeeds evs \<or> ae_phase e = PhaseSucceeded"
  by (auto simp: succeeds_def)

lemma upto_snoc: "[1..1 + int n] = [1..int n] @ [1 + int n]"
  using upto_rec2 [of 1 "1 + int n"] by simp

lemma log_seqs: "attempt_log code evs \<Longrightarrow> map ae_seq evs = [1..int (length evs)]"
  by (induction rule: attempt_log.induct) (simp_all add: upto_snoc add.commute [of _ 1])

lemma log_keys: "attempt_log code evs \<Longrightarrow> distinct (map ae_key evs)"
  by (induction rule: attempt_log.induct) simp_all

lemma log_starts: "attempt_log code evs \<Longrightarrow> starts evs = [1..int (length (starts evs))]"
  by (induction rule: attempt_log.induct) (simp_all add: ended_not_started upto_snoc add.commute [of _ 1])

lemma log_ends: "attempt_log code evs \<Longrightarrow> distinct (ends evs) \<and> set (ends evs) \<subseteq> set (starts evs)"
  by (induction rule: attempt_log.induct) (auto simp: ended_not_started)

lemma log_bound: "attempt_log code evs \<Longrightarrow> int (length (starts evs)) \<le> maxAttemptsPerDec"
  by (induction rule: attempt_log.induct) (auto simp: maxAttemptsPerDec_def ended_not_started)

lemma log_permitted: "attempt_log code evs \<Longrightarrow> evs \<noteq> [] \<Longrightarrow> Permitted code"
proof (induction rule: attempt_log.induct)
  case (closes evs e)
  then show ?case by (cases "evs = []") simp_all
qed simp_all

lemma log_numbers: "attempt_log code evs \<Longrightarrow> e \<in> set evs \<Longrightarrow> ae_no e \<in> set (starts evs)"
  by (induction rule: attempt_log.induct) (auto simp: ended_not_started)

lemma log_number_range: "attempt_log code evs \<Longrightarrow> e \<in> set evs \<Longrightarrow> 1 \<le> ae_no e \<and> ae_no e \<le> int (length (starts evs))"
  using log_numbers [of code evs e] log_starts [of code evs] by (metis atLeastAtMost_iff set_upto)

lemma log_phases: "attempt_log code evs \<Longrightarrow> e \<in> set evs \<Longrightarrow> ae_starts e \<or> AttemptEnded (ae_phase e)"
  by (induction rule: attempt_log.induct) auto

lemma log_length: "attempt_log code evs \<Longrightarrow> length evs \<le> 2 * length (starts evs)"
proof -
  assume log: "attempt_log code evs"
  have "length (ends evs) \<le> length (starts evs)"
    using log_ends [OF log] by (metis card_mono distinct_card dual_order.trans finite_set card_length)
  moreover have "length evs = length (starts evs) + length (ends evs)"
    by (simp add: starts_def ends_def sum_length_filter_compl)
  ultimately show ?thesis by simp
qed

lemma log_prefix: "attempt_log code (evs @ es) \<Longrightarrow> attempt_log code evs"
proof (induction es rule: rev_induct)
  case (snoc e es)
  have "attempt_log code ((evs @ es) @ [e])" using snoc.prems by simp
  then have "attempt_log code (evs @ es)" by (cases rule: attempt_logE)
  then show ?case by (rule snoc.IH)
qed simp

section \<open>The code's rule\<close>

lemma attempt_scan_eq:
  "attempt_scan evs (m, st, cl, ok) =
     (fold (\<lambda>e k. max k (ae_no e)) evs m, rev (starts evs) @ st, rev (ends evs) @ cl,
      ok \<or> (\<exists>e \<in> set evs. ae_phase e = PhaseSucceeded))"
  by (induction evs arbitrary: m st cl ok) (auto simp: starts_def ends_def phase_defs)

lemma log_max: "attempt_log code evs \<Longrightarrow> fold (\<lambda>e k. max k (ae_no e)) evs 0 = int (length (starts evs))"
proof (induction rule: attempt_log.induct)
  case (closes evs e)
  then have "ae_no e \<le> int (length (starts evs))" using log_starts [of code evs] by (metis atLeastAtMost_iff set_upto)
  with closes show ?case by (simp add: ended_not_started)
qed simp_all

lemma nextAttempt_log:
  assumes "attempt_log code evs"
  shows "nextAttempt code evs inp =
     (if at_phase inp = PhaseStarted then
        (if \<not> Permitted code then Inl DcNotPermitted
         else if succeeds evs then Inl DcAlreadySucceeded
         else if maxAttemptsPerDec \<le> int (length (starts evs)) then Inl DcTooManyAttempts
         else Inr (int (length (starts evs)) + 1))
      else if at_no inp \<notin> set (starts evs) then Inl DcAttemptNotFound
      else if at_no inp \<in> set (ends evs) then Inl DcAttemptClosed
      else Inr (at_no inp))"
  by (simp add: nextAttempt_def attempt_scan_eq log_max [OF assms] succeeds_def)

lemma new_event_simps [simp]:
  "ae_decision (new_event now seq no t inp) = at_decision inp" "ae_seq (new_event now seq no t inp) = seq"
  "ae_no (new_event now seq no t inp) = no" "ae_phase (new_event now seq no t inp) = at_phase inp"
  "ae_key (new_event now seq no t inp) = at_key inp"
  by (simp_all add: new_event_def)

lemma valid_phase: "attempt_validate inp = None \<Longrightarrow> at_phase inp = PhaseStarted \<or> AttemptEnded (at_phase inp)"
  by (auto simp: attempt_validate_def first_error_None phase_fields_def AttemptEnded_def split: if_splits)

text \<open>An event the rule admits extends the log, and the unique indexes have nothing against it.\<close>

lemma next_event_log:
  assumes log: "attempt_log code evs" and ok: "attempt_validate inp = None" and nx: "nextAttempt code evs inp = Inr no"
    and key: "at_key inp \<notin> ae_key ` set evs"
  shows "attempt_log code (evs @ [new_event now (int (length evs) + 1) no t inp])"
proof (cases "at_phase inp = PhaseStarted")
  case True
  with nx log show ?thesis
    by (intro attempt_log.opens) (use key in \<open>auto simp: nextAttempt_log split: if_splits\<close>)
next
  case False
  with nx log valid_phase [OF ok] show ?thesis
    by (intro attempt_log.closes) (use key in \<open>auto simp: nextAttempt_log split: if_splits\<close>)
qed

lemma no_clash:
  assumes log: "attempt_log code (evs @ [e])" and dec: "\<And>x. x \<in> set all \<Longrightarrow> ae_decision x = ae_decision e \<Longrightarrow> x \<in> set evs"
  shows "\<not> list_ex (event_clash e) all \<and> 1 \<le> ae_seq e \<and> 1 \<le> ae_no e"
proof -
  have pre: "attempt_log code evs" by (rule log_prefix [OF log])
  have seqs: "ae_seq e \<notin> ae_seq ` set evs" "1 \<le> ae_seq e"
  proof -
    have e: "ae_seq e = int (length evs) + 1" using log by (cases rule: attempt_logE)
    then show "1 \<le> ae_seq e" by simp
    have "ae_seq ` set evs = {1..int (length evs)}" using log_seqs [OF pre] by (metis set_map set_upto)
    with e show "ae_seq e \<notin> ae_seq ` set evs" by simp
  qed
  have keys: "ae_key e \<notin> ae_key ` set evs" using log_keys [OF log] by simp
  have starts: "ae_no e \<notin> set (starts evs)" if "ae_starts e"
  proof -
    from log that have "ae_no e = int (length (starts evs)) + 1" by (cases rule: attempt_logE) (auto simp: ended_not_started)
    then show ?thesis using log_starts [OF pre] by (metis atLeastAtMost_iff set_upto add.commute zle_add1_eq_le less_irrefl)
  qed
  have ends: "ae_no e \<notin> set (ends evs)" if "\<not> ae_starts e" using log_ends [OF log] that by simp
  have "\<not> event_clash e x" if "x \<in> set all" for x
  proof
    assume c: "event_clash e x"
    then have x: "x \<in> set evs" using dec [OF that] by (simp add: event_clash_def)
    then have "ae_seq x \<noteq> ae_seq e" "ae_key x \<noteq> ae_key e" using seqs(1) keys by (metis imageI)+
    with c have n: "ae_no x = ae_no e" "ae_starts x \<longleftrightarrow> ae_starts e" by (auto simp: event_clash_def)
    with x have "ae_no e \<in> set (if ae_starts e then starts evs else ends evs)" by (auto simp: starts_def ends_def image_iff intro!: bexI [of _ x])
    with starts ends show False by (cases "ae_starts e") simp_all
  qed
  then have "\<not> list_ex (event_clash e) all" by (simp add: list_ex_iff)
  moreover have "1 \<le> ae_no e" using log_number_range [OF log, of e] by simp
  ultimately show ?thesis using seqs(2) by simp
qed

text \<open>
  The decision store running beside the approvals: what every table it can reach looks like.
\<close>

section \<open>The machine\<close>

datatype decision_op =
    DcRecord stmt_fault gotime string record_input "decision_db option" approval_look "decision_db option"
  | DcAppend tx_fault gotime attempt_input
  | DcPurge stmt_fault gotime duration

fun decision_run :: "hash \<Rightarrow> decision_op \<Rightarrow> decision_db \<Rightarrow> decision_db" where
  "decision_run H (DcRecord fault now uuid inp dbr look dbx) db = fst (RecordDecision H fault now uuid inp dbr look dbx db)"
| "decision_run H (DcAppend fault now inp) db = fst (AppendAttempt fault now inp db)"
| "decision_run H (DcPurge fault now age) db = fst (PurgeOlderThan fault now age db)"

text \<open>An approval is looked up in a ledger the approvals can reach.\<close>

definition honest_look :: "hash \<Rightarrow> duration \<Rightarrow> approval_look \<Rightarrow> bool" where
  "honest_look H cfg look \<longleftrightarrow>
     (case look of Some (t, Some adb) \<Rightarrow> \<exists>s. gate_reach H cfg s \<and> adb = gs_db s | _ \<Rightarrow> True)"

fun decision_op_ok :: "hash \<Rightarrow> duration \<Rightarrow> decision_op \<Rightarrow> bool" where
  "decision_op_ok H cfg (DcRecord fault now uuid inp dbr look dbx) \<longleftrightarrow> honest_look H cfg look"
| "decision_op_ok H cfg _ \<longleftrightarrow> True"

inductive decision_reach :: "hash \<Rightarrow> duration \<Rightarrow> decision_db \<Rightarrow> bool" for H cfg where
  dc_init: "decision_reach H cfg empty_ddb"
| dc_call: "decision_reach H cfg db \<Longrightarrow> decision_op_ok H cfg op \<Longrightarrow> decision_reach H cfg (decision_run H op db)"

section \<open>The invariant\<close>

text \<open>A permit that names an approval was bound to it when it was written.\<close>

definition authorised :: "hash \<Rightarrow> duration \<Rightarrow> record_input \<Rightarrow> string \<Rightarrow> bool" where
  "authorised H cfg inp intent \<longleftrightarrow>
     (\<exists>s t a. gate_reach H cfg s \<and> a \<in> set (ad_rows (gs_db s)) \<and> ap_id a = di_approval inp \<and>
        checkApprovalBinding H inp (scanActionApproval t a) = None \<and> intent = ap_intent_hash a)"

definition decision_row_ok :: "hash \<Rightarrow> duration \<Rightarrow> decision_row \<Rightarrow> bool" where
  "decision_row_ok H cfg d \<longleftrightarrow>
     record_validate (dr_input d) = None \<and> dr_digest d = contentDigest H (dr_input d) \<and>
     (di_approval (dr_input d) \<noteq> '''' \<and> dr_permitted d \<longrightarrow> authorised H cfg (dr_input d) (dr_intent_hash d))"

definition events_of :: "string \<Rightarrow> decision_db \<Rightarrow> attempt_event list" where
  "events_of i db = filter (\<lambda>e. ae_decision e = i) (dd_events db)"

definition decisions_ok :: "hash \<Rightarrow> duration \<Rightarrow> decision_db \<Rightarrow> bool" where
  "decisions_ok H cfg db \<longleftrightarrow>
     unique_key dr_id (dd_rows db) \<and> unique_key dr_key (dd_rows db) \<and>
     (\<forall>d \<in> set (dd_rows db). decision_row_ok H cfg d \<and> attempt_log (dr_code d) (events_of (dr_id d) db)) \<and>
     (\<forall>e \<in> set (dd_events db). ae_decision e \<in> dr_id ` set (dd_rows db))"

lemma decisions_okD:
  assumes "decisions_ok H cfg db"
  shows "unique_key dr_id (dd_rows db)" "unique_key dr_key (dd_rows db)"
    "d \<in> set (dd_rows db) \<Longrightarrow> decision_row_ok H cfg d" "d \<in> set (dd_rows db) \<Longrightarrow> attempt_log (dr_code d) (events_of (dr_id d) db)"
    "e \<in> set (dd_events db) \<Longrightarrow> ae_decision e \<in> dr_id ` set (dd_rows db)"
  using assms by (auto simp: decisions_ok_def)

lemma sorted_by_seq: "map ae_seq evs = [1..n] \<Longrightarrow> sort_key ae_seq evs = evs"
  by (rule sort_key_id_if_sorted) (metis sorted_wrt_upto sorted_upto)

lemma decisionEvents_eq: "attempt_log code (events_of i db) \<Longrightarrow> decisionEvents i db = events_of i db"
  unfolding decisionEvents_def events_of_def [symmetric] by (rule sorted_by_seq [OF log_seqs])

section \<open>Record\<close>

lemma claimed_authorised:
  assumes "claimed_intent H inp look = Inr intent" and "honest_look H cfg look" and "di_approval inp \<noteq> ''''" "Permitted (di_code inp)"
  shows "authorised H cfg inp intent"
proof -
  obtain t adb where l: "look = Some (t, adb)" using assms by (cases look) (auto simp: claimed_intent_def)
  obtain a where a: "ActionApproval t (di_approval inp) adb = Inr a" "checkApprovalBinding H inp a = None" "intent = ap_intent_hash a"
    using assms by (auto simp: claimed_intent_def l check_Inr split: sum.splits approval_error.splits)
  from a(1) obtain d r where r: "adb = Some d" "tselect ap_id (ad_rows d) (di_approval inp) = Some r" "a = scanActionApproval t r"
    by (auto simp: ActionApproval_def getActionApproval_def split: option.splits)
  obtain s where "gate_reach H cfg s" "d = gs_db s" using assms(2) by (auto simp: honest_look_def l r(1))
  moreover have "r \<in> set (ad_rows d)" "ap_id r = di_approval inp" using tselect_SomeD [OF r(2)] by simp_all
  moreover have "intent = ap_intent_hash r" using a(3) r(3) by (simp add: scanActionApproval_def)
  ultimately show ?thesis using a(2) r(3) by (auto simp: authorised_def)
qed

lemma record_effect:
  assumes "RecordDecision H fault now uuid inp dbr look dbx db = (db', out)"
  shows "db' = db \<or> (\<exists>intent d. record_validate inp = None \<and> claimed_intent H inp look = Inr intent \<and>
      d = new_decision (contentDigest H inp) now uuid intent inp \<and>
      tselect dr_key (dd_rows db) (dr_key d) = None \<and> tselect dr_id (dd_rows db) (dr_id d) = None \<and>
      db' = db\<lparr>dd_rows := dd_rows db @ [d]\<rparr>)"
  using assms by (auto simp: RecordDecision_def insert_decision_def Let_def split: option.splits sum.splits if_splits prod.splits)

lemma record_keeps:
  assumes "decisions_ok H cfg db" and "honest_look H cfg look"
  shows "decisions_ok H cfg (fst (RecordDecision H fault now uuid inp dbr look dbx db))"
proof -
  obtain db' out where r: "RecordDecision H fault now uuid inp dbr look dbx db = (db', out)" by fastforce
  from record_effect [OF r] show ?thesis
  proof (elim disjE exE conjE)
    fix intent d
    assume v: "record_validate inp = None" and c: "claimed_intent H inp look = Inr intent"
      and d: "d = new_decision (contentDigest H inp) now uuid intent inp"
      and k: "tselect dr_key (dd_rows db) (dr_key d) = None" "tselect dr_id (dd_rows db) (dr_id d) = None"
      and db': "db' = db\<lparr>dd_rows := dd_rows db @ [d]\<rparr>"
    have ok: "decision_row_ok H cfg d"
      using v claimed_authorised [OF c assms(2)] by (simp add: decision_row_ok_def d new_decision_def)
    have none: "events_of (dr_id d) db = []"
      unfolding events_of_def filter_empty_conv using decisions_okD(5) [OF assms(1)] k(2) [unfolded tselect_None_iff] by metis
    show ?thesis unfolding r fst_conv db' decisions_ok_def
      using decisions_okD [OF assms(1)] unique_new [of dr_id "dd_rows db" d] unique_new [of dr_key "dd_rows db" d] k ok none
      by (auto simp: events_of_def attempt_log.empty)
  qed (use assms r in simp)
qed

section \<open>Attempts\<close>

lemma append_effect:
  assumes "AppendAttempt fault now inp db = (db', out)"
  shows "db' = db \<or> (\<exists>d no t e. attempt_validate inp = None \<and> tselect dr_id (dd_rows db) (at_decision inp) = Some d \<and>
      find (\<lambda>e. ae_key e = at_key inp) (decisionEvents (at_decision inp) db) = None \<and>
      nextAttempt (dr_code d) (decisionEvents (at_decision inp) db) inp = Inr no \<and>
      e = new_event now (int (length (decisionEvents (at_decision inp) db)) + 1) no t inp \<and>
      db' = db\<lparr>dd_events := dd_events db @ [e]\<rparr>)"
  using assms by (auto simp: AppendAttempt_def attempt_body_def insert_event_def andThen_Inr Let_def
      split: option.splits sum.splits if_splits prod.splits)

lemma append_keeps:
  assumes ok: "decisions_ok H cfg db"
  shows "decisions_ok H cfg (fst (AppendAttempt fault now inp db))"
proof -
  obtain db' out where r: "AppendAttempt fault now inp db = (db', out)" by fastforce
  from append_effect [OF r] show ?thesis
  proof (elim disjE exE conjE)
    fix d no t e
    assume v: "attempt_validate inp = None" and sel: "tselect dr_id (dd_rows db) (at_decision inp) = Some d"
      and key: "find (\<lambda>e. ae_key e = at_key inp) (decisionEvents (at_decision inp) db) = None"
      and nx: "nextAttempt (dr_code d) (decisionEvents (at_decision inp) db) inp = Inr no"
      and e: "e = new_event now (int (length (decisionEvents (at_decision inp) db)) + 1) no t inp"
      and db': "db' = db\<lparr>dd_events := dd_events db @ [e]\<rparr>"
    have d: "d \<in> set (dd_rows db)" "dr_id d = at_decision inp" using tselect_SomeD [OF sel] by simp_all
    have log: "attempt_log (dr_code d) (events_of (at_decision inp) db)" using decisions_okD(4) [OF ok d(1)] d(2) by simp
    note evs = decisionEvents_eq [OF log]
    have "at_key inp \<notin> ae_key ` set (events_of (at_decision inp) db)" using key unfolding evs by (auto simp: find_None_iff)
    then have new: "attempt_log (dr_code d) (events_of (at_decision inp) db @ [e])"
      unfolding e evs by (intro next_event_log [OF log v]) (use nx evs in simp_all)
    have dec: "ae_decision e = at_decision inp" by (simp add: e)
    have "attempt_log (dr_code x) (events_of (dr_id x) db')" if x: "x \<in> set (dd_rows db)" for x
    proof (cases "dr_id x = at_decision inp")
      case True
      then have "x = d" using tsel_same [OF decisions_okD(1) [OF ok] x d(1)] d(2) by simp
      with new dec True show ?thesis by (simp add: events_of_def db')
    next
      case False
      with decisions_okD(4) [OF ok x] dec show ?thesis by (simp add: events_of_def db')
    qed
    moreover have "at_decision inp \<in> dr_id ` set (dd_rows db)" using d by (metis imageI)
    ultimately show ?thesis unfolding r fst_conv decisions_ok_def
      using decisions_okD [OF ok] dec by (auto simp: db')
  qed (use ok r in simp)
qed

section \<open>Retention\<close>

lemma purge_effect:
  "\<exists>p. dd_rows (fst (PurgeOlderThan fault now age db)) = filter p (dd_rows db) \<and>
     dd_events (fst (PurgeOlderThan fault now age db)) =
       filter (\<lambda>e. ae_decision e \<notin> dr_id ` {r \<in> set (dd_rows db). \<not> p r}) (dd_events db)"
proof (cases "age \<le> 0 \<or> fault = StmtFails")
  case True
  then show ?thesis by (intro exI [of _ "\<lambda>_. True"]) (auto simp: PurgeOlderThan_def)
next
  case False
  then show ?thesis by (intro exI [of _ "\<lambda>r. \<not> dr_recorded_at r < now - age"]) (auto simp: PurgeOlderThan_def Let_def)
qed

lemma purge_keeps:
  assumes ok: "decisions_ok H cfg db"
  shows "decisions_ok H cfg (fst (PurgeOlderThan fault now age db))"
proof -
  let ?db = "fst (PurgeOlderThan fault now age db)"
  obtain p where p: "dd_rows ?db = filter p (dd_rows db)"
    "dd_events ?db = filter (\<lambda>e. ae_decision e \<notin> dr_id ` {r \<in> set (dd_rows db). \<not> p r}) (dd_events db)"
    using purge_effect [of fault now age db] by blast
  have kept: "dr_id d \<notin> dr_id ` {r \<in> set (dd_rows db). \<not> p r}" if "d \<in> set (dd_rows db)" "p d" for d
  proof
    assume "dr_id d \<in> dr_id ` {r \<in> set (dd_rows db). \<not> p r}"
    then obtain q where "q \<in> set (dd_rows db)" "\<not> p q" "dr_id d = dr_id q" by auto
    with tsel_same [OF decisions_okD(1) [OF ok] that(1), of q] that(2) show False by simp
  qed
  have "events_of (dr_id d) ?db = events_of (dr_id d) db" if "d \<in> set (dd_rows db)" "p d" for d
    using kept [OF that] unfolding events_of_def p(2) filter_filter by (intro filter_cong) metis+
  moreover have "ae_decision e \<in> dr_id ` {r \<in> set (dd_rows db). p r}"
    if "e \<in> set (dd_events db)" "ae_decision e \<notin> dr_id ` {r \<in> set (dd_rows db). \<not> p r}" for e
    using decisions_okD(5) [OF ok that(1)] that(2) by blast
  ultimately show ?thesis unfolding decisions_ok_def
    using decisions_okD [OF ok] by (auto simp: p unique_key_def distinct_map_filter)
qed

lemma decision_reach_ok: "decision_reach H cfg db \<Longrightarrow> decisions_ok H cfg db"
proof (induction rule: decision_reach.induct)
  case dc_init
  then show ?case by (simp add: decisions_ok_def empty_ddb_def unique_key_def)
next
  case (dc_call db op)
  then show ?case by (cases op) (simp_all add: record_keeps append_keeps purge_keeps)
qed

end
