(* ===== verification/Decision_Replay.thy ===== *)
theory Decision_Replay
  imports Decision_Invariant
begin

text \<open>
  What the chain of a decision shows of its log, and how a log grows: the facts behind the properties of
  the decision records.
\<close>

section \<open>The attempts of a log\<close>

definition end_of :: "attempt_event list \<Rightarrow> int \<Rightarrow> attempt_event option" where
  "end_of evs n = find (\<lambda>e. ae_no e = n \<and> \<not> ae_starts e) evs"

definition attempt_of :: "attempt_event list \<Rightarrow> int \<Rightarrow> attempt" where
  "attempt_of evs n =
     \<lparr>am_no = n, am_status = (case end_of evs n of None \<Rightarrow> AttemptInProgress | Some e \<Rightarrow> ae_phase e),
      am_events = filter (\<lambda>e. ae_no e = n) evs\<rparr>"

lemma find_snoc: "find p (xs @ [x]) = (case find p xs of Some y \<Rightarrow> Some y | None \<Rightarrow> if p x then Some x else None)"
  by (induction xs) auto

lemma end_of_snoc:
  "end_of (evs @ [e]) n = (case end_of evs n of Some x \<Rightarrow> Some x | None \<Rightarrow> if ae_no e = n \<and> \<not> ae_starts e then Some e else None)"
  by (simp add: end_of_def find_snoc)

lemma end_of_None: "end_of evs n = None \<longleftrightarrow> n \<notin> set (ends evs)"
  by (auto simp: end_of_def find_None_iff ends_def)

lemma attempt_of_other: "ae_no e \<noteq> n \<Longrightarrow> attempt_of (evs @ [e]) n = attempt_of evs n"
  by (simp add: attempt_of_def end_of_snoc split: option.splits)

lemma attempt_of_no [simp]: "am_no (attempt_of evs n) = n"
  by (simp add: attempt_of_def)

lemma tselect_attempts: "tselect am_no (map (attempt_of evs) ns) n = (if n \<in> set ns then Some (attempt_of evs n) else None)"
  by (induction ns) (auto simp: tselect_Cons)

lemma group_log:
  assumes "attempt_log code evs"
  shows "foldl group_event [] evs = map (attempt_of evs) (starts evs)"
  using assms
proof (induction rule: attempt_log.induct)
  case (opens evs e)
  have new: "ae_no e \<notin> set (starts evs)"
    using log_starts [OF opens(1)] opens(6) by (metis atLeastAtMost_iff set_upto add.commute zle_add1_eq_le less_irrefl)
  have "filter (\<lambda>x. ae_no x = ae_no e) evs = []" unfolding filter_empty_conv using log_numbers [OF opens(1)] new by metis
  moreover have "end_of evs (ae_no e) = None" using log_ends [OF opens(1)] new by (auto simp: end_of_None)
  ultimately have "attempt_of (evs @ [e]) (ae_no e) = join_attempt e \<lparr>am_no = ae_no e, am_status = AttemptInProgress, am_events = []\<rparr>"
    using opens(5) by (simp add: attempt_of_def end_of_snoc join_attempt_def AttemptEnded_def phase_defs)
  moreover have "map (attempt_of (evs @ [e])) (starts evs) = map (attempt_of evs) (starts evs)"
    using new by (intro map_cong refl attempt_of_other) auto
  ultimately show ?case using opens new by (simp add: group_event_def tselect_attempts)
next
  case (closes evs e)
  have e: "\<not> ae_starts e" using ended_not_started [OF closes(2)] .
  have "end_of evs (ae_no e) = None" using closes(4) by (simp add: end_of_None)
  then have "attempt_of (evs @ [e]) (ae_no e) = join_attempt e (attempt_of evs (ae_no e))"
    using closes(2) e by (simp add: attempt_of_def end_of_snoc join_attempt_def)
  then have "attempt_of (evs @ [e]) n = (if n = ae_no e then join_attempt e (attempt_of evs (ae_no e)) else attempt_of evs n)" for n
    using attempt_of_other by simp
  moreover have "am_no (join_attempt e (attempt_of evs (ae_no e))) = ae_no e" by (simp add: join_attempt_def)
  ultimately show ?case
    using closes e by (simp add: group_event_def tselect_attempts tput_def comp_def)
qed simp

lemma mark_unknown_eq:
  "as \<noteq> [] \<Longrightarrow> mark_unknown as =
     map (\<lambda>a. if am_status a = AttemptInProgress then a\<lparr>am_status := AttemptUnknown\<rparr> else a) (butlast as) @ [last as]"
  by (induction as rule: mark_unknown.induct) auto

text \<open>The status of attempt \<open>n\<close> of a log with \<open>k\<close> attempts.\<close>

definition status_of :: "attempt_event list \<Rightarrow> int \<Rightarrow> int \<Rightarrow> string" where
  "status_of evs k n =
     (case end_of evs n of Some e \<Rightarrow> ae_phase e | None \<Rightarrow> if n = k then AttemptInProgress else AttemptUnknown)"

lemma log_end: "attempt_log code evs \<Longrightarrow> end_of evs n = Some e \<Longrightarrow> AttemptEnded (ae_phase e)"
  by (auto simp: end_of_def find_Some_iff dest: log_phases [OF _ nth_mem])

lemma end_of_tselect: "end_of evs n = tselect ae_no (filter (\<lambda>e. \<not> ae_starts e) evs) n"
  unfolding end_of_def tselect_def by (induction evs) auto

lemma end_of_event: "attempt_log code evs \<Longrightarrow> e \<in> set evs \<Longrightarrow> \<not> ae_starts e \<Longrightarrow> end_of evs (ae_no e) = Some e"
  unfolding end_of_tselect by (rule tsel_in) (use log_ends [of code evs] in \<open>simp_all add: unique_key_def ends_def\<close>)

lemma end_of_SomeD: "end_of evs n = Some e \<Longrightarrow> e \<in> set evs \<and> ae_no e = n \<and> \<not> ae_starts e"
  by (auto simp: end_of_def find_Some_iff)

lemma ended_status: "AttemptEnded p \<Longrightarrow> p \<noteq> AttemptInProgress"
  by (auto simp: AttemptEnded_def status_defs)

lemma attempts_of_log:
  assumes log: "attempt_log code evs" and k: "k = int (length (starts evs))"
  shows "groupAttempts evs = map (\<lambda>n. (attempt_of evs n)\<lparr>am_status := status_of evs k n\<rparr>) [1..k]"
proof (cases "k = 0")
  case True
  with k have "starts evs = []" by simp
  with True show ?thesis by (simp add: groupAttempts_def group_log [OF log])
next
  case False
  have st: "starts evs = [1..k]" using log_starts [OF log] k by simp
  have last: "[1..k] = [1..k - 1] @ [k]" by (rule upto_rec2) (use False k in \<open>cases "starts evs"; simp\<close>)
  have one: "(if am_status (attempt_of evs n) = AttemptInProgress then (attempt_of evs n)\<lparr>am_status := AttemptUnknown\<rparr> else attempt_of evs n)
      = (attempt_of evs n)\<lparr>am_status := status_of evs k n\<rparr>" if "n < k" for n
    using that log_end [OF log, of n]
    by (cases "end_of evs n") (simp_all add: attempt_of_def status_of_def ended_status)
  have "sort_key am_no (map (attempt_of evs) [1..k]) = map (attempt_of evs) [1..k]"
    by (intro sort_key_id_if_sorted) (simp add: comp_def)
  then have "groupAttempts evs = mark_unknown (map (attempt_of evs) [1..k - 1] @ [attempt_of evs k])"
    by (simp add: groupAttempts_def group_log [OF log] st last del: map_append) (simp add: last)
  also have "\<dots> = map (\<lambda>n. (attempt_of evs n)\<lparr>am_status := status_of evs k n\<rparr>) [1..k - 1] @ [attempt_of evs k]"
    using one by (simp add: mark_unknown_eq)
  also have "attempt_of evs k = (attempt_of evs k)\<lparr>am_status := status_of evs k k\<rparr>"
    by (cases "end_of evs k") (simp_all add: attempt_of_def status_of_def)
  finally show ?thesis by (simp add: last)
qed

section \<open>Growth\<close>

text \<open>A purge reaches the decisions recorded before its cut, and no others.\<close>

fun spares_from :: "gotime \<Rightarrow> decision_op \<Rightarrow> bool" where
  "spares_from recorded (DcPurge fault now age) \<longleftrightarrow> now - age \<le> recorded"
| "spares_from recorded _ \<longleftrightarrow> True"

definition decision_runs :: "hash \<Rightarrow> decision_op list \<Rightarrow> decision_db \<Rightarrow> decision_db" where
  "decision_runs H ops db = foldl (\<lambda>d op. decision_run H op d) db ops"

text \<open>A decision no purge reaches keeps its row, and its log only grows.\<close>

lemma tselect_keeps: "tselect key rows k = Some r \<Longrightarrow> tselect key (rows @ rs) k = Some r"
  by (induction rows) (auto simp: tselect_Cons)

lemma tselect_filter: "tselect key rows k = Some r \<Longrightarrow> P r \<Longrightarrow> tselect key (filter P rows) k = Some r"
  by (induction rows) (auto simp: tselect_Cons split: if_splits)

lemma run_keeps:
  assumes reach: "decision_reach H cfg db" and d: "tselect dr_id (dd_rows db) i = Some d"
    and "spares_from (dr_recorded_at d) op"
  shows "tselect dr_id (dd_rows (decision_run H op db)) i = Some d \<and>
    set (events_of i db) \<subseteq> set (events_of i (decision_run H op db))"
proof (cases op)
  case (DcRecord fault now uuid inp dbr look dbx)
  obtain db' out where r: "RecordDecision H fault now uuid inp dbr look dbx db = (db', out)" by fastforce
  from record_effect [OF r] d show ?thesis by (auto simp: DcRecord r events_of_def intro: tselect_keeps)
next
  case (DcAppend fault now inp)
  obtain db' out where r: "AppendAttempt fault now inp db = (db', out)" by fastforce
  from append_effect [OF r] d show ?thesis by (auto simp: DcAppend r events_of_def)
next
  case (DcPurge fault now age)
  with assms(3) have "\<not> dr_recorded_at d < now - age" by simp
  moreover have "r = d" if "r \<in> set (dd_rows db)" "dr_id r = i" for r
    using tsel_same [OF decisions_okD(1) [OF decision_reach_ok [OF reach]] that(1), of d] tselect_SomeD [OF d] that(2) by simp
  ultimately have none: "i \<notin> set (map dr_id (filter (\<lambda>r. dr_recorded_at r < now - age) (dd_rows db)))" by auto
  show ?thesis
  proof (cases "age \<le> 0 \<or> fault = StmtFails")
    case False
    with none tselect_filter [OF d, of "\<lambda>r. \<not> dr_recorded_at r < now - age"] \<open>\<not> dr_recorded_at d < now - age\<close>
    show ?thesis by (auto simp: DcPurge PurgeOlderThan_def Let_def events_of_def)
  qed (use d in \<open>auto simp: DcPurge PurgeOlderThan_def\<close>)
qed

lemma runs_keep:
  assumes "decision_reach H cfg db" and "tselect dr_id (dd_rows db) i = Some d"
    and "list_all (decision_op_ok H cfg) ops" and "list_all (spares_from (dr_recorded_at d)) ops"
  shows "tselect dr_id (dd_rows (decision_runs H ops db)) i = Some d \<and>
    set (events_of i db) \<subseteq> set (events_of i (decision_runs H ops db))"
  using assms
proof (induction ops arbitrary: db)
  case (Cons op ops)
  have "decision_reach H cfg (decision_run H op db)" using Cons.prems(1,3) by (auto intro: decision_reach.dc_call)
  from Cons.IH [OF this] Cons.prems run_keeps [OF Cons.prems(1,2), of op] show ?case
    by (auto simp: decision_runs_def)
qed (simp add: decision_runs_def)

lemma decision_runs_reach:
  "decision_reach H cfg db \<Longrightarrow> list_all (decision_op_ok H cfg) ops \<Longrightarrow> decision_reach H cfg (decision_runs H ops db)"
  by (induction ops rule: rev_induct) (auto simp: decision_runs_def intro: decision_reach.dc_call)

lemma log_of_row:
  assumes "decision_reach H cfg db" and "tselect dr_id (dd_rows db) i = Some d"
  shows "attempt_log (dr_code d) (events_of i db)" "decisionEvents i db = events_of i db"
proof -
  have d: "d \<in> set (dd_rows db)" "dr_id d = i" using tselect_SomeD [OF assms(2)] by simp_all
  show "attempt_log (dr_code d) (events_of i db)"
    using decisions_okD(4) [OF decision_reach_ok [OF assms(1)] d(1)] d(2) by simp
  then show "decisionEvents i db = events_of i db" by (rule decisionEvents_eq)
qed

text \<open>What was answered to an append is in the log, under the key of the input.\<close>

lemma append_answer:
  assumes reach: "decision_reach H cfg db" and a: "AppendAttempt fault now inp db = (db', Inr (e, created))"
  obtains d where "tselect dr_id (dd_rows db') (at_decision inp) = Some d" "e \<in> set (events_of (at_decision inp) db')"
    "ae_key e = at_key inp" "sameEvent e inp" "attempt_validate inp = None" "created \<longleftrightarrow> db' \<noteq> db"
proof -
  have v: "attempt_validate inp = None" using a by (simp add: AppendAttempt_def split: option.splits)
  from a v have body: "attempt_body now inp db = Inr (db', e, created)"
    by (auto simp: AppendAttempt_def split: if_splits sum.splits)
  then obtain d where d: "tselect dr_id (dd_rows db) (at_decision inp) = Some d"
    by (cases "tselect dr_id (dd_rows db) (at_decision inp)") (auto simp: attempt_body_def)
  note log = log_of_row [OF reach d]
  show ?thesis
  proof (cases "find (\<lambda>e. ae_key e = at_key inp) (events_of (at_decision inp) db)")
    case (Some x)
    then have "x \<in> set (events_of (at_decision inp) db)" "ae_key x = at_key inp" by (auto simp: find_Some_iff)
    with body d Some show ?thesis by (intro that [of d]) (auto simp: attempt_body_def log v split: if_splits)
  next
    case None
    from body d None obtain no t where n: "nextAttempt (dr_code d) (events_of (at_decision inp) db) inp = Inr no" "at_occurred inp = Some t"
        "e = new_event now (int (length (events_of (at_decision inp) db)) + 1) no t inp" "created"
        "db' = db\<lparr>dd_events := dd_events db @ [e]\<rparr>"
      by (auto simp: attempt_body_def log Let_def andThen_Inr insert_event_def split: option.splits if_splits)
    have "at_phase inp = PhaseStarted \<or> no = at_no inp" using n(1) by (auto simp: nextAttempt_log [OF log(1)] split: if_splits)
    with n have "sameEvent e inp" by (auto simp: sameEvent_def new_event_def)
    moreover have "dd_events db' \<noteq> dd_events db" using n(5) by simp
    then have "db' \<noteq> db" by blast
    moreover have "e \<in> set (events_of (at_decision inp) db')" "tselect dr_id (dd_rows db') (at_decision inp) = Some d" "ae_key e = at_key inp"
      using n d by (simp_all add: events_of_def)
    ultimately show ?thesis using n(4) v by (intro that [of d]) simp_all
  qed
qed

lemma append_again:
  assumes "decision_reach H cfg db" and "tselect dr_id (dd_rows db) (at_decision inp) = Some d" and "attempt_validate inp = None"
    and "e \<in> set (events_of (at_decision inp) db)" and "ae_key e = at_key inp"
  shows "fault = TxOk \<or> fault = TxCommitFails \<Longrightarrow>
      AppendAttempt fault now inp db = (db, if sameEvent e inp then Inr (e, False) else Inl DcIdempotencyConflict)"
proof -
  assume fault: "fault = TxOk \<or> fault = TxCommitFails"
  note log = log_of_row [OF assms(1,2)]
  have "distinct (map ae_key (events_of (at_decision inp) db))" by (rule log_keys [OF log(1)])
  then have "find (\<lambda>x. ae_key x = at_key inp) (events_of (at_decision inp) db) = Some e"
    using tsel_in [of ae_key "events_of (at_decision inp) db" e] assms(4,5) by (simp add: unique_key_def tselect_def)
  with assms(2,3) log(2) fault show ?thesis by (auto simp: AppendAttempt_def attempt_body_def)
qed

end
