(* ===== verification/Decision_Demo.thy ===== *)
theory Decision_Demo
  imports Decision_Replay Approval_Demo
begin

text \<open>
  Two runs for the properties to be applied to: a decision allowed by its rule whose first attempt fails and whose second succeeds,
  and a decision under an approval that a person granted.
\<close>

section \<open>Inputs\<close>

definition zeros :: string where "zeros = ''sha256:'' @ replicate 64 CHR ''0''"
definition zeros_hash :: hash where "zeros_hash s = replicate 64 CHR ''0''"

definition allowed_input :: record_input where
  "allowed_input =
     \<lparr>di_execution = ''we_1'', di_work_item = '''', di_intent_source = '''', di_trace = '''', di_policy_version = ''v1'',
      di_rule = ''r1'', di_verdict = ''allow'', di_code = ''allowed'', di_reasons = [''rule.match''], di_actor = ''agent:dev'',
      di_principal = '''', di_tenant = '''', di_approval = '''', di_basis = '''', di_action_kind = ''deploy'',
      di_operation = ''apply'', di_target_digest = zeros, di_args_digest = zeros, di_action_digest = zeros,
      di_decided_at = Some 0, di_key = ''c1'', di_recorded_by = ''agent:dev'', di_recorded_by_principal = ''''\<rparr>"

definition approved_input :: record_input where
  "approved_input = allowed_input\<lparr>di_verdict := ''require_approval'', di_code := ''approved'', di_approval := ''aar_7'', di_key := ''c2''\<rparr>"

definition start_input :: "string \<Rightarrow> attempt_input" where
  "start_input k =
     \<lparr>at_decision = ''dec_1'', at_no = 0, at_phase = ''started'', at_evidence = '''', at_runtime = '''', at_invocation = '''',
      at_error = '''', at_result = '''', at_occurred = Some 1, at_key = k, at_recorded_by = ''agent:dev'',
      at_recorded_by_principal = ''''\<rparr>"

definition end_input :: "int \<Rightarrow> string \<Rightarrow> string \<Rightarrow> string \<Rightarrow> attempt_input" where
  "end_input n ph er k = (start_input k)\<lparr>at_no := n, at_phase := ph, at_error := er\<rparr>"

lemma clean_id:
  assumes "plain_text v" "idRE v"
  shows "checkID v r = None"
proof -
  have "Scan v = None" using assms(1) by (auto simp: plain_text_def list_all_iff no_credential [unfolded list_all_iff])
  moreover have "v \<noteq> ''''" using assms(2) by (auto simp: idRE_def)
  ultimately show ?thesis using assms(2) by (simp add: checkID_def dc_require_def)
qed

lemma empty_id: "checkID '''' False = None" "checkPrefixed '''' p False = None"
  by (simp_all add: checkPrefixed_def checkID_def dc_require_def)

lemma demo_ids:
  "checkID ''we_1'' r = None" "checkID ''v1'' r = None" "checkID ''r1'' r = None" "checkID ''agent:dev'' r = None"
  "checkID ''deploy'' r = None" "checkID ''apply'' r = None" "checkID ''c1'' r = None" "checkID ''c2'' r = None"
  "checkID ''e1'' r = None" "checkID ''e2'' r = None" "checkID ''e3'' r = None" "checkID ''e4'' r = None"
  "checkID ''aar_7'' r = None" "checkID ''dec_1'' r = None"
  by (rule clean_id; code_simp)+

lemma zeros_digest: "dc_checkDigest zeros r = None"
  by (simp add: dc_checkDigest_def zeros_def digestRE_def prefixed_hex_def dc_require_def list_all_iff)

lemma reason_ok: "reasonRE ''rule.match''"
  by code_simp

lemmas demo_validate = record_validate_def decision_ids_def allowed_input_def approved_input_def
  MaxDecisionKeyBytes_def MaxDecisionReasons_def MaxDecisionReasonBytes_def VerdictAllow_def VerdictDeny_def VerdictRequireApproval_def
  CodeAllowed_def CodeApproved_def validCodes_def

lemma allowed_valid: "record_validate allowed_input = None"
  by (simp add: demo_validate demo_ids empty_id zeros_digest reason_ok dc_require_def)

lemma approved_valid: "record_validate approved_input = None"
  by (simp add: demo_validate demo_ids empty_id zeros_digest reason_ok dc_require_def checkPrefixed_def)

lemma events_valid:
  "attempt_validate (start_input ''e1'') = None" "attempt_validate (start_input ''e3'') = None"
  "attempt_validate (end_input 1 ''failed'' ''timeout'' ''e2'') = None" "attempt_validate (end_input 2 ''succeeded'' '''' ''e4'') = None"
proof -
  have "codeRE ''timeout''" by code_simp
  then show "attempt_validate (start_input ''e1'') = None" "attempt_validate (start_input ''e3'') = None"
    "attempt_validate (end_input 1 ''failed'' ''timeout'' ''e2'') = None" "attempt_validate (end_input 2 ''succeeded'' '''' ''e4'') = None"
    by (simp_all add: attempt_validate_def start_input_def end_input_def checkPrefixed_def demo_ids empty_id DecisionIDPrefix_def
        MaxDecisionKeyBytes_def dc_require_def dc_checkDigest_def phase_fields_def phase_defs)
qed

section \<open>An allowed action\<close>

definition demo_dec :: decision_row where
  "demo_dec = \<lparr>dr_id = ''dec_1'', dr_input = allowed_input, dr_intent_hash = '''', dr_digest = contentDigest zeros_hash allowed_input,
     dr_recorded_at = 5\<rparr>"

definition demo_event :: "int \<Rightarrow> int \<Rightarrow> attempt_input \<Rightarrow> attempt_event" where
  "demo_event q n inp = new_event 6 q n 1 inp"

definition demo_ddb :: "attempt_event list \<Rightarrow> decision_db" where
  "demo_ddb evs = \<lparr>dd_rows = [demo_dec], dd_events = evs\<rparr>"

definition demo_log :: "attempt_event list" where
  "demo_log = [demo_event 1 1 (start_input ''e1''), demo_event 2 1 (end_input 1 ''failed'' ''timeout'' ''e2''),
     demo_event 3 2 (start_input ''e3''), demo_event 4 2 (end_input 2 ''succeeded'' '''' ''e4'')]"

lemma demo_recorded:
  "RecordDecision zeros_hash StmtOk 5 ''1'' allowed_input (Some empty_ddb) None None empty_ddb = (demo_ddb [], Inr (demo_dec, True))"
  by (simp add: RecordDecision_def allowed_valid byIdempotencyKey_def empty_ddb_def claimed_intent_def insert_decision_def
      decision_checks_def Let_def) (simp add: demo_ddb_def demo_dec_def new_decision_def DecisionIDPrefix_def demo_validate)

lemmas demo_append = AppendAttempt_def attempt_body_def demo_ddb_def demo_dec_def tselect_Cons decisionEvents_def nextAttempt_def
  phase_defs Permitted_def CodeAllowed_def maxAttemptsPerDec_def insert_event_def event_clash_def demo_event_def new_event_def
  start_input_def end_input_def allowed_input_def Let_def

lemma demo_appended:
  "AppendAttempt TxOk 6 (start_input ''e1'') (demo_ddb []) = (demo_ddb (take 1 demo_log), Inr (demo_log ! 0, True))"
  "AppendAttempt TxOk 6 (end_input 1 ''failed'' ''timeout'' ''e2'') (demo_ddb (take 1 demo_log)) = (demo_ddb (take 2 demo_log), Inr (demo_log ! 1, True))"
  "AppendAttempt TxOk 6 (start_input ''e3'') (demo_ddb (take 2 demo_log)) = (demo_ddb (take 3 demo_log), Inr (demo_log ! 2, True))"
  "AppendAttempt TxOk 6 (end_input 2 ''succeeded'' '''' ''e4'') (demo_ddb (take 3 demo_log)) = (demo_ddb demo_log, Inr (demo_log ! 3, True))"
  using events_valid by (simp_all add: demo_append demo_log_def eval_nat_numeral)

lemma demo_ddb_reach:
  "decision_reach zeros_hash cfg (demo_ddb [])" "decision_reach zeros_hash cfg (demo_ddb (take 1 demo_log))"
  "decision_reach zeros_hash cfg (demo_ddb (take 2 demo_log))" "decision_reach zeros_hash cfg (demo_ddb (take 3 demo_log))"
  "decision_reach zeros_hash cfg (demo_ddb demo_log)"
proof -
  note call = decision_reach.dc_call [where H = zeros_hash and cfg = cfg]
  show 0: "decision_reach zeros_hash cfg (demo_ddb [])"
    using call [OF decision_reach.dc_init, of "DcRecord StmtOk 5 ''1'' allowed_input (Some empty_ddb) None None"] demo_recorded
    by (simp add: honest_look_def)
  show 1: "decision_reach zeros_hash cfg (demo_ddb (take 1 demo_log))"
    using call [OF 0, of "DcAppend TxOk 6 (start_input ''e1'')"] demo_appended(1) by simp
  show 2: "decision_reach zeros_hash cfg (demo_ddb (take 2 demo_log))"
    using call [OF 1, of "DcAppend TxOk 6 (end_input 1 ''failed'' ''timeout'' ''e2'')"] demo_appended(2) by simp
  show 3: "decision_reach zeros_hash cfg (demo_ddb (take 3 demo_log))"
    using call [OF 2, of "DcAppend TxOk 6 (start_input ''e3'')"] demo_appended(3) by simp
  show "decision_reach zeros_hash cfg (demo_ddb demo_log)"
    using call [OF 3, of "DcAppend TxOk 6 (end_input 2 ''succeeded'' '''' ''e4'')"] demo_appended(4) by simp
qed

section \<open>An action a person approved\<close>

definition grant_intent :: action_intent where
  "grant_intent = \<lparr>in_execution = ''we_1'', in_kind = ''deploy'', in_target = ''mctl'', in_args_digest = zeros,
     in_policy_rule = ''r1'', in_policy_version = ''v1'', in_artifact_hash = '''', in_work_item = ''''\<rparr>"

definition grant_request :: approval_input where
  "grant_request = demo_request\<lparr>ai_intent := grant_intent\<rparr>"

definition grant_row :: action_approval where
  "grant_row = demo_row\<lparr>ap_intent := grant_intent, ap_intent_hash := zeros\<rparr>"

definition granted_row :: action_approval where "granted_row = decided demo_decision 1 None grant_row"

definition grant_adb :: "action_approval \<Rightarrow> approval_db" where "grant_adb a = \<lparr>ad_rows = [a], ad_items = []\<rparr>"

definition approved_dec :: decision_row where
  "approved_dec = \<lparr>dr_id = ''dec_2'', dr_input = approved_input, dr_intent_hash = zeros,
     dr_digest = contentDigest zeros_hash approved_input, dr_recorded_at = 5\<rparr>"

text \<open>A digest has none of the letters the families need besides those of its prefix.\<close>

definition digest_free :: string where "digest_free = ''gAxe-ctpbCTPB''"

lemma zeros_scan: "Scan zeros = None"
proof (rule no_fit)
  have a: "ascii zeros" by (simp add: zeros_def ascii_def list_all_iff)
  have "set zeros = set ''sha256:0''" by (simp add: zeros_def)
  then have r: "set (runes zeros) = (\<lambda>c. Some (byte c)) ` set ''sha256:0''" by (simp add: runes_of_ascii [OF a])
  have not: "\<forall>c \<in> set digest_free. Some (byte c) \<notin> set (runes zeros)" unfolding r by (simp add: digest_free_def)
  have lit: "\<not> fits (runes zeros) (rx_lit l)" if "list_ex (\<lambda>c. c \<in> set digest_free) l" for l
    using that not unfolding list_ex_iff fits_lit by blast
  have ci: "\<not> fits (runes zeros) (rx_lit_ci l)" if "CHR ''c'' \<in> set l \<or> CHR ''t'' \<in> set l \<or> CHR ''p'' \<in> set l \<or> CHR ''b'' \<in> set l" for l
  proof
    assume "fits (runes zeros) (rx_lit_ci l)"
    then have all: "\<forall>c \<in> set l. \<exists>x \<in> set (runes zeros). x \<in> folds_to c" by (simp only: fits_lit_ci)
    from that obtain c where c: "c \<in> set l" "c = CHR ''c'' \<or> c = CHR ''t'' \<or> c = CHR ''p'' \<or> c = CHR ''b''" by metis
    with all obtain x where "x \<in> set (runes zeros)" "x \<in> folds_to c" by metis
    with not c(2) show False by (elim disjE) (auto simp: folds_to_def digest_free_def)
  qed
  have "\<not> fits (runes zeros) generic_names" by (simp del: rx_lit_ci.simps add: generic_names_def ci)
  then show "list_all (\<lambda>p. \<not> fits (runes zeros) (snd p)) patterns"
    unfolding patterns_def github_token_def
    by (simp del: fits_lit rx_lit.simps add: lit digest_free_def)
qed

lemma zeros_text: "text_check (zeros, MaxApprovalFieldBytes, True) = None"
proof -
  have a: "ascii zeros" "list_all (\<lambda>c. 0x20 < byte c) zeros" "zeros \<noteq> ''''" by (simp_all add: zeros_def ascii_def list_all_iff)
  have "length zeros = 71" by (simp add: zeros_def)
  with a zeros_scan trim_plain [OF a(1,2)] show ?thesis
    by (simp add: text_check_def first_error_None wi_checkText_def scanSecrets_def ascii_valid MaxApprovalFieldBytes_def)
qed

lemma deploy_plain: "plain_text ''deploy''"
  by code_simp

lemma grant_valid: "approval_validate zeros_hash grant_request = None"
proof -
  have "\<forall>f \<in> set (approval_texts grant_request). text_check f = None"
    using zeros_text
    by (simp add: approval_texts_def grant_request_def grant_intent_def demo_request_def clean_text plain_texts deploy_plain clean_empty
        MaxExternalIDBytes_def MaxApprovalFieldBytes_def MaxApprovalTargetBytes_def MaxKeyBytes_def)
  moreover have "validateContext (ai_context grant_request) = None"
    by (simp add: grant_request_def demo_request_def validateContext_def first_error_None clean_empty ValidRiskLevel_def ValidSideEffect_def)
  ultimately show ?thesis
    unfolding approval_validate_def first_error_None by (auto simp: grant_request_def demo_request_def grant_intent_def)
qed

lemma grant_created: "ap_run zeros_hash (ApCreate TxOk 0 ''7'' grant_request) empty_adb = grant_adb grant_row"
  using grant_valid
  by (simp add: CreateActionApproval_def ap_precheck_def wi_withTx_def create_body_def empty_adb_def)
    (simp add: grant_request_def demo_request_def grant_adb_def grant_row_def demo_row_def new_approval_def MaxApprovalTTL_def time_sub_def
      Let_def max_duration_def ActionApprovalIDPrefix_def IntentHash_def zeros_hash_def zeros_def grant_intent_def)

lemma grant_decided: "ap_run zeros_hash (ApDecide TxOk 1 1 demo_decision) (grant_adb grant_row) = grant_adb granted_row"
proof -
  have "decide_body 1 1 demo_decision (grant_adb grant_row) = Inr (grant_adb granted_row, granted_row)"
    by (simp add: decide_body_def grant_adb_def grant_row_def granted_row_def getActionApproval_def tselect_Cons scanActionApproval_def
        effectiveState_def tupdate_def tput_def fresh_bound_def demo_rows)
  with demo_decidable show ?thesis by (simp add: DecideActionApproval_def ap_precheck_def wi_withTx_def)
qed

lemma grant_reach: "\<exists>s. gate_reach zeros_hash minute s \<and> gs_db s = grant_adb granted_row"
proof -
  have "gate_reach zeros_hash minute (to_db (grant_adb grant_row) gate_init)"
    using gate_reach.g_rest [OF gate_reach.g_init, of zeros_hash minute "ApCreate TxOk 0 ''7'' grant_request"] grant_created
    by (simp add: gate_init_def)
  from gate_reach.g_rest [OF this, of "ApDecide TxOk 1 1 demo_decision"] grant_decided show ?thesis
    by (intro exI [of _ "to_db (grant_adb granted_row) (to_db (grant_adb grant_row) gate_init)"]) (simp add: to_db_def)
qed

lemma approved_recorded:
  "RecordDecision zeros_hash StmtOk 5 ''2'' approved_input (Some empty_ddb) (Some (2, Some (grant_adb granted_row))) None empty_ddb
     = (\<lparr>dd_rows = [approved_dec], dd_events = []\<rparr>, Inr (approved_dec, True))"
proof -
  have "checkApprovalBinding zeros_hash approved_input granted_row = None"
    by (simp add: checkApprovalBinding_def bindingMismatches_def binding_of_def approved_input_def allowed_input_def granted_row_def
        grant_row_def grant_intent_def TargetDigest_def zeros_hash_def zeros_def CodeApproved_def decided_def demo_decision_def)
  then have "claimed_intent zeros_hash approved_input (Some (2, Some (grant_adb granted_row))) = Inr zeros"
    by (simp add: claimed_intent_def ActionApproval_def getActionApproval_def grant_adb_def tselect_Cons granted_row_def grant_row_def
        scanActionApproval_def effectiveState_def approved_input_def Permitted_def CodeApproved_def demo_rows)
  then show ?thesis
    by (simp add: RecordDecision_def approved_valid byIdempotencyKey_def empty_ddb_def insert_decision_def decision_checks_def Let_def)
      (simp add: approved_dec_def new_decision_def DecisionIDPrefix_def demo_validate)
qed

lemma approved_reach: "decision_reach zeros_hash minute \<lparr>dd_rows = [approved_dec], dd_events = []\<rparr>"
proof -
  obtain s where "gate_reach zeros_hash minute s" "gs_db s = grant_adb granted_row" using grant_reach by blast
  then have "honest_look zeros_hash minute (Some (2, Some (grant_adb granted_row)))"
    unfolding honest_look_def by (simp only: option.case prod.case) metis
  then show ?thesis
    using decision_reach.dc_call [OF decision_reach.dc_init, of zeros_hash minute
        "DcRecord StmtOk 5 ''2'' approved_input (Some empty_ddb) (Some (2, Some (grant_adb granted_row))) None"] approved_recorded
    by simp
qed

end
