(* ===== verification/Decision_Props.thy ===== *)
theory Decision_Props
  imports Decision_Demo
begin

text \<open>
  What a decision record guarantees: the shape of its attempts, the approval behind a permit, writes that
  happen once, and a result that is what the log says.
\<close>

section \<open>Attempts\<close>

text \<open>
  C18: The events of a decision are numbered from 1 without a gap, its attempts from 1 to at most a hundred in the
  order they were started; every other event ends an attempt that was started before, none ends twice, no
  attempt is started after one has succeeded, and a decision that does not permit execution has no event.
\<close>

theorem attempts_follow_one_another:
  assumes "decision_reach H cfg db" and "tselect dr_id (dd_rows db) i = Some d" and "evs = decisionEvents i db"
  shows "map ae_seq evs = [1..int (length evs)] \<and>
    starts evs = [1..int (length (starts evs))] \<and> length (starts evs) \<le> 100 \<and> distinct (ends evs) \<and>
    (evs \<noteq> [] \<longrightarrow> Permitted (dr_code d)) \<and>
    (\<forall>before e rest. evs = before @ e # rest \<longrightarrow>
       (if ae_phase e = PhaseStarted then \<not> succeeds before else AttemptEnded (ae_phase e) \<and> ae_no e \<in> set (starts before)))"
proof -
  note evs = log_of_row(2) [OF assms(1,2), folded assms(3)]
  note log = log_of_row(1) [OF assms(1,2), folded evs]
  have "if ae_starts e then \<not> succeeds before else AttemptEnded (ae_phase e) \<and> ae_no e \<in> set (starts before)"
    if "evs = before @ e # rest" for before e rest
  proof -
    have "attempt_log (dr_code d) (before @ [e])" using log log_prefix [of _ "before @ [e]" rest] that by simp
    then show ?thesis by (cases rule: attempt_logE) auto
  qed
  moreover have "length (starts evs) \<le> 100" using log_bound [OF log] by (simp add: maxAttemptsPerDec_def)
  ultimately show ?thesis using log_seqs [OF log] log_starts [OF log] log_ends [OF log] log_permitted [OF log] by blast
qed

text \<open>
  The unique indexes and checks on the events are never hit: on a valid input and with a working database an
  append answers an event or one of the refusals of the rules, never an error of the driver.
\<close>

theorem the_backstops_are_never_hit:
  assumes "decision_reach H cfg db" and "attempt_validate inp = None"
  shows "snd (AppendAttempt TxOk now inp db) \<noteq> Inl DcFailed"
proof (cases "tselect dr_id (dd_rows db) (at_decision inp)")
  case None
  then show ?thesis by (simp add: AppendAttempt_def attempt_body_def assms(2))
next
  case (Some d)
  note log = log_of_row [OF assms(1) Some]
  obtain t where t: "at_occurred inp = Some t" using assms(2) by (cases "at_occurred inp") (auto simp: attempt_validate_def first_error_None dc_require_def)
  show ?thesis
  proof (cases "find (\<lambda>e. ae_key e = at_key inp) (events_of (at_decision inp) db)")
    case (Some x)
    then show ?thesis using \<open>tselect dr_id (dd_rows db) (at_decision inp) = Some d\<close>
      by (simp add: AppendAttempt_def attempt_body_def assms(2) log(2))
  next
    case None
    have key: "at_key inp \<notin> ae_key ` set (events_of (at_decision inp) db)" using None by (auto simp: find_None_iff)
    show ?thesis
    proof (cases "nextAttempt (dr_code d) (events_of (at_decision inp) db) inp")
      case (Inl e)
      then have "e \<noteq> DcFailed" by (auto simp: nextAttempt_log [OF log(1)] split: if_splits)
      with Inl None Some t show ?thesis by (simp add: AppendAttempt_def attempt_body_def assms(2) log(2))
    next
      case (Inr no)
      let ?e = "new_event now (int (length (events_of (at_decision inp) db)) + 1) no t inp"
      have "attempt_log (dr_code d) (events_of (at_decision inp) db @ [?e])" by (rule next_event_log [OF log(1) assms(2) Inr key])
      from no_clash [OF this, of "dd_events db"] have "insert_event ?e db = Inr (db\<lparr>dd_events := dd_events db @ [?e]\<rparr>)"
        by (simp add: insert_event_def events_of_def)
      with Inr None Some t show ?thesis by (simp add: AppendAttempt_def attempt_body_def assms(2) log(2) Let_def)
    qed
  qed
qed

text \<open>
  C34: An event is written once.  After an append was answered, and whatever is recorded, appended and purged later, as long
  as no purge reaches back to the moment the decision was recorded, its event is
  in the log; an append under its key writes nothing, whatever PostgreSQL does to its transaction, and when the
  transaction goes through it answers that event, a conflict when it says something else, or what is wrong with its input;
  only the first answer says that the event was created.
\<close>

theorem an_event_is_written_once:
  assumes "decision_reach H cfg db" and "AppendAttempt fault now inp db = (db1, Inr (e, created))"
    and "tselect dr_id (dd_rows db1) (at_decision inp) = Some d"
    and "list_all (decision_op_ok H cfg) ops" and "list_all (spares_from (dr_recorded_at d)) ops"
    and "at_decision again = at_decision inp" and "at_key again = at_key inp"
  shows "(created \<longleftrightarrow> db1 \<noteq> db) \<and> e \<in> set (decisionEvents (at_decision inp) (decision_runs H ops db1)) \<and>
    AppendAttempt TxOk now' inp (decision_runs H ops db1) = (decision_runs H ops db1, Inr (e, False)) \<and>
    AppendAttempt TxOk now' again (decision_runs H ops db1) =
      (decision_runs H ops db1, case attempt_validate again of Some x \<Rightarrow> Inl x
         | None \<Rightarrow> if sameEvent e again then Inr (e, False) else Inl DcIdempotencyConflict) \<and>
    fst (AppendAttempt fault' now' again (decision_runs H ops db1)) = decision_runs H ops db1"
proof -
  let ?db = "decision_runs H ops db1"
  have d: "e \<in> set (events_of (at_decision inp) db1)" "ae_key e = at_key inp" "sameEvent e inp" "attempt_validate inp = None"
      "created \<longleftrightarrow> db1 \<noteq> db"
    by (rule append_answer [OF assms(1,2)], assumption)+
  have reach1: "decision_reach H cfg db1" using decision_reach.dc_call [OF assms(1), of "DcAppend fault now inp"] assms(2) by simp
  then have reach: "decision_reach H cfg ?db" by (rule decision_runs_reach [OF _ assms(4)])
  from runs_keep [OF reach1 assms(3-5)] d(1) have sel: "tselect dr_id (dd_rows ?db) (at_decision inp) = Some d"
      and mem: "e \<in> set (events_of (at_decision inp) ?db)" by auto
  have "AppendAttempt f now' again ?db = (?db, if sameEvent e again then Inr (e, False) else Inl DcIdempotencyConflict)"
    if "attempt_validate again = None" "f = TxOk \<or> f = TxCommitFails" for f
    using append_again [OF reach, of again d e f now'] that sel mem d(2) assms(6,7) by simp
  moreover have "fst (AppendAttempt f now' again ?db) = ?db" if "attempt_validate again \<noteq> None \<or> f \<noteq> TxOk \<and> f \<noteq> TxCommitFails" for f
    using that by (auto simp: AppendAttempt_def split: option.split)
  ultimately have "fst (AppendAttempt fault' now' again ?db) = ?db"
    by (cases "attempt_validate again = None \<and> (fault' = TxOk \<or> fault' = TxCommitFails)") auto
  moreover have "AppendAttempt TxOk now' again ?db = (?db, case attempt_validate again of Some x \<Rightarrow> Inl x
      | None \<Rightarrow> if sameEvent e again then Inr (e, False) else Inl DcIdempotencyConflict)"
    using append_again [OF reach, of again d e TxOk now'] sel mem d(2) assms(6,7)
    by (cases "attempt_validate again") (simp_all add: AppendAttempt_def)
  moreover have "AppendAttempt TxOk now' inp ?db = (?db, Inr (e, False))"
    using append_again [OF reach sel d(4) mem d(2), of TxOk now'] d(3) by simp
  ultimately show ?thesis using d(5) mem log_of_row(2) [OF reach sel] by simp
qed

section \<open>Authority\<close>

text \<open>
  C17: A stored decision with the code approved names an approval that, in a state the approvals really reached, a
  principal other than its requester had granted, for the same execution, kind of action, target, arguments,
  rule and policy version; and it keeps the hash of the intent of that approval.
\<close>

theorem a_permit_was_granted_by_another:
  assumes "decision_reach H cfg db" and "d \<in> set (dd_rows db)" and "dr_code d = CodeApproved"
  shows "\<exists>s a. gate_reach H cfg s \<and> a \<in> set (ad_rows (gs_db s)) \<and> ap_id a = di_approval (dr_input d) \<and>
    ap_state a \<notin> {ApprovalPending, ApprovalDenied} \<and> ap_decided_by a \<noteq> '''' \<and> ap_decided_by a \<noteq> ap_requested_by a \<and>
    in_execution (ap_intent a) = di_execution (dr_input d) \<and> in_kind (ap_intent a) = di_action_kind (dr_input d) \<and>
    TargetDigest H (in_target (ap_intent a)) = di_target_digest (dr_input d) \<and>
    in_args_digest (ap_intent a) = di_args_digest (dr_input d) \<and> in_policy_rule (ap_intent a) = di_rule (dr_input d) \<and>
    in_policy_version (ap_intent a) = di_policy_version (dr_input d) \<and>
    dr_intent_hash d = IntentHash H (ap_intent a)"
proof -
  have row: "decision_row_ok H cfg d" by (rule decisions_okD(3) [OF decision_reach_ok [OF assms(1)] assms(2)])
  then have "di_approval (dr_input d) \<noteq> ''''"
    using assms(3) by (auto simp: decision_row_ok_def record_validate_def first_error_None dc_require_def split: if_splits)
  with row assms(3) have "authorised H cfg (dr_input d) (dr_intent_hash d)" by (simp add: decision_row_ok_def Permitted_def)
  then obtain s t a where a: "gate_reach H cfg s" "a \<in> set (ad_rows (gs_db s))" "ap_id a = di_approval (dr_input d)"
    "checkApprovalBinding H (dr_input d) (scanActionApproval t a) = None" "dr_intent_hash d = ap_intent_hash a"
    by (auto simp: authorised_def)
  have ok: "approval_ok H a" using gate_reach_rows [OF a(1)] a(2) by (simp add: approvals_ok_def)
  have same: "bindingMismatches H (binding_of (dr_input d)) a = []"
    using a(4) by (auto simp: checkApprovalBinding_def scanActionApproval_def bindingMismatches_def split: if_splits)
  have "ap_state a \<noteq> ApprovalPending \<and> ap_state a \<noteq> ApprovalDenied"
    using a(4) ok by (auto simp: checkApprovalBinding_def scanActionApproval_def effectiveState_def approval_ok_def split: if_splits)
  moreover from this ok have "ap_decided_by a \<noteq> ''''" "ap_decided_by a \<noteq> ap_requested_by a" by (simp_all add: approval_ok_def)
  moreover have "dr_intent_hash d = IntentHash H (ap_intent a)" using ok a(5) by (simp add: approval_ok_def)
  ultimately show ?thesis using a(1-3) same
    by (intro exI [of _ s] exI [of _ a]) (auto simp: bindingMismatches_def binding_of_def Let_def split: if_splits)
qed

section \<open>The result\<close>

lemma won_iff:
  assumes log: "attempt_log code evs" and k: "k = int (length (starts evs))"
  shows "list_ex (\<lambda>a. am_status a = PhaseSucceeded) (groupAttempts evs) \<longleftrightarrow> (\<exists>e \<in> set evs. ae_phase e = PhaseSucceeded)"
proof
  assume "list_ex (\<lambda>a. am_status a = PhaseSucceeded) (groupAttempts evs)"
  then obtain n where "status_of evs k n = PhaseSucceeded" by (auto simp: attempts_of_log [OF log k] list_ex_iff)
  then obtain e where "end_of evs n = Some e" "ae_phase e = PhaseSucceeded"
    by (auto simp: status_of_def status_defs split: option.splits if_splits)
  then show "\<exists>e \<in> set evs. ae_phase e = PhaseSucceeded" by (blast dest: end_of_SomeD)
next
  assume "\<exists>e \<in> set evs. ae_phase e = PhaseSucceeded"
  then obtain e where e: "e \<in> set evs" "ae_phase e = PhaseSucceeded" by blast
  then have "end_of evs (ae_no e) = Some e" by (intro end_of_event [OF log]) (simp_all add: phase_defs)
  then have "status_of evs k (ae_no e) = PhaseSucceeded" using e(2) by (simp add: status_of_def)
  moreover have "ae_no e \<in> set [1..k]" using log_number_range [OF log e(1)] k by simp
  ultimately show "list_ex (\<lambda>a. am_status a = PhaseSucceeded) (groupAttempts evs)"
    by (auto simp: attempts_of_log [OF log k] list_ex_iff)
qed

text \<open>
  C29: The chain of a decision shows its log: the decision as stored, one attempt per start with exactly the events of its number, whose status
  is how it ended, in progress for the last one while it is open, unknown for an open one that another followed; and the result is
  refused, pending, succeeded as soon as any attempt succeeded, or the status of the last attempt.
\<close>

theorem the_chain_shows_the_log:
  assumes "decision_reach H cfg db" and "Chain H i (Some db) look evl = Inr c" and "evs = decisionEvents i db"
    and "k = int (length (starts evs))"
  shows "tselect dr_id (dd_rows db) i = Some (ch_decision c) \<and>
    map am_no (ch_attempts c) = [1..k] \<and>
    list_all (\<lambda>a. am_events a = filter (\<lambda>e. ae_no e = am_no a) evs \<and>
      am_status a = (case find (\<lambda>e. ae_no e = am_no a \<and> ae_phase e \<noteq> PhaseStarted) evs of
        Some e \<Rightarrow> ae_phase e | None \<Rightarrow> if am_no a = k then ''in_progress'' else ''unknown'')) (ch_attempts c) \<and>
    ch_result c =
      (if \<not> Permitted (dr_code (ch_decision c)) then ''refused''
       else if evs = [] then ''pending''
       else if \<exists>e \<in> set evs. ae_phase e = PhaseSucceeded then ''succeeded''
       else case find (\<lambda>e. ae_no e = k \<and> ae_phase e \<noteq> PhaseStarted) evs of Some e \<Rightarrow> ae_phase e | None \<Rightarrow> ''in_progress'')"
proof -
  obtain d where d: "tselect dr_id (dd_rows db) i = Some d"
    using assms(2) by (cases "tselect dr_id (dd_rows db) i") (auto simp: Chain_def decision_snapshot_def GetDecision_def andThen_Inr)
  note evs = log_of_row(2) [OF assms(1) d, folded assms(3)]
  note log = log_of_row(1) [OF assms(1) d, folded evs]
  have c: "ch_decision c = d" "ch_attempts c = groupAttempts evs" "ch_result c = deriveResult (dr_permitted d) (groupAttempts evs)"
    using assms(2) d by (auto simp: Chain_def decision_snapshot_def GetDecision_def andThen_Inr assms(3) Let_def)
  note as = attempts_of_log [OF log assms(4)]
  have fin: "find (\<lambda>e. ae_no e = n \<and> ae_phase e \<noteq> PhaseStarted) evs = end_of evs n" for n by (simp add: end_of_def)
  have status: "status_of evs k n = (case end_of evs n of Some e \<Rightarrow> ae_phase e | None \<Rightarrow> if n = k then ''in_progress'' else ''unknown'')" for n
    by (simp add: status_of_def AttemptInProgress_def AttemptUnknown_def split: option.split)
  have none: "evs = [] \<longleftrightarrow> groupAttempts evs = []"
  proof -
    have "evs = []" if "k = 0" using log_number_range [OF log, of "hd evs"] that assms(4) by (cases evs) auto
    then have "k = 0 \<longleftrightarrow> evs = []" using assms(4) by (auto simp: starts_def)
    then show ?thesis using assms(4) by (auto simp: as)
  qed
  have last: "groupAttempts evs \<noteq> [] \<Longrightarrow> am_status (last (groupAttempts evs)) = status_of evs k k"
    unfolding as by (cases "1 \<le> k") (simp_all add: last_map upto_rec2 [of 1 k])
  have res: "ch_result c = (if \<not> Permitted (dr_code d) then ''refused''
       else if evs = [] then ''pending''
       else if \<exists>e \<in> set evs. ae_phase e = PhaseSucceeded then ''succeeded''
       else case end_of evs k of Some e \<Rightarrow> ae_phase e | None \<Rightarrow> ''in_progress'')"
  proof (cases "end_of evs k")
    case None
    then show ?thesis using none won_iff [OF log assms(4)] status [of k] last
      by (simp add: c deriveResult_def result_defs) (simp add: phase_defs)
  next
    case (Some e)
    then have "e \<in> set evs" "AttemptEnded (ae_phase e)" using end_of_SomeD log_end [OF log] by blast+
    then show ?thesis using Some none won_iff [OF log assms(4)] status [of k] last
      by (auto simp: c deriveResult_def result_defs AttemptEnded_def) (auto simp: phase_defs)
  qed
  have "map am_no (ch_attempts c) = [1..k]" by (simp add: c as comp_def)
  moreover have "list_all (\<lambda>a. am_events a = filter (\<lambda>e. ae_no e = am_no a) evs \<and>
      am_status a = (case end_of evs (am_no a) of
        Some e \<Rightarrow> ae_phase e | None \<Rightarrow> if am_no a = k then ''in_progress'' else ''unknown'')) (ch_attempts c)"
    by (simp add: c as list_all_iff attempt_of_def status)
  ultimately show ?thesis unfolding fin using d c(1) res by simp
qed

section \<open>Runs\<close>

theorem attempts_follow_one_another_witness: "starts demo_log = [1, 2]"
  using attempts_follow_one_another [OF demo_ddb_reach(5), where i = "''dec_1''" and d = demo_dec and evs = "decisionEvents ''dec_1'' (demo_ddb demo_log)"]
  by (simp add: demo_log_def demo_append starts_def)

theorem the_backstops_are_never_hit_witness:
  "snd (AppendAttempt TxOk 7 (start_input ''e3'') (demo_ddb demo_log)) \<noteq> Inl DcFailed"
  by (rule the_backstops_are_never_hit [OF demo_ddb_reach(5) events_valid(2)])

theorem an_event_is_written_once_witness:
  "AppendAttempt TxOk 9 (end_input 1 ''failed'' ''timeout'' ''e2'') (decision_runs zeros_hash [DcPurge StmtOk 8 7] (demo_ddb (take 2 demo_log))) =
     (decision_runs zeros_hash [DcPurge StmtOk 8 7] (demo_ddb (take 2 demo_log)), Inr (demo_log ! 1, False))"
proof -
  have "tselect dr_id (dd_rows (demo_ddb (take 2 demo_log))) (at_decision (end_input 1 ''failed'' ''timeout'' ''e2'')) = Some demo_dec"
    by (simp add: demo_ddb_def tselect_Cons end_input_def start_input_def demo_dec_def)
  from an_event_is_written_once [OF demo_ddb_reach(2) demo_appended(2) this, where ops = "[DcPurge StmtOk 8 7]"
      and again = "end_input 1 ''failed'' ''timeout'' ''e2''" and now' = 9]
  show ?thesis by (simp add: demo_dec_def)
qed

theorem a_permit_was_granted_by_another_witness:
  "\<exists>a :: action_approval. ap_id a = ''aar_7'' \<and> ap_decided_by a \<noteq> ap_requested_by a \<and> in_kind (ap_intent a) = ''deploy''"
proof -
  have "approved_dec \<in> set (dd_rows \<lparr>dd_rows = [approved_dec], dd_events = []\<rparr>)" "dr_code approved_dec = CodeApproved"
    by (simp_all add: approved_dec_def approved_input_def CodeApproved_def)
  from a_permit_was_granted_by_another [OF approved_reach this] obtain a :: action_approval where
    "ap_id a = di_approval (dr_input approved_dec)" "ap_decided_by a \<noteq> ap_requested_by a" "in_kind (ap_intent a) = di_action_kind (dr_input approved_dec)"
    by blast
  then show ?thesis by (intro exI [of _ a]) (simp add: approved_dec_def approved_input_def allowed_input_def)
qed

theorem the_chain_shows_the_log_witness:
  "deriveResult True (groupAttempts demo_log) = ''succeeded''"
proof -
  have ev: "decisionEvents ''dec_1'' (demo_ddb demo_log) = demo_log" by (simp add: demo_log_def demo_append)
  have "Chain zeros_hash ''dec_1'' (Some (demo_ddb demo_log)) None None =
      Inr \<lparr>ch_decision = demo_dec, ch_approval = None, ch_attempts = groupAttempts demo_log, ch_evidence = [],
           ch_result = deriveResult True (groupAttempts demo_log)\<rparr>"
    using ev by (simp add: Chain_def decision_snapshot_def GetDecision_def Let_def)
      (simp add: demo_log_def demo_append)
  from the_chain_shows_the_log [OF demo_ddb_reach(5) this refl refl] show ?thesis
    by (simp add: ev) (simp add: demo_log_def demo_append)
qed

end
