(* ===== verification/Agent_Version.thy ===== *)
theory Agent_Version
  imports Go_Text "HOL-Library.Word" "HOL-Library.Product_Lexorder"
begin

text \<open>
  Versions and compatibility ranges of the agent registry, \<open>internal/agentregistry/semver.go\<close>.  An \<open>int\<close> is
  64 bits wide: the comparison subtracts, so its result is right only because parsed numbers
  are not negative.
\<close>

section \<open>Versions\<close>

type_synonym go_int = "64 word"

datatype version = Version (Major: go_int) (Minor: go_int) (Patch: go_int)

text \<open>\<open>strings.Split\<close> at one character.\<close>

fun split_at :: "char \<Rightarrow> string \<Rightarrow> string list" where
  "split_at d [] = [[]]"
| "split_at d (c # s) = (if c = d then [] # split_at d s else (case split_at d s of p # ps \<Rightarrow> (c # p) # ps | [] \<Rightarrow> [[c]]))"

text \<open>A component: not empty, decimal digits only, and \<open>strconv.Atoi\<close> refuses what does not fit.\<close>

definition version_part :: "string \<Rightarrow> go_int option" where
  "version_part p =
     (if p = '''' \<or> \<not> list_all digit p then None
      else if 2 ^ 63 \<le> decimal p then None
      else Some (word_of_nat (decimal p)))"

definition ParseVersion :: "string \<Rightarrow> version option" where
  "ParseVersion s =
     (case split_at (CHR ''.'') s of
        [a, b, c] \<Rightarrow>
          (case version_part a of None \<Rightarrow> None | Some x \<Rightarrow>
           case version_part b of None \<Rightarrow> None | Some y \<Rightarrow>
           case version_part c of None \<Rightarrow> None | Some z \<Rightarrow> Some (Version x y z))
      | _ \<Rightarrow> None)"

definition go_sign :: "go_int \<Rightarrow> int" where
  "go_sign n = (if sint n < 0 then -1 else if 0 < sint n then 1 else 0)"

definition Compare :: "version \<Rightarrow> version \<Rightarrow> int" where
  "Compare v w =
     (if Major v \<noteq> Major w then go_sign (Major v - Major w)
      else if Minor v \<noteq> Minor w then go_sign (Minor v - Minor w)
      else go_sign (Patch v - Patch w))"

definition VersionString :: "version \<Rightarrow> string" where
  "VersionString v =
     show_int (sint (Major v)) @ CHR ''.'' # show_int (sint (Minor v)) @ CHR ''.'' # show_int (sint (Patch v))"

text \<open>The order of versions is that of their three numbers.\<close>

definition vkey :: "version \<Rightarrow> int \<times> int \<times> int" where
  "vkey v = (sint (Major v), sint (Minor v), sint (Patch v))"

lemma vkey_inject: "vkey v = vkey w \<longleftrightarrow> v = w"
  by (cases v; cases w) (auto simp: vkey_def intro: signed_word_eqI)

instantiation version :: linorder
begin

definition less_eq_version :: "version \<Rightarrow> version \<Rightarrow> bool" where "v \<le> w \<longleftrightarrow> vkey v \<le> vkey w"
definition less_version :: "version \<Rightarrow> version \<Rightarrow> bool" where "v < w \<longleftrightarrow> vkey v < vkey w"

instance
proof
  fix u v w :: version
  show "v < w \<longleftrightarrow> v \<le> w \<and> \<not> w \<le> v" by (auto simp: less_eq_version_def less_version_def)
  show "v \<le> v" "v \<le> w \<or> w \<le> v" by (auto simp: less_eq_version_def)
  show "v \<le> w \<Longrightarrow> w \<le> v \<Longrightarrow> v = w" by (simp add: less_eq_version_def flip: vkey_inject)
  show "u \<le> v \<Longrightarrow> v \<le> w \<Longrightarrow> u \<le> w" by (auto simp: less_eq_version_def)
qed

end

definition parsed :: "version \<Rightarrow> bool" where
  "parsed v \<longleftrightarrow> 0 \<le> sint (Major v) \<and> 0 \<le> sint (Minor v) \<and> 0 \<le> sint (Patch v)"

section \<open>Ranges\<close>

record comparator =
  cp_op :: string
  cp_version :: version

definition comparator_satisfies :: "comparator \<Rightarrow> version \<Rightarrow> bool" where
  "comparator_satisfies c v =
     (let b = cp_version c in
      if cp_op c = ''>='' then 0 \<le> Compare v b
      else if cp_op c = ''>'' then 0 < Compare v b
      else if cp_op c = ''<='' then Compare v b \<le> 0
      else if cp_op c = ''<'' then Compare v b < 0
      else if cp_op c = ''='' then Compare v b = 0
      else if cp_op c = ''^'' then
        (if Compare v b < 0 then False
         else if 0 < sint (Major b) then Major v = Major b
         else if 0 < sint (Minor b) then Major v = 0 \<and> Minor v = Minor b
         else Major v = 0 \<and> Minor v = 0 \<and> Patch v = Patch b)
      else if cp_op c = ''~'' then
        (if Compare v b < 0 then False else Major v = Major b \<and> Minor v = Minor b)
      else False)"

record version_range =
  rg_raw :: string
  rg_comparators :: "comparator list"

definition Satisfies :: "version_range \<Rightarrow> version \<Rightarrow> bool" where
  "Satisfies r v \<longleftrightarrow> list_all (\<lambda>c. comparator_satisfies c v) (rg_comparators r)"

definition validOps :: "string list" where
  "validOps = [''>='', ''<='', ''>'', ''<'', ''='', ''^'', ''~'']"

definition splitOp :: "string \<Rightarrow> string \<times> string" where
  "splitOp field =
     (case find (\<lambda>p. take (length p) field = p) validOps of
        Some p \<Rightarrow> (p, drop (length p) field)
      | None \<Rightarrow> ('''', field))"

text \<open>\<open>strings.Fields\<close>: the runs of runes that are no space.\<close>

fun field_runs :: "(nat option \<times> string) list \<Rightarrow> string \<Rightarrow> string list" where
  "field_runs [] acc = (if acc = '''' then [] else [acc])"
| "field_runs (p # ps) acc =
     (if space_piece p then (if acc = '''' then [] else [acc]) @ field_runs ps ''''
      else field_runs ps (acc @ snd p))"

definition Fields :: "string \<Rightarrow> string list" where
  "Fields s = field_runs (rune_bytes s) ''''"

fun parse_clauses :: "string list \<Rightarrow> comparator list option" where
  "parse_clauses [] = Some []"
| "parse_clauses (f # fs) =
     (case splitOp f of (p, r) \<Rightarrow>
        if p = '''' then None
        else case ParseVersion r of None \<Rightarrow> None
          | Some v \<Rightarrow> map_option (\<lambda>cs. \<lparr>cp_op = p, cp_version = v\<rparr> # cs) (parse_clauses fs))"

definition ParseRange :: "string \<Rightarrow> version_range option" where
  "ParseRange s =
     (let trimmed = TrimSpace s in
      if trimmed = '''' then None
      else let fields = Fields (map (\<lambda>c. if c = CHR '','' then CHR '' '' else c) trimmed) in
        if fields = [] then None
        else map_option (\<lambda>cs. \<lparr>rg_raw = trimmed, rg_comparators = cs\<rparr>) (parse_clauses fields))"

section \<open>Comparing parsed versions\<close>

lemma sint_diff: "0 \<le> sint (a :: go_int) \<Longrightarrow> 0 \<le> sint b \<Longrightarrow> sint (a - b) = sint a - sint b"
proof -
  assume "0 \<le> sint a" "0 \<le> sint b"
  moreover have "sint a < 2 ^ 63" "sint b < 2 ^ 63" using sint_lt [of a] sint_lt [of b] by simp_all
  ultimately show ?thesis by (simp add: sint_word_ariths signed_take_bit_int_eq_self)
qed

lemma go_sign_diff:
  "0 \<le> sint a \<Longrightarrow> 0 \<le> sint b \<Longrightarrow> go_sign (a - b) = (if sint a < sint b then -1 else if sint b < sint a then 1 else 0)"
  by (simp add: go_sign_def sint_diff)

lemma Compare_parsed:
  assumes "parsed v" "parsed w"
  shows "Compare v w = (if v < w then -1 else if w < v then 1 else 0)"
proof (cases v; cases w)
  fix a b c d e f
  assume v: "v = Version a b c" and w: "w = Version d e f"
  have eq: "x = y \<longleftrightarrow> sint x = sint y" for x y :: go_int by (auto intro: signed_word_eqI)
  from assms have "0 \<le> sint a" "0 \<le> sint b" "0 \<le> sint c" "0 \<le> sint d" "0 \<le> sint e" "0 \<le> sint f"
    by (simp_all add: v w parsed_def)
  then show ?thesis
    by (simp add: v w Compare_def go_sign_diff less_version_def vkey_def eq)
qed

lemma sint_word_of_nat:
  assumes "n < 2 ^ 63"
  shows "sint (word_of_nat n :: go_int) = int n"
proof -
  have "int n < 2 ^ 63" using assms by simp
  then have "signed_take_bit 63 (int n) = int n" by (intro signed_take_bit_int_eq_self) simp_all
  then show ?thesis by (simp only: signed_of_nat) simp
qed

lemma version_part_SomeD: "version_part p = Some n \<Longrightarrow> sint n = int (decimal p) \<and> p \<noteq> '''' \<and> list_all digit p"
  by (auto simp: version_part_def sint_word_of_nat split: if_splits)

lemma ParseVersionE:
  assumes "ParseVersion s = Some v"
  obtains a b c x y z where "split_at (CHR ''.'') s = [a, b, c]" "version_part a = Some x" "version_part b = Some y"
    "version_part c = Some z" "v = Version x y z"
proof -
  from assms obtain a b c where p: "split_at (CHR ''.'') s = [a, b, c]"
    by (auto simp: ParseVersion_def split: list.splits)
  with assms that show thesis by (auto simp: ParseVersion_def split: option.splits)
qed

lemma ParseVersion_parsed: "ParseVersion s = Some v \<Longrightarrow> parsed v"
  by (elim ParseVersionE) (auto simp: parsed_def dest!: version_part_SomeD)

section \<open>Ranges as intervals\<close>

text \<open>What a clause stands for: an interval of version numbers, from and below a bound.\<close>

fun caret_top :: "int \<times> int \<times> int \<Rightarrow> int \<times> int \<times> int" where
  "caret_top (a, b, c) = (if 0 < a then (a + 1, 0, 0) else if 0 < b then (0, b + 1, 0) else (0, 0, c + 1))"

fun tilde_top :: "int \<times> int \<times> int \<Rightarrow> int \<times> int \<times> int" where
  "tilde_top (a, b, c) = (a, b + 1, 0)"

definition within :: "comparator \<Rightarrow> int \<times> int \<times> int \<Rightarrow> bool" where
  "within c k =
     (let b = vkey (cp_version c) in
      if cp_op c = ''>='' then b \<le> k
      else if cp_op c = ''>'' then b < k
      else if cp_op c = ''<='' then k \<le> b
      else if cp_op c = ''<'' then k < b
      else if cp_op c = ''='' then k = b
      else if cp_op c = ''^'' then b \<le> k \<and> k < caret_top b
      else cp_op c = ''~'' \<and> b \<le> k \<and> k < tilde_top b)"

lemma Compare_signs:
  assumes "parsed v" and "parsed w"
  shows "0 \<le> Compare v w \<longleftrightarrow> vkey w \<le> vkey v" "0 < Compare v w \<longleftrightarrow> vkey w < vkey v"
    "Compare v w \<le> 0 \<longleftrightarrow> vkey v \<le> vkey w" "Compare v w < 0 \<longleftrightarrow> vkey v < vkey w" "Compare v w = 0 \<longleftrightarrow> vkey v = vkey w"
  by (auto simp: Compare_parsed [OF assms] less_version_def)

lemma comparator_within:
  assumes "parsed v" and "parsed (cp_version c)"
  shows "comparator_satisfies c v = within c (vkey v)"
proof -
  obtain a b p where w: "cp_version c = Version a b p" by (cases "cp_version c")
  obtain d e f where v: "v = Version d e f" by (cases v)
  have eq: "x = y \<longleftrightarrow> sint x = sint y" for x y :: go_int by (auto intro: signed_word_eqI)
  note * = Compare_signs [OF assms]
  have pos: "0 \<le> sint a" "0 \<le> sint b" "0 \<le> sint p" "0 \<le> sint d" "0 \<le> sint e" "0 \<le> sint f"
    using assms by (simp_all add: v w parsed_def)
  have caret: "(if vkey v < vkey (cp_version c) then False
         else if 0 < sint (Major (cp_version c)) then Major v = Major (cp_version c)
         else if 0 < sint (Minor (cp_version c)) then Major v = 0 \<and> Minor v = Minor (cp_version c)
         else Major v = 0 \<and> Minor v = 0 \<and> Patch v = Patch (cp_version c)) \<longleftrightarrow>
      vkey (cp_version c) \<le> vkey v \<and> vkey v < caret_top (vkey (cp_version c))"
    using pos by (auto simp: v w vkey_def eq not_less)
  have tilde: "(if vkey v < vkey (cp_version c) then False
         else Major v = Major (cp_version c) \<and> Minor v = Minor (cp_version c)) \<longleftrightarrow>
      vkey (cp_version c) \<le> vkey v \<and> vkey v < tilde_top (vkey (cp_version c))"
    using pos by (auto simp: v w vkey_def eq not_less)
  show ?thesis
    unfolding comparator_satisfies_def within_def Let_def * caret tilde by simp
qed

lemma parse_clauses_parsed: "parse_clauses fs = Some cs \<Longrightarrow> list_all (\<lambda>c. parsed (cp_version c) \<and> cp_op c \<in> set validOps) cs"
proof (induction fs arbitrary: cs)
  case (Cons f fs)
  then show ?case
    by (auto simp: splitOp_def find_Some_iff ParseVersion_parsed split: prod.splits if_splits option.splits)
qed simp

lemma ParseRange_parsed: "ParseRange s = Some r \<Longrightarrow> list_all (\<lambda>c. parsed (cp_version c) \<and> cp_op c \<in> set validOps) (rg_comparators r)"
  by (auto simp: ParseRange_def Let_def dest: parse_clauses_parsed split: if_splits)

lemma Satisfies_within:
  assumes "ParseRange s = Some r" and "parsed v"
  shows "Satisfies r v \<longleftrightarrow> list_all (\<lambda>c. within c (vkey v)) (rg_comparators r)"
  using ParseRange_parsed [OF assms(1)] by (simp add: Satisfies_def list_all_iff comparator_within [OF assms(2)])

section \<open>Printed versions\<close>

lemma split_at_end: "d \<notin> set a \<Longrightarrow> split_at d a = [a]"
  by (induction a) auto

lemma split_at_sep: "d \<notin> set a \<Longrightarrow> split_at d (a @ d # s) = a # split_at d s"
  by (induction a) auto

lemma show_int_nat: "0 \<le> i \<Longrightarrow> show_int i = show_nat (nat i)"
  by (simp add: show_int_def)

lemma version_part_show:
  assumes "0 \<le> sint (n :: go_int)"
  shows "version_part (show_int (sint n)) = Some n"
proof -
  have "sint n < 2 ^ 63" using sint_lt [of n] by simp
  then have "nat (sint n) < 2 ^ 63" by simp
  moreover from this have "sint (word_of_nat (nat (sint n)) :: go_int) = sint n" using assms by (simp add: sint_word_of_nat)
  then have "(word_of_nat (nat (sint n)) :: go_int) = n" by (intro signed_word_eqI)
  moreover have "show_nat m \<noteq> ''''" for m by (subst show_nat.simps) simp
  ultimately show ?thesis
    using assms show_nat_digits [of "nat (sint n)"] by (simp add: version_part_def show_int_nat decimal_show_nat)
qed

lemma dot_free: "0 \<le> i \<Longrightarrow> CHR ''.'' \<notin> set (show_int i)"
  using show_nat_digits [of "nat i"] by (auto simp: show_int_nat list_all_iff digit_def)

lemma parse_printed: "parsed v \<Longrightarrow> ParseVersion (VersionString v) = Some v"
  by (cases v) (simp add: ParseVersion_def VersionString_def parsed_def split_at_sep split_at_end dot_free version_part_show)

end
