(* ===== verification/Agent_Types.thy ===== *)
theory Agent_Types
  imports Agent_Version Pg_Table "HOL-Library.Char_ord" "HOL-Library.List_Lexorder" "HOL-Library.Char_ord" "HOL-Library.List_Lexorder"
begin

text \<open>
  The records of the agent registry, \<open>internal/agentregistry/types.go\<close>, \<open>v1alpha2_types.go\<close> and
  \<open>assistant_catalog.go\<close>, and the checks of a version before it is published.  A spec is a JSON text;
  what \<open>encoding/json\<close> and the JSONB columns make of it is a \<open>spec_reader\<close>, an argument of what uses it.
\<close>

section \<open>Vocabularies\<close>

definition EnvironmentProduction :: string where "EnvironmentProduction = ''production''"
definition EnvironmentShadow :: string where "EnvironmentShadow = ''shadow''"
definition ReleaseStatusActive :: string where "ReleaseStatusActive = ''active''"

definition validEnvironment :: "string \<Rightarrow> bool" where
  "validEnvironment env \<longleftrightarrow> env = EnvironmentProduction \<or> env = EnvironmentShadow"

definition validPhase :: "string \<Rightarrow> bool" where
  "validPhase p \<longleftrightarrow> p \<in> {''Succeeded'', ''Failed'', ''Error''}"

definition APIVersionV1Alpha2 :: string where "APIVersionV1Alpha2 = ''agents.mctl.ai/v1alpha2''"

definition LifecyclePublished :: string where "LifecyclePublished = ''published''"
definition LifecycleDeprecated :: string where "LifecycleDeprecated = ''deprecated''"
definition LifecycleDisabled :: string where "LifecycleDisabled = ''disabled''"

lemmas lifecycle_defs = LifecyclePublished_def LifecycleDeprecated_def LifecycleDisabled_def

definition BindingSourceRegistry :: string where "BindingSourceRegistry = ''registry''"
definition BindingSourceCompatibilityFixture :: string where "BindingSourceCompatibilityFixture = ''compatibility-fixture''"

lemmas source_defs = BindingSourceRegistry_def BindingSourceCompatibilityFixture_def

definition RequiredProfilePolicyFields :: "string list" where
  "RequiredProfilePolicyFields = [''maxTokens'', ''maxToolCalls'', ''timeoutSeconds'']"

datatype registry_error =
    AgDefinitionNotFound | AgVersionConflict | AgVersionNotFound | AgReleaseNotFound | AgNoRollbackTarget
  | AgInvalidEnvironment | AgInvalidPhase
  | AgDefinitionVersionNotFound | AgProfileVersionNotFound | AgVersionDeprecated | AgVersionDisabled
  | AgIncompatibleProfile | AgFixtureNotPromotable | AgBindingNotFound | AgInvalidRange
  | AgInvalidLifecycleTransition | AgMissingPolicyFields | AgMissingRequiredFields | AgInvalidSpec
  | AgProfilelessDefinition
  | AgFailed

section \<open>Records\<close>

record agent_definition =
  ad_name :: string
  ad_description :: string
  ad_owner :: string
  ad_created_at :: gotime
  ad_archived_at :: "gotime option"

record agent_version =
  av_id :: nat
  av_agent :: string
  av_version :: string
  av_manifest :: string
  av_git_sha :: string
  av_image_repository :: string
  av_image_digest :: string
  av_prompt_hash :: string
  av_created_at :: gotime
  av_created_by :: string

record agent_release =
  rl_agent :: string
  rl_environment :: string
  rl_version :: string
  rl_status :: string
  rl_weight :: int
  rl_updated_at :: gotime
  rl_updated_by :: string

record agent_promotion =
  pm_id :: nat
  pm_agent :: string
  pm_environment :: string
  pm_from :: string
  pm_to :: string
  pm_reason :: string
  pm_actor :: string
  pm_rollback_of :: "nat option"
  pm_created_at :: gotime

record agent_execution =
  ax_id :: nat
  ax_workflow :: string
  ax_agent :: string
  ax_environment :: string
  ax_version :: string
  ax_image :: string
  ax_target_repo :: string
  ax_argo :: string
  ax_phase :: string
  ax_definition_version :: string
  ax_profile :: string
  ax_profile_version :: string
  ax_revision :: "int option"
  ax_created_at :: gotime

record source_manifest =
  sm_repo :: string
  sm_path :: string
  sm_git_sha :: string
  sm_content_hash :: string

record definition_version =
  dv_id :: nat
  dv_agent :: string
  dv_version :: string
  dv_api_version :: string
  dv_spec :: string
  dv_owner :: string
  dv_source :: source_manifest
  dv_range :: string
  dv_lifecycle :: string
  dv_lifecycle_reason :: string
  dv_lifecycle_at :: "gotime option"
  dv_lifecycle_by :: string
  dv_created_at :: gotime
  dv_created_by :: string

record profile_version =
  pv_id :: nat
  pv_profile :: string
  pv_version :: string
  pv_spec :: string
  pv_owner :: string
  pv_source :: source_manifest
  pv_lifecycle :: string
  pv_lifecycle_reason :: string
  pv_lifecycle_at :: "gotime option"
  pv_lifecycle_by :: string
  pv_created_at :: gotime
  pv_created_by :: string

record release_binding =
  rb_id :: nat
  rb_agent :: string
  rb_environment :: string
  rb_revision :: nat
  rb_definition :: string
  rb_profile :: string
  rb_profile_version :: string
  rb_range :: string
  rb_source :: string
  rb_intent_repo :: string
  rb_intent_path :: string
  rb_intent_sha :: string
  rb_rollback_of :: "nat option"
  rb_reason :: string
  rb_created_at :: gotime
  rb_created_by :: string

record binding_request =
  br_agent :: string
  br_environment :: string
  br_definition :: string
  br_profile :: string
  br_profile_version :: string
  br_source :: string
  br_intent_repo :: string
  br_intent_path :: string
  br_intent_sha :: string
  br_reason :: string
  br_actor :: string

record resolved_definition =
  rd_version :: string
  rd_lifecycle :: string
  rd_owner :: string
  rd_source :: source_manifest
  rd_spec :: string

record resolved_profile =
  rp_name :: string
  rp_version :: string
  rp_lifecycle :: string
  rp_source :: source_manifest
  rp_spec :: string

record resolved_compatibility =
  rc_range :: string
  rc_satisfied :: bool

record resolved_intent =
  ri_repo :: string
  ri_path :: string
  ri_sha :: string

text \<open>The zero values of the fields an envelope without a binding leaves out are None here.\<close>

record resolved_binding =
  rs_api_version :: string
  rs_agent :: string
  rs_environment :: string
  rs_revision :: nat
  rs_definition :: resolved_definition
  rs_profile :: resolved_profile
  rs_compatibility :: resolved_compatibility
  rs_source :: string
  rs_intent :: "resolved_intent option"
  rs_rollback_of :: "nat option"
  rs_created_at :: "gotime option"
  rs_created_by :: string

section \<open>Specs\<close>

record assistant_document =
  ac_name :: string
  ac_version :: string
  ac_visibility :: string
  ac_status :: string

text \<open>
  What reads a spec.  \<open>sr_fields\<close> is \<open>json.Unmarshal\<close> into a map of raw values: None is an error, \<open>Some None\<close> the nil map
  of a \<open>null\<close>.  \<open>sr_kind\<close> is the string \<open>kind\<close> of a decoded head, \<open>sr_document\<close> the fields of an assistant document that are
  validated.  \<open>sr_jsonb\<close> is the text a JSONB column gives back for one that is stored, None when
  PostgreSQL refuses it, and \<open>sr_kind_sql\<close> the value of \<open>->>'kind'\<close>.
\<close>

record spec_reader =
  sr_fields :: "string \<Rightarrow> (string \<rightharpoonup> string) option option"
  sr_kind :: "string \<Rightarrow> string option"
  sr_document :: "string \<Rightarrow> assistant_document option"
  sr_jsonb :: "string \<Rightarrow> string option"
  sr_kind_sql :: "string \<Rightarrow> string option"

definition topLevelJSONFields :: "spec_reader \<Rightarrow> string \<Rightarrow> registry_error + (string \<rightharpoonup> string)" where
  "topLevelJSONFields J s =
     (case sr_fields J s of None \<Rightarrow> Inl AgInvalidSpec | Some None \<Rightarrow> Inl AgInvalidSpec | Some (Some m) \<Rightarrow> Inr m)"

definition ValidateSpecIsObject :: "spec_reader \<Rightarrow> string \<Rightarrow> registry_error option" where
  "ValidateSpecIsObject J s = (case topLevelJSONFields J s of Inl e \<Rightarrow> Some e | Inr m \<Rightarrow> None)"

definition missingRequiredFields :: "(string \<times> string) list \<Rightarrow> string list" where
  "missingRequiredFields kvs = sort (map fst (filter (\<lambda>(name, value). TrimSpace value = '''') kvs))"

definition validateProfileSpec :: "spec_reader \<Rightarrow> string \<Rightarrow> registry_error + string list" where
  "validateProfileSpec J s =
     andThen (topLevelJSONFields J s) (\<lambda>m.
       Inr (filter (\<lambda>f. case m f of None \<Rightarrow> True | Some raw \<Rightarrow> TrimSpace raw = ''null'') RequiredProfilePolicyFields))"

definition KindTelegramAssistant :: string where "KindTelegramAssistant = ''TelegramAssistant''"

definition DefinitionKind :: "spec_reader \<Rightarrow> string \<Rightarrow> string" where
  "DefinitionKind J s = (case sr_kind J s of None \<Rightarrow> '''' | Some k \<Rightarrow> k)"

definition IsProfileless :: "spec_reader \<Rightarrow> string \<Rightarrow> bool" where
  "IsProfileless J s \<longleftrightarrow> DefinitionKind J s = KindTelegramAssistant"

definition AssistantVisibilities :: "string list" where
  "AssistantVisibilities = [''public'', ''admin'']"

definition AssistantStatuses :: "string list" where
  "AssistantStatuses = [''draft'', ''active'', ''deprecated'']"

definition ParseAssistantDocument :: "spec_reader \<Rightarrow> string \<Rightarrow> registry_error + assistant_document" where
  "ParseAssistantDocument J s = (case sr_document J s of None \<Rightarrow> Inl AgInvalidSpec | Some d \<Rightarrow> Inr d)"

definition validateAssistantDefinition :: "spec_reader \<Rightarrow> definition_version \<Rightarrow> registry_error option" where
  "validateAssistantDefinition J d =
     (case ParseAssistantDocument J (dv_spec d) of
        Inl e \<Rightarrow> Some e
      | Inr doc \<Rightarrow>
          if ac_name doc \<noteq> dv_agent d then Some AgInvalidSpec
          else if ac_version doc \<noteq> dv_version d then Some AgInvalidSpec
          else if ac_visibility doc \<notin> set AssistantVisibilities then Some AgInvalidSpec
          else if ac_status doc \<notin> set AssistantStatuses then Some AgInvalidSpec
          else None)"

section \<open>Lifecycle\<close>

definition validLifecycleTransition :: "string \<Rightarrow> string \<Rightarrow> bool" where
  "validLifecycleTransition from to \<longleftrightarrow>
     (if from = LifecyclePublished \<and> (to = LifecycleDeprecated \<or> to = LifecycleDisabled) then True
      else from = LifecycleDeprecated \<and> to = LifecycleDisabled)"

lemma transition_trans:
  "validLifecycleTransition l m \<Longrightarrow> validLifecycleTransition m n \<Longrightarrow> validLifecycleTransition l n"
  by (auto simp: validLifecycleTransition_def lifecycle_defs split: if_splits)

lemma transition_ends [simp]:
  "\<not> validLifecycleTransition LifecycleDisabled l" "validLifecycleTransition LifecycleDeprecated l \<longleftrightarrow> l = LifecycleDisabled"
  by (auto simp: validLifecycleTransition_def lifecycle_defs)

section \<open>Pairs\<close>

definition refuseProfileless :: "spec_reader \<Rightarrow> definition_version \<Rightarrow> registry_error option" where
  "refuseProfileless J d = (if IsProfileless J (dv_spec d) then Some AgProfilelessDefinition else None)"

definition validateBindingPairNotDisabled :: "spec_reader \<Rightarrow> definition_version \<Rightarrow> profile_version \<Rightarrow> registry_error option" where
  "validateBindingPairNotDisabled J d p =
     (case refuseProfileless J d of
        Some e \<Rightarrow> Some e
      | None \<Rightarrow>
          if dv_lifecycle d = LifecycleDisabled then Some AgVersionDisabled
          else if pv_lifecycle p = LifecycleDisabled then Some AgVersionDisabled
          else case ParseRange (dv_range d) of
              None \<Rightarrow> Some AgInvalidRange
            | Some r \<Rightarrow>
                (case ParseVersion (pv_version p) of
                   None \<Rightarrow> Some AgInvalidRange
                 | Some v \<Rightarrow> if \<not> Satisfies r v then Some AgIncompatibleProfile else None))"

definition validateBindingPair :: "spec_reader \<Rightarrow> definition_version \<Rightarrow> profile_version \<Rightarrow> registry_error option" where
  "validateBindingPair J d p =
     (if dv_lifecycle d = LifecycleDeprecated then Some AgVersionDeprecated
      else if pv_lifecycle p = LifecycleDeprecated then Some AgVersionDeprecated
      else validateBindingPairNotDisabled J d p)"

text \<open>A profile version a definition version may run with.\<close>

definition compatible :: "string \<Rightarrow> string \<Rightarrow> bool" where
  "compatible rng version \<longleftrightarrow>
     (case (ParseRange rng, ParseVersion version) of (Some r, Some v) \<Rightarrow> Satisfies r v | _ \<Rightarrow> False)"

lemma pair_not_disabled_iff:
  "validateBindingPairNotDisabled J d p = None \<longleftrightarrow>
     \<not> IsProfileless J (dv_spec d) \<and> dv_lifecycle d \<noteq> LifecycleDisabled \<and> pv_lifecycle p \<noteq> LifecycleDisabled \<and>
     compatible (dv_range d) (pv_version p)"
  by (auto simp: validateBindingPairNotDisabled_def refuseProfileless_def compatible_def split: option.splits)

lemma pair_iff:
  "validateBindingPair J d p = None \<longleftrightarrow>
     dv_lifecycle d \<noteq> LifecycleDeprecated \<and> pv_lifecycle p \<noteq> LifecycleDeprecated \<and> validateBindingPairNotDisabled J d p = None"
  by (simp add: validateBindingPair_def)

end
