(* ===== verification/Agent_Store.thy ===== *)
theory Agent_Store
  imports Agent_Types
begin

text \<open>
  The store of the agent registry: \<open>internal/agentregistry/store.go\<close> (definitions, versions, releases with their
  promotions, executions) and \<open>v1alpha2_store.go\<close> (definition and profile versions, their lifecycle, release
  bindings).  What a sequence gives (\<open>i\<close>) is an argument.  A transaction that holds the advisory lock of an agent and
  environment is one step, a statement outside a transaction another.
\<close>

section \<open>Tables\<close>

record agent_db =
  ag_definitions :: "agent_definition list"
  ag_versions :: "agent_version list"
  ag_releases :: "agent_release list"
  ag_promotions :: "agent_promotion list"
  ag_executions :: "agent_execution list"
  ag_defs :: "definition_version list"
  ag_profiles :: "profile_version list"
  ag_bindings :: "release_binding list"

definition empty_agdb :: agent_db where
  "empty_agdb = \<lparr>ag_definitions = [], ag_versions = [], ag_releases = [], ag_promotions = [], ag_executions = [],
     ag_defs = [], ag_profiles = [], ag_bindings = []\<rparr>"

abbreviation av_key :: "agent_version \<Rightarrow> string \<times> string" where "av_key v \<equiv> (av_agent v, av_version v)"
abbreviation rl_key :: "agent_release \<Rightarrow> string \<times> string" where "rl_key r \<equiv> (rl_agent r, rl_environment r)"
abbreviation dv_key :: "definition_version \<Rightarrow> string \<times> string" where "dv_key d \<equiv> (dv_agent d, dv_version d)"
abbreviation pv_key :: "profile_version \<Rightarrow> string \<times> string" where "pv_key p \<equiv> (pv_profile p, pv_version p)"
abbreviation ax_key :: "agent_execution \<Rightarrow> string \<times> string \<times> string" where
  "ax_key x \<equiv> (ax_workflow x, ax_agent x, ax_argo x)"

definition has_definition :: "string \<Rightarrow> agent_db \<Rightarrow> bool" where
  "has_definition agent db \<longleftrightarrow> agent \<in> set (map ad_name (ag_definitions db))"

definition has_version :: "string \<Rightarrow> string \<Rightarrow> agent_db \<Rightarrow> bool" where
  "has_version agent version db \<longleftrightarrow> (agent, version) \<in> set (map av_key (ag_versions db))"

text \<open>The answer of a statement that ran, and what is left of it when the connection broke.\<close>

definition answered :: "stmt_fault \<Rightarrow> registry_error + 'a \<Rightarrow> registry_error + 'a" where
  "answered fault r = (if fault = StmtLost then Inl AgFailed else r)"

text \<open>A transaction: the body, and the faults around it.\<close>

definition registry_tx ::
  "tx_fault \<Rightarrow> (agent_db \<Rightarrow> registry_error + agent_db \<times> 'a) \<Rightarrow> agent_db \<Rightarrow> agent_db \<times> (registry_error + 'a)" where
  "registry_tx fault body db =
     (if fault \<noteq> TxOk \<and> fault \<noteq> TxCommitFails then (db, Inl AgFailed)
      else case body db of
          Inl e \<Rightarrow> (db, Inl e)
        | Inr (db', x) \<Rightarrow> if fault = TxCommitFails then (db, Inl AgFailed) else (db', Inr x))"

section \<open>Definitions and versions\<close>

definition CreateDefinition ::
  "stmt_fault \<Rightarrow> gotime \<Rightarrow> string \<Rightarrow> string \<Rightarrow> string \<Rightarrow> agent_db \<Rightarrow> agent_db \<times> (registry_error + agent_definition)" where
  "CreateDefinition fault now name description owner db =
     (if fault = StmtFails then (db, Inl AgFailed)
      else let d = (case tselect ad_name (ag_definitions db) name of
                      None \<Rightarrow> \<lparr>ad_name = name, ad_description = description, ad_owner = owner, ad_created_at = now, ad_archived_at = None\<rparr>
                    | Some c \<Rightarrow> c\<lparr>ad_description := coalesce_nonempty description (ad_description c),
                                 ad_owner := coalesce_nonempty owner (ad_owner c)\<rparr>)
           in (db\<lparr>ag_definitions := tput ad_name (ag_definitions db) d\<rparr>, answered fault (Inr d)))"

text \<open>\<open>INSERT\<close>: the unique key and the primary key first, the foreign key after.\<close>

definition PublishVersion ::
  "spec_reader \<Rightarrow> stmt_fault \<Rightarrow> gotime \<Rightarrow> nat \<Rightarrow> agent_version \<Rightarrow> agent_db \<Rightarrow> agent_db \<times> (registry_error + agent_version)" where
  "PublishVersion J fault now i v db =
     (if fault = StmtFails then (db, Inl AgFailed)
      else case sr_jsonb J (av_manifest v) of
          None \<Rightarrow> (db, Inl AgFailed)
        | Some m \<Rightarrow>
            if av_key v \<in> set (map av_key (ag_versions db)) \<or> i \<in> set (map av_id (ag_versions db))
            then (db, answered fault (Inl AgVersionConflict))
            else if \<not> has_definition (av_agent v) db then (db, answered fault (Inl AgDefinitionNotFound))
            else let r = v\<lparr>av_id := i, av_manifest := m, av_created_at := now\<rparr>
                 in (db\<lparr>ag_versions := ag_versions db @ [r]\<rparr>, answered fault (Inr r)))"

text \<open>
  A listing that does not ask \<open>rows.Err()\<close>: when the connection breaks after some rows (\<open>Some n\<close>), it answers
  those rows as if they were all.
\<close>

definition delivered :: "nat option \<Rightarrow> 'a list \<Rightarrow> 'a list" where
  "delivered broke rows = (case broke of None \<Rightarrow> rows | Some n \<Rightarrow> take n rows)"

definition ListVersions :: "nat option \<Rightarrow> string \<Rightarrow> agent_db option \<Rightarrow> registry_error + agent_version list" where
  "ListVersions broke agent db =
     (case db of None \<Rightarrow> Inl AgFailed
      | Some d \<Rightarrow> Inr (delivered broke (sort_key (\<lambda>v. - int (av_id v)) (filter (\<lambda>v. av_agent v = agent) (ag_versions d)))))"

section \<open>Releases\<close>

definition ResolveRelease :: "string \<Rightarrow> string \<Rightarrow> agent_db option \<Rightarrow> registry_error + agent_release" where
  "ResolveRelease agent env db =
     (if \<not> validEnvironment env then Inl AgInvalidEnvironment
      else case db of None \<Rightarrow> Inl AgFailed
        | Some d \<Rightarrow> (case tselect rl_key (ag_releases d) (agent, env) of None \<Rightarrow> Inl AgReleaseNotFound | Some r \<Rightarrow> Inr r))"

text \<open>The promotions of a pair, newest first.\<close>

definition promotions_of :: "string \<Rightarrow> string \<Rightarrow> agent_db \<Rightarrow> agent_promotion list" where
  "promotions_of agent env db =
     sort_key (\<lambda>p. - int (pm_id p)) (filter (\<lambda>p. pm_agent p = agent \<and> pm_environment p = env) (ag_promotions db))"

definition ListPromotions :: "nat option \<Rightarrow> string \<Rightarrow> string \<Rightarrow> agent_db option \<Rightarrow> registry_error + agent_promotion list" where
  "ListPromotions broke agent env db = (case db of None \<Rightarrow> Inl AgFailed | Some d \<Rightarrow> Inr (delivered broke (promotions_of agent env d)))"

text \<open>
  The body of \<open>promote\<close> under the lock of the pair.  \<open>resolve\<close> is \<open>resolveTarget\<close>.  The weight of a release that
  exists stays.
\<close>

definition promote_body ::
  "gotime \<Rightarrow> nat \<Rightarrow> string \<Rightarrow> string \<Rightarrow> string \<Rightarrow> string \<Rightarrow> (agent_db \<Rightarrow> registry_error + string \<times> nat option) \<Rightarrow>
     agent_db \<Rightarrow> registry_error + agent_db \<times> agent_release" where
  "promote_body now i agent env reason actor resolve db =
     andThen (resolve db) (\<lambda>(version, rollback).
       if \<not> has_version agent version db then Inl AgVersionNotFound
       else let cur = tselect rl_key (ag_releases db) (agent, env);
                from = (case cur of None \<Rightarrow> '''' | Some c \<Rightarrow> rl_version c)
            in if from = version then (case cur of None \<Rightarrow> Inl AgFailed | Some c \<Rightarrow> Inr (db, c))
               else if \<not> has_definition agent db \<or> i \<in> set (map pm_id (ag_promotions db)) then Inl AgFailed
               else let r = \<lparr>rl_agent = agent, rl_environment = env, rl_version = version, rl_status = ReleaseStatusActive,
                             rl_weight = (case cur of None \<Rightarrow> 100 | Some c \<Rightarrow> rl_weight c), rl_updated_at = now, rl_updated_by = actor\<rparr>;
                        p = \<lparr>pm_id = i, pm_agent = agent, pm_environment = env, pm_from = from, pm_to = version, pm_reason = reason,
                             pm_actor = actor, pm_rollback_of = rollback, pm_created_at = now\<rparr>
                    in Inr (db\<lparr>ag_releases := tput rl_key (ag_releases db) r, ag_promotions := ag_promotions db @ [p]\<rparr>, r))"

definition PromoteRelease ::
  "tx_fault \<Rightarrow> gotime \<Rightarrow> nat \<Rightarrow> string \<Rightarrow> string \<Rightarrow> string \<Rightarrow> string \<Rightarrow> string \<Rightarrow> agent_db \<Rightarrow> agent_db \<times> (registry_error + agent_release)" where
  "PromoteRelease fault now i agent env version reason actor db =
     (if \<not> validEnvironment env then (db, Inl AgInvalidEnvironment)
      else registry_tx fault (promote_body now i agent env reason actor (\<lambda>_. Inr (version, None))) db)"

definition rollback_target :: "string \<Rightarrow> string \<Rightarrow> agent_db \<Rightarrow> registry_error + string \<times> nat option" where
  "rollback_target agent env db =
     (case promotions_of agent env db of
        [] \<Rightarrow> Inl AgNoRollbackTarget
      | p # ps \<Rightarrow> if pm_from p = '''' then Inl AgNoRollbackTarget else Inr (pm_from p, Some (pm_id p)))"

definition Rollback ::
  "tx_fault \<Rightarrow> gotime \<Rightarrow> nat \<Rightarrow> string \<Rightarrow> string \<Rightarrow> string \<Rightarrow> string \<Rightarrow> agent_db \<Rightarrow> agent_db \<times> (registry_error + agent_release)" where
  "Rollback fault now i agent env reason actor db =
     (if \<not> validEnvironment env then (db, Inl AgInvalidEnvironment)
      else registry_tx fault (promote_body now i agent env reason actor (rollback_target agent env)) db)"

section \<open>Executions\<close>

definition RecordAgentExecution ::
  "stmt_fault \<Rightarrow> gotime \<Rightarrow> nat \<Rightarrow> agent_execution \<Rightarrow> agent_db \<Rightarrow> agent_db \<times> (registry_error + agent_execution)" where
  "RecordAgentExecution fault now i x db =
     (if \<not> validEnvironment (ax_environment x) then (db, Inl AgInvalidEnvironment)
      else if \<not> validPhase (ax_phase x) then (db, Inl AgInvalidPhase)
      else if fault = StmtFails then (db, Inl AgFailed)
      else case tselect ax_key (ag_executions db) (ax_key x) of
          None \<Rightarrow>
            if i \<in> set (map ax_id (ag_executions db)) then (db, Inl AgFailed)
            else let r = x\<lparr>ax_id := i, ax_created_at := now\<rparr>
                 in (db\<lparr>ag_executions := ag_executions db @ [r]\<rparr>, answered fault (Inr r))
        | Some c \<Rightarrow>
            let r = x\<lparr>ax_id := ax_id c, ax_created_at := ax_created_at c\<rparr>
            in (db\<lparr>ag_executions := tput ax_key (ag_executions db) r\<rparr>, answered fault (Inr r)))"

definition ListAgentExecutions :: "string \<Rightarrow> string \<Rightarrow> int \<Rightarrow> agent_db option \<Rightarrow> registry_error + agent_execution list" where
  "ListAgentExecutions agent workflow limit db =
     (case db of None \<Rightarrow> Inl AgFailed
      | Some d \<Rightarrow> Inr (take (nat (clamp_limit 20 100 limit))
          (sort_key (\<lambda>x. - int (ax_id x))
            (filter (\<lambda>x. (agent = '''' \<or> ax_agent x = agent) \<and> (workflow = '''' \<or> ax_workflow x = workflow)) (ag_executions d)))))"

section \<open>Definition and profile versions\<close>

definition missing_provenance :: "string \<Rightarrow> source_manifest \<Rightarrow> string list" where
  "missing_provenance owner m =
     missingRequiredFields
       [(''owner'', owner), (''sourceManifest.gitSha'', sm_git_sha m), (''sourceManifest.contentHash'', sm_content_hash m)]"

definition definition_error :: "spec_reader \<Rightarrow> definition_version \<Rightarrow> registry_error option" where
  "definition_error J d =
     (if missing_provenance (dv_owner d) (dv_source d) \<noteq> [] then Some AgMissingRequiredFields
      else if ParseVersion (dv_version d) = None then Some AgInvalidRange
      else if IsProfileless J (dv_spec d) then
        (if dv_range d \<noteq> '''' then Some AgInvalidRange
         else case validateAssistantDefinition J d of Some e \<Rightarrow> Some e | None \<Rightarrow> ValidateSpecIsObject J (dv_spec d))
      else if ParseRange (dv_range d) = None then Some AgInvalidRange
      else ValidateSpecIsObject J (dv_spec d))"

definition PublishDefinitionVersion ::
  "spec_reader \<Rightarrow> stmt_fault \<Rightarrow> gotime \<Rightarrow> nat \<Rightarrow> definition_version \<Rightarrow> agent_db \<Rightarrow> agent_db \<times> (registry_error + definition_version)" where
  "PublishDefinitionVersion J fault now i d db =
     (case definition_error J d of
        Some e \<Rightarrow> (db, Inl e)
      | None \<Rightarrow>
          if fault = StmtFails then (db, Inl AgFailed)
          else case sr_jsonb J (dv_spec d) of
              None \<Rightarrow> (db, Inl AgFailed)
            | Some s \<Rightarrow>
                if dv_key d \<in> set (map dv_key (ag_defs db)) \<or> i \<in> set (map dv_id (ag_defs db))
                then (db, answered fault (Inl AgVersionConflict))
                else if \<not> has_definition (dv_agent d) db then (db, answered fault (Inl AgDefinitionNotFound))
                else let r = d\<lparr>dv_id := i, dv_api_version := (if dv_api_version d = '''' then APIVersionV1Alpha2 else dv_api_version d),
                           dv_spec := s, dv_lifecycle := LifecyclePublished, dv_lifecycle_reason := '''', dv_lifecycle_at := None,
                           dv_lifecycle_by := '''', dv_created_at := now\<rparr>
                     in (db\<lparr>ag_defs := ag_defs db @ [r]\<rparr>, answered fault (Inr r)))"

definition profile_error :: "spec_reader \<Rightarrow> profile_version \<Rightarrow> registry_error option" where
  "profile_error J p =
     (if missing_provenance (pv_owner p) (pv_source p) \<noteq> [] then Some AgMissingRequiredFields
      else if ParseVersion (pv_version p) = None then Some AgInvalidRange
      else case validateProfileSpec J (pv_spec p) of
          Inl e \<Rightarrow> Some e
        | Inr missing \<Rightarrow> if missing \<noteq> [] then Some AgMissingPolicyFields else None)"

definition PublishProfileVersion ::
  "spec_reader \<Rightarrow> stmt_fault \<Rightarrow> gotime \<Rightarrow> nat \<Rightarrow> profile_version \<Rightarrow> agent_db \<Rightarrow> agent_db \<times> (registry_error + profile_version)" where
  "PublishProfileVersion J fault now i p db =
     (case profile_error J p of
        Some e \<Rightarrow> (db, Inl e)
      | None \<Rightarrow>
          if fault = StmtFails then (db, Inl AgFailed)
          else case sr_jsonb J (pv_spec p) of
              None \<Rightarrow> (db, Inl AgFailed)
            | Some s \<Rightarrow>
                if pv_key p \<in> set (map pv_key (ag_profiles db)) \<or> i \<in> set (map pv_id (ag_profiles db))
                then (db, answered fault (Inl AgVersionConflict))
                else let r = p\<lparr>pv_id := i, pv_spec := s, pv_lifecycle := LifecyclePublished, pv_lifecycle_reason := '''',
                           pv_lifecycle_at := None, pv_lifecycle_by := '''', pv_created_at := now\<rparr>
                     in (db\<lparr>ag_profiles := ag_profiles db @ [r]\<rparr>, answered fault (Inr r)))"

definition ListDefinitionVersions :: "string \<Rightarrow> agent_db option \<Rightarrow> registry_error + definition_version list" where
  "ListDefinitionVersions agent db =
     (case db of None \<Rightarrow> Inl AgFailed
      | Some d \<Rightarrow> Inr (sort_key (\<lambda>v. - int (dv_id v)) (filter (\<lambda>v. dv_agent v = agent) (ag_defs d))))"

definition ListProfileVersions :: "string \<Rightarrow> agent_db option \<Rightarrow> registry_error + profile_version list" where
  "ListProfileVersions profile db =
     (case db of None \<Rightarrow> Inl AgFailed
      | Some d \<Rightarrow> Inr (sort_key (\<lambda>v. - int (pv_id v)) (filter (\<lambda>v. pv_profile v = profile) (ag_profiles d))))"

definition definitionVersion :: "string \<Rightarrow> string \<Rightarrow> agent_db option \<Rightarrow> registry_error + definition_version" where
  "definitionVersion agent version db =
     (case db of None \<Rightarrow> Inl AgFailed
      | Some d \<Rightarrow> (case tselect dv_key (ag_defs d) (agent, version) of None \<Rightarrow> Inl AgDefinitionVersionNotFound | Some v \<Rightarrow> Inr v))"

definition profileVersion :: "string \<Rightarrow> string \<Rightarrow> agent_db option \<Rightarrow> registry_error + profile_version" where
  "profileVersion profile version db =
     (case db of None \<Rightarrow> Inl AgFailed
      | Some d \<Rightarrow> (case tselect pv_key (ag_profiles d) (profile, version) of None \<Rightarrow> Inl AgProfileVersionNotFound | Some v \<Rightarrow> Inr v))"

section \<open>Lifecycle\<close>

definition set_definition_body ::
  "gotime \<Rightarrow> string \<Rightarrow> string \<Rightarrow> string \<Rightarrow> string \<Rightarrow> string \<Rightarrow> agent_db \<Rightarrow> registry_error + agent_db \<times> definition_version" where
  "set_definition_body now agent version to reason actor db =
     andThen (definitionVersion agent version (Some db)) (\<lambda>d.
       if \<not> validLifecycleTransition (dv_lifecycle d) to then Inl AgInvalidLifecycleTransition
       else let r = d\<lparr>dv_lifecycle := to, dv_lifecycle_reason := reason, dv_lifecycle_at := Some now, dv_lifecycle_by := actor\<rparr>
            in Inr (db\<lparr>ag_defs := tput dv_key (ag_defs db) r\<rparr>, r))"

definition SetDefinitionVersionLifecycle ::
  "tx_fault \<Rightarrow> gotime \<Rightarrow> string \<Rightarrow> string \<Rightarrow> string \<Rightarrow> string \<Rightarrow> string \<Rightarrow> agent_db \<Rightarrow> agent_db \<times> (registry_error + definition_version)" where
  "SetDefinitionVersionLifecycle fault now agent version to reason actor =
     registry_tx fault (set_definition_body now agent version to reason actor)"

definition set_profile_body ::
  "gotime \<Rightarrow> string \<Rightarrow> string \<Rightarrow> string \<Rightarrow> string \<Rightarrow> string \<Rightarrow> agent_db \<Rightarrow> registry_error + agent_db \<times> profile_version" where
  "set_profile_body now profile version to reason actor db =
     andThen (profileVersion profile version (Some db)) (\<lambda>p.
       if \<not> validLifecycleTransition (pv_lifecycle p) to then Inl AgInvalidLifecycleTransition
       else let r = p\<lparr>pv_lifecycle := to, pv_lifecycle_reason := reason, pv_lifecycle_at := Some now, pv_lifecycle_by := actor\<rparr>
            in Inr (db\<lparr>ag_profiles := tput pv_key (ag_profiles db) r\<rparr>, r))"

definition SetProfileVersionLifecycle ::
  "tx_fault \<Rightarrow> gotime \<Rightarrow> string \<Rightarrow> string \<Rightarrow> string \<Rightarrow> string \<Rightarrow> string \<Rightarrow> agent_db \<Rightarrow> agent_db \<times> (registry_error + profile_version)" where
  "SetProfileVersionLifecycle fault now profile version to reason actor =
     registry_tx fault (set_profile_body now profile version to reason actor)"

end
