(* ===== verification/Agent_Bindings.thy ===== *)
theory Agent_Bindings
  imports Agent_Store
begin

text \<open>
  Release bindings of \<open>v1alpha2_store.go\<close>: append-only revisions that bind a definition version and a profile version
  to an agent and environment, what a consumer resolves, and the catalog.
\<close>

section \<open>Reads\<close>

definition bindings_of :: "string \<Rightarrow> string \<Rightarrow> agent_db \<Rightarrow> release_binding list" where
  "bindings_of agent env db = filter (\<lambda>b. rb_agent b = agent \<and> rb_environment b = env) (ag_bindings db)"

definition ListBindings :: "string \<Rightarrow> string \<Rightarrow> agent_db option \<Rightarrow> registry_error + release_binding list" where
  "ListBindings agent env db =
     (case db of None \<Rightarrow> Inl AgFailed | Some d \<Rightarrow> Inr (sort_key (\<lambda>b. - int (rb_revision b)) (bindings_of agent env d)))"

text \<open>\<open>ORDER BY revision DESC LIMIT 1\<close>.\<close>

definition ActiveBinding :: "string \<Rightarrow> string \<Rightarrow> agent_db option \<Rightarrow> registry_error + release_binding" where
  "ActiveBinding agent env db =
     andThen (ListBindings agent env db) (\<lambda>bs. case bs of [] \<Rightarrow> Inl AgBindingNotFound | b # _ \<Rightarrow> Inr b)"

definition GetBinding :: "string \<Rightarrow> string \<Rightarrow> nat \<Rightarrow> agent_db option \<Rightarrow> registry_error + release_binding" where
  "GetBinding agent env revision db =
     (case db of None \<Rightarrow> Inl AgFailed
      | Some d \<Rightarrow> (case tselect rb_revision (bindings_of agent env d) revision of None \<Rightarrow> Inl AgBindingNotFound | Some b \<Rightarrow> Inr b))"

section \<open>Binding and rolling back\<close>

definition nextRevision :: "string \<Rightarrow> string \<Rightarrow> agent_db \<Rightarrow> nat" where
  "nextRevision agent env db = fold max (map rb_revision (bindings_of agent env db)) 0 + 1"

text \<open>The primary key and the unique index of the table.\<close>

definition insert_binding :: "release_binding \<Rightarrow> agent_db \<Rightarrow> registry_error + agent_db \<times> release_binding" where
  "insert_binding b db =
     (if rb_id b \<in> set (map rb_id (ag_bindings db)) \<or>
         rb_revision b \<in> set (map rb_revision (bindings_of (rb_agent b) (rb_environment b) db)) then Inl AgFailed
      else Inr (db\<lparr>ag_bindings := ag_bindings db @ [b]\<rparr>, b))"

definition default_source :: "binding_request \<Rightarrow> binding_request" where
  "default_source r = (if br_source r = '''' then r\<lparr>br_source := BindingSourceRegistry\<rparr> else r)"

definition create_binding_body ::
  "spec_reader \<Rightarrow> gotime \<Rightarrow> nat \<Rightarrow> binding_request \<Rightarrow> agent_db \<Rightarrow> registry_error + agent_db \<times> release_binding" where
  "create_binding_body J now i r db =
     andThen (definitionVersion (br_agent r) (br_definition r) (Some db)) (\<lambda>d.
       check (refuseProfileless J d)
         (andThen (profileVersion (br_profile r) (br_profile_version r) (Some db)) (\<lambda>p.
            check (validateBindingPair J d p)
              (insert_binding
                 \<lparr>rb_id = i, rb_agent = br_agent r, rb_environment = br_environment r,
                  rb_revision = nextRevision (br_agent r) (br_environment r) db,
                  rb_definition = br_definition r, rb_profile = br_profile r, rb_profile_version = br_profile_version r,
                  rb_range = dv_range d, rb_source = br_source r, rb_intent_repo = br_intent_repo r, rb_intent_path = br_intent_path r,
                  rb_intent_sha = br_intent_sha r, rb_rollback_of = None, rb_reason = br_reason r, rb_created_at = now, rb_created_by = br_actor r\<rparr>
                 db))))"

definition CreateBinding ::
  "spec_reader \<Rightarrow> tx_fault \<Rightarrow> gotime \<Rightarrow> nat \<Rightarrow> binding_request \<Rightarrow> agent_db \<Rightarrow> agent_db \<times> (registry_error + release_binding)" where
  "CreateBinding J fault now i r0 db =
     (if \<not> validEnvironment (br_environment r0) then (db, Inl AgInvalidEnvironment)
      else let r = default_source r0 in
        if br_source r = BindingSourceCompatibilityFixture then (db, Inl AgFixtureNotPromotable)
        else registry_tx fault (create_binding_body J now i r) db)"

definition rollback_binding_body ::
  "spec_reader \<Rightarrow> gotime \<Rightarrow> nat \<Rightarrow> string \<Rightarrow> string \<Rightarrow> nat \<Rightarrow> string \<Rightarrow> string \<Rightarrow> agent_db \<Rightarrow> registry_error + agent_db \<times> release_binding" where
  "rollback_binding_body J now i agent env revision reason actor db =
     andThen (GetBinding agent env revision (Some db)) (\<lambda>t.
       andThen (definitionVersion agent (rb_definition t) (Some db)) (\<lambda>d.
         check (refuseProfileless J d)
           (andThen (profileVersion (rb_profile t) (rb_profile_version t) (Some db)) (\<lambda>p.
              check (validateBindingPairNotDisabled J d p)
                (insert_binding
                   \<lparr>rb_id = i, rb_agent = agent, rb_environment = env, rb_revision = nextRevision agent env db,
                    rb_definition = rb_definition t, rb_profile = rb_profile t, rb_profile_version = rb_profile_version t,
                    rb_range = dv_range d, rb_source = rb_source t, rb_intent_repo = rb_intent_repo t, rb_intent_path = rb_intent_path t,
                    rb_intent_sha = rb_intent_sha t, rb_rollback_of = Some (rb_id t), rb_reason = reason, rb_created_at = now, rb_created_by = actor\<rparr>
                   db)))))"

definition RollbackBinding ::
  "spec_reader \<Rightarrow> tx_fault \<Rightarrow> gotime \<Rightarrow> nat \<Rightarrow> string \<Rightarrow> string \<Rightarrow> nat \<Rightarrow> string \<Rightarrow> string \<Rightarrow> agent_db \<Rightarrow> agent_db \<times> (registry_error + release_binding)" where
  "RollbackBinding J fault now i agent env revision reason actor db =
     (if \<not> validEnvironment env then (db, Inl AgInvalidEnvironment)
      else registry_tx fault (rollback_binding_body J now i agent env revision reason actor) db)"

section \<open>Resolving\<close>

definition resolved_intent_of :: "release_binding option \<Rightarrow> resolved_intent option" where
  "resolved_intent_of b =
     (case b of None \<Rightarrow> None
      | Some b \<Rightarrow> if rb_intent_repo b \<noteq> '''' \<or> rb_intent_path b \<noteq> '''' \<or> rb_intent_sha b \<noteq> ''''
                 then Some \<lparr>ri_repo = rb_intent_repo b, ri_path = rb_intent_path b, ri_sha = rb_intent_sha b\<rparr> else None)"

definition buildResolvedBinding ::
  "spec_reader \<Rightarrow> release_binding option \<Rightarrow> definition_version \<Rightarrow> profile_version \<Rightarrow> registry_error + resolved_binding" where
  "buildResolvedBinding J b d p =
     check (refuseProfileless J d)
       (case ParseRange (dv_range d) of
          None \<Rightarrow> Inl AgInvalidRange
        | Some rng \<Rightarrow>
            (case ParseVersion (pv_version p) of
               None \<Rightarrow> Inl AgInvalidRange
             | Some v \<Rightarrow>
                 Inr \<lparr>rs_api_version = APIVersionV1Alpha2, rs_agent = dv_agent d,
                      rs_environment = (case b of None \<Rightarrow> '''' | Some b \<Rightarrow> rb_environment b),
                      rs_revision = (case b of None \<Rightarrow> 0 | Some b \<Rightarrow> rb_revision b),
                      rs_definition = \<lparr>rd_version = dv_version d, rd_lifecycle = dv_lifecycle d, rd_owner = dv_owner d,
                                       rd_source = dv_source d, rd_spec = dv_spec d\<rparr>,
                      rs_profile = \<lparr>rp_name = pv_profile p, rp_version = pv_version p, rp_lifecycle = pv_lifecycle p,
                                    rp_source = pv_source p, rp_spec = pv_spec p\<rparr>,
                      rs_compatibility = \<lparr>rc_range = dv_range d, rc_satisfied = Satisfies rng v\<rparr>,
                      rs_source = (case b of None \<Rightarrow> '''' | Some b \<Rightarrow> rb_source b),
                      rs_intent = resolved_intent_of b,
                      rs_rollback_of = (case b of None \<Rightarrow> None | Some b \<Rightarrow> rb_rollback_of b),
                      rs_created_at = map_option rb_created_at b,
                      rs_created_by = (case b of None \<Rightarrow> '''' | Some b \<Rightarrow> rb_created_by b)\<rparr>))"

definition definitionExists :: "string \<Rightarrow> agent_db option \<Rightarrow> registry_error + bool" where
  "definitionExists agent db = (case db of None \<Rightarrow> Inl AgFailed | Some d \<Rightarrow> Inr (has_definition agent d))"

definition HasDefinition :: "string \<Rightarrow> agent_db option \<Rightarrow> registry_error + bool" where
  "HasDefinition = definitionExists"

text \<open>Three statements, so three reads: the binding, the definition (or whether there is one at all), the profile.\<close>

definition ResolveBinding ::
  "spec_reader \<Rightarrow> string \<Rightarrow> string \<Rightarrow> agent_db option \<Rightarrow> agent_db option \<Rightarrow> agent_db option \<Rightarrow> registry_error + resolved_binding" where
  "ResolveBinding J agent env db1 db2 db3 =
     (if \<not> validEnvironment env then Inl AgInvalidEnvironment
      else case ActiveBinding agent env db1 of
          Inl e \<Rightarrow>
            if e = AgBindingNotFound
            then andThen (definitionExists agent db2) (\<lambda>exists. if \<not> exists then Inl AgDefinitionNotFound else Inl e)
            else Inl e
        | Inr b \<Rightarrow>
            andThen (definitionVersion agent (rb_definition b) db2) (\<lambda>d.
              andThen (profileVersion (rb_profile b) (rb_profile_version b) db3) (\<lambda>p.
                buildResolvedBinding J (Some b) d p)))"

fun best_version :: "version_range \<Rightarrow> (profile_version \<times> version) option \<Rightarrow> profile_version list \<Rightarrow> (profile_version \<times> version) option" where
  "best_version rng best [] = best"
| "best_version rng best (p # ps) =
     best_version rng
       (if pv_lifecycle p \<noteq> LifecyclePublished then best
        else case ParseVersion (pv_version p) of
            None \<Rightarrow> best
          | Some v \<Rightarrow>
              if \<not> Satisfies rng v then best
              else case best of
                  None \<Rightarrow> Some (p, v)
                | Some (q, w) \<Rightarrow> if 0 < Compare v w then Some (p, v) else best)
       ps"

definition highestCompatibleProfileVersion :: "string \<Rightarrow> string \<Rightarrow> agent_db option \<Rightarrow> registry_error + profile_version" where
  "highestCompatibleProfileVersion profile rngtext db =
     (case ParseRange rngtext of
        None \<Rightarrow> Inl AgInvalidRange
      | Some rng \<Rightarrow>
          andThen (ListProfileVersions profile db) (\<lambda>ps.
            case best_version rng None ps of None \<Rightarrow> Inl AgProfileVersionNotFound | Some (p, v) \<Rightarrow> Inr p))"

definition ResolveExplicit ::
  "spec_reader \<Rightarrow> string \<Rightarrow> string \<Rightarrow> string \<Rightarrow> string \<Rightarrow> agent_db option \<Rightarrow> agent_db option \<Rightarrow> registry_error + resolved_binding" where
  "ResolveExplicit J agent definition_v profile profile_v db1 db2 =
     andThen (definitionVersion agent definition_v db1) (\<lambda>d.
       check (refuseProfileless J d)
         (andThen (if profile_v \<noteq> '''' then profileVersion profile profile_v db2
                   else highestCompatibleProfileVersion profile (dv_range d) db2) (\<lambda>p.
            buildResolvedBinding J None d p)))"

section \<open>Catalog\<close>

record catalog_entry =
  ce_name :: string
  ce_description :: string
  ce_owner :: string
  ce_versions :: "agent_version list"
  ce_definitions :: "definition_version list"
  ce_profiles :: "profile_version list"
  ce_bindings :: "(string \<times> release_binding) list"

record catalog_summary =
  cs_name :: string
  cs_owner :: string
  cs_versions :: nat
  cs_definitions :: nat
  cs_bindings :: "(string \<times> nat) list"

text \<open>The active binding of each environment that has one.  The catalog reads one database.\<close>

definition active_bindings :: "string \<Rightarrow> agent_db \<Rightarrow> (string \<times> release_binding) list" where
  "active_bindings agent db =
     concat (map (\<lambda>env. case ActiveBinding agent env (Some db) of Inl e \<Rightarrow> [] | Inr b \<Rightarrow> [(env, b)])
       [EnvironmentProduction, EnvironmentShadow])"

definition ListCatalog :: "agent_db option \<Rightarrow> registry_error + catalog_summary list" where
  "ListCatalog db =
     (case db of None \<Rightarrow> Inl AgFailed
      | Some d \<Rightarrow> Inr (map (\<lambda>a. \<lparr>cs_name = ad_name a, cs_owner = ad_owner a,
            cs_versions = length (filter (\<lambda>v. av_agent v = ad_name a) (ag_versions d)),
            cs_definitions = length (filter (\<lambda>v. dv_agent v = ad_name a) (ag_defs d)),
            cs_bindings = map (\<lambda>(env, b). (env, rb_revision b)) (active_bindings (ad_name a) d)\<rparr>)
          (sort_key ad_name (ag_definitions d))))"

text \<open>
  The profiles the active bindings name, each once.  The code ranges over a map, so the order of the families is
  not determined; here it is that of the environments.
\<close>

definition GetCatalogEntry :: "nat option \<Rightarrow> string \<Rightarrow> agent_db option \<Rightarrow> registry_error + catalog_entry" where
  "GetCatalogEntry broke name db =
     (case db of None \<Rightarrow> Inl AgFailed
      | Some d \<Rightarrow>
          (case tselect ad_name (ag_definitions d) name of
             None \<Rightarrow> Inl AgDefinitionNotFound
           | Some a \<Rightarrow>
               andThen (ListVersions broke name db) (\<lambda>vs.
                 andThen (ListDefinitionVersions name db) (\<lambda>ds.
                   let bs = active_bindings name d in
                   Inr \<lparr>ce_name = ad_name a, ce_description = ad_description a, ce_owner = ad_owner a, ce_versions = vs, ce_definitions = ds,
                        ce_profiles = concat (map (\<lambda>f. case ListProfileVersions f db of Inl e \<Rightarrow> [] | Inr ps \<Rightarrow> ps)
                          (remdups (map (rb_profile \<circ> snd) bs))),
                        ce_bindings = bs\<rparr>))))"

section \<open>Assistants\<close>

text \<open>The order of \<open>sortByAgentThenVersionDesc\<close> and its stable sort, an insertion sort.\<close>

definition assistant_before :: "definition_version \<Rightarrow> definition_version \<Rightarrow> bool" where
  "assistant_before x y \<longleftrightarrow>
     (if dv_agent x \<noteq> dv_agent y then dv_agent x < dv_agent y
      else case (ParseVersion (dv_version x), ParseVersion (dv_version y)) of
          (Some v, Some w) \<Rightarrow> 0 < Compare v w
        | _ \<Rightarrow> False)"

fun insert_stable :: "('a \<Rightarrow> 'a \<Rightarrow> bool) \<Rightarrow> 'a \<Rightarrow> 'a list \<Rightarrow> 'a list" where
  "insert_stable before x [] = [x]"
| "insert_stable before x (y # ys) = (if before y x then y # insert_stable before x ys else x # y # ys)"

definition sortByAgentThenVersionDesc :: "definition_version list \<Rightarrow> definition_version list" where
  "sortByAgentThenVersionDesc vs = foldr (insert_stable assistant_before) vs []"

definition ListDefinitionVersionsByKind :: "spec_reader \<Rightarrow> string \<Rightarrow> agent_db option \<Rightarrow> registry_error + definition_version list" where
  "ListDefinitionVersionsByKind J kind db =
     (case db of None \<Rightarrow> Inl AgFailed
      | Some d \<Rightarrow> Inr (sortByAgentThenVersionDesc
          (sort_key (\<lambda>v. (dv_agent v, - int (dv_id v))) (filter (\<lambda>v. sr_kind_sql J (dv_spec v) = Some kind) (ag_defs d)))))"

definition GetDefinitionVersion :: "string \<Rightarrow> string \<Rightarrow> agent_db option \<Rightarrow> registry_error + definition_version" where
  "GetDefinitionVersion = definitionVersion"

end
