(* ===== verification/Agent_Machine.thy ===== *)
theory Agent_Machine
  imports Agent_Bindings "HOL-Library.Multiset"
begin

text \<open>
  The runs of the registry, and what a call can do to it: every operation, on every input and fault, makes one of
  ten changes or none.  The properties are invariants of these changes.
\<close>

section \<open>Runs\<close>

datatype registry_op =
    AgDefine stmt_fault gotime string string string
  | AgPublish stmt_fault gotime nat agent_version
  | AgPromote tx_fault gotime nat string string string string string
  | AgRollback tx_fault gotime nat string string string string
  | AgRecord stmt_fault gotime nat agent_execution
  | AgPublishDef stmt_fault gotime nat definition_version
  | AgPublishProfile stmt_fault gotime nat profile_version
  | AgSetDef tx_fault gotime string string string string string
  | AgSetProfile tx_fault gotime string string string string string
  | AgBind tx_fault gotime nat binding_request
  | AgRollbackBinding tx_fault gotime nat string string nat string string

fun registry_step :: "spec_reader \<Rightarrow> registry_op \<Rightarrow> agent_db \<Rightarrow> agent_db" where
  "registry_step J (AgDefine f t n d w) db = fst (CreateDefinition f t n d w db)"
| "registry_step J (AgPublish f t i v) db = fst (PublishVersion J f t i v db)"
| "registry_step J (AgPromote f t i a e v r w) db = fst (PromoteRelease f t i a e v r w db)"
| "registry_step J (AgRollback f t i a e r w) db = fst (Rollback f t i a e r w db)"
| "registry_step J (AgRecord f t i x) db = fst (RecordAgentExecution f t i x db)"
| "registry_step J (AgPublishDef f t i d) db = fst (PublishDefinitionVersion J f t i d db)"
| "registry_step J (AgPublishProfile f t i p) db = fst (PublishProfileVersion J f t i p db)"
| "registry_step J (AgSetDef f t a v l r w) db = fst (SetDefinitionVersionLifecycle f t a v l r w db)"
| "registry_step J (AgSetProfile f t a v l r w) db = fst (SetProfileVersionLifecycle f t a v l r w db)"
| "registry_step J (AgBind f t i r) db = fst (CreateBinding J f t i r db)"
| "registry_step J (AgRollbackBinding f t i a e n r w) db = fst (RollbackBinding J f t i a e n r w db)"

text \<open>The promotions of a pair in the order they were made.\<close>

definition promos :: "string \<Rightarrow> string \<Rightarrow> agent_db \<Rightarrow> agent_promotion list" where
  "promos agent env db = filter (\<lambda>p. pm_agent p = agent \<and> pm_environment p = env) (ag_promotions db)"

text \<open>
  A promotion takes its id from the sequence while it holds the lock of its pair, so the id is above those of
  the pair's earlier promotions.
\<close>

fun registry_op_ok :: "agent_db \<Rightarrow> registry_op \<Rightarrow> bool" where
  "registry_op_ok db (AgPromote f t i a e v r w) \<longleftrightarrow> list_all (\<lambda>p. pm_id p < i) (promos a e db)"
| "registry_op_ok db (AgRollback f t i a e r w) \<longleftrightarrow> list_all (\<lambda>p. pm_id p < i) (promos a e db)"
| "registry_op_ok db _ \<longleftrightarrow> True"

inductive registry_reach :: "spec_reader \<Rightarrow> agent_db \<Rightarrow> bool" for J where
  ag_start: "registry_reach J empty_agdb"
| ag_call: "registry_reach J db \<Longrightarrow> registry_op_ok db op \<Longrightarrow> registry_reach J (registry_step J op db)"

text \<open>What a later database may be.\<close>

inductive registry_later :: "spec_reader \<Rightarrow> agent_db \<Rightarrow> agent_db \<Rightarrow> bool" for J db where
  lt_now: "registry_later J db db"
| lt_call: "registry_later J db db' \<Longrightarrow> registry_op_ok db' op \<Longrightarrow> registry_later J db (registry_step J op db')"

lemma later_reach: "registry_later J db db' \<Longrightarrow> registry_reach J db \<Longrightarrow> registry_reach J db'"
  by (induction rule: registry_later.induct) (auto intro: registry_reach.intros)

section \<open>Changes\<close>

definition live_version :: "string \<Rightarrow> string \<Rightarrow> agent_db \<Rightarrow> string" where
  "live_version agent env db = (case tselect rl_key (ag_releases db) (agent, env) of None \<Rightarrow> '''' | Some r \<Rightarrow> rl_version r)"

definition def_row :: "string \<Rightarrow> string \<Rightarrow> agent_db \<Rightarrow> definition_version option" where
  "def_row agent version db = tselect dv_key (ag_defs db) (agent, version)"

definition profile_row :: "string \<Rightarrow> string \<Rightarrow> agent_db \<Rightarrow> profile_version option" where
  "profile_row profile version db = tselect pv_key (ag_profiles db) (profile, version)"

text \<open>The pair a binding names, as stored.\<close>

definition binds :: "release_binding \<Rightarrow> agent_db \<Rightarrow> definition_version \<Rightarrow> profile_version \<Rightarrow> bool" where
  "binds b db d p \<longleftrightarrow>
     def_row (rb_agent b) (rb_definition b) db = Some d \<and> profile_row (rb_profile b) (rb_profile_version b) db = Some p"

inductive registry_change :: "spec_reader \<Rightarrow> agent_db \<Rightarrow> agent_db \<Rightarrow> bool" for J db where
  ch_none: "registry_change J db db"
| ch_define: "registry_change J db (db\<lparr>ag_definitions := tput ad_name (ag_definitions db) d\<rparr>)"
| ch_version:
    "av_key v \<notin> av_key ` set (ag_versions db) \<Longrightarrow> has_definition (av_agent v) db \<Longrightarrow>
     registry_change J db (db\<lparr>ag_versions := ag_versions db @ [v]\<rparr>)"
| ch_promote:
    "validEnvironment env \<Longrightarrow> has_version agent (pm_to p) db \<Longrightarrow> pm_to p \<noteq> pm_from p \<Longrightarrow> pm_from p = live_version agent env db \<Longrightarrow>
     list_all (\<lambda>q. pm_id q < pm_id p) (promos agent env db) \<Longrightarrow> pm_agent p = agent \<Longrightarrow> pm_environment p = env \<Longrightarrow>
     rl_key r = (agent, env) \<Longrightarrow> rl_version r = pm_to p \<Longrightarrow>
     registry_change J db (db\<lparr>ag_releases := tput rl_key (ag_releases db) r, ag_promotions := ag_promotions db @ [p]\<rparr>)"
| ch_execution: "registry_change J db (db\<lparr>ag_executions := xs\<rparr>)"
| ch_def:
    "dv_key d \<notin> dv_key ` set (ag_defs db) \<Longrightarrow> dv_lifecycle d = LifecyclePublished \<Longrightarrow> ParseVersion (dv_version d) \<noteq> None \<Longrightarrow>
     registry_change J db (db\<lparr>ag_defs := ag_defs db @ [d]\<rparr>)"
| ch_profile:
    "pv_key p \<notin> pv_key ` set (ag_profiles db) \<Longrightarrow> pv_id p \<notin> pv_id ` set (ag_profiles db) \<Longrightarrow> pv_lifecycle p = LifecyclePublished \<Longrightarrow>
     ParseVersion (pv_version p) \<noteq> None \<Longrightarrow> registry_change J db (db\<lparr>ag_profiles := ag_profiles db @ [p]\<rparr>)"
| ch_set_def:
    "tselect dv_key (ag_defs db) k = Some d \<Longrightarrow> validLifecycleTransition (dv_lifecycle d) to \<Longrightarrow>
     registry_change J db (db\<lparr>ag_defs := tput dv_key (ag_defs db)
       (d\<lparr>dv_lifecycle := to, dv_lifecycle_reason := why, dv_lifecycle_at := Some t, dv_lifecycle_by := who\<rparr>)\<rparr>)"
| ch_set_profile:
    "tselect pv_key (ag_profiles db) k = Some p \<Longrightarrow> validLifecycleTransition (pv_lifecycle p) to \<Longrightarrow>
     registry_change J db (db\<lparr>ag_profiles := tput pv_key (ag_profiles db)
       (p\<lparr>pv_lifecycle := to, pv_lifecycle_reason := why, pv_lifecycle_at := Some t, pv_lifecycle_by := who\<rparr>)\<rparr>)"
| ch_bind:
    "validEnvironment (rb_environment b) \<Longrightarrow> binds b db d p \<Longrightarrow> validateBindingPairNotDisabled J d p = None \<Longrightarrow>
     rb_range b = dv_range d \<Longrightarrow> rb_revision b = nextRevision (rb_agent b) (rb_environment b) db \<Longrightarrow>
     rb_id b \<notin> rb_id ` set (ag_bindings db) \<Longrightarrow>
     (rb_rollback_of b = None \<Longrightarrow>
        validateBindingPair J d p = None \<and> rb_source b \<noteq> '''' \<and> rb_source b \<noteq> BindingSourceCompatibilityFixture) \<Longrightarrow>
     (\<And>i. rb_rollback_of b = Some i \<Longrightarrow> \<exists>t \<in> set (bindings_of (rb_agent b) (rb_environment b) db). rb_id t = i \<and>
          rb_definition t = rb_definition b \<and> rb_profile t = rb_profile b \<and> rb_profile_version t = rb_profile_version b \<and>
          rb_source t = rb_source b) \<Longrightarrow>
     registry_change J db (db\<lparr>ag_bindings := ag_bindings db @ [b]\<rparr>)"

section \<open>Every call is a change\<close>

lemma tx_change:
  assumes "\<And>db' x. body db = Inr (db', x) \<Longrightarrow> registry_change J db db'"
  shows "registry_change J db (fst (registry_tx fault body db))"
  using assms by (auto simp: registry_tx_def intro: ch_none split: sum.splits)

lemma promotions_newest:
  assumes "sorted_wrt (<) (map pm_id (promos agent env db))"
  shows "promotions_of agent env db = rev (promos agent env db)"
proof -
  have "distinct (map pm_id (promos agent env db))" using assms by (simp add: strict_sorted_iff)
  then have inj: "inj_on (\<lambda>p. - int (pm_id p)) (set (promos agent env db))" by (auto simp: distinct_map inj_on_def)
  have "sorted (map pm_id (promos agent env db))" using assms by (simp add: strict_sorted_iff)
  then have "sorted (map (\<lambda>p. - int (pm_id p)) (rev (promos agent env db)))"
    by (auto simp: sorted_wrt_map sorted_wrt_rev elim: sorted_wrt_mono_rel [rotated])
  then show ?thesis unfolding promotions_of_def
    by (intro sort_key_inj_key_eq) (use inj in \<open>simp_all add: promos_def\<close>)
qed

lemma promote_change:
  assumes "promote_body now i agent env reason actor resolve db = Inr (db', r)" and "validEnvironment env"
    and "list_all (\<lambda>p. pm_id p < i) (promos agent env db)"
  shows "registry_change J db db'"
proof -
  obtain version rollback where res: "resolve db = Inr (version, rollback)" and ver: "has_version agent version db"
    using assms(1) by (auto simp: promote_body_def andThen_Inr Let_def split: if_splits)
  show ?thesis
  proof (cases "live_version agent env db = version")
    case True
    with assms(1) res ver have "db' = db"
      by (auto simp: promote_body_def Let_def live_version_def split: if_splits option.splits)
    then show ?thesis by (simp add: ch_none)
  next
    case False
    let ?p = "\<lparr>pm_id = i, pm_agent = agent, pm_environment = env, pm_from = live_version agent env db, pm_to = version,
      pm_reason = reason, pm_actor = actor, pm_rollback_of = rollback, pm_created_at = now\<rparr>"
    have r: "rl_key r = (agent, env)" "rl_version r = version"
        "db' = db\<lparr>ag_releases := tput rl_key (ag_releases db) r, ag_promotions := ag_promotions db @ [?p]\<rparr>"
      using assms(1) res ver False
      by (auto simp: promote_body_def Let_def live_version_def split: if_splits)
    show ?thesis unfolding r(3)
      by (rule ch_promote [of env agent]) (use assms r(1,2) ver False in \<open>auto simp: live_version_def\<close>)
  qed
qed

lemma binding_change:
  assumes "insert_binding b db = Inr (db', b')" and "validEnvironment (rb_environment b)" and "binds b db d p"
    and "validateBindingPairNotDisabled J d p = None" and "rb_range b = dv_range d"
    and "rb_revision b = nextRevision (rb_agent b) (rb_environment b) db"
    and "rb_rollback_of b = None \<Longrightarrow>
        validateBindingPair J d p = None \<and> rb_source b \<noteq> '''' \<and> rb_source b \<noteq> BindingSourceCompatibilityFixture"
    and "\<And>i. rb_rollback_of b = Some i \<Longrightarrow> \<exists>t \<in> set (bindings_of (rb_agent b) (rb_environment b) db). rb_id t = i \<and>
          rb_definition t = rb_definition b \<and> rb_profile t = rb_profile b \<and> rb_profile_version t = rb_profile_version b \<and>
          rb_source t = rb_source b"
  shows "registry_change J db db'"
proof -
  have "db' = db\<lparr>ag_bindings := ag_bindings db @ [b]\<rparr>" "rb_id b \<notin> rb_id ` set (ag_bindings db)"
    using assms(1) by (auto simp: insert_binding_def split: if_splits)
  then show ?thesis using ch_bind [OF assms(2-6) _ assms(7,8)] by simp
qed

lemma create_binding_change:
  assumes "create_binding_body J now i r db = Inr (db', b)" and "validEnvironment (br_environment r)"
    and "br_source r \<noteq> ''''" and "br_source r \<noteq> BindingSourceCompatibilityFixture"
  shows "registry_change J db db'"
proof -
  obtain d p where d: "def_row (br_agent r) (br_definition r) db = Some d" and p: "profile_row (br_profile r) (br_profile_version r) db = Some p"
    and pair: "validateBindingPair J d p = None"
    and ins: "insert_binding
       \<lparr>rb_id = i, rb_agent = br_agent r, rb_environment = br_environment r,
        rb_revision = nextRevision (br_agent r) (br_environment r) db,
        rb_definition = br_definition r, rb_profile = br_profile r, rb_profile_version = br_profile_version r,
        rb_range = dv_range d, rb_source = br_source r, rb_intent_repo = br_intent_repo r, rb_intent_path = br_intent_path r,
        rb_intent_sha = br_intent_sha r, rb_rollback_of = None, rb_reason = br_reason r, rb_created_at = now, rb_created_by = br_actor r\<rparr>
       db = Inr (db', b)"
    using assms(1)
    by (auto simp: create_binding_body_def result_iffs definitionVersion_def profileVersion_def def_row_def profile_row_def split: option.splits)
  show ?thesis
    by (rule binding_change [OF ins, of d p]) (use assms(2-4) d p pair in \<open>simp_all add: binds_def pair_iff\<close>)
qed

lemma rollback_binding_change:
  assumes "rollback_binding_body J now i agent env revision reason actor db = Inr (db', b)" and "validEnvironment env"
  shows "registry_change J db db'"
proof -
  obtain t d p where t: "tselect rb_revision (bindings_of agent env db) revision = Some t"
    and d: "def_row agent (rb_definition t) db = Some d" and p: "profile_row (rb_profile t) (rb_profile_version t) db = Some p"
    and pair: "validateBindingPairNotDisabled J d p = None"
    and ins: "insert_binding
       \<lparr>rb_id = i, rb_agent = agent, rb_environment = env, rb_revision = nextRevision agent env db,
        rb_definition = rb_definition t, rb_profile = rb_profile t, rb_profile_version = rb_profile_version t,
        rb_range = dv_range d, rb_source = rb_source t, rb_intent_repo = rb_intent_repo t, rb_intent_path = rb_intent_path t,
        rb_intent_sha = rb_intent_sha t, rb_rollback_of = Some (rb_id t), rb_reason = reason, rb_created_at = now, rb_created_by = actor\<rparr>
       db = Inr (db', b)"
    using assms(1)
    by (auto simp: rollback_binding_body_def result_iffs GetBinding_def definitionVersion_def profileVersion_def def_row_def profile_row_def split: option.splits)
  have "t \<in> set (bindings_of agent env db)" using tselect_SomeD [OF t] by simp
  then show ?thesis
    by (intro binding_change [OF ins, of d p]) (use assms(2) d p pair in \<open>auto simp: binds_def\<close>)
qed

lemma set_definition_change: "set_definition_body now agent version to reason actor db = Inr (db', d) \<Longrightarrow> registry_change J db db'"
  by (auto simp: set_definition_body_def definitionVersion_def andThen_Inr Let_def intro: ch_set_def split: option.splits if_splits)

lemma set_profile_change: "set_profile_body now profile version to reason actor db = Inr (db', p) \<Longrightarrow> registry_change J db db'"
  by (auto simp: set_profile_body_def profileVersion_def andThen_Inr Let_def intro: ch_set_profile split: option.splits if_splits)

lemma publish_version_change: "registry_change J db (fst (PublishVersion J f t i v db))"
  by (auto simp: PublishVersion_def Let_def intro!: ch_none ch_version split: option.splits)

lemma publish_definition_change: "registry_change J db (fst (PublishDefinitionVersion J f t i d db))"
  by (auto simp: PublishDefinitionVersion_def definition_error_def Let_def intro!: ch_none ch_def split: option.splits if_splits)

lemma publish_profile_change: "registry_change J db (fst (PublishProfileVersion J f t i p db))"
  by (auto simp: PublishProfileVersion_def profile_error_def Let_def intro!: ch_none ch_profile split: option.splits if_splits)

lemma create_binding_op: "registry_change J db (fst (CreateBinding J f t i r db))"
  by (auto simp: CreateBinding_def Let_def default_source_def source_defs intro!: ch_none tx_change elim!: create_binding_change split: if_splits)

text \<open>Every call, whatever its input and whatever faults it meets, makes a change or none.\<close>

theorem step_change:
  assumes "registry_op_ok db op"
  shows "registry_change J db (registry_step J op db)"
  using assms
  by (cases op)
    (auto simp: CreateDefinition_def Let_def PromoteRelease_def Rollback_def RecordAgentExecution_def SetDefinitionVersionLifecycle_def
      SetProfileVersionLifecycle_def RollbackBinding_def publish_version_change publish_definition_change publish_profile_change create_binding_op
      intro!: ch_none ch_define ch_execution tx_change
      elim!: promote_change set_definition_change set_profile_change rollback_binding_change split: option.splits)

end
