(* ===== verification/Agent_Invariant.thy ===== *)
theory Agent_Invariant
  imports Agent_Machine
begin

text \<open>
  What every change keeps: published rows never change but in their lifecycle, which only moves forward; the promotions
  of a pair are a chain that ends at its release; the bindings of a pair are numbered from 1 and name pairs that fit.
\<close>

section \<open>Rows that stay\<close>

definition dv_fixed :: "definition_version \<Rightarrow> nat \<times> string \<times> string \<times> string \<times> string \<times> string \<times> source_manifest \<times> string \<times> gotime \<times> string" where
  "dv_fixed d = (dv_id d, dv_agent d, dv_version d, dv_api_version d, dv_spec d, dv_owner d, dv_source d, dv_range d, dv_created_at d, dv_created_by d)"

definition pv_fixed :: "profile_version \<Rightarrow> nat \<times> string \<times> string \<times> string \<times> string \<times> source_manifest \<times> gotime \<times> string" where
  "pv_fixed p = (pv_id p, pv_profile p, pv_version p, pv_spec p, pv_owner p, pv_source p, pv_created_at p, pv_created_by p)"

definition def_kept :: "definition_version \<Rightarrow> definition_version \<Rightarrow> bool" where
  "def_kept d d' \<longleftrightarrow> dv_fixed d' = dv_fixed d \<and> (dv_lifecycle d' = dv_lifecycle d \<or> validLifecycleTransition (dv_lifecycle d) (dv_lifecycle d'))"

definition profile_kept :: "profile_version \<Rightarrow> profile_version \<Rightarrow> bool" where
  "profile_kept p p' \<longleftrightarrow> pv_fixed p' = pv_fixed p \<and> (pv_lifecycle p' = pv_lifecycle p \<or> validLifecycleTransition (pv_lifecycle p) (pv_lifecycle p'))"

lemma kept_refl [simp]: "def_kept d d" "profile_kept p p"
  by (simp_all add: def_kept_def profile_kept_def)

lemma kept_trans: "def_kept d e \<Longrightarrow> def_kept e f \<Longrightarrow> def_kept d f" "profile_kept p q \<Longrightarrow> profile_kept q r \<Longrightarrow> profile_kept p r"
  by (auto simp: def_kept_def profile_kept_def dest: transition_trans)

lemma def_row_kept:
  assumes "registry_change J db db'" and "def_row a v db = Some d"
  shows "\<exists>d'. def_row a v db' = Some d' \<and> def_kept d d'"
  using assms
proof cases
  case (ch_set_def k c to why t who)
  have "dv_key c = k" using tselect_SomeD [OF ch_set_def(2)] by simp
  then show ?thesis using assms(2) ch_set_def
    by (auto simp: def_row_def tselect_tput def_kept_def dv_fixed_def)
qed (auto simp: def_row_def tselect_append)

lemma profile_row_kept:
  assumes "registry_change J db db'" and "profile_row a v db = Some p"
  shows "\<exists>p'. profile_row a v db' = Some p' \<and> profile_kept p p'"
  using assms
proof cases
  case (ch_set_profile k c to why t who)
  have "pv_key c = k" using tselect_SomeD [OF ch_set_profile(2)] by simp
  then show ?thesis using assms(2) ch_set_profile
    by (auto simp: profile_row_def tselect_tput profile_kept_def pv_fixed_def)
qed (auto simp: profile_row_def tselect_append)

section \<open>Invariants of the changes\<close>

locale registry_invariant =
  fixes J :: spec_reader
    and inv :: "agent_db \<Rightarrow> bool"
  assumes kept: "registry_change J db db' \<Longrightarrow> inv db \<Longrightarrow> inv db'"
begin

lemma later: "registry_later J db db' \<Longrightarrow> inv db \<Longrightarrow> inv db'"
  by (induction rule: registry_later.induct) (auto intro: kept step_change)

lemma reach: "inv empty_agdb \<Longrightarrow> registry_reach J db \<Longrightarrow> inv db"
  by (rotate_tac, induction rule: registry_reach.induct) (auto intro: kept step_change)

end

interpretation def_rows: registry_invariant J "\<lambda>x. \<exists>d'. def_row a v x = Some d' \<and> def_kept d d'" for J a v d
  by unfold_locales (auto dest: def_row_kept intro: kept_trans)

interpretation profile_rows: registry_invariant J "\<lambda>x. \<exists>p'. profile_row a v x = Some p' \<and> profile_kept p p'" for J a v p
  by unfold_locales (auto dest: profile_row_kept intro: kept_trans)

lemma later_def_row: "registry_later J db db' \<Longrightarrow> def_row a v db = Some d \<Longrightarrow> \<exists>d'. def_row a v db' = Some d' \<and> def_kept d d'"
  by (erule def_rows.later) simp

lemma later_profile_row:
  "registry_later J db db' \<Longrightarrow> profile_row a v db = Some p \<Longrightarrow> \<exists>p'. profile_row a v db' = Some p' \<and> profile_kept p p'"
  by (erule profile_rows.later) simp

section \<open>Promotions\<close>

text \<open>A list of promotions that leads from one version to another.\<close>

fun leads :: "string \<Rightarrow> agent_promotion list \<Rightarrow> string \<Rightarrow> bool" where
  "leads v [] w \<longleftrightarrow> v = w"
| "leads v (p # ps) w \<longleftrightarrow> pm_from p = v \<and> pm_to p \<noteq> v \<and> leads (pm_to p) ps w"

lemma leads_append: "leads v (ps @ qs) w \<longleftrightarrow> (\<exists>u. leads v ps u \<and> leads u qs w)"
  by (induction ps arbitrary: v) auto

definition releases_ok :: "agent_db \<Rightarrow> bool" where
  "releases_ok db \<longleftrightarrow>
     (\<forall>agent env. leads '''' (promos agent env db) (live_version agent env db) \<and>
        sorted_wrt (<) (map pm_id (promos agent env db)) \<and>
        (tselect rl_key (ag_releases db) (agent, env) = None \<longleftrightarrow> promos agent env db = []) \<and>
        (\<forall>p \<in> set (promos agent env db). validEnvironment env \<and> has_version agent (pm_to p) db))"

lemma releases_change:
  assumes "registry_change J db db'" and "releases_ok db"
  shows "releases_ok db'"
  using assms
proof cases
  case (ch_version v)
  then show ?thesis using assms(2) by (auto simp: releases_ok_def promos_def live_version_def has_version_def)
next
  case (ch_promote env agent p r)
  have new: "promos a e db' = (if a = agent \<and> e = env then promos a e db @ [p] else promos a e db)"
    "live_version a e db' = (if a = agent \<and> e = env then pm_to p else live_version a e db)"
    "tselect rl_key (ag_releases db') (a, e) = (if a = agent \<and> e = env then Some r else tselect rl_key (ag_releases db) (a, e))"
    "has_version a v db' = has_version a v db" for a e v
    using ch_promote by (auto simp: promos_def live_version_def tselect_tput has_version_def)
  show ?thesis unfolding releases_ok_def new
    using assms(2) ch_promote(2-7) by (auto simp: releases_ok_def leads_append sorted_wrt_append list_all_iff)
qed (auto simp: releases_ok_def promos_def live_version_def has_version_def)

interpretation release_chains: registry_invariant J "releases_ok" for J
  by unfold_locales (rule releases_change)

lemma reach_releases: "registry_reach J db \<Longrightarrow> releases_ok db"
  by (rule release_chains.reach) (simp_all add: releases_ok_def empty_agdb_def promos_def live_version_def)

text \<open>A published version has a definition.\<close>

definition versions_defined :: "agent_db \<Rightarrow> bool" where
  "versions_defined db \<longleftrightarrow> (\<forall>v \<in> set (ag_versions db). has_definition (av_agent v) db)"

lemma defined_change:
  assumes "registry_change J db db'" and "versions_defined db"
  shows "versions_defined db'"
  using assms
proof cases
  case (ch_define d)
  have "has_definition a (db\<lparr>ag_definitions := tput ad_name (ag_definitions db) d\<rparr>)" if "has_definition a db" for a
    using that by (auto simp: has_definition_def tput_def image_iff)
  then show ?thesis using assms(2) ch_define by (simp add: versions_defined_def)
qed (auto simp: versions_defined_def has_definition_def)

interpretation defined_versions: registry_invariant J versions_defined for J
  by unfold_locales (rule defined_change)

lemma reach_defined: "registry_reach J db \<Longrightarrow> versions_defined db"
  by (rule defined_versions.reach) (simp_all add: versions_defined_def empty_agdb_def)

section \<open>Bindings\<close>

lemma bindings_of_append:
  "bindings_of a e (db\<lparr>ag_bindings := ag_bindings db @ [b]\<rparr>) =
     (if rb_agent b = a \<and> rb_environment b = e then bindings_of a e db @ [b] else bindings_of a e db)"
  by (auto simp: bindings_of_def)

text \<open>What holds of a binding for good.\<close>

definition binding_ok :: "spec_reader \<Rightarrow> agent_db \<Rightarrow> release_binding \<Rightarrow> bool" where
  "binding_ok J db b \<longleftrightarrow>
     validEnvironment (rb_environment b) \<and> rb_source b \<noteq> '''' \<and> rb_source b \<noteq> BindingSourceCompatibilityFixture \<and>
     (\<exists>d p. binds b db d p \<and> rb_range b = dv_range d \<and> \<not> IsProfileless J (dv_spec d) \<and> compatible (dv_range d) (pv_version p)) \<and>
     (\<forall>i. rb_rollback_of b = Some i \<longrightarrow>
        (\<exists>t \<in> set (bindings_of (rb_agent b) (rb_environment b) db). rb_id t = i \<and> rb_revision t < rb_revision b \<and>
          rb_definition t = rb_definition b \<and> rb_profile t = rb_profile b \<and> rb_profile_version t = rb_profile_version b))"

definition bindings_ok :: "spec_reader \<Rightarrow> agent_db \<Rightarrow> bool" where
  "bindings_ok J db \<longleftrightarrow>
     distinct (map rb_id (ag_bindings db)) \<and> (\<forall>b \<in> set (ag_bindings db). binding_ok J db b) \<and>
     (\<forall>agent env. map rb_revision (bindings_of agent env db) = [1..<Suc (length (bindings_of agent env db))])"

lemma fold_max_upt: "fold max [1..<Suc n] 0 = n"
  by (induction n) simp_all

lemma next_revision:
  assumes "bindings_ok J db"
  shows "nextRevision agent env db = Suc (length (bindings_of agent env db))"
proof -
  have "map rb_revision (bindings_of agent env db) = [1..<Suc (length (bindings_of agent env db))]"
    using assms by (simp add: bindings_ok_def)
  then show ?thesis by (simp only: nextRevision_def fold_max_upt)
qed

lemma binding_ok_mono:
  assumes "binding_ok J db b" and "registry_change J db db'" and "\<And>a e. set (bindings_of a e db) \<subseteq> set (bindings_of a e db')"
  shows "binding_ok J db' b"
proof -
  obtain d p where d: "def_row (rb_agent b) (rb_definition b) db = Some d" and p: "profile_row (rb_profile b) (rb_profile_version b) db = Some p"
    and "rb_range b = dv_range d" "\<not> IsProfileless J (dv_spec d)" "compatible (dv_range d) (pv_version p)"
    using assms(1) by (auto simp: binding_ok_def binds_def)
  moreover obtain d' p' where "def_row (rb_agent b) (rb_definition b) db' = Some d'" "def_kept d d'"
      "profile_row (rb_profile b) (rb_profile_version b) db' = Some p'" "profile_kept p p'"
    using def_row_kept [OF assms(2) d] profile_row_kept [OF assms(2) p] by blast
  ultimately have "\<exists>d p. binds b db' d p \<and> rb_range b = dv_range d \<and> \<not> IsProfileless J (dv_spec d) \<and> compatible (dv_range d) (pv_version p)"
    by (intro exI [of _ d'] exI [of _ p']) (simp add: binds_def def_kept_def profile_kept_def dv_fixed_def pv_fixed_def)
  then show ?thesis using assms(1,3) unfolding binding_ok_def by blast
qed

lemma bindings_change:
  assumes "registry_change J db db'" and "bindings_ok J db"
  shows "bindings_ok J db'"
proof -
  have "(\<forall>a e. bindings_of a e db' = bindings_of a e db) \<and> ag_bindings db' = ag_bindings db \<or>
      (\<exists>b d p. db' = db\<lparr>ag_bindings := ag_bindings db @ [b]\<rparr> \<and> registry_change J db db' \<and> rb_id b \<notin> rb_id ` set (ag_bindings db) \<and>
         rb_revision b = nextRevision (rb_agent b) (rb_environment b) db \<and> binding_ok J (db\<lparr>ag_bindings := ag_bindings db @ [b]\<rparr>) b)"
    using assms(1)
  proof cases
    case (ch_bind b d p)
    have rev: "rb_revision t < rb_revision b" if "t \<in> set (bindings_of (rb_agent b) (rb_environment b) db)" for t
    proof -
      have "rb_revision t \<in> set [1..<Suc (length (bindings_of (rb_agent b) (rb_environment b) db))]"
        using that assms(2) by (metis bindings_ok_def image_eqI list.set_map)
      then show ?thesis using next_revision [OF assms(2)] ch_bind by auto
    qed
    have src: "rb_source b \<noteq> '''' \<and> rb_source b \<noteq> BindingSourceCompatibilityFixture"
    proof (cases "rb_rollback_of b")
      case (Some i)
      then obtain t where "t \<in> set (bindings_of (rb_agent b) (rb_environment b) db)" "rb_source t = rb_source b" using ch_bind by blast
      moreover then have "binding_ok J db t" using assms(2) by (auto simp: bindings_ok_def bindings_of_def)
      ultimately show ?thesis by (simp add: binding_ok_def)
    qed (use ch_bind in simp)
    have "binding_ok J (db\<lparr>ag_bindings := ag_bindings db @ [b]\<rparr>) b"
      unfolding binding_ok_def bindings_of_append
      using ch_bind src rev by (auto simp: pair_not_disabled_iff binds_def def_row_def profile_row_def)
    then show ?thesis using ch_bind assms(1) by blast
  qed (simp_all add: bindings_of_def)
  then show ?thesis
  proof
    assume same: "(\<forall>a e. bindings_of a e db' = bindings_of a e db) \<and> ag_bindings db' = ag_bindings db"
    then have "binding_ok J db' b" if "b \<in> set (ag_bindings db)" for b
      using binding_ok_mono [OF _ assms(1), of b] assms(2) that by (simp add: bindings_ok_def)
    with same assms(2) show ?thesis by (simp add: bindings_ok_def)
  next
    assume "\<exists>b d p. db' = db\<lparr>ag_bindings := ag_bindings db @ [b]\<rparr> \<and> registry_change J db db' \<and> rb_id b \<notin> rb_id ` set (ag_bindings db) \<and>
         rb_revision b = nextRevision (rb_agent b) (rb_environment b) db \<and> binding_ok J (db\<lparr>ag_bindings := ag_bindings db @ [b]\<rparr>) b"
    then obtain b where b: "db' = db\<lparr>ag_bindings := ag_bindings db @ [b]\<rparr>" "rb_id b \<notin> rb_id ` set (ag_bindings db)"
      "rb_revision b = nextRevision (rb_agent b) (rb_environment b) db" "binding_ok J db' b" by blast
    have "set (bindings_of a e db) \<subseteq> set (bindings_of a e db')" for a e by (auto simp: b(1) bindings_of_def)
    then have old: "binding_ok J db' x" if "x \<in> set (ag_bindings db)" for x
      using binding_ok_mono [OF _ assms(1), of x] assms(2) that by (simp add: bindings_ok_def)
    have "map rb_revision (bindings_of a e db') = [1..<Suc (length (bindings_of a e db'))]" for a e
    proof -
      have old: "map rb_revision (bindings_of a e db) = [1..<Suc (length (bindings_of a e db))]"
        using assms(2) unfolding bindings_ok_def by blast
      show ?thesis
      proof (cases "rb_agent b = a \<and> rb_environment b = e")
        case True
        then have "bindings_of a e db' = bindings_of a e db @ [b]" "rb_revision b = Suc (length (bindings_of a e db))"
          using b(3) next_revision [OF assms(2)] by (simp_all add: b(1) bindings_of_append)
        then show ?thesis by (simp only: map_append old) simp
      next
        case False
        then have "bindings_of a e db' = bindings_of a e db" unfolding b(1) bindings_of_append by simp
        then show ?thesis using old by simp
      qed
    qed
    with old b assms(2) show ?thesis by (auto simp: bindings_ok_def)
  qed
qed

interpretation binding_numbers: registry_invariant J "bindings_ok J" for J
  by unfold_locales (rule bindings_change)

lemma reach_bindings: "registry_reach J db \<Longrightarrow> bindings_ok J db"
  by (rule binding_numbers.reach) (simp_all add: bindings_ok_def empty_agdb_def bindings_of_def)

section \<open>Stored versions\<close>

definition versions_parse :: "agent_db \<Rightarrow> bool" where
  "versions_parse db \<longleftrightarrow> list_all (\<lambda>d. ParseVersion (dv_version d) \<noteq> None) (ag_defs db)"

lemma versions_change:
  assumes "registry_change J db db'" and "versions_parse db"
  shows "versions_parse db'"
  using assms
proof cases
  case (ch_set_def k c to why t who)
  have "ParseVersion (dv_version c) \<noteq> None" using assms(2) tselect_SomeD [OF ch_set_def(2)] by (auto simp: versions_parse_def list_all_iff)
  then show ?thesis using assms(2) ch_set_def by (auto simp: versions_parse_def list_all_iff dest!: set_tput)
qed (auto simp: versions_parse_def)

interpretation parsed_versions: registry_invariant J "versions_parse" for J
  by unfold_locales (rule versions_change)

lemma reach_versions: "registry_reach J db \<Longrightarrow> versions_parse db"
  by (rule parsed_versions.reach) (simp_all add: versions_parse_def empty_agdb_def)

end
