(* ===== verification/Agent_Demo.thy ===== *)
theory Agent_Demo
  imports Agent_Invariant
begin

text \<open>
  One run of the registry, for the properties to be applied to: an agent with two versions, both of which were released, and with
  a definition version that was bound twice to a profile version.
\<close>

definition demo_reader :: spec_reader where
  "demo_reader = \<lparr>sr_fields = (\<lambda>s. Some (Some (\<lambda>k. Some ''1''))), sr_kind = (\<lambda>s. None), sr_document = (\<lambda>s. None), sr_jsonb = Some,
     sr_kind_sql = (\<lambda>s. None)\<rparr>"

definition demo_agent_version :: "nat \<Rightarrow> string \<Rightarrow> gotime \<Rightarrow> agent_version" where
  "demo_agent_version i v t = \<lparr>av_id = i, av_agent = ''dev'', av_version = v, av_manifest = ''{}'', av_git_sha = ''abc'', av_image_repository = ''img'',
     av_image_digest = '''', av_prompt_hash = ''h'', av_created_at = t, av_created_by = ''ann''\<rparr>"

definition demo_release :: "string \<Rightarrow> gotime \<Rightarrow> agent_release" where
  "demo_release v t = \<lparr>rl_agent = ''dev'', rl_environment = ''production'', rl_version = v, rl_status = ''active'', rl_weight = 100,
     rl_updated_at = t, rl_updated_by = ''ann''\<rparr>"

definition demo_promotion :: "nat \<Rightarrow> string \<Rightarrow> string \<Rightarrow> gotime \<Rightarrow> agent_promotion" where
  "demo_promotion i v w t = \<lparr>pm_id = i, pm_agent = ''dev'', pm_environment = ''production'', pm_from = v, pm_to = w, pm_reason = '''',
     pm_actor = ''ann'', pm_rollback_of = None, pm_created_at = t\<rparr>"

definition demo_source :: source_manifest where
  "demo_source = \<lparr>sm_repo = ''r'', sm_path = ''p'', sm_git_sha = ''s'', sm_content_hash = ''c''\<rparr>"

definition demo_definition :: definition_version where
  "demo_definition = \<lparr>dv_id = 1, dv_agent = ''dev'', dv_version = ''2.0.0'', dv_api_version = APIVersionV1Alpha2, dv_spec = ''{}'', dv_owner = ''o'',
     dv_source = demo_source, dv_range = ''^1.0.0'', dv_lifecycle = LifecyclePublished, dv_lifecycle_reason = '''', dv_lifecycle_at = None,
     dv_lifecycle_by = '''', dv_created_at = 6, dv_created_by = ''ann''\<rparr>"

definition demo_profile :: profile_version where
  "demo_profile = \<lparr>pv_id = 1, pv_profile = ''std'', pv_version = ''1.2.0'', pv_spec = ''{}'', pv_owner = ''o'', pv_source = demo_source,
     pv_lifecycle = LifecyclePublished, pv_lifecycle_reason = '''', pv_lifecycle_at = None, pv_lifecycle_by = '''', pv_created_at = 7,
     pv_created_by = ''ann''\<rparr>"

definition demo_request :: binding_request where
  "demo_request = \<lparr>br_agent = ''dev'', br_environment = ''production'', br_definition = ''2.0.0'', br_profile = ''std'',
     br_profile_version = ''1.2.0'', br_source = '''', br_intent_repo = '''', br_intent_path = '''', br_intent_sha = '''', br_reason = '''', br_actor = ''ann''\<rparr>"

definition demo_binding :: "nat \<Rightarrow> gotime \<Rightarrow> release_binding" where
  "demo_binding n t = \<lparr>rb_id = n, rb_agent = ''dev'', rb_environment = ''production'', rb_revision = n, rb_definition = ''2.0.0'',
     rb_profile = ''std'', rb_profile_version = ''1.2.0'', rb_range = ''^1.0.0'', rb_source = ''registry'', rb_intent_repo = '''', rb_intent_path = '''',
     rb_intent_sha = '''', rb_rollback_of = None, rb_reason = '''', rb_created_at = t, rb_created_by = ''ann''\<rparr>"

definition demo_agdb ::
  "agent_version list \<Rightarrow> agent_release list \<Rightarrow> agent_promotion list \<Rightarrow> definition_version list \<Rightarrow> profile_version list \<Rightarrow> release_binding list \<Rightarrow> agent_db" where
  "demo_agdb vs rs ps ds fs bs =
     \<lparr>ag_definitions = [\<lparr>ad_name = ''dev'', ad_description = ''d'', ad_owner = ''o'', ad_created_at = 1, ad_archived_at = None\<rparr>],
      ag_versions = vs, ag_releases = rs, ag_promotions = ps, ag_executions = [], ag_defs = ds, ag_profiles = fs, ag_bindings = bs\<rparr>"

definition demo_versions :: "agent_version list" where
  "demo_versions = [demo_agent_version 1 ''1.0.0'' 2, demo_agent_version 2 ''1.1.0'' 3]"

definition demo_promotions :: "agent_promotion list" where
  "demo_promotions = [demo_promotion 1 '''' ''1.0.0'' 4, demo_promotion 2 ''1.0.0'' ''1.1.0'' 5]"

definition demo_final :: agent_db where
  "demo_final = demo_agdb demo_versions [demo_release ''1.1.0'' 5] demo_promotions [demo_definition] [demo_profile] [demo_binding 1 8, demo_binding 2 9]"

lemmas demo_rows = demo_agdb_def demo_agent_version_def demo_release_def demo_promotion_def demo_definition_def demo_profile_def demo_request_def
  demo_binding_def demo_reader_def demo_source_def demo_versions_def demo_promotions_def

lemmas parse_defs = ParseRange_def TrimSpace_def Fields_def splitOp_def validOps_def space_piece_def is_space_def ParseVersion_def version_part_def
  digit_def decimal_def

lemmas env_defs = validEnvironment_def EnvironmentProduction_def EnvironmentShadow_def

lemma demo_parses: "ParseVersion ''2.0.0'' = Some (Version 2 0 0)" "ParseVersion ''1.2.0'' = Some (Version 1 2 0)"
  "ParseRange ''^1.0.0'' = Some \<lparr>rg_raw = ''^1.0.0'', rg_comparators = [\<lparr>cp_op = ''^'', cp_version = Version 1 0 0\<rparr>]\<rparr>"
  by (simp_all add: parse_defs)

lemma demo_fits: "compatible ''^1.0.0'' ''1.2.0''"
  by (simp add: compatible_def demo_parses Satisfies_def comparator_satisfies_def Compare_def go_sign_def)

lemma demo_provenance: "missing_provenance ''o'' demo_source = []"
  by (simp add: missing_provenance_def missingRequiredFields_def demo_source_def TrimSpace_def space_piece_def is_space_def)

lemma demo_define: "registry_step demo_reader (AgDefine StmtOk 1 ''dev'' ''d'' ''o'') empty_agdb = demo_agdb [] [] [] [] [] []"
  by (simp add: CreateDefinition_def Let_def empty_agdb_def tput_def demo_agdb_def)

lemma demo_publish:
  "registry_step demo_reader (AgPublish StmtOk 2 1 (demo_agent_version 0 ''1.0.0'' 0)) (demo_agdb [] [] [] [] [] []) =
     demo_agdb [demo_agent_version 1 ''1.0.0'' 2] [] [] [] [] []"
  "registry_step demo_reader (AgPublish StmtOk 3 2 (demo_agent_version 0 ''1.1.0'' 0)) (demo_agdb [demo_agent_version 1 ''1.0.0'' 2] [] [] [] [] []) =
     demo_agdb demo_versions [] [] [] [] []"
  by (simp_all add: PublishVersion_def Let_def has_definition_def demo_rows)

lemma demo_promote:
  "registry_step demo_reader (AgPromote TxOk 4 1 ''dev'' ''production'' ''1.0.0'' '''' ''ann'') (demo_agdb demo_versions [] [] [] [] []) =
     demo_agdb demo_versions [demo_release ''1.0.0'' 4] [demo_promotion 1 '''' ''1.0.0'' 4] [] [] []"
  "registry_step demo_reader (AgPromote TxOk 5 2 ''dev'' ''production'' ''1.1.0'' '''' ''ann'')
       (demo_agdb demo_versions [demo_release ''1.0.0'' 4] [demo_promotion 1 '''' ''1.0.0'' 4] [] [] []) =
     demo_agdb demo_versions [demo_release ''1.1.0'' 5] demo_promotions [] [] []"
  by (simp_all add: PromoteRelease_def env_defs registry_tx_def promote_body_def Let_def has_version_def has_definition_def demo_rows tselect_Cons tput_def
      ReleaseStatusActive_def)

lemma demo_not_profileless: "\<not> IsProfileless demo_reader s"
  by (simp add: IsProfileless_def DefinitionKind_def KindTelegramAssistant_def demo_reader_def)

lemma demo_pair_valid: "definition_error demo_reader demo_definition = None" "profile_error demo_reader demo_profile = None"
proof -
  have "TrimSpace ''1'' \<noteq> ''null''" by (simp add: TrimSpace_def space_piece_def is_space_def)
  moreover have "topLevelJSONFields demo_reader s = Inr (\<lambda>k. Some ''1'')" for s by (simp add: topLevelJSONFields_def demo_reader_def)
  moreover have "dv_owner demo_definition = ''o''" "dv_source demo_definition = demo_source" "dv_version demo_definition = ''2.0.0''"
      "dv_range demo_definition = ''^1.0.0''" "pv_owner demo_profile = ''o''" "pv_source demo_profile = demo_source"
      "pv_version demo_profile = ''1.2.0''"
    by (simp_all add: demo_definition_def demo_profile_def)
  ultimately show "definition_error demo_reader demo_definition = None" "profile_error demo_reader demo_profile = None"
    by (simp_all only: definition_error_def profile_error_def demo_provenance demo_parses demo_not_profileless)
      (simp_all add: ValidateSpecIsObject_def validateProfileSpec_def)
qed

lemma demo_publish_pair:
  "registry_step demo_reader (AgPublishDef StmtOk 6 1 demo_definition) (demo_agdb demo_versions rs ps [] [] []) =
     demo_agdb demo_versions rs ps [demo_definition] [] []"
  "registry_step demo_reader (AgPublishProfile StmtOk 7 1 demo_profile) (demo_agdb demo_versions rs ps [demo_definition] [] []) =
     demo_agdb demo_versions rs ps [demo_definition] [demo_profile] []"
  by (simp_all add: PublishDefinitionVersion_def PublishProfileVersion_def demo_pair_valid Let_def)
    (simp_all add: Let_def has_definition_def APIVersionV1Alpha2_def demo_agdb_def demo_definition_def demo_profile_def demo_reader_def)

lemma demo_pair: "validateBindingPair demo_reader demo_definition demo_profile = None"
  by (simp add: pair_iff pair_not_disabled_iff demo_not_profileless demo_definition_def demo_profile_def demo_fits lifecycle_defs)

lemma demo_bind:
  assumes "bs = [] \<and> n = 1 \<or> bs = [demo_binding 1 8] \<and> n = 2"
  shows "registry_step demo_reader (AgBind TxOk t n demo_request) (demo_agdb demo_versions rs ps [demo_definition] [demo_profile] bs) =
     demo_agdb demo_versions rs ps [demo_definition] [demo_profile] (bs @ [demo_binding n t])"
  using assms demo_pair demo_not_profileless
  by (auto simp: CreateBinding_def Let_def env_defs default_source_def source_defs registry_tx_def create_binding_body_def definitionVersion_def
      profileVersion_def refuseProfileless_def insert_binding_def nextRevision_def bindings_of_def demo_agdb_def demo_request_def demo_binding_def
      tselect_Cons) (auto simp: demo_definition_def demo_profile_def)

lemma demo_registry_reach: "registry_reach demo_reader demo_final"
proof -
  note call = registry_reach.ag_call [of demo_reader]
  have "registry_reach demo_reader (demo_agdb [] [] [] [] [] [])"
    using call [OF registry_reach.ag_start, of "AgDefine StmtOk 1 ''dev'' ''d'' ''o''"] by (simp only: demo_define registry_op_ok.simps simp_thms)
  from call [OF this, of "AgPublish StmtOk 2 1 (demo_agent_version 0 ''1.0.0'' 0)"]
  have "registry_reach demo_reader (demo_agdb [demo_agent_version 1 ''1.0.0'' 2] [] [] [] [] [])" by (simp only: demo_publish registry_op_ok.simps simp_thms)
  from call [OF this, of "AgPublish StmtOk 3 2 (demo_agent_version 0 ''1.1.0'' 0)"]
  have "registry_reach demo_reader (demo_agdb demo_versions [] [] [] [] [])" by (simp only: demo_publish registry_op_ok.simps simp_thms)
  from call [OF this, of "AgPromote TxOk 4 1 ''dev'' ''production'' ''1.0.0'' '''' ''ann''"]
  have "registry_reach demo_reader (demo_agdb demo_versions [demo_release ''1.0.0'' 4] [demo_promotion 1 '''' ''1.0.0'' 4] [] [] [])"
    unfolding demo_promote by (simp add: promos_def demo_agdb_def)
  from call [OF this, of "AgPromote TxOk 5 2 ''dev'' ''production'' ''1.1.0'' '''' ''ann''"]
  have "registry_reach demo_reader (demo_agdb demo_versions [demo_release ''1.1.0'' 5] demo_promotions [] [] [])"
    unfolding demo_promote by (simp add: promos_def demo_agdb_def demo_promotion_def)
  from call [OF this, of "AgPublishDef StmtOk 6 1 demo_definition"]
  have "registry_reach demo_reader (demo_agdb demo_versions [demo_release ''1.1.0'' 5] demo_promotions [demo_definition] [] [])"
    by (simp only: demo_publish_pair registry_op_ok.simps simp_thms)
  from call [OF this, of "AgPublishProfile StmtOk 7 1 demo_profile"]
  have "registry_reach demo_reader (demo_agdb demo_versions [demo_release ''1.1.0'' 5] demo_promotions [demo_definition] [demo_profile] [])"
    by (simp only: demo_publish_pair registry_op_ok.simps simp_thms)
  from call [OF this, of "AgBind TxOk 8 1 demo_request"]
  have "registry_reach demo_reader (demo_agdb demo_versions [demo_release ''1.1.0'' 5] demo_promotions [demo_definition] [demo_profile] [demo_binding 1 8])"
    by (simp add: demo_bind del: registry_step.simps)
  from call [OF this, of "AgBind TxOk 9 2 demo_request"] show ?thesis
    by (simp add: demo_bind demo_final_def del: registry_step.simps)
qed

lemma demo_views:
  "promos ''dev'' ''production'' demo_final = demo_promotions" "live_version ''dev'' ''production'' demo_final = ''1.1.0''"
  "bindings_of ''dev'' ''production'' demo_final = [demo_binding 1 8, demo_binding 2 9]"
  "def_row ''dev'' ''2.0.0'' demo_final = Some demo_definition" "profile_row ''std'' ''1.2.0'' demo_final = Some demo_profile"
  by (simp_all add: demo_final_def promos_def live_version_def bindings_of_def def_row_def profile_row_def demo_rows tselect_Cons)

end
