(* ===== verification/Agent_Props.thy ===== *)
theory Agent_Props
  imports Agent_Demo
begin

text \<open>
  What the agent registry guarantees: ranges that mean intervals, versions that print and parse, releases with a history that
  explains them, rollbacks that undo, bindings that always fit, and retired versions nobody can bind.
\<close>

section \<open>Versions and ranges\<close>

text \<open>
  C37: A parsed range admits a parsed version exactly when the version lies in the interval of each of its clauses; a
  caret clause ends below the next version that changes its leftmost nonzero number, a tilde clause below the next minor one.
\<close>

theorem a_range_is_an_intersection_of_intervals:
  assumes "ParseRange s = Some r" and "ParseVersion t = Some v"
  shows "Satisfies r v \<longleftrightarrow> list_all (\<lambda>c. within c (vkey v)) (rg_comparators r)"
  by (rule Satisfies_within [OF assms(1) ParseVersion_parsed [OF assms(2)]])

theorem a_range_is_an_intersection_of_intervals_witness:
  "Satisfies \<lparr>rg_raw = ''>=1.2.0 ^1.0.0'', rg_comparators = [\<lparr>cp_op = ''>='', cp_version = Version 1 2 0\<rparr>, \<lparr>cp_op = ''^'', cp_version = Version 1 0 0\<rparr>]\<rparr>
     (Version 1 10 0)"
proof -
  have "ParseRange ''>=1.2.0 ^1.0.0'' =
      Some \<lparr>rg_raw = ''>=1.2.0 ^1.0.0'', rg_comparators = [\<lparr>cp_op = ''>='', cp_version = Version 1 2 0\<rparr>, \<lparr>cp_op = ''^'', cp_version = Version 1 0 0\<rparr>]\<rparr>"
    and "ParseVersion ''1.10.0'' = Some (Version 1 10 0)"
    by (simp_all add: parse_defs)
  from a_range_is_an_intersection_of_intervals [OF this] show ?thesis by (simp add: within_def vkey_def)
qed

text \<open>
  C38: Printing a version and parsing it again gives it back exactly when its three numbers are not negative, which is so
  for every version that was parsed.
\<close>

theorem versions_print_and_parse:
  "(ParseVersion (VersionString v) = Some v \<longleftrightarrow> 0 \<le> sint (Major v) \<and> 0 \<le> sint (Minor v) \<and> 0 \<le> sint (Patch v)) \<and>
   ParseVersion s \<in> {None} \<union> Some ` {w. ParseVersion (VersionString w) = Some w}"
  using parse_printed ParseVersion_parsed by (cases "ParseVersion s") (auto simp: parsed_def)

text \<open>A version may be written with leading zeros, so two texts can stand for one version.\<close>

lemma leading_zeros: "ParseVersion ''01.0.0'' = ParseVersion ''1.0.0''"
  by (simp add: parse_defs)

section \<open>Releases\<close>

text \<open>
  C20: The promotions of an agent in an environment form a chain: the first starts from nothing, each starts from the version the one
  before led to and leads to another one, every version on the way is published, and the last leads to the version that is
  released; there is a release exactly when there is a promotion.
\<close>

theorem releases_are_explained_by_their_promotions:
  assumes "registry_reach J db"
  shows "leads '''' (promos agent env db) (live_version agent env db) \<and>
    sorted_wrt (<) (map pm_id (promos agent env db)) \<and>
    (tselect rl_key (ag_releases db) (agent, env) = None \<longleftrightarrow> promos agent env db = []) \<and>
    list_all (\<lambda>p. validEnvironment env \<and> has_version agent (pm_to p) db) (promos agent env db)"
  using reach_releases [OF assms] by (auto simp: releases_ok_def list_all_iff)

lemma leads_last:
  "leads v ps w \<Longrightarrow> ps \<noteq> [] \<Longrightarrow> pm_to (last ps) = w \<and> pm_from (last ps) \<noteq> w \<and> (pm_from (last ps) = v \<or> pm_from (last ps) \<in> pm_to ` set ps)"
  by (induction ps arbitrary: v) (auto split: if_splits)

lemma rollback_target_last:
  assumes "registry_reach J db" and "promos agent env db \<noteq> []"
  shows "rollback_target agent env db =
    (if pm_from (last (promos agent env db)) = '''' then Inl AgNoRollbackTarget
     else Inr (pm_from (last (promos agent env db)), Some (pm_id (last (promos agent env db)))))"
proof -
  have "promotions_of agent env db = rev (promos agent env db)"
    using reach_releases [OF assms(1)] by (intro promotions_newest) (simp add: releases_ok_def)
  moreover obtain ps p where "promos agent env db = ps @ [p]" using assms(2) by (meson rev_exhaust)
  ultimately show ?thesis by (simp add: rollback_target_def)
qed

text \<open>What a rollback with a target does.\<close>

lemma rollback_runs:
  assumes "registry_reach J db" and "validEnvironment env" and "promos agent env db \<noteq> []"
    and "p = last (promos agent env db)" and "pm_from p \<noteq> ''''" and "i \<notin> pm_id ` set (ag_promotions db)"
  shows "\<exists>r q. Rollback TxOk now i agent env reason actor db =
      (db\<lparr>ag_releases := tput rl_key (ag_releases db) r, ag_promotions := ag_promotions db @ [q]\<rparr>, Inr r) \<and>
    rl_key r = (agent, env) \<and> rl_version r = pm_from p \<and>
    pm_id q = i \<and> pm_agent q = agent \<and> pm_environment q = env \<and> pm_from q = live_version agent env db \<and> pm_rollback_of q = Some (pm_id p)"
proof -
  have ok: "releases_ok db" by (rule reach_releases [OF assms(1)])
  then have leads: "leads '''' (promos agent env db) (live_version agent env db)" by (simp add: releases_ok_def)
  from leads_last [OF leads assms(3)] assms(4,5) have start: "pm_from p \<noteq> live_version agent env db" "pm_from p \<in> pm_to ` set (promos agent env db)"
    by auto
  then have ver: "has_version agent (pm_from p) db" using ok by (auto simp: releases_ok_def)
  then have has_def: "has_definition agent db" using reach_defined [OF assms(1)] by (auto simp: has_version_def versions_defined_def)
  from ok assms(3) have "tselect rl_key (ag_releases db) (agent, env) \<noteq> None" by (simp add: releases_ok_def)
  then obtain c where "tselect rl_key (ag_releases db) (agent, env) = Some c" by blast
  with start has_def ver assms show ?thesis
    by (auto simp: Rollback_def registry_tx_def promote_body_def Let_def rollback_target_last live_version_def)
qed

text \<open>
  C36: A rollback restores the version the last promotion replaced and records which promotion it undid; a second rollback
  restores the version that was live before the first.
\<close>

theorem a_rollback_undoes_the_last_promotion:
  assumes "registry_reach J db" and "validEnvironment env" and "promos agent env db \<noteq> []"
    and "p = last (promos agent env db)" and "pm_from p \<noteq> ''''" and "live_version agent env db \<noteq> ''''"
    and "list_all (\<lambda>q. pm_id q < i) (ag_promotions db)" and "i < i'"
  shows "\<exists>db1 r1 db2 r2. Rollback TxOk now i agent env reason actor db = (db1, Inr r1) \<and>
    rl_version r1 = pm_from p \<and> live_version agent env db1 = pm_from p \<and> pm_rollback_of (last (promos agent env db1)) = Some (pm_id p) \<and>
    Rollback TxOk now' i' agent env reason' actor' db1 = (db2, Inr r2) \<and>
    rl_version r2 = live_version agent env db \<and> pm_rollback_of (last (promos agent env db2)) = Some i"
proof -
  have fresh: "i \<notin> pm_id ` set (ag_promotions db)" using assms(7) by (auto simp: list_all_iff)
  obtain r q where 1: "Rollback TxOk now i agent env reason actor db =
      (db\<lparr>ag_releases := tput rl_key (ag_releases db) r, ag_promotions := ag_promotions db @ [q]\<rparr>, Inr r)"
    and r: "rl_key r = (agent, env)" "rl_version r = pm_from p"
    and q: "pm_id q = i" "pm_agent q = agent" "pm_environment q = env" "pm_from q = live_version agent env db" "pm_rollback_of q = Some (pm_id p)"
    using rollback_runs [OF assms(1-5) fresh] by blast
  let ?db = "db\<lparr>ag_releases := tput rl_key (ag_releases db) r, ag_promotions := ag_promotions db @ [q]\<rparr>"
  have "registry_op_ok db (AgRollback TxOk now i agent env reason actor)" using assms(7) by (auto simp: list_all_iff promos_def)
  from registry_reach.ag_call [OF assms(1) this] have reach: "registry_reach J ?db" using 1 by simp
  have promos: "promos agent env ?db = promos agent env db @ [q]" using q by (simp add: promos_def)
  have live: "live_version agent env ?db = pm_from p" using r by (simp add: live_version_def tselect_tput)
  have "i' \<notin> pm_id ` set (ag_promotions ?db)" using assms(7,8) q(1) by (auto simp: list_all_iff)
  moreover have "pm_from (last (promos agent env ?db)) \<noteq> ''''" "promos agent env ?db \<noteq> []" using q(4) promos assms(6) by simp_all
  ultimately obtain r' q' where "Rollback TxOk now' i' agent env reason' actor' ?db =
      (?db\<lparr>ag_releases := tput rl_key (ag_releases ?db) r', ag_promotions := ag_promotions ?db @ [q']\<rparr>, Inr r')"
    "rl_version r' = live_version agent env db" "pm_agent q' = agent" "pm_environment q' = env" "pm_rollback_of q' = Some i"
    using rollback_runs [OF reach assms(2) _ refl, of agent i' now' reason' actor'] unfolding promos last_snoc q(1,4) by blast
  then show ?thesis using 1 r(2) live promos q(5) by (auto simp: promos_def)
qed

section \<open>Bindings\<close>

lemma active_is_last:
  assumes "bindings_ok J db" and "bindings_of agent env db \<noteq> []"
  shows "ActiveBinding agent env (Some db) = Inr (last (bindings_of agent env db))"
proof -
  let ?bs = "bindings_of agent env db"
  have revs: "map rb_revision ?bs = [1..<Suc (length ?bs)]" using assms(1) unfolding bindings_ok_def by blast
  then have dist: "distinct (map rb_revision ?bs)" and sorted: "sorted (map rb_revision ?bs)" by (simp_all only: distinct_upt sorted_upt)
  from dist have inj: "inj_on (\<lambda>b. - int (rb_revision b)) (set ?bs)" by (auto simp: distinct_map inj_on_def)
  from sorted have "sorted (map (\<lambda>b. - int (rb_revision b)) (rev ?bs))"
    by (auto simp: sorted_wrt_map sorted_wrt_rev elim: sorted_wrt_mono_rel [rotated])
  then have "sort_key (\<lambda>b. - int (rb_revision b)) ?bs = rev ?bs"
    by (intro sort_key_inj_key_eq) (use inj in simp_all)
  moreover obtain bs b where "?bs = bs @ [b]" using assms(2) by (meson rev_exhaust)
  ultimately show ?thesis by (simp add: ActiveBinding_def ListBindings_def)
qed

lemma revision_at:
  assumes "bindings_ok J db" and "k < length (bindings_of agent env db)"
  shows "rb_revision (bindings_of agent env db ! k) = Suc k"
proof -
  have "map rb_revision (bindings_of agent env db) = [1..<Suc (length (bindings_of agent env db))]"
    using assms(1) unfolding bindings_ok_def by blast
  then have "map rb_revision (bindings_of agent env db) ! k = [1..<Suc (length (bindings_of agent env db))] ! k" by simp
  with assms(2) show ?thesis by (simp del: upt_Suc)
qed

lemma binding_at:
  assumes "bindings_ok J db" and "b \<in> set (bindings_of agent env db)"
  shows "rb_agent b = agent" "rb_environment b = env" "binding_ok J db b"
  using assms by (auto simp: bindings_ok_def bindings_of_def)

text \<open>
  C30: What is resolved is the newest binding: for an agent that was ever bound in an environment, \<open>ResolveBinding\<close> answers the
  highest revision, which is the number of bindings made, with its definition and profile version, and the range it reports, that of
  the binding, is satisfied, however many calls run between its three reads.
\<close>

theorem the_newest_binding_is_resolved_and_fits:
  assumes "registry_reach J db1" and "registry_later J db1 db2" and "registry_later J db2 db3" and "validEnvironment env"
    and "bindings_of agent env db1 \<noteq> []" and "b = last (bindings_of agent env db1)"
  shows "\<exists>r. ResolveBinding J agent env (Some db1) (Some db2) (Some db3) = Inr r \<and>
    rs_agent r = agent \<and> rs_environment r = env \<and> rs_revision r = length (bindings_of agent env db1) \<and>
    rd_version (rs_definition r) = rb_definition b \<and> rp_name (rs_profile r) = rb_profile b \<and>
    rp_version (rs_profile r) = rb_profile_version b \<and>
    rs_compatibility r = \<lparr>rc_range = rb_range b, rc_satisfied = True\<rparr> \<and> rs_rollback_of r = rb_rollback_of b"
proof -
  note ok = reach_bindings [OF assms(1)]
  have b: "rb_agent b = agent" "rb_environment b = env" "binding_ok J db1 b"
    using binding_at [OF ok, of b agent env] assms(5,6) by simp_all
  then obtain d p where d: "def_row agent (rb_definition b) db1 = Some d" and p: "profile_row (rb_profile b) (rb_profile_version b) db1 = Some p"
    and fits: "rb_range b = dv_range d" "\<not> IsProfileless J (dv_spec d)" "compatible (dv_range d) (pv_version p)"
    by (auto simp: binding_ok_def binds_def)
  obtain d' where d': "def_row agent (rb_definition b) db2 = Some d'" "def_kept d d'" using later_def_row [OF assms(2) d] by blast
  obtain p1 where "profile_row (rb_profile b) (rb_profile_version b) db2 = Some p1" "profile_kept p p1" using later_profile_row [OF assms(2) p] by blast
  then obtain p' where p': "profile_row (rb_profile b) (rb_profile_version b) db3 = Some p'" "profile_kept p p'"
    using later_profile_row [OF assms(3)] by (blast intro: kept_trans)
  have keys: "dv_agent d' = agent" "dv_version d' = rb_definition b" "pv_profile p' = rb_profile b" "pv_version p' = rb_profile_version b"
    using d'(1) p'(1) by (auto simp: def_row_def profile_row_def dest: tselect_SomeD)
  have same: "dv_range d' = dv_range d" "dv_spec d' = dv_spec d" "pv_version p' = pv_version p"
    using d'(2) p'(2) by (simp_all add: def_kept_def profile_kept_def dv_fixed_def pv_fixed_def)
  obtain rng v where v: "ParseRange (dv_range d) = Some rng" "ParseVersion (pv_version p) = Some v" "Satisfies rng v"
    using fits(3) by (auto simp: compatible_def split: option.splits)
  have "rb_revision b = length (bindings_of agent env db1)"
    using revision_at [OF ok, of "length (bindings_of agent env db1) - 1" agent env] assms(5,6) by (simp add: last_conv_nth)
  then show ?thesis
    using active_is_last [OF ok assms(5)] assms(4,6) b d'(1) p'(1) keys same fits v
    by (simp add: ResolveBinding_def definitionVersion_def profileVersion_def def_row_def profile_row_def buildResolvedBinding_def refuseProfileless_def)
qed

text \<open>
  C35: A rollback to a revision of the history appends a copy of that binding as the next revision, which names the one it
  restores, and fails in one case only: one of the two versions has been disabled.
\<close>

theorem a_rollback_of_a_binding_fails_only_when_disabled:
  assumes "registry_reach J db" and "validEnvironment env" and "n < length (bindings_of agent env db)"
    and "b = bindings_of agent env db ! n" and "i \<notin> rb_id ` set (ag_bindings db)" and "binds b db d p"
  shows "RollbackBinding J TxOk now i agent env (Suc n) reason actor db =
    (if dv_lifecycle d = LifecycleDisabled \<or> pv_lifecycle p = LifecycleDisabled then (db, Inl AgVersionDisabled)
     else let c = b\<lparr>rb_id := i, rb_revision := Suc (length (bindings_of agent env db)), rb_rollback_of := Some (rb_id b), rb_reason := reason,
                  rb_created_at := now, rb_created_by := actor\<rparr>
          in (db\<lparr>ag_bindings := ag_bindings db @ [c]\<rparr>, Inr c))"
proof -
  note ok = reach_bindings [OF assms(1)]
  have "b \<in> set (bindings_of agent env db)" using assms(3,4) by simp
  from binding_at [OF ok this] have b: "rb_agent b = agent" "rb_environment b = env" "binding_ok J db b" by simp_all
  have revs: "map rb_revision (bindings_of agent env db) = [1..<Suc (length (bindings_of agent env db))]"
    using ok unfolding bindings_ok_def by blast
  have "rb_revision b = Suc n" using revision_at [OF ok assms(3)] assms(4) by simp
  moreover have "unique_key rb_revision (bindings_of agent env db)" unfolding unique_key_def revs by (simp only: distinct_upt)
  ultimately have sel: "tselect rb_revision (bindings_of agent env db) (Suc n) = Some b"
    using tsel_in [of rb_revision "bindings_of agent env db" b] \<open>b \<in> set (bindings_of agent env db)\<close> by simp
  from assms(6) b have rows: "tselect dv_key (ag_defs db) (agent, rb_definition b) = Some d"
      "tselect pv_key (ag_profiles db) (rb_profile b, rb_profile_version b) = Some p"
    by (simp_all add: binds_def def_row_def profile_row_def)
  with b have fits: "rb_range b = dv_range d" "\<not> IsProfileless J (dv_spec d)" "compatible (dv_range d) (pv_version p)"
    by (auto simp: binding_ok_def binds_def def_row_def profile_row_def)
  have pair: "validateBindingPairNotDisabled J d p =
      (if dv_lifecycle d = LifecycleDisabled \<or> pv_lifecycle p = LifecycleDisabled then Some AgVersionDisabled else None)"
    using fits by (auto simp: validateBindingPairNotDisabled_def refuseProfileless_def compatible_def split: option.splits)
  have new: "Suc (length (bindings_of agent env db)) \<notin> rb_revision ` set (bindings_of agent env db)"
    using arg_cong [OF revs, of set] by auto
  show ?thesis
    using sel rows b fits assms(2,5) new next_revision [OF ok, of agent env] pair
    by (cases b) (simp add: RollbackBinding_def registry_tx_def rollback_binding_body_def GetBinding_def definitionVersion_def profileVersion_def
        refuseProfileless_def insert_binding_def Let_def)
qed

definition new_binding_ok ::
  "string \<Rightarrow> string \<Rightarrow> string \<Rightarrow> string \<Rightarrow> definition_version \<Rightarrow> profile_version \<Rightarrow> release_binding \<Rightarrow> bool" where
  "new_binding_ok agent v f w d p b \<longleftrightarrow>
     (rb_agent b = agent \<and> rb_definition b = v \<longrightarrow>
        dv_lifecycle d \<noteq> LifecycleDisabled \<and> (dv_lifecycle d = LifecycleDeprecated \<longrightarrow> rb_rollback_of b \<noteq> None)) \<and>
     (rb_profile b = f \<and> rb_profile_version b = w \<longrightarrow>
        pv_lifecycle p \<noteq> LifecycleDisabled \<and> (pv_lifecycle p = LifecycleDeprecated \<longrightarrow> rb_rollback_of b \<noteq> None))"

lemma change_bindings:
  assumes "registry_change J db db'"
  obtains "ag_bindings db' = ag_bindings db"
  | b d p where "ag_bindings db' = ag_bindings db @ [b]" "binds b db d p" "validateBindingPairNotDisabled J d p = None"
      "rb_rollback_of b = None \<Longrightarrow> validateBindingPair J d p = None"
  using assms by cases auto

text \<open>A binding that is made now respects what a version was at any earlier time.\<close>

lemma new_binding:
  assumes "binds b db' e q" and "validateBindingPairNotDisabled J e q = None"
    and "rb_rollback_of b = None \<Longrightarrow> validateBindingPair J e q = None"
    and "def_row agent v db' = Some d'" and "def_kept d d'" and "profile_row f w db' = Some p'" and "profile_kept p p'"
  shows "new_binding_ok agent v f w d p b"
  using assms
  by (cases "rb_rollback_of b") (auto simp: new_binding_ok_def binds_def pair_not_disabled_iff pair_iff def_kept_def profile_kept_def)

lemma retired_later:
  assumes "registry_later J db db'" and "def_row agent v db = Some d" and "profile_row f w db = Some p"
  shows "take (length (ag_bindings db)) (ag_bindings db') = ag_bindings db \<and>
    list_all (new_binding_ok agent v f w d p) (drop (length (ag_bindings db)) (ag_bindings db'))"
  using assms(1)
proof (induction rule: registry_later.induct)
  case lt_now
  then show ?case by simp
next
  case (lt_call db' op)
  obtain d' p' where rows: "def_row agent v db' = Some d'" "def_kept d d'" "profile_row f w db' = Some p'" "profile_kept p p'"
    using later_def_row [OF lt_call(1) assms(2)] later_profile_row [OF lt_call(1) assms(3)] by blast
  have "length (ag_bindings db) \<le> length (ag_bindings db')" using lt_call(3) by (metis nat_le_linear take_all)
  with lt_call(3) show ?case
    by (rule_tac change_bindings [OF step_change [OF lt_call(2), of J]]) (auto dest: new_binding [OF _ _ _ rows])
qed

text \<open>
  C19: Versions are retired for good.  What is published of a definition or profile version never changes; its lifecycle only moves
  from published to deprecated to disabled; once it is disabled no binding names it any more, and once it is deprecated only a rollback
  does.  The bindings made before stay as they are.
\<close>

theorem a_retired_version_is_bound_no_more:
  assumes "registry_later J db db'" and "def_row agent v db = Some d" and "profile_row f w db = Some p"
  shows "(\<exists>d' p'. def_row agent v db' = Some d' \<and> profile_row f w db' = Some p' \<and> dv_fixed d' = dv_fixed d \<and> pv_fixed p' = pv_fixed p \<and>
      (dv_lifecycle d' = dv_lifecycle d \<or> validLifecycleTransition (dv_lifecycle d) (dv_lifecycle d')) \<and>
      (pv_lifecycle p' = pv_lifecycle p \<or> validLifecycleTransition (pv_lifecycle p) (pv_lifecycle p'))) \<and>
    take (length (ag_bindings db)) (ag_bindings db') = ag_bindings db \<and>
    list_all (\<lambda>b.
      (rb_agent b = agent \<and> rb_definition b = v \<longrightarrow>
         dv_lifecycle d \<noteq> LifecycleDisabled \<and> (dv_lifecycle d = LifecycleDeprecated \<longrightarrow> rb_rollback_of b \<noteq> None)) \<and>
      (rb_profile b = f \<and> rb_profile_version b = w \<longrightarrow>
         pv_lifecycle p \<noteq> LifecycleDisabled \<and> (pv_lifecycle p = LifecycleDeprecated \<longrightarrow> rb_rollback_of b \<noteq> None)))
      (drop (length (ag_bindings db)) (ag_bindings db'))"
proof -
  have "take (length (ag_bindings db)) (ag_bindings db') = ag_bindings db \<and>
      list_all (new_binding_ok agent v f w d p) (drop (length (ag_bindings db)) (ag_bindings db'))"
    using assms by (intro retired_later) simp_all
  with later_def_row [OF assms(1,2)] later_profile_row [OF assms(1,3)] show ?thesis
    by (auto simp: def_kept_def profile_kept_def new_binding_ok_def list_all_iff)
qed

section \<open>Listings\<close>

text \<open>A listing of promotions that breaks off is answered like a shorter history, without an error.\<close>

lemma a_broken_listing_looks_complete:
  "ListPromotions (Some n) agent env (Some db) = Inr (take n (promotions_of agent env db))"
  by (simp add: ListPromotions_def delivered_def)

section \<open>Choosing a profile\<close>

text \<open>The published versions of a profile that fit a range.\<close>

definition fitting :: "string \<Rightarrow> string \<Rightarrow> agent_db \<Rightarrow> profile_version list" where
  "fitting profile rng db =
     filter (\<lambda>p. pv_profile p = profile \<and> pv_lifecycle p = LifecyclePublished \<and> compatible rng (pv_version p)) (ag_profiles db)"

definition candidate :: "version_range \<Rightarrow> profile_version \<Rightarrow> version \<Rightarrow> bool" where
  "candidate r p v \<longleftrightarrow> pv_lifecycle p = LifecyclePublished \<and> ParseVersion (pv_version p) = Some v \<and> Satisfies r v"

lemma best_version_is_highest:
  assumes "case best of None \<Rightarrow> True | Some (p, v) \<Rightarrow> candidate r p v"
  shows "case best_version r best ps of
      None \<Rightarrow> best = None \<and> (\<forall>q \<in> set ps. \<forall>w. \<not> candidate r q w)
    | Some (p, v) \<Rightarrow> candidate r p v \<and> (best = Some (p, v) \<or> p \<in> set ps) \<and>
        (case best of None \<Rightarrow> True | Some (q, w) \<Rightarrow> w \<le> v) \<and> (\<forall>q \<in> set ps. \<forall>w. candidate r q w \<longrightarrow> w \<le> v)"
  using assms
proof (induction ps arbitrary: best)
  case Nil
  then show ?case by (auto split: option.splits)
next
  case (Cons x xs)
  show ?case
  proof (cases "\<exists>v. candidate r x v")
    case False
    then have "best_version r best (x # xs) = best_version r best xs"
      by (auto simp: candidate_def split: option.splits)
    with Cons.IH [OF Cons.prems] False show ?thesis by (auto split: option.splits)
  next
    case True
    then obtain v where v: "candidate r x v" by blast
    have only: "candidate r x w \<longleftrightarrow> w = v" for w using v by (auto simp: candidate_def)
    have compare: "0 < Compare v w \<longleftrightarrow> w < v" if "ParseVersion t = Some w" for t w
      using v Compare_parsed [OF ParseVersion_parsed ParseVersion_parsed [OF that], of "pv_version x" v] by (auto simp: candidate_def)
    show ?thesis
    proof (cases "case best of None \<Rightarrow> True | Some (q, w) \<Rightarrow> w < v")
      case True
      then have step: "best_version r best (x # xs) = best_version r (Some (x, v)) xs"
        using v Cons.prems by (cases best) (auto simp: candidate_def compare)
      have "case Some (x, v) of None \<Rightarrow> True | Some (p, v) \<Rightarrow> candidate r p v" using v by simp
      from Cons.IH [OF this] show ?thesis using True only unfolding step by (auto split: option.splits)
    next
      case False
      then obtain q w where best: "best = Some (q, w)" "v \<le> w" by (auto split: option.splits)
      then have "best_version r best (x # xs) = best_version r best xs"
        using v Cons.prems by (auto simp: candidate_def compare)
      with Cons.IH [OF Cons.prems] best only show ?thesis by (auto split: option.splits)
    qed
  qed
qed

text \<open>
  Without a pinned version a resolve takes the highest published version of the profile that fits the range of the
  definition, and fails exactly when none fits.
\<close>

theorem the_highest_fitting_profile_is_taken:
  assumes "ParseRange rng = Some r"
  shows "case highestCompatibleProfileVersion profile rng (Some db) of
      Inl e \<Rightarrow> e = AgProfileVersionNotFound \<and> fitting profile rng db = []
    | Inr p \<Rightarrow> p \<in> set (fitting profile rng db) \<and>
        list_all (\<lambda>q. the (ParseVersion (pv_version q)) \<le> the (ParseVersion (pv_version p))) (fitting profile rng db)"
proof -
  let ?ps = "sort_key (\<lambda>v. - int (pv_id v)) (filter (\<lambda>v. pv_profile v = profile) (ag_profiles db))"
  have fit: "p \<in> set (fitting profile rng db) \<longleftrightarrow> p \<in> set ?ps \<and> (\<exists>v. candidate r p v)" for p
    by (auto simp: fitting_def candidate_def compatible_def assms split: option.splits)
  have best: "case best_version r None ?ps of
      None \<Rightarrow> \<forall>q \<in> set ?ps. \<forall>w. \<not> candidate r q w
    | Some (p, v) \<Rightarrow> candidate r p v \<and> p \<in> set ?ps \<and> (\<forall>q \<in> set ?ps. \<forall>w. candidate r q w \<longrightarrow> w \<le> v)"
    using best_version_is_highest [where best = None and r = r and ps = ?ps]
    by (cases "best_version r None ?ps") (simp_all split: prod.splits)
  have eq: "highestCompatibleProfileVersion profile rng (Some db) =
      (case best_version r None ?ps of None \<Rightarrow> Inl AgProfileVersionNotFound | Some (p, v) \<Rightarrow> Inr p)"
    by (simp add: highestCompatibleProfileVersion_def ListProfileVersions_def assms)
  show ?thesis
  proof (cases "best_version r None ?ps")
    case None
    then have "\<forall>p. p \<notin> set (fitting profile rng db)" using best fit by simp
    with None show ?thesis unfolding eq by (cases "fitting profile rng db") auto
  next
    case (Some pv)
    then obtain p v where pv: "best_version r None ?ps = Some (p, v)" by (cases pv) simp
    with best have p: "candidate r p v" "p \<in> set ?ps" "\<forall>q \<in> set ?ps. \<forall>w. candidate r q w \<longrightarrow> w \<le> v" by simp_all
    then have "p \<in> set (fitting profile rng db)" unfolding fit by blast
    moreover have "the (ParseVersion (pv_version q)) \<le> the (ParseVersion (pv_version p))" if q: "q \<in> set (fitting profile rng db)" for q
    proof -
      obtain w where w: "candidate r q w" "q \<in> set ?ps" using q fit by blast
      from p(3) [rule_format, OF w(2) w(1)] show ?thesis using w(1) p(1) unfolding candidate_def by simp
    qed
    ultimately show ?thesis unfolding eq pv list_all_iff by simp
  qed
qed

section \<open>Assistants\<close>

text \<open>In a reachable database the listing of assistants is a stable sort by name and descending version.\<close>

definition assistant_key :: "definition_version \<Rightarrow> string \<times> int \<times> int \<times> int" where
  "assistant_key d = (dv_agent d, (case ParseVersion (dv_version d) of None \<Rightarrow> (0, 0, 0)
     | Some v \<Rightarrow> (- sint (Major v), - sint (Minor v), - sint (Patch v))))"

lemma before_key:
  assumes "ParseVersion (dv_version x) = Some v" and "ParseVersion (dv_version y) = Some w"
  shows "assistant_before x y \<longleftrightarrow> assistant_key x < assistant_key y"
  using assms Compare_signs(2) [OF ParseVersion_parsed [OF assms(1)] ParseVersion_parsed [OF assms(2)]]
  by (auto simp: assistant_before_def assistant_key_def vkey_def)

lemma insert_stable_key:
  assumes "\<And>y. y \<in> set ys \<Longrightarrow> before y x \<longleftrightarrow> f y < f x"
  shows "insert_stable before x ys = insort_key f x (ys :: 'a list)"
  using assms by (induction ys) (auto simp: not_less)

lemma sort_stable_key:
  assumes "\<And>x y. x \<in> set xs \<Longrightarrow> y \<in> set xs \<Longrightarrow> before y x \<longleftrightarrow> f y < f x"
  shows "foldr (insert_stable before) xs [] = sort_key f xs"
  using assms
proof (induction xs)
  case (Cons x xs)
  then have "foldr (insert_stable before) xs [] = sort_key f xs" by simp
  moreover have "insert_stable before x (sort_key f xs) = insort_key f x (sort_key f xs)"
    by (rule insert_stable_key) (use Cons.prems in simp)
  ultimately show ?case by simp
qed simp

lemma assistants_are_sorted:
  assumes "registry_reach J db"
  shows "ListDefinitionVersionsByKind J kind (Some db) =
    Inr (sort_key assistant_key (sort_key (\<lambda>v. (dv_agent v, - int (dv_id v))) (filter (\<lambda>v. sr_kind_sql J (dv_spec v) = Some kind) (ag_defs db))))"
proof -
  have "ParseVersion (dv_version x) \<noteq> None" if "x \<in> set (ag_defs db)" for x
    using reach_versions [OF assms] that by (simp add: versions_parse_def list_all_iff)
  then have "assistant_before y x \<longleftrightarrow> assistant_key y < assistant_key x" if "x \<in> set (ag_defs db)" "y \<in> set (ag_defs db)" for x y
    using that before_key by blast
  then show ?thesis
    by (simp add: ListDefinitionVersionsByKind_def sortByAgentThenVersionDesc_def) (rule sort_stable_key, auto)
qed

section \<open>Runs\<close>

theorem releases_are_explained_by_their_promotions_witness:
  "leads '''' demo_promotions ''1.1.0'' \<and> has_version ''dev'' ''1.0.0'' demo_final"
  using releases_are_explained_by_their_promotions [OF demo_registry_reach, of "''dev''" "''production''"]
  by (simp add: demo_views) (simp add: demo_promotions_def demo_promotion_def)

theorem a_rollback_undoes_the_last_promotion_witness:
  "\<exists>db1 r1 db2 r2. Rollback TxOk 10 3 ''dev'' ''production'' ''bad'' ''bob'' demo_final = (db1, Inr r1) \<and> rl_version r1 = ''1.0.0'' \<and>
    Rollback TxOk 11 4 ''dev'' ''production'' ''good'' ''bob'' db1 = (db2, Inr r2) \<and> rl_version r2 = ''1.1.0''"
proof -
  have "validEnvironment ''production''" "promos ''dev'' ''production'' demo_final \<noteq> []"
    "pm_from (last (promos ''dev'' ''production'' demo_final)) \<noteq> ''''" "live_version ''dev'' ''production'' demo_final \<noteq> ''''"
    "list_all (\<lambda>q. pm_id q < 3) (ag_promotions demo_final)" "(3 :: nat) < 4"
    by (simp_all add: env_defs demo_views) (simp_all add: demo_final_def demo_agdb_def demo_promotions_def demo_promotion_def)
  from a_rollback_undoes_the_last_promotion [OF demo_registry_reach this(1,2) refl this(3-6), of 10 "''bad''" "''bob''" 11 "''good''" "''bob''"]
  show ?thesis by (simp add: demo_views) (auto simp: demo_promotions_def demo_promotion_def)
qed

theorem the_newest_binding_is_resolved_and_fits_witness:
  "\<exists>r. ResolveBinding demo_reader ''dev'' ''production'' (Some demo_final) (Some demo_final) (Some demo_final) = Inr r \<and>
    rs_revision r = 2 \<and> rc_satisfied (rs_compatibility r)"
proof -
  have "validEnvironment ''production''" "bindings_of ''dev'' ''production'' demo_final \<noteq> []" by (simp_all add: env_defs demo_views)
  from the_newest_binding_is_resolved_and_fits [OF demo_registry_reach registry_later.lt_now registry_later.lt_now this refl]
  show ?thesis by (auto simp: demo_views)
qed

theorem a_rollback_of_a_binding_fails_only_when_disabled_witness:
  "snd (RollbackBinding demo_reader TxOk 10 3 ''dev'' ''production'' 1 ''bad'' ''bob'' demo_final) =
     Inr (demo_binding 1 8\<lparr>rb_id := 3, rb_revision := 3, rb_rollback_of := Some 1, rb_reason := ''bad'', rb_created_at := 10, rb_created_by := ''bob''\<rparr>)"
proof -
  have "validEnvironment ''production''" "0 < length (bindings_of ''dev'' ''production'' demo_final)"
    "3 \<notin> rb_id ` set (ag_bindings demo_final)" "binds (bindings_of ''dev'' ''production'' demo_final ! 0) demo_final demo_definition demo_profile"
    by (simp_all add: env_defs demo_views binds_def demo_binding_def) (simp add: demo_final_def demo_agdb_def demo_binding_def)
  from a_rollback_of_a_binding_fails_only_when_disabled [OF demo_registry_reach this(1,2) refl this(3,4), of 10 "''bad''" "''bob''"] show ?thesis
    by (simp add: demo_views demo_definition_def demo_profile_def lifecycle_defs Let_def demo_binding_def)
qed

theorem a_retired_version_is_bound_no_more_witness:
  "\<exists>d. def_row ''dev'' ''2.0.0'' (registry_step demo_reader (AgSetDef TxOk 10 ''dev'' ''2.0.0'' ''disabled'' '''' ''ann'') demo_final) = Some d \<and>
    dv_fixed d = dv_fixed demo_definition"
proof -
  have "registry_later demo_reader demo_final (registry_step demo_reader (AgSetDef TxOk 10 ''dev'' ''2.0.0'' ''disabled'' '''' ''ann'') demo_final)"
    by (rule registry_later.lt_call [OF registry_later.lt_now]) simp
  from a_retired_version_is_bound_no_more [OF this demo_views(4,5)] show ?thesis by blast
qed

theorem the_highest_fitting_profile_is_taken_witness:
  "highestCompatibleProfileVersion ''std'' ''^1.0.0'' (Some demo_final) = Inr demo_profile"
  using the_highest_fitting_profile_is_taken [OF demo_parses(3), of "''std''" demo_final]
  by (auto simp: fitting_def demo_final_def demo_agdb_def demo_profile_def demo_fits split: sum.splits)

end
