(* ===== verification/Spec2Isabelle.thy ===== *)
theory Spec2Isabelle
  imports Lifecycle_Policy Commerce_Units Approval_Guarantees Work_Props Refresh_Props Decision_Props Agent_Props
begin

text \<open>
  A verification library of mctl-api, the HTTP and MCP control plane of a platform (Go, under \<open>src/\<close>).  It models the
  parts of the program that decide something of their own: the stores that keep a state machine in PostgreSQL, and the gates in
  front of them.  What surrounds them (HTTP, JSON, the clients of other services) is listed at the end.

  \<^bold>\<open>The parts and how they meet.\<close>
  Agents of the platform run in \<^emph>\<open>executions\<close> of \<^emph>\<open>work items\<close>.  A work item is worked on by one execution at a time,
  which holds a run token and a sealed context snapshot.  What a run may call is limited by the \<^emph>\<open>scope\<close> of its
  token; a governed tool call needs an \<^emph>\<open>action approval\<close>, a request bound to the hash of one intended action that
  another principal decides, that the run consumes and that the \<^emph>\<open>receipt gate\<close> spends on one call.  Policy decisions and the
  attempts to carry them out are \<^emph>\<open>decision records\<close>; a decision that permits under an approval is bound to it when it is
  recorded.  Which process drives a pull request or a proposal is the \<^emph>\<open>ownership\<close> a lifecycle store hands out with
  fencing epochs.  Paid calls of a capability go through the \<^emph>\<open>commerce ledger\<close>.  People hold sessions whose
  \<^emph>\<open>refresh tokens\<close> rotate.  What agents there are, in which versions, and which version runs where is
  the \<^emph>\<open>agent registry\<close>.  The texts callers give to approvals and work items go through the \<^emph>\<open>secret scanner\<close>; the policy
  reasons of an approval do not.

  \<^bold>\<open>Theories.\<close>
  \<^item> \<open>Prelude\<close>, \<open>Pg_Table\<close>, \<open>Go_Text\<close>: times, durations, results as sums and their bind, formatting verbs; a table with a
    unique key (locale \<open>keyed_table\<close>, interpreted on lists of rows), the faults of statements and transactions; the
    length-prefixed encoding (\<open>lengthPrefixed\<close> in \<open>internal/commerce/types.go\<close>, \<open>IntentHash\<close>), runes, \<open>strings.TrimSpace\<close> and
    regular expressions by derivatives, proved to decide their language.
  \<^item> \<open>Lifecycle_*\<close>: \<open>internal/lifecycle\<close>.  \<open>Types\<close>, \<open>Sql\<close>, \<open>Store\<close>, \<open>Recovery\<close> translate the records, the statements and every operation;
    \<open>Derive\<close> the derived view and the shadow comparison.  \<open>Step\<close> is the contract (a step relation on one row), \<open>Effect\<close> and
    \<open>Contract\<close> show that each operation keeps it on any stale read (locale \<open>ownership_writer\<close>, one interpretation per operation);
    \<open>Machine\<close> has the histories (any interleaving of reads and writes) and the runs under the lock; \<open>Calls\<close>, \<open>Retry\<close>,
    \<open>Guarantees\<close>, \<open>Props\<close> and \<open>Policy\<close> the outcomes, the repeated calls and the properties.
  \<^item> \<open>Commerce_*\<close>: \<open>internal/commerce\<close>.  \<open>Types\<close>, \<open>Db\<close>, \<open>Store\<close>, \<open>Payment\<close>, \<open>Budget\<close>, \<open>Dispatch\<close> translate the ledger, the
    payment rail (a record of functions, \<open>PaymentAuthorizer\<close>; locale \<open>payment_rail\<close>, interpreted on the simulated
    adapter), budgets and holds, prepaid units, the dispatch fence.  \<open>Step\<close> is the abstract ledger of holds, \<open>Bodies\<close>, \<open>Refine\<close>, \<open>Machine\<close> and
    \<open>Run\<close> the refinement of every operation to it; \<open>Invariant\<close> the locale \<open>ledger_invariant\<close>, interpreted on the journal and on the
    units; \<open>Holds\<close>, \<open>Intents\<close>, \<open>Retry\<close>, \<open>Journal\<close>, \<open>Units\<close> the properties, \<open>Demo\<close> a purchase step by step.
  \<^item> \<open>Secret_Scan\<close>: \<open>internal/secretscan\<close>.
  \<^item> \<open>Approval_*\<close>, \<open>Auth_User\<close>, \<open>Agent_Scope\<close>, \<open>Agent_Confined\<close>: \<open>internal/workitems/action_approvals.go\<close>, the callers
    of \<open>internal/auth\<close>, the scope table \<open>agent_scope.go\<close> with its gate, the routes of \<open>handlers_action_approvals.go\<close> and the receipt gate
    (\<open>internal/mcp/agent_receipt_gate.go\<close>, \<open>internal/api/agent_receipt_gate.go\<close>).  \<open>Approval_Machine\<close> is the relation on one request,
    \<open>Approval_Calls\<close> the gate state: the ledger, the calls in flight and those that succeeded, under any interleaving and crash.
  \<^item> \<open>Work_*\<close>: the rest of \<open>internal/workitems\<close> and \<open>internal/executionprovenance\<close>.  \<open>Types\<close>, \<open>Db\<close>, \<open>Store\<close>, \<open>Requests\<close>, \<open>Tokens\<close> translate
    items, events, executions, execution requests and their claims, snapshots and run tokens; \<open>Step\<close> and \<open>Ops\<close> the step relation and its
    refinement; \<open>Machine\<close>, \<open>Lineage\<close>, \<open>Claims\<close>, \<open>Retry\<close>, \<open>Final\<close> the invariant and what stays; \<open>Props\<close> the properties.
  \<^item> \<open>Refresh_*\<close>: \<open>internal/auth/refreshstore\<close> under snapshot isolation: every transaction reads one earlier state of the history and
    writes the newest one, or fails when a row it writes has moved.
  \<^item> \<open>Decision_*\<close>: \<open>internal/decisions\<close>.  The rules by which attempts follow one another are a relation on logs
    (\<open>attempt_log\<close>) that the code's \<open>nextAttempt\<close> is shown to be.  The decisions run beside the approvals: the ledger a decision reads is
    one the receipt gate can reach.
  \<^item> \<open>Agent_Version\<close>, \<open>Agent_Types\<close>, \<open>Agent_Store\<close>, \<open>Agent_Bindings\<close>, \<open>Agent_Machine\<close>, \<open>Agent_Invariant\<close>, \<open>Agent_Props\<close>:
    \<open>internal/agentregistry\<close>.  \<open>registry_change\<close> is what a call can do, the locale \<open>registry_invariant\<close> what such changes keep.

  \<^bold>\<open>How the code is modelled.\<close>
  \<^item> A store is a record of its tables, a row a record with the columns of the schema, unique indexes and checks the guards of the
    inserts.  An operation is a function of its fault, its clock readings, the identifiers it draws, its input, the databases its
    unlocked reads see (arguments of their own: \<open>None\<close> is a read that fails) and the database it writes.  Everything under one
    advisory or row lock is one step.
  \<^item> \<open>tx_fault\<close> and \<open>stmt_fault\<close> are what pgx can answer: a begin, lock, statement or commit that fails, a statement whose answer is
    lost after it took effect.  A commit whose answer is lost leaves the tables \<open>TxOk\<close> leaves and has no value of its own.  Go errors are a datatype per package; the texts that wrap them are dropped.
  \<^item> Times are microseconds, as a TIMESTAMPTZ keeps them; \<open>Time.Sub\<close> saturates.  The rounding of \<open>Duration.Seconds\<close> to a float is not
    modelled.  Amounts, epochs and revisions are unbounded; \<open>int\<close> arithmetic whose overflow would matter is on 64-bit words
    (versions of the registry).  Strings are byte lists.
  \<^item> SHA-256, Ed25519, ULIDs and UUIDs, secrets, \<open>time.ParseDuration\<close> and what JSON decoding yields are parameters or inputs.  No
    property assumes that a hash is injective unless it says so.
  \<^item> A commerce operation reads the clock once.  The list route of work items omits the columns it joins from the provenance table.
    The walk over a lineage has the code's own limit of 10000 links as its fuel; it ends after no more links than the attempt number
    of the execution, so only an item with more attempts meets the limit, and that is an error as it is in the code.
    A decision has at most 100 attempts, as in the code.
  \<^item> The catalog of the registry reads one database; its other reads may each see a later one.

  \<^bold>\<open>What is shown.\<close>
  Each property is a theorem after a text that states it, with a witness that applies it to a run built in a \<open>Demo\<close> theory or to
  concrete values where it has hypotheses.  In groups:
  \<^item> safety of authority: fencing epochs and takeovers, one receipt per successful call, nobody decides his own request, a
    recorded permit was granted by another, scoped runs write only what their scope lists, a reused session is dead for good;
  \<^item> state machines: histories and journals replay to their rows, one open execution and one open request per item, exclusive claims,
    numbered attempts, chains of promotions and of tokens, versions retired for good;
  \<^item> money: the spending cap, one hold and one charge per invocation, conserved units;
  \<^item> repeated calls: the second call of a reservation, dispatch, append or seal answers the first and writes nothing;
  \<^item> reads: what a chain, a status, a resolved binding or a listing says is what the tables hold; round trips of encodings and
    versions; ranges as intervals.

  \<^bold>\<open>Not modelled.\<close>
  The handlers and the router (decoding, calling a store, encoding) except the gates and routes named above; the MCP tool
  descriptions; the OAuth server, federation and token verification (JWT and JWK libraries); the clients of Kubernetes, Argo, Temporal,
  Vault, S3, Loki, GitHub and other services, gitops reading (YAML of a checkout), deploy plans (text rewriting of manifests),
  operations templates; the evidence and review-receipt stores, whose identities are digests of canonical JSON; the outbox, alerts,
  audit log, usage ledger, domains, customer deletion and webhooks, which record or forward and decide nothing modelled here;
  principals, surface identities, delegation and governance checks, whose answers are inputs of the approvals.  Of the modelled stores:
  opening and closing pools, migrations, logging and metrics.
\<close>

end
